(* ===== verification/AgentPrelude.thy ===== *)
theory AgentPrelude
  imports Main "HOL-Library.Word" "HOL-Library.AList" "HOL-Library.Char_ord"
    "HOL-Library.List_Lexorder"
begin

text \<open>
  The prelude of the AgentID-Chain development: what the Go program takes from its language
  and standard library, and the lemmas every component shares.

  \<^item> machine integers: \<open>uint8\<close>, \<open>uint64\<close> and \<open>uint\<close> are words; \<open>int64\<close> results are
    written with the explicit wrap-around \<open>s64\<close>; Go's truncated remainder is \<open>go_rem\<close>;
  \<^item> \<open>time.Time\<close> is its number of nanoseconds since the Unix epoch (location and monotonic
    reading are not modelled), a linear order whose \<open>t < u\<close> is Go's \<open>t.Before(u)\<close>; a
    \<open>time.Duration\<close> is a number of nanoseconds;
  \<^item> Go errors are values of \<open>go_error\<close>: package sentinels by their message, \<open>fmt.Errorf\<close>
    by its constant text and the errors it wraps with \<open>%w\<close> (an error printed with \<open>%v\<close> is
    not wrapped and does not appear), and the pointer error types of the chain adapters;
  \<^item> strings are byte strings; \<open>strings.TrimSpace\<close>, \<open>hex.EncodeToString\<close> and decimal
    printing are modelled on bytes;
  \<^item> a Go map is an association list with distinct keys, read with \<open>map_of\<close> and written with
    \<open>AList.update\<close>.
\<close>

unbundle bit_operations_syntax

section \<open>Rule collections\<close>

named_theorems go_defs \<open>definitions of the standard-library model\<close>
named_theorems state_simps \<open>distinctness and case facts of the state constants\<close>

section \<open>Integers\<close>

type_synonym u8 = "8 word"
type_synonym u64 = "64 word"
type_synonym uint = "64 word"

definition s64 :: "int \<Rightarrow> int" where
  "s64 x = signed_take_bit 63 x"

lemma s64_id [simp]: "- (2 ^ 63) \<le> x \<Longrightarrow> x < 2 ^ 63 \<Longrightarrow> s64 x = x"
  unfolding s64_def by (rule signed_take_bit_int_eq_self) simp_all

lemma s64_range: "- (2 ^ 63) \<le> s64 x" "s64 x < 2 ^ 63"
  unfolding s64_def
  by (rule signed_take_bit_int_greater_eq_minus_exp, rule signed_take_bit_int_less_exp)

definition go_rem :: "int \<Rightarrow> int \<Rightarrow> int" where
  "go_rem a b = sgn a * (\<bar>a\<bar> mod \<bar>b\<bar>)"

lemma go_rem_nonneg: "0 \<le> a \<Longrightarrow> 0 < b \<Longrightarrow> go_rem a b = a mod b"
  by (cases "a = 0") (auto simp: go_rem_def)

text \<open>The mask \<open>uint64(1) << bit\<close>: a shift by 64 or more gives 0, as in Go.\<close>

definition bit_mask :: "uint \<Rightarrow> u64" where
  "bit_mask b = push_bit (unat b) 1"

lemma bit_bit_mask: "bit (bit_mask b) n \<longleftrightarrow> n = unat b \<and> n < 64"
  by (auto simp: bit_mask_def bit_exp_iff)

lemma word_zero_iff: "(w :: u64) = 0 \<longleftrightarrow> (\<forall>n < 64. \<not> bit w n)"
proof
  assume h: "\<forall>n < 64. \<not> bit w n"
  show "w = 0"
    by (rule bit_word_eqI) (use h in simp)
qed simp

lemma and_bit_mask_eq_0 [simp]:
  "unat b < 64 \<Longrightarrow> (bit_mask b AND w = 0) = (\<not> bit w (unat b))"
  "unat b < 64 \<Longrightarrow> (w AND bit_mask b = 0) = (\<not> bit w (unat b))"
  by (auto simp: word_zero_iff bit_and_iff bit_bit_mask)

lemma u_le_63: "(b :: uint) \<le> 63 \<longleftrightarrow> unat b < 64"
  by (simp add: word_le_nat_alt) linarith

lemma less_u_63 [simp]: "63 < (b :: uint) \<longleftrightarrow> 64 \<le> unat b"
  by (simp add: word_less_nat_alt) linarith

lemma unat_of_small: "n < 64 \<Longrightarrow> unat (of_nat n :: uint) = n"
  by (simp add: unat_of_nat)

lemma word_of_unat [simp]: "(of_nat (unat w) :: 'a::len word) = w"
  by simp

lemma all_small_uint: "(\<forall>n < 64. P n) \<longleftrightarrow> (\<forall>b :: uint. unat b < 64 \<longrightarrow> P (unat b))"
proof safe
  fix n :: nat
  assume "\<forall>b :: uint. unat b < 64 \<longrightarrow> P (unat b)" and n: "n < 64"
  then have "unat (of_nat n :: uint) < 64 \<longrightarrow> P (unat (of_nat n :: uint))" by blast
  with n show "P n" by (simp add: unat_of_small)
qed simp

lemma bit_small: "bit (w :: u64) n \<Longrightarrow> n < 64"
  using bit_imp_le_length [of w n] by simp

text \<open>\<open>w &^ max == 0\<close> says that the bits of \<open>w\<close> are bits of \<open>max\<close>.\<close>

lemma and_not_eq_0_iff:
  fixes w m :: u64
  shows "w AND NOT m = 0 \<longleftrightarrow> (\<forall>n < 64. bit w n \<longrightarrow> bit m n)"
  by (auto simp: word_zero_iff bit_and_iff bit_not_iff)

lemma and_not_eq_0_uint:
  fixes w m :: u64
  shows "(w AND NOT m = 0) = (\<forall>b :: uint. bit w (unat b) \<longrightarrow> unat b < 64 \<and> bit m (unat b))"
  unfolding and_not_eq_0_iff all_small_uint by (rule iff_allI) (auto dest: bit_small)

lemma and_neq_0_uint:
  fixes w m :: u64
  shows "(w AND m \<noteq> 0) = (\<exists>b :: uint. bit w (unat b) \<and> unat b < 64 \<and> bit m (unat b))"
proof -
  have "(w AND m = 0) = (\<forall>b :: uint. \<not> (bit w (unat b) \<and> unat b < 64 \<and> bit m (unat b)))"
    unfolding word_zero_iff bit_and_iff all_small_uint by (rule iff_allI) auto
  then show ?thesis by auto
qed

section \<open>Time\<close>

datatype time = Time (unix_nano: int)

instantiation time :: linorder
begin
definition less_eq_time :: "time \<Rightarrow> time \<Rightarrow> bool" where
  "less_eq_time t u \<longleftrightarrow> unix_nano t \<le> unix_nano u"
definition less_time :: "time \<Rightarrow> time \<Rightarrow> bool" where
  "less_time t u \<longleftrightarrow> unix_nano t < unix_nano u"
instance
  by standard (auto simp: less_eq_time_def less_time_def time.expand)
end

type_synonym duration = int

definition zero_time :: time where
  "zero_time = Time (- 62135596800000000000)"

definition is_zero_time :: "time \<Rightarrow> bool" where
  "is_zero_time t \<longleftrightarrow> t = zero_time"

definition time_add :: "time \<Rightarrow> duration \<Rightarrow> time" where
  "time_add t d = Time (unix_nano t + d)"

text \<open>\<open>Time.Sub\<close> saturates at the bounds of an \<open>int64\<close> duration.\<close>

definition time_sub :: "time \<Rightarrow> time \<Rightarrow> duration" where
  "time_sub t u =
     (let d = unix_nano t - unix_nano u
      in if 2 ^ 63 - 1 < d then 2 ^ 63 - 1 else if d < - (2 ^ 63) then - (2 ^ 63) else d)"

text \<open>\<open>Time.Unix\<close>: the seconds, rounded down.\<close>

definition unix_sec :: "time \<Rightarrow> int" where
  "unix_sec t = unix_nano t div 1000000000"

abbreviation second :: duration where "second \<equiv> 1000000000"
abbreviation minute :: duration where "minute \<equiv> 60 * second"
abbreviation hour :: duration where "hour \<equiv> 60 * minute"

lemma time_add_less_iff: "t < time_add u d \<longleftrightarrow> unix_nano t < unix_nano u + d"
  by (simp add: less_time_def time_add_def)

lemma unix_nano_time_add [simp]: "unix_nano (time_add t d) = unix_nano t + d"
  by (simp add: time_add_def)

lemma time_sub_pos_iff: "0 < time_sub t u \<longleftrightarrow> u < t"
  by (auto simp: time_sub_def less_time_def Let_def)

lemma time_sub_exact:
  "\<bar>unix_nano t - unix_nano u\<bar> < 2 ^ 63 \<Longrightarrow> time_sub t u = unix_nano t - unix_nano u"
  by (auto simp: time_sub_def Let_def)

section \<open>Errors\<close>

datatype go_error =
    Sentinel string
  | Errorf string "go_error list"
  | Violation string string
  | ErrChainUnavailable string
  | ErrAgentNotFoundOnchain string
  | ErrTxFailed string

text \<open>\<open>errors.Is\<close>: the error itself or one it wraps.\<close>

fun errors_is :: "go_error \<Rightarrow> go_error \<Rightarrow> bool" where
  "errors_is (Errorf m ws) t = (Errorf m ws = t \<or> list_ex (\<lambda>w. errors_is w t) ws)"
| "errors_is e t = (e = t)"

lemma errors_is_refl [simp]: "errors_is e e"
  by (cases e) simp_all

text \<open>A call that panics has no result.\<close>

datatype 'a outcome = Return 'a | Panic string

section \<open>Strings\<close>

definition is_hex_char :: "char \<Rightarrow> bool" where
  "is_hex_char c \<longleftrightarrow> c \<in> set ''0123456789abcdefABCDEF''"

text \<open>\<open>unicode.IsSpace\<close> on UTF-8 bytes, and \<open>strings.TrimSpace\<close>.\<close>

definition space_runes :: "string list" where
  "space_runes =
     [[CHR 0x09], [CHR 0x0A], [CHR 0x0B], [CHR 0x0C], [CHR 0x0D], [CHR 0x20],
      [CHR 0xC2, CHR 0x85], [CHR 0xC2, CHR 0xA0], [CHR 0xE1, CHR 0x9A, CHR 0x80],
      [CHR 0xE2, CHR 0x80, CHR 0x80], [CHR 0xE2, CHR 0x80, CHR 0x81],
      [CHR 0xE2, CHR 0x80, CHR 0x82], [CHR 0xE2, CHR 0x80, CHR 0x83],
      [CHR 0xE2, CHR 0x80, CHR 0x84], [CHR 0xE2, CHR 0x80, CHR 0x85],
      [CHR 0xE2, CHR 0x80, CHR 0x86], [CHR 0xE2, CHR 0x80, CHR 0x87],
      [CHR 0xE2, CHR 0x80, CHR 0x88], [CHR 0xE2, CHR 0x80, CHR 0x89],
      [CHR 0xE2, CHR 0x80, CHR 0x8A], [CHR 0xE2, CHR 0x80, CHR 0xA8],
      [CHR 0xE2, CHR 0x80, CHR 0xA9], [CHR 0xE2, CHR 0x80, CHR 0xAF],
      [CHR 0xE2, CHR 0x81, CHR 0x9F], [CHR 0xE3, CHR 0x80, CHR 0x80]]"

definition starts_with :: "string \<Rightarrow> string \<Rightarrow> bool" where
  "starts_with p s \<longleftrightarrow> take (length p) s = p"

function strip_front :: "string list \<Rightarrow> string \<Rightarrow> string" where
  "strip_front ps s =
     (case find (\<lambda>p. p \<noteq> [] \<and> s \<noteq> [] \<and> starts_with p s) ps of
        None \<Rightarrow> s
      | Some p \<Rightarrow> strip_front ps (drop (length p) s))"
  by pat_completeness auto
termination
  by (relation "measure (\<lambda>(ps, s). length s)") (auto simp: find_Some_iff)

declare strip_front.simps [simp del]

definition trim_space :: "string \<Rightarrow> string" where
  "trim_space s =
     rev (strip_front (map rev space_runes) (rev (strip_front space_runes s)))"

lemma strip_front_Nil [simp]: "strip_front ps [] = []"
proof -
  have "find (\<lambda>p. p \<noteq> [] \<and> [] \<noteq> ([] :: string) \<and> starts_with p []) ps = None"
    by (simp add: find_None_iff)
  then show ?thesis by (subst strip_front.simps) simp
qed

lemma strip_front_stop:
  "find (\<lambda>p. p \<noteq> [] \<and> s \<noteq> [] \<and> starts_with p s) ps = None \<Longrightarrow> strip_front ps s = s"
  by (subst strip_front.simps) simp

text \<open>A string whose first byte starts no space rune is not blank.\<close>

lemma trim_space_Nil [simp]: "trim_space [] = []"
  by (simp add: trim_space_def)

definition blank_byte :: "char \<Rightarrow> bool" where
  "blank_byte c \<longleftrightarrow> c \<in> set (concat space_runes)"

lemma starts_with_head: "p \<noteq> [] \<Longrightarrow> starts_with p (c # s) \<Longrightarrow> hd p = c"
  by (cases p) (auto simp: starts_with_def)

lemma strip_front_head:
  assumes "\<And>p. p \<in> set ps \<Longrightarrow> p \<noteq> [] \<Longrightarrow> hd p \<noteq> c"
  shows "strip_front ps (c # s) = c # s"
  by (rule strip_front_stop)
    (use assms starts_with_head in \<open>fastforce simp: find_None_iff\<close>)

lemma space_runes_no_blank_start:
  assumes "\<not> blank_byte c" and "p \<in> set space_runes" and "p \<noteq> []"
  shows "hd p \<noteq> c" and "last p \<noteq> c"
  using assms by (auto simp: blank_byte_def)

lemma strip_front_nonempty:
  assumes c: "\<not> blank_byte c" and "c \<in> set s"
    and ps: "\<And>p. p \<in> set ps \<Longrightarrow> c \<notin> set p"
  shows "c \<in> set (strip_front ps s)"
  using \<open>c \<in> set s\<close>
proof (induction "length s" arbitrary: s rule: less_induct)
  case less
  show ?case
  proof (cases "find (\<lambda>p. p \<noteq> [] \<and> s \<noteq> [] \<and> starts_with p s) ps")
    case None
    then show ?thesis using less.prems by (simp add: strip_front_stop)
  next
    case (Some p)
    then have p: "p \<in> set ps" "p \<noteq> []" "s \<noteq> []" "take (length p) s = p"
      by (auto simp: find_Some_iff starts_with_def in_set_conv_nth)
    have "c \<in> set (take (length p) s) \<union> set (drop (length p) s)"
      using less.prems by (metis append_take_drop_id set_append)
    then have "c \<in> set (drop (length p) s)"
      using ps [OF p(1)] p(4) by auto
    with less.hyps [of "drop (length p) s"] p Some show ?thesis
      by (subst strip_front.simps) auto
  qed
qed

text \<open>A string with a byte of no space rune is not blank.\<close>

lemma trim_space_not_blank: "\<not> blank_byte c \<Longrightarrow> c \<in> set s \<Longrightarrow> trim_space s \<noteq> []"
proof -
  assume c: "\<not> blank_byte c" and s: "c \<in> set s"
  then have n: "\<And>p. p \<in> set space_runes \<Longrightarrow> c \<notin> set p"
    by (auto simp: blank_byte_def)
  from strip_front_nonempty [OF c s n]
  have "c \<in> set (rev (strip_front space_runes s))" by simp
  moreover have "\<And>p. p \<in> set (map rev space_runes) \<Longrightarrow> c \<notin> set p"
    using n by auto
  ultimately have "c \<in> set (strip_front (map rev space_runes) (rev (strip_front space_runes s)))"
    by (rule strip_front_nonempty [OF c])
  then show "trim_space s \<noteq> []" by (auto simp: trim_space_def)
qed

lemma hex_not_blank: "is_hex_char c \<Longrightarrow> \<not> blank_byte c"
  by (auto simp: is_hex_char_def blank_byte_def space_runes_def)

text \<open>Decimal and hexadecimal printing.\<close>

definition digit_char :: "nat \<Rightarrow> char" where
  "digit_char d = ''0123456789abcdef'' ! (d mod 16)"

fun dec_of_nat :: "nat \<Rightarrow> string" where
  "dec_of_nat n = (if n < 10 then [digit_char n] else dec_of_nat (n div 10) @ [digit_char (n mod 10)])"

declare dec_of_nat.simps [simp del]

definition dec_of_int :: "int \<Rightarrow> string" where
  "dec_of_int i = (if i < 0 then ''-'' @ dec_of_nat (nat (- i)) else dec_of_nat (nat i))"

definition hex_byte :: "char \<Rightarrow> string" where
  "hex_byte c = [digit_char (of_char c div 16), digit_char (of_char c mod 16)]"

definition hex_encode :: "string \<Rightarrow> string" where
  "hex_encode bs = concat (map hex_byte bs)"

text \<open>\<open>hex.DecodeString\<close>, \<open>None\<close> where Go reports an error.\<close>

definition hex_val :: "char \<Rightarrow> nat" where
  "hex_val c =
     (let n = of_char c in
      if 48 \<le> n \<and> n \<le> 57 then n - 48
      else if 97 \<le> n \<and> n \<le> 102 then n - 87 else n - 55)"

fun hex_decode :: "string \<Rightarrow> string option" where
  "hex_decode [] = Some []"
| "hex_decode [c] = None"
| "hex_decode (a # b # s) =
     (if is_hex_char a \<and> is_hex_char b
      then map_option (Cons (char_of (16 * hex_val a + hex_val b))) (hex_decode s)
      else None)"

lemma hex_decode_Some:
  "hex_decode s = Some r \<Longrightarrow> list_all is_hex_char s \<and> length s = 2 * length r"
  by (induction s arbitrary: r rule: hex_decode.induct) (auto split: if_splits)

lemma hex_decode_total:
  "list_all is_hex_char s \<Longrightarrow> even (length s) \<Longrightarrow> \<exists>r. hex_decode s = Some r"
  by (induction s rule: hex_decode.induct) auto

lemma is_hex_digit_char [simp]: "is_hex_char (digit_char d)"
proof -
  have "d mod 16 < length ''0123456789abcdef''" by simp
  then have "digit_char d \<in> set ''0123456789abcdef''"
    unfolding digit_char_def by (rule nth_mem)
  then show ?thesis by (auto simp: is_hex_char_def)
qed

lemma hex_encode_hex: "list_all is_hex_char (hex_encode bs)"
  by (induction bs) (auto simp: hex_encode_def hex_byte_def)

lemma length_hex_encode [simp]: "length (hex_encode bs) = 2 * length bs"
  by (induction bs) (auto simp: hex_encode_def hex_byte_def)

lemma hex_encode_Nil_iff [simp]: "hex_encode bs = [] \<longleftrightarrow> bs = []"
  using length_hex_encode [of bs] by (metis length_0_conv mult_is_0 zero_neq_numeral)

section \<open>Association lists as Go maps\<close>

lemma map_of_update [simp]: "map_of (AList.update k v al) = (map_of al)(k \<mapsto> v)"
  by (simp add: update_conv')

lemma distinct_keys_update [simp]:
  "distinct (map fst al) \<Longrightarrow> distinct (map fst (AList.update k v al))"
  by (rule distinct_update)

lemma map_of_delete [simp]: "map_of (AList.delete k al) = (map_of al)(k := None)"
  by (simp add: delete_conv')

lemma list_all_update:
  "list_all P al \<Longrightarrow> P (k, v) \<Longrightarrow> list_all P (AList.update k v al)"
  by (induction al) auto

lemma Inl_neq_Inr_case:
  "(case r of Inl e \<Rightarrow> Inl e | Inr v \<Rightarrow> f v) = Inr y \<longleftrightarrow> (\<exists>v. r = Inr v \<and> f v = Inr y)"
  by (cases r) auto

end
