(* ===== verification/DomainAgent.thy ===== *)
theory DomainAgent
  imports AgentPrelude
begin

text \<open>
  The agent entity of \<open>src/internal/domain\<close>: \<open>agent.go\<close> (UUID, level, owner, the agent record
  and its methods), \<open>state.go\<close> (the state table) and \<open>agent_status.go\<close> (the business names of
  the states). A method with a pointer receiver that returns an error is a function into
  \<open>go_error + agent\<close>: \<open>Inr\<close> is the agent after the call, and after \<open>Inl\<close> the agent is
  unchanged, since every method checks before it writes. \<open>agent_step\<close> is one successful
  method call; \<open>agent_reach\<close> is a life of such calls from \<open>NewAgent\<close>.
\<close>

section \<open>Errors\<close>

abbreviation ErrInvalidUUID :: go_error where
  "ErrInvalidUUID \<equiv> Sentinel ''domain: invalid UUID''"
abbreviation ErrInvalidOwner :: go_error where
  "ErrInvalidOwner \<equiv> Sentinel ''domain: invalid owner''"
abbreviation ErrInvalidLevel :: go_error where
  "ErrInvalidLevel \<equiv> Sentinel ''domain: invalid level''"
abbreviation ErrInvalidTransition :: go_error where
  "ErrInvalidTransition \<equiv> Sentinel ''domain: invalid state transition''"
abbreviation ErrPermissionExceedsLevel :: go_error where
  "ErrPermissionExceedsLevel \<equiv> Sentinel ''domain: permission exceeds level''"

section \<open>UUID\<close>

text \<open>
  The pattern is read by consuming \<open>n\<close> hex digits at a time; a hyphen is no hex digit, so the
  optional hyphens never need backtracking.
\<close>

definition take_hex :: "nat \<Rightarrow> string \<Rightarrow> string option" where
  "take_hex n s =
     (if n \<le> length s \<and> list_all is_hex_char (take n s) then Some (drop n s) else None)"

fun skip_dash :: "string \<Rightarrow> string" where
  "skip_dash [] = []"
| "skip_dash (c # s) = (if c = CHR ''-'' then s else c # s)"

fun match_groups :: "nat list \<Rightarrow> string \<Rightarrow> bool" where
  "match_groups [] s = (s = [])"
| "match_groups [n] s = (take_hex n s = Some [])"
| "match_groups (n # ns) s =
     (case take_hex n s of None \<Rightarrow> False | Some r \<Rightarrow> match_groups ns (skip_dash r))"

definition uuidPattern :: "string \<Rightarrow> bool" where
  "uuidPattern s \<longleftrightarrow> match_groups [8, 4, 4, 4, 12] s \<or> match_groups [32] s"

definition UUID_IsZero :: "string \<Rightarrow> bool" where
  "UUID_IsZero u \<longleftrightarrow> trim_space u = []"

definition UUID_Validate :: "string \<Rightarrow> go_error option" where
  "UUID_Validate u =
     (if UUID_IsZero u then Some ErrInvalidUUID
      else if \<not> uuidPattern u then Some (Errorf ''%w: %s'' [ErrInvalidUUID])
      else None)"

definition UUID_Short :: "string \<Rightarrow> string" where
  "UUID_Short u =
     (let s = filter (\<lambda>c. c \<noteq> CHR ''-'') u in if 8 \<le> length s then take 8 s else s)"

text \<open>SHA-256 is a parameter.\<close>

definition UUID_Fingerprint :: "(string \<Rightarrow> string) \<Rightarrow> string \<Rightarrow> string" where
  "UUID_Fingerprint sha256 u = hex_encode (take 8 (sha256 u))"

section \<open>Level\<close>

definition LevelTest :: u8 where [state_simps]: "LevelTest = 0"
definition LevelBasic :: u8 where [state_simps]: "LevelBasic = 1"
definition LevelAdvanced :: u8 where [state_simps]: "LevelAdvanced = 2"
definition LevelPro :: u8 where [state_simps]: "LevelPro = 3"
definition LevelReserved4 :: u8 where [state_simps]: "LevelReserved4 = 4"
definition LevelReserved5 :: u8 where [state_simps]: "LevelReserved5 = 5"
definition LevelReserved6 :: u8 where [state_simps]: "LevelReserved6 = 6"
definition LevelReserved7 :: u8 where [state_simps]: "LevelReserved7 = 7"

definition MaxLevel :: u8 where [state_simps]: "MaxLevel = LevelReserved7"

definition Level_IsValid :: "u8 \<Rightarrow> bool" where
  "Level_IsValid l \<longleftrightarrow> l \<le> MaxLevel"

definition Level_String :: "u8 \<Rightarrow> string" where
  "Level_String l =
     (if l = LevelTest then ''test''
      else if l = LevelBasic then ''basic''
      else if l = LevelAdvanced then ''advanced''
      else if l = LevelPro then ''pro''
      else if l = LevelReserved4 then ''reserved4''
      else if l = LevelReserved5 then ''reserved5''
      else if l = LevelReserved6 then ''reserved6''
      else if l = LevelReserved7 then ''platform''
      else ''unknown('' @ dec_of_nat (unat l) @ '')'')"

text \<open>The shift amount is computed in \<open>uint8\<close>; the shift by 64 or more gives 0, and 0 - 1 wraps.\<close>

definition DefaultMaxPermissions :: "u8 \<Rightarrow> u64" where
  "DefaultMaxPermissions l =
     (if MaxLevel < l then 0 else push_bit (unat (l * 16 + 16)) 1 - 1)"

section \<open>Owner\<close>

definition owner_char :: "char \<Rightarrow> bool" where
  "owner_char c \<longleftrightarrow> c \<in> set ''abcdefghijklmnopqrstuvwxyz0123456789_-''"

definition ownerPattern :: "string \<Rightarrow> bool" where
  "ownerPattern s \<longleftrightarrow> 3 \<le> length s \<and> length s \<le> 64 \<and> list_all owner_char s"

definition Owner_Validate :: "string \<Rightarrow> go_error option" where
  "Owner_Validate ow =
     (if \<not> ownerPattern ow then Some (Errorf ''%w: %s'' [ErrInvalidOwner]) else None)"

section \<open>States\<close>

definition StateRegistered :: string where "StateRegistered = ''registered''"
definition StateActive :: string where "StateActive = ''active''"
definition StateBanned :: string where "StateBanned = ''banned''"
definition StateUnregistered :: string where "StateUnregistered = ''unregistered''"

lemma states_distinct [state_simps, simp]:
  "StateRegistered \<noteq> StateActive" "StateRegistered \<noteq> StateBanned"
  "StateRegistered \<noteq> StateUnregistered" "StateActive \<noteq> StateRegistered"
  "StateActive \<noteq> StateBanned" "StateActive \<noteq> StateUnregistered"
  "StateBanned \<noteq> StateRegistered" "StateBanned \<noteq> StateActive"
  "StateBanned \<noteq> StateUnregistered" "StateUnregistered \<noteq> StateRegistered"
  "StateUnregistered \<noteq> StateActive" "StateUnregistered \<noteq> StateBanned"
  by (simp_all add: StateRegistered_def StateActive_def StateBanned_def StateUnregistered_def)

lemma states_not_empty [state_simps, simp]:
  "StateRegistered \<noteq> []" "StateActive \<noteq> []" "StateBanned \<noteq> []" "StateUnregistered \<noteq> []"
  "[] \<noteq> StateRegistered" "[] \<noteq> StateActive" "[] \<noteq> StateBanned" "[] \<noteq> StateUnregistered"
  by (simp_all add: StateRegistered_def StateActive_def StateBanned_def StateUnregistered_def)

definition State_IsValid :: "string \<Rightarrow> bool" where
  "State_IsValid s \<longleftrightarrow>
     s = StateRegistered \<or> s = StateActive \<or> s = StateBanned \<or> s = StateUnregistered"

definition State_IsTerminal :: "string \<Rightarrow> bool" where
  "State_IsTerminal s \<longleftrightarrow> s = StateUnregistered"

definition StateTransition :: "(string \<times> (string \<times> bool) list) list" where
  "StateTransition =
     [(StateRegistered,
        [(StateActive, True), (StateBanned, True), (StateUnregistered, True)]),
      (StateActive, [(StateBanned, True), (StateUnregistered, True)]),
      (StateBanned, [(StateActive, True), (StateUnregistered, True)]),
      (StateUnregistered, [])]"

text \<open>Reading a missing key of a Go map gives the zero value: a nil map, or false.\<close>

definition table_get :: "('a \<times> ('a \<times> bool) list) list \<Rightarrow> 'a \<Rightarrow> 'a \<Rightarrow> bool" where
  "table_get t a b =
     (case map_of t a of None \<Rightarrow> False
      | Some row \<Rightarrow> (case map_of row b of None \<Rightarrow> False | Some v \<Rightarrow> v))"

definition CanTransition :: "string \<Rightarrow> string \<Rightarrow> bool" where
  "CanTransition fr to =
     (if \<not> State_IsValid fr \<or> \<not> State_IsValid to then False
      else table_get StateTransition fr to)"

definition ValidateTransition :: "string \<Rightarrow> string \<Rightarrow> go_error option" where
  "ValidateTransition fr to =
     (if \<not> CanTransition fr to then Some (Errorf ''%w: %s -> %s'' [ErrInvalidTransition])
      else None)"

section \<open>Business status\<close>

definition AgentStatusPending :: string where "AgentStatusPending = ''pending''"
definition AgentStatusActive :: string where "AgentStatusActive = ''active''"
definition AgentStatusBanned :: string where "AgentStatusBanned = ''banned''"
definition AgentStatusRevoked :: string where "AgentStatusRevoked = ''revoked''"

lemma statuses_distinct [state_simps, simp]:
  "AgentStatusPending \<noteq> AgentStatusActive" "AgentStatusPending \<noteq> AgentStatusBanned"
  "AgentStatusPending \<noteq> AgentStatusRevoked" "AgentStatusActive \<noteq> AgentStatusPending"
  "AgentStatusActive \<noteq> AgentStatusBanned" "AgentStatusActive \<noteq> AgentStatusRevoked"
  "AgentStatusBanned \<noteq> AgentStatusPending" "AgentStatusBanned \<noteq> AgentStatusActive"
  "AgentStatusBanned \<noteq> AgentStatusRevoked" "AgentStatusRevoked \<noteq> AgentStatusPending"
  "AgentStatusRevoked \<noteq> AgentStatusActive" "AgentStatusRevoked \<noteq> AgentStatusBanned"
  by (simp_all add: AgentStatusPending_def AgentStatusActive_def AgentStatusBanned_def
      AgentStatusRevoked_def)

definition toAgentState :: "string \<Rightarrow> string" where
  "toAgentState s =
     (if s = AgentStatusPending then StateRegistered
      else if s = AgentStatusActive then StateActive
      else if s = AgentStatusBanned then StateBanned
      else if s = AgentStatusRevoked then StateUnregistered
      else [])"

definition toStatus :: "string \<Rightarrow> string" where
  "toStatus s =
     (if s = StateRegistered then AgentStatusPending
      else if s = StateActive then AgentStatusActive
      else if s = StateBanned then AgentStatusBanned
      else if s = StateUnregistered then AgentStatusRevoked
      else [])"

definition allowedStatusTransitions :: "(string \<times> (string \<times> bool) list) list" where
  "allowedStatusTransitions =
     [(AgentStatusPending,
        [(AgentStatusActive, True), (AgentStatusRevoked, True), (AgentStatusBanned, True)]),
      (AgentStatusActive, [(AgentStatusBanned, True), (AgentStatusRevoked, True)]),
      (AgentStatusBanned, [(AgentStatusActive, True), (AgentStatusRevoked, True)]),
      (AgentStatusRevoked, [])]"

definition CanTransitionTo :: "string \<Rightarrow> string \<Rightarrow> bool" where
  "CanTransitionTo fr to =
     (let fromState = toAgentState fr; toState = toAgentState to
      in if fromState = [] \<or> toState = [] then False
         else case map_of allowedStatusTransitions fr of
             Some row \<Rightarrow>
               (case map_of row (toStatus toState) of
                  Some allowed \<Rightarrow> allowed
                | None \<Rightarrow> CanTransition fromState toState)
           | None \<Rightarrow> CanTransition fromState toState)"

text \<open>Go iterates a map in an unspecified order; the list below is one such order.\<close>

definition AllowedTransitions :: "string \<Rightarrow> string list" where
  "AllowedTransitions fr =
     (case map_of allowedStatusTransitions fr of None \<Rightarrow> [] | Some row \<Rightarrow> map fst row)"

definition Status_IsTerminal :: "string \<Rightarrow> bool" where
  "Status_IsTerminal s \<longleftrightarrow> s = AgentStatusRevoked"

section \<open>The agent\<close>

text \<open>
  \<open>TempPermissions\<close> is a Go map from bit to expiry, an association list; a nil pointer to a
  time is \<open>None\<close>.
\<close>

record agent =
  ag_UUID :: string
  ag_Owner :: string
  ag_Level :: u8
  ag_State :: string
  ag_BanReason :: string
  ag_PublicKey :: string
  ag_TxHash :: string
  ag_Signature :: string
  ag_Permissions :: u64
  ag_RegisteredAt :: time
  ag_UpdatedAt :: time
  ag_BannedAt :: "time option"
  ag_ExpiresAt :: "time option"
  ag_LastUpgradeBy :: string
  ag_TempPermissions :: "(uint \<times> time) list"

definition NewAgent :: "string \<Rightarrow> string \<Rightarrow> u8 \<Rightarrow> string \<Rightarrow> time \<Rightarrow> go_error + agent" where
  "NewAgent uuid owner level publicKey now =
     (case UUID_Validate uuid of Some err \<Rightarrow> Inl err | None \<Rightarrow>
      case Owner_Validate owner of Some err \<Rightarrow> Inl err | None \<Rightarrow>
      if \<not> Level_IsValid level then Inl (Errorf ''%w: %d'' [ErrInvalidLevel])
      else if publicKey = [] then Inl (Sentinel ''domain: empty public key'')
      else Inr \<lparr> ag_UUID = uuid, ag_Owner = owner, ag_Level = level,
                 ag_State = StateRegistered, ag_BanReason = [],
                 ag_PublicKey = publicKey, ag_TxHash = [], ag_Signature = [],
                 ag_Permissions = 0, ag_RegisteredAt = now, ag_UpdatedAt = now,
                 ag_BannedAt = None, ag_ExpiresAt = None, ag_LastUpgradeBy = [],
                 ag_TempPermissions = [] \<rparr>)"

definition Agent_Activate :: "agent \<Rightarrow> time \<Rightarrow> go_error + agent" where
  "Agent_Activate a now =
     (if ag_State a \<noteq> StateRegistered
      then Inl (Errorf ''%w: %s -> active'' [ErrInvalidTransition])
      else Inr (a \<lparr> ag_State := StateActive, ag_UpdatedAt := now \<rparr>))"

definition Agent_Ban :: "agent \<Rightarrow> string \<Rightarrow> time \<Rightarrow> go_error + agent" where
  "Agent_Ban a reason now =
     (if ag_State a = StateBanned \<or> ag_State a = StateUnregistered
      then Inl (Errorf ''%w: %s -> banned'' [ErrInvalidTransition])
      else if reason = [] then Inl (Sentinel ''domain: empty ban reason'')
      else Inr (a \<lparr> ag_State := StateBanned, ag_BanReason := reason,
                    ag_BannedAt := Some now, ag_UpdatedAt := now \<rparr>))"

definition Agent_Unban :: "agent \<Rightarrow> time \<Rightarrow> go_error + agent" where
  "Agent_Unban a now =
     (if ag_State a \<noteq> StateBanned
      then Inl (Errorf ''%w: %s -> active'' [ErrInvalidTransition])
      else Inr (a \<lparr> ag_State := StateActive, ag_BanReason := [],
                    ag_BannedAt := None, ag_UpdatedAt := now \<rparr>))"

definition Agent_Upgrade :: "agent \<Rightarrow> u8 \<Rightarrow> time \<Rightarrow> go_error + agent" where
  "Agent_Upgrade a newLevel now =
     (if \<not> Level_IsValid newLevel then Inl (Errorf ''%w: %d'' [ErrInvalidLevel])
      else if newLevel \<le> ag_Level a then Inl (Errorf ''%w: %d -> %d'' [ErrInvalidLevel])
      else if newLevel \<noteq> ag_Level a + 1
        then Inl (Errorf ''%w: must upgrade by exactly 1 level'' [ErrInvalidLevel])
      else Inr (a \<lparr> ag_Level := newLevel, ag_UpdatedAt := now \<rparr>))"

definition Agent_Grant :: "agent \<Rightarrow> uint \<Rightarrow> go_error + agent" where
  "Agent_Grant a b =
     (if 63 < b then Inl (Sentinel ''domain: bit out of range [0,63]'')
      else if bit_mask b AND DefaultMaxPermissions (ag_Level a) = 0
        then Inl (Errorf ''%w: bit %d exceeds level %s'' [ErrPermissionExceedsLevel])
      else Inr (a \<lparr> ag_Permissions := ag_Permissions a OR bit_mask b \<rparr>))"

definition Agent_Revoke :: "agent \<Rightarrow> uint \<Rightarrow> go_error + agent" where
  "Agent_Revoke a b =
     (if 63 < b then Inl (Sentinel ''domain: bit out of range [0,63]'')
      else Inr (a \<lparr> ag_Permissions := ag_Permissions a AND NOT (bit_mask b) \<rparr>))"

definition Agent_HasPermission :: "agent \<Rightarrow> uint \<Rightarrow> bool" where
  "Agent_HasPermission a b =
     (if 63 < b then False else ag_Permissions a AND bit_mask b \<noteq> 0)"

definition Agent_IsActive :: "agent \<Rightarrow> time \<Rightarrow> bool" where
  "Agent_IsActive a now =
     (if ag_State a \<noteq> StateActive then False
      else case ag_ExpiresAt a of Some e \<Rightarrow> \<not> e < now | None \<Rightarrow> True)"

section \<open>Lemmas on levels and permission bits\<close>

lemma DefaultMaxPermissions_mask:
  "l \<le> 7 \<Longrightarrow> DefaultMaxPermissions l = mask (16 * unat l + 16)"
proof -
  assume l: "l \<le> 7"
  then have "unat l \<le> 7" by (simp add: word_le_nat_alt)
  then have "unat (l * 16 + 16) = 16 * unat l + 16"
    by (simp add: unat_word_ariths)
  moreover have "\<not> 7 < l" using l by (simp add: not_less)
  ultimately show ?thesis
    by (simp add: DefaultMaxPermissions_def state_simps mask_eq_exp_minus_1)
qed

lemma bit_DefaultMaxPermissions:
  "bit (DefaultMaxPermissions l) n \<longleftrightarrow> unat l \<le> 7 \<and> n < 64 \<and> n < 16 * (unat l + 1)"
proof (cases "l \<le> 7")
  case True
  then show ?thesis
    by (auto simp: DefaultMaxPermissions_mask bit_mask_iff word_le_nat_alt)
next
  case False
  then show ?thesis
    by (simp add: DefaultMaxPermissions_def state_simps not_le word_le_nat_alt word_less_nat_alt)
qed

lemma Level_IsValid_iff: "Level_IsValid l \<longleftrightarrow> unat l \<le> 7"
  by (simp add: Level_IsValid_def state_simps word_le_nat_alt)

lemma bit_OR_mask [simp]: "bit (w OR bit_mask b) n \<longleftrightarrow> bit w n \<or> n = unat b \<and> n < 64"
  by (auto simp: bit_or_iff bit_bit_mask)

lemma bit_AND_NOT_mask [simp]:
  "bit (w AND NOT (bit_mask b)) n \<longleftrightarrow> bit w n \<and> n \<noteq> unat b"
  using bit_imp_le_length [of w n]
  by (auto simp: bit_and_iff bit_not_iff bit_bit_mask)

lemma HasPermission_bit: "Agent_HasPermission a b \<longleftrightarrow> bit (ag_Permissions a) (unat b)"
proof (cases "unat b < 64")
  case True
  then show ?thesis by (simp add: Agent_HasPermission_def)
next
  case False
  then have "\<not> bit (ag_Permissions a) (unat b)"
    using bit_imp_le_length [of "ag_Permissions a" "unat b"] by auto
  with False show ?thesis by (simp add: Agent_HasPermission_def)
qed

section \<open>Lemmas on the state tables\<close>

lemma CanTransition_iff:
  "CanTransition fr to \<longleftrightarrow>
     fr = StateRegistered \<and> to \<in> {StateActive, StateBanned, StateUnregistered}
   \<or> fr = StateActive \<and> to \<in> {StateBanned, StateUnregistered}
   \<or> fr = StateBanned \<and> to \<in> {StateActive, StateUnregistered}"
  by (auto simp: CanTransition_def table_get_def StateTransition_def State_IsValid_def)

lemma CanTransition_unregistered [simp]: "\<not> CanTransition StateUnregistered to"
  by (simp add: CanTransition_iff)

lemma toStatus_toAgentState:
  "toAgentState s \<noteq> [] \<Longrightarrow> toStatus (toAgentState s) = s"
  by (auto simp: toAgentState_def toStatus_def split: if_splits)

lemma toAgentState_toStatus:
  "State_IsValid s \<Longrightarrow> toAgentState (toStatus s) = s"
  by (auto simp: toAgentState_def toStatus_def State_IsValid_def)

section \<open>The life of an agent\<close>

text \<open>
  One successful call of a method of \<open>Agent\<close>. Nothing in \<open>agent.go\<close> enters
  \<open>StateUnregistered\<close>: the backends do.
\<close>

inductive agent_step :: "agent \<Rightarrow> agent \<Rightarrow> bool" where
  activate: "Agent_Activate a now = Inr b \<Longrightarrow> agent_step a b"
| ban: "Agent_Ban a reason now = Inr b \<Longrightarrow> agent_step a b"
| unban: "Agent_Unban a now = Inr b \<Longrightarrow> agent_step a b"
| upgrade: "Agent_Upgrade a newLevel now = Inr b \<Longrightarrow> agent_step a b"
| grant: "Agent_Grant a bt = Inr b \<Longrightarrow> agent_step a b"
| revoke: "Agent_Revoke a bt = Inr b \<Longrightarrow> agent_step a b"

inductive agent_reach :: "agent \<Rightarrow> bool" where
  new: "NewAgent uuid owner level pk now = Inr a \<Longrightarrow> agent_reach a"
| step: "agent_reach a \<Longrightarrow> agent_step a b \<Longrightarrow> agent_reach b"

text \<open>The well-formedness that \<open>NewAgent\<close> establishes and every method keeps.\<close>

definition perms_within :: "agent \<Rightarrow> bool" where
  "perms_within a \<longleftrightarrow> ag_Permissions a AND NOT (DefaultMaxPermissions (ag_Level a)) = 0"

definition agent_ok :: "agent \<Rightarrow> bool" where
  "agent_ok a \<longleftrightarrow>
     UUID_Validate (ag_UUID a) = None \<and> Owner_Validate (ag_Owner a) = None
   \<and> Level_IsValid (ag_Level a) \<and> ag_PublicKey a \<noteq> []
   \<and> ag_State a \<in> {StateRegistered, StateActive, StateBanned}
   \<and> (ag_State a = StateBanned \<longleftrightarrow> ag_BannedAt a \<noteq> None)
   \<and> (ag_State a = StateBanned \<longleftrightarrow> ag_BanReason a \<noteq> [])
   \<and> perms_within a"

lemma perms_within_iff:
  "perms_within a \<longleftrightarrow>
     (\<forall>n < 64. bit (ag_Permissions a) n \<longrightarrow> unat (ag_Level a) \<le> 7 \<and> n < 16 * (unat (ag_Level a) + 1))"
  by (auto simp: perms_within_def and_not_eq_0_iff bit_DefaultMaxPermissions)

lemma Agent_Grant_Inr:
  "Agent_Grant a b = Inr a' \<longleftrightarrow>
     unat b < 64 \<and> unat (ag_Level a) \<le> 7 \<and> unat b < 16 * (unat (ag_Level a) + 1)
   \<and> a' = a \<lparr> ag_Permissions := ag_Permissions a OR bit_mask b \<rparr>"
proof (cases "unat b < 64")
  case True
  then show ?thesis by (auto simp: Agent_Grant_def bit_DefaultMaxPermissions)
next
  case False
  then show ?thesis by (simp add: Agent_Grant_def)
qed

lemma Agent_Revoke_Inr:
  "Agent_Revoke a b = Inr a' \<longleftrightarrow>
     unat b < 64 \<and> a' = a \<lparr> ag_Permissions := ag_Permissions a AND NOT (bit_mask b) \<rparr>"
proof (cases "unat b < 64")
  case True
  then show ?thesis by (auto simp: Agent_Revoke_def)
next
  case False
  then show ?thesis by (simp add: Agent_Revoke_def)
qed

lemma Agent_Upgrade_Inr:
  "Agent_Upgrade a l now = Inr a' \<longleftrightarrow>
     unat (ag_Level a) < 7 \<and> l = ag_Level a + 1
   \<and> a' = a \<lparr> ag_Level := l, ag_UpdatedAt := now \<rparr>"
proof -
  have "unat (ag_Level a) < 7 \<Longrightarrow> unat (ag_Level a + 1) = unat (ag_Level a) + 1"
    by (simp add: unat_word_ariths)
  moreover have "unat (ag_Level a + 1) \<le> 7 \<Longrightarrow> unat (ag_Level a) < unat (ag_Level a + 1)
      \<Longrightarrow> unat (ag_Level a) < 7"
    by linarith
  ultimately show ?thesis
    by (auto simp: Agent_Upgrade_def Level_IsValid_iff word_le_nat_alt word_less_nat_alt not_le)
qed

lemma NewAgent_ok: "NewAgent uuid owner level pk now = Inr a \<Longrightarrow> agent_ok a"
  by (auto simp: NewAgent_def agent_ok_def perms_within_def split: option.splits if_splits)

lemma agent_step_ok: "agent_step a b \<Longrightarrow> agent_ok a \<Longrightarrow> agent_ok b"
proof (induction rule: agent_step.induct)
  case (upgrade a l now b)
  then have b: "unat (ag_Level a) < 7" "l = ag_Level a + 1"
    "b = a \<lparr> ag_Level := l, ag_UpdatedAt := now \<rparr>"
    by (simp_all add: Agent_Upgrade_Inr)
  then have "unat l = unat (ag_Level a) + 1" by (simp add: unat_word_ariths)
  with b upgrade.prems show ?case
    by (fastforce simp: agent_ok_def Level_IsValid_iff perms_within_iff)
next
  case (grant a bt b)
  then show ?case by (auto simp: agent_ok_def Agent_Grant_Inr perms_within_iff)
next
  case (revoke a bt b)
  then show ?case by (auto simp: agent_ok_def Agent_Revoke_Inr perms_within_iff)
qed (auto simp: agent_ok_def Agent_Activate_def Agent_Ban_def Agent_Unban_def perms_within_def
    split: if_splits)

end
