(* ===== verification/Persistence.thy ===== *)
theory Persistence
  imports DomainAgent
begin

text \<open>
  The data and the storage side of \<open>src/core/backend\<close>: the types and errors of \<open>interface.go\<close>,
  the interfaces \<open>Persistence\<close> and \<open>Cache\<close> of \<open>local.go\<close> as records of operations over a store
  state, the contract that the backends rely on as a locale, and \<open>memory_persistence.go\<close>,
  which keeps it. A returned pointer to a copy is the copied record.
\<close>

section \<open>Types and errors\<close>

definition TypeLocal :: string where "TypeLocal = ''local''"
definition TypeOnchain :: string where "TypeOnchain = ''onchain''"
definition TypeHybrid :: string where "TypeHybrid = ''hybrid''"
definition TypeMock :: string where "TypeMock = ''mock''"

abbreviation ErrBackendUnavailable :: go_error where
  "ErrBackendUnavailable \<equiv> Sentinel ''backend: unavailable''"
abbreviation ErrAgentNotFound :: go_error where
  "ErrAgentNotFound \<equiv> Sentinel ''backend: agent not found''"
abbreviation ErrAgentExists :: go_error where
  "ErrAgentExists \<equiv> Sentinel ''backend: agent already exists''"
abbreviation ErrInvalidState :: go_error where
  "ErrInvalidState \<equiv> Sentinel ''backend: invalid state transition''"

record backend_register_request =
  rq_Owner :: string
  rq_Level :: u8
  rq_Permission :: u64
  rq_PublicKey :: string
  rq_Metadata :: "(string \<times> string) list"

record backend_credential =
  bc_UUID :: string
  bc_Owner :: string
  bc_Level :: u8
  bc_State :: string
  bc_Permission :: u64
  bc_PublicKey :: string
  bc_TxHash :: string
  bc_CreatedAt :: time
  bc_UpdatedAt :: time

record agent_info =
  ai_UUID :: string
  ai_Owner :: string
  ai_Level :: u8
  ai_State :: string
  ai_Permission :: u64
  ai_PublicKey :: string
  ai_TxHash :: string
  ai_RegisteredAt :: time
  ai_UpdatedAt :: time

record backend_log =
  bl_UUID :: string
  bl_Action :: string
  bl_Actor :: string
  bl_OldValue :: string
  bl_NewValue :: string
  bl_Reason :: string
  bl_TxHash :: string
  bl_OccurredAt :: time

type_synonym info_map = "(string \<times> agent_info) list"

section \<open>The interfaces\<close>

text \<open>A batch read returns a map, nil when it is \<open>None\<close>, and an error.\<close>

record 's persistence =
  p_PutAgent :: "agent_info option \<Rightarrow> 's \<Rightarrow> go_error option \<times> 's"
  p_GetAgent :: "string \<Rightarrow> 's \<Rightarrow> go_error + agent_info"
  p_ListAgentsByOwner :: "string \<Rightarrow> 's \<Rightarrow> go_error + agent_info list"
  p_AppendLog :: "backend_log option \<Rightarrow> 's \<Rightarrow> go_error option \<times> 's"
  p_ListLogs :: "string \<Rightarrow> int \<Rightarrow> 's \<Rightarrow> go_error + backend_log list"
  p_BatchGet :: "string list \<Rightarrow> 's \<Rightarrow> info_map option \<times> go_error option"
  p_Count :: "'s \<Rightarrow> nat"

record 'c cache =
  c_Get :: "string \<Rightarrow> 'c \<Rightarrow> (go_error + string option) \<times> 'c"
  c_Set :: "string \<Rightarrow> string option \<Rightarrow> duration \<Rightarrow> 'c \<Rightarrow> go_error option \<times> 'c"
  c_Del :: "string \<Rightarrow> 'c \<Rightarrow> go_error option \<times> 'c"

definition noopCache :: "'c cache" where
  "noopCache =
     \<lparr> c_Get = (\<lambda>_ s. (Inr None, s)), c_Set = (\<lambda>_ _ _ s. (None, s)),
       c_Del = (\<lambda>_ s. (None, s)) \<rparr>"

text \<open>
  The contract of a store that works: \<open>agents\<close> and \<open>logs\<close> are its contents; \<open>pinv\<close> is what its
  operations keep.
\<close>

locale persistence_contract =
  fixes pers :: "'s persistence"
    and pinv :: "'s \<Rightarrow> bool"
    and agents :: "'s \<Rightarrow> string \<Rightarrow> agent_info option"
    and logs :: "'s \<Rightarrow> string \<Rightarrow> backend_log list"
  assumes put:
      "pinv s \<Longrightarrow> ai_UUID r \<noteq> [] \<Longrightarrow>
         \<exists>s'. p_PutAgent pers (Some r) s = (None, s') \<and> pinv s'
            \<and> agents s' = (agents s)(ai_UUID r \<mapsto> r) \<and> logs s' = logs s"
    and put_empty:
      "pinv s \<Longrightarrow> ai_UUID r = [] \<Longrightarrow> \<exists>e. p_PutAgent pers (Some r) s = (Some e, s)"
    and get:
      "pinv s \<Longrightarrow> p_GetAgent pers u s =
         (case agents s u of None \<Rightarrow> Inl ErrAgentNotFound | Some r \<Rightarrow> Inr r)"
    and get_key: "pinv s \<Longrightarrow> agents s u = Some r \<Longrightarrow> ai_UUID r = u"
    and no_empty_key: "pinv s \<Longrightarrow> agents s [] = None"
    and append:
      "pinv s \<Longrightarrow> bl_UUID l \<noteq> [] \<Longrightarrow>
         \<exists>s'. p_AppendLog pers (Some l) s = (None, s') \<and> pinv s' \<and> agents s' = agents s
            \<and> logs s' = (logs s)(bl_UUID l := logs s (bl_UUID l) @ [l])"
    and list_all_logs: "pinv s \<Longrightarrow> p_ListLogs pers u 0 s = Inr (logs s u)"
    and batch:
      "pinv s \<Longrightarrow> \<exists>out. p_BatchGet pers us s = (Some out, None) \<and> distinct (map fst out)
         \<and> (\<forall>u. map_of out u = (if u \<in> set us then agents s u else None))"

section \<open>The in-memory store\<close>

text \<open>The inner map of \<open>byOwner\<close> is a set of UUIDs, kept as a list without repetitions.\<close>

record memory_persistence =
  mp_agents :: "(string \<times> agent_info) list"
  mp_byOwner :: "(string \<times> string list) list"
  mp_logs :: "(string \<times> backend_log list) list"

definition NewMemoryPersistence :: memory_persistence where
  "NewMemoryPersistence = \<lparr> mp_agents = [], mp_byOwner = [], mp_logs = [] \<rparr>"

definition owner_set :: "memory_persistence \<Rightarrow> string \<Rightarrow> string list" where
  "owner_set m owner = (case map_of (mp_byOwner m) owner of None \<Rightarrow> [] | Some us \<Rightarrow> us)"

definition Memory_PutAgent ::
  "agent_info option \<Rightarrow> memory_persistence \<Rightarrow> go_error option \<times> memory_persistence" where
  "Memory_PutAgent rec m =
     (case rec of None \<Rightarrow> (Some ErrBackendUnavailable, m) | Some r \<Rightarrow>
      if ai_UUID r = [] then (Some ErrBackendUnavailable, m)
      else (None,
        m \<lparr> mp_agents := AList.update (ai_UUID r) r (mp_agents m),
            mp_byOwner := AList.update (ai_Owner r)
              (List.insert (ai_UUID r) (owner_set m (ai_Owner r))) (mp_byOwner m) \<rparr>))"

definition Memory_GetAgent :: "string \<Rightarrow> memory_persistence \<Rightarrow> go_error + agent_info" where
  "Memory_GetAgent u m =
     (case map_of (mp_agents m) u of None \<Rightarrow> Inl ErrAgentNotFound | Some r \<Rightarrow> Inr r)"

definition Memory_ListAgentsByOwner ::
  "string \<Rightarrow> memory_persistence \<Rightarrow> go_error + agent_info list" where
  "Memory_ListAgentsByOwner owner m =
     (let us = owner_set m owner
      in if us = [] then Inr []
         else Inr (sort_key ai_UUID (List.map_filter (map_of (mp_agents m)) us)))"

definition log_list :: "memory_persistence \<Rightarrow> string \<Rightarrow> backend_log list" where
  "log_list m u = (case map_of (mp_logs m) u of None \<Rightarrow> [] | Some ls \<Rightarrow> ls)"

definition Memory_AppendLog ::
  "backend_log option \<Rightarrow> memory_persistence \<Rightarrow> go_error option \<times> memory_persistence" where
  "Memory_AppendLog log m =
     (case log of None \<Rightarrow> (Some ErrBackendUnavailable, m) | Some l \<Rightarrow>
      if bl_UUID l = [] then (Some ErrBackendUnavailable, m)
      else (None,
        m \<lparr> mp_logs := AList.update (bl_UUID l) (log_list m (bl_UUID l) @ [l]) (mp_logs m) \<rparr>))"

definition Memory_ListLogs ::
  "string \<Rightarrow> int \<Rightarrow> memory_persistence \<Rightarrow> go_error + backend_log list" where
  "Memory_ListLogs u limit m =
     (let ls = log_list m u
      in if 0 < limit \<and> limit < int (length ls)
         then Inr (drop (length ls - nat limit) ls) else Inr ls)"

fun batch_loop :: "string list \<Rightarrow> memory_persistence \<Rightarrow> info_map \<Rightarrow> info_map" where
  "batch_loop [] m out = out"
| "batch_loop (u # us) m out =
     (case map_of (mp_agents m) u of
        Some a \<Rightarrow> batch_loop us m (AList.update u a out)
      | None \<Rightarrow> batch_loop us m out)"

definition Memory_BatchGet ::
  "string list \<Rightarrow> memory_persistence \<Rightarrow> info_map option \<times> go_error option" where
  "Memory_BatchGet us m = (Some (batch_loop us m []), None)"

definition Memory_Count :: "memory_persistence \<Rightarrow> nat" where
  "Memory_Count m = length (mp_agents m)"

definition memory_ops :: "memory_persistence persistence" where
  "memory_ops =
     \<lparr> p_PutAgent = Memory_PutAgent, p_GetAgent = Memory_GetAgent,
       p_ListAgentsByOwner = Memory_ListAgentsByOwner, p_AppendLog = Memory_AppendLog,
       p_ListLogs = Memory_ListLogs, p_BatchGet = Memory_BatchGet, p_Count = Memory_Count \<rparr>"

section \<open>The in-memory store keeps the contract\<close>

definition memory_inv :: "memory_persistence \<Rightarrow> bool" where
  "memory_inv m \<longleftrightarrow>
     distinct (map fst (mp_agents m))
   \<and> list_all (\<lambda>(k, r). k \<noteq> [] \<and> ai_UUID r = k \<and> k \<in> set (owner_set m (ai_Owner r)))
       (mp_agents m)"

lemma memory_inv_new [simp]: "memory_inv NewMemoryPersistence"
  by (simp add: memory_inv_def NewMemoryPersistence_def)

lemma memory_inv_put:
  assumes "memory_inv m" and "ai_UUID r \<noteq> []"
  shows "memory_inv (snd (Memory_PutAgent (Some r) m))"
proof -
  let ?m = "snd (Memory_PutAgent (Some r) m)"
  have o: "owner_set ?m ow =
      (if ow = ai_Owner r then List.insert (ai_UUID r) (owner_set m ow) else owner_set m ow)" for ow
    using assms(2) by (simp add: Memory_PutAgent_def owner_set_def)
  have a: "mp_agents ?m = AList.update (ai_UUID r) r (mp_agents m)"
    using assms(2) by (simp add: Memory_PutAgent_def)
  have "list_all (\<lambda>(k, r). k \<noteq> [] \<and> ai_UUID r = k \<and> k \<in> set (owner_set ?m (ai_Owner r)))
      (AList.update (ai_UUID r) r (mp_agents m))"
    by (rule list_all_update) (use assms in \<open>auto simp: memory_inv_def o list_all_iff\<close>)
  then show ?thesis
    using assms(1) by (simp add: memory_inv_def a)
qed

lemma memory_inv_append: "memory_inv m \<Longrightarrow> memory_inv (snd (Memory_AppendLog l m))"
  by (auto simp: memory_inv_def Memory_AppendLog_def owner_set_def split: option.split)

lemma map_of_batch_loop:
  "map_of (batch_loop us m out) u =
     (if u \<in> set us \<and> map_of (mp_agents m) u \<noteq> None then map_of (mp_agents m) u else map_of out u)"
  by (induction us arbitrary: out) (auto split: option.split)

lemma distinct_batch_loop:
  "distinct (map fst out) \<Longrightarrow> distinct (map fst (batch_loop us m out))"
  by (induction us arbitrary: out) (auto split: option.split)

lemma memory_inv_key: "memory_inv m \<Longrightarrow> map_of (mp_agents m) u = Some r \<Longrightarrow> ai_UUID r = u \<and> u \<noteq> []"
  by (auto simp: memory_inv_def list_all_iff dest!: map_of_SomeD)

interpretation mem: persistence_contract memory_ops memory_inv
  "\<lambda>m. map_of (mp_agents m)" log_list
proof (unfold_locales, unfold memory_ops_def persistence.simps)
  fix m :: memory_persistence and r :: agent_info
  assume "memory_inv m" "ai_UUID r \<noteq> []"
  with memory_inv_put [OF this] show "\<exists>m'. Memory_PutAgent (Some r) m = (None, m') \<and> memory_inv m'
      \<and> map_of (mp_agents m') = (map_of (mp_agents m))(ai_UUID r \<mapsto> r) \<and> log_list m' = log_list m"
    by (auto simp: Memory_PutAgent_def log_list_def fun_eq_iff)
next
  fix m :: memory_persistence and l :: backend_log
  assume "memory_inv m" "bl_UUID l \<noteq> []"
  with memory_inv_append [OF this(1), of "Some l"]
  show "\<exists>m'. Memory_AppendLog (Some l) m = (None, m') \<and> memory_inv m'
      \<and> map_of (mp_agents m') = map_of (mp_agents m)
      \<and> log_list m' = (log_list m)(bl_UUID l := log_list m (bl_UUID l) @ [l])"
    by (auto simp: Memory_AppendLog_def log_list_def fun_eq_iff)
next
  fix m us
  show "\<exists>out. Memory_BatchGet us m = (Some out, None) \<and> distinct (map fst out)
      \<and> (\<forall>u. map_of out u = (if u \<in> set us then map_of (mp_agents m) u else None))"
    by (auto simp: Memory_BatchGet_def map_of_batch_loop distinct_batch_loop)
next
  fix m
  assume "memory_inv m"
  then show "map_of (mp_agents m) [] = None"
    using memory_inv_key by (cases "map_of (mp_agents m) []") auto
qed (auto simp: Memory_PutAgent_def Memory_GetAgent_def Memory_ListLogs_def dest: memory_inv_key)

section \<open>Properties of the in-memory store\<close>

lemma set_map_filter: "set (List.map_filter f xs) = {y. \<exists>x \<in> set xs. f x = Some y}"
  by (induction xs) (auto simp: List.map_filter_simps split: option.split)

lemma listing_spec:
  "\<exists>ls. Memory_ListAgentsByOwner ow m = Inr ls \<and> sorted (map ai_UUID ls)
     \<and> set ls = {r. \<exists>u \<in> set (owner_set m ow). map_of (mp_agents m) u = Some r}"
  by (simp add: Memory_ListAgentsByOwner_def Let_def set_map_filter)

lemma owner_set_put:
  "ai_UUID r \<noteq> [] \<Longrightarrow> set (owner_set (snd (Memory_PutAgent (Some r) m)) ow) =
     (if ow = ai_Owner r then insert (ai_UUID r) (set (owner_set m ow)) else set (owner_set m ow))"
  by (auto simp: Memory_PutAgent_def owner_set_def)

text \<open>Listing the agents of an owner returns, sorted by UUID, every agent whose record names
  that owner, in any store that the in-memory operations can produce.\<close>

theorem owner_listing_complete:
  assumes "memory_inv m"
  shows "\<exists>ls. Memory_ListAgentsByOwner ow m = Inr ls \<and> sorted (map ai_UUID ls)
       \<and> (\<forall>u r. map_of (mp_agents m) u = Some r \<and> ai_Owner r = ow \<longrightarrow> r \<in> set ls)"
proof -
  have "u \<in> set (owner_set m (ai_Owner r))" if "map_of (mp_agents m) u = Some r" for u r
    using assms map_of_SomeD [OF that] by (auto simp: memory_inv_def list_all_iff)
  then show ?thesis using listing_spec [of ow m] by blast
qed

definition sample_info :: agent_info where
  "sample_info = \<lparr> ai_UUID = ''u1'', ai_Owner = ''acme'', ai_Level = 2, ai_State = StateActive,
     ai_Permission = 3, ai_PublicKey = ''k'', ai_TxHash = [], ai_RegisteredAt = Time 1,
     ai_UpdatedAt = Time 1 \<rparr>"

definition sample_store :: memory_persistence where
  "sample_store = snd (Memory_PutAgent (Some sample_info) NewMemoryPersistence)"

lemma sample_store_inv: "memory_inv sample_store"
  unfolding sample_store_def by (rule memory_inv_put) (simp_all add: sample_info_def)

lemma sample_store_agent: "map_of (mp_agents sample_store) ''u1'' = Some sample_info"
  by (simp add: sample_store_def Memory_PutAgent_def sample_info_def)

theorem owner_listing_complete_witness:
  "\<exists>ls. Memory_ListAgentsByOwner ''acme'' sample_store = Inr ls \<and> sample_info \<in> set ls"
proof -
  have "ai_Owner sample_info = ''acme''" by (simp add: sample_info_def)
  then show ?thesis
    using owner_listing_complete [OF sample_store_inv, of "''acme''"] sample_store_agent by blast
qed

text \<open>Writing an agent back under a different owner leaves it in the index of the old owner:
  the listing of the old owner goes on returning the record, now with the new owner's name.\<close>

theorem owner_index_stale:
  assumes "memory_inv m" and "map_of (mp_agents m) u = Some r" and "ai_UUID r' = u"
    and "ai_Owner r' \<noteq> ai_Owner r"
  shows "\<exists>ls. Memory_ListAgentsByOwner (ai_Owner r) (snd (Memory_PutAgent (Some r') m)) = Inr ls
           \<and> r' \<in> set ls"
proof -
  let ?m = "snd (Memory_PutAgent (Some r') m)"
  have u: "ai_UUID r = u" "u \<noteq> []" using memory_inv_key [OF assms(1,2)] by auto
  have "u \<in> set (owner_set m (ai_Owner r))"
    using assms(1) map_of_SomeD [OF assms(2)] by (auto simp: memory_inv_def list_all_iff)
  then have "u \<in> set (owner_set ?m (ai_Owner r))"
    using assms(3,4) u(2) owner_set_put [of r' m "ai_Owner r"] by simp
  moreover have "map_of (mp_agents ?m) u = Some r'"
    using assms(3) u(2) by (simp add: Memory_PutAgent_def)
  ultimately show ?thesis using listing_spec [of "ai_Owner r" ?m] by auto
qed

theorem owner_index_stale_witness:
  "\<exists>ls. Memory_ListAgentsByOwner ''acme''
      (snd (Memory_PutAgent (Some (sample_info \<lparr> ai_Owner := ''other'' \<rparr>)) sample_store)) = Inr ls
    \<and> sample_info \<lparr> ai_Owner := ''other'' \<rparr> \<in> set ls"
proof -
  have "ai_Owner sample_info = ''acme''" "ai_UUID sample_info = ''u1''"
    by (simp_all add: sample_info_def)
  then show ?thesis
    using owner_index_stale [OF sample_store_inv sample_store_agent,
        of "sample_info \<lparr> ai_Owner := ''other'' \<rparr>"]
    by simp
qed

end
