(* ===== verification/DomainEvents.thy ===== *)
theory DomainEvents
  imports DomainAgent
begin

text \<open>
  The value objects and the events of \<open>src/internal/domain\<close>: \<open>change_log.go\<close>, \<open>credential.go\<close>,
  \<open>events.go\<close> and \<open>outbox.go\<close>. The embedded struct \<open>DomainEvent\<close> is a record that the four
  event types extend. A payload is a Go map from keys to dynamically typed values, an
  association list. The outbox writer is an interface: its operation is a function argument
  that maps the writer's state to the result and the next state.
\<close>

section \<open>Change log\<close>

abbreviation ErrInvalidAction :: go_error where
  "ErrInvalidAction \<equiv> Sentinel ''domain: invalid action''"

definition validActions :: "string list" where
  "validActions =
     [''register'', ''upgrade'', ''downgrade'', ''ban'', ''unban'', ''unregister'',
      ''grant'', ''revoke'', ''activate'', ''suspend'', ''resume'', ''renew'']"

record change_log =
  cl_UUID :: string
  cl_AgentUUID :: string
  cl_Action :: string
  cl_OldValue :: string
  cl_NewValue :: string
  cl_OperatorDID :: string
  cl_Timestamp :: time
  cl_Reason :: string

definition NewChangeLog ::
  "string \<Rightarrow> string \<Rightarrow> string \<Rightarrow> string \<Rightarrow> string \<Rightarrow> string \<Rightarrow> string \<Rightarrow> time \<Rightarrow>
   go_error + change_log" where
  "NewChangeLog uuid agentUUID action oldValue newValue operatorDID reason now =
     (if UUID_IsZero uuid then Inl (Errorf ''%w: uuid is empty'' [ErrInvalidUUID])
      else if UUID_IsZero agentUUID
        then Inl (Errorf ''%w: agent uuid is empty'' [ErrInvalidUUID])
      else if action \<notin> set validActions then Inl (Errorf ''%w: %s'' [ErrInvalidAction])
      else if operatorDID = [] then Inl (Sentinel ''domain: operator_did is empty'')
      else Inr \<lparr> cl_UUID = uuid, cl_AgentUUID = agentUUID, cl_Action = action,
                 cl_OldValue = oldValue, cl_NewValue = newValue,
                 cl_OperatorDID = operatorDID, cl_Timestamp = now, cl_Reason = reason \<rparr>)"

definition IsValidAction :: "string \<Rightarrow> bool" where
  "IsValidAction action \<longleftrightarrow> action \<in> set validActions"

definition Actions :: "string list" where
  "Actions = validActions"

section \<open>Credentials\<close>

abbreviation ErrInvalidSignature :: go_error where
  "ErrInvalidSignature \<equiv> Sentinel ''domain: invalid signature''"

record agent_credential =
  cr_UUID :: string
  cr_Signature :: string
  cr_IssuedAt :: time
  cr_ExpiresAt :: time
  cr_IssuerDID :: string
  cr_AgentUUID :: string

definition validateSignature :: "string \<Rightarrow> go_error option" where
  "validateSignature sig =
     (if sig = [] then Some (Errorf ''%w: empty'' [ErrInvalidSignature])
      else case hex_decode sig of
          None \<Rightarrow> Some (Errorf ''%w: not hex: %v'' [ErrInvalidSignature])
        | Some raw \<Rightarrow>
            if length raw \<noteq> 64
            then Some (Errorf ''%w: length=%d, want 64'' [ErrInvalidSignature])
            else None)"

definition NewAgentCredential ::
  "string \<Rightarrow> string \<Rightarrow> string \<Rightarrow> string \<Rightarrow> time \<Rightarrow> time \<Rightarrow> go_error + agent_credential" where
  "NewAgentCredential uuid agentUUID signature issuerDID issuedAt expiresAt =
     (if UUID_IsZero uuid then Inl (Errorf ''%w: uuid is empty'' [ErrInvalidUUID])
      else if UUID_IsZero agentUUID
        then Inl (Errorf ''%w: agent uuid is empty'' [ErrInvalidUUID])
      else case validateSignature signature of Some err \<Rightarrow> Inl err | None \<Rightarrow>
      if issuerDID = [] then Inl (Sentinel ''domain: issuer_did is empty'')
      else if \<not> issuedAt < expiresAt
        then Inl (Errorf ''domain: expires_at must be after issued_at (issued=%s expires=%s)'' [])
      else Inr \<lparr> cr_UUID = uuid, cr_Signature = signature, cr_IssuedAt = issuedAt,
                 cr_ExpiresAt = expiresAt, cr_IssuerDID = issuerDID,
                 cr_AgentUUID = agentUUID \<rparr>)"

definition Credential_IsExpired :: "agent_credential \<Rightarrow> time \<Rightarrow> bool" where
  "Credential_IsExpired c now \<longleftrightarrow> \<not> now < cr_ExpiresAt c"

definition Credential_IsEffective :: "agent_credential \<Rightarrow> time \<Rightarrow> bool" where
  "Credential_IsEffective c now \<longleftrightarrow> \<not> now < cr_IssuedAt c"

definition Credential_IsValid :: "agent_credential \<Rightarrow> time \<Rightarrow> bool" where
  "Credential_IsValid c now \<longleftrightarrow> \<not> Credential_IsExpired c now \<and> Credential_IsEffective c now"

definition RemainingLifetime :: "agent_credential \<Rightarrow> time \<Rightarrow> duration" where
  "RemainingLifetime c now = time_sub (cr_ExpiresAt c) now"

definition IssueNew ::
  "agent_credential \<Rightarrow> string \<Rightarrow> string \<Rightarrow> string \<Rightarrow> time \<Rightarrow> time \<Rightarrow>
   go_error + agent_credential" where
  "IssueNew c newUUID newSignature newIssuerDID issuedAt expiresAt =
     NewAgentCredential newUUID (cr_AgentUUID c) newSignature newIssuerDID issuedAt expiresAt"

section \<open>Events\<close>

definition EventAgentRegisteredV1 :: string where
  "EventAgentRegisteredV1 = ''agent.registered.v1''"
definition EventAgentUpgradedV1 :: string where
  "EventAgentUpgradedV1 = ''agent.upgraded.v1''"
definition EventAgentBannedV1 :: string where
  "EventAgentBannedV1 = ''agent.banned.v1''"
definition EventAgentRevokedV1 :: string where
  "EventAgentRevokedV1 = ''agent.revoked.v1''"
definition EventAgentUnbannedV1 :: string where
  "EventAgentUnbannedV1 = ''agent.unbanned.v1''"
definition EventPermissionGrantedV1 :: string where
  "EventPermissionGrantedV1 = ''permission.granted.v1''"
definition EventPermissionRevokedV1 :: string where
  "EventPermissionRevokedV1 = ''permission.revoked.v1''"

definition validEventTypes :: "string list" where
  "validEventTypes =
     [EventAgentRegisteredV1, EventAgentUpgradedV1, EventAgentBannedV1, EventAgentRevokedV1,
      EventAgentUnbannedV1, EventPermissionGrantedV1, EventPermissionRevokedV1]"

definition IsValidEventType :: "string \<Rightarrow> bool" where
  "IsValidEventType t \<longleftrightarrow> t \<in> set validEventTypes"

abbreviation ErrInvalidEventType :: go_error where
  "ErrInvalidEventType \<equiv> Sentinel ''domain: invalid event type''"

record domain_event =
  ev_EventID :: string
  ev_EventType :: string
  ev_OccurredAt :: time
  ev_AgentUUID :: string
  ev_OperatorDID :: string

record registered_event = domain_event +
  re_OwnerDID :: string
  re_Level :: u8

record upgraded_event = domain_event +
  ue_OldLevel :: u8
  ue_NewLevel :: u8
  ue_OldPerms :: u64
  ue_NewPerms :: u64
  ue_Reason :: string

record banned_event = domain_event +
  be_Reason :: string
  be_BanExpiresAt :: "time option"

record revoked_event = domain_event +
  rv_Reason :: string

definition baseEventCheck :: "string \<Rightarrow> string \<Rightarrow> string \<Rightarrow> string \<Rightarrow> go_error option" where
  "baseEventCheck eventID eventType agentUUID operatorDID =
     (if eventID = [] then Some (Sentinel ''domain: event_id is empty'')
      else if \<not> IsValidEventType eventType
        then Some (Errorf ''%w: %s'' [ErrInvalidEventType])
      else if UUID_IsZero agentUUID
        then Some (Errorf ''%w: agent uuid is empty'' [ErrInvalidUUID])
      else if operatorDID = [] then Some (Sentinel ''domain: operator_did is empty'')
      else None)"

definition NewAgentRegisteredEventV1 ::
  "string \<Rightarrow> string \<Rightarrow> string \<Rightarrow> u8 \<Rightarrow> string \<Rightarrow> time \<Rightarrow> go_error + registered_event" where
  "NewAgentRegisteredEventV1 eventID agentUUID ownerDID level operatorDID now =
     (case baseEventCheck eventID EventAgentRegisteredV1 agentUUID operatorDID of
        Some err \<Rightarrow> Inl err
      | None \<Rightarrow>
        if ownerDID = [] then Inl (Sentinel ''domain: owner_did is empty'')
        else if \<not> Level_IsValid level then Inl (Errorf ''%w: level=%d'' [ErrInvalidLevel])
        else Inr \<lparr> ev_EventID = eventID, ev_EventType = EventAgentRegisteredV1,
                   ev_OccurredAt = now, ev_AgentUUID = agentUUID,
                   ev_OperatorDID = operatorDID,
                   re_OwnerDID = ownerDID, re_Level = level \<rparr>)"

definition NewAgentUpgradedEventV1 ::
  "string \<Rightarrow> string \<Rightarrow> u8 \<Rightarrow> u8 \<Rightarrow> u64 \<Rightarrow> u64 \<Rightarrow> string \<Rightarrow> string \<Rightarrow> time \<Rightarrow>
   go_error + upgraded_event" where
  "NewAgentUpgradedEventV1 eventID agentUUID oldLevel newLevel oldPerms newPerms reason
     operatorDID now =
     (case baseEventCheck eventID EventAgentUpgradedV1 agentUUID operatorDID of
        Some err \<Rightarrow> Inl err
      | None \<Rightarrow>
        if \<not> Level_IsValid oldLevel \<or> \<not> Level_IsValid newLevel
          then Inl (Errorf ''%w: level'' [ErrInvalidLevel])
        else if newLevel \<le> oldLevel
          then Inl (Errorf ''%w: %s -> %s not upgrade'' [ErrInvalidLevel])
        else Inr \<lparr> ev_EventID = eventID, ev_EventType = EventAgentUpgradedV1,
                   ev_OccurredAt = now, ev_AgentUUID = agentUUID,
                   ev_OperatorDID = operatorDID,
                   ue_OldLevel = oldLevel, ue_NewLevel = newLevel,
                   ue_OldPerms = oldPerms, ue_NewPerms = newPerms, ue_Reason = reason \<rparr>)"

definition NewAgentBannedEventV1 ::
  "string \<Rightarrow> string \<Rightarrow> string \<Rightarrow> string \<Rightarrow> time option \<Rightarrow> time \<Rightarrow>
   go_error + banned_event" where
  "NewAgentBannedEventV1 eventID agentUUID reason operatorDID banExpiresAt now =
     (case baseEventCheck eventID EventAgentBannedV1 agentUUID operatorDID of
        Some err \<Rightarrow> Inl err
      | None \<Rightarrow>
        if reason = [] then Inl (Sentinel ''domain: ban reason is empty'')
        else Inr \<lparr> ev_EventID = eventID, ev_EventType = EventAgentBannedV1,
                   ev_OccurredAt = now, ev_AgentUUID = agentUUID,
                   ev_OperatorDID = operatorDID,
                   be_Reason = reason, be_BanExpiresAt = banExpiresAt \<rparr>)"

definition NewAgentRevokedEventV1 ::
  "string \<Rightarrow> string \<Rightarrow> string \<Rightarrow> string \<Rightarrow> time \<Rightarrow> go_error + revoked_event" where
  "NewAgentRevokedEventV1 eventID agentUUID reason operatorDID now =
     (case baseEventCheck eventID EventAgentRevokedV1 agentUUID operatorDID of
        Some err \<Rightarrow> Inl err
      | None \<Rightarrow>
        Inr \<lparr> ev_EventID = eventID, ev_EventType = EventAgentRevokedV1,
              ev_OccurredAt = now, ev_AgentUUID = agentUUID,
              ev_OperatorDID = operatorDID, rv_Reason = reason \<rparr>)"

section \<open>Outbox envelopes\<close>

datatype payload_value = PString string | PUint8 u8 | PUint64 u64 | PTime time

record outbox_envelope =
  oe_AggregateType :: string
  oe_AggregateID :: string
  oe_EventType :: string
  oe_Payload :: "(string \<times> payload_value) list"
  oe_IdempotencyKey :: string

text \<open>The dynamic value passed as \<open>interface{}\<close>: a (possibly nil) pointer to an event.\<close>

datatype any_event =
    RegisteredV1 "registered_event option"
  | UpgradedV1 "upgraded_event option"
  | BannedV1 "banned_event option"
  | RevokedV1 "revoked_event option"
  | UnknownEvent

fun envelopeFromRegistered :: "registered_event option \<Rightarrow> go_error + outbox_envelope" where
  "envelopeFromRegistered None = Inl (Sentinel ''domain: nil registered event'')"
| "envelopeFromRegistered (Some e) =
     Inr \<lparr> oe_AggregateType = ''agent'', oe_AggregateID = ev_AgentUUID e,
           oe_EventType = ev_EventType e,
           oe_Payload =
             [(''event_id'', PString (ev_EventID e)),
              (''agent_uuid'', PString (ev_AgentUUID e)),
              (''owner_did'', PString (re_OwnerDID e)),
              (''level'', PUint8 (re_Level e)),
              (''operator_did'', PString (ev_OperatorDID e)),
              (''occurred_at'', PTime (ev_OccurredAt e))],
           oe_IdempotencyKey = ev_AgentUUID e @ '':registered:'' @ ev_EventID e \<rparr>"

fun envelopeFromUpgraded :: "upgraded_event option \<Rightarrow> go_error + outbox_envelope" where
  "envelopeFromUpgraded None = Inl (Sentinel ''domain: nil upgraded event'')"
| "envelopeFromUpgraded (Some e) =
     Inr \<lparr> oe_AggregateType = ''agent'', oe_AggregateID = ev_AgentUUID e,
           oe_EventType = ev_EventType e,
           oe_Payload =
             [(''event_id'', PString (ev_EventID e)),
              (''agent_uuid'', PString (ev_AgentUUID e)),
              (''old_level'', PUint8 (ue_OldLevel e)),
              (''new_level'', PUint8 (ue_NewLevel e)),
              (''old_perms'', PUint64 (ue_OldPerms e)),
              (''new_perms'', PUint64 (ue_NewPerms e)),
              (''reason'', PString (ue_Reason e)),
              (''operator_did'', PString (ev_OperatorDID e)),
              (''occurred_at'', PTime (ev_OccurredAt e))],
           oe_IdempotencyKey = ev_AgentUUID e @ '':upgraded:'' @ ev_EventID e \<rparr>"

fun envelopeFromBanned :: "banned_event option \<Rightarrow> go_error + outbox_envelope" where
  "envelopeFromBanned None = Inl (Sentinel ''domain: nil banned event'')"
| "envelopeFromBanned (Some e) =
     (let payload =
        [(''event_id'', PString (ev_EventID e)),
         (''agent_uuid'', PString (ev_AgentUUID e)),
         (''reason'', PString (be_Reason e)),
         (''operator_did'', PString (ev_OperatorDID e)),
         (''occurred_at'', PTime (ev_OccurredAt e))]
      in Inr \<lparr> oe_AggregateType = ''agent'', oe_AggregateID = ev_AgentUUID e,
               oe_EventType = ev_EventType e,
               oe_Payload =
                 (case be_BanExpiresAt e of
                    None \<Rightarrow> payload
                  | Some t \<Rightarrow> AList.update ''ban_expires_at'' (PTime t) payload),
               oe_IdempotencyKey = ev_AgentUUID e @ '':banned:'' @ ev_EventID e \<rparr>)"

fun envelopeFromRevoked :: "revoked_event option \<Rightarrow> go_error + outbox_envelope" where
  "envelopeFromRevoked None = Inl (Sentinel ''domain: nil revoked event'')"
| "envelopeFromRevoked (Some e) =
     Inr \<lparr> oe_AggregateType = ''agent'', oe_AggregateID = ev_AgentUUID e,
           oe_EventType = ev_EventType e,
           oe_Payload =
             [(''event_id'', PString (ev_EventID e)),
              (''agent_uuid'', PString (ev_AgentUUID e)),
              (''reason'', PString (rv_Reason e)),
              (''operator_did'', PString (ev_OperatorDID e)),
              (''occurred_at'', PTime (ev_OccurredAt e))],
           oe_IdempotencyKey = ev_AgentUUID e @ '':revoked:'' @ ev_EventID e \<rparr>"

fun FromDomainEvent :: "any_event \<Rightarrow> go_error + outbox_envelope" where
  "FromDomainEvent (RegisteredV1 e) = envelopeFromRegistered e"
| "FromDomainEvent (UpgradedV1 e) = envelopeFromUpgraded e"
| "FromDomainEvent (BannedV1 e) = envelopeFromBanned e"
| "FromDomainEvent (RevokedV1 e) = envelopeFromRevoked e"
| "FromDomainEvent UnknownEvent = Inl (Errorf ''domain: unsupported event type %T'' [])"

text \<open>\<open>OutboxWriter\<close>: the write of one envelope on the writer's state.\<close>

type_synonym 'w outbox_writer = "outbox_envelope \<Rightarrow> 'w \<Rightarrow> go_error option \<times> 'w"

definition Collect_event ::
  "'w outbox_writer option \<Rightarrow> any_event \<Rightarrow> 'w \<Rightarrow> go_error option \<times> 'w" where
  "Collect_event w evt s =
     (case w of
        None \<Rightarrow> (Some (Sentinel ''domain: outbox writer is nil''), s)
      | Some write \<Rightarrow>
          (case FromDomainEvent evt of
             Inl err \<Rightarrow> (Some err, s)
           | Inr envelope \<Rightarrow> write envelope s))"

end
