(* ===== verification/DomainRules.thy ===== *)
theory DomainRules
  imports DomainEvents
begin

text \<open>
  The rules of \<open>src/internal/domain\<close> over agents and events: \<open>invariants.go\<close> (the checkers and
  the three ways to run them), \<open>register.go\<close> and \<open>upgrade.go\<close>. \<open>UpgradeAgent\<close> works on the
  agent behind the pointer it is given, so its model returns that agent beside the result,
  also when the result is an error. The clock, the random bytes and \<open>Time.Format\<close> are
  arguments.
\<close>

section \<open>Invariants\<close>

abbreviation ErrInvariantViolation :: go_error where
  "ErrInvariantViolation \<equiv> Sentinel ''domain: invariant violation''"

record violation =
  v_Invariant :: string
  v_Reason :: string

abbreviation violation_error :: "violation \<Rightarrow> go_error" where
  "violation_error v \<equiv> Violation (v_Invariant v) (v_Reason v)"

record invariant =
  inv_Name :: string
  inv_Check :: "agent \<Rightarrow> time \<Rightarrow> violation option"

definition StatusLegalInvariant :: invariant where
  "StatusLegalInvariant =
     \<lparr> inv_Name = ''status_legal'',
       inv_Check = (\<lambda>a _.
         if \<not> State_IsValid (ag_State a)
         then Some \<lparr> v_Invariant = ''status_legal'', v_Reason = ''invalid status: %s'' \<rparr>
         else None) \<rparr>"

definition NoSelfUpgradeInvariant :: "(agent \<Rightarrow> string) option \<Rightarrow> invariant" where
  "NoSelfUpgradeInvariant agentSelfDID =
     \<lparr> inv_Name = ''no_self_upgrade'',
       inv_Check = (\<lambda>a _.
         case agentSelfDID of
           None \<Rightarrow> None
         | Some f \<Rightarrow>
             if ag_LastUpgradeBy a = [] \<or> ag_LastUpgradeBy a \<noteq> f a then None
             else Some \<lparr> v_Invariant = ''no_self_upgrade'',
                         v_Reason = ''agent %s tried to upgrade itself (did=%s)'' \<rparr>) \<rparr>"

text \<open>
  The loop ranges over a map, in an unspecified order: it reports a violation iff some entry
  violates the rule, and only the bit printed in the reason depends on the order.
\<close>

definition TemporaryPermissionExpireInvariant :: invariant where
  "TemporaryPermissionExpireInvariant =
     \<lparr> inv_Name = ''temp_perm_expire'',
       inv_Check = (\<lambda>a now.
         if list_ex (\<lambda>(b, expiry). \<not> now < expiry \<and> ag_Permissions a AND bit_mask b \<noteq> 0)
              (ag_TempPermissions a)
         then Some \<lparr> v_Invariant = ''temp_perm_expire'',
                     v_Reason = ''bit %d expired at %s but still set'' \<rparr>
         else None) \<rparr>"

definition PermissionWithinLevelInvariant :: invariant where
  "PermissionWithinLevelInvariant =
     \<lparr> inv_Name = ''perm_within_level'',
       inv_Check = (\<lambda>a _.
         let max = DefaultMaxPermissions (ag_Level a)
         in if ag_Permissions a AND NOT max \<noteq> 0
            then Some \<lparr> v_Invariant = ''perm_within_level'',
                        v_Reason = ''permissions %#016x exceed level %s max %#016x'' \<rparr>
            else None) \<rparr>"

definition ExpiresAtAfterRegisteredAtInvariant :: invariant where
  "ExpiresAtAfterRegisteredAtInvariant =
     \<lparr> inv_Name = ''expires_after_registered'',
       inv_Check = (\<lambda>a _.
         case ag_ExpiresAt a of
           Some e \<Rightarrow>
             if e < ag_RegisteredAt a
             then Some \<lparr> v_Invariant = ''expires_after_registered'',
                         v_Reason = ''expires_at=%s before registered_at=%s'' \<rparr>
             else None
         | None \<Rightarrow> None) \<rparr>"

definition DefaultInvariants :: "(agent \<Rightarrow> string) option \<Rightarrow> invariant list" where
  "DefaultInvariants selfDID =
     [StatusLegalInvariant, NoSelfUpgradeInvariant selfDID,
      TemporaryPermissionExpireInvariant, PermissionWithinLevelInvariant,
      ExpiresAtAfterRegisteredAtInvariant]"

fun CheckInvariantsWith :: "agent \<Rightarrow> time \<Rightarrow> invariant list \<Rightarrow> go_error option" where
  "CheckInvariantsWith a now [] = None"
| "CheckInvariantsWith a now (iv # ivs) =
     (case inv_Check iv a now of
        Some v \<Rightarrow> Some (Errorf ''%w: %w'' [ErrInvariantViolation, violation_error v])
      | None \<Rightarrow> CheckInvariantsWith a now ivs)"

definition CheckInvariants :: "agent \<Rightarrow> time \<Rightarrow> go_error option" where
  "CheckInvariants a now = CheckInvariantsWith a now (DefaultInvariants None)"

fun CheckInvariantsAll :: "agent \<Rightarrow> time \<Rightarrow> invariant list \<Rightarrow> violation list" where
  "CheckInvariantsAll a now [] = []"
| "CheckInvariantsAll a now (iv # ivs) =
     (case inv_Check iv a now of
        Some v \<Rightarrow> v # CheckInvariantsAll a now ivs
      | None \<Rightarrow> CheckInvariantsAll a now ivs)"

lemmas invariant_defs [go_defs] =
  StatusLegalInvariant_def NoSelfUpgradeInvariant_def TemporaryPermissionExpireInvariant_def
  PermissionWithinLevelInvariant_def ExpiresAtAfterRegisteredAtInvariant_def

section \<open>Registration\<close>

abbreviation ErrRegisterFailed :: go_error where
  "ErrRegisterFailed \<equiv> Sentinel ''domain: register failed''"
abbreviation ErrInvariantFailed :: go_error where
  "ErrInvariantFailed \<equiv> Sentinel ''domain: invariant failed during register''"

text \<open>
  \<open>byte(now >> k)\<close>: the low byte of the arithmetic shift. \<open>rand\<close> is what \<open>rand.Read\<close> does with
  the 8-byte buffer: an error, or the bytes it stores there.
\<close>

definition byte_at :: "int \<Rightarrow> nat \<Rightarrow> char" where
  "byte_at now k = char_of (nat (drop_bit k now mod 256))"

definition slice :: "nat \<Rightarrow> nat \<Rightarrow> string \<Rightarrow> string" where
  "slice i j s = take (j - i) (drop i s)"

definition defaultUUIDGenerator :: "int \<Rightarrow> go_error + string \<Rightarrow> go_error + string" where
  "defaultUUIDGenerator now rand =
     (let tb = map (byte_at now) [56, 48, 40, 32, 24, 16, 8, 0]
      in case rand of
           Inl err \<Rightarrow> Inl err
         | Inr rb \<Rightarrow>
             (let h = hex_encode (tb @ rb)
              in if length h \<noteq> 32 then Inl (Errorf ''uuid hex len=%d'' [])
                 else Inr (slice 0 8 h @ ''-'' @ slice 8 12 h @ ''-'' @ slice 12 16 h @ ''-''
                           @ slice 16 20 h @ ''-'' @ slice 20 32 h)))"

record register_input =
  ri_OwnerDID :: string
  ri_Owner :: string
  ri_Level :: u8
  ri_PublicKey :: string
  ri_OperatorDID :: string
  ri_Now :: time

record register_output =
  ro_Agent :: agent
  ro_Event :: "registered_event option"
  ro_UUID :: string

text \<open>
  \<open>gen\<close> is the injected generator's answer, \<open>None\<close> for a nil generator; \<open>deflt\<close> is the answer
  of \<open>defaultUUIDGenerator\<close> at the moment of the call.
\<close>

definition RegisterAgent ::
  "(go_error + string) option \<Rightarrow> go_error + string \<Rightarrow> register_input \<Rightarrow>
   go_error + register_output" where
  "RegisterAgent gen deflt inp =
     (let g = (case gen of None \<Rightarrow> deflt | Some r \<Rightarrow> r) in
      if \<not> Level_IsValid (ri_Level inp)
        then Inl (Errorf ''%w: invalid level %d'' [ErrInvalidLevel])
      else if ri_PublicKey inp = [] then Inl (Sentinel ''domain: empty public key'')
      else if ri_OperatorDID inp = [] then Inl (Sentinel ''domain: empty operator_did'')
      else if is_zero_time (ri_Now inp) then Inl (Sentinel ''domain: now is zero'')
      else case g of
          Inl err \<Rightarrow> Inl (Errorf ''%w: generate uuid: %w'' [ErrRegisterFailed, err])
        | Inr uuid \<Rightarrow>
      (case NewAgent uuid (ri_Owner inp) (ri_Level inp) (ri_PublicKey inp) (ri_Now inp) of
          Inl err \<Rightarrow> Inl (Errorf ''%w: new agent: %w'' [ErrRegisterFailed, err])
        | Inr agent \<Rightarrow>
      (case CheckInvariants agent (ri_Now inp) of
          Some err \<Rightarrow> Inl (Errorf ''%w: %w'' [ErrInvariantFailed, err])
        | None \<Rightarrow>
      (case NewAgentRegisteredEventV1 uuid uuid (ri_OwnerDID inp) (ri_Level inp)
              (ri_OperatorDID inp) (ri_Now inp) of
          Inl err \<Rightarrow> Inl (Errorf ''%w: build event: %w'' [ErrRegisterFailed, err])
        | Inr evt \<Rightarrow>
            Inr \<lparr> ro_Agent = agent, ro_Event = Some evt, ro_UUID = uuid \<rparr>))))"

definition CollectOutbox ::
  "'w outbox_writer option \<Rightarrow> register_output option \<Rightarrow> 'w \<Rightarrow> go_error option \<times> 'w" where
  "CollectOutbox w out s =
     (case out of
        None \<Rightarrow> (Some (Sentinel ''domain: nil register output''), s)
      | Some r \<Rightarrow>
          if ro_Event r = None then (Some (Sentinel ''domain: nil register output''), s)
          else Collect_event w (RegisteredV1 (ro_Event r)) s)"

section \<open>Upgrade\<close>

abbreviation ErrSelfUpgrade :: go_error where
  "ErrSelfUpgrade \<equiv> Sentinel ''domain: self-upgrade not allowed''"
abbreviation ErrUpgradeInvalidState :: go_error where
  "ErrUpgradeInvalidState \<equiv> Sentinel ''domain: upgrade invalid for current state''"

record upgrade_input =
  ui_NewLevel :: u8
  ui_NewPerms :: u64
  ui_OperatorDID :: string
  ui_AgentSelfDID :: string
  ui_Now :: time
  ui_Reason :: string

record upgrade_output =
  uo_Agent :: agent
  uo_Event :: "upgraded_event option"

text \<open>
  \<open>ag\<close> is \<open>in.Agent\<close> (\<open>None\<close> for nil) before the call; the second component of the result is the
  agent behind that pointer after the call. \<open>fmt_time\<close> is \<open>Now.Format(...)\<close>.
\<close>

definition UpgradeAgent ::
  "(time \<Rightarrow> string) \<Rightarrow> agent option \<Rightarrow> upgrade_input \<Rightarrow>
   (go_error + upgrade_output) \<times> agent option" where
  "UpgradeAgent fmt_time ag inp =
     (case ag of None \<Rightarrow> (Inl (Sentinel ''domain: nil agent''), None) | Some a \<Rightarrow>
      if ui_OperatorDID inp = [] then (Inl (Sentinel ''domain: empty operator_did''), Some a)
      else if is_zero_time (ui_Now inp) then (Inl (Sentinel ''domain: now is zero''), Some a)
      else if ag_State a \<noteq> StateActive \<and> ag_State a \<noteq> StateRegistered
        then (Inl (Errorf ''%w: state=%s'' [ErrUpgradeInvalidState]), Some a)
      else if ui_AgentSelfDID inp \<noteq> [] \<and> ui_OperatorDID inp = ui_AgentSelfDID inp
        then (Inl (Errorf ''%w: did=%s'' [ErrSelfUpgrade]), Some a)
      else if \<not> Level_IsValid (ui_NewLevel inp)
        then (Inl (Errorf ''%w: %d'' [ErrInvalidLevel]), Some a)
      else if ui_NewLevel inp \<le> ag_Level a
        then (Inl (Errorf ''%w: %s -> %s'' [ErrInvalidLevel]), Some a)
      else if ui_NewLevel inp \<noteq> ag_Level a + 1
        then (Inl (Errorf ''%w: must upgrade by exactly 1 level'' [ErrInvalidLevel]), Some a)
      else
        (let merged = ag_Permissions a OR ui_NewPerms inp;
             maxPerms = DefaultMaxPermissions (ui_NewLevel inp)
         in if merged AND NOT maxPerms \<noteq> 0
            then (Inl (Errorf ''%w: merged perms exceed new level max''
                    [ErrPermissionExceedsLevel]), Some a)
            else
              (let oldLevel = ag_Level a; oldPerms = ag_Permissions a in
               case Agent_Upgrade a (ui_NewLevel inp) (ui_Now inp) of
                 Inl err \<Rightarrow> (Inl (Errorf ''domain: agent upgrade: %w'' [err]), Some a)
               | Inr a1 \<Rightarrow>
                   (let a2 = a1 \<lparr> ag_Permissions := merged,
                                  ag_LastUpgradeBy := ui_OperatorDID inp,
                                  ag_UpdatedAt := ui_Now inp \<rparr>
                    in case CheckInvariants a2 (ui_Now inp) of
                         Some err \<Rightarrow>
                           (Inl (Errorf ''%w: post-upgrade invariants failed: %w''
                              [ErrInvariantFailed, err]), Some a2)
                       | None \<Rightarrow>
                           (case NewAgentUpgradedEventV1
                                   (ag_UUID a2 @ '':upgrade:'' @ fmt_time (ui_Now inp))
                                   (ag_UUID a2) oldLevel (ui_NewLevel inp) oldPerms merged
                                   (ui_Reason inp) (ui_OperatorDID inp) (ui_Now inp) of
                              Inl err \<Rightarrow>
                                (Inl (Errorf ''domain: build upgraded event: %w'' [err]), Some a2)
                            | Inr evt \<Rightarrow>
                                (Inr \<lparr> uo_Agent = a2, uo_Event = Some evt \<rparr>, Some a2))))))"

definition CollectUpgradeOutbox ::
  "'w outbox_writer option \<Rightarrow> upgrade_output option \<Rightarrow> 'w \<Rightarrow> go_error option \<times> 'w" where
  "CollectUpgradeOutbox w out s =
     (case out of
        None \<Rightarrow> (Some (Sentinel ''domain: nil upgrade output''), s)
      | Some r \<Rightarrow>
          if uo_Event r = None then (Some (Sentinel ''domain: nil upgrade output''), s)
          else Collect_event w (UpgradedV1 (uo_Event r)) s)"

section \<open>Lemmas on the invariants\<close>

lemma CheckInvariantsWith_All:
  "CheckInvariantsWith a now ivs =
     (case CheckInvariantsAll a now ivs of
        [] \<Rightarrow> None
      | v # _ \<Rightarrow> Some (Errorf ''%w: %w'' [ErrInvariantViolation, violation_error v]))"
  by (induction ivs) (auto split: option.split)

lemma CheckInvariantsAll_map_filter:
  "CheckInvariantsAll a now ivs = List.map_filter (\<lambda>iv. inv_Check iv a now) ivs"
  by (induction ivs) (auto simp: List.map_filter_simps split: option.split)

definition no_expired_temp :: "agent \<Rightarrow> time \<Rightarrow> bool" where
  "no_expired_temp a now \<longleftrightarrow>
     list_all (\<lambda>(b, expiry). now < expiry \<or> \<not> bit (ag_Permissions a) (unat b))
       (ag_TempPermissions a)"

lemma and_bit_mask_neq_0: "w AND bit_mask b \<noteq> 0 \<longleftrightarrow> bit w (unat b)"
  using bit_imp_le_length [of w "unat b"]
  by (auto simp: word_zero_iff bit_and_iff bit_bit_mask)

lemma temp_check_iff:
  "inv_Check TemporaryPermissionExpireInvariant a now = None \<longleftrightarrow> no_expired_temp a now"
  by (auto simp: TemporaryPermissionExpireInvariant_def no_expired_temp_def and_bit_mask_neq_0
      list_ex_iff list_all_iff split: if_splits)

lemma CheckInvariants_None_iff:
  "CheckInvariants a now = None \<longleftrightarrow>
     State_IsValid (ag_State a) \<and> no_expired_temp a now \<and> perms_within a
   \<and> (case ag_ExpiresAt a of None \<Rightarrow> True | Some e \<Rightarrow> ag_RegisteredAt a \<le> e)"
proof -
  have "CheckInvariants a now = None \<longleftrightarrow>
      inv_Check StatusLegalInvariant a now = None
    \<and> inv_Check (NoSelfUpgradeInvariant None) a now = None
    \<and> inv_Check TemporaryPermissionExpireInvariant a now = None
    \<and> inv_Check PermissionWithinLevelInvariant a now = None
    \<and> inv_Check ExpiresAtAfterRegisteredAtInvariant a now = None"
    by (simp add: CheckInvariants_def DefaultInvariants_def split: option.split)
  moreover have "inv_Check StatusLegalInvariant a now = None \<longleftrightarrow> State_IsValid (ag_State a)"
    by (simp add: StatusLegalInvariant_def)
  moreover have "inv_Check (NoSelfUpgradeInvariant None) a now = None"
    by (simp add: NoSelfUpgradeInvariant_def)
  moreover have "inv_Check PermissionWithinLevelInvariant a now = None \<longleftrightarrow> perms_within a"
    by (simp add: PermissionWithinLevelInvariant_def perms_within_def Let_def)
  moreover have "inv_Check ExpiresAtAfterRegisteredAtInvariant a now = None \<longleftrightarrow>
      (case ag_ExpiresAt a of None \<Rightarrow> True | Some e \<Rightarrow> ag_RegisteredAt a \<le> e)"
    by (auto simp: ExpiresAtAfterRegisteredAtInvariant_def dest: leD split: option.split)
  ultimately show ?thesis by (simp add: temp_check_iff)
qed

lemma agent_ok_State_IsValid: "agent_ok a \<Longrightarrow> State_IsValid (ag_State a)"
  by (auto simp: agent_ok_def State_IsValid_def)

lemma NewAgent_checks:
  "NewAgent uuid owner level pk now = Inr a \<Longrightarrow> CheckInvariants a now = None"
proof -
  assume new: "NewAgent uuid owner level pk now = Inr a"
  then have "agent_ok a" by (rule NewAgent_ok)
  moreover from new have "ag_TempPermissions a = []" "ag_ExpiresAt a = None"
    by (auto simp: NewAgent_def split: option.splits if_splits)
  ultimately show ?thesis
    by (simp add: CheckInvariants_None_iff agent_ok_State_IsValid no_expired_temp_def)
      (simp add: agent_ok_def)
qed

section \<open>Lemmas on registration\<close>

lemma NewAgent_Inr_iff:
  "(\<exists>a. NewAgent uuid owner level pk now = Inr a) \<longleftrightarrow>
     UUID_Validate uuid = None \<and> Owner_Validate owner = None \<and> Level_IsValid level \<and> pk \<noteq> []"
  by (auto simp: NewAgent_def split: option.splits)

lemma NewAgent_fields:
  assumes "NewAgent uuid owner level pk now = Inr a"
  shows "ag_UUID a = uuid" "ag_Owner a = owner" "ag_Level a = level"
    "ag_State a = StateRegistered" "ag_PublicKey a = pk" "ag_Permissions a = 0"
    "ag_RegisteredAt a = now" "ag_UpdatedAt a = now" "ag_LastUpgradeBy a = []"
    "ag_BannedAt a = None" "ag_ExpiresAt a = None" "ag_TempPermissions a = []"
    "ag_TxHash a = []" "ag_BanReason a = []"
  using assms by (auto simp: NewAgent_def split: option.splits if_splits)

lemma UUID_Validate_not_zero: "UUID_Validate u = None \<Longrightarrow> \<not> UUID_IsZero u"
  by (auto simp: UUID_Validate_def)

lemma UUID_not_zero_not_Nil: "\<not> UUID_IsZero u \<Longrightarrow> u \<noteq> []"
  by (auto simp: UUID_IsZero_def)

lemma baseEventCheck_None_iff:
  "baseEventCheck eid ty u opr = None \<longleftrightarrow>
     eid \<noteq> [] \<and> IsValidEventType ty \<and> \<not> UUID_IsZero u \<and> opr \<noteq> []"
  by (simp add: baseEventCheck_def)

lemma valid_event_types [simp]:
  "IsValidEventType EventAgentRegisteredV1" "IsValidEventType EventAgentUpgradedV1"
  "IsValidEventType EventAgentBannedV1" "IsValidEventType EventAgentRevokedV1"
  by (simp_all add: IsValidEventType_def validEventTypes_def)

lemma hex_digits_take [simp]: "list_all is_hex_char h \<Longrightarrow> list_all is_hex_char (take n h)"
  by (metis append_take_drop_id list_all_append)

lemma hex_digits_drop [simp]: "list_all is_hex_char h \<Longrightarrow> list_all is_hex_char (drop n h)"
  by (metis append_take_drop_id list_all_append)

lemma take_hex_append:
  "length p = n \<Longrightarrow> list_all is_hex_char p \<Longrightarrow> take_hex n (p @ r) = Some r"
  by (simp add: take_hex_def)

lemma dashed_hex_uuid:
  assumes "length h = 32" and "list_all is_hex_char h"
  shows "uuidPattern (slice 0 8 h @ ''-'' @ slice 8 12 h @ ''-'' @ slice 12 16 h @ ''-''
           @ slice 16 20 h @ ''-'' @ slice 20 32 h)"
  unfolding uuidPattern_def
  by (rule disjI1) (simp add: take_hex_append take_hex_def [of 12] slice_def assms)

lemma defaultUUIDGenerator_valid_aux:
  assumes "length rb = 8"
  shows "\<exists>u. defaultUUIDGenerator now (Inr rb) = Inr u \<and> uuidPattern u \<and> length u = 36"
proof -
  define h where "h = hex_encode (map (byte_at now) [56, 48, 40, 32, 24, 16, 8, 0] @ rb)"
  have l: "length h = 32" and hex: "list_all is_hex_char h"
    using assms by (simp_all add: h_def hex_encode_hex)
  have "defaultUUIDGenerator now (Inr rb) =
      Inr (slice 0 8 h @ ''-'' @ slice 8 12 h @ ''-'' @ slice 12 16 h @ ''-''
           @ slice 16 20 h @ ''-'' @ slice 20 32 h)"
    unfolding defaultUUIDGenerator_def Let_def sum.case h_def [symmetric] using l by simp
  moreover have "length (slice i j h) = min (32 - i) (j - i)" for i j
    using l by (simp add: slice_def)
  ultimately show ?thesis
    using dashed_hex_uuid [OF l hex] by simp
qed

lemma take_hex_mem:
  "take_hex n s = Some r \<Longrightarrow> c \<in> set s \<Longrightarrow> \<not> is_hex_char c \<Longrightarrow> c \<in> set r"
proof -
  assume h: "take_hex n s = Some r" "c \<in> set s" "\<not> is_hex_char c"
  have "set s = set (take n s) \<union> set (drop n s)"
    by (metis append_take_drop_id set_append)
  with h show "c \<in> set r" by (auto simp: take_hex_def list_all_iff split: if_splits)
qed

lemma skip_dash_mem: "c \<in> set s \<Longrightarrow> c \<noteq> CHR ''-'' \<Longrightarrow> c \<in> set (skip_dash s)"
  by (cases s) auto

lemma match_groups_chars:
  "match_groups ns s \<Longrightarrow> c \<in> set s \<Longrightarrow> is_hex_char c \<or> c = CHR ''-''"
proof (induction ns s rule: match_groups.induct)
  case (3 n v va s)
  then show ?case
    by (auto split: option.splits dest: take_hex_mem skip_dash_mem)
qed (auto dest: take_hex_mem)

lemma take_hex_head: "take_hex n s = Some r \<Longrightarrow> 0 < n \<Longrightarrow> \<exists>c t. s = c # t \<and> is_hex_char c"
  by (cases s; cases n) (auto simp: take_hex_def split: if_splits)

lemma match_groups_head:
  "match_groups (n # ns) s \<Longrightarrow> 0 < n \<Longrightarrow> \<exists>c t. s = c # t \<and> is_hex_char c"
  by (cases ns) (auto split: option.splits dest: take_hex_head)

lemma uuidPattern_chars: "uuidPattern u \<Longrightarrow> c \<in> set u \<Longrightarrow> is_hex_char c \<or> c = CHR ''-''"
  using match_groups_chars unfolding uuidPattern_def by blast

lemma uuidPattern_not_zero: "uuidPattern u \<Longrightarrow> \<not> UUID_IsZero u"
proof -
  assume "uuidPattern u"
  then obtain c t where "u = c # t" "is_hex_char c"
    unfolding uuidPattern_def by (auto simp del: match_groups.simps dest!: match_groups_head)
  then show ?thesis
    using trim_space_not_blank [OF hex_not_blank, of c u] by (simp add: UUID_IsZero_def)
qed

lemma UUID_Validate_iff: "UUID_Validate u = None \<longleftrightarrow> uuidPattern u"
  using uuidPattern_not_zero by (auto simp: UUID_Validate_def)

section \<open>Properties of agents\<close>

text \<open>C15: every agent that \<open>NewAgent\<close> builds and any sequence of successful method calls
  changes keeps a valid UUID, owner and level, a non-empty public key, a state among
  registered, active and banned, permissions within the maximum of its level, and is banned
  exactly when it has a ban time and exactly when it has a ban reason.\<close>

theorem agent_lifecycle_invariant: "agent_reach a \<Longrightarrow> agent_ok a"
  by (induction rule: agent_reach.induct) (auto intro: NewAgent_ok agent_step_ok)

definition new_agent :: agent where
  "new_agent = \<lparr> ag_UUID = ''0123456789abcdef0123456789ABCDEF'', ag_Owner = ''acme-01'',
     ag_Level = 2, ag_State = StateRegistered, ag_BanReason = [], ag_PublicKey = ''k'',
     ag_TxHash = [], ag_Signature = [], ag_Permissions = 0, ag_RegisteredAt = Time 5,
     ag_UpdatedAt = Time 5, ag_BannedAt = None, ag_ExpiresAt = None, ag_LastUpgradeBy = [],
     ag_TempPermissions = [] \<rparr>"

lemma new_agent_reach: "agent_reach new_agent"
proof -
  have u: "UUID_Validate ''0123456789abcdef0123456789ABCDEF'' = None"
    by (simp add: UUID_Validate_iff uuidPattern_def take_hex_def is_hex_char_def)
  show ?thesis
    by (rule agent_reach.new
          [of "''0123456789abcdef0123456789ABCDEF''" "''acme-01''" 2 "''k''" "Time 5"])
      (simp add: NewAgent_def u Owner_Validate_def ownerPattern_def owner_char_def
        Level_IsValid_iff new_agent_def)
qed

theorem agent_lifecycle_invariant_witness: "agent_ok new_agent"
  by (rule agent_lifecycle_invariant [OF new_agent_reach])

text \<open>On an agent reached this way, a successful method call changes the state only
  along the table \<open>StateTransition\<close>, raises the level by at most one and never lowers it, and
  never changes the UUID, the owner, the public key or the registration time.\<close>

theorem agent_step_follows_table:
  assumes "agent_reach a" and "agent_step a b"
  shows "(ag_State b = ag_State a \<or> CanTransition (ag_State a) (ag_State b))
       \<and> (ag_Level b = ag_Level a \<or> unat (ag_Level b) = unat (ag_Level a) + 1)
       \<and> ag_UUID b = ag_UUID a \<and> ag_Owner b = ag_Owner a
       \<and> ag_PublicKey b = ag_PublicKey a \<and> ag_RegisteredAt b = ag_RegisteredAt a"
proof -
  have ok: "agent_ok a"
    using assms(1) by (induction rule: agent_reach.induct) (auto intro: NewAgent_ok agent_step_ok)
  from assms(2) show ?thesis
  proof cases
    case (ban reason now)
    with ok show ?thesis
      by (auto simp: agent_ok_def Agent_Ban_def CanTransition_iff split: if_splits)
  next
    case (upgrade l now)
    then show ?thesis by (auto simp: Agent_Upgrade_Inr unat_word_ariths)
  qed (auto simp: Agent_Activate_def Agent_Unban_def Agent_Grant_Inr Agent_Revoke_Inr
      CanTransition_iff split: if_splits)
qed

theorem agent_step_follows_table_witness:
  "\<exists>b. Agent_Activate new_agent (Time 6) = Inr b
     \<and> CanTransition (ag_State new_agent) (ag_State b) \<and> ag_Owner b = ag_Owner new_agent"
proof -
  have b: "Agent_Activate new_agent (Time 6)
      = Inr (new_agent \<lparr> ag_State := StateActive, ag_UpdatedAt := Time 6 \<rparr>)"
    by (simp add: Agent_Activate_def new_agent_def)
  from agent_step_follows_table [OF new_agent_reach agent_step.activate [OF b]] b show ?thesis
    by (auto simp: new_agent_def)
qed

text \<open>The declarative business-status table agrees with the state machine of \<open>state.go\<close>
  under the renaming of states, and \<open>AllowedTransitions\<close> lists exactly the targets that
  \<open>CanTransitionTo\<close> accepts.\<close>

theorem status_table_agrees:
  "CanTransitionTo fr to = CanTransition (toAgentState fr) (toAgentState to)
   \<and> set (AllowedTransitions fr) = {to. CanTransitionTo fr to}"
proof -
  have iff: "CanTransitionTo x y \<longleftrightarrow>
      x = AgentStatusPending \<and> y \<in> {AgentStatusActive, AgentStatusBanned, AgentStatusRevoked}
    \<or> x = AgentStatusActive \<and> y \<in> {AgentStatusBanned, AgentStatusRevoked}
    \<or> x = AgentStatusBanned \<and> y \<in> {AgentStatusActive, AgentStatusRevoked}" for x y
    by (auto simp: CanTransitionTo_def toAgentState_def toStatus_def CanTransition_iff
        allowedStatusTransitions_def Let_def)
  have "CanTransition (toAgentState fr) (toAgentState to) = CanTransitionTo fr to"
    unfolding iff by (auto simp: toAgentState_def CanTransition_iff)
  moreover have "set (AllowedTransitions fr) = {to. CanTransitionTo fr to}"
    unfolding iff by (auto simp: AllowedTransitions_def allowedStatusTransitions_def)
  ultimately show ?thesis by simp
qed

text \<open>Unregistered is reachable in the table from every other state and is the only state
  that no transition leaves; registered is never entered again.\<close>

theorem unregistered_terminal:
  "State_IsValid s \<Longrightarrow>
     (CanTransition s StateUnregistered = (\<not> State_IsTerminal s))
   \<and> (State_IsTerminal s = (\<forall>t. \<not> CanTransition s t))
   \<and> \<not> CanTransition s StateRegistered"
  by (auto simp: CanTransition_iff State_IsTerminal_def State_IsValid_def)

theorem unregistered_terminal_witness:
  "CanTransition StateBanned StateUnregistered = (\<not> State_IsTerminal StateBanned)"
  using unregistered_terminal [of StateBanned] by (simp add: State_IsValid_def)

text \<open>\<open>Grant\<close> succeeds exactly for the bits of the level (16 per level, 64 at most); after
  it the agent has that bit and otherwise the bits it had; \<open>Revoke\<close> takes a bit away and
  no other; both change nothing but the permission word.\<close>

theorem grant_revoke_has:
  "(\<forall>b. (\<exists>a'. Agent_Grant a b = Inr a') =
       (unat (ag_Level a) \<le> 7 \<and> unat b < 64 \<and> unat b < 16 * (unat (ag_Level a) + 1)))
   \<and> (\<forall>b a' c. Agent_Grant a b = Inr a' \<longrightarrow>
        Agent_HasPermission a' c = (c = b \<or> Agent_HasPermission a c)
      \<and> a' \<lparr> ag_Permissions := ag_Permissions a \<rparr> = a)
   \<and> (\<forall>b a' c. Agent_Revoke a b = Inr a' \<longrightarrow>
        Agent_HasPermission a' c = (c \<noteq> b \<and> Agent_HasPermission a c)
      \<and> a' \<lparr> ag_Permissions := ag_Permissions a \<rparr> = a)"
  by (auto simp: Agent_Grant_Inr Agent_Revoke_Inr HasPermission_bit word_unat_eq_iff)

theorem grant_revoke_has_witness:
  "\<exists>a'. Agent_Grant \<lparr> ag_UUID = ''u'', ag_Owner = ''o'',
     ag_Level = 0, ag_State = StateActive, ag_BanReason = [], ag_PublicKey = ''k'',
     ag_TxHash = [], ag_Signature = [], ag_Permissions = 1, ag_RegisteredAt = Time 5,
     ag_UpdatedAt = Time 5, ag_BannedAt = None, ag_ExpiresAt = None, ag_LastUpgradeBy = [],
     ag_TempPermissions = [] \<rparr> 15 = Inr a' \<and> Agent_HasPermission a' 0"
  (is "\<exists>a'. Agent_Grant ?a _ = _ \<and> _")
proof -
  obtain a' where g: "Agent_Grant ?a 15 = Inr a'"
    using grant_revoke_has [of ?a] by fastforce
  then have "Agent_HasPermission a' 0 = (0 = (15 :: uint) \<or> Agent_HasPermission ?a 0)"
    using grant_revoke_has [of ?a] by blast
  with g show ?thesis by (simp add: HasPermission_bit)
qed

text \<open>\<open>CheckInvariants\<close> passes exactly for an agent with a legal state, no expired temporary
  permission still set, permissions within its level and an expiry not before its
  registration; the short-circuiting check reports the first of the violations that
  \<open>CheckInvariantsAll\<close> collects, for any list of invariants.\<close>

theorem check_invariants_spec:
  "(CheckInvariants a now = None) =
     (State_IsValid (ag_State a) \<and> no_expired_temp a now \<and> perms_within a
      \<and> (case ag_ExpiresAt a of None \<Rightarrow> True | Some e \<Rightarrow> ag_RegisteredAt a \<le> e))
   \<and> CheckInvariantsWith a now ivs =
     (case CheckInvariantsAll a now ivs of
        [] \<Rightarrow> None
      | v # _ \<Rightarrow> Some (Errorf ''%w: %w'' [ErrInvariantViolation, violation_error v]))"
  by (simp add: CheckInvariants_None_iff CheckInvariantsWith_All)

text \<open>C26: \<open>RegisterAgent\<close> succeeds exactly when the level, owner, public key, operator, owner DID
  and clock are acceptable and the generator returns a well-formed UUID; the result is then a
  registered agent with these fields, as \<open>NewAgent\<close> makes it, which passes the invariants and is
  well-formed, and a registration event that names the UUID, both DIDs, the level and the time.\<close>

theorem register_agent_spec:
  "((\<exists>out. RegisterAgent (Some (Inr u)) deflt inp = Inr out) =
      (Level_IsValid (ri_Level inp) \<and> ri_PublicKey inp \<noteq> [] \<and> ri_OperatorDID inp \<noteq> []
       \<and> \<not> is_zero_time (ri_Now inp) \<and> UUID_Validate u = None
       \<and> Owner_Validate (ri_Owner inp) = None \<and> ri_OwnerDID inp \<noteq> []))
   \<and> (\<forall>out. RegisterAgent (Some (Inr u)) deflt inp = Inr out \<longrightarrow>
        NewAgent u (ri_Owner inp) (ri_Level inp) (ri_PublicKey inp) (ri_Now inp)
          = Inr (ro_Agent out)
      \<and> agent_ok (ro_Agent out) \<and> CheckInvariants (ro_Agent out) (ri_Now inp) = None
      \<and> ro_UUID out = u
      \<and> (\<exists>e. ro_Event out = Some e \<and> ev_EventID e = u \<and> ev_AgentUUID e = u
           \<and> ev_EventType e = EventAgentRegisteredV1 \<and> ev_OperatorDID e = ri_OperatorDID inp
           \<and> ev_OccurredAt e = ri_Now inp \<and> re_OwnerDID e = ri_OwnerDID inp \<and> re_Level e = ri_Level inp))"
proof -
  let ?new = "NewAgent u (ri_Owner inp) (ri_Level inp) (ri_PublicKey inp) (ri_Now inp)"
  have "?new = Inr a \<Longrightarrow> agent_ok a \<and> CheckInvariants a (ri_Now inp) = None" for a
    using NewAgent_ok NewAgent_checks by blast
  then show ?thesis
    using UUID_Validate_not_zero [of u] UUID_not_zero_not_Nil [of u]
      NewAgent_Inr_iff [of u "ri_Owner inp" "ri_Level inp" "ri_PublicKey inp" "ri_Now inp"]
    by (cases ?new)
      (auto simp: RegisterAgent_def NewAgentRegisteredEventV1_def baseEventCheck_def
        Let_def split: option.splits if_splits)
qed

theorem register_agent_spec_witness:
  "\<exists>out. RegisterAgent (Some (Inr ''0123456789abcdef0123456789ABCDEF'')) (Inr [])
     \<lparr> ri_OwnerDID = ''did:x'', ri_Owner = ''acme'', ri_Level = 1, ri_PublicKey = ''k'',
       ri_OperatorDID = ''did:op'', ri_Now = Time 7 \<rparr> = Inr out
   \<and> agent_ok (ro_Agent out)"
  (is "\<exists>out. RegisterAgent (Some (Inr ?u)) _ ?inp = _ \<and> _")
proof -
  have "UUID_Validate ?u = None"
    by (simp add: UUID_Validate_iff uuidPattern_def take_hex_def is_hex_char_def)
  then have "\<exists>out. RegisterAgent (Some (Inr ?u)) (Inr []) ?inp = Inr out"
    by (subst conjunct1 [OF register_agent_spec])
      (simp add: Owner_Validate_def ownerPattern_def owner_char_def Level_IsValid_iff
        is_zero_time_def zero_time_def)
  then show ?thesis using register_agent_spec [of ?u "Inr []" ?inp] by blast
qed

text \<open>
  The conditions under which \<open>UpgradeAgent\<close> changes the agent, the changed agent, and the one
  further condition for it to report success.
\<close>

definition upgrade_pre :: "agent \<Rightarrow> upgrade_input \<Rightarrow> bool" where
  "upgrade_pre a inp \<longleftrightarrow>
     ui_OperatorDID inp \<noteq> [] \<and> \<not> is_zero_time (ui_Now inp)
   \<and> (ag_State a = StateActive \<or> ag_State a = StateRegistered)
   \<and> (ui_AgentSelfDID inp = [] \<or> ui_OperatorDID inp \<noteq> ui_AgentSelfDID inp)
   \<and> unat (ag_Level a) < 7 \<and> ui_NewLevel inp = ag_Level a + 1
   \<and> (ag_Permissions a OR ui_NewPerms inp) AND NOT (DefaultMaxPermissions (ui_NewLevel inp)) = 0"

definition upgraded :: "agent \<Rightarrow> upgrade_input \<Rightarrow> agent" where
  "upgraded a inp =
     a \<lparr> ag_Level := ui_NewLevel inp, ag_Permissions := ag_Permissions a OR ui_NewPerms inp,
         ag_UpdatedAt := ui_Now inp, ag_LastUpgradeBy := ui_OperatorDID inp \<rparr>"

lemma level_step:
  "unat (l :: u8) \<le> 7 \<Longrightarrow> Level_IsValid (l + 1) \<and> \<not> l + 1 \<le> l \<longleftrightarrow> unat l < 7"
  by (auto simp: Level_IsValid_iff word_le_nat_alt unat_word_ariths)

lemma level_step_conv:
  "Level_IsValid n \<and> \<not> n \<le> l \<and> n = l + 1 \<longleftrightarrow> unat (l :: u8) < 7 \<and> n = l + 1"
proof -
  have "Level_IsValid (l + 1) \<Longrightarrow> \<not> l + 1 \<le> l \<Longrightarrow> unat l \<le> 7"
    by (simp add: Level_IsValid_iff word_le_nat_alt)
  then show ?thesis using level_step [of l] by (cases "unat l \<le> 7") auto
qed

lemma UpgradeAgent_not_pre:
  assumes "\<not> upgrade_pre a inp"
  shows "\<exists>e. UpgradeAgent fmt_time (Some a) inp = (Inl e, Some a)"
  using assms level_step_conv [of "ui_NewLevel inp" "ag_Level a"]
  unfolding UpgradeAgent_def upgrade_pre_def option.case Let_def
  by (cases "Agent_Upgrade a (ui_NewLevel inp) (ui_Now inp)") auto

lemma UpgradeAgent_pre:
  assumes "upgrade_pre a inp"
  shows "UpgradeAgent fmt_time (Some a) inp =
     (case CheckInvariants (upgraded a inp) (ui_Now inp) of
        Some err \<Rightarrow>
          (Inl (Errorf ''%w: post-upgrade invariants failed: %w'' [ErrInvariantFailed, err]),
           Some (upgraded a inp))
      | None \<Rightarrow>
          (case NewAgentUpgradedEventV1 (ag_UUID a @ '':upgrade:'' @ fmt_time (ui_Now inp))
                  (ag_UUID a) (ag_Level a) (ui_NewLevel inp) (ag_Permissions a)
                  (ag_Permissions a OR ui_NewPerms inp) (ui_Reason inp) (ui_OperatorDID inp)
                  (ui_Now inp) of
             Inl err \<Rightarrow>
               (Inl (Errorf ''domain: build upgraded event: %w'' [err]), Some (upgraded a inp))
           | Inr evt \<Rightarrow>
               (Inr \<lparr> uo_Agent = upgraded a inp, uo_Event = Some evt \<rparr>,
                Some (upgraded a inp))))"
proof -
  have up: "Agent_Upgrade a (ui_NewLevel inp) (ui_Now inp) =
      Inr (a \<lparr> ag_Level := ui_NewLevel inp, ag_UpdatedAt := ui_Now inp \<rparr>)"
    using assms by (simp add: Agent_Upgrade_Inr upgrade_pre_def)
  have pre: "ui_OperatorDID inp \<noteq> []" "\<not> is_zero_time (ui_Now inp)"
    "\<not> (ag_State a \<noteq> StateActive \<and> ag_State a \<noteq> StateRegistered)"
    "\<not> (ui_AgentSelfDID inp \<noteq> [] \<and> ui_OperatorDID inp = ui_AgentSelfDID inp)"
    "Level_IsValid (ui_NewLevel inp)" "\<not> ui_NewLevel inp \<le> ag_Level a"
    "ui_NewLevel inp = ag_Level a + 1"
    "(ag_Permissions a OR ui_NewPerms inp) AND NOT (DefaultMaxPermissions (ui_NewLevel inp)) = 0"
    using assms level_step_conv [of "ui_NewLevel inp" "ag_Level a"]
    by (auto simp: upgrade_pre_def)
  have same: "a \<lparr> ag_Level := ui_NewLevel inp, ag_UpdatedAt := ui_Now inp \<rparr>
      \<lparr> ag_Permissions := ag_Permissions a OR ui_NewPerms inp,
      ag_LastUpgradeBy := ui_OperatorDID inp, ag_UpdatedAt := ui_Now inp \<rparr> = upgraded a inp"
    by (simp add: upgraded_def)
  have id: "ag_UUID (upgraded a inp) = ag_UUID a" by (simp add: upgraded_def)
  from pre show ?thesis
    unfolding UpgradeAgent_def option.case Let_def up sum.case same id by auto
qed

lemma upgraded_event_built:
  assumes "upgrade_pre a inp" and "\<not> UUID_IsZero (ag_UUID a)"
  shows "\<exists>evt. NewAgentUpgradedEventV1 (ag_UUID a @ '':upgrade:'' @ ts) (ag_UUID a) (ag_Level a)
     (ui_NewLevel inp) op np rs (ui_OperatorDID inp) (ui_Now inp) = Inr evt
   \<and> ue_OldLevel evt = ag_Level a \<and> ue_NewLevel evt = ui_NewLevel inp \<and> ue_OldPerms evt = op
   \<and> ue_NewPerms evt = np \<and> ev_AgentUUID evt = ag_UUID a"
proof -
  have "Level_IsValid (ag_Level a)" "Level_IsValid (ui_NewLevel inp)"
    "\<not> ui_NewLevel inp \<le> ag_Level a"
    using assms(1) level_step_conv [of "ui_NewLevel inp" "ag_Level a"]
    by (auto simp: upgrade_pre_def Level_IsValid_iff)
  then show ?thesis
    using assms by (simp add: NewAgentUpgradedEventV1_def baseEventCheck_def upgrade_pre_def)
qed

text \<open>C6: \<open>UpgradeAgent\<close> on an agent with a UUID succeeds exactly when the operator is named and
  is not the agent itself, the clock is set, the agent is active or registered, the new level
  is the next one, the merged permissions fit it and the changed agent passes the invariants.
  It then leaves the agent with the new level, the union of the permissions and the operator
  recorded, and reports the old and new values in the event.\<close>

theorem upgrade_agent_spec:
  assumes "\<not> UUID_IsZero (ag_UUID a)"
  shows "(\<exists>out a'. UpgradeAgent fmt_time (Some a) inp = (Inr out, a')) =
      (upgrade_pre a inp \<and> CheckInvariants (upgraded a inp) (ui_Now inp) = None)
   \<and> (\<forall>out a'. UpgradeAgent fmt_time (Some a) inp = (Inr out, a') \<longrightarrow>
        a' = Some (upgraded a inp) \<and> uo_Agent out = upgraded a inp
      \<and> (\<exists>e. uo_Event out = Some e \<and> ue_OldLevel e = ag_Level a
           \<and> unat (ue_NewLevel e) = unat (ag_Level a) + 1
           \<and> ue_OldPerms e = ag_Permissions a
           \<and> ue_NewPerms e = ag_Permissions (upgraded a inp)))"
proof (cases "upgrade_pre a inp")
  case False
  with UpgradeAgent_not_pre [OF False, of fmt_time] show ?thesis by auto
next
  case True
  then have "unat (ui_NewLevel inp) = unat (ag_Level a) + 1"
    by (simp add: upgrade_pre_def unat_word_ariths)
  moreover have "ag_Permissions (upgraded a inp) = ag_Permissions a OR ui_NewPerms inp"
    by (simp add: upgraded_def)
  moreover obtain evt where
    "NewAgentUpgradedEventV1 (ag_UUID a @ '':upgrade:'' @ fmt_time (ui_Now inp)) (ag_UUID a)
       (ag_Level a) (ui_NewLevel inp) (ag_Permissions a) (ag_Permissions a OR ui_NewPerms inp)
       (ui_Reason inp) (ui_OperatorDID inp) (ui_Now inp) = Inr evt"
    "ue_OldLevel evt = ag_Level a" "ue_NewLevel evt = ui_NewLevel inp"
    "ue_OldPerms evt = ag_Permissions a"
    "ue_NewPerms evt = ag_Permissions a OR ui_NewPerms inp"
    using upgraded_event_built [OF True assms] by blast
  ultimately show ?thesis
    using True by (auto simp: UpgradeAgent_pre [OF True] split: option.splits)
qed

text \<open>When every check before the change passes but the merged permissions hold a temporary
  bit that has expired, \<open>UpgradeAgent\<close> returns an error and the caller's agent is upgraded all
  the same: the re-check of the invariants comes after the assignments, and nothing undoes
  them.\<close>

theorem upgrade_error_after_mutation:
  assumes "upgrade_pre a inp" and "(b, t) \<in> set (ag_TempPermissions a)" and "t \<le> ui_Now inp"
    and "bit (ag_Permissions a OR ui_NewPerms inp) (unat b)"
  shows "\<exists>e. UpgradeAgent fmt_time (Some a) inp = (Inl e, Some (upgraded a inp))
           \<and> errors_is e ErrInvariantFailed \<and> upgraded a inp \<noteq> a"
proof -
  have "\<not> no_expired_temp (upgraded a inp) (ui_Now inp)"
    using assms(2-4)
    by (force simp: no_expired_temp_def list_all_iff upgraded_def not_less [symmetric])
  then obtain err where "CheckInvariants (upgraded a inp) (ui_Now inp) = Some err"
    using CheckInvariants_None_iff by blast
  moreover have "ag_Level (upgraded a inp) \<noteq> ag_Level a"
    using assms(1) by (auto simp: upgraded_def upgrade_pre_def)
  ultimately show ?thesis
    by (auto simp: UpgradeAgent_pre [OF assms(1)])
qed

text \<open>A concrete agent and upgrade request for the witnesses.\<close>

definition sample_agent :: agent where
  "sample_agent =
     \<lparr> ag_UUID = ''0123456789abcdef0123456789ABCDEF'', ag_Owner = ''acme'',
       ag_Level = 1, ag_State = StateActive, ag_BanReason = [], ag_PublicKey = ''k'',
       ag_TxHash = [], ag_Signature = [], ag_Permissions = 1, ag_RegisteredAt = Time 5,
       ag_UpdatedAt = Time 5, ag_BannedAt = None, ag_ExpiresAt = None, ag_LastUpgradeBy = [],
       ag_TempPermissions = [(3, Time 9)] \<rparr>"

definition sample_upgrade :: "u64 \<Rightarrow> upgrade_input" where
  "sample_upgrade np =
     \<lparr> ui_NewLevel = 2, ui_NewPerms = np, ui_OperatorDID = ''did:op'',
       ui_AgentSelfDID = ''did:self'', ui_Now = Time 10, ui_Reason = ''ok'' \<rparr>"

lemma sample_uuid_ok: "uuidPattern ''0123456789abcdef0123456789ABCDEF''"
  by (simp add: uuidPattern_def take_hex_def is_hex_char_def)

lemma sample_pre: "np = 0 \<or> np = 8 \<Longrightarrow> upgrade_pre sample_agent (sample_upgrade np)"
  by (auto simp: upgrade_pre_def sample_agent_def sample_upgrade_def DefaultMaxPermissions_def
      state_simps is_zero_time_def zero_time_def StateActive_def)

lemma sample_uuid_not_zero: "\<not> UUID_IsZero (ag_UUID sample_agent)"
  using uuidPattern_not_zero [OF sample_uuid_ok] by (simp add: sample_agent_def)

theorem upgrade_agent_spec_witness:
  "\<exists>out a'. UpgradeAgent (\<lambda>t. ''20260101'') (Some sample_agent) (sample_upgrade 0) = (Inr out, a')"
proof -
  have "CheckInvariants (upgraded sample_agent (sample_upgrade 0)) (Time 10) = None"
    by (simp add: CheckInvariants_None_iff upgraded_def sample_agent_def sample_upgrade_def
        no_expired_temp_def State_IsValid_def perms_within_def DefaultMaxPermissions_def state_simps)
  moreover have "ui_Now (sample_upgrade 0) = Time 10" by (simp add: sample_upgrade_def)
  ultimately show ?thesis
    using upgrade_agent_spec [OF sample_uuid_not_zero, of "\<lambda>t. ''20260101''" "sample_upgrade 0"]
      sample_pre [of 0] by auto
qed

theorem upgrade_error_after_mutation_witness:
  "\<exists>e. UpgradeAgent (\<lambda>t. ''20260101'') (Some sample_agent) (sample_upgrade 8)
      = (Inl e, Some (upgraded sample_agent (sample_upgrade 8)))"
proof -
  have "(3, Time 9) \<in> set (ag_TempPermissions sample_agent)"
    "Time 9 \<le> ui_Now (sample_upgrade 8)"
    "bit (ag_Permissions sample_agent OR ui_NewPerms (sample_upgrade 8)) (unat (3 :: uint))"
    by (simp_all add: sample_agent_def sample_upgrade_def less_eq_time_def)
  from upgrade_error_after_mutation [OF sample_pre this, of "\<lambda>t. ''20260101''"]
  show ?thesis by blast
qed

section \<open>Properties of events\<close>

text \<open>The word that names the kind of an event in its idempotency key.\<close>

fun event_kind :: "any_event \<Rightarrow> string" where
  "event_kind (RegisteredV1 _) = ''registered''"
| "event_kind (UpgradedV1 _) = ''upgraded''"
| "event_kind (BannedV1 _) = ''banned''"
| "event_kind (RevokedV1 _) = ''revoked''"
| "event_kind UnknownEvent = []"

lemma FromDomainEvent_key:
  "FromDomainEvent ev = Inr env \<Longrightarrow>
     \<exists>eid. oe_IdempotencyKey env =
             oe_AggregateID env @ CHR '':'' # event_kind ev @ CHR '':'' # eid
         \<and> map_of (oe_Payload env) ''event_id'' = Some (PString eid)"
proof (cases ev)
  case (RegisteredV1 x)
  assume "FromDomainEvent ev = Inr env"
  with RegisteredV1 show ?thesis by (cases x) auto
next
  case (UpgradedV1 x)
  assume "FromDomainEvent ev = Inr env"
  with UpgradedV1 show ?thesis by (cases x) auto
next
  case (BannedV1 x)
  assume "FromDomainEvent ev = Inr env"
  with BannedV1 show ?thesis by (cases x) (auto simp: Let_def split: option.splits)
next
  case (RevokedV1 x)
  assume "FromDomainEvent ev = Inr env"
  with RevokedV1 show ?thesis by (cases x) auto
qed simp

lemma append_colon_eq:
  "CHR '':'' \<notin> set a \<Longrightarrow> CHR '':'' \<notin> set b \<Longrightarrow>
   a @ CHR '':'' # x = b @ CHR '':'' # y \<longleftrightarrow> a = b \<and> x = y"
proof (induction a arbitrary: b)
  case Nil
  then show ?case by (cases b) auto
next
  case (Cons c a)
  then show ?case by (cases b) auto
qed

lemma uuid_no_colon: "uuidPattern u \<Longrightarrow> CHR '':'' \<notin> set u"
  using uuidPattern_chars by (force simp: is_hex_char_def)

lemma event_kind_no_colon: "CHR '':'' \<notin> set (event_kind ev)"
  by (cases ev) simp_all

text \<open>The idempotency keys of two events of agents with well-formed UUIDs are equal only if
  the events are of the same kind, about the same agent and have the same event ID.\<close>

theorem idempotency_key_injective:
  assumes "FromDomainEvent ev1 = Inr env1" and "FromDomainEvent ev2 = Inr env2"
    and "UUID_Validate (oe_AggregateID env1) = None"
    and "UUID_Validate (oe_AggregateID env2) = None"
    and "oe_IdempotencyKey env1 = oe_IdempotencyKey env2"
  shows "event_kind ev1 = event_kind ev2 \<and> oe_AggregateID env1 = oe_AggregateID env2
       \<and> map_of (oe_Payload env1) ''event_id'' = map_of (oe_Payload env2) ''event_id''"
proof -
  obtain e1 e2 where
    "oe_AggregateID env1 @ CHR '':'' # event_kind ev1 @ CHR '':'' # e1 =
     oe_AggregateID env2 @ CHR '':'' # event_kind ev2 @ CHR '':'' # e2"
    and ids: "map_of (oe_Payload env1) ''event_id'' = Some (PString e1)"
      "map_of (oe_Payload env2) ''event_id'' = Some (PString e2)"
    using FromDomainEvent_key [OF assms(1)] FromDomainEvent_key [OF assms(2)] assms(5) by metis
  moreover have "CHR '':'' \<notin> set (oe_AggregateID env1)" "CHR '':'' \<notin> set (oe_AggregateID env2)"
    using assms(3,4) by (simp_all add: UUID_Validate_iff uuid_no_colon)
  ultimately show ?thesis
    using ids by (simp add: append_colon_eq event_kind_no_colon)
qed

theorem idempotency_key_injective_witness:
  "\<exists>env. FromDomainEvent (RevokedV1 (Some \<lparr> ev_EventID = ''e1'',
       ev_EventType = EventAgentRevokedV1, ev_OccurredAt = Time 1,
       ev_AgentUUID = ''0123456789abcdef0123456789ABCDEF'', ev_OperatorDID = ''op'',
       rv_Reason = ''x'' \<rparr>)) = Inr env
   \<and> event_kind (RevokedV1 None) = event_kind (RevokedV1 None)
   \<and> map_of (oe_Payload env) ''event_id'' = map_of (oe_Payload env) ''event_id''"
  (is "\<exists>env. FromDomainEvent ?ev = Inr env \<and> _")
proof -
  obtain env where e: "FromDomainEvent ?ev = Inr env"
    and "oe_AggregateID env = ''0123456789abcdef0123456789ABCDEF''"
    by simp
  then have "UUID_Validate (oe_AggregateID env) = None"
    by (simp add: UUID_Validate_iff sample_uuid_ok)
  from idempotency_key_injective [OF e e this this refl] e show ?thesis by blast
qed

text \<open>The default generator always answers with a well-formed, dashed, 36-character UUID when
  the random source fills its 8-byte buffer, and passes on its error otherwise.\<close>

theorem default_generator_valid:
  assumes "length rb = 8"
  shows "(\<exists>u. defaultUUIDGenerator now (Inr rb) = Inr u \<and> UUID_Validate u = None
             \<and> length u = 36)
       \<and> defaultUUIDGenerator now (Inl e) = Inl e"
  using defaultUUIDGenerator_valid_aux [OF assms, of now]
  by (auto simp: UUID_Validate_iff) (simp add: defaultUUIDGenerator_def)

theorem default_generator_valid_witness:
  "\<exists>u. defaultUUIDGenerator 1767225600000 (Inr ''abcdefgh'') = Inr u \<and> UUID_Validate u = None"
  using default_generator_valid [of "''abcdefgh''" 1767225600000] by auto

end
