(* ===== verification/LocalBackend.thy ===== *)
theory LocalBackend
  imports Persistence DomainRules "HOL-Library.Multiset"
begin

text \<open>
  The off-chain identity backend, \<open>src/core/backend/local.go\<close>. An operation takes the backend
  (its interfaces and configuration), what it reads from its environment (the clock and the
  UUID generator), its arguments and the pair of the store's and the cache's state. An
  operation that holds the backend's mutex is one step.

  \<open>spec_register\<close>, \<open>spec_upgrade\<close> and \<open>spec_move\<close> are the abstract specification: a registry is
  the map of the agents and of their audit logs, moved along the state table of the domain.
  The lemmas of \<open>persistence_contract\<close> in this theory show that the backend refines it over
  every store that keeps the contract and with every cache.
\<close>

section \<open>The backend\<close>

record backend_env =
  en_uuid :: "go_error + string"
  en_now :: time

text \<open>
  \<open>newV7\<close> is the answer of the library's \<open>uuid.NewV7().String()\<close>, \<open>rand\<close> the 16 bytes or the
  error of \<open>rand.Read\<close> in the fallback.
\<close>

definition generateUUIDv7 :: "go_error + string \<Rightarrow> go_error + string \<Rightarrow> go_error + string" where
  "generateUUIDv7 newV7 rand =
     (case newV7 of
        Inr u \<Rightarrow> Inr u
      | Inl _ \<Rightarrow>
          (case rand of
             Inl err \<Rightarrow> Inl err
           | Inr b \<Rightarrow>
               Inr (hex_encode (slice 0 4 b) @ ''-'' @ hex_encode (slice 4 6 b) @ ''-''
                    @ hex_encode (slice 6 8 b) @ ''-'' @ hex_encode (slice 8 10 b) @ ''-''
                    @ hex_encode (slice 10 16 b))))"

record local_config =
  lcf_OwnerKey :: string
  lcf_CacheTTL :: duration
  lcf_MaxLogsPerAgent :: int

record ('s, 'c) local_backend =
  lb_pers :: "'s persistence"
  lb_cache :: "'c cache"
  lb_cfg :: local_config
  lb_closed :: bool

definition NewLocalBackend ::
  "'s persistence option \<Rightarrow> 'c cache option \<Rightarrow> local_config \<Rightarrow>
   go_error + ('s, 'c) local_backend" where
  "NewLocalBackend pers cch cfg =
     (case pers of
        None \<Rightarrow> Inl ErrBackendUnavailable
      | Some p \<Rightarrow>
          (let cfg1 = (if lcf_OwnerKey cfg = [] then cfg \<lparr> lcf_OwnerKey := ''agentid:agent:'' \<rparr>
                       else cfg);
               cfg2 = (if lcf_CacheTTL cfg1 = 0 then cfg1 \<lparr> lcf_CacheTTL := 15 * minute \<rparr>
                       else cfg1);
               cfg3 = (if lcf_MaxLogsPerAgent cfg2 = 0
                       then cfg2 \<lparr> lcf_MaxLogsPerAgent := 1000 \<rparr> else cfg2);
               c = (case cch of None \<Rightarrow> noopCache | Some c \<Rightarrow> c)
           in Inr \<lparr> lb_pers = p, lb_cache = c, lb_cfg = cfg3, lb_closed = False \<rparr>))"

definition Local_BackendType :: string where
  "Local_BackendType = TypeLocal"

definition Local_Close :: "('s, 'c) local_backend \<Rightarrow> go_error option \<times> ('s, 'c) local_backend" where
  "Local_Close b = (None, b \<lparr> lb_closed := True \<rparr>)"

definition local_key :: "('s, 'c) local_backend \<Rightarrow> string \<Rightarrow> string" where
  "local_key b u = lcf_OwnerKey (lb_cfg b) @ u"

definition cache_set :: "('s, 'c) local_backend \<Rightarrow> string \<Rightarrow> 'c \<Rightarrow> 'c" where
  "cache_set b u c = snd (c_Set (lb_cache b) (local_key b u) None (lcf_CacheTTL (lb_cfg b)) c)"

definition cache_del :: "('s, 'c) local_backend \<Rightarrow> string \<Rightarrow> 'c \<Rightarrow> 'c" where
  "cache_del b u c = snd (c_Del (lb_cache b) (local_key b u) c)"

definition empty_log :: "string \<Rightarrow> string \<Rightarrow> time \<Rightarrow> backend_log" where
  "empty_log u action t =
     \<lparr> bl_UUID = u, bl_Action = action, bl_Actor = [], bl_OldValue = [], bl_NewValue = [],
       bl_Reason = [], bl_TxHash = [], bl_OccurredAt = t \<rparr>"

definition Local_RegisterAgent ::
  "('s, 'c) local_backend \<Rightarrow> backend_env \<Rightarrow> backend_register_request option \<Rightarrow> 's \<times> 'c \<Rightarrow>
   (go_error + backend_credential) \<times> 's \<times> 'c" where
  "Local_RegisterAgent b env req = (\<lambda>(s, c).
     (case req of None \<Rightarrow> (Inl (Errorf ''%w: nil/empty owner'' [ErrBackendUnavailable]), s, c)
      | Some rq \<Rightarrow>
      if rq_Owner rq = [] then (Inl (Errorf ''%w: nil/empty owner'' [ErrBackendUnavailable]), s, c)
      else if rq_Level rq = 0 then (Inl (Errorf ''%w: zero level'' [ErrBackendUnavailable]), s, c)
      else if rq_PublicKey rq = []
        then (Inl (Errorf ''%w: empty pubkey'' [ErrBackendUnavailable]), s, c)
      else case en_uuid env of Inl err \<Rightarrow> (Inl err, s, c) | Inr uid \<Rightarrow>
        (let now = en_now env;
             info = \<lparr> ai_UUID = uid, ai_Owner = rq_Owner rq, ai_Level = rq_Level rq,
                      ai_State = StateRegistered, ai_Permission = rq_Permission rq,
                      ai_PublicKey = rq_PublicKey rq, ai_TxHash = [],
                      ai_RegisteredAt = now, ai_UpdatedAt = now \<rparr>
         in case p_PutAgent (lb_pers b) (Some info) s of
              (Some err, s1) \<Rightarrow> (Inl (Errorf ''backend: put agent: %w'' [err]), s1, c)
            | (None, s1) \<Rightarrow>
                (let s2 = snd (p_AppendLog (lb_pers b)
                       (Some ((empty_log uid ''register'' now)
                          \<lparr> bl_Actor := rq_Owner rq, bl_NewValue := ''registered'' \<rparr>)) s1);
                     c1 = cache_set b uid c
                 in (Inr \<lparr> bc_UUID = uid, bc_Owner = rq_Owner rq, bc_Level = rq_Level rq,
                           bc_State = StateRegistered, bc_Permission = rq_Permission rq,
                           bc_PublicKey = rq_PublicKey rq, bc_TxHash = [],
                           bc_CreatedAt = now, bc_UpdatedAt = now \<rparr>, s2, c1)))))"

definition Local_GetAgentInfo ::
  "('s, 'c) local_backend \<Rightarrow> string \<Rightarrow> 's \<times> 'c \<Rightarrow> (go_error + agent_info) \<times> 's \<times> 'c" where
  "Local_GetAgentInfo b u = (\<lambda>(s, c).
     (if u = [] then (Inl (Errorf ''%w: empty uuid'' [ErrBackendUnavailable]), s, c)
      else
        (let c1 = snd (c_Get (lb_cache b) (local_key b u) c)
         in case p_GetAgent (lb_pers b) u s of
              Inl err \<Rightarrow> (Inl ErrAgentNotFound, s, c1)
            | Inr info \<Rightarrow> (Inr info, s, cache_set b u c1))))"

definition Local_UpdateAgentLevel ::
  "('s, 'c) local_backend \<Rightarrow> backend_env \<Rightarrow> string \<Rightarrow> u8 \<Rightarrow> string \<Rightarrow> 's \<times> 'c \<Rightarrow>
   go_error option \<times> 's \<times> 'c" where
  "Local_UpdateAgentLevel b env u newLevel reason = (\<lambda>(s, c).
     (if u = [] then (Some ErrBackendUnavailable, s, c)
      else case p_GetAgent (lb_pers b) u s of Inl err \<Rightarrow> (Some ErrAgentNotFound, s, c)
      | Inr info \<Rightarrow>
        if ai_State info = StateBanned \<or> ai_State info = StateUnregistered
          then (Some (Errorf ''%w: %s -> upgrade'' [ErrInvalidState]), s, c)
        else
          (let oldLevel = ai_Level info in
           if newLevel \<le> oldLevel
           then (Some (Errorf ''%w: %d -> %d (not upgrade)'' [ErrInvalidState]), s, c)
           else
             (let info1 = info \<lparr> ai_Level := newLevel, ai_UpdatedAt := en_now env \<rparr>
              in case p_PutAgent (lb_pers b) (Some info1) s of
                   (Some err, s1) \<Rightarrow> (Some err, s1, c)
                 | (None, s1) \<Rightarrow>
                     (None,
                      snd (p_AppendLog (lb_pers b)
                        (Some ((empty_log u ''upgrade'' (ai_UpdatedAt info1))
                          \<lparr> bl_OldValue := ''level='' @ dec_of_nat (unat oldLevel),
                             bl_NewValue := ''level='' @ dec_of_nat (unat newLevel),
                             bl_Reason := reason \<rparr>)) s1),
                      cache_del b u c)))))"

definition Local_BanAgent ::
  "('s, 'c) local_backend \<Rightarrow> backend_env \<Rightarrow> string \<Rightarrow> string \<Rightarrow> 's \<times> 'c \<Rightarrow>
   go_error option \<times> 's \<times> 'c" where
  "Local_BanAgent b env u reason = (\<lambda>(s, c).
     (case p_GetAgent (lb_pers b) u s of Inl err \<Rightarrow> (Some ErrAgentNotFound, s, c)
      | Inr info \<Rightarrow>
        if ai_State info = StateBanned then (None, s, c)
        else if ai_State info = StateUnregistered
          then (Some (Errorf ''%w: unregistered -> banned'' [ErrInvalidState]), s, c)
        else
          (let oldState = ai_State info;
               info1 = info \<lparr> ai_State := StateBanned, ai_UpdatedAt := en_now env \<rparr>
           in case p_PutAgent (lb_pers b) (Some info1) s of
                (Some err, s1) \<Rightarrow> (Some err, s1, c)
              | (None, s1) \<Rightarrow>
                  (None,
                   snd (p_AppendLog (lb_pers b)
                     (Some ((empty_log u ''ban'' (ai_UpdatedAt info1))
                       \<lparr> bl_OldValue := oldState, bl_NewValue := StateBanned,
                          bl_Reason := reason \<rparr>)) s1),
                   cache_del b u c))))"

definition Local_UnbanAgent ::
  "('s, 'c) local_backend \<Rightarrow> backend_env \<Rightarrow> string \<Rightarrow> 's \<times> 'c \<Rightarrow> go_error option \<times> 's \<times> 'c" where
  "Local_UnbanAgent b env u = (\<lambda>(s, c).
     (case p_GetAgent (lb_pers b) u s of Inl err \<Rightarrow> (Some ErrAgentNotFound, s, c)
      | Inr info \<Rightarrow>
        if ai_State info \<noteq> StateBanned then (None, s, c)
        else
          (let info1 = info \<lparr> ai_State := StateActive, ai_UpdatedAt := en_now env \<rparr>
           in case p_PutAgent (lb_pers b) (Some info1) s of
                (Some err, s1) \<Rightarrow> (Some err, s1, c)
              | (None, s1) \<Rightarrow>
                  (None,
                   snd (p_AppendLog (lb_pers b)
                     (Some ((empty_log u ''unban'' (ai_UpdatedAt info1))
                       \<lparr> bl_OldValue := StateBanned, bl_NewValue := StateActive \<rparr>)) s1),
                   cache_del b u c))))"

definition Local_UnregisterAgent ::
  "('s, 'c) local_backend \<Rightarrow> backend_env \<Rightarrow> string \<Rightarrow> 's \<times> 'c \<Rightarrow> go_error option \<times> 's \<times> 'c" where
  "Local_UnregisterAgent b env u = (\<lambda>(s, c).
     (case p_GetAgent (lb_pers b) u s of Inl err \<Rightarrow> (Some ErrAgentNotFound, s, c)
      | Inr info \<Rightarrow>
        if ai_State info = StateUnregistered then (None, s, c)
        else
          (let oldState = ai_State info;
               info1 = info \<lparr> ai_State := StateUnregistered, ai_UpdatedAt := en_now env \<rparr>
           in case p_PutAgent (lb_pers b) (Some info1) s of
                (Some err, s1) \<Rightarrow> (Some err, s1, c)
              | (None, s1) \<Rightarrow>
                  (None,
                   snd (p_AppendLog (lb_pers b)
                     (Some ((empty_log u ''unregister'' (ai_UpdatedAt info1))
                       \<lparr> bl_OldValue := oldState, bl_NewValue := StateUnregistered \<rparr>)) s1),
                   cache_del b u c))))"

text \<open>
  \<open>sort.Slice\<close> does not say how it orders equal elements; the model keeps their order.
\<close>

definition Local_GetChangeLogs ::
  "('s, 'c) local_backend \<Rightarrow> string \<Rightarrow> 's \<Rightarrow> go_error + backend_log list" where
  "Local_GetChangeLogs b u s =
     (if u = [] then Inl ErrBackendUnavailable
      else case p_ListLogs (lb_pers b) u 0 s of
          Inl err \<Rightarrow> Inl err
        | Inr ls \<Rightarrow> Inr (sort_key (\<lambda>l. - unix_nano (bl_OccurredAt l)) ls))"

definition Local_BatchGetAgentInfo ::
  "('s, 'c) local_backend \<Rightarrow> string list \<Rightarrow> 's \<Rightarrow> info_map option \<times> go_error option" where
  "Local_BatchGetAgentInfo b us s =
     (if us = [] then (Some [], None) else p_BatchGet (lb_pers b) us s)"

section \<open>The abstract registry\<close>

type_synonym registry = "(string \<Rightarrow> agent_info option) \<times> (string \<Rightarrow> backend_log list)"

definition reg_write :: "agent_info \<Rightarrow> backend_log \<Rightarrow> registry \<Rightarrow> registry" where
  "reg_write r l R = ((fst R)(ai_UUID r \<mapsto> r), (snd R)(bl_UUID l := snd R (bl_UUID l) @ [l]))"

definition spec_register :: "backend_env \<Rightarrow> backend_register_request \<Rightarrow> string \<Rightarrow> registry \<Rightarrow> registry" where
  "spec_register env rq uid =
     reg_write
       \<lparr> ai_UUID = uid, ai_Owner = rq_Owner rq, ai_Level = rq_Level rq,
         ai_State = StateRegistered, ai_Permission = rq_Permission rq,
         ai_PublicKey = rq_PublicKey rq, ai_TxHash = [],
         ai_RegisteredAt = en_now env, ai_UpdatedAt = en_now env \<rparr>
       ((empty_log uid ''register'' (en_now env))
          \<lparr> bl_Actor := rq_Owner rq, bl_NewValue := StateRegistered \<rparr>)"

text \<open>A registration: what it refuses, and the entry that it makes under a fresh identifier.\<close>

definition spec_register_call ::
  "backend_env \<Rightarrow> backend_register_request option \<Rightarrow> registry \<Rightarrow> bool \<times> registry" where
  "spec_register_call env req R =
     (case (req, en_uuid env) of
        (Some rq, Inr uid) \<Rightarrow>
          if rq_Owner rq \<noteq> [] \<and> rq_Level rq \<noteq> 0 \<and> rq_PublicKey rq \<noteq> [] \<and> uid \<noteq> []
          then (True, spec_register env rq uid R) else (False, R)
      | _ \<Rightarrow> (False, R))"

definition credential_of_record :: "agent_info \<Rightarrow> backend_credential" where
  "credential_of_record r = \<lparr> bc_UUID = ai_UUID r, bc_Owner = ai_Owner r, bc_Level = ai_Level r,
     bc_State = ai_State r, bc_Permission = ai_Permission r, bc_PublicKey = ai_PublicKey r,
     bc_TxHash = ai_TxHash r, bc_CreatedAt = ai_RegisteredAt r, bc_UpdatedAt = ai_UpdatedAt r \<rparr>"

definition failure :: "go_error + 'a \<Rightarrow> go_error option" where
  "failure r = (case r of Inl e \<Rightarrow> Some e | Inr _ \<Rightarrow> None)"

definition spec_upgrade ::
  "backend_env \<Rightarrow> string \<Rightarrow> u8 \<Rightarrow> string \<Rightarrow> registry \<Rightarrow> bool \<times> registry" where
  "spec_upgrade env u l reason R =
     (case fst R u of
        None \<Rightarrow> (False, R)
      | Some r \<Rightarrow>
          if ai_State r \<in> {StateRegistered, StateActive} \<and> ai_Level r < l
          then (True, reg_write (r \<lparr> ai_Level := l, ai_UpdatedAt := en_now env \<rparr>)
                 ((empty_log u ''upgrade'' (en_now env))
                    \<lparr> bl_OldValue := ''level='' @ dec_of_nat (unat (ai_Level r)),
                       bl_NewValue := ''level='' @ dec_of_nat (unat l),
                       bl_Reason := reason \<rparr>) R)
          else (False, R))"

text \<open>
  A move to \<open>target\<close>: nothing to do in the states \<open>idem\<close>, otherwise along the domain's table.
\<close>

definition spec_move ::
  "backend_env \<Rightarrow> string \<Rightarrow> string \<Rightarrow> string \<Rightarrow> string \<Rightarrow> (string \<Rightarrow> bool) \<Rightarrow> registry \<Rightarrow>
   bool \<times> registry" where
  "spec_move env u action target reason idem R =
     (case fst R u of
        None \<Rightarrow> (False, R)
      | Some r \<Rightarrow>
          if idem (ai_State r) then (True, R)
          else if CanTransition (ai_State r) target
          then (True, reg_write (r \<lparr> ai_State := target, ai_UpdatedAt := en_now env \<rparr>)
                 ((empty_log u action (en_now env))
                    \<lparr> bl_OldValue := ai_State r, bl_NewValue := target,
                       bl_Reason := reason \<rparr>) R)
          else (False, R))"

definition states_valid :: "registry \<Rightarrow> bool" where
  "states_valid R \<longleftrightarrow> (\<forall>u r. fst R u = Some r \<longrightarrow> State_IsValid (ai_State r))"

text \<open>
  An operation refines a specification: the store keeps its invariant, the operation fails
  exactly where the specification does, and the contents of the store move as the registry.
\<close>

definition refines ::
  "('s \<Rightarrow> bool) \<Rightarrow> ('s \<Rightarrow> registry) \<Rightarrow> go_error option \<times> 's \<times> 'c \<Rightarrow> bool \<times> registry \<Rightarrow> bool" where
  "refines sinv contents res sp \<longleftrightarrow>
     sinv (fst (snd res)) \<and> sp = (fst res = None, contents (fst (snd res)))"

section \<open>Refinement over every store that keeps the contract\<close>

context persistence_contract
begin

lemma put_append:
  assumes "pinv s" and "ai_UUID r = u" and "bl_UUID l = u" and "u \<noteq> []"
  obtains s1 s2 where "p_PutAgent pers (Some r) s = (None, s1)"
    and "p_AppendLog pers (Some l) s1 = (None, s2)" and "pinv s2"
    and "agents s2 = (agents s)(u \<mapsto> r)" and "logs s2 = (logs s)(u := logs s u @ [l])"
proof -
  obtain s1 where s1: "p_PutAgent pers (Some r) s = (None, s1)" "pinv s1"
    "agents s1 = (agents s)(u \<mapsto> r)" "logs s1 = logs s"
    using put [of s r] assms by auto
  moreover obtain s2 where "p_AppendLog pers (Some l) s1 = (None, s2)" "pinv s2"
    "agents s2 = agents s1" "logs s2 = (logs s1)(u := logs s1 u @ [l])"
    using append [OF s1(2), of l] assms by auto
  ultimately show thesis using that by simp
qed

lemma key_not_empty: "pinv s \<Longrightarrow> agents s u = Some r \<Longrightarrow> u \<noteq> []"
  using no_empty_key by auto

lemma local_register_refines:
  assumes "pinv s" and "lb_pers b = pers" and "rq_Owner rq \<noteq> []" and "rq_Level rq \<noteq> 0"
    and "rq_PublicKey rq \<noteq> []" and "en_uuid env = Inr uid" and "uid \<noteq> []"
  shows "\<exists>cred s' c'. Local_RegisterAgent b env (Some rq) (s, c) = (Inr cred, s', c')
       \<and> pinv s' \<and> (agents s', logs s') = spec_register env rq uid (agents s, logs s)
       \<and> agents s' uid = Some (the (agents s' uid)) \<and> cred = credential_of_record (the (agents s' uid))
       \<and> bc_UUID cred = uid"
proof -
  let ?info = "\<lparr> ai_UUID = uid, ai_Owner = rq_Owner rq, ai_Level = rq_Level rq,
      ai_State = StateRegistered, ai_Permission = rq_Permission rq,
      ai_PublicKey = rq_PublicKey rq, ai_TxHash = [],
      ai_RegisteredAt = en_now env, ai_UpdatedAt = en_now env \<rparr>"
  let ?log = "(empty_log uid ''register'' (en_now env))
      \<lparr> bl_Actor := rq_Owner rq, bl_NewValue := ''registered'' \<rparr>"
  have "ai_UUID ?info = uid" "bl_UUID ?log = uid" by (simp_all add: empty_log_def)
  then obtain s1 s2 where "p_PutAgent pers (Some ?info) s = (None, s1)"
    "p_AppendLog pers (Some ?log) s1 = (None, s2)" "pinv s2"
    "agents s2 = (agents s)(uid \<mapsto> ?info)" "logs s2 = (logs s)(uid := logs s uid @ [?log])"
    using assms(1,7) by (rule_tac put_append)
  then show ?thesis
    using assms
    by (auto simp: Local_RegisterAgent_def Let_def spec_register_def reg_write_def
        empty_log_def StateRegistered_def credential_of_record_def)
qed

lemma local_upgrade_refines:
  assumes "pinv s" and "lb_pers b = pers" and "states_valid (agents s, logs s)"
  shows "refines pinv (\<lambda>s. (agents s, logs s)) (Local_UpdateAgentLevel b env u l rs (s, c))
           (spec_upgrade env u l rs (agents s, logs s))"
proof (cases "agents s u")
  case None
  then show ?thesis
    using assms get [of s u]
    by (auto simp: refines_def Local_UpdateAgentLevel_def spec_upgrade_def)
next
  case (Some r)
  let ?r = "r \<lparr> ai_Level := l, ai_UpdatedAt := en_now env \<rparr>"
  let ?log = "(empty_log u ''upgrade'' (ai_UpdatedAt ?r))
      \<lparr> bl_OldValue := ''level='' @ dec_of_nat (unat (ai_Level r)),
         bl_NewValue := ''level='' @ dec_of_nat (unat l), bl_Reason := rs \<rparr>"
  have u: "u \<noteq> []" using key_not_empty assms(1) Some by blast
  have "ai_UUID ?r = u" "bl_UUID ?log = u"
    using get_key [OF assms(1) Some] by (simp_all add: empty_log_def)
  then obtain s1 s2 where "p_PutAgent pers (Some ?r) s = (None, s1)"
    "p_AppendLog pers (Some ?log) s1 = (None, s2)" "pinv s2"
    "agents s2 = (agents s)(u \<mapsto> ?r)" "logs s2 = (logs s)(u := logs s u @ [?log])"
    using assms(1) u by (rule_tac put_append)
  moreover have "State_IsValid (ai_State r)"
    using assms(3) Some by (auto simp: states_valid_def)
  ultimately show ?thesis
    using assms get [of s u] get_key [OF assms(1) Some] Some u
    by (auto simp: refines_def Local_UpdateAgentLevel_def spec_upgrade_def Let_def reg_write_def
        empty_log_def State_IsValid_def not_le)
qed

lemma local_move_write:
  assumes "pinv s" and "agents s u = Some r" and "ai_UUID r' = u" and "bl_UUID l = u"
  obtains s1 s2 where "p_PutAgent pers (Some r') s = (None, s1)"
    and "p_AppendLog pers (Some l) s1 = (None, s2)" and "pinv s2"
    and "(agents s2, logs s2) = reg_write r' l (agents s, logs s)"
proof -
  have "u \<noteq> []" using key_not_empty assms(1,2) by blast
  with assms put_append [OF assms(1,3,4)] that show thesis
    by (auto simp: reg_write_def)
qed

lemma local_ban_refines:
  assumes "pinv s" and "lb_pers b = pers" and "states_valid (agents s, logs s)"
  shows "refines pinv (\<lambda>s. (agents s, logs s)) (Local_BanAgent b env u rs (s, c))
           (spec_move env u ''ban'' StateBanned rs (\<lambda>st. st = StateBanned) (agents s, logs s))"
proof (cases "agents s u")
  case None
  then show ?thesis
    using assms get [of s u] by (auto simp: refines_def Local_BanAgent_def spec_move_def)
next
  case (Some r)
  let ?r = "r \<lparr> ai_State := StateBanned, ai_UpdatedAt := en_now env \<rparr>"
  let ?log = "(empty_log u ''ban'' (en_now env))
      \<lparr> bl_OldValue := ai_State r, bl_NewValue := StateBanned, bl_Reason := rs \<rparr>"
  have "ai_UUID ?r = u" "bl_UUID ?log = u"
    using get_key [OF assms(1) Some] by (simp_all add: empty_log_def)
  with assms(1) Some obtain s1 s2 where "p_PutAgent pers (Some ?r) s = (None, s1)"
    "p_AppendLog pers (Some ?log) s1 = (None, s2)" "pinv s2"
    "(agents s2, logs s2) = reg_write ?r ?log (agents s, logs s)"
    by (rule local_move_write)
  moreover have "State_IsValid (ai_State r)"
    using assms(3) Some by (auto simp: states_valid_def)
  ultimately show ?thesis
    using assms get [of s u] Some
    by (auto simp: refines_def Local_BanAgent_def spec_move_def Let_def
        State_IsValid_def CanTransition_iff)
qed

lemma local_unban_refines:
  assumes "pinv s" and "lb_pers b = pers"
  shows "refines pinv (\<lambda>s. (agents s, logs s)) (Local_UnbanAgent b env u (s, c))
           (spec_move env u ''unban'' StateActive [] (\<lambda>st. st \<noteq> StateBanned) (agents s, logs s))"
proof (cases "agents s u")
  case None
  then show ?thesis
    using assms get [of s u] by (auto simp: refines_def Local_UnbanAgent_def spec_move_def)
next
  case (Some r)
  let ?r = "r \<lparr> ai_State := StateActive, ai_UpdatedAt := en_now env \<rparr>"
  let ?log = "(empty_log u ''unban'' (en_now env))
      \<lparr> bl_OldValue := StateBanned, bl_NewValue := StateActive \<rparr>"
  have "ai_UUID ?r = u" "bl_UUID ?log = u"
    using get_key [OF assms(1) Some] by (simp_all add: empty_log_def)
  with assms(1) Some obtain s1 s2 where "p_PutAgent pers (Some ?r) s = (None, s1)"
    "p_AppendLog pers (Some ?log) s1 = (None, s2)" "pinv s2"
    "(agents s2, logs s2) = reg_write ?r ?log (agents s, logs s)"
    by (rule local_move_write)
  moreover have "?log \<lparr> bl_Reason := [] \<rparr> = ?log" by (simp add: empty_log_def)
  ultimately show ?thesis
    using assms get [of s u] Some
    by (auto simp: refines_def Local_UnbanAgent_def spec_move_def Let_def CanTransition_iff)
qed

lemma local_unregister_refines:
  assumes "pinv s" and "lb_pers b = pers" and "states_valid (agents s, logs s)"
  shows "refines pinv (\<lambda>s. (agents s, logs s)) (Local_UnregisterAgent b env u (s, c))
           (spec_move env u ''unregister'' StateUnregistered [] (\<lambda>st. st = StateUnregistered)
              (agents s, logs s))"
proof (cases "agents s u")
  case None
  then show ?thesis
    using assms get [of s u] by (auto simp: refines_def Local_UnregisterAgent_def spec_move_def)
next
  case (Some r)
  let ?r = "r \<lparr> ai_State := StateUnregistered, ai_UpdatedAt := en_now env \<rparr>"
  let ?log = "(empty_log u ''unregister'' (en_now env))
      \<lparr> bl_OldValue := ai_State r, bl_NewValue := StateUnregistered \<rparr>"
  have "ai_UUID ?r = u" "bl_UUID ?log = u"
    using get_key [OF assms(1) Some] by (simp_all add: empty_log_def)
  with assms(1) Some obtain s1 s2 where "p_PutAgent pers (Some ?r) s = (None, s1)"
    "p_AppendLog pers (Some ?log) s1 = (None, s2)" "pinv s2"
    "(agents s2, logs s2) = reg_write ?r ?log (agents s, logs s)"
    by (rule local_move_write)
  moreover have "?log \<lparr> bl_Reason := [] \<rparr> = ?log" by (simp add: empty_log_def)
  moreover have "State_IsValid (ai_State r)"
    using assms(3) Some by (auto simp: states_valid_def)
  ultimately show ?thesis
    using assms get [of s u] Some
    by (auto simp: refines_def Local_UnregisterAgent_def spec_move_def Let_def
        State_IsValid_def CanTransition_iff)
qed

lemma local_get_spec:
  assumes "pinv s" and "lb_pers b = pers" and "u \<noteq> []"
  shows "fst (Local_GetAgentInfo b u (s, c)) =
           (case agents s u of None \<Rightarrow> Inl ErrAgentNotFound | Some r \<Rightarrow> Inr r)
       \<and> fst (snd (Local_GetAgentInfo b u (s, c))) = s"
  using assms get [of s u]
  by (auto simp: Local_GetAgentInfo_def Let_def split: option.split)

lemma local_logs_spec:
  assumes "pinv s" and "lb_pers b = pers" and "u \<noteq> []"
  shows "\<exists>ls. Local_GetChangeLogs b u s = Inr ls \<and> mset ls = mset (logs s u)
       \<and> sorted_wrt (\<lambda>x y. \<not> bl_OccurredAt x < bl_OccurredAt y) ls"
proof -
  let ?k = "\<lambda>l. - unix_nano (bl_OccurredAt l)"
  have "sorted (map ?k (sort_key ?k (logs s u)))" by simp
  then have "sorted_wrt (\<lambda>x y. ?k x \<le> ?k y) (sort_key ?k (logs s u))"
    by (simp add: sorted_map)
  then have "sorted_wrt (\<lambda>x y. \<not> bl_OccurredAt x < bl_OccurredAt y) (sort_key ?k (logs s u))"
    by (rule sorted_wrt_mono_rel [rotated]) (auto simp: less_time_def)
  then show ?thesis
    using assms list_all_logs [of s u] by (simp add: Local_GetChangeLogs_def)
qed

end

section \<open>The audit trail\<close>

text \<open>
  Reading an audit log from the state \<open>st\<close>: each entry must start in the state the entries
  before it lead to and move along the domain's table.
\<close>

fun audit_path :: "string \<Rightarrow> backend_log list \<Rightarrow> string option" where
  "audit_path st [] = Some st"
| "audit_path st (l # ls) =
     (if bl_Action l = ''register'' then (if st = [] then audit_path (bl_NewValue l) ls else None)
      else if bl_Action l = ''upgrade''
        then (if st = StateRegistered \<or> st = StateActive then audit_path st ls else None)
      else if bl_OldValue l = st \<and> CanTransition st (bl_NewValue l)
        then audit_path (bl_NewValue l) ls
      else None)"

lemma audit_path_append:
  "audit_path st (ls @ ks) = (case audit_path st ls of None \<Rightarrow> None | Some st' \<Rightarrow> audit_path st' ks)"
  by (induction st ls rule: audit_path.induct) auto

definition entry_ok :: "string \<Rightarrow> agent_info option \<Rightarrow> backend_log list \<Rightarrow> bool" where
  "entry_ok u x ls =
     (case x of
        None \<Rightarrow> ls = []
      | Some r \<Rightarrow> ai_UUID r = u \<and> State_IsValid (ai_State r)
          \<and> audit_path [] ls = Some (ai_State r))"

definition reg_ok :: "registry \<Rightarrow> bool" where
  "reg_ok R \<longleftrightarrow> (\<forall>u. entry_ok u (fst R u) (snd R u))"

text \<open>One operation on the registry; a registration uses a UUID that is not in use.\<close>

inductive reg_step :: "registry \<Rightarrow> registry \<Rightarrow> bool" where
  register: "fst R uid = None \<Longrightarrow> reg_step R (spec_register env rq uid R)"
| upgrade: "reg_step R (snd (spec_upgrade env u l rs R))"
| ban: "reg_step R (snd (spec_move env u ''ban'' StateBanned rs (\<lambda>st. st = StateBanned) R))"
| unban: "reg_step R (snd (spec_move env u ''unban'' StateActive [] (\<lambda>st. st \<noteq> StateBanned) R))"
| unregister: "reg_step R (snd (spec_move env u ''unregister'' StateUnregistered []
    (\<lambda>st. st = StateUnregistered) R))"

text \<open>What happens to one agent in a step: nothing is forgotten, and the end is the end.\<close>

definition entry_kept :: "agent_info \<times> backend_log list \<Rightarrow> agent_info \<times> backend_log list \<Rightarrow> bool" where
  "entry_kept x y \<longleftrightarrow>
     ai_UUID (fst y) = ai_UUID (fst x) \<and> ai_Owner (fst y) = ai_Owner (fst x)
   \<and> ai_Permission (fst y) = ai_Permission (fst x) \<and> ai_PublicKey (fst y) = ai_PublicKey (fst x)
   \<and> ai_RegisteredAt (fst y) = ai_RegisteredAt (fst x)
   \<and> ai_Level (fst x) \<le> ai_Level (fst y)
   \<and> (\<exists>new. snd y = snd x @ new)
   \<and> (ai_State (fst x) = StateUnregistered \<longrightarrow> y = x)"

lemma entry_kept_refl [simp]: "entry_kept x x"
  by (simp add: entry_kept_def)

lemma entry_kept_trans: "entry_kept x y \<Longrightarrow> entry_kept y z \<Longrightarrow> entry_kept x z"
  by (auto simp: entry_kept_def)

lemma reg_okD: "reg_ok R \<Longrightarrow> entry_ok u (fst R u) (snd R u)"
  by (simp add: reg_ok_def)

lemma reg_ok_entry:
  "reg_ok R \<Longrightarrow> fst R u = Some r \<Longrightarrow>
     ai_UUID r = u \<and> State_IsValid (ai_State r) \<and> audit_path [] (snd R u) = Some (ai_State r)"
  using reg_okD [of R u] by (simp add: entry_ok_def)

lemma reg_ok_write_new:
  assumes "reg_ok R" and "bl_UUID l = ai_UUID r'"
    and "entry_ok (ai_UUID r') (Some r') (snd R (ai_UUID r') @ [l])"
  shows "reg_ok (reg_write r' l R)"
  using assms by (simp add: reg_ok_def reg_write_def)

lemma reg_ok_write:
  assumes "reg_ok R" and "fst R u = Some r" and "ai_UUID r' = u" and "bl_UUID l = u"
    and "State_IsValid (ai_State r')" and "audit_path (ai_State r) [l] = Some (ai_State r')"
  shows "reg_ok (reg_write r' l R)"
  using assms reg_ok_entry [OF assms(1,2)]
  by (intro reg_ok_write_new) (auto simp: entry_ok_def audit_path_append)

lemma reg_ok_spec_move:
  assumes "reg_ok R" and "action \<noteq> ''register''" and "action \<noteq> ''upgrade''"
    and "State_IsValid target"
  shows "reg_ok (snd (spec_move env u action target rs idem R))"
proof (cases "fst R u")
  case (Some r)
  with assms reg_ok_entry [OF assms(1) Some] show ?thesis
    by (auto simp: spec_move_def empty_log_def intro!: reg_ok_write)
qed (simp add: spec_move_def assms(1))

lemma reg_ok_spec_upgrade:
  assumes "reg_ok R"
  shows "reg_ok (snd (spec_upgrade env u l rs R))"
proof (cases "fst R u")
  case (Some r)
  with assms reg_ok_entry [OF assms(1) Some] show ?thesis
    by (auto simp: spec_upgrade_def empty_log_def intro!: reg_ok_write)
qed (simp add: spec_upgrade_def assms(1))

lemma reg_ok_spec_register:
  "reg_ok R \<Longrightarrow> fst R uid = None \<Longrightarrow> reg_ok (spec_register env rq uid R)"
  unfolding spec_register_def
  by (rule reg_ok_write_new)
    (use reg_okD [of R uid] in \<open>auto simp: entry_ok_def empty_log_def State_IsValid_def\<close>)

lemma reg_step_ok: "reg_step R R' \<Longrightarrow> reg_ok R \<Longrightarrow> reg_ok R'"
proof (induction rule: reg_step.induct)
  case (register R uid env rq)
  then show ?case by (simp add: reg_ok_spec_register)
next
  case (upgrade R env u l rs)
  then show ?case by (simp add: reg_ok_spec_upgrade)
qed (simp_all add: reg_ok_spec_move State_IsValid_def)

lemma spec_move_kept:
  assumes "fst R v = Some r" and "reg_ok R"
  shows "\<exists>r'. fst (snd (spec_move env u action target rs idem R)) v = Some r'
       \<and> entry_kept (r, snd R v) (r', snd (snd (spec_move env u action target rs idem R)) v)"
  using assms reg_ok_entry [OF assms(2), of u]
  by (auto simp: spec_move_def reg_write_def entry_kept_def empty_log_def split: option.split)

lemma spec_upgrade_kept:
  assumes "fst R v = Some r" and "reg_ok R"
  shows "\<exists>r'. fst (snd (spec_upgrade env u l rs R)) v = Some r'
       \<and> entry_kept (r, snd R v) (r', snd (snd (spec_upgrade env u l rs R)) v)"
  using assms reg_ok_entry [OF assms(2), of u]
  by (auto simp: spec_upgrade_def reg_write_def entry_kept_def empty_log_def split: option.split)

lemma reg_step_kept:
  assumes "reg_step R R'" and "reg_ok R" and "fst R v = Some r"
  shows "\<exists>r'. fst R' v = Some r' \<and> entry_kept (r, snd R v) (r', snd R' v)"
  using assms
proof (induction rule: reg_step.induct)
  case (register R uid env rq)
  then show ?case by (auto simp: spec_register_def reg_write_def empty_log_def entry_kept_def)
qed (simp_all add: spec_move_kept spec_upgrade_kept)

lemma reg_steps_kept:
  assumes "reg_step\<^sup>*\<^sup>* R R'" and "reg_ok R"
  shows "reg_ok R' \<and> (\<forall>v r. fst R v = Some r \<longrightarrow>
           (\<exists>r'. fst R' v = Some r' \<and> entry_kept (r, snd R v) (r', snd R' v)))"
  using assms(1)
proof (induction rule: rtranclp_induct)
  case base
  then show ?case using assms(2) by simp
next
  case (step R1 R2)
  then show ?case
    using reg_step_ok [OF step.hyps(2)] reg_step_kept [OF step.hyps(2)] entry_kept_trans
    by (meson entry_kept_trans)
qed

section \<open>Runs of the backend\<close>

text \<open>
  One call of an operation of the backend. The generator does not repeat a UUID in use.
\<close>

inductive local_step :: "('s, 'c) local_backend \<Rightarrow> 's \<times> 'c \<Rightarrow> 's \<times> 'c \<Rightarrow> bool" for b where
  register:
    "Local_RegisterAgent b env req st = (res, st') \<Longrightarrow>
     (\<And>uid. en_uuid env = Inr uid \<Longrightarrow> p_GetAgent (lb_pers b) uid (fst st) = Inl ErrAgentNotFound) \<Longrightarrow>
     local_step b st st'"
| info: "Local_GetAgentInfo b u st = (res, st') \<Longrightarrow> local_step b st st'"
| upgrade: "Local_UpdateAgentLevel b env u l rs st = (res, st') \<Longrightarrow> local_step b st st'"
| ban: "Local_BanAgent b env u rs st = (res, st') \<Longrightarrow> local_step b st st'"
| unban: "Local_UnbanAgent b env u st = (res, st') \<Longrightarrow> local_step b st st'"
| unregister: "Local_UnregisterAgent b env u st = (res, st') \<Longrightarrow> local_step b st st'"

lemma reg_ok_states_valid: "reg_ok R \<Longrightarrow> states_valid R"
  using reg_ok_entry by (auto simp: states_valid_def)

context persistence_contract
begin

lemma local_register_refused:
  assumes "pinv s" and "lb_pers b = pers" and "\<not> fst (spec_register_call env req (agents s, logs s))"
  shows "\<exists>e. Local_RegisterAgent b env req (s, c) = (Inl e, s, c)"
proof (cases "req = None \<or> en_uuid env = Inr []")
  case True
  moreover have "\<exists>e. p_PutAgent pers (Some r) s = (Some e, s)" if "ai_UUID r = []" for r
    using put_empty [OF assms(1) that] .
  ultimately show ?thesis
    using assms(2)
    by (auto simp: Local_RegisterAgent_def Let_def split: option.splits if_splits prod.splits)
      (metis agent_info.select_convs(1) option.simps(3) prod.inject)+
next
  case False
  then obtain rq where "req = Some rq" by auto
  with False assms(3) show ?thesis
    by (auto simp: Local_RegisterAgent_def spec_register_call_def split: sum.splits if_splits)
qed

lemma local_register_cases:
  assumes "Local_RegisterAgent b env req (s, c) = (res, s', c')" and "pinv s" and "lb_pers b = pers"
  shows "s' = s \<or> (\<exists>rq uid. en_uuid env = Inr uid \<and> uid \<noteq> [] \<and> pinv s'
           \<and> (agents s', logs s') = spec_register env rq uid (agents s, logs s))"
proof (cases "fst (spec_register_call env req (agents s, logs s))")
  case True
  then obtain rq uid where "req = Some rq" "rq_Owner rq \<noteq> []" "rq_Level rq \<noteq> 0" "rq_PublicKey rq \<noteq> []"
    "en_uuid env = Inr uid" "uid \<noteq> []"
    by (auto simp: spec_register_call_def split: option.splits sum.splits if_splits)
  with local_register_refines [OF assms(2,3), of rq env uid c] assms(1) show ?thesis
    by (metis prod.inject)
next
  case False
  with local_register_refused [OF assms(2,3), of env req c] assms(1) show ?thesis by auto
qed

lemma local_step_simulates:
  assumes "local_step b st st'" and "lb_pers b = pers" and "pinv (fst st)"
    and "reg_ok (agents (fst st), logs (fst st))"
  shows "pinv (fst st')
       \<and> reg_step\<^sup>*\<^sup>* (agents (fst st), logs (fst st)) (agents (fst st'), logs (fst st'))"
  using assms(1)
proof cases
  case (register env req res)
  then obtain s c s' c' where st: "st = (s, c)" "st' = (s', c')"
    by (cases st; cases st') auto
  from local_register_cases [of b env req s c res s' c'] register(1) assms(2,3) st
  consider "s' = s" | rq uid where "en_uuid env = Inr uid" "pinv s'"
    "(agents s', logs s') = spec_register env rq uid (agents s, logs s)"
    by auto
  then show ?thesis
  proof cases
    case 2
    then have "agents s uid = None"
      using register(2) assms(2,3) get [of s uid] st by (auto split: option.splits)
    then have "reg_step (agents s, logs s) (agents s', logs s')"
      unfolding 2(3) by (intro reg_step.register) simp
    with 2 st show ?thesis by auto
  qed (use assms(3) st in simp)
next
  case (info u res)
  then show ?thesis
    using assms(3) by (cases st) (auto simp: Local_GetAgentInfo_def Let_def split: if_splits sum.splits)
next
  case (upgrade env u l rs res)
  with local_upgrade_refines [OF assms(3,2) reg_ok_states_valid [OF assms(4)], of env u l rs "snd st"]
  show ?thesis
    using reg_step.upgrade [of "(agents (fst st), logs (fst st))" env u l rs]
    by (auto simp: refines_def)
next
  case (ban env u rs res)
  with local_ban_refines [OF assms(3,2) reg_ok_states_valid [OF assms(4)], of env u rs "snd st"]
  show ?thesis
    using reg_step.ban [of "(agents (fst st), logs (fst st))" env u rs]
    by (auto simp: refines_def)
next
  case (unban env u res)
  with local_unban_refines [OF assms(3,2), of env u "snd st"]
  show ?thesis
    using reg_step.unban [of "(agents (fst st), logs (fst st))" env u]
    by (auto simp: refines_def)
next
  case (unregister env u res)
  with local_unregister_refines [OF assms(3,2) reg_ok_states_valid [OF assms(4)], of env u "snd st"]
  show ?thesis
    using reg_step.unregister [of "(agents (fst st), logs (fst st))" env u]
    by (auto simp: refines_def)
qed

lemma local_run_simulates:
  assumes "(local_step b)\<^sup>*\<^sup>* st st'" and "lb_pers b = pers" and "pinv (fst st)"
    and "reg_ok (agents (fst st), logs (fst st))"
  shows "pinv (fst st')
       \<and> reg_step\<^sup>*\<^sup>* (agents (fst st), logs (fst st)) (agents (fst st'), logs (fst st'))"
  using assms(1)
proof (induction rule: rtranclp_induct)
  case (step st1 st2)
  then have "reg_ok (agents (fst st1), logs (fst st1))"
    using reg_steps_kept assms(4) by blast
  with local_step_simulates [OF step.hyps(2) assms(2)] step.IH show ?case
    by (meson rtranclp_trans)
qed (use assms(3) in simp)

lemma local_register_call_refines:
  assumes "pinv s" and "lb_pers b = pers"
  shows "refines pinv (\<lambda>s. (agents s, logs s)) (apfst failure (Local_RegisterAgent b env req (s, c)))
           (spec_register_call env req (agents s, logs s))
       \<and> (\<forall>cred s' c'. Local_RegisterAgent b env req (s, c) = (Inr cred, s', c') \<longrightarrow>
            (\<exists>r. agents s' (bc_UUID cred) = Some r \<and> cred = credential_of_record r))"
proof (cases "fst (spec_register_call env req (agents s, logs s))")
  case True
  then obtain rq uid where "req = Some rq" "rq_Owner rq \<noteq> []" "rq_Level rq \<noteq> 0" "rq_PublicKey rq \<noteq> []"
    "en_uuid env = Inr uid" "uid \<noteq> []"
    by (auto simp: spec_register_call_def split: option.splits sum.splits if_splits)
  with local_register_refines [OF assms, of rq env uid c] show ?thesis
    by (auto simp: refines_def failure_def spec_register_call_def)
next
  case False
  moreover from this obtain e where "Local_RegisterAgent b env req (s, c) = (Inl e, s, c)"
    using local_register_refused [OF assms] by blast
  ultimately show ?thesis
    using assms(1) by (auto simp: refines_def failure_def spec_register_call_def split: option.splits sum.splits)
qed

end

section \<open>Properties of the local backend over the in-memory store\<close>

abbreviation contents :: "memory_persistence \<Rightarrow> registry" where
  "contents m \<equiv> (map_of (mp_agents m), log_list m)"

lemma reg_ok_new: "reg_ok (contents NewMemoryPersistence)"
  by (simp add: reg_ok_def entry_ok_def NewMemoryPersistence_def log_list_def)

text \<open>C1: each state-changing operation of the local backend over the in-memory store, with any
  cache, implements the abstract registry: a registration is refused exactly when a field or the
  identifier is missing and otherwise makes one record, which its credential shows, with one audit
  entry; an upgrade is allowed exactly from registered and active to a higher level, a ban, an unban and an unregistration move along the domain's
  state table and repeat without effect, each change appends one audit entry, and a refused
  operation changes nothing.\<close>

theorem local_backend_refines_registry:
  assumes "lb_pers b = memory_ops" and "memory_inv m" and "states_valid (contents m)"
  shows "refines memory_inv contents (apfst failure (Local_RegisterAgent b env req (m, c)))
           (spec_register_call env req (contents m))
       \<and> (\<forall>cred m' c'. Local_RegisterAgent b env req (m, c) = (Inr cred, m', c') \<longrightarrow>
            (\<exists>r. map_of (mp_agents m') (bc_UUID cred) = Some r \<and> cred = credential_of_record r))
       \<and> refines memory_inv contents (Local_UpdateAgentLevel b env u l rs (m, c))
           (spec_upgrade env u l rs (contents m))
       \<and> refines memory_inv contents (Local_BanAgent b env u rs (m, c))
           (spec_move env u ''ban'' StateBanned rs (\<lambda>st. st = StateBanned) (contents m))
       \<and> refines memory_inv contents (Local_UnbanAgent b env u (m, c))
           (spec_move env u ''unban'' StateActive [] (\<lambda>st. st \<noteq> StateBanned) (contents m))
       \<and> refines memory_inv contents (Local_UnregisterAgent b env u (m, c))
           (spec_move env u ''unregister'' StateUnregistered [] (\<lambda>st. st = StateUnregistered)
              (contents m))"
  by (intro conjI mem.local_register_call_refines [THEN conjunct1] mem.local_register_call_refines [THEN conjunct2]
      mem.local_upgrade_refines mem.local_ban_refines mem.local_unban_refines mem.local_unregister_refines assms)

definition sample_local :: "(memory_persistence, unit) local_backend" where
  "sample_local = \<lparr> lb_pers = memory_ops, lb_cache = noopCache,
     lb_cfg = \<lparr> lcf_OwnerKey = ''k:'', lcf_CacheTTL = minute, lcf_MaxLogsPerAgent = 10 \<rparr>,
     lb_closed = False \<rparr>"

lemma sample_local_pers [simp]: "lb_pers sample_local = memory_ops"
  by (simp add: sample_local_def)

definition sample_env :: backend_env where
  "sample_env = \<lparr> en_uuid = Inr ''u9'', en_now = Time 7 \<rparr>"

lemma sample_store_states: "states_valid (contents sample_store)"
  by (auto simp: states_valid_def sample_store_def Memory_PutAgent_def sample_info_def
      NewMemoryPersistence_def State_IsValid_def split: if_splits)

theorem local_backend_refines_registry_witness:
  "refines memory_inv contents (Local_BanAgent sample_local sample_env ''u1'' ''spam'' (sample_store, ()))
     (spec_move sample_env ''u1'' ''ban'' StateBanned ''spam'' (\<lambda>st. st = StateBanned)
        (contents sample_store))"
  using local_backend_refines_registry [OF sample_local_pers sample_store_inv sample_store_states]
  by blast

text \<open>C8: starting from an empty in-memory store, after any sequence of calls of the local backend
  the audit log of every agent is a path of the domain's state table from its registration to
  the state its record shows, and there are no logs of agents that do not exist.\<close>

theorem local_audit_trail:
  assumes "(local_step b)\<^sup>*\<^sup>* (NewMemoryPersistence, c) (m, c')" and "lb_pers b = memory_ops"
  shows "memory_inv m \<and> (\<forall>u. entry_ok u (map_of (mp_agents m) u) (log_list m u))"
proof -
  have "memory_inv m \<and> reg_step\<^sup>*\<^sup>* (contents NewMemoryPersistence) (contents m)"
    using mem.local_run_simulates [OF assms] reg_ok_new by simp
  then show ?thesis
    using reg_steps_kept [of "contents NewMemoryPersistence" "contents m"] reg_ok_new
    by (simp add: reg_ok_def)
qed

text \<open>C22: from any consistent store, whatever calls of the local backend follow, an agent never
  disappears, keeps its UUID, owner, permission, public key and registration time, its level
  never falls, its audit log is only appended to, and once it is unregistered neither its
  record nor its log changes any more.\<close>

theorem local_agent_permanent:
  assumes "(local_step b)\<^sup>*\<^sup>* (m, c) (m', c')" and "lb_pers b = memory_ops"
    and "memory_inv m" and "reg_ok (contents m)" and "map_of (mp_agents m) u = Some r"
  shows "\<exists>r'. map_of (mp_agents m') u = Some r' \<and> entry_kept (r, log_list m u) (r', log_list m' u)"
proof -
  have "reg_step\<^sup>*\<^sup>* (contents m) (contents m')"
    using mem.local_run_simulates [OF assms(1,2)] assms(3,4) by simp
  then show ?thesis
    using reg_steps_kept [of "contents m" "contents m'"] assms(4,5) by auto
qed

definition sample_request :: backend_register_request where
  "sample_request = \<lparr> rq_Owner = ''acme'', rq_Level = 1, rq_Permission = 3, rq_PublicKey = ''k'',
     rq_Metadata = [] \<rparr>"

definition sample_run :: memory_persistence where
  "sample_run = fst (snd (Local_RegisterAgent sample_local sample_env (Some sample_request)
     (NewMemoryPersistence, ())))"

lemma sample_run_steps:
  "(local_step sample_local)\<^sup>*\<^sup>* (NewMemoryPersistence, ()) (sample_run, ())"
proof -
  have "Local_RegisterAgent sample_local sample_env (Some sample_request) (NewMemoryPersistence, ()) =
      (fst (Local_RegisterAgent sample_local sample_env (Some sample_request)
         (NewMemoryPersistence, ())), sample_run, ())"
    by (simp add: sample_run_def prod_eq_iff)
  then show ?thesis
    by (intro r_into_rtranclp local_step.register)
      (auto simp: memory_ops_def Memory_GetAgent_def NewMemoryPersistence_def)
qed

lemma sample_run_agent: "\<exists>r. map_of (mp_agents sample_run) ''u9'' = Some r \<and> ai_Owner r = ''acme''"
proof -
  obtain cred s' c' where
    "Local_RegisterAgent sample_local sample_env (Some sample_request) (NewMemoryPersistence, ())
       = (Inr cred, s', c')"
    "contents s' = spec_register sample_env sample_request ''u9'' (contents NewMemoryPersistence)"
    using mem.local_register_refines [of NewMemoryPersistence sample_local sample_request
        sample_env "''u9''" "()"]
    by (auto simp: sample_request_def sample_env_def)
  then have "map_of (mp_agents sample_run) =
      fst (spec_register sample_env sample_request ''u9'' (contents NewMemoryPersistence))"
    by (metis fst_conv sample_run_def snd_conv)
  then show ?thesis
    by (simp add: spec_register_def reg_write_def sample_request_def)
qed

theorem local_audit_trail_witness:
  "memory_inv sample_run \<and> (\<forall>u. entry_ok u (map_of (mp_agents sample_run) u) (log_list sample_run u))"
  by (rule local_audit_trail [OF sample_run_steps sample_local_pers])

theorem local_agent_permanent_witness:
  "\<exists>r'. map_of (mp_agents (fst (snd (Local_UnregisterAgent sample_local sample_env ''u9''
       (sample_run, ()))))) ''u9'' = Some r' \<and> ai_Owner r' = ''acme''"
proof -
  let ?res = "Local_UnregisterAgent sample_local sample_env ''u9'' (sample_run, ())"
  obtain r where r: "map_of (mp_agents sample_run) ''u9'' = Some r" "ai_Owner r = ''acme''"
    using sample_run_agent by blast
  have inv: "memory_inv sample_run" "reg_ok (contents sample_run)"
    using mem.local_run_simulates [OF sample_run_steps sample_local_pers] reg_ok_new
      reg_steps_kept [of "contents NewMemoryPersistence" "contents sample_run"]
    by auto
  have "?res = (fst ?res, fst (snd ?res), ())" by (simp add: prod_eq_iff)
  then have "(local_step sample_local)\<^sup>*\<^sup>* (sample_run, ()) (fst (snd ?res), ())"
    by (intro r_into_rtranclp local_step.unregister)
  from local_agent_permanent [OF this sample_local_pers inv r(1)] r(2)
  show ?thesis by (auto simp: entry_kept_def)
qed

text \<open>What an operation answers and does to the store, without the cache.\<close>

abbreviation on_store :: "'r \<times> 's \<times> 'c \<Rightarrow> 'r \<times> 's" where
  "on_store \<equiv> map_prod id fst"

lemma on_store_register:
  "lb_pers b = lb_pers b' \<Longrightarrow>
     on_store (Local_RegisterAgent b env req (s, c)) = on_store (Local_RegisterAgent b' env req (s, c'))"
  by (simp add: Local_RegisterAgent_def Let_def split: option.split sum.split prod.split)

lemma on_store_info:
  "lb_pers b = lb_pers b' \<Longrightarrow>
     on_store (Local_GetAgentInfo b u (s, c)) = on_store (Local_GetAgentInfo b' u (s, c'))"
  by (simp add: Local_GetAgentInfo_def Let_def split: sum.split)

lemma on_store_upgrade:
  "lb_pers b = lb_pers b' \<Longrightarrow>
     on_store (Local_UpdateAgentLevel b env u l rs (s, c))
       = on_store (Local_UpdateAgentLevel b' env u l rs (s, c'))"
  by (simp add: Local_UpdateAgentLevel_def Let_def split: option.split sum.split prod.split)

lemma on_store_ban:
  "lb_pers b = lb_pers b' \<Longrightarrow>
     on_store (Local_BanAgent b env u rs (s, c)) = on_store (Local_BanAgent b' env u rs (s, c'))"
  by (simp add: Local_BanAgent_def Let_def split: option.split sum.split prod.split)

lemma on_store_unban:
  "lb_pers b = lb_pers b' \<Longrightarrow>
     on_store (Local_UnbanAgent b env u (s, c)) = on_store (Local_UnbanAgent b' env u (s, c'))"
  by (simp add: Local_UnbanAgent_def Let_def split: option.split sum.split prod.split)

lemma on_store_unregister:
  "lb_pers b = lb_pers b' \<Longrightarrow>
     on_store (Local_UnregisterAgent b env u (s, c)) = on_store (Local_UnregisterAgent b' env u (s, c'))"
  by (simp add: Local_UnregisterAgent_def Let_def split: option.split sum.split prod.split)

text \<open>No cache, whatever it stores or answers, and no failure of a cache changes the result of
  an operation of the local backend or what it does to the store.\<close>

theorem local_cache_irrelevant:
  assumes "lb_pers b = lb_pers b'"
  shows "on_store (Local_RegisterAgent b env req (s, c)) = on_store (Local_RegisterAgent b' env req (s, c'))
   \<and> on_store (Local_GetAgentInfo b u (s, c)) = on_store (Local_GetAgentInfo b' u (s, c'))
   \<and> on_store (Local_UpdateAgentLevel b env u l rs (s, c))
       = on_store (Local_UpdateAgentLevel b' env u l rs (s, c'))
   \<and> on_store (Local_BanAgent b env u rs (s, c)) = on_store (Local_BanAgent b' env u rs (s, c'))
   \<and> on_store (Local_UnbanAgent b env u (s, c)) = on_store (Local_UnbanAgent b' env u (s, c'))
   \<and> on_store (Local_UnregisterAgent b env u (s, c)) = on_store (Local_UnregisterAgent b' env u (s, c'))"
  by (intro conjI on_store_register on_store_info on_store_upgrade on_store_ban on_store_unban
      on_store_unregister assms)

theorem local_cache_irrelevant_witness:
  "on_store (Local_GetAgentInfo sample_local ''u1'' (sample_store, ()))
     = on_store (Local_GetAgentInfo (sample_local \<lparr> lb_cache := \<lparr> c_Get = (\<lambda>_ s. (Inl ErrBackendUnavailable, s)),
         c_Set = (\<lambda>_ _ _ s. (Some ErrBackendUnavailable, s)), c_Del = (\<lambda>_ s. (None, s)) \<rparr> \<rparr>)
         ''u1'' (sample_store, ()))"
  by (rule local_cache_irrelevant [THEN conjunct2, THEN conjunct1]) simp

text \<open>\<open>UpdateAgentLevel\<close> of the local backend accepts any higher level, not only the next one,
  and any level a byte can hold: the interface's \<open>+1 only\<close> is not enforced.\<close>

theorem local_upgrade_skips_levels:
  assumes "lb_pers b = memory_ops" and "memory_inv m" and "states_valid (contents m)"
    and "map_of (mp_agents m) u = Some r" and "ai_State r \<in> {StateRegistered, StateActive}"
    and "ai_Level r < l"
  shows "\<exists>m' c' r'. Local_UpdateAgentLevel b env u l rs (m, c) = (None, m', c')
           \<and> map_of (mp_agents m') u = Some r' \<and> ai_Level r' = l"
proof -
  obtain res m' c' where L: "Local_UpdateAgentLevel b env u l rs (m, c) = (res, m', c')"
    by (metis prod.collapse)
  have "refines memory_inv contents (res, m', c') (spec_upgrade env u l rs (contents m))"
    using mem.local_upgrade_refines [OF assms(2,1,3), of env u l rs c] L by simp
  moreover have "ai_UUID r = u" using memory_inv_key assms(2,4) by blast
  ultimately have "res = None"
    "map_of (mp_agents m') = (map_of (mp_agents m))(u \<mapsto> r \<lparr> ai_Level := l, ai_UpdatedAt := en_now env \<rparr>)"
    using assms(4-6) by (auto simp: refines_def spec_upgrade_def reg_write_def)
  then show ?thesis using L by simp
qed

theorem local_upgrade_skips_levels_witness:
  "\<exists>m' c'. Local_UpdateAgentLevel sample_local sample_env ''u1'' 200 [] (sample_store, ()) = (None, m', c')"
  using local_upgrade_skips_levels [OF sample_local_pers sample_store_inv sample_store_states
      sample_store_agent, of 200 sample_env "[]" "()"]
  by (auto simp: sample_info_def word_less_nat_alt)

end
