(* ===== verification/ChainMock.thy ===== *)
theory ChainMock
  imports AgentPrelude
begin

text \<open>
  The chain adapters of \<open>src/core/chain_adapter\<close>: the interface \<open>BaseChainAdapter\<close> of
  \<open>interface.go\<close> as a record of operations over a chain state, and the in-memory adapter of
  \<open>mock/mock.go\<close>. The clock and the 32 random bytes of a transaction hash are read through
  \<open>chain_env\<close>, one per call. Operations that hold the adapter's mutex are single steps.
\<close>

section \<open>The interface\<close>

definition ChainTypeMock :: string where "ChainTypeMock = ''mock''"
definition ChainTypeFISCO :: string where "ChainTypeFISCO = ''fisco''"
definition ChainTypePolygon :: string where "ChainTypePolygon = ''polygon''"
definition ChainTypeBSC :: string where "ChainTypeBSC = ''bsc''"

definition ChainActive :: string where "ChainActive = ''active''"
definition ChainBanned :: string where "ChainBanned = ''banned''"
definition ChainRevoked :: string where "ChainRevoked = ''revoked''"
definition ChainUnchanged :: string where "ChainUnchanged = ''unchanged''"

lemma chain_states_distinct [state_simps, simp]:
  "ChainActive \<noteq> ChainBanned" "ChainActive \<noteq> ChainRevoked" "ChainBanned \<noteq> ChainActive"
  "ChainBanned \<noteq> ChainRevoked" "ChainRevoked \<noteq> ChainActive" "ChainRevoked \<noteq> ChainBanned"
  by (simp_all add: ChainActive_def ChainBanned_def ChainRevoked_def)

record chain_register_request =
  crr_UUID :: string
  crr_Owner :: string
  crr_Level :: u8
  crr_Permission :: u64
  crr_PublicKey :: string
  crr_Metadata :: "(string \<times> string) list"

record update_level_request =
  ulr_UUID :: string
  ulr_NewLevel :: u8
  ulr_Reason :: string

record ban_request =
  br_UUID :: string
  br_Reason :: string

record receipt =
  rc_TxHash :: string
  rc_BlockNumber :: u64
  rc_GasUsed :: u64
  rc_ConfirmedAt :: time

record agent_onchain =
  ao_UUID :: string
  ao_Owner :: string
  ao_Level :: u8
  ao_State :: string
  ao_Permission :: u64
  ao_PublicKey :: string
  ao_TxHash :: string
  ao_UpdatedAt :: time

record chain_env =
  ce_now :: time
  ce_rand :: string

text \<open>
  \<open>BaseChainAdapter\<close>. \<open>ca_ListAll\<close> is the optional capability \<open>chainLister\<close> that the hybrid
  backend looks for with a type assertion.
\<close>

record 'a chain_adapter =
  ca_ChainType :: string
  ca_RegisterAgent ::
    "chain_env \<Rightarrow> chain_register_request option \<Rightarrow> 'a \<Rightarrow> (go_error + receipt) \<times> 'a"
  ca_UpdateLevel ::
    "chain_env \<Rightarrow> update_level_request option \<Rightarrow> 'a \<Rightarrow> (go_error + receipt) \<times> 'a"
  ca_BanAgent :: "chain_env \<Rightarrow> ban_request option \<Rightarrow> 'a \<Rightarrow> (go_error + receipt) \<times> 'a"
  ca_UnbanAgent :: "chain_env \<Rightarrow> string \<Rightarrow> 'a \<Rightarrow> (go_error + receipt) \<times> 'a"
  ca_RevokeAgent :: "chain_env \<Rightarrow> string \<Rightarrow> 'a \<Rightarrow> (go_error + receipt) \<times> 'a"
  ca_GetAgentState :: "string \<Rightarrow> 'a \<Rightarrow> go_error + agent_onchain"
  ca_HealthCheck :: "go_error option \<Rightarrow> 'a \<Rightarrow> go_error option"
  ca_ListAll :: "('a \<Rightarrow> agent_onchain list) option"

section \<open>The mock adapter\<close>

text \<open>\<open>ma_errFn\<close> is the injected hook; its value is the text of the error it returns.\<close>

record mock_adapter =
  ma_agents :: "(string \<times> agent_onchain) list"
  ma_nonces :: "(string \<times> u64) list"
  ma_chainID :: u64
  ma_blockNo :: u64
  ma_latency :: duration
  ma_errFn :: "(string \<Rightarrow> string option) option"
  ma_closed :: bool

definition NewMockAdapter :: mock_adapter where
  "NewMockAdapter =
     \<lparr> ma_agents = [], ma_nonces = [], ma_chainID = 1337, ma_blockNo = 1, ma_latency = 0,
       ma_errFn = None, ma_closed = False \<rparr>"

definition NewWithConfig :: "u64 \<Rightarrow> u64 \<Rightarrow> mock_adapter" where
  "NewWithConfig chainID startBlock =
     \<lparr> ma_agents = [], ma_nonces = [], ma_chainID = chainID, ma_blockNo = startBlock,
       ma_latency = 0, ma_errFn = None, ma_closed = False \<rparr>"

definition SetLatency :: "duration \<Rightarrow> mock_adapter \<Rightarrow> mock_adapter" where
  "SetLatency d m = m \<lparr> ma_latency := d \<rparr>"

definition InjectError :: "(string \<Rightarrow> string option) option \<Rightarrow> mock_adapter \<Rightarrow> mock_adapter" where
  "InjectError fn m = m \<lparr> ma_errFn := fn \<rparr>"

text \<open>Sleeping for the latency has no effect on the state.\<close>

definition preflight :: "string \<Rightarrow> mock_adapter \<Rightarrow> go_error option" where
  "preflight op m =
     (if ma_closed m then Some (ErrChainUnavailable ''closed'')
      else case ma_errFn m of
          None \<Rightarrow> None
        | Some fn \<Rightarrow> (case fn op of Some err \<Rightarrow> Some (ErrTxFailed err) | None \<Rightarrow> None))"

definition nextTxHashLocked :: "chain_env \<Rightarrow> string" where
  "nextTxHashLocked env = ''0x'' @ hex_encode (ce_rand env)"

definition nonce_get :: "mock_adapter \<Rightarrow> string \<Rightarrow> u64" where
  "nonce_get m u = (case map_of (ma_nonces m) u of None \<Rightarrow> 0 | Some n \<Rightarrow> n)"

definition Mock_RegisterAgent ::
  "chain_env \<Rightarrow> chain_register_request option \<Rightarrow> mock_adapter \<Rightarrow>
   (go_error + receipt) \<times> mock_adapter" where
  "Mock_RegisterAgent env req m =
     (case preflight ''register'' m of Some err \<Rightarrow> (Inl err, m) | None \<Rightarrow>
      case req of None \<Rightarrow> (Inl (ErrTxFailed ''empty uuid''), m) | Some r \<Rightarrow>
      if crr_UUID r = [] then (Inl (ErrTxFailed ''empty uuid''), m)
      else if crr_Owner r = [] then (Inl (ErrTxFailed ''empty owner''), m)
      else if map_of (ma_agents m) (crr_UUID r) \<noteq> None
        then (Inl (ErrTxFailed ''uuid already exists onchain''), m)
      else
        (let now = ce_now env;
             m1 = m \<lparr> ma_blockNo := ma_blockNo m + 1,
                      ma_nonces := AList.update (crr_UUID r) 0 (ma_nonces m) \<rparr>;
             hash = nextTxHashLocked env;
             a = \<lparr> ao_UUID = crr_UUID r, ao_Owner = crr_Owner r, ao_Level = crr_Level r,
                   ao_State = ChainActive, ao_Permission = crr_Permission r,
                   ao_PublicKey = crr_PublicKey r, ao_TxHash = hash, ao_UpdatedAt = now \<rparr>;
             m2 = m1 \<lparr> ma_agents := AList.update (crr_UUID r) a (ma_agents m1) \<rparr>
         in (Inr \<lparr> rc_TxHash = hash, rc_BlockNumber = ma_blockNo m2, rc_GasUsed = 21000,
                   rc_ConfirmedAt = now \<rparr>, m2)))"

text \<open>The common tail of the four updates: the block, the agent and its nonce.\<close>

definition mock_commit ::
  "chain_env \<Rightarrow> string \<Rightarrow> agent_onchain \<Rightarrow> mock_adapter \<Rightarrow> (go_error + receipt) \<times> mock_adapter" where
  "mock_commit env u a m =
     (let m' = m \<lparr> ma_blockNo := ma_blockNo m + 1,
                   ma_agents := AList.update u (a \<lparr> ao_UpdatedAt := ce_now env \<rparr>) (ma_agents m),
                   ma_nonces := AList.update u (nonce_get m u + 1) (ma_nonces m) \<rparr>
      in (Inr \<lparr> rc_TxHash = nextTxHashLocked env, rc_BlockNumber = ma_blockNo m',
                rc_GasUsed = 30000, rc_ConfirmedAt = ce_now env \<rparr>, m'))"

definition mock_noop ::
  "chain_env \<Rightarrow> agent_onchain \<Rightarrow> mock_adapter \<Rightarrow> (go_error + receipt) \<times> mock_adapter" where
  "mock_noop env a m =
     (Inr \<lparr> rc_TxHash = ao_TxHash a, rc_BlockNumber = ma_blockNo m, rc_GasUsed = 0,
            rc_ConfirmedAt = ce_now env \<rparr>, m)"

definition Mock_UpdateLevel ::
  "chain_env \<Rightarrow> update_level_request option \<Rightarrow> mock_adapter \<Rightarrow>
   (go_error + receipt) \<times> mock_adapter" where
  "Mock_UpdateLevel env req m =
     (case preflight ''update_level'' m of Some err \<Rightarrow> (Inl err, m) | None \<Rightarrow>
      case req of None \<Rightarrow> (Inl (ErrTxFailed ''empty uuid''), m) | Some r \<Rightarrow>
      if ulr_UUID r = [] then (Inl (ErrTxFailed ''empty uuid''), m)
      else case map_of (ma_agents m) (ulr_UUID r) of
          None \<Rightarrow> (Inl (ErrAgentNotFoundOnchain (ulr_UUID r)), m)
        | Some a \<Rightarrow>
            if ao_State a = ChainRevoked then (Inl (ErrTxFailed ''agent revoked''), m)
            else mock_commit env (ulr_UUID r) (a \<lparr> ao_Level := ulr_NewLevel r \<rparr>) m)"

definition Mock_BanAgent ::
  "chain_env \<Rightarrow> ban_request option \<Rightarrow> mock_adapter \<Rightarrow> (go_error + receipt) \<times> mock_adapter" where
  "Mock_BanAgent env req m =
     (case preflight ''ban'' m of Some err \<Rightarrow> (Inl err, m) | None \<Rightarrow>
      case req of None \<Rightarrow> (Inl (ErrTxFailed ''empty uuid''), m) | Some r \<Rightarrow>
      if br_UUID r = [] then (Inl (ErrTxFailed ''empty uuid''), m)
      else case map_of (ma_agents m) (br_UUID r) of
          None \<Rightarrow> (Inl (ErrAgentNotFoundOnchain (br_UUID r)), m)
        | Some a \<Rightarrow>
            if ao_State a = ChainRevoked then (Inl (ErrTxFailed ''agent revoked''), m)
            else if ao_State a = ChainBanned then mock_noop env a m
            else mock_commit env (br_UUID r) (a \<lparr> ao_State := ChainBanned \<rparr>) m)"

definition Mock_UnbanAgent ::
  "chain_env \<Rightarrow> string \<Rightarrow> mock_adapter \<Rightarrow> (go_error + receipt) \<times> mock_adapter" where
  "Mock_UnbanAgent env u m =
     (case preflight ''unban'' m of Some err \<Rightarrow> (Inl err, m) | None \<Rightarrow>
      if u = [] then (Inl (ErrTxFailed ''empty uuid''), m)
      else case map_of (ma_agents m) u of
          None \<Rightarrow> (Inl (ErrAgentNotFoundOnchain u), m)
        | Some a \<Rightarrow>
            if ao_State a \<noteq> ChainBanned then mock_noop env a m
            else mock_commit env u (a \<lparr> ao_State := ChainActive \<rparr>) m)"

definition Mock_RevokeAgent ::
  "chain_env \<Rightarrow> string \<Rightarrow> mock_adapter \<Rightarrow> (go_error + receipt) \<times> mock_adapter" where
  "Mock_RevokeAgent env u m =
     (case preflight ''revoke'' m of Some err \<Rightarrow> (Inl err, m) | None \<Rightarrow>
      if u = [] then (Inl (ErrTxFailed ''empty uuid''), m)
      else case map_of (ma_agents m) u of
          None \<Rightarrow> (Inl (ErrAgentNotFoundOnchain u), m)
        | Some a \<Rightarrow>
            if ao_State a = ChainRevoked then mock_noop env a m
            else mock_commit env u (a \<lparr> ao_State := ChainRevoked \<rparr>) m)"

definition Mock_GetAgentState :: "string \<Rightarrow> mock_adapter \<Rightarrow> go_error + agent_onchain" where
  "Mock_GetAgentState u m =
     (case preflight ''get_state'' m of Some err \<Rightarrow> Inl err | None \<Rightarrow>
      if u = [] then Inl (ErrTxFailed ''empty uuid'')
      else case map_of (ma_agents m) u of
          None \<Rightarrow> Inl (ErrAgentNotFoundOnchain u)
        | Some a \<Rightarrow> Inr a)"

text \<open>\<open>ctx_done\<close> is the context's error when it ends before the latency has passed.\<close>

definition Mock_HealthCheck :: "go_error option \<Rightarrow> mock_adapter \<Rightarrow> go_error option" where
  "Mock_HealthCheck ctx_done m =
     (if ma_closed m then Some (ErrChainUnavailable ''closed'')
      else case (case ma_errFn m of None \<Rightarrow> None | Some fn \<Rightarrow> fn ''health'') of
          Some err \<Rightarrow> Some (ErrChainUnavailable err)
        | None \<Rightarrow> if 0 < ma_latency m then ctx_done else None)"

definition Mock_Close :: "mock_adapter \<Rightarrow> mock_adapter" where
  "Mock_Close m = m \<lparr> ma_closed := True \<rparr>"

definition Mock_ListAll :: "mock_adapter \<Rightarrow> agent_onchain list" where
  "Mock_ListAll m = sort_key ao_UUID (map snd (ma_agents m))"

definition Mock_Count :: "mock_adapter \<Rightarrow> nat" where
  "Mock_Count m = length (ma_agents m)"

definition Mock_Dump :: "mock_adapter \<Rightarrow> (string \<times> agent_onchain) list" where
  "Mock_Dump m = ma_agents m"

definition Mock_Restore :: "(string \<times> agent_onchain) list \<Rightarrow> mock_adapter \<Rightarrow> mock_adapter" where
  "Mock_Restore snap m = m \<lparr> ma_agents := snap \<rparr>"

definition mock_ops :: "mock_adapter chain_adapter" where
  "mock_ops =
     \<lparr> ca_ChainType = ChainTypeMock,
       ca_RegisterAgent = Mock_RegisterAgent, ca_UpdateLevel = Mock_UpdateLevel,
       ca_BanAgent = Mock_BanAgent, ca_UnbanAgent = Mock_UnbanAgent,
       ca_RevokeAgent = Mock_RevokeAgent, ca_GetAgentState = Mock_GetAgentState,
       ca_HealthCheck = Mock_HealthCheck, ca_ListAll = Some Mock_ListAll \<rparr>"

section \<open>The contract of an adapter\<close>

text \<open>
  What the backends rely on: \<open>chain\<close> is the ledger behind the adapter's state; a successful
  call changes exactly one entry of it as the operation says, a failed call changes nothing,
  and a query answers from the ledger. A call may always fail.
\<close>

definition registered_onchain ::
  "chain_env \<Rightarrow> chain_register_request \<Rightarrow> string \<Rightarrow> agent_onchain" where
  "registered_onchain env r hash =
     \<lparr> ao_UUID = crr_UUID r, ao_Owner = crr_Owner r, ao_Level = crr_Level r,
       ao_State = ChainActive, ao_Permission = crr_Permission r,
       ao_PublicKey = crr_PublicKey r, ao_TxHash = hash, ao_UpdatedAt = ce_now env \<rparr>"

locale chain_contract =
  fixes adp :: "'a chain_adapter"
    and cinv :: "'a \<Rightarrow> bool"
    and chain :: "'a \<Rightarrow> string \<Rightarrow> agent_onchain option"
  assumes ledger_key: "cinv m \<Longrightarrow> chain m u = Some a \<Longrightarrow> ao_UUID a = u"
    and register_err: "ca_RegisterAgent adp env req m = (Inl e, m') \<Longrightarrow> cinv m \<Longrightarrow> m' = m"
    and update_err: "ca_UpdateLevel adp env ureq m = (Inl e, m') \<Longrightarrow> cinv m \<Longrightarrow> m' = m"
    and ban_err: "ca_BanAgent adp env breq m = (Inl e, m') \<Longrightarrow> cinv m \<Longrightarrow> m' = m"
    and unban_err: "ca_UnbanAgent adp env u m = (Inl e, m') \<Longrightarrow> cinv m \<Longrightarrow> m' = m"
    and revoke_err: "ca_RevokeAgent adp env u m = (Inl e, m') \<Longrightarrow> cinv m \<Longrightarrow> m' = m"
    and register_ok:
      "ca_RegisterAgent adp env (Some r) m = (Inr rc, m') \<Longrightarrow> cinv m \<Longrightarrow>
         cinv m' \<and> crr_UUID r \<noteq> [] \<and> chain m (crr_UUID r) = None
       \<and> chain m' = (chain m)(crr_UUID r \<mapsto> registered_onchain env r (rc_TxHash rc))"
    and update_ok:
      "ca_UpdateLevel adp env (Some ur) m = (Inr rc, m') \<Longrightarrow> cinv m \<Longrightarrow>
         cinv m' \<and> (\<exists>a. chain m (ulr_UUID ur) = Some a \<and> ao_State a \<noteq> ChainRevoked
           \<and> chain m' = (chain m)(ulr_UUID ur \<mapsto>
                a \<lparr> ao_Level := ulr_NewLevel ur, ao_UpdatedAt := ce_now env \<rparr>))"
    and ban_ok:
      "ca_BanAgent adp env (Some b) m = (Inr rc, m') \<Longrightarrow> cinv m \<Longrightarrow>
         cinv m' \<and> (\<exists>a. chain m (br_UUID b) = Some a \<and> ao_State a \<noteq> ChainRevoked
           \<and> chain m' = (if ao_State a = ChainBanned then chain m
                else (chain m)(br_UUID b \<mapsto>
                  a \<lparr> ao_State := ChainBanned, ao_UpdatedAt := ce_now env \<rparr>)))"
    and unban_ok:
      "ca_UnbanAgent adp env u m = (Inr rc, m') \<Longrightarrow> cinv m \<Longrightarrow>
         cinv m' \<and> (\<exists>a. chain m u = Some a
           \<and> chain m' = (if ao_State a \<noteq> ChainBanned then chain m
                else (chain m)(u \<mapsto> a \<lparr> ao_State := ChainActive, ao_UpdatedAt := ce_now env \<rparr>)))"
    and revoke_ok:
      "ca_RevokeAgent adp env u m = (Inr rc, m') \<Longrightarrow> cinv m \<Longrightarrow>
         cinv m' \<and> (\<exists>a. chain m u = Some a
           \<and> chain m' = (if ao_State a = ChainRevoked then chain m
                else (chain m)(u \<mapsto> a \<lparr> ao_State := ChainRevoked, ao_UpdatedAt := ce_now env \<rparr>)))"
    and get_ok: "ca_GetAgentState adp u m = Inr a \<Longrightarrow> cinv m \<Longrightarrow> chain m u = Some a"
    and get_not_found:
      "ca_GetAgentState adp u m = Inl (ErrAgentNotFoundOnchain v) \<Longrightarrow> cinv m \<Longrightarrow> chain m u = None"

text \<open>One call of a state-changing operation.\<close>

inductive chain_step :: "'a chain_adapter \<Rightarrow> 'a \<Rightarrow> 'a \<Rightarrow> bool" for adp where
  register: "ca_RegisterAgent adp env (Some r) m = (res, m') \<Longrightarrow> chain_step adp m m'"
| update: "ca_UpdateLevel adp env (Some ur) m = (res, m') \<Longrightarrow> chain_step adp m m'"
| ban: "ca_BanAgent adp env (Some b) m = (res, m') \<Longrightarrow> chain_step adp m m'"
| unban: "ca_UnbanAgent adp env u m = (res, m') \<Longrightarrow> chain_step adp m m'"
| revoke: "ca_RevokeAgent adp env u m = (res, m') \<Longrightarrow> chain_step adp m m'"

text \<open>What a ledger entry never loses.\<close>

definition same_identity :: "agent_onchain \<Rightarrow> agent_onchain \<Rightarrow> bool" where
  "same_identity a b \<longleftrightarrow>
     ao_UUID b = ao_UUID a \<and> ao_Owner b = ao_Owner a \<and> ao_Permission b = ao_Permission a
   \<and> ao_PublicKey b = ao_PublicKey a \<and> ao_TxHash b = ao_TxHash a"

lemma same_identity_refl [simp]: "same_identity a a"
  by (simp add: same_identity_def)

lemma same_identity_trans: "same_identity a b \<Longrightarrow> same_identity b c \<Longrightarrow> same_identity a c"
  by (simp add: same_identity_def)

definition ledger_entry_kept :: "agent_onchain \<Rightarrow> agent_onchain \<Rightarrow> bool" where
  "ledger_entry_kept a b \<longleftrightarrow>
     same_identity a b
   \<and> (ao_State a = ChainRevoked \<longrightarrow> b = a)
   \<and> (ao_State b \<noteq> ao_State a \<longrightarrow>
        (ao_State a, ao_State b) \<in> {(ChainBanned, ChainActive)}
      \<or> ao_State b = ChainBanned \<or> ao_State b = ChainRevoked)"

context chain_contract
begin

lemma step_keeps_inv: "chain_step adp m m' \<Longrightarrow> cinv m \<Longrightarrow> cinv m'"
proof (induction rule: chain_step.induct)
  case (register env r m res m')
  then show ?case by (cases res) (auto dest: register_err register_ok)
next
  case (update env ur m res m')
  then show ?case by (cases res) (auto dest: update_err update_ok)
next
  case (ban env b m res m')
  then show ?case by (cases res) (auto dest: ban_err ban_ok)
next
  case (unban env u m res m')
  then show ?case by (cases res) (auto dest: unban_err unban_ok)
next
  case (revoke env u m res m')
  then show ?case by (cases res) (auto dest: revoke_err revoke_ok)
qed

lemma step_keeps_entry:
  assumes "chain_step adp m m'" and "cinv m" and "chain m u = Some a"
  shows "\<exists>b. chain m' u = Some b \<and> ledger_entry_kept a b"
  using assms
proof (induction rule: chain_step.induct)
  case (register env r m res m')
  then show ?case
    by (cases res) (auto simp: ledger_entry_kept_def dest!: register_err register_ok)
next
  case (update env ur m res m')
  then show ?case
    by (cases res)
      (auto simp: ledger_entry_kept_def same_identity_def dest!: update_err update_ok)
next
  case (ban env b m res m')
  then show ?case
    by (cases res)
      (auto simp: ledger_entry_kept_def same_identity_def dest!: ban_err ban_ok split: if_splits)
next
  case (unban env v m res m')
  then show ?case
    by (cases res)
      (auto simp: ledger_entry_kept_def same_identity_def dest!: unban_err unban_ok
        split: if_splits)
next
  case (revoke env v m res m')
  then show ?case
    by (cases res)
      (auto simp: ledger_entry_kept_def same_identity_def dest!: revoke_err revoke_ok
        split: if_splits)
qed

lemma steps_keep:
  assumes "(chain_step adp)\<^sup>*\<^sup>* m m'" and "cinv m" and "chain m u = Some a"
  shows "cinv m' \<and> (\<exists>b. chain m' u = Some b \<and> same_identity a b
           \<and> (ao_State a = ChainRevoked \<longrightarrow> b = a))"
  using assms
proof (induction rule: rtranclp_induct)
  case (step m1 m2)
  then obtain b where b: "cinv m1" "chain m1 u = Some b" "same_identity a b"
    "ao_State a = ChainRevoked \<longrightarrow> b = a"
    by blast
  with step_keeps_entry [OF step.hyps(2) b(1,2)] step_keeps_inv [OF step.hyps(2) b(1)]
  show ?case
    by (auto simp: ledger_entry_kept_def intro: same_identity_trans)
qed simp

end

section \<open>The mock adapter keeps the contract\<close>

definition mock_inv :: "mock_adapter \<Rightarrow> bool" where
  "mock_inv m \<longleftrightarrow>
     distinct (map fst (ma_agents m)) \<and> list_all (\<lambda>(k, a). ao_UUID a = k) (ma_agents m)"

lemma mock_inv_map_of: "mock_inv m \<Longrightarrow> map_of (ma_agents m) u = Some a \<Longrightarrow> ao_UUID a = u"
  by (auto simp: mock_inv_def list_all_iff dest!: map_of_SomeD)

lemma mock_inv_frame [simp]:
  "mock_inv (m \<lparr> ma_nonces := n \<rparr>) = mock_inv m" "mock_inv (m \<lparr> ma_blockNo := b \<rparr>) = mock_inv m"
  by (simp_all add: mock_inv_def)

lemma mock_inv_update [simp]:
  "mock_inv m \<Longrightarrow> ao_UUID a = u \<Longrightarrow> mock_inv (m' \<lparr> ma_agents := AList.update u a (ma_agents m) \<rparr>)"
  by (simp add: mock_inv_def list_all_update)

lemma mock_commit_Inr:
  "mock_commit env u a m = (Inr rc, m') \<Longrightarrow> mock_inv m \<Longrightarrow> ao_UUID a = u \<Longrightarrow>
     mock_inv m' \<and> map_of (ma_agents m') = (map_of (ma_agents m))(u \<mapsto> a \<lparr> ao_UpdatedAt := ce_now env \<rparr>)"
  by (auto simp: mock_commit_def Let_def)

lemma mock_commit_not_Inl: "mock_commit env u a m \<noteq> (Inl e, m')"
  by (simp add: mock_commit_def Let_def)

lemmas mock_defs =
  Mock_UpdateLevel_def Mock_BanAgent_def Mock_UnbanAgent_def
  Mock_RevokeAgent_def Mock_GetAgentState_def

lemma preflight_not_found: "preflight op m \<noteq> Some (ErrAgentNotFoundOnchain v)"
  by (auto simp: preflight_def split: option.splits)

lemma mock_noop_Pair [simp]:
  "mock_noop env a m = (r, m') \<longleftrightarrow> m' = m
     \<and> r = Inr \<lparr> rc_TxHash = ao_TxHash a, rc_BlockNumber = ma_blockNo m, rc_GasUsed = 0,
                rc_ConfirmedAt = ce_now env \<rparr>"
  by (auto simp: mock_noop_def)

lemma Mock_RegisterAgent_ok:
  "Mock_RegisterAgent env (Some r) m = (Inr rc, m') \<Longrightarrow> mock_inv m \<Longrightarrow>
     mock_inv m' \<and> crr_UUID r \<noteq> [] \<and> map_of (ma_agents m) (crr_UUID r) = None
   \<and> map_of (ma_agents m') =
       (map_of (ma_agents m))(crr_UUID r \<mapsto> registered_onchain env r (rc_TxHash rc))"
  by (auto simp: Mock_RegisterAgent_def Let_def registered_onchain_def
      split: option.splits if_splits)

lemma Mock_RegisterAgent_err: "Mock_RegisterAgent env req m = (Inl e, m') \<Longrightarrow> m' = m"
  by (auto simp: Mock_RegisterAgent_def Let_def split: option.splits if_splits)

interpretation mk: chain_contract mock_ops mock_inv "\<lambda>m. map_of (ma_agents m)"
proof (unfold_locales, unfold mock_ops_def chain_adapter.simps)
qed (auto simp: mock_defs mock_commit_not_Inl preflight_not_found
    dest: mock_inv_map_of Mock_RegisterAgent_ok Mock_RegisterAgent_err dest!: mock_commit_Inr
    split: option.splits if_splits)

section \<open>Properties of the mock chain\<close>

text \<open>Whatever sequence of registrations, level updates, bans, unbans and revocations is
  applied to the mock chain, an entry of the ledger never disappears, keeps its UUID, owner,
  permission, public key and registration hash, and once it is revoked never changes again.\<close>

theorem mock_ledger_permanent:
  assumes "(chain_step mock_ops)\<^sup>*\<^sup>* m m'" and "mock_inv m"
    and "map_of (ma_agents m) u = Some a"
  shows "mock_inv m' \<and> (\<exists>b. map_of (ma_agents m') u = Some b \<and> same_identity a b
           \<and> (ao_State a = ChainRevoked \<longrightarrow> b = a))"
  using assms by (rule mk.steps_keep)

definition sample_chain :: mock_adapter where
  "sample_chain = NewMockAdapter \<lparr> ma_agents :=
     [(''u1'', \<lparr> ao_UUID = ''u1'', ao_Owner = ''acme'', ao_Level = 1, ao_State = ChainRevoked,
         ao_Permission = 3, ao_PublicKey = ''k'', ao_TxHash = ''0x00'', ao_UpdatedAt = Time 1 \<rparr>)] \<rparr>"

theorem mock_ledger_permanent_witness:
  "\<exists>b. map_of (ma_agents (snd (Mock_UnbanAgent \<lparr> ce_now = Time 5, ce_rand = [] \<rparr> ''u1'' sample_chain)))
     ''u1'' = Some b \<and> ao_State b = ChainRevoked"
proof -
  let ?env = "\<lparr> ce_now = Time 5, ce_rand = [] \<rparr>"
  let ?m' = "snd (Mock_UnbanAgent ?env ''u1'' sample_chain)"
  have "ca_UnbanAgent mock_ops ?env ''u1'' sample_chain =
      (fst (Mock_UnbanAgent ?env ''u1'' sample_chain), ?m')"
    by (simp add: mock_ops_def)
  then have "(chain_step mock_ops)\<^sup>*\<^sup>* sample_chain ?m'"
    by (intro r_into_rtranclp chain_step.unban)
  from mock_ledger_permanent [OF this, of "''u1''"] show ?thesis
    by (auto simp: sample_chain_def NewMockAdapter_def mock_inv_def)
qed

text \<open>
  The outcome of a call: an error and the same state, or a receipt for the current block, with
  gas 0 only for a repetition that changed nothing.
\<close>

fun accounted :: "chain_env \<Rightarrow> mock_adapter \<Rightarrow> (go_error + receipt) \<times> mock_adapter \<Rightarrow> bool" where
  "accounted env m (Inl e, m') = (m' = m)"
| "accounted env m (Inr rc, m') =
     (rc_BlockNumber rc = ma_blockNo m' \<and> rc_ConfirmedAt rc = ce_now env
      \<and> (if rc_GasUsed rc = 0 then m' = m else ma_blockNo m' = ma_blockNo m + 1))"

lemma accounted_commit [simp]: "accounted env m (mock_commit env u a m)"
  by (simp add: mock_commit_def Let_def)

lemma accounted_noop [simp]: "accounted env m (mock_noop env a m)"
  by (simp add: mock_noop_def)

lemma accounted_register: "accounted env m (Mock_RegisterAgent env req m)"
  unfolding Mock_RegisterAgent_def Let_def
  by (cases "preflight ''register'' m"; cases req) auto

lemma accounted_update: "accounted env m (Mock_UpdateLevel env ureq m)"
proof (cases ureq)
  case (Some r)
  then show ?thesis
    unfolding Mock_UpdateLevel_def
    by (cases "preflight ''update_level'' m"; cases "map_of (ma_agents m) (ulr_UUID r)") auto
qed (simp add: Mock_UpdateLevel_def split: option.split)

lemma accounted_ban: "accounted env m (Mock_BanAgent env breq m)"
proof (cases breq)
  case (Some r)
  then show ?thesis
    unfolding Mock_BanAgent_def
    by (cases "preflight ''ban'' m"; cases "map_of (ma_agents m) (br_UUID r)") auto
qed (simp add: Mock_BanAgent_def split: option.split)

lemma accounted_unban: "accounted env m (Mock_UnbanAgent env u m)"
  unfolding Mock_UnbanAgent_def
  by (cases "preflight ''unban'' m"; cases "map_of (ma_agents m) u") auto

lemma accounted_revoke: "accounted env m (Mock_RevokeAgent env u m)"
  unfolding Mock_RevokeAgent_def
  by (cases "preflight ''revoke'' m"; cases "map_of (ma_agents m) u") auto

text \<open>A call on the mock chain either fails and changes nothing, or answers with a receipt for
  the current block; the receipt has gas 0 exactly when the call was an idempotent repetition
  that changed nothing, and every other successful call adds exactly one block.\<close>

theorem mock_call_accounting:
  "accounted env m (Mock_RegisterAgent env req m) \<and> accounted env m (Mock_UpdateLevel env ureq m)
   \<and> accounted env m (Mock_BanAgent env breq m) \<and> accounted env m (Mock_UnbanAgent env u m)
   \<and> accounted env m (Mock_RevokeAgent env u m)"
  by (simp only: accounted_register accounted_update accounted_ban accounted_unban
      accounted_revoke simp_thms)

end
