(* ===== verification/ChainBackends.thy ===== *)
theory ChainBackends
  imports LocalBackend ChainMock
begin

text \<open>
  The on-chain and the hybrid identity backends, \<open>src/core/backend/onchain.go\<close> and
  \<open>src/core/backend/hybrid.go\<close>. The on-chain backend forwards every call to a chain adapter;
  the hybrid backend writes to the chain first and mirrors into a local backend, reads locally
  and falls back to the chain, and copies newer chain records into the local store when it
  synchronises. Both share one cache.

  The goroutines of a batch query only read the chain, so the model runs them one after the
  other; the background ticker only calls \<open>runOnce\<close>, whose model is \<open>Sync_runOnce\<close>.
\<close>

section \<open>The on-chain backend\<close>

record onchain_config =
  ocf_OwnerKey :: string
  ocf_CacheTTL :: duration
  ocf_HealthCheckTimeout :: duration

record ('a, 'c) onchain_backend =
  ob_adapter :: "'a chain_adapter"
  ob_cache :: "'c cache"
  ob_cfg :: onchain_config

definition NewOnchainBackend ::
  "'a chain_adapter option \<Rightarrow> 'c cache option \<Rightarrow> onchain_config \<Rightarrow>
   go_error + ('a, 'c) onchain_backend" where
  "NewOnchainBackend adapter cch cfg =
     (case adapter of
        None \<Rightarrow> Inl ErrBackendUnavailable
      | Some a \<Rightarrow>
          (let cfg1 = (if ocf_OwnerKey cfg = [] then cfg \<lparr> ocf_OwnerKey := ''agentid:onchain:'' \<rparr>
                       else cfg);
               cfg2 = (if ocf_CacheTTL cfg1 = 0 then cfg1 \<lparr> ocf_CacheTTL := 5 * minute \<rparr>
                       else cfg1);
               cfg3 = (if ocf_HealthCheckTimeout cfg2 = 0
                       then cfg2 \<lparr> ocf_HealthCheckTimeout := 3 * second \<rparr> else cfg2);
               c = (case cch of None \<Rightarrow> noopCache | Some c \<Rightarrow> c)
           in Inr \<lparr> ob_adapter = a, ob_cache = c, ob_cfg = cfg3 \<rparr>))"

definition Onchain_BackendType :: string where
  "Onchain_BackendType = TypeOnchain"

definition Onchain_Close :: "('a, 'c) onchain_backend \<Rightarrow> go_error option" where
  "Onchain_Close b = None"

definition onchain_set :: "('a, 'c) onchain_backend \<Rightarrow> string \<Rightarrow> 'c \<Rightarrow> 'c" where
  "onchain_set b u c =
     snd (c_Set (ob_cache b) (ocf_OwnerKey (ob_cfg b) @ u) None (ocf_CacheTTL (ob_cfg b)) c)"

definition onchain_del :: "('a, 'c) onchain_backend \<Rightarrow> string \<Rightarrow> 'c \<Rightarrow> 'c" where
  "onchain_del b u c = snd (c_Del (ob_cache b) (ocf_OwnerKey (ob_cfg b) @ u) c)"

definition Onchain_RegisterAgent ::
  "('a, 'c) onchain_backend \<Rightarrow> backend_env \<Rightarrow> chain_env \<Rightarrow> backend_register_request option \<Rightarrow>
   'a \<times> 'c \<Rightarrow> (go_error + backend_credential) \<times> 'a \<times> 'c" where
  "Onchain_RegisterAgent b env cenv req = (\<lambda>(m, c).
     (case req of None \<Rightarrow> (Inl (Errorf ''%w: nil/empty owner'' [ErrBackendUnavailable]), m, c)
      | Some rq \<Rightarrow>
      if rq_Owner rq = [] then (Inl (Errorf ''%w: nil/empty owner'' [ErrBackendUnavailable]), m, c)
      else if rq_Level rq = 0 then (Inl (Errorf ''%w: zero level'' [ErrBackendUnavailable]), m, c)
      else if rq_PublicKey rq = []
        then (Inl (Errorf ''%w: empty pubkey'' [ErrBackendUnavailable]), m, c)
      else case en_uuid env of Inl err \<Rightarrow> (Inl err, m, c) | Inr uid \<Rightarrow>
        (let now = en_now env in
         case ca_RegisterAgent (ob_adapter b) cenv
                (Some \<lparr> crr_UUID = uid, crr_Owner = rq_Owner rq, crr_Level = rq_Level rq,
                        crr_Permission = rq_Permission rq, crr_PublicKey = rq_PublicKey rq,
                        crr_Metadata = rq_Metadata rq \<rparr>) m of
           (Inl err, m1) \<Rightarrow> (Inl (Errorf ''onchain register: %w'' [err]), m1, c)
         | (Inr rc, m1) \<Rightarrow>
             (Inr \<lparr> bc_UUID = uid, bc_Owner = rq_Owner rq, bc_Level = rq_Level rq,
                    bc_State = StateActive, bc_Permission = rq_Permission rq,
                    bc_PublicKey = rq_PublicKey rq, bc_TxHash = rc_TxHash rc,
                    bc_CreatedAt = now, bc_UpdatedAt = now \<rparr>,
              m1, onchain_set b uid c))))"

definition mapChainState :: "string \<Rightarrow> string" where
  "mapChainState s =
     (if s = ChainActive then StateActive
      else if s = ChainBanned then StateBanned
      else if s = ChainRevoked then StateUnregistered
      else StateRegistered)"

definition info_of_chain :: "agent_onchain \<Rightarrow> agent_info" where
  "info_of_chain a =
     \<lparr> ai_UUID = ao_UUID a, ai_Owner = ao_Owner a, ai_Level = ao_Level a,
       ai_State = mapChainState (ao_State a), ai_Permission = ao_Permission a,
       ai_PublicKey = ao_PublicKey a, ai_TxHash = ao_TxHash a,
       ai_RegisteredAt = ao_UpdatedAt a, ai_UpdatedAt = ao_UpdatedAt a \<rparr>"

definition Onchain_GetAgentInfo ::
  "('a, 'c) onchain_backend \<Rightarrow> string \<Rightarrow> 'a \<times> 'c \<Rightarrow> (go_error + agent_info) \<times> 'a \<times> 'c" where
  "Onchain_GetAgentInfo b u = (\<lambda>(m, c).
     (if u = [] then (Inl (Errorf ''%w: empty uuid'' [ErrBackendUnavailable]), m, c)
      else case ca_GetAgentState (ob_adapter b) u m of
          Inl err \<Rightarrow>
            (case err of
               ErrAgentNotFoundOnchain _ \<Rightarrow> (Inl ErrAgentNotFound, m, c)
             | _ \<Rightarrow> (Inl (Errorf ''onchain get state: %w'' [err]), m, c))
        | Inr a \<Rightarrow> (Inr (info_of_chain a), m, onchain_set b u c)))"

definition Onchain_UpdateAgentLevel ::
  "('a, 'c) onchain_backend \<Rightarrow> chain_env \<Rightarrow> string \<Rightarrow> u8 \<Rightarrow> string \<Rightarrow> 'a \<times> 'c \<Rightarrow>
   go_error option \<times> 'a \<times> 'c" where
  "Onchain_UpdateAgentLevel b cenv u newLevel reason = (\<lambda>(m, c).
     (if u = [] then (Some ErrBackendUnavailable, m, c)
      else if newLevel = 0 then (Some (Errorf ''%w: zero level'' [ErrInvalidState]), m, c)
      else case ca_UpdateLevel (ob_adapter b) cenv
             (Some \<lparr> ulr_UUID = u, ulr_NewLevel = newLevel, ulr_Reason = reason \<rparr>) m of
          (Inl err, m1) \<Rightarrow> (Some (Errorf ''onchain update level: %w'' [err]), m1, c)
        | (Inr _, m1) \<Rightarrow> (None, m1, onchain_del b u c)))"

definition Onchain_BanAgent ::
  "('a, 'c) onchain_backend \<Rightarrow> chain_env \<Rightarrow> string \<Rightarrow> string \<Rightarrow> 'a \<times> 'c \<Rightarrow>
   go_error option \<times> 'a \<times> 'c" where
  "Onchain_BanAgent b cenv u reason = (\<lambda>(m, c).
     (if u = [] then (Some ErrBackendUnavailable, m, c)
      else case ca_BanAgent (ob_adapter b) cenv (Some \<lparr> br_UUID = u, br_Reason = reason \<rparr>) m of
          (Inl err, m1) \<Rightarrow> (Some (Errorf ''onchain ban: %w'' [err]), m1, c)
        | (Inr _, m1) \<Rightarrow> (None, m1, onchain_del b u c)))"

definition Onchain_UnbanAgent ::
  "('a, 'c) onchain_backend \<Rightarrow> chain_env \<Rightarrow> string \<Rightarrow> 'a \<times> 'c \<Rightarrow> go_error option \<times> 'a \<times> 'c" where
  "Onchain_UnbanAgent b cenv u = (\<lambda>(m, c).
     (if u = [] then (Some ErrBackendUnavailable, m, c)
      else case ca_UnbanAgent (ob_adapter b) cenv u m of
          (Inl err, m1) \<Rightarrow> (Some (Errorf ''onchain unban: %w'' [err]), m1, c)
        | (Inr _, m1) \<Rightarrow> (None, m1, onchain_del b u c)))"

definition Onchain_UnregisterAgent ::
  "('a, 'c) onchain_backend \<Rightarrow> chain_env \<Rightarrow> string \<Rightarrow> 'a \<times> 'c \<Rightarrow> go_error option \<times> 'a \<times> 'c" where
  "Onchain_UnregisterAgent b cenv u = (\<lambda>(m, c).
     (if u = [] then (Some ErrBackendUnavailable, m, c)
      else case ca_RevokeAgent (ob_adapter b) cenv u m of
          (Inl err, m1) \<Rightarrow> (Some (Errorf ''onchain revoke: %w'' [err]), m1, c)
        | (Inr _, m1) \<Rightarrow> (None, m1, onchain_del b u c)))"

definition Onchain_GetChangeLogs :: "backend_env \<Rightarrow> string \<Rightarrow> go_error + backend_log list" where
  "Onchain_GetChangeLogs env u =
     (if u = [] then Inl ErrBackendUnavailable
      else Inr [(empty_log u ''info'' (en_now env))
        \<lparr> bl_NewValue := ''onchain backend does not maintain local audit logs'' \<rparr>])"

fun onchain_batch ::
  "('a, 'c) onchain_backend \<Rightarrow> string list \<Rightarrow> info_map \<Rightarrow> 'a \<times> 'c \<Rightarrow> info_map \<times> 'a \<times> 'c" where
  "onchain_batch b [] out st = (out, st)"
| "onchain_batch b (u # us) out st =
     (case Onchain_GetAgentInfo b u st of
        (Inl _, st1) \<Rightarrow> onchain_batch b us out st1
      | (Inr info, st1) \<Rightarrow> onchain_batch b us (AList.update (ai_UUID info) info out) st1)"

definition Onchain_BatchGetAgentInfo ::
  "('a, 'c) onchain_backend \<Rightarrow> string list \<Rightarrow> 'a \<times> 'c \<Rightarrow> info_map \<times> 'a \<times> 'c" where
  "Onchain_BatchGetAgentInfo b us st = (if us = [] then ([], st) else onchain_batch b us [] st)"

section \<open>The hybrid backend\<close>

record hybrid_config =
  hcf_OwnerKey :: string
  hcf_CacheTTL :: duration
  hcf_SyncInterval :: duration
  hcf_SyncBatchSize :: int

record ('a, 's, 'c) hybrid_backend =
  hb_chain :: "('a, 'c) onchain_backend"
  hb_local :: "('s, 'c) local_backend"
  hb_cfg :: hybrid_config
  hb_started :: bool
  hb_syncing :: bool

definition NewHybridBackend ::
  "'a chain_adapter option \<Rightarrow> 's persistence option \<Rightarrow> 'c cache option \<Rightarrow> hybrid_config \<Rightarrow>
   go_error + ('a, 's, 'c) hybrid_backend" where
  "NewHybridBackend adapter pers cch cfg =
     (if adapter = None then Inl ErrBackendUnavailable
      else if pers = None then Inl ErrBackendUnavailable
      else
        (let cfg1 = (if hcf_OwnerKey cfg = [] then cfg \<lparr> hcf_OwnerKey := ''agentid:hybrid:'' \<rparr>
                     else cfg);
             cfg2 = (if hcf_CacheTTL cfg1 = 0 then cfg1 \<lparr> hcf_CacheTTL := 10 * minute \<rparr>
                     else cfg1);
             cfg3 = (if hcf_SyncInterval cfg2 = 0
                     then cfg2 \<lparr> hcf_SyncInterval := 5 * minute \<rparr> else cfg2);
             cfg4 = (if hcf_SyncBatchSize cfg3 = 0 then cfg3 \<lparr> hcf_SyncBatchSize := 100 \<rparr>
                     else cfg3);
             c = (case cch of None \<Rightarrow> noopCache | Some c \<Rightarrow> c)
         in case NewOnchainBackend adapter (Some c)
                   \<lparr> ocf_OwnerKey = hcf_OwnerKey cfg4 @ ''chain:'',
                     ocf_CacheTTL = hcf_CacheTTL cfg4, ocf_HealthCheckTimeout = 0 \<rparr> of
              Inl err \<Rightarrow> Inl err
            | Inr chainBe \<Rightarrow>
                (case NewLocalBackend pers (Some c)
                        \<lparr> lcf_OwnerKey = hcf_OwnerKey cfg4 @ ''local:'',
                          lcf_CacheTTL = hcf_CacheTTL cfg4, lcf_MaxLogsPerAgent = 0 \<rparr> of
                   Inl err \<Rightarrow> Inl err
                 | Inr localBe \<Rightarrow>
                     Inr \<lparr> hb_chain = chainBe, hb_local = localBe, hb_cfg = cfg4,
                           hb_started = False, hb_syncing = False \<rparr>)))"

definition Hybrid_BackendType :: string where
  "Hybrid_BackendType = TypeHybrid"

text \<open>\<open>hb_syncing\<close> is whether the ticker runs; \<open>Close\<close> waits until it has stopped.\<close>

definition Hybrid_Start :: "('a, 's, 'c) hybrid_backend \<Rightarrow> go_error option \<times> ('a, 's, 'c) hybrid_backend" where
  "Hybrid_Start h =
     (if hb_started h then (None, h)
      else if hcf_SyncInterval (hb_cfg h) \<le> 0 then (None, h \<lparr> hb_started := True \<rparr>)
      else (None, h \<lparr> hb_started := True, hb_syncing := True \<rparr>))"

definition Hybrid_Close :: "('a, 's, 'c) hybrid_backend \<Rightarrow> go_error option \<times> ('a, 's, 'c) hybrid_backend" where
  "Hybrid_Close h =
     (let h1 = h \<lparr> hb_syncing := False \<rparr> in
      case Onchain_Close (hb_chain h1) of
        Some err \<Rightarrow> (Some err, h1)
      | None \<Rightarrow>
          (let (r, l) = Local_Close (hb_local h1) in (r, h1 \<lparr> hb_local := l \<rparr>)))"

type_synonym ('a, 's, 'c) hstate = "'a \<times> 's \<times> 'c"

text \<open>A call of the chain backend, or of the local one, inside the hybrid state.\<close>

definition on_chain :: "('a \<times> 'c \<Rightarrow> 'r \<times> 'a \<times> 'c) \<Rightarrow> ('a, 's, 'c) hstate \<Rightarrow> 'r \<times> ('a, 's, 'c) hstate" where
  "on_chain f = (\<lambda>(m, s, c). case f (m, c) of (r, m', c') \<Rightarrow> (r, m', s, c'))"

definition on_local :: "('s \<times> 'c \<Rightarrow> 'r \<times> 's \<times> 'c) \<Rightarrow> ('a, 's, 'c) hstate \<Rightarrow> 'r \<times> ('a, 's, 'c) hstate" where
  "on_local f = (\<lambda>(m, s, c). case f (s, c) of (r, s', c') \<Rightarrow> (r, m, s', c'))"

definition mirrorToLocal :: "('a, 's, 'c) hybrid_backend \<Rightarrow> backend_credential \<Rightarrow> 's \<Rightarrow> go_error option \<times> 's" where
  "mirrorToLocal h cred s =
     (let info = \<lparr> ai_UUID = bc_UUID cred, ai_Owner = bc_Owner cred, ai_Level = bc_Level cred,
                   ai_State = bc_State cred, ai_Permission = bc_Permission cred,
                   ai_PublicKey = bc_PublicKey cred, ai_TxHash = bc_TxHash cred,
                   ai_RegisteredAt = bc_CreatedAt cred, ai_UpdatedAt = bc_UpdatedAt cred \<rparr>
      in case p_PutAgent (lb_pers (hb_local h)) (Some info) s of
           (Some err, s1) \<Rightarrow> (Some err, s1)
         | (None, s1) \<Rightarrow>
             (None, snd (p_AppendLog (lb_pers (hb_local h))
                (Some ((empty_log (bc_UUID cred) ''register'' (bc_CreatedAt cred))
                   \<lparr> bl_Actor := bc_Owner cred, bl_NewValue := bc_State cred,
                      bl_TxHash := bc_TxHash cred \<rparr>)) s1)))"

definition Hybrid_RegisterAgent ::
  "('a, 's, 'c) hybrid_backend \<Rightarrow> backend_env \<Rightarrow> chain_env \<Rightarrow> backend_register_request option \<Rightarrow>
   ('a, 's, 'c) hstate \<Rightarrow> (go_error + backend_credential) \<times> ('a, 's, 'c) hstate" where
  "Hybrid_RegisterAgent h env cenv req st =
     (case on_chain (Onchain_RegisterAgent (hb_chain h) env cenv req) st of
        (Inl err, st1) \<Rightarrow> (Inl err, st1)
      | (Inr cred, m1, s1, c1) \<Rightarrow> (Inr cred, m1, snd (mirrorToLocal h cred s1), c1))"

definition Hybrid_UpdateAgentLevel ::
  "('a, 's, 'c) hybrid_backend \<Rightarrow> backend_env \<Rightarrow> chain_env \<Rightarrow> string \<Rightarrow> u8 \<Rightarrow> string \<Rightarrow>
   ('a, 's, 'c) hstate \<Rightarrow> go_error option \<times> ('a, 's, 'c) hstate" where
  "Hybrid_UpdateAgentLevel h env cenv u newLevel reason st =
     (case on_chain (Onchain_UpdateAgentLevel (hb_chain h) cenv u newLevel reason) st of
        (Some err, st1) \<Rightarrow> (Some err, st1)
      | (None, st1) \<Rightarrow>
          (None, snd (on_local (Local_UpdateAgentLevel (hb_local h) env u newLevel reason) st1)))"

definition Hybrid_BanAgent ::
  "('a, 's, 'c) hybrid_backend \<Rightarrow> backend_env \<Rightarrow> chain_env \<Rightarrow> string \<Rightarrow> string \<Rightarrow>
   ('a, 's, 'c) hstate \<Rightarrow> go_error option \<times> ('a, 's, 'c) hstate" where
  "Hybrid_BanAgent h env cenv u reason st =
     (case on_chain (Onchain_BanAgent (hb_chain h) cenv u reason) st of
        (Some err, st1) \<Rightarrow> (Some err, st1)
      | (None, st1) \<Rightarrow> (None, snd (on_local (Local_BanAgent (hb_local h) env u reason) st1)))"

definition Hybrid_UnbanAgent ::
  "('a, 's, 'c) hybrid_backend \<Rightarrow> backend_env \<Rightarrow> chain_env \<Rightarrow> string \<Rightarrow>
   ('a, 's, 'c) hstate \<Rightarrow> go_error option \<times> ('a, 's, 'c) hstate" where
  "Hybrid_UnbanAgent h env cenv u st =
     (case on_chain (Onchain_UnbanAgent (hb_chain h) cenv u) st of
        (Some err, st1) \<Rightarrow> (Some err, st1)
      | (None, st1) \<Rightarrow> (None, snd (on_local (Local_UnbanAgent (hb_local h) env u) st1)))"

definition Hybrid_UnregisterAgent ::
  "('a, 's, 'c) hybrid_backend \<Rightarrow> backend_env \<Rightarrow> chain_env \<Rightarrow> string \<Rightarrow>
   ('a, 's, 'c) hstate \<Rightarrow> go_error option \<times> ('a, 's, 'c) hstate" where
  "Hybrid_UnregisterAgent h env cenv u st =
     (case on_chain (Onchain_UnregisterAgent (hb_chain h) cenv u) st of
        (Some err, st1) \<Rightarrow> (Some err, st1)
      | (None, st1) \<Rightarrow> (None, snd (on_local (Local_UnregisterAgent (hb_local h) env u) st1)))"

definition Hybrid_GetAgentInfo ::
  "('a, 's, 'c) hybrid_backend \<Rightarrow> string \<Rightarrow> ('a, 's, 'c) hstate \<Rightarrow>
   (go_error + agent_info) \<times> ('a, 's, 'c) hstate" where
  "Hybrid_GetAgentInfo h u st =
     (if u = [] then (Inl (Errorf ''%w: empty uuid'' [ErrBackendUnavailable]), st)
      else case on_local (Local_GetAgentInfo (hb_local h) u) st of
          (Inr info, st1) \<Rightarrow> (Inr info, st1)
        | (Inl _, st1) \<Rightarrow>
            (case on_chain (Onchain_GetAgentInfo (hb_chain h) u) st1 of
               (Inl chainErr, st2) \<Rightarrow>
                 (if chainErr = ErrAgentNotFound then (Inl ErrAgentNotFound, st2)
                  else (Inl chainErr, st2))
             | (Inr chainInfo, m2, s2, c2) \<Rightarrow>
                 (Inr chainInfo, m2,
                  snd (p_PutAgent (lb_pers (hb_local h)) (Some chainInfo) s2), c2)))"

definition Hybrid_GetChangeLogs ::
  "('a, 's, 'c) hybrid_backend \<Rightarrow> string \<Rightarrow> ('a, 's, 'c) hstate \<Rightarrow> go_error + backend_log list" where
  "Hybrid_GetChangeLogs h u = (\<lambda>(m, s, c). Local_GetChangeLogs (hb_local h) u s)"

text \<open>
  The fill-in of a batch: the store of an entry into a nil map panics, as does a negative
  capacity.
\<close>

fun fill_local ::
  "('a, 's, 'c) hybrid_backend \<Rightarrow> info_map \<Rightarrow> info_map option \<Rightarrow> 's \<Rightarrow> (info_map option \<times> 's) outcome" where
  "fill_local h [] out s = Return (out, s)"
| "fill_local h ((u, info) # rest) out s =
     (case out of
        None \<Rightarrow> Panic ''assignment to entry in nil map''
      | Some o1 \<Rightarrow>
          fill_local h rest (Some (AList.update u info o1))
            (snd (p_PutAgent (lb_pers (hb_local h)) (Some info) s)))"

definition Hybrid_BatchGetAgentInfo ::
  "('a, 's, 'c) hybrid_backend \<Rightarrow> string list \<Rightarrow> ('a, 's, 'c) hstate \<Rightarrow>
   (info_map option \<times> ('a, 's, 'c) hstate) outcome" where
  "Hybrid_BatchGetAgentInfo h us = (\<lambda>(m, s, c).
     (if us = [] then Return (Some [], m, s, c)
      else
        (let localOut = fst (Local_BatchGetAgentInfo (hb_local h) us s);
             have = (case localOut of None \<Rightarrow> [] | Some o1 \<Rightarrow> o1);
             missing = filter (\<lambda>u. map_of have u = None) us
         in if length us < length have then Panic ''makeslice: cap out of range''
            else if missing = [] then Return (localOut, m, s, c)
            else case Onchain_BatchGetAgentInfo (hb_chain h) missing (m, c) of
                (chainOut, m1, c1) \<Rightarrow>
                  (case fill_local h chainOut localOut s of
                     Panic p \<Rightarrow> Panic p
                   | Return (out, s1) \<Rightarrow> Return (out, m1, s1, c1)))))"

section \<open>Synchronisation\<close>

fun sync_loop ::
  "('a, 's, 'c) hybrid_backend \<Rightarrow> agent_onchain list \<Rightarrow> ('a, 's, 'c) hstate \<Rightarrow> ('a, 's, 'c) hstate" where
  "sync_loop h [] st = st"
| "sync_loop h (a # rest) (m, s, c) =
     (let up_to_date =
            (case p_GetAgent (lb_pers (hb_local h)) (ao_UUID a) s of
               Inl _ \<Rightarrow> False
             | Inr r \<Rightarrow> \<not> ai_UpdatedAt r < ao_UpdatedAt a)
      in if up_to_date then sync_loop h rest (m, s, c)
         else case Onchain_GetAgentInfo (hb_chain h) (ao_UUID a) (m, c) of
             (Inl _, m1, c1) \<Rightarrow> sync_loop h rest (m1, s, c1)
           | (Inr info, m1, c1) \<Rightarrow>
               sync_loop h rest
                 (m1, snd (p_PutAgent (lb_pers (hb_local h)) (Some info) s), c1))"

definition Sync_runOnce ::
  "('a, 's, 'c) hybrid_backend \<Rightarrow> ('a, 's, 'c) hstate \<Rightarrow> go_error option \<times> ('a, 's, 'c) hstate" where
  "Sync_runOnce h st =
     (case ca_ListAll (ob_adapter (hb_chain h)) of
        None \<Rightarrow> (None, st)
      | Some lister \<Rightarrow> (None, sync_loop h (lister (fst st)) st))"

definition Hybrid_SyncNow ::
  "('a, 's, 'c) hybrid_backend \<Rightarrow> ('a, 's, 'c) hstate \<Rightarrow> go_error option \<times> ('a, 's, 'c) hstate" where
  "Hybrid_SyncNow h st = Sync_runOnce h st"

section \<open>Chain and local store agree\<close>

lemma mapChainState_simps [simp]:
  "mapChainState ChainActive = StateActive" "mapChainState ChainBanned = StateBanned"
  "mapChainState ChainRevoked = StateUnregistered"
  by (simp_all add: mapChainState_def)

text \<open>
  A local record mirrors a ledger entry: everything agrees but the level and the times.
\<close>

definition mirrors :: "agent_onchain \<Rightarrow> agent_info \<Rightarrow> bool" where
  "mirrors a r \<longleftrightarrow>
     ao_State a \<in> {ChainActive, ChainBanned, ChainRevoked}
   \<and> ai_State r = mapChainState (ao_State a) \<and> ai_Owner r = ao_Owner a
   \<and> ai_Permission r = ao_Permission a \<and> ai_PublicKey r = ao_PublicKey a
   \<and> ai_TxHash r = ao_TxHash a"

definition coupled_at :: "agent_onchain option \<Rightarrow> agent_info option \<Rightarrow> bool" where
  "coupled_at x y \<longleftrightarrow> (case x of None \<Rightarrow> y = None | Some a \<Rightarrow> (\<exists>r. y = Some r \<and> mirrors a r))"

definition coupled ::
  "(string \<Rightarrow> agent_onchain option) \<Rightarrow> (string \<Rightarrow> agent_info option) \<Rightarrow> bool" where
  "coupled C A \<longleftrightarrow> (\<forall>u. coupled_at (C u) (A u))"

lemma coupledD: "coupled C A \<Longrightarrow> coupled_at (C u) (A u)"
  by (simp add: coupled_def)

lemma coupled_Some: "coupled C A \<Longrightarrow> C u = Some a \<Longrightarrow> \<exists>r. A u = Some r \<and> mirrors a r"
  using coupledD [of C A u] by (simp add: coupled_at_def)

lemma coupled_None: "coupled C A \<Longrightarrow> C u = None \<Longrightarrow> A u = None"
  using coupledD [of C A u] by (simp add: coupled_at_def)

lemma coupled_upd: "coupled C A \<Longrightarrow> mirrors a r \<Longrightarrow> coupled (C(u \<mapsto> a)) (A(u \<mapsto> r))"
  by (simp add: coupled_def) (simp add: coupled_at_def)

lemma coupled_upd_local:
  "coupled C A \<Longrightarrow> C u = Some a \<Longrightarrow> mirrors a r \<Longrightarrow> coupled C (A(u \<mapsto> r))"
  using coupled_upd [of C A a r u] by (simp add: fun_upd_idem)

lemma coupled_upd_chain:
  "coupled C A \<Longrightarrow> A u = Some r \<Longrightarrow> mirrors a r \<Longrightarrow> coupled (C(u \<mapsto> a)) A"
  using coupled_upd [of C A a r u] by (simp add: fun_upd_idem)

lemma coupled_states_valid: "coupled C A \<Longrightarrow> states_valid (A, L)"
  unfolding states_valid_def
proof (intro allI impI)
  fix u r
  assume c: "coupled C A" and "fst (A, L) u = Some r"
  then obtain a where "C u = Some a" "mirrors a r"
    using coupled_Some [OF c, of u] coupled_None [OF c, of u] by (cases "C u") auto
  then show "State_IsValid (ai_State r)" by (auto simp: mirrors_def State_IsValid_def)
qed

lemma mirrors_info_of_chain: "mirrors a r \<Longrightarrow> mirrors a (info_of_chain a)"
  by (simp add: mirrors_def info_of_chain_def)

text \<open>A move of the local registry that follows a move of the ledger keeps them coupled.\<close>

lemma coupled_spec_move:
  assumes "coupled C (fst R)" and "C u = Some a" and "fst R u = Some r" and "ai_UUID r = u"
    and "idem (mapChainState (ao_State a)) \<Longrightarrow> C' = C"
    and "\<not> idem (mapChainState (ao_State a)) \<Longrightarrow>
           C' = C(u \<mapsto> a \<lparr> ao_State := t, ao_UpdatedAt := x \<rparr>)
         \<and> CanTransition (mapChainState (ao_State a)) (mapChainState t)"
    and "t \<in> {ChainActive, ChainBanned, ChainRevoked}"
  shows "coupled C' (fst (snd (spec_move env u action (mapChainState t) rs idem R)))"
proof -
  have m: "mirrors a r" using coupled_Some [OF assms(1,2)] assms(3) by auto
  then have st: "ai_State r = mapChainState (ao_State a)" by (simp add: mirrors_def)
  have m': "mirrors (a \<lparr> ao_State := t, ao_UpdatedAt := x \<rparr>)
      (r \<lparr> ai_State := mapChainState t, ai_UpdatedAt := en_now env \<rparr>)"
    using m assms(7) by (simp add: mirrors_def)
  show ?thesis
  proof (cases "idem (mapChainState (ao_State a))")
    case True
    then show ?thesis using assms(1,3) assms(5) [OF True] st by (simp add: spec_move_def)
  next
    case False
    then show ?thesis
      using assms(3,4) assms(6) [OF False] st coupled_upd [OF assms(1) m', of u]
      by (simp add: spec_move_def reg_write_def)
  qed
qed

text \<open>What a successful registration sends to the chain and returns to its caller.\<close>

definition chain_request :: "backend_register_request \<Rightarrow> string \<Rightarrow> chain_register_request" where
  "chain_request rq uid =
     \<lparr> crr_UUID = uid, crr_Owner = rq_Owner rq, crr_Level = rq_Level rq,
       crr_Permission = rq_Permission rq, crr_PublicKey = rq_PublicKey rq,
       crr_Metadata = rq_Metadata rq \<rparr>"

definition chain_credential ::
  "backend_env \<Rightarrow> backend_register_request \<Rightarrow> string \<Rightarrow> receipt \<Rightarrow> backend_credential" where
  "chain_credential env rq uid rc =
     \<lparr> bc_UUID = uid, bc_Owner = rq_Owner rq, bc_Level = rq_Level rq,
       bc_State = StateActive, bc_Permission = rq_Permission rq,
       bc_PublicKey = rq_PublicKey rq, bc_TxHash = rc_TxHash rc,
       bc_CreatedAt = en_now env, bc_UpdatedAt = en_now env \<rparr>"

lemma Onchain_RegisterAgent_Inr:
  assumes "Onchain_RegisterAgent b env cenv req (m, c) = (Inr cred, m1, c1)"
  shows "\<exists>rq uid rc. req = Some rq \<and> en_uuid env = Inr uid
       \<and> ca_RegisterAgent (ob_adapter b) cenv (Some (chain_request rq uid)) m = (Inr rc, m1)
       \<and> cred = chain_credential env rq uid rc \<and> rq_Level rq \<noteq> 0"
proof -
  obtain rq where rq: "req = Some rq"
    using assms by (cases req) (simp_all add: Onchain_RegisterAgent_def)
  obtain uid where uid: "en_uuid env = Inr uid"
    using assms rq by (cases "en_uuid env") (simp_all add: Onchain_RegisterAgent_def split: if_splits)
  obtain res m' where ca: "ca_RegisterAgent (ob_adapter b) cenv (Some (chain_request rq uid)) m = (res, m')"
    by fastforce
  then show ?thesis
    using assms rq uid
    by (cases res)
      (simp_all add: Onchain_RegisterAgent_def Let_def chain_request_def chain_credential_def
        split: if_splits)
qed

text \<open>A write of the hybrid backend: the chain first, then the local backend if it succeeded.\<close>

definition hybrid_write ::
  "('a \<times> 'c \<Rightarrow> go_error option \<times> 'a \<times> 'c) \<Rightarrow> ('s \<times> 'c \<Rightarrow> go_error option \<times> 's \<times> 'c) \<Rightarrow>
   ('a, 's, 'c) hstate \<Rightarrow> go_error option \<times> ('a, 's, 'c) hstate" where
  "hybrid_write f g st =
     (case on_chain f st of
        (Some err, st1) \<Rightarrow> (Some err, st1)
      | (None, st1) \<Rightarrow> (None, snd (on_local g st1)))"

lemmas hybrid_writes = Hybrid_UpdateAgentLevel_def Hybrid_BanAgent_def Hybrid_UnbanAgent_def
  Hybrid_UnregisterAgent_def

lemma hybrid_write_ok:
  "f (m, c) = (None, m1, c1) \<Longrightarrow>
     hybrid_write f g (m, s, c) = (None, m1, fst (snd (g (s, c1))), snd (snd (g (s, c1))))"
  by (simp add: hybrid_write_def on_chain_def on_local_def split: prod.split)

lemma hybrid_write_err:
  "f (m, c) = (Some e, m1, c1) \<Longrightarrow> hybrid_write f g (m, s, c) = (Some e, m1, s, c1)"
  by (simp add: hybrid_write_def on_chain_def)

locale hybrid_contract = chain_contract adp cinv chain + persistence_contract pers pinv agents logs
  for adp :: "'a chain_adapter" and cinv chain
    and pers :: "'s persistence" and pinv agents logs
begin

definition hinv :: "'a \<times> 's \<times> 'c \<Rightarrow> bool" where
  "hinv st \<longleftrightarrow>
     cinv (fst st) \<and> pinv (fst (snd st)) \<and> coupled (chain (fst st)) (agents (fst (snd st)))"

lemma hinv_write:
  assumes "hinv (m, s, c)"
    and "\<And>e m1 c1. f (m, c) = (Some e, m1, c1) \<Longrightarrow> m1 = m"
    and "\<And>m1 c1. f (m, c) = (None, m1, c1) \<Longrightarrow>
           cinv m1 \<and> pinv (fst (snd (g (s, c1)))) \<and> coupled (chain m1) (agents (fst (snd (g (s, c1)))))"
  shows "hinv (snd (hybrid_write f g (m, s, c)))"
proof -
  obtain r m1 c1 where f: "f (m, c) = (r, m1, c1)" by (metis prod.collapse)
  show ?thesis
  proof (cases r)
    case None
    with f assms(3) show ?thesis by (simp add: hybrid_write_ok hinv_def)
  next
    case (Some e)
    with f assms(1,2) show ?thesis by (simp add: hybrid_write_err hinv_def)
  qed
qed

lemma hinvD: "hinv (m, s, c) \<Longrightarrow> cinv m \<and> pinv s \<and> coupled (chain m) (agents s)"
  by (simp add: hinv_def)

lemma hinv_mirror:
  "hinv (m, s, c) \<Longrightarrow> chain m u = Some a \<Longrightarrow> \<exists>r. agents s u = Some r \<and> mirrors a r \<and> ai_UUID r = u"
  using coupled_Some [of "chain m" "agents s" u a] get_key [of s u] by (auto simp: hinv_def)

lemma refines_agents:
  "refines pinv (\<lambda>s. (agents s, logs s)) res sp \<Longrightarrow>
     pinv (fst (snd res)) \<and> agents (fst (snd res)) = fst (snd sp)"
  by (simp add: refines_def)

lemma hinv_ban:
  assumes "hinv (m, s, c)" and "ob_adapter b = adp" and "lb_pers l = pers"
  shows "hinv (snd (hybrid_write (Onchain_BanAgent b cenv u rs) (Local_BanAgent l env u rs) (m, s, c)))"
proof (rule hinv_write [OF assms(1)])
  fix e m1 c1
  assume "Onchain_BanAgent b cenv u rs (m, c) = (Some e, m1, c1)"
  then show "m1 = m"
    using hinvD [OF assms(1)]
    by (auto simp: Onchain_BanAgent_def assms(2) dest: ban_err split: if_splits prod.splits sum.splits)
next
  fix m1 c1
  assume "Onchain_BanAgent b cenv u rs (m, c) = (None, m1, c1)"
  then obtain rc where "ca_BanAgent adp cenv (Some \<lparr> br_UUID = u, br_Reason = rs \<rparr>) m = (Inr rc, m1)"
    using assms(2) by (auto simp: Onchain_BanAgent_def split: if_splits prod.splits sum.splits)
  from ban_ok [OF this] obtain a where a: "cinv m1" "chain m u = Some a" "ao_State a \<noteq> ChainRevoked"
    "chain m1 = (if ao_State a = ChainBanned then chain m
       else (chain m)(u \<mapsto> a \<lparr> ao_State := ChainBanned, ao_UpdatedAt := ce_now cenv \<rparr>))"
    using hinvD [OF assms(1)] by auto
  obtain r where r: "agents s u = Some r" "mirrors a r" "ai_UUID r = u"
    using hinv_mirror [OF assms(1) a(2)] by blast
  let ?R = "(agents s, logs s)"
  note i = hinvD [OF assms(1)]
  have "refines pinv (\<lambda>s. (agents s, logs s)) (Local_BanAgent l env u rs (s, c1))
      (spec_move env u ''ban'' StateBanned rs (\<lambda>st. st = StateBanned) ?R)"
    using i coupled_states_valid by (intro local_ban_refines [OF _ assms(3)]) auto
  moreover have "coupled (chain m1) (fst (snd (spec_move env u ''ban'' (mapChainState ChainBanned) rs
      (\<lambda>st. st = StateBanned) ?R)))"
    by (rule coupled_spec_move [where a = a and r = r and x = "ce_now cenv" and C = "chain m"])
      (use i a r in \<open>auto simp: mirrors_def CanTransition_iff\<close>)
  ultimately show "cinv m1 \<and> pinv (fst (snd (Local_BanAgent l env u rs (s, c1))))
      \<and> coupled (chain m1) (agents (fst (snd (Local_BanAgent l env u rs (s, c1)))))"
    using a(1) by (auto dest: refines_agents)
qed

lemma hinv_unban:
  assumes "hinv (m, s, c)" and "ob_adapter b = adp" and "lb_pers l = pers"
  shows "hinv (snd (hybrid_write (Onchain_UnbanAgent b cenv u) (Local_UnbanAgent l env u) (m, s, c)))"
proof (rule hinv_write [OF assms(1)])
  fix e m1 c1
  assume "Onchain_UnbanAgent b cenv u (m, c) = (Some e, m1, c1)"
  then show "m1 = m"
    using hinvD [OF assms(1)]
    by (auto simp: Onchain_UnbanAgent_def assms(2) dest: unban_err split: if_splits prod.splits sum.splits)
next
  fix m1 c1
  assume "Onchain_UnbanAgent b cenv u (m, c) = (None, m1, c1)"
  then obtain rc where "ca_UnbanAgent adp cenv u m = (Inr rc, m1)"
    using assms(2) by (auto simp: Onchain_UnbanAgent_def split: if_splits prod.splits sum.splits)
  from unban_ok [OF this] obtain a where a: "cinv m1" "chain m u = Some a"
    "chain m1 = (if ao_State a \<noteq> ChainBanned then chain m
       else (chain m)(u \<mapsto> a \<lparr> ao_State := ChainActive, ao_UpdatedAt := ce_now cenv \<rparr>))"
    using hinvD [OF assms(1)] by auto
  obtain r where r: "agents s u = Some r" "mirrors a r" "ai_UUID r = u"
    using hinv_mirror [OF assms(1) a(2)] by blast
  let ?R = "(agents s, logs s)"
  note i = hinvD [OF assms(1)]
  have "refines pinv (\<lambda>s. (agents s, logs s)) (Local_UnbanAgent l env u (s, c1))
      (spec_move env u ''unban'' StateActive [] (\<lambda>st. st \<noteq> StateBanned) ?R)"
    using i by (intro local_unban_refines [OF _ assms(3)]) auto
  moreover have "coupled (chain m1) (fst (snd (spec_move env u ''unban'' (mapChainState ChainActive) []
      (\<lambda>st. st \<noteq> StateBanned) ?R)))"
    by (rule coupled_spec_move [where a = a and r = r and x = "ce_now cenv" and C = "chain m"])
      (use i a r in \<open>auto simp: mirrors_def CanTransition_iff\<close>)
  ultimately show "cinv m1 \<and> pinv (fst (snd (Local_UnbanAgent l env u (s, c1))))
      \<and> coupled (chain m1) (agents (fst (snd (Local_UnbanAgent l env u (s, c1)))))"
    using a(1) by (auto dest: refines_agents)
qed

lemma hinv_unregister:
  assumes "hinv (m, s, c)" and "ob_adapter b = adp" and "lb_pers l = pers"
  shows "hinv (snd (hybrid_write (Onchain_UnregisterAgent b cenv u) (Local_UnregisterAgent l env u)
           (m, s, c)))"
proof (rule hinv_write [OF assms(1)])
  fix e m1 c1
  assume "Onchain_UnregisterAgent b cenv u (m, c) = (Some e, m1, c1)"
  then show "m1 = m"
    using hinvD [OF assms(1)]
    by (auto simp: Onchain_UnregisterAgent_def assms(2) dest: revoke_err
        split: if_splits prod.splits sum.splits)
next
  fix m1 c1
  assume "Onchain_UnregisterAgent b cenv u (m, c) = (None, m1, c1)"
  then obtain rc where "ca_RevokeAgent adp cenv u m = (Inr rc, m1)"
    using assms(2) by (auto simp: Onchain_UnregisterAgent_def split: if_splits prod.splits sum.splits)
  from revoke_ok [OF this] obtain a where a: "cinv m1" "chain m u = Some a"
    "chain m1 = (if ao_State a = ChainRevoked then chain m
       else (chain m)(u \<mapsto> a \<lparr> ao_State := ChainRevoked, ao_UpdatedAt := ce_now cenv \<rparr>))"
    using hinvD [OF assms(1)] by auto
  obtain r where r: "agents s u = Some r" "mirrors a r" "ai_UUID r = u"
    using hinv_mirror [OF assms(1) a(2)] by blast
  let ?R = "(agents s, logs s)"
  note i = hinvD [OF assms(1)]
  have "refines pinv (\<lambda>s. (agents s, logs s)) (Local_UnregisterAgent l env u (s, c1))
      (spec_move env u ''unregister'' StateUnregistered [] (\<lambda>st. st = StateUnregistered) ?R)"
    using i coupled_states_valid by (intro local_unregister_refines [OF _ assms(3)]) auto
  moreover have "coupled (chain m1) (fst (snd (spec_move env u ''unregister''
      (mapChainState ChainRevoked) [] (\<lambda>st. st = StateUnregistered) ?R)))"
    by (rule coupled_spec_move [where a = a and r = r and x = "ce_now cenv" and C = "chain m"])
      (use i a r in \<open>auto simp: mirrors_def CanTransition_iff\<close>)
  ultimately show "cinv m1 \<and> pinv (fst (snd (Local_UnregisterAgent l env u (s, c1))))
      \<and> coupled (chain m1) (agents (fst (snd (Local_UnregisterAgent l env u (s, c1)))))"
    using a(1) by (auto dest: refines_agents)
qed

lemma hinv_update:
  assumes "hinv (m, s, c)" and "ob_adapter b = adp" and "lb_pers l = pers"
  shows "hinv (snd (hybrid_write (Onchain_UpdateAgentLevel b cenv u lv rs)
           (Local_UpdateAgentLevel l env u lv rs) (m, s, c)))"
proof (rule hinv_write [OF assms(1)])
  fix e m1 c1
  assume "Onchain_UpdateAgentLevel b cenv u lv rs (m, c) = (Some e, m1, c1)"
  then show "m1 = m"
    using hinvD [OF assms(1)]
    by (auto simp: Onchain_UpdateAgentLevel_def assms(2) dest: update_err
        split: if_splits prod.splits sum.splits)
next
  fix m1 c1
  assume "Onchain_UpdateAgentLevel b cenv u lv rs (m, c) = (None, m1, c1)"
  then obtain rc where
    "ca_UpdateLevel adp cenv (Some \<lparr> ulr_UUID = u, ulr_NewLevel = lv, ulr_Reason = rs \<rparr>) m = (Inr rc, m1)"
    using assms(2) by (auto simp: Onchain_UpdateAgentLevel_def split: if_splits prod.splits sum.splits)
  from update_ok [OF this] obtain a where a: "cinv m1" "chain m u = Some a"
    "chain m1 = (chain m)(u \<mapsto> a \<lparr> ao_Level := lv, ao_UpdatedAt := ce_now cenv \<rparr>)"
    using hinvD [OF assms(1)] by auto
  obtain r where r: "agents s u = Some r" "mirrors a r" "ai_UUID r = u"
    using hinv_mirror [OF assms(1) a(2)] by blast
  let ?R = "(agents s, logs s)"
  let ?a = "a \<lparr> ao_Level := lv, ao_UpdatedAt := ce_now cenv \<rparr>"
  note i = hinvD [OF assms(1)]
  have "refines pinv (\<lambda>s. (agents s, logs s)) (Local_UpdateAgentLevel l env u lv rs (s, c1))
      (spec_upgrade env u lv rs ?R)"
    using i coupled_states_valid by (intro local_upgrade_refines [OF _ assms(3)]) auto
  moreover have "mirrors ?a r" "mirrors ?a (r \<lparr> ai_Level := lv, ai_UpdatedAt := en_now env \<rparr>)"
    using r(2) by (simp_all add: mirrors_def)
  then have "coupled (chain m1) (fst (snd (spec_upgrade env u lv rs ?R)))"
    using i a(3) r coupled_upd [of "chain m" "agents s" ?a _ u]
      coupled_upd_chain [of "chain m" "agents s" u r ?a]
    by (auto simp: spec_upgrade_def reg_write_def)
  ultimately show "cinv m1 \<and> pinv (fst (snd (Local_UpdateAgentLevel l env u lv rs (s, c1))))
      \<and> coupled (chain m1) (agents (fst (snd (Local_UpdateAgentLevel l env u lv rs (s, c1)))))"
    using a(1) by (auto dest: refines_agents)
qed

lemma mirrorToLocal_spec:
  assumes "pinv s" and "lb_pers (hb_local h) = pers" and "bc_UUID cred \<noteq> []"
  shows "pinv (snd (mirrorToLocal h cred s)) \<and> agents (snd (mirrorToLocal h cred s)) =
     (agents s)(bc_UUID cred \<mapsto>
       \<lparr> ai_UUID = bc_UUID cred, ai_Owner = bc_Owner cred, ai_Level = bc_Level cred,
         ai_State = bc_State cred, ai_Permission = bc_Permission cred,
         ai_PublicKey = bc_PublicKey cred, ai_TxHash = bc_TxHash cred,
         ai_RegisteredAt = bc_CreatedAt cred, ai_UpdatedAt = bc_UpdatedAt cred \<rparr>)"
proof -
  let ?r = "\<lparr> ai_UUID = bc_UUID cred, ai_Owner = bc_Owner cred, ai_Level = bc_Level cred,
         ai_State = bc_State cred, ai_Permission = bc_Permission cred,
         ai_PublicKey = bc_PublicKey cred, ai_TxHash = bc_TxHash cred,
         ai_RegisteredAt = bc_CreatedAt cred, ai_UpdatedAt = bc_UpdatedAt cred \<rparr>"
  let ?l = "(empty_log (bc_UUID cred) ''register'' (bc_CreatedAt cred))
      \<lparr> bl_Actor := bc_Owner cred, bl_NewValue := bc_State cred, bl_TxHash := bc_TxHash cred \<rparr>"
  have "ai_UUID ?r = bc_UUID cred" "bl_UUID ?l = bc_UUID cred" by (simp_all add: empty_log_def)
  then obtain s1 s2 where "p_PutAgent pers (Some ?r) s = (None, s1)"
    "p_AppendLog pers (Some ?l) s1 = (None, s2)" "pinv s2"
    "agents s2 = (agents s)(bc_UUID cred \<mapsto> ?r)"
    using assms(1,3) by (rule_tac put_append)
  then show ?thesis using assms(2) by (simp add: mirrorToLocal_def Let_def)
qed

lemma hinv_register:
  assumes "hinv (m, s, c)" and "ob_adapter (hb_chain h) = adp" and "lb_pers (hb_local h) = pers"
  shows "hinv (snd (Hybrid_RegisterAgent h env cenv req (m, s, c)))"
proof -
  obtain res m1 c1 where o: "Onchain_RegisterAgent (hb_chain h) env cenv req (m, c) = (res, m1, c1)"
    by (metis prod.collapse)
  note i = hinvD [OF assms(1)]
  show ?thesis
  proof (cases res)
    case (Inl e)
    with o have "m1 = m"
      using i by (auto simp: Onchain_RegisterAgent_def Let_def assms(2) dest: register_err
          split: option.splits if_splits prod.splits sum.splits)
    with Inl o i show ?thesis
      by (simp add: Hybrid_RegisterAgent_def on_chain_def hinv_def)
  next
    case (Inr cred)
    with o obtain rq uid rc where ca: "ca_RegisterAgent adp cenv
        (Some (chain_request rq uid)) m = (Inr rc, m1)" and cred: "cred = chain_credential env rq uid rc"
      using Onchain_RegisterAgent_Inr [of "hb_chain h" env cenv req m c cred m1 c1] assms(2) by auto
    from register_ok [OF ca] i have ok: "cinv m1" "uid \<noteq> []"
      "chain m1 = (chain m)(uid \<mapsto> registered_onchain cenv (chain_request rq uid) (rc_TxHash rc))"
      by (auto simp: chain_request_def)
    have "pinv (snd (mirrorToLocal h cred s))"
      "coupled (chain m1) (agents (snd (mirrorToLocal h cred s)))"
      using mirrorToLocal_spec [of s h cred] i assms(3) ok(2) cred
      by (auto simp: ok(3) chain_request_def chain_credential_def registered_onchain_def mirrors_def
          intro!: coupled_upd)
    then show ?thesis
      using Inr o ok(1) by (simp add: Hybrid_RegisterAgent_def on_chain_def hinv_def)
  qed
qed

lemma put_info_of_chain:
  assumes "hinv (m, s, c)" and "chain m u = Some a"
  shows "hinv (m, snd (p_PutAgent pers (Some (info_of_chain a)) s), c')
       \<and> agents (snd (p_PutAgent pers (Some (info_of_chain a)) s)) = (agents s)(u \<mapsto> info_of_chain a)"
proof -
  note i = hinvD [OF assms(1)]
  obtain r where r: "agents s u = Some r" "mirrors a r" "ai_UUID r = u"
    using hinv_mirror [OF assms] by blast
  have "u \<noteq> []" using key_not_empty i r(1) by blast
  moreover have "ai_UUID (info_of_chain a) = u"
    using ledger_key [of m u a] i assms(2) by (simp add: info_of_chain_def)
  ultimately obtain s' where "p_PutAgent pers (Some (info_of_chain a)) s = (None, s')" "pinv s'"
    "agents s' = (agents s)(u \<mapsto> info_of_chain a)"
    using put [of s "info_of_chain a"] i by auto
  moreover have "coupled (chain m) ((agents s)(u \<mapsto> info_of_chain a))"
    using coupled_upd_local [of "chain m" "agents s" u a "info_of_chain a"] assms(2)
      mirrors_info_of_chain [OF r(2)] i by blast
  ultimately show ?thesis using i by (simp add: hinv_def)
qed

lemma onchain_info_spec:
  assumes "cinv m" and "ob_adapter b = adp"
  shows "fst (snd (Onchain_GetAgentInfo b u (m, c))) = m
       \<and> (\<forall>info. fst (Onchain_GetAgentInfo b u (m, c)) = Inr info \<longrightarrow>
            (\<exists>a. chain m u = Some a \<and> info = info_of_chain a))
       \<and> (\<forall>a. ca_GetAgentState adp u m = Inr a \<longrightarrow> u \<noteq> [] \<longrightarrow>
            fst (Onchain_GetAgentInfo b u (m, c)) = Inr (info_of_chain a))"
  using assms(1)
  by (auto simp: Onchain_GetAgentInfo_def assms(2) dest: get_ok
      split: sum.split go_error.split)

lemma hinv_sync:
  assumes "hinv (m, s, c)" and "ob_adapter (hb_chain h) = adp" and "lb_pers (hb_local h) = pers"
  shows "fst (sync_loop h as (m, s, c)) = m \<and> hinv (sync_loop h as (m, s, c))"
  using assms(1)
proof (induction as arbitrary: s c)
  case (Cons a as)
  note i = hinvD [OF Cons.prems]
  obtain res m1 c1 where o: "Onchain_GetAgentInfo (hb_chain h) (ao_UUID a) (m, c) = (res, m1, c1)"
    by (metis prod.collapse)
  have m1: "m1 = m"
    using onchain_info_spec [of m "hb_chain h" "ao_UUID a" c] o i assms(2) by simp
  show ?case
  proof (cases res)
    case (Inl e)
    have "hinv (m, s, c1)" using Cons.prems by (simp add: hinv_def)
    with Inl o m1 Cons.IH [of s c] Cons.IH [of s c1] Cons.prems show ?thesis
      by (simp add: Let_def)
  next
    case (Inr info)
    then obtain b where "chain m (ao_UUID a) = Some b" "info = info_of_chain b"
      using onchain_info_spec [of m "hb_chain h" "ao_UUID a" c] o i assms(2) by auto
    then have "hinv (m, snd (p_PutAgent pers (Some info) s), c1)"
      using put_info_of_chain [OF Cons.prems, of "ao_UUID a" b c1] by simp
    with Inr o m1 Cons.IH Cons.prems assms(3) show ?thesis by (simp add: Let_def)
  qed
qed simp

lemma hinv_info:
  assumes "hinv (m, s, c)" and "ob_adapter (hb_chain h) = adp" and "lb_pers (hb_local h) = pers"
  shows "hinv (snd (Hybrid_GetAgentInfo h u (m, s, c)))"
proof (cases "u = []")
  case False
  note i = hinvD [OF assms(1)]
  obtain res s1 c1 where l: "Local_GetAgentInfo (hb_local h) u (s, c) = (res, s1, c1)"
    by (metis prod.collapse)
  have s1: "s1 = s"
    using local_get_spec [of s "hb_local h" u c] i assms(3) False l by simp
  have i1: "hinv (m, s, c1)" using assms(1) by (simp add: hinv_def)
  obtain cres m2 c2 where o: "Onchain_GetAgentInfo (hb_chain h) u (m, c1) = (cres, m2, c2)"
    by (metis prod.collapse)
  have m2: "m2 = m" using onchain_info_spec [of m "hb_chain h" u c1] o i assms(2) by simp
  have i2: "hinv (m, s, c2)" using assms(1) by (simp add: hinv_def)
  show ?thesis
  proof (cases cres)
    case (Inr info)
    then obtain b where "chain m u = Some b" "info = info_of_chain b"
      using onchain_info_spec [of m "hb_chain h" u c1] o i assms(2) by auto
    then have "hinv (m, snd (p_PutAgent pers (Some info) s), c2)"
      using put_info_of_chain [OF assms(1), of u b c2] by simp
    with Inr l s1 o m2 i1 assms(3) show ?thesis
      by (simp add: Hybrid_GetAgentInfo_def on_local_def on_chain_def False split: sum.split)
  next
    case (Inl e)
    with l s1 o m2 i1 i2 show ?thesis
      by (simp add: Hybrid_GetAgentInfo_def on_local_def on_chain_def False split: sum.split)
  qed
qed (use assms in \<open>simp add: Hybrid_GetAgentInfo_def\<close>)

lemma onchain_batch_spec:
  assumes "cinv m" and "ob_adapter b = adp"
    and "\<forall>(u, info) \<in> set out. \<exists>a. chain m u = Some a \<and> info = info_of_chain a"
  shows "fst (snd (onchain_batch b us out (m, c))) = m
       \<and> (\<forall>(u, info) \<in> set (fst (onchain_batch b us out (m, c))).
            \<exists>a. chain m u = Some a \<and> info = info_of_chain a)"
  using assms(3)
proof (induction us arbitrary: out c)
  case (Cons u us)
  obtain res m1 c1 where o: "Onchain_GetAgentInfo b u (m, c) = (res, m1, c1)"
    by (metis prod.collapse)
  have m1: "m1 = m" using onchain_info_spec [of m b u c] o assms(1,2) by simp
  show ?case
  proof (cases res)
    case (Inr info)
    then obtain a where a: "chain m u = Some a" "info = info_of_chain a"
      using onchain_info_spec [of m b u c] o assms(1,2) by auto
    then have "ai_UUID info = u"
      using ledger_key [of m u a] assms(1) by (simp add: info_of_chain_def)
    moreover have "list_all (\<lambda>(u, info). \<exists>a. chain m u = Some a \<and> info = info_of_chain a)
        (AList.update u info out)"
      using Cons.prems a by (intro list_all_update) (auto simp: list_all_iff)
    ultimately have "\<forall>(u, info) \<in> set (AList.update (ai_UUID info) info out).
        \<exists>a. chain m u = Some a \<and> info = info_of_chain a"
      by (simp add: list_all_iff)
    from Cons.IH [OF this] Inr o m1 show ?thesis by simp
  next
    case (Inl e)
    with Cons.IH [OF Cons.prems] o m1 show ?thesis by simp
  qed
qed simp

lemma hinv_fill:
  assumes "hinv (m, s, c)" and "lb_pers (hb_local h) = pers"
    and "\<forall>(u, info) \<in> set entries. \<exists>a. chain m u = Some a \<and> info = info_of_chain a"
  shows "\<exists>out' s'. fill_local h entries (Some out) s = Return (Some out', s') \<and> hinv (m, s', c)"
  using assms(1,3)
proof (induction entries arbitrary: out s)
  case (Cons p entries)
  then obtain u a where p: "p = (u, info_of_chain a)" "chain m u = Some a" by (cases p) auto
  then have "hinv (m, snd (p_PutAgent pers (Some (info_of_chain a)) s), c)"
    using put_info_of_chain [OF Cons.prems(1), of u a c] by simp
  from Cons.IH [OF this] Cons.prems(2) p show ?case by (simp add: assms(2))
qed simp

lemma hinv_batch:
  assumes "hinv (m, s, c)" and "ob_adapter (hb_chain h) = adp" and "lb_pers (hb_local h) = pers"
    and "Hybrid_BatchGetAgentInfo h us (m, s, c) = Return (out, st')"
  shows "hinv st'"
proof -
  note i = hinvD [OF assms(1)]
  obtain lo where lo: "us \<noteq> [] \<Longrightarrow> fst (Local_BatchGetAgentInfo (hb_local h) us s) = Some lo"
    using batch [of s us] i assms(3) by (auto simp: Local_BatchGetAgentInfo_def)
  let ?miss = "filter (\<lambda>u. map_of lo u = None) us"
  obtain co m1 c1 where co: "Onchain_BatchGetAgentInfo (hb_chain h) ?miss (m, c) = (co, m1, c1)"
    by (metis prod.collapse)
  have b: "m1 = m" "\<forall>(u, info) \<in> set co. \<exists>a. chain m u = Some a \<and> info = info_of_chain a"
    using onchain_batch_spec [of m "hb_chain h" "[]" ?miss c] co i assms(2)
    by (auto simp: Onchain_BatchGetAgentInfo_def split: if_splits)
  obtain lo' s' where f: "fill_local h co (Some lo) s = Return (Some lo', s')" "hinv (m, s', c1)"
    using hinv_fill [of m s c1 h co lo] assms(1,3) b(2) by (auto simp: hinv_def)
  show ?thesis
    using assms(1,4) lo co b(1) f
    by (auto simp: Hybrid_BatchGetAgentInfo_def Let_def split: if_splits)
qed

text \<open>A synchronisation appends nothing to the audit logs.\<close>

lemma sync_logs:
  assumes "hinv (m, s, c)" and "ob_adapter (hb_chain h) = adp" and "lb_pers (hb_local h) = pers"
  shows "logs (fst (snd (sync_loop h as (m, s, c)))) = logs s"
  using assms(1)
proof (induction as arbitrary: s c)
  case (Cons a as)
  note i = hinvD [OF Cons.prems]
  obtain res m1 c1 where o: "Onchain_GetAgentInfo (hb_chain h) (ao_UUID a) (m, c) = (res, m1, c1)"
    by (metis prod.collapse)
  have m1: "m1 = m"
    using onchain_info_spec [of m "hb_chain h" "ao_UUID a" c] o i assms(2) by simp
  show ?case
  proof (cases res)
    case (Inl e)
    have "hinv (m, s, c1)" using Cons.prems by (simp add: hinv_def)
    with Inl o m1 Cons.IH [of s c] Cons.IH [of s c1] Cons.prems show ?thesis
      by (simp add: Let_def)
  next
    case (Inr info)
    then obtain b where b: "chain m (ao_UUID a) = Some b" "info = info_of_chain b"
      using onchain_info_spec [of m "hb_chain h" "ao_UUID a" c] o i assms(2) by auto
    note p = put_info_of_chain [OF Cons.prems b(1), of c1]
    have "ai_UUID (info_of_chain b) = ao_UUID a"
      using ledger_key [of m "ao_UUID a" b] i b(1) by (simp add: info_of_chain_def)
    moreover obtain r where "agents s (ao_UUID a) = Some r"
      using hinv_mirror [OF Cons.prems b(1)] by blast
    ultimately have "logs (snd (p_PutAgent pers (Some (info_of_chain b)) s)) = logs s"
      using put [of s "info_of_chain b"] i key_not_empty [of s "ao_UUID a" r] by auto
    with Inr b o m1 p Cons.IH Cons.prems assms(3) show ?thesis by (simp add: Let_def)
  qed
qed simp

text \<open>What one synchronisation does to the local records.\<close>

lemma sync_effect:
  assumes "hinv (m, s, c)" and "ob_adapter (hb_chain h) = adp" and "lb_pers (hb_local h) = pers"
    and "distinct (map ao_UUID as)"
    and "\<forall>a \<in> set as. ca_GetAgentState adp (ao_UUID a) m = Inr a"
  shows "agents (fst (snd (sync_loop h as (m, s, c)))) u =
     (case find (\<lambda>a. ao_UUID a = u) as of
        None \<Rightarrow> agents s u
      | Some a \<Rightarrow>
          (case agents s u of
             None \<Rightarrow> Some (info_of_chain a)
           | Some r \<Rightarrow> if ai_UpdatedAt r < ao_UpdatedAt a then Some (info_of_chain a) else Some r))"
  using assms(1,4,5)
proof (induction as arbitrary: s c)
  case (Cons a as)
  note i = hinvD [OF Cons.prems(1)]
  have ga: "chain m (ao_UUID a) = Some a" using get_ok Cons.prems(3) i by auto
  obtain r where r: "agents s (ao_UUID a) = Some r" using hinv_mirror [OF Cons.prems(1) ga] by blast
  have ne: "ao_UUID a \<noteq> []" using key_not_empty i r by blast
  obtain c1 where o: "Onchain_GetAgentInfo (hb_chain h) (ao_UUID a) (m, c) = (Inr (info_of_chain a), m, c1)"
    using onchain_info_spec [of m "hb_chain h" "ao_UUID a" c] i assms(2) Cons.prems(3) ne
    by (metis list.set_intros(1) prod.collapse)
  have nf: "find (\<lambda>b. ao_UUID b = ao_UUID a) as = None"
    using Cons.prems(2) by (simp add: find_None_iff) (metis image_eqI)
  have g: "p_GetAgent pers (ao_UUID a) s = Inr r" using get [of s "ao_UUID a"] i r by simp
  show ?case
  proof (cases "ai_UpdatedAt r < ao_UpdatedAt a")
    case True
    let ?s = "snd (p_PutAgent pers (Some (info_of_chain a)) s)"
    have p: "hinv (m, ?s, c1)" "agents ?s = (agents s)(ao_UUID a \<mapsto> info_of_chain a)"
      using put_info_of_chain [OF Cons.prems(1) ga, of c1] by simp_all
    have eq: "sync_loop h (a # as) (m, s, c) = sync_loop h as (m, ?s, c1)"
      using True g o by (simp add: assms(3) Let_def)
    have pu: "agents ?s u = (if u = ao_UUID a then Some (info_of_chain a) else agents s u)"
      using p(2) by simp
    show ?thesis
      using Cons.IH [OF p(1)] Cons.prems(2,3) True r nf
      unfolding eq pu by (cases "ao_UUID a = u") (auto simp del: sync_loop.simps)
  next
    case False
    have eq: "sync_loop h (a # as) (m, s, c) = sync_loop h as (m, s, c)"
      using False g by (simp add: assms(3) Let_def)
    show ?thesis
      using Cons.IH [of s c] Cons.prems False r nf
      unfolding eq by (cases "ao_UUID a = u") (auto simp: hinv_def simp del: sync_loop.simps)
  qed
qed simp

end

section \<open>The mock chain with the in-memory store\<close>

interpretation hyb: hybrid_contract mock_ops mock_inv "\<lambda>m. map_of (ma_agents m)"
  memory_ops memory_inv "\<lambda>m. map_of (mp_agents m)" log_list
  by unfold_locales

text \<open>One call of the hybrid backend, a synchronisation included.\<close>

inductive hybrid_step ::
  "('a, 's, 'c) hybrid_backend \<Rightarrow> ('a, 's, 'c) hstate \<Rightarrow> ('a, 's, 'c) hstate \<Rightarrow> bool" for h where
  register: "Hybrid_RegisterAgent h env cenv req st = (res, st') \<Longrightarrow> hybrid_step h st st'"
| update: "Hybrid_UpdateAgentLevel h env cenv u l rs st = (r, st') \<Longrightarrow> hybrid_step h st st'"
| ban: "Hybrid_BanAgent h env cenv u rs st = (r, st') \<Longrightarrow> hybrid_step h st st'"
| unban: "Hybrid_UnbanAgent h env cenv u st = (r, st') \<Longrightarrow> hybrid_step h st st'"
| unregister: "Hybrid_UnregisterAgent h env cenv u st = (r, st') \<Longrightarrow> hybrid_step h st st'"
| info: "Hybrid_GetAgentInfo h u st = (ires, st') \<Longrightarrow> hybrid_step h st st'"
| batch: "Hybrid_BatchGetAgentInfo h us st = Return (out, st') \<Longrightarrow> hybrid_step h st st'"
| sync: "Hybrid_SyncNow h st = (r, st') \<Longrightarrow> hybrid_step h st st'"

context hybrid_contract
begin

lemma hinv_step:
  assumes "hybrid_step h st st'" and "hinv st"
    and "ob_adapter (hb_chain h) = adp" and "lb_pers (hb_local h) = pers"
  shows "hinv st'"
proof -
  obtain m s c where st: "st = (m, s, c)" by (metis prod.collapse)
  note i = assms(2) [unfolded st]
  from assms(1) show ?thesis
  proof cases
    case register
    then show ?thesis using hinv_register [OF i assms(3,4)] st by (metis snd_conv)
  next
    case (update env cenv u l rs r)
    then show ?thesis
      using hinv_update [OF i assms(3,4)] st
      by (metis Hybrid_UpdateAgentLevel_def hybrid_write_def snd_conv)
  next
    case ban
    then show ?thesis
      using hinv_ban [OF i assms(3,4)] st by (metis Hybrid_BanAgent_def hybrid_write_def snd_conv)
  next
    case unban
    then show ?thesis
      using hinv_unban [OF i assms(3,4)] st by (metis Hybrid_UnbanAgent_def hybrid_write_def snd_conv)
  next
    case unregister
    then show ?thesis
      using hinv_unregister [OF i assms(3,4)] st
      by (metis Hybrid_UnregisterAgent_def hybrid_write_def snd_conv)
  next
    case info
    then show ?thesis using hinv_info [OF i assms(3,4)] st by (metis snd_conv)
  next
    case batch
    then show ?thesis using hinv_batch [OF i assms(3,4)] st by blast
  next
    case sync
    then show ?thesis
      using hinv_sync [OF i assms(3,4)] i st
      by (auto simp: Hybrid_SyncNow_def Sync_runOnce_def split: option.splits)
  qed
qed

lemma hinv_run:
  "(hybrid_step h)\<^sup>*\<^sup>* st st' \<Longrightarrow> hinv st \<Longrightarrow> ob_adapter (hb_chain h) = adp \<Longrightarrow>
     lb_pers (hb_local h) = pers \<Longrightarrow> hinv st'"
  by (induction rule: rtranclp_induct) (auto dest: hinv_step)

end

section \<open>Properties of the hybrid backend\<close>

lemma mock_list_props:
  assumes "mock_inv m"
  shows "distinct (map ao_UUID (Mock_ListAll m))"
    and "find (\<lambda>a. ao_UUID a = u) (Mock_ListAll m) = map_of (ma_agents m) u"
    and "set (Mock_ListAll m) = {a. \<exists>u. map_of (ma_agents m) u = Some a}"
proof -
  let ?l = "ma_agents m"
  have d: "distinct (map fst ?l)" and k: "\<forall>(k, a) \<in> set ?l. ao_UUID a = k"
    using assms by (auto simp: mock_inv_def list_all_iff)
  have keys: "map ao_UUID (map snd ?l) = map fst ?l"
    using k by (induction ?l) auto
  have "mset (map ao_UUID (Mock_ListAll m)) = mset (map ao_UUID (map snd ?l))"
    by (simp add: Mock_ListAll_def multiset.map_comp)
  then show dist: "distinct (map ao_UUID (Mock_ListAll m))"
    using d keys mset_eq_imp_distinct_iff by metis
  have mem: "set (Mock_ListAll m) = snd ` set ?l" by (simp add: Mock_ListAll_def)
  then show set: "set (Mock_ListAll m) = {a. \<exists>u. map_of ?l u = Some a}"
    using d by (force dest: map_of_SomeD)
  show "find (\<lambda>a. ao_UUID a = u) (Mock_ListAll m) = map_of ?l u"
  proof (cases "find (\<lambda>a. ao_UUID a = u) (Mock_ListAll m)")
    case None
    then have "a \<in> set (Mock_ListAll m) \<Longrightarrow> ao_UUID a \<noteq> u" for a by (auto simp: find_None_iff)
    then have "map_of ?l u = None"
      using mock_inv_map_of [OF assms] set by (cases "map_of ?l u") auto
    with None show ?thesis by simp
  next
    case (Some a)
    then have "a \<in> set (Mock_ListAll m)" "ao_UUID a = u"
      by (auto simp: find_Some_iff in_set_conv_nth)
    then obtain v where "map_of ?l v = Some a" using set by auto
    with Some \<open>ao_UUID a = u\<close> mock_inv_map_of [OF assms] show ?thesis by auto
  qed
qed

lemma hyb_hinv_iff:
  "hyb.hinv (m, s, c) \<longleftrightarrow>
     mock_inv m \<and> memory_inv s \<and> coupled (map_of (ma_agents m)) (map_of (mp_agents s))"
  by (simp add: hyb.hinv_def)

text \<open>C2: after any sequence of calls of the hybrid backend on the mock chain and the in-memory
  store, both empty at first, with any error injected into each operation of the chain (the same
  at every call of the operation), the local store holds exactly the agents of the ledger, and each local record agrees with its ledger entry on the
  owner, the permission, the public key, the transaction hash and the state.\<close>

theorem hybrid_states_agree:
  assumes "(hybrid_step h)\<^sup>*\<^sup>* (m0, NewMemoryPersistence, c0) (m, s, c)"
    and "ma_agents m0 = []" and "ob_adapter (hb_chain h) = mock_ops"
    and "lb_pers (hb_local h) = memory_ops"
  shows "coupled (map_of (ma_agents m)) (map_of (mp_agents s))"
proof -
  have "hyb.hinv (m0, NewMemoryPersistence, c0)"
    using assms(2) by (simp add: hyb_hinv_iff mock_inv_def coupled_def coupled_at_def
        NewMemoryPersistence_def [of] memory_inv_def)
  from hyb.hinv_run [OF assms(1) this assms(3,4)] show ?thesis by (simp add: hyb_hinv_iff)
qed

lemma sync_now_effect:
  assumes "mock_inv m" and "memory_inv s" and "coupled (map_of (ma_agents m)) (map_of (mp_agents s))"
    and "preflight ''get_state'' m = None"
    and "ob_adapter (hb_chain h) = mock_ops" and "lb_pers (hb_local h) = memory_ops"
  shows "fst (Hybrid_SyncNow h (m, s, c)) = None \<and> fst (snd (Hybrid_SyncNow h (m, s, c))) = m
   \<and> map_of (mp_agents (fst (snd (snd (Hybrid_SyncNow h (m, s, c)))))) u =
       (case map_of (ma_agents m) u of
          None \<Rightarrow> None
        | Some a \<Rightarrow>
            (case map_of (mp_agents s) u of
               None \<Rightarrow> Some (info_of_chain a)
             | Some r \<Rightarrow> if ai_UpdatedAt r < ao_UpdatedAt a then Some (info_of_chain a) else Some r))"
proof -
  have i: "hyb.hinv (m, s, c)" using assms(1-3) by (simp add: hyb_hinv_iff)
  have g: "\<forall>a \<in> set (Mock_ListAll m). ca_GetAgentState mock_ops (ao_UUID a) m = Inr a"
  proof
    fix a assume "a \<in> set (Mock_ListAll m)"
    then obtain v where v: "map_of (ma_agents m) v = Some a" using mock_list_props(3) assms(1) by auto
    obtain r where "map_of (mp_agents s) v = Some r" using coupled_Some [OF assms(3) v] by blast
    then have "v \<noteq> []" using memory_inv_key assms(2) by blast
    with v mock_inv_map_of [OF assms(1) v] assms(4)
    show "ca_GetAgentState mock_ops (ao_UUID a) m = Inr a"
      by (simp add: mock_ops_def Mock_GetAgentState_def)
  qed
  have sync: "Hybrid_SyncNow h (m, s, c) = (None, sync_loop h (Mock_ListAll m) (m, s, c))"
    using assms(5) by (simp add: Hybrid_SyncNow_def Sync_runOnce_def mock_ops_def)
  have "map_of (ma_agents m) u = None \<Longrightarrow> map_of (mp_agents s) u = None"
    using coupled_None [OF assms(3)] .
  with hyb.sync_effect [OF i assms(5,6) mock_list_props(1) [OF assms(1)] g, of u]
    hyb.hinv_sync [OF i assms(5,6), of "Mock_ListAll m"]
  show ?thesis
    by (auto simp: sync mock_list_props(2) [OF assms(1)] split: option.split)
qed

definition sample_ledger :: mock_adapter where
  "sample_ledger = NewMockAdapter \<lparr> ma_agents :=
     [(''u1'', \<lparr> ao_UUID = ''u1'', ao_Owner = ''acme'', ao_Level = 2, ao_State = ChainActive,
         ao_Permission = 3, ao_PublicKey = ''k'', ao_TxHash = [], ao_UpdatedAt = Time 1 \<rparr>)] \<rparr>"

definition sample_hybrid :: "(mock_adapter, memory_persistence, unit) hybrid_backend" where
  "sample_hybrid = \<lparr> hb_chain = \<lparr> ob_adapter = mock_ops, ob_cache = noopCache,
       ob_cfg = \<lparr> ocf_OwnerKey = ''c:'', ocf_CacheTTL = minute, ocf_HealthCheckTimeout = second \<rparr> \<rparr>,
     hb_local = sample_local,
     hb_cfg = \<lparr> hcf_OwnerKey = ''h:'', hcf_CacheTTL = minute, hcf_SyncInterval = minute,
       hcf_SyncBatchSize = 100 \<rparr>, hb_started = False, hb_syncing = False \<rparr>"

lemma sample_hybrid_parts [simp]:
  "ob_adapter (hb_chain sample_hybrid) = mock_ops" "lb_pers (hb_local sample_hybrid) = memory_ops"
  by (simp_all add: sample_hybrid_def)

lemma sample_ledger_agents:
  "mock_inv sample_ledger" "preflight op sample_ledger = None"
  "map_of (ma_agents sample_ledger) =
     [''u1'' \<mapsto> \<lparr> ao_UUID = ''u1'', ao_Owner = ''acme'', ao_Level = 2, ao_State = ChainActive,
         ao_Permission = 3, ao_PublicKey = ''k'', ao_TxHash = [], ao_UpdatedAt = Time 1 \<rparr>]"
  by (simp_all add: sample_ledger_def NewMockAdapter_def mock_inv_def preflight_def)

lemma sample_store_agents: "map_of (mp_agents sample_store) = [''u1'' \<mapsto> sample_info]"
  by (simp add: sample_store_def Memory_PutAgent_def sample_info_def NewMemoryPersistence_def)

lemma sample_coupled:
  "coupled (map_of (ma_agents sample_ledger)) (map_of (mp_agents sample_store))"
proof -
  have "mirrors \<lparr> ao_UUID = ''u1'', ao_Owner = ''acme'', ao_Level = 2, ao_State = ChainActive,
      ao_Permission = 3, ao_PublicKey = ''k'', ao_TxHash = [], ao_UpdatedAt = Time 1 \<rparr> sample_info"
    by (simp add: mirrors_def sample_info_def)
  then show ?thesis
    unfolding sample_ledger_agents sample_store_agents
    by (intro coupled_upd) (simp_all add: coupled_def coupled_at_def)
qed

theorem hybrid_states_agree_witness:
  "let st = snd (Hybrid_RegisterAgent sample_hybrid sample_env \<lparr> ce_now = Time 5, ce_rand = [] \<rparr>
     (Some sample_request) (NewMockAdapter, NewMemoryPersistence, ()))
   in coupled (map_of (ma_agents (fst st))) (map_of (mp_agents (fst (snd st))))"
proof -
  let ?res = "Hybrid_RegisterAgent sample_hybrid sample_env \<lparr> ce_now = Time 5, ce_rand = [] \<rparr>
     (Some sample_request) (NewMockAdapter, NewMemoryPersistence, ())"
  have "?res = (fst ?res, fst (snd ?res), fst (snd (snd ?res)), ())" by (simp add: prod_eq_iff)
  then have "(hybrid_step sample_hybrid)\<^sup>*\<^sup>* (NewMockAdapter, NewMemoryPersistence, ())
      (fst (snd ?res), fst (snd (snd ?res)), ())"
    by (intro r_into_rtranclp hybrid_step.register)
  from hybrid_states_agree [OF this] show ?thesis
    by (simp add: NewMockAdapter_def Let_def)
qed

lemma sync_now_keeps:
  assumes "mock_inv m" and "memory_inv s" and "coupled (map_of (ma_agents m)) (map_of (mp_agents s))"
    and "ob_adapter (hb_chain h) = mock_ops" and "lb_pers (hb_local h) = memory_ops"
  shows "log_list (fst (snd (snd (Hybrid_SyncNow h (m, s, c))))) = log_list s
   \<and> memory_inv (fst (snd (snd (Hybrid_SyncNow h (m, s, c)))))
   \<and> coupled (map_of (ma_agents m)) (map_of (mp_agents (fst (snd (snd (Hybrid_SyncNow h (m, s, c)))))))"
proof -
  have i: "hyb.hinv (m, s, c)" using assms(1-3) by (simp add: hyb_hinv_iff)
  have sync: "Hybrid_SyncNow h (m, s, c) = (None, sync_loop h (Mock_ListAll m) (m, s, c))"
    using assms(4) by (simp add: Hybrid_SyncNow_def Sync_runOnce_def mock_ops_def)
  obtain m' s' c' where st: "sync_loop h (Mock_ListAll m) (m, s, c) = (m', s', c')"
    by (metis prod.collapse)
  show ?thesis
    using hyb.sync_logs [OF i assms(4,5), of "Mock_ListAll m"]
      hyb.hinv_sync [OF i assms(4,5), of "Mock_ListAll m"]
    unfolding sync st by (auto simp: hyb_hinv_iff)
qed

text \<open>C27: when the mock chain answers queries, \<open>SyncNow\<close> replaces exactly the local records that are
  older than their ledger entry by that entry, with the update time as registration time, and
  leaves all other records, the audit log of every agent and the chain as they are. The store stays
  well formed, so the index of owners still finds every record, and agrees with the ledger. The cache
  may change: the chain is asked through it.\<close>

theorem hybrid_sync_spec:
  assumes "mock_inv m" and "memory_inv s" and "coupled (map_of (ma_agents m)) (map_of (mp_agents s))"
    and "preflight ''get_state'' m = None"
    and "ob_adapter (hb_chain h) = mock_ops" and "lb_pers (hb_local h) = memory_ops"
  shows "fst (Hybrid_SyncNow h (m, s, c)) = None \<and> fst (snd (Hybrid_SyncNow h (m, s, c))) = m
   \<and> map_of (mp_agents (fst (snd (snd (Hybrid_SyncNow h (m, s, c)))))) u =
       (case map_of (ma_agents m) u of
          None \<Rightarrow> None
        | Some a \<Rightarrow>
            (case map_of (mp_agents s) u of
               None \<Rightarrow> Some (info_of_chain a)
             | Some r \<Rightarrow> if ai_UpdatedAt r < ao_UpdatedAt a then Some (info_of_chain a) else Some r))
   \<and> log_list (fst (snd (snd (Hybrid_SyncNow h (m, s, c))))) = log_list s
   \<and> memory_inv (fst (snd (snd (Hybrid_SyncNow h (m, s, c)))))
   \<and> coupled (map_of (ma_agents m)) (map_of (mp_agents (fst (snd (snd (Hybrid_SyncNow h (m, s, c)))))))"
  using sync_now_effect [OF assms, of c u] sync_now_keeps [OF assms(1-3,5,6), of c]
  by (intro conjI) blast+

theorem hybrid_sync_spec_witness:
  "map_of (mp_agents (fst (snd (snd (Hybrid_SyncNow sample_hybrid (sample_ledger, sample_store, ()))))))
     ''u1'' = Some sample_info"
  using hybrid_sync_spec [OF sample_ledger_agents(1) sample_store_inv sample_coupled
      sample_ledger_agents(2) sample_hybrid_parts, of "()" "''u1''"]
  by (simp add: sample_ledger_agents(3) sample_store_agents) (simp add: sample_info_def)

lemma mock_update_level_ok:
  assumes "mock_inv m" and "ma_closed m = False" and "ma_errFn m = None"
    and "map_of (ma_agents m) u = Some a" and "ao_State a \<noteq> ChainRevoked" and "u \<noteq> []" and "l \<noteq> 0"
    and "ob_adapter b = mock_ops"
  shows "\<exists>m' c'. Onchain_UpdateAgentLevel b cenv u l rs (m, c) = (None, m', c') \<and> mock_inv m'
     \<and> ma_closed m' = False \<and> ma_errFn m' = None
     \<and> map_of (ma_agents m') u = Some (a \<lparr> ao_Level := l, ao_UpdatedAt := ce_now cenv \<rparr>)"
proof -
  obtain rc m' where "ca_UpdateLevel mock_ops cenv
      (Some \<lparr> ulr_UUID = u, ulr_NewLevel = l, ulr_Reason = rs \<rparr>) m = (Inr rc, m')"
    and m': "ma_closed m' = False" "ma_errFn m' = None"
    using assms by (simp add: mock_ops_def Mock_UpdateLevel_def preflight_def mock_commit_def Let_def)
  with mk.update_ok [OF this(1)] assms show ?thesis
    by (auto simp: Onchain_UpdateAgentLevel_def)
qed

lemma mock_ban_ok:
  assumes "mock_inv m" and "ma_closed m = False" and "ma_errFn m = None"
    and "map_of (ma_agents m) u = Some a" and "ao_State a = ChainActive" and "u \<noteq> []"
    and "ob_adapter b = mock_ops"
  shows "\<exists>m' c'. Onchain_BanAgent b cenv u rs (m, c) = (None, m', c') \<and> mock_inv m'
     \<and> ma_closed m' = False \<and> ma_errFn m' = None
     \<and> map_of (ma_agents m') u = Some (a \<lparr> ao_State := ChainBanned, ao_UpdatedAt := ce_now cenv \<rparr>)"
proof -
  obtain rc m' where "ca_BanAgent mock_ops cenv
      (Some \<lparr> br_UUID = u, br_Reason = rs \<rparr>) m = (Inr rc, m')"
    and m': "ma_closed m' = False" "ma_errFn m' = None"
    using assms by (simp add: mock_ops_def Mock_BanAgent_def preflight_def mock_commit_def Let_def)
  with mk.ban_ok [OF this(1)] assms show ?thesis
    by (auto simp: Onchain_BanAgent_def)
qed

text \<open>A downgrade through the hybrid backend reports success, yet only the chain takes it: the
  local backend refuses it and its refusal is dropped. If the agent is then banned and the local
  clock is not behind the chain's, the local record counts as up to date and \<open>SyncNow\<close> leaves it,
  so the two levels go on differing.\<close>

theorem hybrid_level_drift:
  assumes "mock_inv m" and "memory_inv s" and "coupled (map_of (ma_agents m)) (map_of (mp_agents s))"
    and "ma_closed m = False" and "ma_errFn m = None"
    and "ob_adapter (hb_chain h) = mock_ops" and "lb_pers (hb_local h) = memory_ops"
    and "map_of (ma_agents m) u = Some a" and "ao_State a = ChainActive"
    and "map_of (mp_agents s) u = Some r" and "l \<noteq> 0" and "l < ai_Level r"
    and "ce_now cenv' \<le> en_now env'"
  shows "let (e1, st1) = Hybrid_UpdateAgentLevel h env cenv u l rs (m, s, c);
             (e2, st2) = Hybrid_BanAgent h env' cenv' u rs' st1;
             (e3, m3, s3, c3) = Hybrid_SyncNow h st2
         in e1 = None \<and> e2 = None \<and> e3 = None
          \<and> map_option ao_Level (map_of (ma_agents m3) u) = Some l
          \<and> map_option ai_Level (map_of (mp_agents s3) u) = Some (ai_Level r)"
proof -
  have u: "u \<noteq> []" "ai_UUID r = u" using memory_inv_key [OF assms(2,10)] by auto
  have i: "hyb.hinv (m, s, c)" using assms(1-3) by (simp add: hyb_hinv_iff)
  have st: "ai_State r = StateActive"
    using coupled_Some [OF assms(3,8)] assms(9,10) by (auto simp: mirrors_def)
  obtain m1 c1 where up: "Onchain_UpdateAgentLevel (hb_chain h) cenv u l rs (m, c) = (None, m1, c1)"
    and m1: "mock_inv m1" "ma_closed m1 = False" "ma_errFn m1 = None"
    "map_of (ma_agents m1) u = Some (a \<lparr> ao_Level := l, ao_UpdatedAt := ce_now cenv \<rparr>)"
    using mock_update_level_ok [OF assms(1,4,5,8) _ u(1) assms(11,6), of cenv rs c] assms(9) by auto
  let ?L1 = "Local_UpdateAgentLevel (hb_local h) env u l rs (s, c1)"
  obtain s1 c1' where L1: "snd ?L1 = (s1, c1')" by (metis prod.collapse)
  have s1: "map_of (mp_agents s1) = map_of (mp_agents s)"
    using mem.local_upgrade_refines [OF assms(2,7) coupled_states_valid [OF assms(3)],
        of env u l rs c1] assms(10) order.asym [OF assms(12)] L1
    by (auto simp: refines_def spec_upgrade_def split: if_splits)
  have eq1: "Hybrid_UpdateAgentLevel h env cenv u l rs (m, s, c) = (None, m1, s1, c1')"
    using up L1 by (auto simp: hybrid_writes on_chain_def on_local_def split: prod.split)
  have i1: "hyb.hinv (m1, s1, c1')"
    using hyb.hinv_step [OF hybrid_step.update [OF eq1] i assms(6,7)] .
  then have inv1: "memory_inv s1" "coupled (map_of (ma_agents m1)) (map_of (mp_agents s1))"
    by (simp_all add: hyb_hinv_iff)
  obtain m2 c2 where bn: "Onchain_BanAgent (hb_chain h) cenv' u rs' (m1, c1') = (None, m2, c2)"
    and m2: "mock_inv m2" "ma_closed m2 = False" "ma_errFn m2 = None"
    "map_of (ma_agents m2) u = Some (a \<lparr> ao_Level := l, ao_State := ChainBanned,
       ao_UpdatedAt := ce_now cenv' \<rparr>)"
    using mock_ban_ok [OF m1 _ u(1) assms(6), of cenv' rs' c1'] assms(9) by auto
  let ?L2 = "Local_BanAgent (hb_local h) env' u rs' (s1, c2)"
  obtain s2 c2' where L2: "snd ?L2 = (s2, c2')" by (metis prod.collapse)
  have "map_of (mp_agents s2) =
      (map_of (mp_agents s))(u \<mapsto> r \<lparr> ai_State := StateBanned, ai_UpdatedAt := en_now env' \<rparr>)"
    using mem.local_ban_refines [OF inv1(1) assms(7) coupled_states_valid [OF inv1(2)],
        of env' u rs' c2] assms(10) L2 s1 st u(2)
    by (auto simp: refines_def spec_move_def reg_write_def CanTransition_iff)
  then have s2: "map_of (mp_agents s2) u =
      Some (r \<lparr> ai_State := StateBanned, ai_UpdatedAt := en_now env' \<rparr>)" by simp
  have eq2: "Hybrid_BanAgent h env' cenv' u rs' (m1, s1, c1') = (None, m2, s2, c2')"
    using bn L2 by (auto simp: hybrid_writes on_chain_def on_local_def split: prod.split)
  have "hyb.hinv (m2, s2, c2')"
    using hyb.hinv_step [OF hybrid_step.ban [OF eq2] i1 assms(6,7)] .
  then have inv2: "memory_inv s2" "coupled (map_of (ma_agents m2)) (map_of (mp_agents s2))"
    by (simp_all add: hyb_hinv_iff)
  have "preflight ''get_state'' m2 = None" using m2 by (simp add: preflight_def)
  from sync_now_effect [OF m2(1) inv2 this assms(6,7), of c2' u] assms(13)
  show ?thesis
    by (simp add: eq1 eq2 m2(4) s2 split: prod.split) (auto simp: m2(4) s2)
qed

theorem hybrid_level_drift_witness:
  "let env = \<lparr> ce_now = Time 7, ce_rand = [] \<rparr>;
       (e1, st1) = Hybrid_UpdateAgentLevel sample_hybrid sample_env env ''u1'' 1 []
         (sample_ledger, sample_store, ());
       (e2, st2) = Hybrid_BanAgent sample_hybrid sample_env env ''u1'' [] st1;
       (e3, m3, s3, c3) = Hybrid_SyncNow sample_hybrid st2
   in e1 = None \<and> e2 = None \<and> e3 = None
    \<and> map_option ao_Level (map_of (ma_agents m3) ''u1'') = Some 1
    \<and> map_option ai_Level (map_of (mp_agents s3) ''u1'') = Some (ai_Level sample_info)"
  unfolding Let_def
  by (rule hybrid_level_drift [unfolded Let_def, OF sample_ledger_agents(1) sample_store_inv
        sample_coupled _ _ sample_hybrid_parts _ _ sample_store_agent, where a =
        "\<lparr> ao_UUID = ''u1'', ao_Owner = ''acme'', ao_Level = 2, ao_State = ChainActive,
         ao_Permission = 3, ao_PublicKey = ''k'', ao_TxHash = [], ao_UpdatedAt = Time 1 \<rparr>"])
    (simp_all add: sample_ledger_def NewMockAdapter_def sample_info_def sample_env_def)

end
