(* ===== verification/BackendFactory.thy ===== *)
theory BackendFactory
  imports ChainBackends
begin

text \<open>
  The factory of the identity backends, \<open>src/core/backend/factory.go\<close>: it fills in the defaults
  of its configuration and builds the backend that the type names. The dependencies of a
  configuration are interface values, so an absent one is \<open>None\<close>; a backend that the factory
  gives a store or a chain of its own comes with the initial state of both.
\<close>

section \<open>Configuration and result\<close>

record ('a, 's) factory_config =
  fc_Type :: string
  fc_OwnerKey :: string
  fc_CacheTTL :: duration
  fc_Persistence :: "'s persistence option"
  fc_MaxLogsPerAgent :: int
  fc_ChainAdapter :: "'a chain_adapter option"
  fc_SyncInterval :: duration
  fc_SyncBatchSize :: int
  fc_MockChainID :: u64

datatype ('a, 's) built_backend =
    BuiltLocal "('s, unit) local_backend"
  | BuiltLocalMemory "(memory_persistence, unit) local_backend" memory_persistence
  | BuiltOnchain "('a, unit) onchain_backend"
  | BuiltHybrid "('a, 's, unit) hybrid_backend"
  | BuiltMock "(mock_adapter, 's, unit) hybrid_backend" mock_adapter
  | BuiltMockMemory "(mock_adapter, memory_persistence, unit) hybrid_backend"
      mock_adapter memory_persistence

text \<open>\<open>BackendType()\<close> and the configuration of the backend behind the interface value.\<close>

fun built_type :: "('a, 's) built_backend \<Rightarrow> string" where
  "built_type (BuiltLocal _) = Local_BackendType"
| "built_type (BuiltLocalMemory _ _) = Local_BackendType"
| "built_type (BuiltOnchain _) = Onchain_BackendType"
| "built_type (BuiltHybrid _) = Hybrid_BackendType"
| "built_type (BuiltMock _ _) = Hybrid_BackendType"
| "built_type (BuiltMockMemory _ _ _) = Hybrid_BackendType"

fun built_keys :: "('a, 's) built_backend \<Rightarrow> string \<times> duration" where
  "built_keys (BuiltLocal b) = (lcf_OwnerKey (lb_cfg b), lcf_CacheTTL (lb_cfg b))"
| "built_keys (BuiltLocalMemory b _) = (lcf_OwnerKey (lb_cfg b), lcf_CacheTTL (lb_cfg b))"
| "built_keys (BuiltOnchain b) = (ocf_OwnerKey (ob_cfg b), ocf_CacheTTL (ob_cfg b))"
| "built_keys (BuiltHybrid h) = (hcf_OwnerKey (hb_cfg h), hcf_CacheTTL (hb_cfg h))"
| "built_keys (BuiltMock h _) = (hcf_OwnerKey (hb_cfg h), hcf_CacheTTL (hb_cfg h))"
| "built_keys (BuiltMockMemory h _ _) = (hcf_OwnerKey (hb_cfg h), hcf_CacheTTL (hb_cfg h))"

section \<open>The factory\<close>

definition defaultCacheTTL :: "string \<Rightarrow> duration" where
  "defaultCacheTTL t =
     (if t = TypeLocal then 15 * minute
      else if t = TypeOnchain then 5 * minute
      else if t = TypeHybrid then 10 * minute
      else if t = TypeMock then minute
      else 5 * minute)"

definition newLocalFromConfig :: "('a, 's) factory_config \<Rightarrow> go_error + ('a, 's) built_backend" where
  "newLocalFromConfig cfg =
     (let lcfg = \<lparr> lcf_OwnerKey = fc_OwnerKey cfg, lcf_CacheTTL = fc_CacheTTL cfg,
                   lcf_MaxLogsPerAgent = fc_MaxLogsPerAgent cfg \<rparr>
      in case fc_Persistence cfg of
           None \<Rightarrow>
             map_sum id (\<lambda>b. BuiltLocalMemory b NewMemoryPersistence)
               (NewLocalBackend (Some memory_ops) None lcfg)
         | Some p \<Rightarrow> map_sum id BuiltLocal (NewLocalBackend (Some p) None lcfg))"

definition newOnchainFromConfig :: "('a, 's) factory_config \<Rightarrow> go_error + ('a, 's) built_backend" where
  "newOnchainFromConfig cfg =
     (if fc_ChainAdapter cfg = None
      then Inl (Errorf ''%w: onchain backend requires ChainAdapter'' [ErrBackendUnavailable])
      else map_sum id BuiltOnchain
             (NewOnchainBackend (fc_ChainAdapter cfg) None
                \<lparr> ocf_OwnerKey = fc_OwnerKey cfg, ocf_CacheTTL = fc_CacheTTL cfg,
                  ocf_HealthCheckTimeout = 0 \<rparr>))"

definition newHybridFromConfig :: "('a, 's) factory_config \<Rightarrow> go_error + ('a, 's) built_backend" where
  "newHybridFromConfig cfg =
     (if fc_ChainAdapter cfg = None
      then Inl (Errorf ''%w: hybrid backend requires ChainAdapter'' [ErrBackendUnavailable])
      else if fc_Persistence cfg = None
      then Inl (Errorf ''%w: hybrid backend requires Persistence'' [ErrBackendUnavailable])
      else map_sum id BuiltHybrid
             (NewHybridBackend (fc_ChainAdapter cfg) (fc_Persistence cfg) None
                \<lparr> hcf_OwnerKey = fc_OwnerKey cfg, hcf_CacheTTL = fc_CacheTTL cfg,
                  hcf_SyncInterval = fc_SyncInterval cfg,
                  hcf_SyncBatchSize = fc_SyncBatchSize cfg \<rparr>))"

text \<open>The chain id is computed and dropped.\<close>

definition newMockFromConfig :: "('a, 's) factory_config \<Rightarrow> go_error + ('a, 's) built_backend" where
  "newMockFromConfig cfg =
     (let syncInt = (if fc_SyncInterval cfg = 0 then minute else fc_SyncInterval cfg);
          hcfg = \<lparr> hcf_OwnerKey = fc_OwnerKey cfg, hcf_CacheTTL = fc_CacheTTL cfg,
                   hcf_SyncInterval = syncInt, hcf_SyncBatchSize = fc_SyncBatchSize cfg \<rparr>
      in case fc_Persistence cfg of
           None \<Rightarrow>
             map_sum id (\<lambda>h. BuiltMockMemory h NewMockAdapter NewMemoryPersistence)
               (NewHybridBackend (Some mock_ops) (Some memory_ops) None hcfg)
         | Some p \<Rightarrow>
             map_sum id (\<lambda>h. BuiltMock h NewMockAdapter)
               (NewHybridBackend (Some mock_ops) (Some p) None hcfg))"

definition NewBackend :: "('a, 's) factory_config \<Rightarrow> go_error + ('a, 's) built_backend" where
  "NewBackend cfg0 =
     (let cfg1 = (if fc_Type cfg0 = [] then cfg0 \<lparr> fc_Type := TypeLocal \<rparr> else cfg0);
          cfg2 = (if fc_CacheTTL cfg1 = 0
                  then cfg1 \<lparr> fc_CacheTTL := defaultCacheTTL (fc_Type cfg1) \<rparr> else cfg1);
          cfg = (if fc_OwnerKey cfg2 = []
                 then cfg2 \<lparr> fc_OwnerKey := ''agentid:'' @ fc_Type cfg2 @ '':'' \<rparr> else cfg2)
      in if fc_Type cfg = TypeLocal then newLocalFromConfig cfg
         else if fc_Type cfg = TypeOnchain then newOnchainFromConfig cfg
         else if fc_Type cfg = TypeHybrid then newHybridFromConfig cfg
         else if fc_Type cfg = TypeMock then newMockFromConfig cfg
         else Inl (Errorf ''%w: unknown backend type %q'' [ErrBackendUnavailable]))"

section \<open>What the factory builds\<close>

lemmas factory_defs = NewBackend_def newLocalFromConfig_def newOnchainFromConfig_def
  newHybridFromConfig_def newMockFromConfig_def defaultCacheTTL_def Let_def

lemmas type_names = TypeLocal_def TypeOnchain_def TypeHybrid_def TypeMock_def

lemma NewLocalBackend_Some:
  "NewLocalBackend (Some p) None \<lparr> lcf_OwnerKey = k, lcf_CacheTTL = t, lcf_MaxLogsPerAgent = n \<rparr> =
     Inr \<lparr> lb_pers = p, lb_cache = noopCache,
           lb_cfg = \<lparr> lcf_OwnerKey = (if k = [] then ''agentid:agent:'' else k),
                      lcf_CacheTTL = (if t = 0 then 15 * minute else t),
                      lcf_MaxLogsPerAgent = (if n = 0 then 1000 else n) \<rparr>,
           lb_closed = False \<rparr>"
  by (simp add: NewLocalBackend_def Let_def)

lemma NewOnchainBackend_Some:
  "NewOnchainBackend (Some a) None
       \<lparr> ocf_OwnerKey = k, ocf_CacheTTL = t, ocf_HealthCheckTimeout = 0 \<rparr> =
     Inr \<lparr> ob_adapter = a, ob_cache = noopCache,
           ob_cfg = \<lparr> ocf_OwnerKey = (if k = [] then ''agentid:onchain:'' else k),
                      ocf_CacheTTL = (if t = 0 then 5 * minute else t),
                      ocf_HealthCheckTimeout = 3 * second \<rparr> \<rparr>"
  by (simp add: NewOnchainBackend_def Let_def)

lemma NewHybridBackend_Some:
  "\<exists>h. NewHybridBackend (Some a) (Some p) (None :: unit cache option)
       \<lparr> hcf_OwnerKey = k, hcf_CacheTTL = t, hcf_SyncInterval = i, hcf_SyncBatchSize = n \<rparr> = Inr h
     \<and> ob_adapter (hb_chain h) = a \<and> lb_pers (hb_local h) = p
     \<and> hcf_OwnerKey (hb_cfg h) = (if k = [] then ''agentid:hybrid:'' else k)
     \<and> hcf_CacheTTL (hb_cfg h) = (if t = 0 then 10 * minute else t)
     \<and> hcf_SyncInterval (hb_cfg h) = (if i = 0 then 5 * minute else i)"
  by (simp add: NewHybridBackend_def NewOnchainBackend_def NewLocalBackend_def Let_def)

definition resolved_type :: "('a, 's) factory_config \<Rightarrow> string" where
  "resolved_type cfg = (if fc_Type cfg = [] then TypeLocal else fc_Type cfg)"

definition resolved :: "('a, 's) factory_config \<Rightarrow> ('a, 's) factory_config" where
  "resolved cfg = cfg \<lparr> fc_Type := resolved_type cfg,
     fc_OwnerKey := (if fc_OwnerKey cfg = [] then ''agentid:'' @ resolved_type cfg @ '':''
                     else fc_OwnerKey cfg),
     fc_CacheTTL := (if fc_CacheTTL cfg = 0 then defaultCacheTTL (resolved_type cfg)
                     else fc_CacheTTL cfg) \<rparr>"

lemma resolved_steps:
  "(let cfg1 = (if fc_Type cfg = [] then cfg \<lparr> fc_Type := TypeLocal \<rparr> else cfg);
        cfg2 = (if fc_CacheTTL cfg1 = 0
                then cfg1 \<lparr> fc_CacheTTL := defaultCacheTTL (fc_Type cfg1) \<rparr> else cfg1)
    in if fc_OwnerKey cfg2 = []
       then cfg2 \<lparr> fc_OwnerKey := ''agentid:'' @ fc_Type cfg2 @ '':'' \<rparr> else cfg2) = resolved cfg"
  by (cases cfg) (simp add: resolved_def resolved_type_def)

lemma resolved_Type: "fc_Type (resolved cfg) = resolved_type cfg"
  by (simp add: resolved_def)

lemma NewBackend_resolved:
  "NewBackend cfg =
     (let t = resolved_type cfg in
      if t = TypeLocal then newLocalFromConfig (resolved cfg)
      else if t = TypeOnchain then newOnchainFromConfig (resolved cfg)
      else if t = TypeHybrid then newHybridFromConfig (resolved cfg)
      else if t = TypeMock then newMockFromConfig (resolved cfg)
      else Inl (Errorf ''%w: unknown backend type %q'' [ErrBackendUnavailable]))"
  by (simp only: NewBackend_def Let_def resolved_steps [unfolded Let_def] resolved_Type)

lemma defaultCacheTTL_pos: "0 < defaultCacheTTL t"
  by (simp add: defaultCacheTTL_def)

lemma resolved_keys: "fc_OwnerKey (resolved cfg) \<noteq> []" "fc_CacheTTL (resolved cfg) \<noteq> 0"
  using defaultCacheTTL_pos [of "resolved_type cfg"] by (simp_all add: resolved_def)

text \<open>What a constructor of the factory promises of its result.\<close>

definition builds ::
  "('a, 's) factory_config \<Rightarrow> string \<Rightarrow> bool \<Rightarrow> go_error + ('a, 's) built_backend \<Rightarrow> bool" where
  "builds cfg t missing res \<longleftrightarrow>
     (case res of
        Inl e \<Rightarrow> missing \<and> errors_is e ErrBackendUnavailable
      | Inr b \<Rightarrow> \<not> missing \<and> built_type b = t
          \<and> built_keys b = (fc_OwnerKey (resolved cfg), fc_CacheTTL (resolved cfg)))"

lemma builds_local: "builds cfg TypeLocal False (newLocalFromConfig (resolved cfg))"
  using resolved_keys [of cfg]
  by (auto simp: builds_def newLocalFromConfig_def NewLocalBackend_Some Local_BackendType_def Let_def
      split: option.split)

lemma builds_onchain:
  "builds cfg TypeOnchain (fc_ChainAdapter cfg = None) (newOnchainFromConfig (resolved cfg))"
proof -
  have "fc_ChainAdapter (resolved cfg) = fc_ChainAdapter cfg" by (simp add: resolved_def)
  then show ?thesis
    using resolved_keys [of cfg]
    by (cases "fc_ChainAdapter cfg")
      (auto simp: builds_def newOnchainFromConfig_def NewOnchainBackend_Some Onchain_BackendType_def)
qed

lemma builds_hybrid:
  "builds cfg TypeHybrid (fc_ChainAdapter cfg = None \<or> fc_Persistence cfg = None)
     (newHybridFromConfig (resolved cfg))"
proof -
  have d: "fc_ChainAdapter (resolved cfg) = fc_ChainAdapter cfg"
    "fc_Persistence (resolved cfg) = fc_Persistence cfg" by (simp_all add: resolved_def)
  show ?thesis
  proof (cases "fc_ChainAdapter cfg = None \<or> fc_Persistence cfg = None")
    case True
    then show ?thesis using d by (auto simp: builds_def newHybridFromConfig_def)
  next
    case False
    then obtain a p where "fc_ChainAdapter cfg = Some a" "fc_Persistence cfg = Some p" by auto
    with NewHybridBackend_Some [of a p "fc_OwnerKey (resolved cfg)" "fc_CacheTTL (resolved cfg)"
        "fc_SyncInterval (resolved cfg)" "fc_SyncBatchSize (resolved cfg)"] d resolved_keys [of cfg]
    show ?thesis by (auto simp: builds_def newHybridFromConfig_def Hybrid_BackendType_def)
  qed
qed

lemma newMockFromConfig_cases:
  "(\<exists>h. newMockFromConfig cfg = Inr (BuiltMockMemory h NewMockAdapter NewMemoryPersistence)
      \<and> fc_Persistence cfg = None
      \<and> ob_adapter (hb_chain h) = mock_ops \<and> lb_pers (hb_local h) = memory_ops
      \<and> (fc_OwnerKey cfg \<noteq> [] \<longrightarrow> hcf_OwnerKey (hb_cfg h) = fc_OwnerKey cfg)
      \<and> (fc_CacheTTL cfg \<noteq> 0 \<longrightarrow> hcf_CacheTTL (hb_cfg h) = fc_CacheTTL cfg))
   \<or> (\<exists>h p. newMockFromConfig cfg = Inr (BuiltMock h NewMockAdapter)
      \<and> fc_Persistence cfg = Some p
      \<and> ob_adapter (hb_chain h) = mock_ops \<and> lb_pers (hb_local h) = p
      \<and> (fc_OwnerKey cfg \<noteq> [] \<longrightarrow> hcf_OwnerKey (hb_cfg h) = fc_OwnerKey cfg)
      \<and> (fc_CacheTTL cfg \<noteq> 0 \<longrightarrow> hcf_CacheTTL (hb_cfg h) = fc_CacheTTL cfg))"
proof (cases "fc_Persistence cfg")
  case None
  with NewHybridBackend_Some [of mock_ops memory_ops "fc_OwnerKey cfg" "fc_CacheTTL cfg"
      "if fc_SyncInterval cfg = 0 then minute else fc_SyncInterval cfg" "fc_SyncBatchSize cfg"]
  show ?thesis by (auto simp: newMockFromConfig_def Let_def)
next
  case (Some p)
  with NewHybridBackend_Some [of mock_ops p "fc_OwnerKey cfg" "fc_CacheTTL cfg"
      "if fc_SyncInterval cfg = 0 then minute else fc_SyncInterval cfg" "fc_SyncBatchSize cfg"]
  show ?thesis by (auto simp: newMockFromConfig_def Let_def)
qed

lemma builds_mock: "builds cfg TypeHybrid False (newMockFromConfig (resolved cfg))"
  using newMockFromConfig_cases [of "resolved cfg"] resolved_keys [of cfg]
  by (elim disjE exE conjE) (simp_all add: builds_def Hybrid_BackendType_def)

section \<open>Properties of the factory\<close>

text \<open>The factory fails, always with an error that is \<open>ErrBackendUnavailable\<close>, exactly for an
  unknown type, an on-chain or hybrid type without a chain adapter and a hybrid type without a
  store; otherwise the backend has the named type, or hybrid for the mock type, with the given
  key prefix and lifetime or the defaults of its type, never the constructors' own defaults.\<close>

theorem factory_spec:
  "(case NewBackend cfg of
      Inl e \<Rightarrow> errors_is e ErrBackendUnavailable
        \<and> (resolved_type cfg \<notin> {TypeLocal, TypeOnchain, TypeHybrid, TypeMock}
           \<or> resolved_type cfg \<in> {TypeOnchain, TypeHybrid} \<and> fc_ChainAdapter cfg = None
           \<or> resolved_type cfg = TypeHybrid \<and> fc_Persistence cfg = None)
    | Inr b \<Rightarrow>
        resolved_type cfg \<in> {TypeLocal, TypeOnchain, TypeHybrid, TypeMock}
        \<and> (resolved_type cfg \<notin> {TypeOnchain, TypeHybrid} \<or> fc_ChainAdapter cfg \<noteq> None)
        \<and> (resolved_type cfg \<noteq> TypeHybrid \<or> fc_Persistence cfg \<noteq> None)
        \<and> built_type b = (if resolved_type cfg = TypeMock then TypeHybrid else resolved_type cfg)
        \<and> built_keys b =
            (if fc_OwnerKey cfg = [] then ''agentid:'' @ resolved_type cfg @ '':'' else fc_OwnerKey cfg,
             if fc_CacheTTL cfg = 0 then defaultCacheTTL (resolved_type cfg) else fc_CacheTTL cfg))"
proof -
  have k: "(fc_OwnerKey (resolved cfg), fc_CacheTTL (resolved cfg)) =
      (if fc_OwnerKey cfg = [] then ''agentid:'' @ resolved_type cfg @ '':'' else fc_OwnerKey cfg,
       if fc_CacheTTL cfg = 0 then defaultCacheTTL (resolved_type cfg) else fc_CacheTTL cfg)"
    by (simp add: resolved_def)
  have distinct: "TypeOnchain \<noteq> TypeLocal" "TypeHybrid \<noteq> TypeLocal" "TypeMock \<noteq> TypeLocal"
    "TypeHybrid \<noteq> TypeOnchain" "TypeMock \<noteq> TypeOnchain" "TypeMock \<noteq> TypeHybrid"
    by (simp_all add: type_names)
  consider "resolved_type cfg = TypeLocal" | "resolved_type cfg = TypeOnchain"
    | "resolved_type cfg = TypeHybrid" | "resolved_type cfg = TypeMock"
    | "resolved_type cfg \<notin> {TypeLocal, TypeOnchain, TypeHybrid, TypeMock}" by auto
  then show ?thesis
  proof cases
    case 1
    then show ?thesis using builds_local [of cfg] distinct k
      by (simp add: NewBackend_resolved builds_def split: sum.splits)
  next
    case 2
    then show ?thesis using builds_onchain [of cfg] distinct k
      by (simp add: NewBackend_resolved builds_def split: sum.splits)
  next
    case 3
    then show ?thesis using builds_hybrid [of cfg] distinct k
      by (simp add: NewBackend_resolved builds_def split: sum.splits)
  next
    case 4
    then show ?thesis using builds_mock [of cfg] distinct k
      by (simp add: NewBackend_resolved builds_def split: sum.splits)
  next
    case 5
    then show ?thesis by (simp add: NewBackend_resolved)
  qed
qed

definition sample_factory :: "string \<Rightarrow> (mock_adapter, memory_persistence) factory_config" where
  "sample_factory t = \<lparr> fc_Type = t, fc_OwnerKey = [], fc_CacheTTL = 0, fc_Persistence = None,
     fc_MaxLogsPerAgent = 0, fc_ChainAdapter = None, fc_SyncInterval = 0, fc_SyncBatchSize = 0,
     fc_MockChainID = 0 \<rparr>"

theorem factory_spec_witness:
  "(\<exists>e. NewBackend (sample_factory ''hybrid'') = Inl e \<and> errors_is e ErrBackendUnavailable)
   \<and> (\<exists>b. NewBackend (sample_factory []) = Inr b \<and> built_keys b = (''agentid:local:'', 15 * minute))"
proof -
  have "\<exists>e. NewBackend (sample_factory ''hybrid'') = Inl e \<and> errors_is e ErrBackendUnavailable"
    using factory_spec [of "sample_factory ''hybrid''"]
    by (cases "NewBackend (sample_factory ''hybrid'')")
      (simp_all add: sample_factory_def resolved_type_def type_names)
  moreover have "\<exists>b. NewBackend (sample_factory []) = Inr b \<and> built_keys b = (''agentid:local:'', 15 * minute)"
    using factory_spec [of "sample_factory []"]
    by (cases "NewBackend (sample_factory [])")
      (simp_all add: sample_factory_def resolved_type_def type_names defaultCacheTTL_def)
  ultimately show ?thesis ..
qed

text \<open>The development backend, the mock type without a store, keeps its mock chain and its
  in-memory store in step through any sequence of calls, whatever the rest of its
  configuration.\<close>

theorem factory_mock_stays_coupled:
  assumes "resolved_type cfg = TypeMock" and "fc_Persistence cfg = None"
  shows "\<exists>h m s. NewBackend cfg = Inr (BuiltMockMemory h m s)
     \<and> (\<forall>m' s' c'. (hybrid_step h)\<^sup>*\<^sup>* (m, s, ()) (m', s', c') \<longrightarrow>
           memory_inv s' \<and> coupled (map_of (ma_agents m')) (map_of (mp_agents s')))"
proof -
  have "fc_Persistence (resolved cfg) = None" using assms(2) by (simp add: resolved_def)
  then obtain h where h: "newMockFromConfig (resolved cfg) =
      Inr (BuiltMockMemory h NewMockAdapter NewMemoryPersistence)"
    "ob_adapter (hb_chain h) = mock_ops" "lb_pers (hb_local h) = memory_ops"
    using newMockFromConfig_cases [of "resolved cfg"] by auto
  have "hyb.hinv (NewMockAdapter, NewMemoryPersistence, ())"
    by (simp add: hyb_hinv_iff mock_inv_def coupled_def coupled_at_def NewMockAdapter_def
        NewMemoryPersistence_def memory_inv_def)
  then have "hyb.hinv st" if "(hybrid_step h)\<^sup>*\<^sup>* (NewMockAdapter, NewMemoryPersistence, ()) st" for st
    using hyb.hinv_run [OF that] h by simp
  moreover have "NewBackend cfg = Inr (BuiltMockMemory h NewMockAdapter NewMemoryPersistence)"
    using assms(1) h(1) by (simp add: NewBackend_resolved type_names)
  ultimately show ?thesis by (auto simp: hyb_hinv_iff)
qed

theorem factory_mock_stays_coupled_witness:
  "\<exists>h m s. NewBackend (sample_factory ''mock'') = Inr (BuiltMockMemory h m s)"
  using factory_mock_stays_coupled [of "sample_factory ''mock''"]
  by (simp add: sample_factory_def resolved_type_def TypeMock_def) blast

end
