(* ===== verification/Rbac.thy ===== *)
theory Rbac
  imports DomainRules
begin

text \<open>
  The permission engine of \<open>src/internal/authz/rbac\<close>: \<open>engine.go\<close> (level templates and the
  engine) and \<open>levels.go\<close> (the loader of templates from a YAML file).

  A \<open>*LevelTemplate\<close> is a pointer: templates live in a store, a list whose indices are the
  addresses, because the loader, the engine and the caller of \<open>Set\<close> share them. Go ranges over
  a map in an unspecified order: \<open>NewLevelTemplate\<close> and \<open>BuildTemplate\<close> take the entries of
  the map in the order of the iteration. Reading a file and decoding YAML are arguments.
\<close>

section \<open>Errors\<close>

abbreviation RbacErrInvalidLevel :: go_error where
  "RbacErrInvalidLevel \<equiv> Sentinel ''rbac: invalid level''"
abbreviation ErrTemplateNotSet :: go_error where
  "ErrTemplateNotSet \<equiv> Sentinel ''rbac: level template not set''"
abbreviation ErrBitOutOfRange :: go_error where
  "ErrBitOutOfRange \<equiv> Sentinel ''rbac: permission bit out of range''"
abbreviation ErrEmptyPath :: go_error where
  "ErrEmptyPath \<equiv> Sentinel ''rbac: empty config path''"
abbreviation ErrLevelsConfigInvalid :: go_error where
  "ErrLevelsConfigInvalid \<equiv> Sentinel ''rbac: levels config invalid''"

section \<open>Level templates\<close>

type_synonym level_template = "(u8 \<times> u64) list"
type_synonym tstore = "level_template list"
type_synonym tptr = "nat option"

fun template_fill :: "(u8 \<times> u64) list \<Rightarrow> level_template \<Rightarrow> go_error + level_template" where
  "template_fill [] t = Inr t"
| "template_fill ((lvl, mx) # m) t =
     (if \<not> Level_IsValid lvl then Inl (Errorf ''%w: %d'' [RbacErrInvalidLevel])
      else template_fill m (AList.update lvl mx t))"

definition NewLevelTemplate :: "(u8 \<times> u64) list \<Rightarrow> go_error + level_template" where
  "NewLevelTemplate m = template_fill m []"

definition level_range :: "u8 list" where
  "level_range = map of_nat [unat LevelTest..<Suc (unat MaxLevel)]"

definition NewDefaultLevelTemplate :: level_template where
  "NewDefaultLevelTemplate =
     fold (\<lambda>lvl m. AList.update lvl (DefaultMaxPermissions lvl) m) level_range []"

definition template_max :: "level_template \<Rightarrow> u8 \<Rightarrow> u64" where
  "template_max t level =
     (case map_of t level of Some mx \<Rightarrow> mx | None \<Rightarrow> DefaultMaxPermissions level)"

definition Template_Max :: "tstore \<Rightarrow> tptr \<Rightarrow> u8 \<Rightarrow> u64" where
  "Template_Max st p level =
     (case p of None \<Rightarrow> DefaultMaxPermissions level | Some i \<Rightarrow> template_max (st ! i) level)"

definition Template_Set :: "tstore \<Rightarrow> tptr \<Rightarrow> u8 \<Rightarrow> u64 \<Rightarrow> go_error option \<times> tstore" where
  "Template_Set st p level mx =
     (if \<not> Level_IsValid level then (Some (Errorf ''%w: %d'' [RbacErrInvalidLevel]), st)
      else case p of
          None \<Rightarrow> (Some ErrTemplateNotSet, st)
        | Some i \<Rightarrow> (None, st [i := AList.update level mx (st ! i)]))"

definition Template_Snapshot :: "tstore \<Rightarrow> tptr \<Rightarrow> level_template option" where
  "Template_Snapshot st p = map_option (\<lambda>i. st ! i) p"

section \<open>The engine\<close>

text \<open>
  \<open>engine\<close> is \<open>None\<close> for a nil \<open>*Engine\<close>, and otherwise holds the template pointer. The
  operations take the store the pointer refers to.
\<close>

type_synonym engine = "tptr option"

definition NewEngine :: "tptr \<Rightarrow> engine" where
  "NewEngine template = Some template"

definition maxFor :: "tstore \<Rightarrow> engine \<Rightarrow> u8 \<Rightarrow> u64" where
  "maxFor st e level =
     (case e of
        None \<Rightarrow> DefaultMaxPermissions level
      | Some None \<Rightarrow> DefaultMaxPermissions level
      | Some p \<Rightarrow> Template_Max st p level)"

definition Engine_Check :: "tstore \<Rightarrow> engine \<Rightarrow> uint \<Rightarrow> u8 \<Rightarrow> go_error + bool" where
  "Engine_Check st e b level =
     (if 63 < b then Inl (Errorf ''%w: %d'' [ErrBitOutOfRange])
      else if \<not> Level_IsValid level then Inl (Errorf ''%w: %d'' [RbacErrInvalidLevel])
      else (let mx = maxFor st e level in Inr (bit_mask b AND mx \<noteq> 0)))"

definition Engine_MustCheck :: "tstore \<Rightarrow> engine \<Rightarrow> uint \<Rightarrow> u8 \<Rightarrow> bool outcome" where
  "Engine_MustCheck st e b level =
     (case Engine_Check st e b level of Inl err \<Rightarrow> Panic ''err'' | Inr ok \<Rightarrow> Return ok)"

definition Engine_CheckMask :: "tstore \<Rightarrow> engine \<Rightarrow> u64 \<Rightarrow> u8 \<Rightarrow> go_error + bool" where
  "Engine_CheckMask st e perms level =
     (if \<not> Level_IsValid level then Inl (Errorf ''%w: %d'' [RbacErrInvalidLevel])
      else (let mx = maxFor st e level in Inr (perms AND NOT mx = 0)))"

text \<open>The loop \<open>for i := 63; ; i--\<close> that stops after \<open>i == 0\<close>.\<close>

fun allowed_from :: "u64 \<Rightarrow> nat \<Rightarrow> uint list" where
  "allowed_from mx 0 = (if mx AND bit_mask 0 \<noteq> 0 then [0] else [])"
| "allowed_from mx (Suc i) =
     (if mx AND bit_mask (of_nat (Suc i)) \<noteq> 0 then of_nat (Suc i) # allowed_from mx i
      else allowed_from mx i)"

definition Engine_AllowedBits :: "tstore \<Rightarrow> engine \<Rightarrow> u8 \<Rightarrow> go_error + uint list" where
  "Engine_AllowedBits st e level =
     (if \<not> Level_IsValid level then Inl (Errorf ''%w: %d'' [RbacErrInvalidLevel])
      else (let mx = maxFor st e level in Inr (allowed_from mx 63)))"

definition Engine_MaxPermissions :: "tstore \<Rightarrow> engine \<Rightarrow> u8 \<Rightarrow> u64" where
  "Engine_MaxPermissions st e level = maxFor st e level"

definition Engine_HasAny :: "tstore \<Rightarrow> engine \<Rightarrow> u64 \<Rightarrow> u8 \<Rightarrow> bool" where
  "Engine_HasAny st e perms level = (perms AND maxFor st e level \<noteq> 0)"

definition Engine_HasAll :: "tstore \<Rightarrow> engine \<Rightarrow> u64 \<Rightarrow> u8 \<Rightarrow> bool" where
  "Engine_HasAll st e perms level = (perms AND NOT (maxFor st e level) = 0)"

section \<open>Parsing\<close>

definition parseLevelName :: "string \<Rightarrow> u8 option" where
  "parseLevelName s =
     (if s \<in> {''test'', ''0'', ''level0''} then Some LevelTest
      else if s \<in> {''basic'', ''1'', ''level1''} then Some LevelBasic
      else if s \<in> {''advanced'', ''2'', ''level2''} then Some LevelAdvanced
      else if s \<in> {''pro'', ''3'', ''level3''} then Some LevelPro
      else if s \<in> {''reserved4'', ''4'', ''level4''} then Some LevelReserved4
      else if s \<in> {''reserved5'', ''5'', ''level5''} then Some LevelReserved5
      else if s \<in> {''reserved6'', ''6'', ''level6''} then Some LevelReserved6
      else if s \<in> {''reserved7'', ''7'', ''level7'', ''platform''} then Some LevelReserved7
      else None)"

definition char_code :: "char \<Rightarrow> nat" where
  "char_code c = of_char c"

fun hex_loop :: "string \<Rightarrow> u64 \<Rightarrow> go_error + u64" where
  "hex_loop [] v = Inr v"
| "hex_loop (c # cs) v =
     (let n = char_code c in
      if 48 \<le> n \<and> n \<le> 57 then hex_loop cs (push_bit 4 v OR of_nat (n - 48))
      else if 97 \<le> n \<and> n \<le> 102 then hex_loop cs (push_bit 4 v OR of_nat (n - 97 + 10))
      else if 65 \<le> n \<and> n \<le> 70 then hex_loop cs (push_bit 4 v OR of_nat (n - 65 + 10))
      else Inl (Errorf ''invalid hex char: %q'' []))"

definition parseHexMask :: "string \<Rightarrow> go_error + u64" where
  "parseHexMask s =
     (if s = [] then Inl (Errorf ''empty hex string'' [])
      else
        (let clean = (if 2 \<le> length s \<and> (take 2 s = ''0x'' \<or> take 2 s = ''0X'')
                      then drop 2 s else s)
         in if length clean = 0 then Inl (Errorf ''empty hex after prefix'' [])
            else if 16 < length clean
              then Inl (Errorf ''hex too long: %d chars (mx 16)'' [])
            else hex_loop clean 0))"

section \<open>Building a template\<close>

record levels_config =
  lc_Version :: string
  lc_LevelMaxPermissions :: "(string \<times> string) list option"
  lc_UpdatedAt :: string

text \<open>\<open>yaml.Unmarshal\<close> is the argument \<open>unmarshal\<close>; the configuration is also returned on error.\<close>

definition ParseLevels ::
  "(string \<Rightarrow> go_error + levels_config) \<Rightarrow> string \<Rightarrow> levels_config option \<times> go_error option" where
  "ParseLevels unmarshal data =
     (case unmarshal data of
        Inl err \<Rightarrow> (None, Some (Errorf ''yaml unmarshal: %w'' [err]))
      | Inr cfg \<Rightarrow>
          if lc_LevelMaxPermissions cfg = None
          then (Some cfg, Some (Errorf ''%w: level_max_permissions is required''
                 [ErrLevelsConfigInvalid]))
          else (Some cfg, None))"

definition LoadLevelsFromFile ::
  "(string \<Rightarrow> go_error + string) \<Rightarrow> (string \<Rightarrow> go_error + string) \<Rightarrow>
   (string \<Rightarrow> go_error + levels_config) \<Rightarrow> string \<Rightarrow> levels_config option \<times> go_error option" where
  "LoadLevelsFromFile abs_path read_file unmarshal path =
     (if path = [] then (None, Some ErrEmptyPath)
      else case abs_path path of
          Inl err \<Rightarrow> (None, Some (Errorf ''resolve path: %w'' [err]))
        | Inr full \<Rightarrow>
            (case read_file full of
               Inl err \<Rightarrow> (None, Some err)
             | Inr data \<Rightarrow> ParseLevels unmarshal data))"

fun parse_masks :: "(string \<times> string) list \<Rightarrow> (u8 \<times> u64) list \<Rightarrow> go_error + (u8 \<times> u64) list" where
  "parse_masks [] m = Inr m"
| "parse_masks ((name, hexStr) # cfg) m =
     (case parseLevelName name of
        None \<Rightarrow> Inl (Errorf ''%w: unknown level %q'' [RbacErrInvalidLevel])
      | Some lvl \<Rightarrow>
          (case parseHexMask hexStr of
             Inl err \<Rightarrow> Inl (Errorf ''rbac: level %q: %w'' [err])
           | Inr mx \<Rightarrow> parse_masks cfg (AList.update lvl mx m)))"

fun fill_defaults ::
  "(u8 \<times> u64) list \<Rightarrow> u8 list \<Rightarrow> level_template \<Rightarrow> go_error + level_template" where
  "fill_defaults m [] tpl = Inr tpl"
| "fill_defaults m (lvl # lvls) tpl =
     (if map_of m lvl = None
      then (case Template_Set [tpl] (Some 0) lvl (template_max NewDefaultLevelTemplate lvl) of
              (Some err, _) \<Rightarrow> Inl err
            | (None, st) \<Rightarrow> fill_defaults m lvls (st ! 0))
      else fill_defaults m lvls tpl)"

definition BuildTemplate :: "levels_config option \<Rightarrow> go_error + level_template" where
  "BuildTemplate cfg =
     (case cfg of
        None \<Rightarrow> Inl (Errorf ''%w: nil config'' [ErrLevelsConfigInvalid])
      | Some c \<Rightarrow>
          (case parse_masks (case lc_LevelMaxPermissions c of None \<Rightarrow> [] | Some m \<Rightarrow> m) [] of
             Inl err \<Rightarrow> Inl err
           | Inr m \<Rightarrow>
               (case NewLevelTemplate m of
                  Inl err \<Rightarrow> Inl err
                | Inr tpl \<Rightarrow> fill_defaults m level_range tpl)))"

section \<open>The loader\<close>

record loader =
  ld_path :: string
  ld_template :: tptr
  ld_loadedAt :: time

text \<open>
  \<open>load\<close> is \<open>LoadLevelsFromFile\<close> on the file system of the moment. A new template gets the
  next address of the store.
\<close>

definition Loader_Reload ::
  "(string \<Rightarrow> levels_config option \<times> go_error option) \<Rightarrow> time \<Rightarrow> loader \<Rightarrow> tstore \<Rightarrow>
   go_error option \<times> loader \<times> tstore" where
  "Loader_Reload load now l st =
     (if ld_path l = []
      then (None, l \<lparr> ld_template := Some (length st), ld_loadedAt := now \<rparr>,
            st @ [NewDefaultLevelTemplate])
      else case load (ld_path l) of
          (_, Some err) \<Rightarrow> (Some (Errorf ''rbac: reload %s: %w'' [err]), l, st)
        | (cfg, None) \<Rightarrow>
            (case BuildTemplate cfg of
               Inl err \<Rightarrow> (Some (Errorf ''rbac: build template: %w'' [err]), l, st)
             | Inr tpl \<Rightarrow>
                 (None, l \<lparr> ld_template := Some (length st), ld_loadedAt := now \<rparr>, st @ [tpl])))"

definition NewLoader ::
  "(string \<Rightarrow> levels_config option \<times> go_error option) \<Rightarrow> time \<Rightarrow> string \<Rightarrow> tstore \<Rightarrow>
   (go_error + loader) \<times> tstore" where
  "NewLoader load now path st =
     (let l = \<lparr> ld_path = path, ld_template = None, ld_loadedAt = zero_time \<rparr> in
      if path = []
      then (Inr (l \<lparr> ld_template := Some (length st), ld_loadedAt := now \<rparr>),
            st @ [NewDefaultLevelTemplate])
      else case Loader_Reload load now l st of
          (Some err, _, st') \<Rightarrow> (Inl err, st')
        | (None, l', st') \<Rightarrow> (Inr l', st'))"

definition Loader_SetPath :: "string \<Rightarrow> loader \<Rightarrow> loader" where
  "Loader_SetPath path l = l \<lparr> ld_path := path \<rparr>"

section \<open>Lemmas on engines\<close>

lemma level_range_eq: "level_range = [0, 1, 2, 3, 4, 5, 6, 7]"
  by (simp add: level_range_def state_simps upt_rec)

lemma set_level_range: "set level_range = {l. Level_IsValid l}"
proof -
  have "l \<in> set level_range \<longleftrightarrow> unat l \<le> 7" for l :: u8
  proof
    assume "unat l \<le> 7"
    then have "unat l \<in> {0..<8}" by simp
    then have "of_nat (unat l) \<in> (of_nat :: nat \<Rightarrow> u8) ` {0..<8}" by (rule imageI)
    then show "l \<in> set level_range" by (simp add: level_range_def state_simps)
  qed (auto simp: level_range_eq)
  then show ?thesis by (auto simp: Level_IsValid_iff)
qed

lemma map_of_fold_update:
  "map_of (fold (\<lambda>l m. AList.update l (f l) m) ls m) k =
     (if k \<in> set ls then Some (f k) else map_of m k)"
  by (induction ls arbitrary: m) auto

lemma template_max_default [simp]:
  "template_max NewDefaultLevelTemplate l = DefaultMaxPermissions l"
  by (simp add: template_max_def NewDefaultLevelTemplate_def map_of_fold_update)

lemma Engine_Check_Inr_iff:
  "Engine_Check st e b l = Inr ok \<longleftrightarrow>
     unat b < 64 \<and> Level_IsValid l \<and> ok = bit (maxFor st e l) (unat b)"
proof (cases "unat b < 64")
  case True
  then show ?thesis by (auto simp: Engine_Check_def Let_def)
next
  case False
  then show ?thesis by (simp add: Engine_Check_def)
qed

lemma set_allowed_from:
  "i < 64 \<Longrightarrow> set (allowed_from mx i) = {b. unat b \<le> i \<and> bit mx (unat b)}"
proof (induction i)
  case 0
  then show ?case
    by (auto simp: and_bit_mask_neq_0 unat_eq_0)
next
  case (Suc i)
  have n: "unat (of_nat (Suc i) :: uint) = Suc i"
    using Suc.prems by (rule unat_of_small)
  have "unat b = Suc i \<longleftrightarrow> b = of_nat (Suc i)" for b :: uint
    using n word_of_unat [of b] by metis
  then show ?case
    using Suc n by (auto simp: and_bit_mask_neq_0 le_Suc_eq simp del: of_nat_Suc)
qed

lemma sorted_allowed_from:
  "i < 64 \<Longrightarrow> sorted_wrt (\<lambda>b c. c < b) (allowed_from mx i)"
proof (induction i)
  case (Suc i)
  have n: "unat (of_nat (Suc i) :: uint) = Suc i"
    using Suc.prems by (rule unat_of_small)
  then show ?case
    using Suc set_allowed_from [of i mx]
    by (auto simp: word_less_nat_alt simp del: of_nat_Suc)
qed simp

section \<open>Properties of the engine\<close>

text \<open>For a valid level and any template, \<open>AllowedBits\<close> lists, in descending order and
  without repetition, exactly the bits that \<open>Check\<close> accepts; \<open>CheckMask\<close> and \<open>HasAll\<close> accept
  a permission word exactly when \<open>Check\<close> accepts each of its bits, and \<open>HasAny\<close> when it
  accepts one of them.\<close>

theorem engine_operations_agree:
  assumes "Level_IsValid l"
  shows "(\<exists>bs. Engine_AllowedBits st e l = Inr bs \<and> sorted_wrt (\<lambda>b c. c < b) bs
             \<and> set bs = {b. Engine_Check st e b l = Inr True})
   \<and> Engine_CheckMask st e p l =
       Inr (\<forall>b. Agent_HasPermission (a \<lparr> ag_Permissions := p \<rparr>) b
              \<longrightarrow> Engine_Check st e b l = Inr True)
   \<and> Engine_CheckMask st e p l = Inr (Engine_HasAll st e p l)
   \<and> Engine_HasAny st e p l =
       (\<exists>b. Agent_HasPermission (a \<lparr> ag_Permissions := p \<rparr>) b
           \<and> Engine_Check st e b l = Inr True)"
proof (intro conjI)
  let ?m = "maxFor st e l"
  show "\<exists>bs. Engine_AllowedBits st e l = Inr bs \<and> sorted_wrt (\<lambda>b c. c < b) bs
      \<and> set bs = {b. Engine_Check st e b l = Inr True}"
  proof (intro exI conjI)
    show "Engine_AllowedBits st e l = Inr (allowed_from ?m 63)"
      using assms by (simp add: Engine_AllowedBits_def Let_def)
    show "sorted_wrt (\<lambda>b c. c < b) (allowed_from ?m 63)"
      by (rule sorted_allowed_from) simp
    have "set (allowed_from ?m 63) = {b. unat b \<le> 63 \<and> bit ?m (unat b)}"
      by (rule set_allowed_from) simp
    then show "set (allowed_from ?m 63) = {b. Engine_Check st e b l = Inr True}"
      using assms bit_small [of ?m] by (simp add: Engine_Check_Inr_iff) (auto simp: le_less_Suc_eq)
  qed
  show "Engine_CheckMask st e p l =
      Inr (\<forall>b. Agent_HasPermission (a \<lparr> ag_Permissions := p \<rparr>) b
             \<longrightarrow> Engine_Check st e b l = Inr True)"
    using assms
    by (simp add: Engine_CheckMask_def and_not_eq_0_uint HasPermission_bit Engine_Check_Inr_iff)
  show "Engine_CheckMask st e p l = Inr (Engine_HasAll st e p l)"
    using assms by (simp add: Engine_CheckMask_def Engine_HasAll_def)
  show "Engine_HasAny st e p l =
      (\<exists>b. Agent_HasPermission (a \<lparr> ag_Permissions := p \<rparr>) b
          \<and> Engine_Check st e b l = Inr True)"
    using assms
    by (simp add: Engine_HasAny_def and_neq_0_uint HasPermission_bit Engine_Check_Inr_iff)
qed

theorem engine_operations_agree_witness:
  "Engine_CheckMask [NewDefaultLevelTemplate] (NewEngine (Some 0)) 5 1
     = Inr (Engine_HasAll [NewDefaultLevelTemplate] (NewEngine (Some 0)) 5 1)"
  by (rule engine_operations_agree [THEN conjunct2, THEN conjunct2, THEN conjunct1])
    (simp add: Level_IsValid_iff)

text \<open>An engine without a template, or with the default one, decides as the domain does: on
  an agent with a valid level it accepts exactly the bits that \<open>Grant\<close> would grant, and it
  accepts the agent's permission word exactly when the domain's invariant holds.\<close>

theorem default_engine_matches_domain:
  assumes "Level_IsValid (ag_Level a)"
    and "e = None \<or> e = NewEngine None
      \<or> e = NewEngine (Some i) \<and> st ! i = NewDefaultLevelTemplate"
  shows "(Engine_Check st e b (ag_Level a) = Inr True) = (\<exists>a'. Agent_Grant a b = Inr a')
   \<and> Engine_CheckMask st e (ag_Permissions a) (ag_Level a) = Inr (perms_within a)"
proof -
  have "maxFor st e (ag_Level a) = DefaultMaxPermissions (ag_Level a)"
    using assms(2) by (auto simp: maxFor_def NewEngine_def Template_Max_def)
  then show ?thesis
    using assms(1)
    by (auto simp: Engine_Check_Inr_iff Agent_Grant_Inr bit_DefaultMaxPermissions
        Level_IsValid_iff Engine_CheckMask_def perms_within_def)
qed

theorem default_engine_matches_domain_witness:
  "Engine_CheckMask [NewDefaultLevelTemplate] (NewEngine (Some 0)) (ag_Permissions sample_agent)
     (ag_Level sample_agent) = Inr (perms_within sample_agent)"
  using default_engine_matches_domain [of sample_agent "NewEngine (Some 0)" 0
      "[NewDefaultLevelTemplate]"]
  by (simp add: sample_agent_def Level_IsValid_iff)

section \<open>Hexadecimal masks\<close>

text \<open>The \<open>n\<close> low nibbles of a word, most significant first.\<close>

definition nibble_string :: "nat \<Rightarrow> u64 \<Rightarrow> string" where
  "nibble_string n w = map (\<lambda>i. digit_char (unat (take_bit 4 (drop_bit (4 * i) w)))) (rev [0..<n])"

lemma digit_char_code:
  "d < 16 \<Longrightarrow> char_code (digit_char d) = (if d < 10 then 48 + d else 87 + d)"
proof -
  assume "d < 16"
  then have "d \<in> set [0..<16]" by simp
  then show ?thesis
    by (auto simp: upt_rec digit_char_def char_code_def)
qed

lemma hex_loop_digit:
  "d < 16 \<Longrightarrow> hex_loop (digit_char d # cs) v = hex_loop cs (push_bit 4 v OR of_nat d)"
  by (auto simp: digit_char_code Let_def)

lemma shift_nibble:
  fixes w :: u64
  shows "push_bit 4 (drop_bit (4 * Suc i) w) OR take_bit 4 (drop_bit (4 * i) w) = drop_bit (4 * i) w"
  by (rule bit_word_eqI)
    (auto simp: bit_or_iff bit_take_bit_iff bit_push_bit_iff bit_drop_bit_eq algebra_simps)

lemma nibble_small: "unat (take_bit 4 (w :: u64)) < 16"
  using take_bit_nat_less_exp [of 4 "unat w"] by (simp add: unsigned_take_bit_eq)

lemma hex_loop_nibbles:
  "hex_loop (nibble_string n w) (drop_bit (4 * n) w) = Inr w"
proof (induction n)
  case (Suc n)
  have "nibble_string (Suc n) w =
      digit_char (unat (take_bit 4 (drop_bit (4 * n) w))) # nibble_string n w"
    by (simp add: nibble_string_def)
  then show ?case
    using Suc shift_nibble [of n w]
    by (simp only: hex_loop_digit [OF nibble_small] word_of_unat)
qed (simp add: nibble_string_def)

text \<open>Printing a permission word as 16 hexadecimal digits, with or without the prefix
  \<open>0x\<close> or \<open>0X\<close>, and parsing it with \<open>parseHexMask\<close> gives the word back.\<close>

theorem parse_hex_mask_roundtrip:
  "parseHexMask (nibble_string 16 w) = Inr w
   \<and> parseHexMask (''0x'' @ nibble_string 16 w) = Inr w
   \<and> parseHexMask (''0X'' @ nibble_string 16 w) = Inr w"
proof -
  have run: "hex_loop (nibble_string 16 w) 0 = Inr w"
  proof -
    have "drop_bit (4 * 16) w = 0" by (rule drop_bit_word_beyond) simp
    then show ?thesis using hex_loop_nibbles [of 16 w] by (simp only:)
  qed
  have len: "length (nibble_string 16 w) = 16" by (simp add: nibble_string_def)
  have "nibble_string 16 w ! 1 \<in> set (nibble_string 16 w)" using len by (intro nth_mem) simp
  then have "is_hex_char (nibble_string 16 w ! 1)" by (auto simp: nibble_string_def)
  then have "take 2 (nibble_string 16 w) \<noteq> ''0x''" "take 2 (nibble_string 16 w) \<noteq> ''0X''"
    by (auto simp: is_hex_char_def dest!: arg_cong [where f = "\<lambda>xs. xs ! 1"])
  with run len show ?thesis by (auto simp: parseHexMask_def Let_def)
qed

section \<open>Templates built from a configuration\<close>

lemma parseLevelName_valid: "parseLevelName n = Some l \<Longrightarrow> Level_IsValid l"
  by (auto simp: parseLevelName_def Level_IsValid_iff state_simps split: if_splits)

text \<open>The mask that the last entry for a level, in the order of the iteration, gives it.\<close>

fun config_mask :: "(string \<times> string) list \<Rightarrow> u8 \<Rightarrow> u64 option \<Rightarrow> u64 option" where
  "config_mask [] l r = r"
| "config_mask ((name, h) # cfg) l r =
     config_mask cfg l
       (if parseLevelName name = Some l
        then (case parseHexMask h of Inr w \<Rightarrow> Some w | Inl _ \<Rightarrow> r) else r)"

definition config_ok :: "(string \<times> string) list \<Rightarrow> bool" where
  "config_ok cfg \<longleftrightarrow>
     list_all (\<lambda>(name, h). parseLevelName name \<noteq> None \<and> (\<exists>w. parseHexMask h = Inr w)) cfg"

lemma parse_masks_ok:
  "config_ok cfg \<Longrightarrow> \<exists>m'. parse_masks cfg m = Inr m'"
  by (induction cfg arbitrary: m) (auto simp: config_ok_def)

lemma parse_masks_Inr:
  "parse_masks cfg m = Inr m' \<Longrightarrow> config_ok cfg \<and> map_of m' l = config_mask cfg l (map_of m l)"
proof (induction cfg arbitrary: m)
  case (Cons p cfg)
  then show ?case
    by (cases p) (auto simp: config_ok_def split: option.splits sum.splits)
qed (simp add: config_ok_def)

lemma parse_masks_valid:
  "parse_masks cfg m = Inr m' \<Longrightarrow> fst ` set m \<subseteq> {l. Level_IsValid l} \<Longrightarrow>
     fst ` set m' \<subseteq> {l. Level_IsValid l}"
proof (induction cfg arbitrary: m)
  case (Cons p cfg)
  obtain n h where p: "p = (n, h)" by (cases p)
  with Cons.prems(1) obtain lvl w where "parseLevelName n = Some lvl"
    and m: "parse_masks cfg (AList.update lvl w m) = Inr m'"
    by (auto split: option.splits sum.splits)
  then have "fst ` set (AList.update lvl w m) \<subseteq> {l. Level_IsValid l}"
    using Cons.prems(2) by (simp add: dom_update parseLevelName_valid)
  with m show ?case by (rule Cons.IH)
qed simp

lemma parse_masks_distinct:
  "parse_masks cfg m = Inr m' \<Longrightarrow> distinct (map fst m) \<Longrightarrow> distinct (map fst m')"
  by (induction cfg arbitrary: m) (auto split: option.splits sum.splits)

lemma template_fill_valid:
  "fst ` set m \<subseteq> {l. Level_IsValid l} \<Longrightarrow> distinct (map fst m) \<Longrightarrow>
     \<exists>t'. template_fill m t = Inr t' \<and> map_of t' = map_of t ++ map_of m"
proof (induction m arbitrary: t)
  case (Cons p m)
  obtain l w where p: "p = (l, w)" by (cases p)
  from Cons p obtain t' where "template_fill m (AList.update l w t) = Inr t'"
    "map_of t' = map_of (AList.update l w t) ++ map_of m"
    by fastforce
  moreover have "map_of m l = None"
    using Cons.prems(2) p by (simp add: map_of_eq_None_iff)
  ultimately show ?case
    using Cons.prems p by (auto simp: map_add_def fun_eq_iff split: option.split)
qed simp

lemma fill_defaults_ok:
  "list_all Level_IsValid ls \<Longrightarrow>
     \<exists>t'. fill_defaults m ls t = Inr t'
        \<and> (\<forall>l. map_of t' l = (if l \<in> set ls \<and> map_of m l = None
                              then Some (DefaultMaxPermissions l) else map_of t l))"
  by (induction ls arbitrary: t) (fastforce simp: Template_Set_def)+

lemma BuildTemplate_ok:
  assumes "config_ok entries"
    and "entries = (case lc_LevelMaxPermissions c of None \<Rightarrow> [] | Some m \<Rightarrow> m)"
  shows "\<exists>t. BuildTemplate (Some c) = Inr t
       \<and> (\<forall>l. Level_IsValid l \<longrightarrow> template_max t l =
             (case config_mask entries l None of None \<Rightarrow> DefaultMaxPermissions l | Some w \<Rightarrow> w))"
proof -
  obtain m where m: "parse_masks entries [] = Inr m"
    using parse_masks_ok [OF assms(1)] by blast
  have v: "fst ` set m \<subseteq> {l. Level_IsValid l}" "distinct (map fst m)"
    using parse_masks_valid [OF m] parse_masks_distinct [OF m] by simp_all
  obtain t where t: "NewLevelTemplate m = Inr t" "map_of t = map_of m"
    using template_fill_valid [OF v, of "[]"] by (auto simp: NewLevelTemplate_def)
  have "list_all Level_IsValid level_range"
    by (simp add: list_all_iff set_level_range)
  then obtain t' where t': "fill_defaults m level_range t = Inr t'"
    "\<forall>l. map_of t' l = (if l \<in> set level_range \<and> map_of m l = None
        then Some (DefaultMaxPermissions l) else map_of t l)"
    using fill_defaults_ok by blast
  have "BuildTemplate (Some c) = Inr t'"
    using m t(1) t'(1) assms(2) by (simp add: BuildTemplate_def)
  moreover have "map_of m l = config_mask entries l None" for l
    using parse_masks_Inr [OF m, of l] by simp
  ultimately show ?thesis
    using t' t(2) by (auto simp: template_max_def set_level_range split: option.split)
qed

text \<open>\<open>BuildTemplate\<close> succeeds exactly when every level name and every mask of the
  configuration parses; the template then gives each level the mask of the last entry for it
  in the order of the iteration, and the domain's default to a level without an entry.\<close>

theorem build_template_spec:
  "(\<exists>t. BuildTemplate (Some c) = Inr t) =
     config_ok (case lc_LevelMaxPermissions c of None \<Rightarrow> [] | Some m \<Rightarrow> m)
   \<and> (\<forall>t l. BuildTemplate (Some c) = Inr t \<and> Level_IsValid l \<longrightarrow>
        template_max t l =
          (case config_mask (case lc_LevelMaxPermissions c of None \<Rightarrow> [] | Some m \<Rightarrow> m) l None of
             None \<Rightarrow> DefaultMaxPermissions l
           | Some w \<Rightarrow> w))"
proof -
  let ?e = "case lc_LevelMaxPermissions c of None \<Rightarrow> [] | Some m \<Rightarrow> m"
  have "BuildTemplate (Some c) = Inr t \<Longrightarrow> \<exists>m. parse_masks ?e [] = Inr m" for t
    by (auto simp: BuildTemplate_def split: sum.splits)
  then have "BuildTemplate (Some c) = Inr t \<Longrightarrow> config_ok ?e" for t
    using parse_masks_Inr by blast
  then show ?thesis using BuildTemplate_ok [OF _ refl, of c] by (metis sum.inject(2))
qed

definition sample_config :: levels_config where
  "sample_config = \<lparr> lc_Version = ''1'',
     lc_LevelMaxPermissions = Some [(''test'', ''0xFF''), (''level0'', ''f'')],
     lc_UpdatedAt = [] \<rparr>"

lemma sample_config_entries:
  "[(''test'', ''0xFF''), (''level0'', ''f'')] =
     (case lc_LevelMaxPermissions sample_config of None \<Rightarrow> [] | Some m \<Rightarrow> m)"
  by (simp add: sample_config_def)

theorem build_template_spec_witness:
  "\<exists>t. BuildTemplate (Some sample_config) = Inr t \<and> template_max t 0 = 15"
proof -
  have m: "parseHexMask ''0xFF'' = Inr 255" "parseHexMask ''f'' = Inr 15"
    by (simp_all add: parseHexMask_def char_code_def)
  have n: "parseLevelName ''test'' = Some 0" "parseLevelName ''level0'' = Some 0"
    by (simp_all add: parseLevelName_def state_simps)
  obtain t where "BuildTemplate (Some sample_config) = Inr t"
    using build_template_spec [of sample_config] m n
    by (auto simp: sample_config_def config_ok_def)
  then show ?thesis
    using build_template_spec [of sample_config] m n
    by (auto simp: sample_config_def Level_IsValid_iff)
qed

text \<open>Two names of the same level with different masks give a template that depends on the
  order in which Go happens to iterate over the configuration map.\<close>

theorem build_template_order_dependent:
  assumes "parseLevelName n1 = Some l" and "parseLevelName n2 = Some l"
    and "parseHexMask h1 = Inr w1" and "parseHexMask h2 = Inr w2"
  shows "\<exists>t t'. BuildTemplate (Some \<lparr> lc_Version = v,
               lc_LevelMaxPermissions = Some [(n1, h1), (n2, h2)], lc_UpdatedAt = u \<rparr>) = Inr t
           \<and> BuildTemplate (Some \<lparr> lc_Version = v,
               lc_LevelMaxPermissions = Some [(n2, h2), (n1, h1)], lc_UpdatedAt = u \<rparr>) = Inr t'
           \<and> template_max t l = w2 \<and> template_max t' l = w1"
proof -
  let ?c = "\<lambda>m. \<lparr> lc_Version = v, lc_LevelMaxPermissions = Some m, lc_UpdatedAt = u \<rparr>"
  have "config_ok [(n1, h1), (n2, h2)]" "config_ok [(n2, h2), (n1, h1)]"
    using assms by (simp_all add: config_ok_def)
  from BuildTemplate_ok [OF this(1), of "?c [(n1, h1), (n2, h2)]"]
    BuildTemplate_ok [OF this(2), of "?c [(n2, h2), (n1, h1)]"]
  show ?thesis using assms parseLevelName_valid [OF assms(1)] by auto
qed

theorem build_template_order_dependent_witness:
  "\<exists>t t'. BuildTemplate (Some \<lparr> lc_Version = ''1'',
        lc_LevelMaxPermissions = Some [(''0'', ''ff''), (''test'', ''f'')],
        lc_UpdatedAt = [] \<rparr>) = Inr t
      \<and> BuildTemplate (Some \<lparr> lc_Version = ''1'',
        lc_LevelMaxPermissions = Some [(''test'', ''f''), (''0'', ''ff'')],
        lc_UpdatedAt = [] \<rparr>) = Inr t'
      \<and> template_max t 0 = 15 \<and> template_max t' 0 = 255"
  by (rule build_template_order_dependent)
    (simp_all add: parseLevelName_def state_simps parseHexMask_def char_code_def)

text \<open>A failed \<open>Reload\<close> changes neither the loader nor any template; a successful one gives
  the loader a new template and leaves every template an engine already holds as it was, so
  an engine built before the reload goes on deciding by the old masks.\<close>

theorem reload_keeps_old_templates:
  assumes "Loader_Reload load now l st = (r, l', st')" and "i < length st"
  shows "(r \<noteq> None \<longrightarrow> l' = l \<and> st' = st)
       \<and> (r = None \<longrightarrow> ld_template l' = Some (length st) \<and> length st' = Suc (length st)
            \<and> ld_loadedAt l' = now)
       \<and> Engine_Check st' (NewEngine (Some i)) b lv = Engine_Check st (NewEngine (Some i)) b lv"
proof -
  have "st' = st \<or> (\<exists>t. st' = st @ [t])"
    using assms(1)
    by (auto simp: Loader_Reload_def split: if_splits prod.splits option.splits sum.splits)
  then have "maxFor st' (NewEngine (Some i)) lv = maxFor st (NewEngine (Some i)) lv"
    using assms(2) by (auto simp: maxFor_def NewEngine_def Template_Max_def nth_append)
  then have "Engine_Check st' (NewEngine (Some i)) b lv = Engine_Check st (NewEngine (Some i)) b lv"
    by (simp only: Engine_Check_def)
  moreover have "(r \<noteq> None \<longrightarrow> l' = l \<and> st' = st)
       \<and> (r = None \<longrightarrow> ld_template l' = Some (length st) \<and> length st' = Suc (length st)
            \<and> ld_loadedAt l' = now)"
    using assms(1)
    by (auto simp: Loader_Reload_def split: if_splits prod.splits option.splits sum.splits)
  ultimately show ?thesis by blast
qed

theorem reload_keeps_old_templates_witness:
  "\<exists>l' st'. Loader_Reload (\<lambda>_. (Some sample_config, None)) (Time 9)
        \<lparr> ld_path = ''levels.yaml'', ld_template = Some 0, ld_loadedAt = Time 1 \<rparr>
        [NewDefaultLevelTemplate] = (None, l', st')
      \<and> ld_template l' = Some 1
      \<and> Engine_Check st' (NewEngine (Some 0)) 9 0
          = Engine_Check [NewDefaultLevelTemplate] (NewEngine (Some 0)) 9 0"
  (is "\<exists>l' st'. Loader_Reload ?load ?now ?l ?st = _ \<and> _")
proof -
  have "config_ok [(''test'', ''0xFF''), (''level0'', ''f'')]"
    by (simp add: config_ok_def parseLevelName_def parseHexMask_def char_code_def)
  then obtain t where "BuildTemplate (Some sample_config) = Inr t"
    using BuildTemplate_ok [OF _ sample_config_entries] by blast
  then have r: "Loader_Reload ?load ?now ?l ?st =
      (None, ?l \<lparr> ld_template := Some 1, ld_loadedAt := ?now \<rparr>, ?st @ [t])"
    by (simp add: Loader_Reload_def)
  note k = reload_keeps_old_templates [OF r, of 0 9 0]
  have "Engine_Check (?st @ [t]) (NewEngine (Some 0)) 9 0
      = Engine_Check ?st (NewEngine (Some 0)) 9 0"
    by (rule k [THEN conjunct2, THEN conjunct2]) simp
  moreover have "ld_template (?l \<lparr> ld_template := Some 1, ld_loadedAt := ?now \<rparr>) = Some 1"
    by simp
  ultimately show ?thesis using r by blast
qed

end
