(* ===== verification/Base64Url.thy ===== *)
theory Base64Url
  imports AgentPrelude
begin

text \<open>
  The unpadded URL-safe base64 of the standard library, \<open>base64.RawURLEncoding\<close>, with which
  the program writes public keys and the parts of its tokens. The decoder skips line breaks,
  refuses every other foreign character and a last group of one character, and ignores the
  unused low bits of the last group, as \<open>DecodeString\<close> does.
\<close>

definition b64_char :: "nat \<Rightarrow> char" where
  "b64_char n =
     (if n < 26 then char_of (n + 65)
      else if n < 52 then char_of (n + 71)
      else if n < 62 then char_of (n - 4)
      else if n = 62 then CHR ''-'' else CHR ''_'')"

definition b64_val :: "char \<Rightarrow> nat option" where
  "b64_val c =
     (let n = of_char c :: nat in
      if 65 \<le> n \<and> n \<le> 90 then Some (n - 65)
      else if 97 \<le> n \<and> n \<le> 122 then Some (n - 71)
      else if 48 \<le> n \<and> n \<le> 57 then Some (n + 4)
      else if n = 45 then Some 62
      else if n = 95 then Some 63
      else None)"

definition byte :: "nat \<Rightarrow> char" where
  "byte n = char_of (n mod 256)"

fun b64_groups :: "nat list \<Rightarrow> nat list" where
  "b64_groups [] = []"
| "b64_groups [a] = [a div 4, a mod 4 * 16]"
| "b64_groups [a, b] = [a div 4, a mod 4 * 16 + b div 16, b mod 16 * 4]"
| "b64_groups (a # b # c # rest) =
     a div 4 # (a mod 4 * 16 + b div 16) # (b mod 16 * 4 + c div 64) # c mod 64 # b64_groups rest"

fun b64_ungroup :: "nat list \<Rightarrow> nat list option" where
  "b64_ungroup [] = Some []"
| "b64_ungroup [_] = None"
| "b64_ungroup [p, q] = Some [p * 4 + q div 16]"
| "b64_ungroup [p, q, r] = Some [p * 4 + q div 16, q mod 16 * 16 + r div 4]"
| "b64_ungroup (p # q # r # t # rest) =
     map_option (\<lambda>bs. (p * 4 + q div 16) # (q mod 16 * 16 + r div 4) # (r mod 4 * 64 + t) # bs)
       (b64_ungroup rest)"

definition b64url_encode :: "string \<Rightarrow> string" where
  "b64url_encode s = map b64_char (b64_groups (map of_char s))"

definition b64url_decode :: "string \<Rightarrow> string option" where
  "b64url_decode s =
     (let cs = filter (\<lambda>c. c \<noteq> char_of (10 :: nat) \<and> c \<noteq> char_of (13 :: nat)) s;
          vs = map b64_val cs
      in if None \<in> set vs then None
         else map_option (map byte) (b64_ungroup (map the vs)))"

section \<open>Decoding an encoding\<close>

lemma b64_val_char: "n < 64 \<Longrightarrow> b64_val (b64_char n) = Some n"
  by (auto simp: b64_val_def b64_char_def Let_def)

lemma b64_char_cases: "n < 64 \<Longrightarrow> b64_char n \<notin> {char_of (10 :: nat), char_of (13 :: nat), CHR ''.''}"
proof -
  assume n: "n < 64"
  have "b64_val (char_of (10 :: nat)) = None" "b64_val (char_of (13 :: nat)) = None"
    "b64_val (CHR ''.'') = None"
    by (simp_all add: b64_val_def)
  with b64_val_char [OF n] show ?thesis by fastforce
qed

lemma b64_groups_small: "\<forall>b \<in> set bs. b < 256 \<Longrightarrow> \<forall>v \<in> set (b64_groups bs). v < 64"
  by (induction bs rule: b64_groups.induct) auto

lemma sextets_24:
  fixes a b c :: nat
  assumes "a < 256" "b < 256" "c < 256"
  shows "a div 4 * 4 + (a mod 4 * 16 + b div 16) div 16 = a"
    and "(a mod 4 * 16 + b div 16) mod 16 * 16 + (b mod 16 * 4 + c div 64) div 4 = b"
    and "(b mod 16 * 4 + c div 64) mod 4 * 64 + c mod 64 = c"
    and "(a mod 4 * 16) div 16 = a mod 4"
    and "(b mod 16 * 4) div 4 = b mod 16"
proof -
  have b: "b div 16 < 16" and c: "c div 64 < 4" using assms by auto
  then show "a div 4 * 4 + (a mod 4 * 16 + b div 16) div 16 = a" by simp
  show "(a mod 4 * 16 + b div 16) mod 16 * 16 + (b mod 16 * 4 + c div 64) div 4 = b"
    using b c by (simp add: mod_mult_self3)
  show "(b mod 16 * 4 + c div 64) mod 4 * 64 + c mod 64 = c"
    using c by (simp add: mod_mult_self3)
qed simp_all

lemma b64_ungroup_groups: "\<forall>b \<in> set bs. b < 256 \<Longrightarrow> b64_ungroup (b64_groups bs) = Some bs"
proof (induction bs rule: b64_groups.induct)
  case (2 a)
  then show ?case by simp
next
  case (3 a b)
  then show ?case using sextets_24 [of a b 0] by simp
next
  case (4 a b c rest)
  then show ?case using sextets_24 [of a b c] by simp
qed simp

lemma of_char_small: "(of_char c :: nat) < 256"
  by (rule nat_of_char_less_256)

lemma b64url_decode_encode [simp]: "b64url_decode (b64url_encode s) = Some s"
proof -
  let ?bs = "map of_char s :: nat list"
  have small: "\<forall>b \<in> set ?bs. b < 256" using of_char_small by auto
  then have g: "\<forall>v \<in> set (b64_groups ?bs). v < 64" by (rule b64_groups_small)
  then have "filter (\<lambda>c. c \<noteq> char_of (10 :: nat) \<and> c \<noteq> char_of (13 :: nat)) (b64url_encode s)
      = b64url_encode s"
    using b64_char_cases by (auto simp: b64url_encode_def filter_id_conv)
  moreover have v: "map b64_val (b64url_encode s) = map Some (b64_groups ?bs)"
    using g b64_val_char by (auto simp: b64url_encode_def)
  moreover have "map byte ?bs = s"
    using of_char_small by (simp add: byte_def map_idI)
  ultimately show ?thesis
    unfolding b64url_decode_def Let_def
    using b64_ungroup_groups [OF small] by (simp only: v) (auto simp: comp_def)
qed

lemma b64url_encode_inject: "b64url_encode s = b64url_encode t \<longleftrightarrow> s = t"
  using b64url_decode_encode by (metis option.inject)

lemma b64url_encode_empty [simp]: "b64url_encode s = [] \<longleftrightarrow> s = []"
  using b64url_encode_inject [of s "[]"] by (simp add: b64url_encode_def)

lemma b64url_encode_no_dot: "CHR ''.'' \<notin> set (b64url_encode s)"
proof -
  have "\<forall>v \<in> set (b64_groups (map of_char s)). v < 64"
    using of_char_small by (intro b64_groups_small) auto
  then show ?thesis using b64_char_cases by (fastforce simp: b64url_encode_def)
qed

end
