(* ===== verification/Services.thy ===== *)
theory Services
  imports DomainRules Base64Url
begin

text \<open>
  The business workflows of \<open>src/internal/service\<close>: registration, single and batch, upgrade, ban
  and unban, revocation, the permission check, the information query, the transaction wrapper
  and the emission of outbox events.

  The storage client, the chain, the audit channel and the identity provider are interfaces
  without an implementation in the program, so they are records of operations over one state
  \<open>'w\<close> of everything they keep; queries do not change it. A workflow returns a response, an
  error, or both, as the code does when the chain fails after the storage has been written. The
  clock argument is what \<open>time.Now\<close> answers.
\<close>

section \<open>The interfaces\<close>

abbreviation ErrNotFound :: go_error where "ErrNotFound \<equiv> Sentinel ''storage: not found''"

record agent_record =
  sr_UUID :: string
  sr_Owner :: string
  sr_Level :: u8
  sr_Permissions :: u64
  sr_State :: string
  sr_TxHash :: string
  sr_PublicKey :: string
  sr_RegisteredAt :: time
  sr_UpdatedAt :: time

text \<open>What the workflows use of \<open>storage.Client\<close> and its sub-stores.\<close>

record 'w store_client =
  st_GetAgent :: "string \<Rightarrow> 'w \<Rightarrow> go_error + agent_record"
  st_PutAgent :: "agent_record \<Rightarrow> 'w \<Rightarrow> go_error option \<times> 'w"
  st_GetPermissions :: "string \<Rightarrow> 'w \<Rightarrow> go_error + u64"
  st_SetPermissions :: "string \<Rightarrow> u64 \<Rightarrow> 'w \<Rightarrow> go_error option \<times> 'w"
  st_PurgeExpired :: "'w \<Rightarrow> (go_error + int) \<times> 'w"

record svc_register_request =
  scr_UUID :: string
  scr_Owner :: string
  scr_Level :: u8
  scr_Permissions :: u64
  scr_PublicKey :: string
  scr_Metadata :: "(string \<times> string) list"

record svc_receipt =
  srec_TxHash :: string
  srec_BlockNumber :: u64
  srec_GasUsed :: u64
  srec_ConfirmedAt :: time

record chain_agent_state =
  cas_UUID :: string
  cas_Level :: u8
  cas_Banned :: bool
  cas_TxHash :: string
  cas_UpdatedAt :: time

record 'w chain_client =
  cc_ChainType :: string
  cc_RegisterAgent :: "svc_register_request \<Rightarrow> 'w \<Rightarrow> (go_error + svc_receipt) \<times> 'w"
  cc_UpdateLevel :: "string \<Rightarrow> u8 \<Rightarrow> string \<Rightarrow> 'w \<Rightarrow> (go_error + svc_receipt) \<times> 'w"
  cc_BanAgent :: "string \<Rightarrow> string \<Rightarrow> 'w \<Rightarrow> (go_error + svc_receipt) \<times> 'w"
  cc_UnbanAgent :: "string \<Rightarrow> 'w \<Rightarrow> (go_error + svc_receipt) \<times> 'w"
  cc_GetAgentState :: "string \<Rightarrow> 'w \<Rightarrow> go_error + chain_agent_state"

record audit_event =
  ae_UUID :: string
  ae_Actor :: string
  ae_Action :: string
  ae_Result :: string
  ae_Metadata :: "(string \<times> string) list"
  ae_Timestamp :: time

type_synonym 'w audit_notifier = "audit_event \<Rightarrow> 'w \<Rightarrow> go_error option \<times> 'w"

text \<open>The workflows only ask the identity provider whether an agent exists.\<close>

type_synonym 'w identity_provider = "string \<Rightarrow> 'w \<Rightarrow> go_error + bool"

section \<open>The services\<close>

abbreviation ErrInvalidRegisterInput :: go_error where
  "ErrInvalidRegisterInput \<equiv> Sentinel ''service: invalid register input''"
abbreviation ErrAgentAlreadyExists :: go_error where
  "ErrAgentAlreadyExists \<equiv> Sentinel ''service: agent already exists''"
abbreviation ErrChainRegisterFailed :: go_error where
  "ErrChainRegisterFailed \<equiv> Sentinel ''service: chain register failed''"
abbreviation SvcErrAgentNotFound :: go_error where
  "SvcErrAgentNotFound \<equiv> Sentinel ''service: agent not found''"
abbreviation ErrAgentNotUpgradable :: go_error where
  "ErrAgentNotUpgradable \<equiv> Sentinel ''service: agent not in upgradable state''"
abbreviation ErrInvalidUpgradeLevel :: go_error where
  "ErrInvalidUpgradeLevel \<equiv> Sentinel ''service: invalid upgrade level''"
abbreviation ErrAgentAlreadyBanned :: go_error where
  "ErrAgentAlreadyBanned \<equiv> Sentinel ''service: agent already banned''"
abbreviation ErrAgentNotBanned :: go_error where
  "ErrAgentNotBanned \<equiv> Sentinel ''service: agent not banned''"
abbreviation ErrNotRevocable :: go_error where
  "ErrNotRevocable \<equiv> Sentinel ''service: agent not revocable''"
abbreviation ErrEmptyBatch :: go_error where
  "ErrEmptyBatch \<equiv> Sentinel ''service: empty batch''"
abbreviation ErrBatchTooLarge :: go_error where
  "ErrBatchTooLarge \<equiv> Sentinel ''service: batch too large''"

text \<open>The register, upgrade, ban and revoke services have the same fields.\<close>

record 'w workflow =
  wf_store :: "'w store_client"
  wf_chain :: "'w chain_client option"
  wf_audit :: "'w audit_notifier option"
  wf_provider :: "'w identity_provider"

definition new_workflow ::
  "'w store_client option \<Rightarrow> 'w chain_client option \<Rightarrow> 'w audit_notifier option \<Rightarrow>
   'w identity_provider option \<Rightarrow> go_error + 'w workflow" where
  "new_workflow st ch au pr =
     (case st of None \<Rightarrow> Inl (Sentinel ''service: nil storage'')
      | Some s \<Rightarrow>
          (case pr of None \<Rightarrow> Inl (Sentinel ''service: nil identity provider'')
           | Some p \<Rightarrow>
               Inr \<lparr> wf_store = s, wf_chain = ch, wf_audit = au, wf_provider = p \<rparr>))"

abbreviation NewRegisterService where "NewRegisterService \<equiv> new_workflow"
abbreviation NewUpgradeService where "NewUpgradeService \<equiv> new_workflow"
abbreviation NewBanService where "NewBanService \<equiv> new_workflow"
abbreviation NewRevokeService where "NewRevokeService \<equiv> new_workflow"

text \<open>A workflow's answer: a response, an error, or both, and the state it leaves.\<close>

type_synonym ('r, 'w) answer = "'r option \<times> go_error option \<times> 'w"

abbreviation refuse :: "go_error \<Rightarrow> 'w \<Rightarrow> ('r, 'w) answer" where
  "refuse err w \<equiv> (None, Some err, w)"

definition audit :: "'w workflow \<Rightarrow> audit_event \<Rightarrow> 'w \<Rightarrow> 'w" where
  "audit s ev w = (case wf_audit s of None \<Rightarrow> w | Some notify \<Rightarrow> snd (notify ev w))"

definition or_now :: "time \<Rightarrow> time \<Rightarrow> time" where
  "or_now clock t = (if is_zero_time t then clock else t)"

definition rebuild :: "agent_record \<Rightarrow> go_error + agent" where
  "rebuild r = NewAgent (sr_UUID r) (sr_Owner r) (sr_Level r) (sr_PublicKey r) (sr_RegisteredAt r)"

section \<open>Registration\<close>

record register_agent_request =
  rar_UUID :: string
  rar_Owner :: string
  rar_Level :: u8
  rar_PublicKey :: string
  rar_Permissions :: u64
  rar_Metadata :: "(string \<times> string) list"
  rar_Now :: time

record register_agent_response =
  rap_Agent :: agent
  rap_TxHash :: string
  rap_BlockNumber :: u64
  rap_RegisteredAt :: time

definition encodePubKey :: "string \<Rightarrow> string" where
  "encodePubKey pub = b64url_encode pub"

definition stringOfChain :: "'w chain_client option \<Rightarrow> string" where
  "stringOfChain c = (case c of None \<Rightarrow> ''none'' | Some ch \<Rightarrow> cc_ChainType ch)"

text \<open>The checks; the request comes back with its time filled in.\<close>

definition validate_register ::
  "time \<Rightarrow> register_agent_request option \<Rightarrow> go_error + register_agent_request" where
  "validate_register clock req =
     (case req of
        None \<Rightarrow> Inl (Errorf ''%w: nil request'' [ErrInvalidRegisterInput])
      | Some r \<Rightarrow>
          if UUID_Validate (rar_UUID r) \<noteq> None
          then Inl (Errorf ''%w: uuid: %v'' [ErrInvalidRegisterInput])
          else if Owner_Validate (rar_Owner r) \<noteq> None
          then Inl (Errorf ''%w: owner: %v'' [ErrInvalidRegisterInput])
          else if \<not> Level_IsValid (rar_Level r)
          then Inl (Errorf ''%w: level=%d'' [ErrInvalidRegisterInput])
          else if length (rar_PublicKey r) \<noteq> 32
          then Inl (Errorf ''%w: pubkey size=%d'' [ErrInvalidRegisterInput])
          else Inr (r \<lparr> rar_Now := or_now clock (rar_Now r) \<rparr>))"

definition HandleRegister ::
  "'w workflow \<Rightarrow> time \<Rightarrow> register_agent_request option \<Rightarrow> 'w \<Rightarrow>
   (register_agent_response, 'w) answer" where
  "HandleRegister s clock req w =
     (case validate_register clock req of Inl err \<Rightarrow> refuse err w | Inr r \<Rightarrow>
      case wf_provider s (rar_UUID r) w of
        Inl err \<Rightarrow> refuse (Errorf ''service: exists check: %w'' [err]) w
      | Inr exists \<Rightarrow>
      if exists then refuse ErrAgentAlreadyExists w
      else
        (let perms = (if rar_Permissions r = 0 then DefaultMaxPermissions (rar_Level r)
                      else rar_Permissions r) in
         case NewAgent (rar_UUID r) (rar_Owner r) (rar_Level r) (encodePubKey (rar_PublicKey r))
                (rar_Now r) of
           Inl err \<Rightarrow> refuse (Errorf ''service: new agent: %w'' [err]) w
         | Inr ag \<Rightarrow>
         (let rec = \<lparr> sr_UUID = ag_UUID ag, sr_Owner = ag_Owner ag, sr_Level = ag_Level ag,
                      sr_Permissions = perms, sr_State = ag_State ag, sr_TxHash = [],
                      sr_PublicKey = encodePubKey (rar_PublicKey r),
                      sr_RegisteredAt = rar_Now r, sr_UpdatedAt = rar_Now r \<rparr> in
          case st_PutAgent (wf_store s) rec w of
            (Some err, w1) \<Rightarrow> refuse (Errorf ''service: put agent: %w'' [err]) w1
          | (None, w1) \<Rightarrow>
          case st_SetPermissions (wf_store s) (ag_UUID ag) perms w1 of
            (Some err, w2) \<Rightarrow> refuse (Errorf ''service: set permissions: %w'' [err]) w2
          | (None, w2) \<Rightarrow>
          case (case wf_chain s of
                  None \<Rightarrow> (Inr ([], 0), w2)
                | Some ch \<Rightarrow>
                    (case cc_RegisterAgent ch
                            \<lparr> scr_UUID = ag_UUID ag, scr_Owner = ag_Owner ag,
                              scr_Level = ag_Level ag, scr_Permissions = perms,
                              scr_PublicKey = rar_PublicKey r,
                              scr_Metadata = rar_Metadata r \<rparr> w2 of
                       (Inl err, w3) \<Rightarrow> (Inl err, w3)
                     | (Inr rc, w3) \<Rightarrow> (Inr (srec_TxHash rc, srec_BlockNumber rc), w3))) of
            (Inl err, w3) \<Rightarrow>
              (Some \<lparr> rap_Agent = ag, rap_TxHash = [], rap_BlockNumber = 0,
                      rap_RegisteredAt = rar_Now r \<rparr>,
               Some (Errorf ''%w: %v'' [ErrChainRegisterFailed]), w3)
          | (Inr (tx, block), w3) \<Rightarrow>
              (Some \<lparr> rap_Agent = ag, rap_TxHash = tx, rap_BlockNumber = block,
                      rap_RegisteredAt = rar_Now r \<rparr>, None,
               audit s \<lparr> ae_UUID = ag_UUID ag, ae_Actor = [], ae_Action = ''register'',
                         ae_Result = ''success'',
                         ae_Metadata = [(''owner'', ag_Owner ag),
                           (''level'', dec_of_nat (unat (ag_Level ag))), (''tx_hash'', tx),
                           (''chain_typ'', stringOfChain (wf_chain s))],
                         ae_Timestamp = rar_Now r \<rparr> w3))))"

section \<open>Upgrade\<close>

record upgrade_agent_request =
  uar_UUID :: string
  uar_NewLevel :: u8
  uar_Reason :: string
  uar_Actor :: string
  uar_Now :: time

record upgrade_agent_response =
  uap_Agent :: agent
  uap_OldLevel :: u8
  uap_NewLevel :: u8
  uap_TxHash :: string
  uap_UpgradedAt :: time

definition isUpgradable :: "string \<Rightarrow> bool" where
  "isUpgradable st \<longleftrightarrow> st = StateActive \<or> st = StateRegistered"

definition validate_upgrade ::
  "time \<Rightarrow> upgrade_agent_request option \<Rightarrow> go_error + upgrade_agent_request" where
  "validate_upgrade clock req =
     (case req of
        None \<Rightarrow> Inl (Errorf ''%w: nil'' [ErrInvalidUpgradeLevel])
      | Some r \<Rightarrow>
          if UUID_Validate (uar_UUID r) \<noteq> None
          then Inl (Errorf ''%w: uuid: %v'' [ErrInvalidUpgradeLevel])
          else if \<not> Level_IsValid (uar_NewLevel r)
          then Inl (Errorf ''%w: level=%d'' [ErrInvalidUpgradeLevel])
          else Inr (r \<lparr> uar_Now := or_now clock (uar_Now r) \<rparr>))"

text \<open>The optional call to the chain that ends a workflow: the transaction hash, empty without one.\<close>

definition call_chain ::
  "'w workflow \<Rightarrow> ('w chain_client \<Rightarrow> 'w \<Rightarrow> (go_error + svc_receipt) \<times> 'w) \<Rightarrow> 'w \<Rightarrow>
   (go_error + string) \<times> 'w" where
  "call_chain s f w =
     (case wf_chain s of
        None \<Rightarrow> (Inr [], w)
      | Some ch \<Rightarrow>
          (case f ch w of (Inl err, w') \<Rightarrow> (Inl err, w') | (Inr rc, w') \<Rightarrow> (Inr (srec_TxHash rc), w')))"

definition HandleUpgrade ::
  "'w workflow \<Rightarrow> time \<Rightarrow> upgrade_agent_request option \<Rightarrow> 'w \<Rightarrow>
   (upgrade_agent_response, 'w) answer" where
  "HandleUpgrade s clock req w =
     (case validate_upgrade clock req of Inl err \<Rightarrow> refuse err w | Inr r \<Rightarrow>
      case st_GetAgent (wf_store s) (uar_UUID r) w of
        Inl err \<Rightarrow> refuse (Errorf ''%w: %v'' [SvcErrAgentNotFound]) w
      | Inr rec \<Rightarrow>
      if \<not> isUpgradable (sr_State rec)
      then refuse (Errorf ''%w: state=%s'' [ErrAgentNotUpgradable]) w
      else case rebuild rec of
        Inl err \<Rightarrow> refuse (Errorf ''service: rebuild agent: %w'' [err]) w
      | Inr ag0 \<Rightarrow>
      case Agent_Upgrade ag0 (uar_NewLevel r) (uar_Now r) of
        Inl err \<Rightarrow> refuse (Errorf ''%w: %v'' [ErrInvalidUpgradeLevel]) w
      | Inr ag \<Rightarrow>
      (let rec' = rec \<lparr> sr_Level := ag_Level ag, sr_UpdatedAt := uar_Now r \<rparr> in
       case st_PutAgent (wf_store s) rec' w of
         (Some err, w1) \<Rightarrow> refuse (Errorf ''service: put agent: %w'' [err]) w1
       | (None, w1) \<Rightarrow>
       (let w2 = snd (st_SetPermissions (wf_store s) (sr_UUID rec')
                        (DefaultMaxPermissions (uar_NewLevel r)) w1) in
        case call_chain s (\<lambda>ch. cc_UpdateLevel ch (ag_UUID ag) (ag_Level ag) (uar_Reason r)) w2 of
          (Inl err, w3) \<Rightarrow>
            (Some \<lparr> uap_Agent = ag, uap_OldLevel = ag_Level ag0, uap_NewLevel = ag_Level ag,
                    uap_TxHash = [], uap_UpgradedAt = uar_Now r \<rparr>,
             Some (Errorf ''%w: %v'' [ErrChainRegisterFailed]), w3)
        | (Inr tx, w3) \<Rightarrow>
            (Some \<lparr> uap_Agent = ag, uap_OldLevel = ag_Level ag0, uap_NewLevel = ag_Level ag,
                    uap_TxHash = tx, uap_UpgradedAt = uar_Now r \<rparr>, None,
             audit s \<lparr> ae_UUID = ag_UUID ag, ae_Actor = uar_Actor r, ae_Action = ''upgrade'',
                       ae_Result = ''success'',
                       ae_Metadata = [(''old_level'', dec_of_nat (unat (ag_Level ag0))),
                         (''new_level'', dec_of_nat (unat (ag_Level ag))),
                         (''reason'', uar_Reason r), (''tx_hash'', tx)],
                       ae_Timestamp = uar_Now r \<rparr> w3))))"

section \<open>Ban and unban\<close>

record ban_agent_request =
  bar_UUID :: string
  bar_Reason :: string
  bar_Actor :: string
  bar_Now :: time

record unban_agent_request =
  unr_UUID :: string
  unr_Actor :: string
  unr_Now :: time

record ban_agent_response =
  bap_Agent :: agent
  bap_BannedAt :: time
  bap_TxHash :: string

record unban_agent_response =
  unp_Agent :: agent
  unp_UnbannedAt :: time
  unp_TxHash :: string

definition HandleBan ::
  "'w workflow \<Rightarrow> time \<Rightarrow> ban_agent_request option \<Rightarrow> 'w \<Rightarrow> (ban_agent_response, 'w) answer" where
  "HandleBan s clock req w =
     (case req of None \<Rightarrow> refuse (Errorf ''%w: nil/empty'' [ErrInvalidRegisterInput]) w | Some r \<Rightarrow>
      if UUID_IsZero (bar_UUID r)
      then refuse (Errorf ''%w: nil/empty'' [ErrInvalidRegisterInput]) w
      else (let now = or_now clock (bar_Now r) in
      case st_GetAgent (wf_store s) (bar_UUID r) w of
        Inl err \<Rightarrow> refuse (Errorf ''%w: %v'' [SvcErrAgentNotFound]) w
      | Inr rec \<Rightarrow>
      case rebuild rec of
        Inl err \<Rightarrow> refuse (Errorf ''service: rebuild: %w'' [err]) w
      | Inr ag0 \<Rightarrow>
      if ag_State ag0 = StateBanned then refuse ErrAgentAlreadyBanned w
      else case Agent_Ban ag0 (bar_Reason r) now of
        Inl err \<Rightarrow> refuse (Errorf ''service: ban: %w'' [err]) w
      | Inr ag \<Rightarrow>
      (case st_PutAgent (wf_store s) (rec \<lparr> sr_State := ag_State ag, sr_UpdatedAt := now \<rparr>) w of
         (Some err, w1) \<Rightarrow> refuse (Errorf ''service: put: %w'' [err]) w1
       | (None, w1) \<Rightarrow>
       (case call_chain s (\<lambda>ch. cc_BanAgent ch (ag_UUID ag) (bar_Reason r)) w1 of
          (Inl err, w2) \<Rightarrow>
            (Some \<lparr> bap_Agent = ag, bap_BannedAt = now, bap_TxHash = [] \<rparr>,
             Some (Errorf ''%w: %v'' [ErrChainRegisterFailed]), w2)
        | (Inr tx, w2) \<Rightarrow>
            (Some \<lparr> bap_Agent = ag, bap_BannedAt = now, bap_TxHash = tx \<rparr>, None,
             audit s \<lparr> ae_UUID = ag_UUID ag, ae_Actor = bar_Actor r, ae_Action = ''ban'',
                       ae_Result = ''success'',
                       ae_Metadata = [(''reason'', bar_Reason r), (''tx_hash'', tx)],
                       ae_Timestamp = now \<rparr> (snd (st_PurgeExpired (wf_store s) w2)))))))"

definition HandleUnban ::
  "'w workflow \<Rightarrow> time \<Rightarrow> unban_agent_request option \<Rightarrow> 'w \<Rightarrow> (unban_agent_response, 'w) answer" where
  "HandleUnban s clock req w =
     (case req of None \<Rightarrow> refuse (Errorf ''%w: nil/empty'' [ErrInvalidRegisterInput]) w | Some r \<Rightarrow>
      if UUID_IsZero (unr_UUID r)
      then refuse (Errorf ''%w: nil/empty'' [ErrInvalidRegisterInput]) w
      else (let now = or_now clock (unr_Now r) in
      case st_GetAgent (wf_store s) (unr_UUID r) w of
        Inl err \<Rightarrow> refuse (Errorf ''%w: %v'' [SvcErrAgentNotFound]) w
      | Inr rec \<Rightarrow>
      case rebuild rec of
        Inl err \<Rightarrow> refuse (Errorf ''service: rebuild: %w'' [err]) w
      | Inr ag0 \<Rightarrow>
      if ag_State ag0 \<noteq> StateBanned then refuse ErrAgentNotBanned w
      else case Agent_Unban ag0 now of
        Inl err \<Rightarrow> refuse (Errorf ''service: unban: %w'' [err]) w
      | Inr ag \<Rightarrow>
      (case st_PutAgent (wf_store s) (rec \<lparr> sr_State := ag_State ag, sr_UpdatedAt := now \<rparr>) w of
         (Some err, w1) \<Rightarrow> refuse (Errorf ''service: put: %w'' [err]) w1
       | (None, w1) \<Rightarrow>
       (case call_chain s (\<lambda>ch. cc_UnbanAgent ch (ag_UUID ag)) w1 of
          (Inl err, w2) \<Rightarrow>
            (Some \<lparr> unp_Agent = ag, unp_UnbannedAt = now, unp_TxHash = [] \<rparr>,
             Some (Errorf ''%w: %v'' [ErrChainRegisterFailed]), w2)
        | (Inr tx, w2) \<Rightarrow>
            (Some \<lparr> unp_Agent = ag, unp_UnbannedAt = now, unp_TxHash = tx \<rparr>, None,
             audit s \<lparr> ae_UUID = ag_UUID ag, ae_Actor = unr_Actor r, ae_Action = ''unban'',
                       ae_Result = ''success'', ae_Metadata = [(''tx_hash'', tx)],
                       ae_Timestamp = now \<rparr> w2)))))"

section \<open>Revocation\<close>

record revoke_agent_request =
  rvr_UUID :: string
  rvr_Reason :: string
  rvr_Actor :: string
  rvr_Now :: time

record revoke_agent_response =
  rvp_Agent :: agent
  rvp_RevokedAt :: time
  rvp_TxHash :: string

definition HandleRevoke ::
  "'w workflow \<Rightarrow> time \<Rightarrow> revoke_agent_request option \<Rightarrow> 'w \<Rightarrow> (revoke_agent_response, 'w) answer" where
  "HandleRevoke s clock req w =
     (case req of
        None \<Rightarrow> refuse (Errorf ''%w: nil/empty uuid'' [ErrInvalidRegisterInput]) w
      | Some r \<Rightarrow>
      if UUID_IsZero (rvr_UUID r)
      then refuse (Errorf ''%w: nil/empty uuid'' [ErrInvalidRegisterInput]) w
      else (let now = or_now clock (rvr_Now r) in
      case st_GetAgent (wf_store s) (rvr_UUID r) w of
        Inl err \<Rightarrow> refuse (Errorf ''%w: %v'' [SvcErrAgentNotFound]) w
      | Inr rec \<Rightarrow>
      if sr_State rec = StateUnregistered then refuse ErrNotRevocable w
      else case rebuild rec of
        Inl err \<Rightarrow> refuse (Errorf ''service: rebuild agent: %w'' [err]) w
      | Inr ag0 \<Rightarrow>
      (let ag = ag0 \<lparr> ag_State := StateUnregistered, ag_UpdatedAt := now \<rparr> in
       case st_PutAgent (wf_store s) (rec \<lparr> sr_State := ag_State ag, sr_UpdatedAt := now \<rparr>) w of
         (Some err, w1) \<Rightarrow> refuse (Errorf ''service: put: %w'' [err]) w1
       | (None, w1) \<Rightarrow>
       (case call_chain s (\<lambda>ch. cc_UnbanAgent ch (ag_UUID ag)) w1 of
          (Inl err, w2) \<Rightarrow>
            (Some \<lparr> rvp_Agent = ag, rvp_RevokedAt = now, rvp_TxHash = [] \<rparr>,
             Some (Errorf ''%w: %v'' [ErrChainRegisterFailed]), w2)
        | (Inr tx, w2) \<Rightarrow>
            (Some \<lparr> rvp_Agent = ag, rvp_RevokedAt = now, rvp_TxHash = tx \<rparr>, None,
             audit s \<lparr> ae_UUID = ag_UUID ag, ae_Actor = rvr_Actor r, ae_Action = ''revoke'',
                       ae_Result = ''success'',
                       ae_Metadata = [(''reason'', rvr_Reason r), (''tx_hash'', tx)],
                       ae_Timestamp = now \<rparr> (snd (st_PurgeExpired (wf_store s) w2)))))))"

section \<open>Batch registration\<close>

record batch_register_failure =
  brf_Index :: nat
  brf_UUID :: string
  brf_Err :: go_error

record batch_register_result =
  brr_Succeeded :: "register_agent_response option list"
  brr_Failed :: "batch_register_failure list"
  brr_Total :: nat
  brr_StartedAt :: time
  brr_EndedAt :: time

record batch_register_config =
  brc_MaxBatchSize :: int
  brc_Concurrency :: int

record 'w batch_register_service =
  brs_inner :: "'w workflow"
  brs_cfg :: batch_register_config

definition NewBatchRegisterService ::
  "'w workflow option \<Rightarrow> batch_register_config \<Rightarrow> go_error + 'w batch_register_service" where
  "NewBatchRegisterService inner cfg =
     (case inner of None \<Rightarrow> Inl (Sentinel ''service: nil inner register service'')
      | Some s \<Rightarrow>
          (let cfg1 = (if brc_MaxBatchSize cfg = 0 then cfg \<lparr> brc_MaxBatchSize := 100 \<rparr> else cfg);
               cfg2 = (if brc_Concurrency cfg1 = 0 then cfg1 \<lparr> brc_Concurrency := 8 \<rparr> else cfg1)
           in Inr \<lparr> brs_inner = s, brs_cfg = cfg2 \<rparr>))"

text \<open>
  The goroutines run whole registrations in the order \<open>order\<close>, a permutation of the indices that
  the scheduler chooses; \<open>clock i\<close> is the time that item \<open>i\<close> reads.
\<close>

fun batch_run ::
  "'w workflow \<Rightarrow> (nat \<Rightarrow> time) \<Rightarrow> register_agent_request option list \<Rightarrow> nat list \<Rightarrow>
   batch_register_result \<Rightarrow> 'w \<Rightarrow> batch_register_result \<times> 'w" where
  "batch_run s clock items [] res w = (res, w)"
| "batch_run s clock items (i # order) res w =
     (case HandleRegister s (clock i) (items ! i) w of
        (resp, Some err, w1) \<Rightarrow>
          batch_run s clock items order
            (res \<lparr> brr_Failed := brr_Failed res @
               [\<lparr> brf_Index = i,
                  brf_UUID = (case items ! i of None \<Rightarrow> [] | Some r \<Rightarrow> rar_UUID r),
                  brf_Err = err \<rparr>] \<rparr>) w1
      | (resp, None, w1) \<Rightarrow>
          batch_run s clock items order
            (res \<lparr> brr_Succeeded := brr_Succeeded res @ [resp] \<rparr>) w1)"

definition HandleBatchRegister ::
  "'w batch_register_service \<Rightarrow> time \<Rightarrow> (nat \<Rightarrow> time) \<Rightarrow> time \<Rightarrow> nat list \<Rightarrow>
   register_agent_request option list \<Rightarrow> 'w \<Rightarrow>
   ((go_error + batch_register_result) \<times> 'w) outcome" where
  "HandleBatchRegister s started clock ended order items w =
     (if items = [] then Return (Inl ErrEmptyBatch, w)
      else if brc_MaxBatchSize (brs_cfg s) < int (length items)
      then Return (Inl (Errorf ''%w: %d > %d'' [ErrBatchTooLarge]), w)
      else if brc_Concurrency (brs_cfg s) < 0 then Panic ''makechan: size out of range''
      else
        (case batch_run (brs_inner s) clock items order
                \<lparr> brr_Succeeded = [], brr_Failed = [], brr_Total = length items,
                  brr_StartedAt = started, brr_EndedAt = zero_time \<rparr> w of
           (res, w1) \<Rightarrow> Return (Inr (res \<lparr> brr_EndedAt := ended \<rparr>), w1)))"

section \<open>Queries\<close>

record check_permission_request =
  cpr_UUID :: string
  cpr_Bit :: uint

record check_permission_response =
  cpp_Allowed :: bool
  cpp_HasBit :: bool
  cpp_Permissions :: u64

definition HandleCheckPermission ::
  "'w store_client \<Rightarrow> check_permission_request option \<Rightarrow> 'w \<Rightarrow>
   check_permission_response option \<times> go_error option" where
  "HandleCheckPermission st req w =
     (case req of None \<Rightarrow> (None, Some ErrInvalidRegisterInput) | Some r \<Rightarrow>
      if UUID_IsZero (cpr_UUID r) then (None, Some ErrInvalidRegisterInput)
      else if 64 \<le> cpr_Bit r then (None, Some (Sentinel ''service: bit >= 64''))
      else case st_GetAgent st (cpr_UUID r) w of
        Inl err \<Rightarrow>
          (Some \<lparr> cpp_Allowed = False, cpp_HasBit = False, cpp_Permissions = 0 \<rparr>,
           Some SvcErrAgentNotFound)
      | Inr rec \<Rightarrow>
      if sr_State rec = StateUnregistered \<or> sr_State rec = StateBanned
      then (Some \<lparr> cpp_Allowed = False, cpp_HasBit = False, cpp_Permissions = 0 \<rparr>, None)
      else case st_GetPermissions st (cpr_UUID r) w of
        Inl err \<Rightarrow> (None, Some err)
      | Inr perms \<Rightarrow>
          (let hasBit = (perms AND bit_mask (cpr_Bit r) \<noteq> 0) in
           (Some \<lparr> cpp_Allowed = hasBit, cpp_HasBit = hasBit, cpp_Permissions = perms \<rparr>, None)))"

record svc_agent_info =
  sai_UUID :: string
  sai_Owner :: string
  sai_Level :: u8
  sai_State :: string
  sai_Permissions :: u64
  sai_PublicKey :: string
  sai_TxHash :: string
  sai_RegisteredAt :: time
  sai_UpdatedAt :: time
  sai_ChainState :: "chain_agent_state option"

definition HandleGetInfo ::
  "'w store_client \<Rightarrow> 'w chain_client option \<Rightarrow> string \<Rightarrow> 'w \<Rightarrow> go_error + svc_agent_info" where
  "HandleGetInfo st chain u w =
     (if UUID_IsZero u then Inl ErrInvalidRegisterInput
      else case st_GetAgent st u w of Inl err \<Rightarrow> Inl SvcErrAgentNotFound | Inr rec \<Rightarrow>
      case st_GetPermissions st u w of Inl err \<Rightarrow> Inl err | Inr perms \<Rightarrow>
        Inr \<lparr> sai_UUID = sr_UUID rec, sai_Owner = sr_Owner rec, sai_Level = sr_Level rec,
              sai_State = sr_State rec, sai_Permissions = perms,
              sai_PublicKey = sr_PublicKey rec, sai_TxHash = sr_TxHash rec,
              sai_RegisteredAt = sr_RegisteredAt rec, sai_UpdatedAt = sr_UpdatedAt rec,
              sai_ChainState =
                (case chain of None \<Rightarrow> None
                 | Some ch \<Rightarrow> (case cc_GetAgentState ch u w of Inl _ \<Rightarrow> None | Inr cs \<Rightarrow> Some cs)) \<rparr>)"

section \<open>Outbox events and transactions\<close>

definition OutboxEventRegister :: string where "OutboxEventRegister = ''agent.registered''"
definition OutboxEventUpgrade :: string where "OutboxEventUpgrade = ''agent.upgraded''"
definition OutboxEventBan :: string where "OutboxEventBan = ''agent.banned''"
definition OutboxEventUnban :: string where "OutboxEventUnban = ''agent.unbanned''"
definition OutboxEventRevoke :: string where "OutboxEventRevoke = ''agent.revoked''"
definition OutboxEventPermission :: string where
  "OutboxEventPermission = ''agent.permission.changed''"

record 'p svc_outbox_event =
  oe_ID :: string
  oe_Type :: string
  oe_UUID :: string
  oe_Payload :: 'p
  oe_OccurredAt :: time

abbreviation ErrOutboxStoreUnavailable :: go_error where
  "ErrOutboxStoreUnavailable \<equiv> Sentinel ''service: outbox store unavailable''"

text \<open>\<open>ob\<close> is the client's \<open>InsertOutbox\<close>, when it has one.\<close>

definition EmitOutbox ::
  "time \<Rightarrow> ('p svc_outbox_event \<Rightarrow> 'w \<Rightarrow> go_error option \<times> 'w) option \<Rightarrow>
   'p svc_outbox_event option \<Rightarrow> 'w \<Rightarrow> go_error option \<times> 'w" where
  "EmitOutbox clock ob evt w =
     (case evt of None \<Rightarrow> (Some (Sentinel ''service: nil outbox event''), w) | Some e \<Rightarrow>
      if oe_ID e = [] then (Some (Sentinel ''service: empty outbox id''), w)
      else if oe_Type e = [] then (Some (Sentinel ''service: empty outbox type''), w)
      else
        (let e1 = e \<lparr> oe_OccurredAt := or_now clock (oe_OccurredAt e) \<rparr> in
         case ob of
           Some ins \<Rightarrow> ins e1 w
         | None \<Rightarrow> (Some ErrOutboxStoreUnavailable, w)))"

definition MustEmitOutbox ::
  "time \<Rightarrow> ('p svc_outbox_event \<Rightarrow> 'w \<Rightarrow> go_error option \<times> 'w) option \<Rightarrow>
   'p svc_outbox_event option \<Rightarrow> 'w \<Rightarrow> 'w outcome" where
  "MustEmitOutbox clock ob evt w =
     (case EmitOutbox clock ob evt w of
        (Some err, _) \<Rightarrow> Panic ''service: critical outbox emit failed''
      | (None, w1) \<Rightarrow> Return w1)"

text \<open>\<open>tx\<close> is the client's own \<open>InTx\<close>, when it has one.\<close>

definition InTx ::
  "(('w store_client \<Rightarrow> 'w \<Rightarrow> go_error option \<times> 'w) \<Rightarrow> 'w \<Rightarrow> go_error option \<times> 'w) option \<Rightarrow>
   'w store_client \<Rightarrow> ('w store_client \<Rightarrow> 'w \<Rightarrow> go_error option \<times> 'w) \<Rightarrow> 'w \<Rightarrow>
   go_error option \<times> 'w" where
  "InTx tx store fn w = (case tx of Some t \<Rightarrow> t fn w | None \<Rightarrow> fn store w)"

end
