(* ===== verification/Subsequences.thy ===== *)
theory Subsequences
  imports Main "HOL-Library.Sublist"
begin

text \<open>
  What a subsequence takes from its list: the failures of a batch are reported for a subsequence of
  its items, and a validator reports a subsequence of its fields.
\<close>

lemma subseq_elements: "subseq xs ys \<Longrightarrow> set xs \<subseteq> set ys"
  by (induction rule: list_emb.induct) auto

lemma subseq_distinct: "subseq xs ys \<Longrightarrow> distinct ys \<Longrightarrow> distinct xs"
  by (induction rule: list_emb.induct) (auto dest: subseq_elements)

end
