(* ===== verification/ServiceRules.thy ===== *)
theory ServiceRules
  imports Services Subsequences "HOL-Library.Multiset"
begin

text \<open>
  What the workflows guarantee. \<open>l1_contract\<close> is what they rely on of the storage client, read
  through the maps \<open>ids\<close> of the agent records and \<open>perms\<close> of the permission masks;
  \<open>workflow_contract\<close> adds that the chain, the audit channel and the purge of expired tokens
  leave both alone. Both are interpreted on the in-memory store, chain and audit channel with
  which the end-to-end tests run the services, \<open>src/tests/e2e/gateway_e2e_test.go\<close>.
\<close>

section \<open>The contracts\<close>

locale l1_contract =
  fixes st :: "'w store_client"
    and ids :: "'w \<Rightarrow> string \<Rightarrow> agent_record option"
    and perms :: "'w \<Rightarrow> string \<Rightarrow> u64"
  assumes get_ok: "st_GetAgent st u w = Inr r \<Longrightarrow> ids w u = Some r"
    and put_ok: "st_PutAgent st r w = (None, w') \<Longrightarrow>
      ids w' = (ids w)(sr_UUID r \<mapsto> r) \<and> perms w' = perms w"
    and put_err: "st_PutAgent st r w = (Some e, w') \<Longrightarrow> ids w' = ids w \<and> perms w' = perms w"
    and perms_get: "st_GetPermissions st u w = Inr m \<Longrightarrow> perms w u = m"
    and perms_ok: "st_SetPermissions st u m w = (None, w') \<Longrightarrow>
      ids w' = ids w \<and> perms w' = (perms w)(u := m)"
    and perms_err: "st_SetPermissions st u m w = (Some e, w') \<Longrightarrow>
      ids w' = ids w \<and> perms w' = perms w"
    and purge: "ids (snd (st_PurgeExpired st w)) = ids w \<and> perms (snd (st_PurgeExpired st w)) = perms w"

locale workflow_contract = l1_contract st ids perms
  for st :: "'w store_client" and ids perms +
  fixes sv :: "'w workflow"
  assumes store: "wf_store sv = st"
    and chain_register: "wf_chain sv = Some ch \<Longrightarrow>
      ids (snd (cc_RegisterAgent ch q w)) = ids w \<and> perms (snd (cc_RegisterAgent ch q w)) = perms w"
    and chain_update: "wf_chain sv = Some ch \<Longrightarrow>
      ids (snd (cc_UpdateLevel ch u l rs w)) = ids w \<and> perms (snd (cc_UpdateLevel ch u l rs w)) = perms w"
    and chain_ban: "wf_chain sv = Some ch \<Longrightarrow>
      ids (snd (cc_BanAgent ch u rs w)) = ids w \<and> perms (snd (cc_BanAgent ch u rs w)) = perms w"
    and chain_unban: "wf_chain sv = Some ch \<Longrightarrow>
      ids (snd (cc_UnbanAgent ch u w)) = ids w \<and> perms (snd (cc_UnbanAgent ch u w)) = perms w"
    and notify: "wf_audit sv = Some nt \<Longrightarrow> ids (snd (nt ev w)) = ids w \<and> perms (snd (nt ev w)) = perms w"

section \<open>The rebuilt agent\<close>

text \<open>The record is rebuilt with \<open>NewAgent\<close>, which forgets its state.\<close>

lemma rebuild_Inr:
  "rebuild r = Inr a \<longleftrightarrow>
     UUID_Validate (sr_UUID r) = None \<and> Owner_Validate (sr_Owner r) = None
   \<and> Level_IsValid (sr_Level r) \<and> sr_PublicKey r \<noteq> []
   \<and> a = \<lparr> ag_UUID = sr_UUID r, ag_Owner = sr_Owner r, ag_Level = sr_Level r,
           ag_State = StateRegistered, ag_BanReason = [], ag_PublicKey = sr_PublicKey r,
           ag_TxHash = [], ag_Signature = [], ag_Permissions = 0,
           ag_RegisteredAt = sr_RegisteredAt r, ag_UpdatedAt = sr_RegisteredAt r,
           ag_BannedAt = None, ag_ExpiresAt = None, ag_LastUpgradeBy = [],
           ag_TempPermissions = [] \<rparr>"
  by (auto simp: rebuild_def NewAgent_def split: option.splits)

lemma rebuild_state: "rebuild r = Inr a \<Longrightarrow> ag_State a = StateRegistered"
  by (simp add: rebuild_Inr)

section \<open>What each workflow does to the storage\<close>

definition rebuildable :: "agent_record \<Rightarrow> bool" where
  "rebuildable r \<longleftrightarrow>
     UUID_Validate (sr_UUID r) = None \<and> Owner_Validate (sr_Owner r) = None
   \<and> Level_IsValid (sr_Level r) \<and> sr_PublicKey r \<noteq> []"

lemma rebuild_rebuildable: "rebuild r = Inr a \<Longrightarrow> rebuildable r"
  by (simp add: rebuild_Inr rebuildable_def)

definition registered_record :: "register_agent_request \<Rightarrow> time \<Rightarrow> agent_record" where
  "registered_record r now =
     \<lparr> sr_UUID = rar_UUID r, sr_Owner = rar_Owner r, sr_Level = rar_Level r,
       sr_Permissions = (if rar_Permissions r = 0 then DefaultMaxPermissions (rar_Level r)
                         else rar_Permissions r),
       sr_State = StateRegistered, sr_TxHash = [],
       sr_PublicKey = b64url_encode (rar_PublicKey r), sr_RegisteredAt = now, sr_UpdatedAt = now \<rparr>"

definition valid_register :: "register_agent_request \<Rightarrow> bool" where
  "valid_register r \<longleftrightarrow>
     UUID_Validate (rar_UUID r) = None \<and> Owner_Validate (rar_Owner r) = None
   \<and> Level_IsValid (rar_Level r) \<and> length (rar_PublicKey r) = 32"

lemma validate_register_Inr:
  "validate_register clock req = Inr r \<longleftrightarrow>
     (\<exists>r0. req = Some r0 \<and> valid_register r0 \<and> r = r0 \<lparr> rar_Now := or_now clock (rar_Now r0) \<rparr>)"
  by (auto simp: validate_register_def valid_register_def split: option.splits)

definition registered_agent :: "register_agent_request \<Rightarrow> time \<Rightarrow> agent" where
  "registered_agent r now =
     \<lparr> ag_UUID = rar_UUID r, ag_Owner = rar_Owner r, ag_Level = rar_Level r,
       ag_State = StateRegistered, ag_BanReason = [],
       ag_PublicKey = b64url_encode (rar_PublicKey r), ag_TxHash = [], ag_Signature = [],
       ag_Permissions = 0, ag_RegisteredAt = now, ag_UpdatedAt = now, ag_BannedAt = None,
       ag_ExpiresAt = None, ag_LastUpgradeBy = [], ag_TempPermissions = [] \<rparr>"

lemma register_NewAgent:
  assumes "valid_register r"
  shows "NewAgent (rar_UUID r) (rar_Owner r) (rar_Level r) (encodePubKey (rar_PublicKey r)) now =
     Inr (registered_agent r now)"
  using assms by (auto simp: NewAgent_def valid_register_def encodePubKey_def registered_agent_def)

text \<open>A registration that has passed its checks: the record, the mask, then the chain.\<close>

definition chain_registration ::
  "'w workflow \<Rightarrow> register_agent_request \<Rightarrow> u64 \<Rightarrow> 'w \<Rightarrow> (go_error + string \<times> u64) \<times> 'w" where
  "chain_registration s r m w =
     (case wf_chain s of None \<Rightarrow> (Inr ([], 0), w)
      | Some ch \<Rightarrow>
          (case cc_RegisterAgent ch
                  \<lparr> scr_UUID = rar_UUID r, scr_Owner = rar_Owner r, scr_Level = rar_Level r,
                    scr_Permissions = m, scr_PublicKey = rar_PublicKey r,
                    scr_Metadata = rar_Metadata r \<rparr> w of
             (Inl err, w') \<Rightarrow> (Inl err, w')
           | (Inr rc, w') \<Rightarrow> (Inr (srec_TxHash rc, srec_BlockNumber rc), w')))"

lemma HandleRegister_checked:
  fixes r clock
  defines "now \<equiv> or_now clock (rar_Now r)"
  defines "rec \<equiv> registered_record r now"
  assumes "valid_register r" and "wf_provider s (rar_UUID r) w = Inr False"
  shows "HandleRegister s clock (Some r) w =
     (case st_PutAgent (wf_store s) rec w of
        (Some err, w1) \<Rightarrow> refuse (Errorf ''service: put agent: %w'' [err]) w1
      | (None, w1) \<Rightarrow>
      (case st_SetPermissions (wf_store s) (rar_UUID r) (sr_Permissions rec) w1 of
        (Some err, w2) \<Rightarrow> refuse (Errorf ''service: set permissions: %w'' [err]) w2
      | (None, w2) \<Rightarrow>
      (case chain_registration s r (sr_Permissions rec) w2 of
        (Inl err, w3) \<Rightarrow>
          (Some \<lparr> rap_Agent = registered_agent r now, rap_TxHash = [], rap_BlockNumber = 0,
                  rap_RegisteredAt = now \<rparr>,
           Some (Errorf ''%w: %v'' [ErrChainRegisterFailed]), w3)
      | (Inr (tx, block), w3) \<Rightarrow>
          (Some \<lparr> rap_Agent = registered_agent r now, rap_TxHash = tx, rap_BlockNumber = block,
                  rap_RegisteredAt = now \<rparr>, None,
           audit s \<lparr> ae_UUID = rar_UUID r, ae_Actor = [], ae_Action = ''register'',
                     ae_Result = ''success'',
                     ae_Metadata = [(''owner'', rar_Owner r),
                       (''level'', dec_of_nat (unat (rar_Level r))), (''tx_hash'', tx),
                       (''chain_typ'', stringOfChain (wf_chain s))],
                     ae_Timestamp = now \<rparr> w3))))"
proof -
  have "validate_register clock (Some r) = Inr (r \<lparr> rar_Now := now \<rparr>)"
    using assms(3) validate_register_Inr [of clock "Some r"] by (simp add: now_def)
  moreover have "b64url_encode (rar_PublicKey r) = encodePubKey (rar_PublicKey r)"
    by (simp add: encodePubKey_def)
  ultimately show ?thesis
    using assms(4) register_NewAgent [OF assms(3), of now]
    by (simp add: HandleRegister_def Let_def chain_registration_def registered_agent_def
        registered_record_def rec_def
        cong del: option.case_cong_weak sum.case_cong_weak prod.case_cong_weak if_weak_cong)
qed

lemma HandleRegister_refused:
  assumes "\<nexists>r. req = Some r \<and> valid_register r \<and> wf_provider s (rar_UUID r) w = Inr False"
  shows "\<exists>err. HandleRegister s clock req w = (None, Some err, w)"
proof (cases "validate_register clock req")
  case (Inr r1)
  then obtain r where "req = Some r" "valid_register r" "rar_UUID r1 = rar_UUID r"
    using validate_register_Inr [of clock req r1] by auto
  with assms have "wf_provider s (rar_UUID r1) w \<noteq> Inr False" by auto
  then consider e where "wf_provider s (rar_UUID r1) w = Inl e" | "wf_provider s (rar_UUID r1) w = Inr True"
    by (cases "wf_provider s (rar_UUID r1) w") auto
  then show ?thesis by cases (simp_all add: HandleRegister_def Inr)
qed (simp add: HandleRegister_def)

text \<open>
  The records that the workflows leave: well-formed, found under their own UUID, and in one of
  three states. None of the workflows activates an agent.
\<close>

definition record_ok :: "string \<Rightarrow> agent_record \<Rightarrow> bool" where
  "record_ok u r \<longleftrightarrow>
     sr_UUID r = u \<and> rebuildable r
   \<and> sr_State r \<in> {StateRegistered, StateBanned, StateUnregistered}"

definition records_ok :: "(string \<Rightarrow> agent_record option) \<Rightarrow> bool" where
  "records_ok m \<longleftrightarrow> (\<forall>u r. m u = Some r \<longrightarrow> record_ok u r)"

lemma records_okD: "records_ok m \<Longrightarrow> m u = Some r \<Longrightarrow> record_ok u r"
  by (simp add: records_ok_def)

lemma records_ok_upd: "records_ok m \<Longrightarrow> record_ok u r \<Longrightarrow> records_ok (m(u \<mapsto> r))"
  by (simp add: records_ok_def)

lemma records_ok_put:
  "records_ok m \<Longrightarrow> m x = Some rec \<Longrightarrow> record_ok x rec' \<Longrightarrow> records_ok (m(sr_UUID rec \<mapsto> rec'))"
  using records_okD [of m x rec] by (auto simp: record_ok_def records_ok_def)

lemma record_ok_simps [simp]:
  "record_ok u (r \<lparr> sr_State := t, sr_UpdatedAt := x \<rparr>) \<longleftrightarrow>
     sr_UUID r = u \<and> rebuildable r \<and> t \<in> {StateRegistered, StateBanned, StateUnregistered}"
  by (auto simp: record_ok_def rebuildable_def)

lemma record_ok_level:
  "record_ok u r \<Longrightarrow> Level_IsValid l \<Longrightarrow> record_ok u (r \<lparr> sr_Level := l, sr_UpdatedAt := x \<rparr>)"
  by (auto simp: record_ok_def rebuildable_def)

lemma record_ok_registered: "valid_register r \<Longrightarrow> record_ok (rar_UUID r) (registered_record r now)"
  by (auto simp: record_ok_def rebuildable_def registered_record_def valid_register_def)

lemma unban_fails:
  "\<exists>err. HandleUnban s clock req w = (None, Some err, w)
   \<and> (\<forall>r rec a. req = Some r \<and> \<not> UUID_IsZero (unr_UUID r)
          \<and> st_GetAgent (wf_store s) (unr_UUID r) w = Inr rec \<and> rebuild rec = Inr a
        \<longrightarrow> err = ErrAgentNotBanned)"
proof (cases req)
  case (Some r)
  then show ?thesis
    using rebuild_state
    by (cases "st_GetAgent (wf_store s) (unr_UUID r) w"; cases "UUID_IsZero (unr_UUID r)")
      (fastforce simp: HandleUnban_def Let_def split: sum.split)+
qed (simp add: HandleUnban_def)

context workflow_contract
begin

definition same :: "'w \<Rightarrow> 'w \<Rightarrow> bool" where
  "same w w' \<longleftrightarrow> ids w' = ids w \<and> perms w' = perms w"

lemma same_audit: "same w (audit sv ev w)"
  using notify by (simp add: same_def audit_def split: option.split)

lemma same_call_chain:
  assumes "call_chain sv f w = (r, w')"
    and "\<And>ch. wf_chain sv = Some ch \<Longrightarrow> same w (snd (f ch w))"
  shows "same w w'"
  using assms by (force simp: call_chain_def same_def split: option.splits prod.splits sum.splits)

lemma same_purge: "same w (snd (st_PurgeExpired st w))"
  using purge by (simp add: same_def)

lemma ban_effect:
  assumes "HandleBan sv clock req w = (resp, err, w')"
  shows "(same w w' \<and> resp = None \<and> err \<noteq> None)
   \<or> (\<exists>r rec. req = Some r \<and> ids w (bar_UUID r) = Some rec \<and> rebuildable rec \<and> resp \<noteq> None
        \<and> ids w' = (ids w)(sr_UUID rec \<mapsto>
             rec \<lparr> sr_State := StateBanned, sr_UpdatedAt := or_now clock (bar_Now r) \<rparr>)
        \<and> perms w' = perms w)"
proof (cases "resp = None")
  case True
  then show ?thesis
    using assms put_err
    by (auto simp: HandleBan_def Let_def same_def store split: option.splits if_splits sum.splits prod.splits)
next
  case False
  then obtain r where r: "req = Some r" "\<not> UUID_IsZero (bar_UUID r)"
    using assms by (auto simp: HandleBan_def split: option.splits if_splits)
  obtain rec where g: "st_GetAgent st (bar_UUID r) w = Inr rec"
    using assms False r by (auto simp: HandleBan_def Let_def store split: sum.splits)
  obtain ag0 where ag0: "rebuild rec = Inr ag0"
    using assms False r g by (auto simp: HandleBan_def Let_def store split: sum.splits)
  let ?now = "or_now clock (bar_Now r)"
  obtain ag where ag: "Agent_Ban ag0 (bar_Reason r) ?now = Inr ag"
    using assms False r g ag0 by (auto simp: HandleBan_def Let_def store split: sum.splits if_splits)
  then have agS: "ag_State ag = StateBanned" by (auto simp: Agent_Ban_def split: if_splits)
  obtain w1 where p: "st_PutAgent st (rec \<lparr> sr_State := StateBanned, sr_UpdatedAt := ?now \<rparr>) w = (None, w1)"
    using assms False r g ag0 ag agS
    by (auto simp: HandleBan_def Let_def store split: if_splits option.splits prod.splits)
  obtain cres w2 where c: "call_chain sv (\<lambda>ch. cc_BanAgent ch (ag_UUID ag) (bar_Reason r)) w1 = (cres, w2)"
    by fastforce
  have "same w1 w2"
    by (rule same_call_chain [OF c]) (simp add: same_def chain_ban)
  moreover have "w' = w2 \<or> (\<exists>ev. w' = audit sv ev (snd (st_PurgeExpired st w2)))"
    using assms False r g ag0 ag agS p c rebuild_state [OF ag0]
    by (auto simp: HandleBan_def Let_def store split: sum.splits)
  then have "same w2 w'"
    using same_audit same_purge by (fastforce simp: same_def)
  ultimately have "ids w' = ids w1" "perms w' = perms w1" by (simp_all add: same_def)
  with put_ok [OF p] r get_ok [OF g] rebuild_rebuildable [OF ag0] False show ?thesis by auto
qed

lemma revoke_effect:
  assumes "HandleRevoke sv clock req w = (resp, err, w')"
  shows "(same w w' \<and> resp = None \<and> err \<noteq> None)
   \<or> (\<exists>r rec. req = Some r \<and> ids w (rvr_UUID r) = Some rec \<and> rebuildable rec \<and> resp \<noteq> None
        \<and> sr_State rec \<noteq> StateUnregistered
        \<and> ids w' = (ids w)(sr_UUID rec \<mapsto>
             rec \<lparr> sr_State := StateUnregistered, sr_UpdatedAt := or_now clock (rvr_Now r) \<rparr>)
        \<and> perms w' = perms w)"
proof (cases "resp = None")
  case True
  then show ?thesis
    using assms put_err
    by (auto simp: HandleRevoke_def Let_def same_def store split: option.splits if_splits sum.splits prod.splits)
next
  case False
  then obtain r where r: "req = Some r" "\<not> UUID_IsZero (rvr_UUID r)"
    using assms by (auto simp: HandleRevoke_def split: option.splits if_splits)
  obtain rec where g: "st_GetAgent st (rvr_UUID r) w = Inr rec" "sr_State rec \<noteq> StateUnregistered"
    using assms False r by (auto simp: HandleRevoke_def Let_def store split: sum.splits if_splits)
  obtain ag0 where ag0: "rebuild rec = Inr ag0"
    using assms False r g by (auto simp: HandleRevoke_def Let_def store split: sum.splits)
  let ?now = "or_now clock (rvr_Now r)"
  obtain w1 where p: "st_PutAgent st (rec \<lparr> sr_State := StateUnregistered, sr_UpdatedAt := ?now \<rparr>) w = (None, w1)"
    using assms False r g ag0
    by (auto simp: HandleRevoke_def Let_def store split: if_splits option.splits prod.splits)
  obtain cres w2 where c: "call_chain sv (\<lambda>ch. cc_UnbanAgent ch (ag_UUID ag0)) w1 = (cres, w2)"
    by fastforce
  have "same w1 w2"
    by (rule same_call_chain [OF c]) (simp add: same_def chain_unban)
  moreover have "w' = w2 \<or> (\<exists>ev. w' = audit sv ev (snd (st_PurgeExpired st w2)))"
    using assms False r g ag0 p c
    by (auto simp: HandleRevoke_def Let_def store split: sum.splits)
  then have "same w2 w'"
    using same_audit same_purge by (fastforce simp: same_def)
  ultimately have "ids w' = ids w1" "perms w' = perms w1" by (simp_all add: same_def)
  with put_ok [OF p] r g(2) get_ok [OF g(1)] rebuild_rebuildable [OF ag0] False show ?thesis by auto
qed

lemma set_perms_cases:
  "ids (snd (st_SetPermissions st u m w)) = ids w
   \<and> perms (snd (st_SetPermissions st u m w)) \<in> {perms w, (perms w)(u := m)}"
  using perms_ok [of u m w] perms_err [of u m w]
  by (cases "st_SetPermissions st u m w"; cases "fst (st_SetPermissions st u m w)") auto

lemma upgrade_effect:
  assumes "HandleUpgrade sv clock req w = (resp, err, w')"
  shows "(same w w' \<and> resp = None \<and> err \<noteq> None)
   \<or> (\<exists>r rec. req = Some r \<and> ids w (uar_UUID r) = Some rec \<and> rebuildable rec \<and> resp \<noteq> None
        \<and> isUpgradable (sr_State rec) \<and> Level_IsValid (uar_NewLevel r)
        \<and> unat (uar_NewLevel r) = unat (sr_Level rec) + 1
        \<and> ids w' = (ids w)(sr_UUID rec \<mapsto>
             rec \<lparr> sr_Level := uar_NewLevel r, sr_UpdatedAt := or_now clock (uar_Now r) \<rparr>)
        \<and> perms w' \<in> {perms w,
             (perms w)(sr_UUID rec := DefaultMaxPermissions (uar_NewLevel r))})"
proof (cases "resp = None")
  case True
  then show ?thesis
    using assms put_err
    by (auto simp: HandleUpgrade_def Let_def same_def store split: option.splits if_splits sum.splits prod.splits)
next
  case False
  then obtain r1 where v: "validate_upgrade clock req = Inr r1"
    using assms by (auto simp: HandleUpgrade_def split: sum.splits)
  then obtain r where r: "req = Some r" "r1 = r \<lparr> uar_Now := or_now clock (uar_Now r) \<rparr>"
    "Level_IsValid (uar_NewLevel r)"
    by (auto simp: validate_upgrade_def split: option.splits if_splits)
  obtain rec where g: "st_GetAgent st (uar_UUID r) w = Inr rec" "isUpgradable (sr_State rec)"
    using assms False v r by (auto simp: HandleUpgrade_def Let_def store split: sum.splits if_splits)
  obtain ag0 where ag0: "rebuild rec = Inr ag0"
    using assms False v r g by (auto simp: HandleUpgrade_def Let_def store split: sum.splits)
  let ?now = "or_now clock (uar_Now r)"
  obtain ag where ag: "Agent_Upgrade ag0 (uar_NewLevel r) ?now = Inr ag"
    using assms False v r g ag0 by (auto simp: HandleUpgrade_def Let_def store split: sum.splits)
  then have lv: "ag_Level ag = uar_NewLevel r" "unat (uar_NewLevel r) = unat (sr_Level rec) + 1"
    using ag0 by (auto simp: Agent_Upgrade_Inr rebuild_Inr Level_IsValid_iff unat_word_ariths)
  let ?rec = "rec \<lparr> sr_Level := uar_NewLevel r, sr_UpdatedAt := ?now \<rparr>"
  obtain w1 where p: "st_PutAgent st ?rec w = (None, w1)"
    using assms False v r g ag0 ag lv
    by (auto simp: HandleUpgrade_def Let_def store split: if_splits option.splits prod.splits)
  let ?w2 = "snd (st_SetPermissions st (sr_UUID ?rec) (DefaultMaxPermissions (uar_NewLevel r)) w1)"
  obtain cres w3 where c: "call_chain sv (\<lambda>ch. cc_UpdateLevel ch (ag_UUID ag) (ag_Level ag) (uar_Reason r)) ?w2
      = (cres, w3)"
    by fastforce
  have "same ?w2 w3"
    by (rule same_call_chain [OF c]) (simp add: same_def chain_update)
  moreover have "w' = w3 \<or> (\<exists>ev. w' = audit sv ev w3)"
    using assms False v r g ag0 ag p c lv
    by (auto simp: HandleUpgrade_def Let_def store split: sum.splits)
  then have "same w3 w'" using same_audit by (fastforce simp: same_def)
  ultimately have "ids w' = ids ?w2" "perms w' = perms ?w2" by (simp_all add: same_def)
  with put_ok [OF p] r g(2) get_ok [OF g(1)] rebuild_rebuildable [OF ag0] False lv
    set_perms_cases [of "sr_UUID ?rec" "DefaultMaxPermissions (uar_NewLevel r)" w1]
  show ?thesis by auto
qed

lemma unban_effect: "HandleUnban sv clock req w = (resp, err, w') \<Longrightarrow> w' = w \<and> resp = None \<and> err \<noteq> None"
  using unban_fails [of sv clock req w] by auto

lemma same_chain_registration: "same w (snd (chain_registration sv r m w))"
proof (cases "wf_chain sv")
  case (Some ch)
  let ?q = "\<lparr> scr_UUID = rar_UUID r, scr_Owner = rar_Owner r, scr_Level = rar_Level r,
      scr_Permissions = m, scr_PublicKey = rar_PublicKey r, scr_Metadata = rar_Metadata r \<rparr>"
  obtain cr w' where "cc_RegisterAgent ch ?q w = (cr, w')" by fastforce
  with Some chain_register [OF Some, of ?q w] show ?thesis
    by (cases cr) (simp_all add: chain_registration_def same_def)
qed (simp add: chain_registration_def same_def)

lemma register_effect:
  assumes "HandleRegister sv clock req w = (resp, err, w')"
  shows "(same w w' \<and> resp = None \<and> err \<noteq> None)
   \<or> (\<exists>r. req = Some r \<and> valid_register r \<and> wf_provider sv (rar_UUID r) w = Inr False
        \<and> ids w' = (ids w)(rar_UUID r \<mapsto> registered_record r (or_now clock (rar_Now r)))
        \<and> (if resp = None then err \<noteq> None \<and> perms w' = perms w
           else perms w' = (perms w)(rar_UUID r :=
                  sr_Permissions (registered_record r (or_now clock (rar_Now r))))))"
proof (cases "\<exists>r. req = Some r \<and> valid_register r \<and> wf_provider sv (rar_UUID r) w = Inr False")
  case False
  then have "resp = None \<and> err \<noteq> None \<and> w' = w"
    using assms HandleRegister_refused [OF False, of clock] by auto
  then show ?thesis by (simp add: same_def)
next
  case True
  then obtain r where r: "req = Some r" "valid_register r" "wf_provider sv (rar_UUID r) w = Inr False"
    by blast
  let ?rec = "registered_record r (or_now clock (rar_Now r))"
  have u: "sr_UUID ?rec = rar_UUID r" by (simp add: registered_record_def)
  obtain pe w1 where p: "st_PutAgent st ?rec w = (pe, w1)" by fastforce
  obtain se w2 where sp: "st_SetPermissions st (rar_UUID r) (sr_Permissions ?rec) w1 = (se, w2)"
    by fastforce
  obtain cr w3 where c: "chain_registration sv r (sr_Permissions ?rec) w2 = (cr, w3)" by fastforce
  have s3: "same w2 w3" using same_chain_registration [of w2 r "sr_Permissions ?rec"] c by simp
  note eq = assms [unfolded r(1) HandleRegister_checked [OF r(2,3)] store]
  show ?thesis
  proof (cases pe)
    case (Some e)
    then show ?thesis using eq p put_err [of ?rec w e w1] by (auto simp: same_def)
  next
    case pe: None
    note put = put_ok [OF p [unfolded pe], unfolded u]
    show ?thesis
    proof (cases se)
      case (Some e)
      then show ?thesis using eq p pe sp put perms_err [OF sp [unfolded Some]] r by auto
    next
      case se: None
      have "resp \<noteq> None \<and> (w' = w3 \<or> (\<exists>ev. w' = audit sv ev w3))"
        using eq p pe sp se c by (cases cr) auto
      then have "resp \<noteq> None \<and> same w3 w'" using same_audit [of w3] by (auto simp: same_def)
      then show ?thesis
        using s3 put perms_ok [OF sp [unfolded se]] r by (auto simp: same_def)
    qed
  qed
qed

end
section \<open>Sequences of workflow calls\<close>

inductive workflow_step :: "'w workflow \<Rightarrow> 'w \<Rightarrow> 'w \<Rightarrow> bool" for sv where
  register: "HandleRegister sv clock rreq w = (rresp, err, w') \<Longrightarrow> workflow_step sv w w'"
| upgrade: "HandleUpgrade sv clock ureq w = (uresp, err, w') \<Longrightarrow> workflow_step sv w w'"
| ban: "HandleBan sv clock breq w = (bresp, err, w') \<Longrightarrow> workflow_step sv w w'"
| unban: "HandleUnban sv clock nreq w = (nresp, err, w') \<Longrightarrow> workflow_step sv w w'"
| revoke: "HandleRevoke sv clock vreq w = (vresp, err, w') \<Longrightarrow> workflow_step sv w w'"

text \<open>A batch is a sequence of registrations.\<close>

lemma batch_run_steps:
  "(workflow_step s)\<^sup>*\<^sup>* w (snd (batch_run s clock items order res w))"
proof (induction order arbitrary: res w)
  case (Cons i order)
  obtain resp err w1 where h: "HandleRegister s (clock i) (items ! i) w = (resp, err, w1)"
    by (metis prod.collapse)
  have "workflow_step s w w1" by (rule workflow_step.register [OF h])
  then show ?case
    using Cons.IH h by (cases err) (simp_all add: converse_rtranclp_into_rtranclp)
qed simp

text \<open>A provider that knows the storage, and what then stays of a record.\<close>

definition truthful :: "'w workflow \<Rightarrow> ('w \<Rightarrow> string \<Rightarrow> agent_record option) \<Rightarrow> bool" where
  "truthful sv ids \<longleftrightarrow> (\<forall>u w. wf_provider sv u w = Inr False \<longrightarrow> ids w u = None)"

definition record_kept :: "agent_record \<Rightarrow> agent_record \<Rightarrow> bool" where
  "record_kept r r' \<longleftrightarrow>
     sr_UUID r' = sr_UUID r \<and> sr_Owner r' = sr_Owner r \<and> sr_PublicKey r' = sr_PublicKey r
   \<and> sr_RegisteredAt r' = sr_RegisteredAt r \<and> unat (sr_Level r) \<le> unat (sr_Level r')
   \<and> (sr_State r \<noteq> StateRegistered \<longrightarrow>
        sr_State r' \<in> {sr_State r, StateBanned, StateUnregistered} \<and> sr_Level r' = sr_Level r)"

lemma record_kept_refl [simp]: "record_kept r r"
  by (simp add: record_kept_def)

lemma record_kept_put:
  assumes "records_ok m" and "m x = Some rec" and "m u = Some r" and "record_kept rec rec'"
  shows "\<exists>r'. (m(sr_UUID rec \<mapsto> rec')) u = Some r' \<and> record_kept r r'"
  using assms records_okD [OF assms(1,2)] by (auto simp: record_ok_def)

lemma record_kept_move:
  "record_ok x rec \<Longrightarrow> t \<in> {StateBanned, StateUnregistered} \<Longrightarrow>
     record_kept rec (rec \<lparr> sr_State := t, sr_UpdatedAt := now \<rparr>)"
  by (auto simp: record_ok_def record_kept_def)

lemma record_kept_upgrade:
  "record_ok x rec \<Longrightarrow> isUpgradable (sr_State rec) \<Longrightarrow> unat l = unat (sr_Level rec) + 1 \<Longrightarrow>
     record_kept rec (rec \<lparr> sr_Level := l, sr_UpdatedAt := now \<rparr>)"
  by (auto simp: record_ok_def record_kept_def isUpgradable_def)

lemma record_kept_trans:
  "record_kept a b \<Longrightarrow> record_kept b c \<Longrightarrow> sr_State a \<noteq> StateActive \<Longrightarrow> record_kept a c"
  by (auto simp: record_kept_def StateRegistered_def StateBanned_def StateUnregistered_def)

context workflow_contract
begin

lemma step_records:
  assumes "workflow_step sv w w'" and "records_ok (ids w)"
  shows "records_ok (ids w')"
  using assms(1)
proof cases
  case (register clock req resp err)
  from register_effect [OF this] assms(2) show ?thesis
    by (auto simp: same_def intro!: records_ok_upd record_ok_registered)
next
  case (upgrade clock req resp err)
  from upgrade_effect [OF this] show ?thesis
  proof (elim disjE exE conjE)
    fix q rec
    assume "ids w (uar_UUID q) = Some rec" "Level_IsValid (uar_NewLevel q)"
      "ids w' = (ids w)(sr_UUID rec \<mapsto>
         rec \<lparr> sr_Level := uar_NewLevel q, sr_UpdatedAt := or_now clock (uar_Now q) \<rparr>)"
    then show ?thesis using records_ok_put [OF assms(2)] record_ok_level records_okD [OF assms(2)] by metis
  qed (use assms(2) in \<open>simp add: same_def\<close>)
next
  case (ban clock req resp err)
  from ban_effect [OF this] assms(2) show ?thesis
    by (auto simp: same_def intro!: records_ok_upd)
next
  case (unban clock req resp err)
  from unban_effect [OF this] assms(2) show ?thesis by simp
next
  case (revoke clock req resp err)
  from revoke_effect [OF this] assms(2) show ?thesis
    by (auto simp: same_def intro!: records_ok_upd)
qed

lemma run_records:
  "(workflow_step sv)\<^sup>*\<^sup>* w w' \<Longrightarrow> records_ok (ids w) \<Longrightarrow> records_ok (ids w')"
  by (induction rule: rtranclp_induct) (auto dest: step_records)

lemma step_kept:
  assumes "workflow_step sv w w'" and "records_ok (ids w)" and "truthful sv ids"
    and "ids w u = Some r"
  shows "\<exists>r'. ids w' u = Some r' \<and> record_kept r r'"
proof -
  have put: "\<exists>r'. ids w' u = Some r' \<and> record_kept r r'"
    if "ids w x = Some rec" "ids w' = (ids w)(sr_UUID rec \<mapsto> rec')" "record_kept rec rec'" for x rec rec'
    unfolding that(2) by (rule record_kept_put [OF assms(2) that(1) assms(4) that(3)])
  note ok = records_okD [OF assms(2)]
  from assms(1) show ?thesis
  proof cases
    case (register clock req resp err)
    from register_effect [OF this] assms(3,4) show ?thesis
      by (auto simp: same_def truthful_def)
  next
    case (upgrade clock req resp err)
    from upgrade_effect [OF this] show ?thesis
    proof (elim disjE exE conjE)
      fix q rec
      assume "ids w (uar_UUID q) = Some rec" "isUpgradable (sr_State rec)"
        "unat (uar_NewLevel q) = unat (sr_Level rec) + 1"
        "ids w' = (ids w)(sr_UUID rec \<mapsto>
           rec \<lparr> sr_Level := uar_NewLevel q, sr_UpdatedAt := or_now clock (uar_Now q) \<rparr>)"
      then show ?thesis using put record_kept_upgrade ok by blast
    qed (use assms(4) in \<open>simp add: same_def\<close>)
  next
    case (ban clock req resp err)
    from ban_effect [OF this] show ?thesis
    proof (elim disjE exE conjE)
      fix q rec
      assume "ids w (bar_UUID q) = Some rec" "ids w' = (ids w)(sr_UUID rec \<mapsto>
           rec \<lparr> sr_State := StateBanned, sr_UpdatedAt := or_now clock (bar_Now q) \<rparr>)"
      then show ?thesis using put record_kept_move ok by blast
    qed (use assms(4) in \<open>simp add: same_def\<close>)
  next
    case (unban clock req resp err)
    from unban_effect [OF this] assms(4) show ?thesis by simp
  next
    case (revoke clock req resp err)
    from revoke_effect [OF this] show ?thesis
    proof (elim disjE exE conjE)
      fix q rec
      assume "ids w (rvr_UUID q) = Some rec" "ids w' = (ids w)(sr_UUID rec \<mapsto>
           rec \<lparr> sr_State := StateUnregistered, sr_UpdatedAt := or_now clock (rvr_Now q) \<rparr>)"
      then show ?thesis using put record_kept_move ok by blast
    qed (use assms(4) in \<open>simp add: same_def\<close>)
  qed
qed

lemma run_kept:
  assumes "(workflow_step sv)\<^sup>*\<^sup>* w w'" and "records_ok (ids w)" and "truthful sv ids"
    and "ids w u = Some r"
  shows "\<exists>r'. ids w' u = Some r' \<and> record_kept r r'"
  using assms(1)
proof (induction rule: rtranclp_induct)
  case (step w1 w2)
  then obtain r1 where r1: "ids w1 u = Some r1" "record_kept r r1" by blast
  have "records_ok (ids w1)" using run_records step.hyps(1) assms(2) by blast
  from step_kept [OF step.hyps(2) this assms(3) r1(1)] obtain r2
    where "ids w2 u = Some r2" "record_kept r1 r2" by blast
  moreover have "sr_State r \<noteq> StateActive"
    using records_okD [OF assms(2,4)] by (auto simp: record_ok_def)
  ultimately show ?case using record_kept_trans r1(2) by blast
qed (use assms in simp)

end

section \<open>The in-memory world of the end-to-end tests\<close>

record mem_world =
  mw_agents :: "(string \<times> agent_record) list"
  mw_perms :: "(string \<times> u64) list"
  mw_events :: "audit_event list"

definition mem_perms :: "mem_world \<Rightarrow> string \<Rightarrow> u64" where
  "mem_perms w u = (case map_of (mw_perms w) u of None \<Rightarrow> 0 | Some m \<Rightarrow> m)"

text \<open>\<open>memStore\<close>: an absent permission reads as zero, the purge removes nothing.\<close>

definition mem_client :: "mem_world store_client" where
  "mem_client =
     \<lparr> st_GetAgent = (\<lambda>u w. case map_of (mw_agents w) u of None \<Rightarrow> Inl ErrNotFound | Some r \<Rightarrow> Inr r),
       st_PutAgent = (\<lambda>r w. (None, w \<lparr> mw_agents := AList.update (sr_UUID r) r (mw_agents w) \<rparr>)),
       st_GetPermissions = (\<lambda>u w. Inr (mem_perms w u)),
       st_SetPermissions = (\<lambda>u m w. (None, w \<lparr> mw_perms := AList.update u m (mw_perms w) \<rparr>)),
       st_PurgeExpired = (\<lambda>w. (Inr 0, w)) \<rparr>"

definition mem_chain :: "svc_receipt \<Rightarrow> mem_world chain_client" where
  "mem_chain rc =
     \<lparr> cc_ChainType = ''mock'', cc_RegisterAgent = (\<lambda>_ w. (Inr rc, w)),
       cc_UpdateLevel = (\<lambda>_ _ _ w. (Inr rc, w)), cc_BanAgent = (\<lambda>_ _ w. (Inr rc, w)),
       cc_UnbanAgent = (\<lambda>_ w. (Inr rc, w)),
       cc_GetAgentState = (\<lambda>_ _. Inr \<lparr> cas_UUID = [], cas_Level = 0, cas_Banned = False,
          cas_TxHash = [], cas_UpdatedAt = zero_time \<rparr>) \<rparr>"

definition mem_audit :: "mem_world audit_notifier" where
  "mem_audit ev w = (None, w \<lparr> mw_events := mw_events w @ [ev] \<rparr>)"

definition mem_provider :: "bool \<Rightarrow> mem_world identity_provider" where
  "mem_provider b u w = Inr b"

definition e2e_receipt :: svc_receipt where
  "e2e_receipt = \<lparr> srec_TxHash = ''0x-e2e'', srec_BlockNumber = 0, srec_GasUsed = 0,
     srec_ConfirmedAt = zero_time \<rparr>"

definition mem_workflow :: "bool \<Rightarrow> mem_world workflow" where
  "mem_workflow b =
     \<lparr> wf_store = mem_client, wf_chain = Some (mem_chain e2e_receipt),
       wf_audit = Some mem_audit, wf_provider = mem_provider b \<rparr>"

lemma mem_workflow_contract:
  "workflow_contract mem_client (\<lambda>w. map_of (mw_agents w)) mem_perms (mem_workflow b)"
  by unfold_locales
    (auto simp: mem_client_def mem_workflow_def mem_chain_def mem_audit_def mem_perms_def
      map_of_update split: option.splits)

interpretation wm: workflow_contract mem_client "\<lambda>w. map_of (mw_agents w)" mem_perms "mem_workflow False"
  by (rule mem_workflow_contract)

section \<open>Properties of the workflows\<close>

text \<open>C14: whatever sequence of workflow calls is made, over any storage, chain and audit channel
  that keep their contract, every stored record stays well-formed under its own UUID and in the
  state registered, banned or unregistered, never active; if the identity provider also knows
  the storage, a record never disappears, keeps its owner, key and registration time, its level
  never falls, and after a ban or a revocation it is never registered again.\<close>

theorem service_records_kept:
  assumes "workflow_contract st ids perms sv" and "(workflow_step sv)\<^sup>*\<^sup>* w w'"
    and "records_ok (ids w)"
  shows "records_ok (ids w')
   \<and> (truthful sv ids \<longrightarrow>
        (\<forall>u r. ids w u = Some r \<longrightarrow> (\<exists>r'. ids w' u = Some r' \<and> record_kept r r')))"
  using workflow_contract.run_records [OF assms] workflow_contract.run_kept [OF assms] by blast

definition mem_request :: register_agent_request where
  "mem_request = \<lparr> rar_UUID = ''0123456789abcdef0123456789ABCDEF'', rar_Owner = ''acme-01'',
     rar_Level = 1, rar_PublicKey = replicate 32 (CHR ''k''), rar_Permissions = 0,
     rar_Metadata = [], rar_Now = Time 5 \<rparr>"

definition empty_world :: mem_world where
  "empty_world = \<lparr> mw_agents = [], mw_perms = [], mw_events = [] \<rparr>"

definition mem_registered :: mem_world where
  "mem_registered =
     snd (snd (HandleRegister (mem_workflow False) (Time 9) (Some mem_request) empty_world))"

lemma mem_request_valid: "valid_register mem_request"
  by (simp add: valid_register_def mem_request_def UUID_Validate_iff uuidPattern_def take_hex_def
      is_hex_char_def Owner_Validate_def ownerPattern_def owner_char_def Level_IsValid_iff)

lemma mem_now: "or_now (Time 9) (rar_Now mem_request) = Time 5"
  by (simp add: or_now_def mem_request_def is_zero_time_def zero_time_def)

lemma mem_registered_step: "workflow_step (mem_workflow False) empty_world mem_registered"
  unfolding mem_registered_def by (rule workflow_step.register) (simp add: prod_eq_iff)

lemma mem_workflow_ops [simp]:
  "wf_store (mem_workflow b) = mem_client" "wf_provider (mem_workflow b) u w = Inr b"
  "st_PutAgent mem_client r w = (None, w \<lparr> mw_agents := AList.update (sr_UUID r) r (mw_agents w) \<rparr>)"
  "st_SetPermissions mem_client u m w = (None, w \<lparr> mw_perms := AList.update u m (mw_perms w) \<rparr>)"
  "chain_registration (mem_workflow b) q m w = (Inr (''0x-e2e'', 0), w)"
  by (simp_all add: mem_workflow_def mem_client_def mem_provider_def chain_registration_def
      mem_chain_def e2e_receipt_def)

lemma mem_register_result:
  "fst (HandleRegister (mem_workflow False) (Time 9) (Some mem_request) empty_world) \<noteq> None"
  "fst (snd (HandleRegister (mem_workflow False) (Time 9) (Some mem_request) empty_world)) = None"
proof -
  have "wf_provider (mem_workflow False) (rar_UUID mem_request) empty_world = Inr False"
    by simp
  note c = HandleRegister_checked [OF mem_request_valid this, of "Time 9"]
  show "fst (HandleRegister (mem_workflow False) (Time 9) (Some mem_request) empty_world) \<noteq> None"
    "fst (snd (HandleRegister (mem_workflow False) (Time 9) (Some mem_request) empty_world)) = None"
    by (simp_all add: c)
qed

lemma mem_registered_agents:
  "map_of (mw_agents mem_registered) = [rar_UUID mem_request \<mapsto> registered_record mem_request (Time 5)]"
proof -
  obtain resp err where h: "HandleRegister (mem_workflow False) (Time 9) (Some mem_request) empty_world
      = (Some resp, err, mem_registered)"
    using mem_register_result(1) by (metis mem_registered_def option.exhaust prod.collapse)
  from wm.register_effect [OF h] show ?thesis
    by (auto simp: mem_now empty_world_def)
qed

lemma mem_registered_ok: "records_ok (map_of (mw_agents mem_registered))"
  unfolding mem_registered_agents
  by (rule records_ok_upd) (simp_all add: records_ok_def record_ok_registered mem_request_valid)

text \<open>A workflow whose provider looks the agent up in the storage, and a ban by it.\<close>

definition knowing_workflow :: "mem_world workflow" where
  "knowing_workflow = mem_workflow False \<lparr> wf_provider := (\<lambda>u w. Inr (map_of (mw_agents w) u \<noteq> None)) \<rparr>"

lemma knowing_contract:
  "workflow_contract mem_client (\<lambda>w. map_of (mw_agents w)) mem_perms knowing_workflow"
  by unfold_locales
    (auto simp: knowing_workflow_def mem_client_def mem_workflow_def mem_chain_def mem_audit_def
      mem_perms_def map_of_update split: option.splits)

definition mem_banned :: mem_world where
  "mem_banned = snd (snd (HandleBan knowing_workflow (Time 9)
     (Some \<lparr> bar_UUID = rar_UUID mem_request, bar_Reason = ''spam'', bar_Actor = ''root'', bar_Now = Time 8 \<rparr>)
     mem_registered))"

theorem service_records_kept_witness:
  "records_ok (map_of (mw_agents mem_banned))
   \<and> (\<exists>r'. map_of (mw_agents mem_banned) (rar_UUID mem_request) = Some r'
        \<and> record_kept (registered_record mem_request (Time 5)) r')"
proof -
  have "workflow_step knowing_workflow mem_registered mem_banned"
    unfolding mem_banned_def by (rule workflow_step.ban) (simp add: prod_eq_iff)
  note kept = service_records_kept [OF knowing_contract r_into_rtranclp [of "workflow_step knowing_workflow", OF this]
      mem_registered_ok]
  have "truthful knowing_workflow (\<lambda>w. map_of (mw_agents w))"
    by (simp add: truthful_def knowing_workflow_def)
  with kept show ?thesis by (simp add: mem_registered_agents)
qed

text \<open>A registration is refused without a trace exactly when its input is invalid or the
  provider does not answer that the agent is new; when it answers with an agent, the record
  stored is the requested one in the state registered with the requested mask, or the level's
  maximum for none, and that mask is set in the permission store; an error that comes with an
  agent is always \<open>ErrChainRegisterFailed\<close>.\<close>

theorem service_register_spec:
  assumes "workflow_contract st ids perms sv"
    and "HandleRegister sv clock (Some r) w = (resp, err, w')"
  shows "(\<not> (valid_register r \<and> wf_provider sv (rar_UUID r) w = Inr False) \<longrightarrow>
            resp = None \<and> err \<noteq> None \<and> w' = w)
   \<and> (resp = None \<longrightarrow> err \<noteq> None)
   \<and> (\<forall>a. resp = Some a \<longrightarrow>
        ids w' = (ids w)(rar_UUID r \<mapsto> registered_record r (or_now clock (rar_Now r)))
      \<and> perms w' = (perms w)(rar_UUID r :=
           if rar_Permissions r = 0 then DefaultMaxPermissions (rar_Level r) else rar_Permissions r)
      \<and> rap_Agent a = registered_agent r (or_now clock (rar_Now r))
      \<and> (\<forall>e. err = Some e \<longrightarrow> errors_is e ErrChainRegisterFailed \<and> wf_chain sv \<noteq> None))"
proof (cases "valid_register r \<and> wf_provider sv (rar_UUID r) w = Inr False")
  case False
  then show ?thesis using HandleRegister_refused [of "Some r" sv w clock] assms(2) by auto
next
  case True
  then have v: "valid_register r" "wf_provider sv (rar_UUID r) w = Inr False" by auto
  have agent: "rap_Agent a = registered_agent r (or_now clock (rar_Now r))
      \<and> (\<forall>e. err = Some e \<longrightarrow> errors_is e ErrChainRegisterFailed \<and> wf_chain sv \<noteq> None)"
    if "resp = Some a" for a
    using assms(2) that
    by (auto simp: HandleRegister_checked [OF v] chain_registration_def
        split: option.splits prod.splits sum.splits)
  have mask: "sr_Permissions (registered_record r now) =
      (if rar_Permissions r = 0 then DefaultMaxPermissions (rar_Level r) else rar_Permissions r)" for now
    by (simp add: registered_record_def)
  have none: "resp = None \<Longrightarrow> err \<noteq> None"
    using workflow_contract.register_effect [OF assms] by (elim disjE exE conjE) simp_all
  have stored: "ids w' = (ids w)(rar_UUID r \<mapsto> registered_record r (or_now clock (rar_Now r)))
      \<and> perms w' = (perms w)(rar_UUID r :=
           sr_Permissions (registered_record r (or_now clock (rar_Now r))))" if "resp = Some a" for a
    using workflow_contract.register_effect [OF assms] that by (elim disjE exE conjE) simp_all
  show ?thesis
  proof (intro conjI impI allI)
    fix a assume a: "resp = Some a"
    show "ids w' = (ids w)(rar_UUID r \<mapsto> registered_record r (or_now clock (rar_Now r)))"
      using stored [OF a] by (rule conjunct1)
    show "perms w' = (perms w)(rar_UUID r :=
        if rar_Permissions r = 0 then DefaultMaxPermissions (rar_Level r) else rar_Permissions r)"
      using stored [OF a] by (simp only: mask)
    show "rap_Agent a = registered_agent r (or_now clock (rar_Now r))"
      using agent [OF a] by (rule conjunct1)
    fix e assume "err = Some e"
    with agent [OF a] show "errors_is e ErrChainRegisterFailed" "wf_chain sv \<noteq> None" by blast+
  qed (use True none in blast)+
qed

theorem service_register_spec_witness:
  "map_of (mw_agents mem_registered) (rar_UUID mem_request) = Some (registered_record mem_request (Time 5))
   \<and> mem_perms mem_registered (rar_UUID mem_request) = DefaultMaxPermissions 1"
proof -
  obtain resp err where h: "HandleRegister (mem_workflow False) (Time 9) (Some mem_request) empty_world
      = (Some resp, err, mem_registered)"
    using mem_register_result(1) by (metis mem_registered_def option.exhaust prod.collapse)
  from service_register_spec [OF mem_workflow_contract h] show ?thesis
    unfolding mem_now by (simp add: mem_request_def)
qed

text \<open>An upgrade through the service, when it answers with an agent, was of a registered or
  active agent to the next level and writes that level; the mask in the agent's record stays
  the old one, and the permission store gets the maximum of the new level unless it fails.\<close>

theorem service_upgrade_spec:
  assumes "workflow_contract st ids perms sv"
    and "HandleUpgrade sv clock (Some q) w = (resp, err, w')" and "records_ok (ids w)"
  shows "case resp of
      None \<Rightarrow> err \<noteq> None \<and> ids w' = ids w \<and> perms w' = perms w
    | Some _ \<Rightarrow> \<exists>r. ids w (uar_UUID q) = Some r \<and> isUpgradable (sr_State r)
        \<and> unat (uar_NewLevel q) = unat (sr_Level r) + 1
        \<and> ids w' = (ids w)(uar_UUID q \<mapsto>
             r \<lparr> sr_Level := uar_NewLevel q, sr_UpdatedAt := or_now clock (uar_Now q) \<rparr>)
        \<and> perms w' \<in> {perms w,
             (perms w)(uar_UUID q := DefaultMaxPermissions (uar_NewLevel q))}"
  using workflow_contract.upgrade_effect [OF assms(1,2)]
proof (elim disjE exE conjE)
  fix q' r
  assume "Some q = Some q'" "ids w (uar_UUID q') = Some r"
  moreover from this have "sr_UUID r = uar_UUID q" using records_okD [OF assms(3)] by (auto simp: record_ok_def)
  moreover assume "resp \<noteq> None" "isUpgradable (sr_State r)" "unat (uar_NewLevel q') = unat (sr_Level r) + 1"
    "ids w' = (ids w)(sr_UUID r \<mapsto>
       r \<lparr> sr_Level := uar_NewLevel q', sr_UpdatedAt := or_now clock (uar_Now q') \<rparr>)"
    "perms w' \<in> {perms w, (perms w)(sr_UUID r := DefaultMaxPermissions (uar_NewLevel q'))}"
  ultimately show ?thesis by auto
qed (simp add: workflow_contract.same_def [OF assms(1)])

definition mem_upgrade :: upgrade_agent_request where
  "mem_upgrade = \<lparr> uar_UUID = rar_UUID mem_request, uar_NewLevel = 2, uar_Reason = ''ok'',
     uar_Actor = ''op'', uar_Now = Time 8 \<rparr>"

lemma mem_get_registered:
  "st_GetAgent mem_client (rar_UUID mem_request) mem_registered = Inr (registered_record mem_request (Time 5))"
  by (simp add: mem_client_def mem_registered_agents)

lemma mem_rebuild: "\<exists>a. rebuild (registered_record mem_request (Time 5)) = Inr a"
  using mem_request_valid by (auto simp: rebuild_Inr registered_record_def valid_register_def)

theorem service_upgrade_spec_witness:
  "\<exists>resp err w'. HandleUpgrade (mem_workflow False) (Time 9) (Some mem_upgrade) mem_registered = (resp, err, w')
     \<and> (resp = None \<longrightarrow> map_of (mw_agents w') = map_of (mw_agents mem_registered))
     \<and> (resp \<noteq> None \<longrightarrow> map_option sr_Level (map_of (mw_agents w') (rar_UUID mem_request)) = Some 2)"
proof -
  obtain resp err w' where h: "HandleUpgrade (mem_workflow False) (Time 9) (Some mem_upgrade) mem_registered
      = (resp, err, w')" by (metis prod.collapse)
  from service_upgrade_spec [OF mem_workflow_contract h mem_registered_ok] h show ?thesis
    by (cases resp) (auto simp: mem_upgrade_def)
qed

text \<open>The state machine lets nothing leave the state unregistered, but a ban through the service
  of a revoked agent, once the storage finds and writes its record, answers with a banned agent
  and stores it as banned.\<close>

theorem service_ban_revives_revoked:
  assumes "workflow_contract st ids perms sv" and "st_GetAgent st (bar_UUID q) w = Inr r"
    and "records_ok (ids w)" and "sr_State r = StateUnregistered"
    and "\<not> UUID_IsZero (bar_UUID q)" and "bar_Reason q \<noteq> []"
    and "\<And>r'. fst (st_PutAgent st r' w) = None"
  shows "\<exists>a err w'. HandleBan sv clock (Some q) w = (Some a, err, w') \<and> ag_State (bap_Agent a) = StateBanned
     \<and> map_option sr_State (ids w' (bar_UUID q)) = Some StateBanned
     \<and> \<not> CanTransition StateUnregistered StateBanned"
proof -
  have store: "wf_store sv = st" using assms(1) by (simp add: workflow_contract_def workflow_contract_axioms_def)
  have r: "ids w (bar_UUID q) = Some r"
    using assms(1,2) by (auto simp: workflow_contract_def l1_contract_def)
  then have ok: "record_ok (bar_UUID q) r" using records_okD [OF assms(3)] by blast
  then obtain ag0 where ag0: "rebuild r = Inr ag0"
    by (auto simp: record_ok_def rebuildable_def rebuild_Inr)
  have "ag_State ag0 = StateRegistered" using rebuild_state ag0 by blast
  then obtain ag where ag: "Agent_Ban ag0 (bar_Reason q) (or_now clock (bar_Now q)) = Inr ag"
    "ag_State ag = StateBanned" "ag_State ag0 \<noteq> StateBanned"
    using assms(6) by (simp add: Agent_Ban_def)
  obtain w1 where p: "st_PutAgent st (r \<lparr> sr_State := StateBanned, sr_UpdatedAt := or_now clock (bar_Now q) \<rparr>) w
      = (None, w1)"
    using assms(7) by (metis prod.collapse)
  obtain a err w' where h: "HandleBan sv clock (Some q) w = (Some a, err, w')" "bap_Agent a = ag"
    using assms(2,5) ag0 ag p store
    by (cases "call_chain sv (\<lambda>ch. cc_BanAgent ch (ag_UUID ag) (bar_Reason q)) w1";
        cases "fst (call_chain sv (\<lambda>ch. cc_BanAgent ch (ag_UUID ag) (bar_Reason q)) w1)")
      (auto simp: HandleBan_def Let_def)
  from workflow_contract.ban_effect [OF assms(1) h(1)] r ok
  have "map_option sr_State (ids w' (bar_UUID q)) = Some StateBanned"
    by (auto simp: record_ok_def)
  then show ?thesis using h ag(2) by (auto simp: CanTransition_iff)
qed

definition mem_revoked :: mem_world where
  "mem_revoked = mem_registered \<lparr> mw_agents :=
     [(rar_UUID mem_request, registered_record mem_request (Time 5) \<lparr> sr_State := StateUnregistered \<rparr>)] \<rparr>"

theorem service_ban_revives_revoked_witness:
  "\<exists>a err w'. HandleBan (mem_workflow False) (Time 9)
     (Some \<lparr> bar_UUID = rar_UUID mem_request, bar_Reason = ''spam'', bar_Actor = [], bar_Now = Time 7 \<rparr>)
     mem_revoked = (Some a, err, w') \<and> ag_State (bap_Agent a) = StateBanned"
proof -
  let ?q = "\<lparr> bar_UUID = rar_UUID mem_request, bar_Reason = ''spam'', bar_Actor = [], bar_Now = Time 7 \<rparr>"
  let ?r = "registered_record mem_request (Time 5) \<lparr> sr_State := StateUnregistered \<rparr>"
  have ok: "record_ok (rar_UUID mem_request) ?r"
    using record_ok_registered [OF mem_request_valid, of "Time 5"]
    by (auto simp: record_ok_def rebuildable_def)
  have "\<not> UUID_IsZero (bar_UUID ?q)"
    using mem_request_valid by (auto simp: valid_register_def UUID_Validate_def split: if_splits)
  moreover have "st_GetAgent mem_client (bar_UUID ?q) mem_revoked = Inr ?r"
    by (simp add: mem_client_def mem_revoked_def)
  moreover have "records_ok (map_of (mw_agents mem_revoked))"
    using ok by (simp add: mem_revoked_def records_ok_def)
  ultimately show ?thesis
    using service_ban_revives_revoked [OF mem_workflow_contract [of False], of ?q mem_revoked ?r "Time 9"]
    by auto
qed

section \<open>Batches and the permission check\<close>

lemma batch_run_accounts:
  "length (brr_Succeeded (fst (batch_run s clock items order res w)))
     + length (brr_Failed (fst (batch_run s clock items order res w)))
     = length (brr_Succeeded res) + length (brr_Failed res) + length order
   \<and> brr_Total (fst (batch_run s clock items order res w)) = brr_Total res
   \<and> (\<exists>is. map brf_Index (brr_Failed (fst (batch_run s clock items order res w)))
            = map brf_Index (brr_Failed res) @ is \<and> subseq is order)
   \<and> ((\<forall>f \<in> set (brr_Failed res). brf_UUID f =
          (case items ! brf_Index f of None \<Rightarrow> [] | Some r \<Rightarrow> rar_UUID r)) \<longrightarrow>
      (\<forall>f \<in> set (brr_Failed (fst (batch_run s clock items order res w))). brf_UUID f =
          (case items ! brf_Index f of None \<Rightarrow> [] | Some r \<Rightarrow> rar_UUID r)))"
proof (induction order arbitrary: res w)
  case (Cons i order)
  obtain resp err w1 where h: "HandleRegister s (clock i) (items ! i) w = (resp, err, w1)"
    by (metis prod.collapse)
  show ?case
  proof (cases err)
    case None
    let ?res = "res \<lparr> brr_Succeeded := brr_Succeeded res @ [resp] \<rparr>"
    have eq: "batch_run s clock items (i # order) res w = batch_run s clock items order ?res w1"
      using h None by simp
    show ?thesis unfolding eq using Cons.IH [of ?res w1] by (auto intro: subseq_Cons2_neq)
  next
    case (Some e)
    let ?f = "\<lparr> brf_Index = i,
        brf_UUID = (case items ! i of None \<Rightarrow> [] | Some r \<Rightarrow> rar_UUID r), brf_Err = e \<rparr>"
    let ?res = "res \<lparr> brr_Failed := brr_Failed res @ [?f] \<rparr>"
    have eq: "batch_run s clock items (i # order) res w = batch_run s clock items order ?res w1"
      using h Some by simp
    show ?thesis unfolding eq using Cons.IH [of ?res w1] by (auto intro: exI [where x = "i # _"])
  qed
qed simp

text \<open>In whatever order the workers of a batch run, every item of an accepted batch is counted
  once, as a success or as a failure; the failures carry distinct indices of the batch and the
  UUID of their item. A batch is refused untouched when it is empty or too large.\<close>

theorem batch_register_accounts:
  assumes "mset order = mset [0..<length items]"
  shows "case HandleBatchRegister s started clock ended order items w of
      Panic _ \<Rightarrow> brc_Concurrency (brs_cfg s) < 0
    | Return (Inl _, w') \<Rightarrow> w' = w
        \<and> (items = [] \<or> brc_MaxBatchSize (brs_cfg s) < int (length items))
    | Return (Inr res, w') \<Rightarrow>
        length (brr_Succeeded res) + length (brr_Failed res) = length items
        \<and> brr_Total res = length items \<and> distinct (map brf_Index (brr_Failed res))
        \<and> (\<forall>f \<in> set (brr_Failed res). brf_Index f < length items
             \<and> brf_UUID f = (case items ! brf_Index f of None \<Rightarrow> [] | Some r \<Rightarrow> rar_UUID r))"
proof -
  let ?res = "\<lparr> brr_Succeeded = [], brr_Failed = [], brr_Total = length items,
      brr_StartedAt = started, brr_EndedAt = zero_time \<rparr>"
  obtain out w' where run: "batch_run (brs_inner s) clock items order ?res w = (out, w')"
    by (metis prod.collapse)
  have o: "length order = length items" "distinct order" "set order = {0..<length items}"
    using assms mset_eq_length mset_eq_setD mset_eq_imp_distinct_iff distinct_upt
    by (metis diff_zero length_upt, metis, metis atLeastLessThan_upt)
  have acc: "length (brr_Succeeded out) + length (brr_Failed out) = length items"
    "brr_Total out = length items" "subseq (map brf_Index (brr_Failed out)) order"
    "\<forall>f \<in> set (brr_Failed out). brf_UUID f =
        (case items ! brf_Index f of None \<Rightarrow> [] | Some r \<Rightarrow> rar_UUID r)"
    using batch_run_accounts [of "brs_inner s" clock items order ?res w] o(1) run by auto
  then have "distinct (map brf_Index (brr_Failed out))" "brf_Index ` set (brr_Failed out) \<subseteq> set order"
    using subseq_distinct [OF acc(3) o(2)] subseq_elements [OF acc(3)] by auto
  with acc o(3) show ?thesis
    by (auto simp: HandleBatchRegister_def run)
qed

definition mem_batch :: "mem_world batch_register_service" where
  "mem_batch = \<lparr> brs_inner = mem_workflow False,
     brs_cfg = \<lparr> brc_MaxBatchSize = 100, brc_Concurrency = 8 \<rparr> \<rparr>"

theorem batch_register_accounts_witness:
  "\<exists>res w'. HandleBatchRegister mem_batch (Time 1) (\<lambda>_. Time 2) (Time 3) [1, 0] [Some mem_request, None]
       empty_world = Return (Inr res, w')
     \<and> length (brr_Succeeded res) + length (brr_Failed res) = 2"
proof -
  let ?h = "HandleBatchRegister mem_batch (Time 1) (\<lambda>_. Time 2) (Time 3) [1, 0] [Some mem_request, None]
      empty_world"
  have "mset [1, 0] = mset [0..<length [Some mem_request, None]]" by (simp add: numeral_2_eq_2 upt_rec)
  from batch_register_accounts [OF this, where s = mem_batch and started = "Time 1" and
      clock = "\<lambda>_. Time 2" and ended = "Time 3" and w = empty_world]
  show ?thesis
    by (cases ?h; cases "case ?h of Return p \<Rightarrow> fst p | Panic _ \<Rightarrow> Inl ErrEmptyBatch")
      (auto simp: mem_batch_def)
qed

text \<open>The permission check allows a request only for a stored agent that is neither banned nor
  unregistered and whose mask has the bit, and allows every such request that the storage
  answers; bits from 64 on and zero UUIDs are refused.\<close>

theorem check_permission_spec:
  assumes "l1_contract st ids perms" and "HandleCheckPermission st (Some q) w = (resp, err)"
  shows "(\<forall>p. resp = Some p \<and> cpp_Allowed p \<longrightarrow>
           err = None \<and> bit (perms w (cpr_UUID q)) (unat (cpr_Bit q)) \<and> unat (cpr_Bit q) < 64
         \<and> (\<exists>r. ids w (cpr_UUID q) = Some r \<and> sr_State r \<notin> {StateUnregistered, StateBanned}))
   \<and> (\<forall>r m. \<not> UUID_IsZero (cpr_UUID q) \<and> unat (cpr_Bit q) < 64
         \<and> st_GetAgent st (cpr_UUID q) w = Inr r \<and> sr_State r \<notin> {StateUnregistered, StateBanned}
         \<and> st_GetPermissions st (cpr_UUID q) w = Inr m \<and> bit m (unat (cpr_Bit q)) \<longrightarrow>
           (\<exists>p. resp = Some p \<and> cpp_Allowed p))"
proof -
  have b: "64 \<le> cpr_Bit q \<longleftrightarrow> \<not> unat (cpr_Bit q) < 64" by (simp add: word_le_nat_alt not_less)
  have get: "ids w u = Some r" if "st_GetAgent st u w = Inr r" for u r
    using assms(1) that by (auto simp: l1_contract_def)
  have perm: "perms w u = m" if "st_GetPermissions st u w = Inr m" for u m
    using assms(1) that by (auto simp: l1_contract_def)
  have m: "(x AND bit_mask (cpr_Bit q) \<noteq> 0) \<longleftrightarrow> bit x (unat (cpr_Bit q))" if "unat (cpr_Bit q) < 64" for x
    using that by (simp add: and_bit_mask_eq_0)
  show ?thesis
  proof (cases "UUID_IsZero (cpr_UUID q) \<or> 64 \<le> cpr_Bit q")
    case True
    then have "resp = None"
      using assms(2) by (cases "UUID_IsZero (cpr_UUID q)") (simp_all add: HandleCheckPermission_def)
    with True show ?thesis unfolding b by auto
  next
    case False
    then have u: "unat (cpr_Bit q) < 64" using b by simp
    show ?thesis
      using assms(2) False get perm m [OF u] u
      by (auto simp: HandleCheckPermission_def Let_def split: sum.splits if_splits)
  qed
qed

theorem check_permission_spec_witness:
  "\<exists>p. fst (HandleCheckPermission mem_client (Some \<lparr> cpr_UUID = rar_UUID mem_request, cpr_Bit = 3 \<rparr>)
     mem_registered) = Some p \<and> cpp_Allowed p"
proof -
  let ?q = "\<lparr> cpr_UUID = rar_UUID mem_request, cpr_Bit = 3 \<rparr>"
  have "l1_contract mem_client (\<lambda>w. map_of (mw_agents w)) mem_perms"
    using mem_workflow_contract by (simp add: workflow_contract_def)
  from check_permission_spec [OF this, of ?q mem_registered] mem_get_registered
  have "\<forall>m. st_GetPermissions mem_client (rar_UUID mem_request) mem_registered = Inr m \<and> bit m (3 :: nat) \<longrightarrow> ?thesis"
    using mem_request_valid
    by (cases "HandleCheckPermission mem_client (Some ?q) mem_registered")
      (auto simp: valid_register_def UUID_Validate_def registered_record_def split: if_splits)
  moreover obtain resp err where h: "HandleRegister (mem_workflow False) (Time 9) (Some mem_request) empty_world
      = (Some resp, err, mem_registered)"
    using mem_register_result(1) by (metis mem_registered_def option.exhaust prod.collapse)
  have "mem_perms mem_registered (rar_UUID mem_request) = DefaultMaxPermissions 1"
    using wm.register_effect [OF h]
    by (auto simp: registered_record_def) (simp_all add: mem_request_def)
  moreover have "bit (DefaultMaxPermissions 1) (3 :: nat)" by (simp add: bit_DefaultMaxPermissions)
  ultimately show ?thesis by (simp add: mem_client_def)
qed

text \<open>Unbanning through the service never succeeds: whatever the storage, the chain and the
  request are, \<open>HandleUnban\<close> answers with an error and does nothing, and when it finds a record
  that can be rebuilt the error is \<open>ErrAgentNotBanned\<close>, banned or not, because the agent is
  rebuilt as a newly registered one before its state is checked.\<close>

theorem service_unban_never_succeeds:
  "\<exists>err. HandleUnban s clock req w = (None, Some err, w)
   \<and> (\<forall>r rec a. req = Some r \<and> \<not> UUID_IsZero (unr_UUID r)
          \<and> st_GetAgent (wf_store s) (unr_UUID r) w = Inr rec \<and> rebuild rec = Inr a
        \<longrightarrow> err = ErrAgentNotBanned)"
  by (rule unban_fails)

theorem service_unban_never_succeeds_witness:
  "snd (HandleUnban (mem_workflow False) (Time 9)
     (Some \<lparr> unr_UUID = rar_UUID mem_request, unr_Actor = [], unr_Now = Time 7 \<rparr>) mem_registered)
   = (Some ErrAgentNotBanned, mem_registered)"
proof -
  have "\<not> UUID_IsZero (rar_UUID mem_request)"
    using mem_request_valid by (auto simp: valid_register_def UUID_Validate_def split: if_splits)
  with service_unban_never_succeeds [of "mem_workflow False" "Time 9"
      "Some \<lparr> unr_UUID = rar_UUID mem_request, unr_Actor = [], unr_Now = Time 7 \<rparr>" mem_registered]
    mem_get_registered mem_rebuild
  show ?thesis by auto
qed

end
