(* ===== verification/A2AToken.thy ===== *)
theory A2AToken
  imports DomainRules Base64Url
begin

text \<open>
  The tokens that agents present to each other: the trust level of a pair of agents, issuing and
  verifying a signed token, \<open>src/internal/authz/a2a/trust.go\<close>, \<open>token.go\<close> and \<open>verify.go\<close>.

  JSON encoding and Ed25519 are library code: \<open>codec\<close> holds the four JSON conversions that the
  code uses and the two operations of the signature scheme, and the theorems name what they rely
  on of it. The clock is an argument.
\<close>

section \<open>Trust levels\<close>

definition TrustNone :: string where [state_simps]: "TrustNone = ''none''"
definition TrustBasic :: string where [state_simps]: "TrustBasic = ''basic''"
definition TrustFull :: string where [state_simps]: "TrustFull = ''full''"

definition Trust_IsValid :: "string \<Rightarrow> bool" where
  "Trust_IsValid t \<longleftrightarrow> t = TrustNone \<or> t = TrustBasic \<or> t = TrustFull"

definition Trust_Score :: "string \<Rightarrow> int" where
  "Trust_Score t =
     (if t = TrustNone then 0 else if t = TrustBasic then 50 else if t = TrustFull then 100 else 0)"

text \<open>
  \<open>strings.ToLower\<close>, as far as its result can be an ASCII string: the ASCII capitals and the two
  other runes with an ASCII lower case, U+0130 and U+212A. Every other byte is kept; it stands
  for a rune whose lower case is not ASCII.
\<close>

fun to_lower :: "string \<Rightarrow> string" where
  "to_lower [] = []"
| "to_lower (c # s) =
     (if c = CHR 0xC4 \<and> s \<noteq> [] \<and> hd s = CHR 0xB0 then CHR ''i'' # to_lower (tl s)
      else if c = CHR 0xE2 \<and> take 2 s = [CHR 0x84, CHR 0xAA] then CHR ''k'' # to_lower (drop 2 s)
      else (let n = of_char c :: nat
            in if 65 \<le> n \<and> n \<le> 90 then char_of (n + 32) else c) # to_lower s)"

definition ParseTrustLevel :: "string \<Rightarrow> go_error + string" where
  "ParseTrustLevel s =
     (let t = to_lower (trim_space s)
      in if Trust_IsValid t then Inr t else Inl (Sentinel ''a2a: invalid trust level''))"

definition PermA2AInterop :: uint where
  "PermA2AInterop = 8"

definition HasA2AInterop :: "u64 \<Rightarrow> bool" where
  "HasA2AInterop perms \<longleftrightarrow> perms AND bit_mask PermA2AInterop \<noteq> 0"

record agent_snapshot =
  as_UUID :: string
  as_State :: string
  as_Level :: u8
  as_Permissions :: u64

definition FromAgent :: "agent option \<Rightarrow> agent_snapshot" where
  "FromAgent x =
     (case x of
        None \<Rightarrow> \<lparr> as_UUID = [], as_State = [], as_Level = 0, as_Permissions = 0 \<rparr>
      | Some a \<Rightarrow> \<lparr> as_UUID = ag_UUID a, as_State = ag_State a, as_Level = ag_Level a,
                    as_Permissions = ag_Permissions a \<rparr>)"

definition ComputeTrustLevel :: "agent_snapshot \<Rightarrow> agent_snapshot \<Rightarrow> string" where
  "ComputeTrustLevel a b =
     (if as_State a \<noteq> StateActive \<or> as_State b \<noteq> StateActive then TrustNone
      else if as_Level a = LevelTest \<or> as_Level b = LevelTest then TrustBasic
      else
        (let diff = int (unat (as_Level a)) - int (unat (as_Level b));
             diff' = (if diff < 0 then - diff else diff)
         in if 2 < diff' then TrustBasic
            else if HasA2AInterop (as_Permissions a) \<and> HasA2AInterop (as_Permissions b)
                    \<and> LevelAdvanced \<le> as_Level a \<and> LevelAdvanced \<le> as_Level b
            then TrustFull
            else TrustBasic))"

definition ComputeTrustLevelFromAgents :: "agent option \<Rightarrow> agent option \<Rightarrow> string" where
  "ComputeTrustLevelFromAgents a b =
     (if a = None \<or> b = None then TrustNone else ComputeTrustLevel (FromAgent a) (FromAgent b))"

section \<open>Tokens\<close>

abbreviation ErrEmptyDomainKey :: go_error where "ErrEmptyDomainKey \<equiv> Sentinel ''a2a: empty domain key''"
abbreviation ErrEmptySubject :: go_error where "ErrEmptySubject \<equiv> Sentinel ''a2a: empty subject''"
abbreviation ErrEmptyAudience :: go_error where "ErrEmptyAudience \<equiv> Sentinel ''a2a: empty audience''"
abbreviation ErrEmptyJTI :: go_error where "ErrEmptyJTI \<equiv> Sentinel ''a2a: empty jti''"
abbreviation ErrTokenMalformed :: go_error where "ErrTokenMalformed \<equiv> Sentinel ''a2a: token malformed''"
abbreviation ErrTokenExpired :: go_error where "ErrTokenExpired \<equiv> Sentinel ''a2a: token expired''"
abbreviation ErrIssuerMismatch :: go_error where "ErrIssuerMismatch \<equiv> Sentinel ''a2a: issuer mismatch''"
abbreviation ErrAudienceMismatch :: go_error where
  "ErrAudienceMismatch \<equiv> Sentinel ''a2a: audience mismatch''"
abbreviation ErrUnsupportedAlg :: go_error where "ErrUnsupportedAlg \<equiv> Sentinel ''a2a: unsupported alg''"
abbreviation ErrSignatureInvalid :: go_error where
  "ErrSignatureInvalid \<equiv> Sentinel ''a2a: signature invalid''"
abbreviation ErrClaimInvalid :: go_error where "ErrClaimInvalid \<equiv> Sentinel ''a2a: claim invalid''"
abbreviation ErrInvalidTrustLevel :: go_error where
  "ErrInvalidTrustLevel \<equiv> Sentinel ''a2a: trust_level out of range''"
abbreviation ErrKeyNotFound :: go_error where "ErrKeyNotFound \<equiv> Sentinel ''a2a: key not found''"

record jwt_header =
  jh_Alg :: string
  jh_Typ :: string
  jh_Kid :: string

record jwt_claims =
  jc_Issuer :: string
  jc_Audience :: string
  jc_Subject :: string
  jc_IssuedAt :: int
  jc_ExpiresAt :: int
  jc_JTI :: string
  jc_Scope :: string
  jc_TrustLevel :: int
  jc_AuditID :: string

record codec =
  cd_header_json :: "jwt_header \<Rightarrow> string"
  cd_claims_json :: "jwt_claims \<Rightarrow> string"
  cd_parse_header :: "string \<Rightarrow> jwt_header option"
  cd_parse_claims :: "string \<Rightarrow> jwt_claims option"
  cd_sign :: "string \<Rightarrow> string \<Rightarrow> string"
  cd_verify :: "string \<Rightarrow> string \<Rightarrow> string \<Rightarrow> bool"

record sign_input =
  si_Subject :: string
  si_Audience :: string
  si_JTI :: string
  si_TTL :: duration
  si_Scope :: string
  si_TrustLevel :: int
  si_AuditID :: string

record token_claims =
  tc_Issuer :: string
  tc_Audience :: string
  tc_Subject :: string
  tc_IssuedAt :: time
  tc_ExpiresAt :: time
  tc_JTI :: string
  tc_Scope :: string
  tc_TrustLevel :: int
  tc_AuditID :: string
  tc_Kid :: string

record issuer_config =
  ic_DomainKey :: string
  ic_Issuer :: string
  ic_KeyID :: string
  ic_DefaultTTL :: duration

record issuer =
  is_cfg :: issuer_config
  is_domainPub :: string

text \<open>A private key of 64 bytes ends with its public key.\<close>

definition NewIssuer :: "issuer_config \<Rightarrow> go_error + issuer" where
  "NewIssuer cfg =
     (if length (ic_DomainKey cfg) \<noteq> 64 then Inl ErrEmptyDomainKey
      else
        (let cfg1 = (if ic_Issuer cfg = [] then cfg \<lparr> ic_Issuer := ''agentid-chain'' \<rparr> else cfg);
             cfg2 = (if ic_DefaultTTL cfg1 \<le> 0 then cfg1 \<lparr> ic_DefaultTTL := 15 * minute \<rparr>
                     else cfg1)
         in Inr \<lparr> is_cfg = cfg2, is_domainPub = drop 32 (ic_DomainKey cfg) \<rparr>))"

definition dot :: string where "dot = ''.''"

definition token_header :: "issuer \<Rightarrow> jwt_header" where
  "token_header i = \<lparr> jh_Alg = ''EdDSA'', jh_Typ = ''JWT'', jh_Kid = ic_KeyID (is_cfg i) \<rparr>"

definition token_claims_of :: "issuer \<Rightarrow> time \<Rightarrow> sign_input \<Rightarrow> jwt_claims" where
  "token_claims_of i now si =
     \<lparr> jc_Issuer = ic_Issuer (is_cfg i), jc_Audience = si_Audience si, jc_Subject = si_Subject si,
       jc_IssuedAt = unix_sec now, jc_ExpiresAt = unix_sec (time_add now (si_TTL si)),
       jc_JTI = si_JTI si, jc_Scope = si_Scope si, jc_TrustLevel = si_TrustLevel si,
       jc_AuditID = si_AuditID si \<rparr>"

definition Issuer_Sign :: "codec \<Rightarrow> issuer \<Rightarrow> time \<Rightarrow> sign_input \<Rightarrow> go_error + string" where
  "Issuer_Sign cd i now si =
     (if si_Subject si = [] then Inl ErrEmptySubject
      else if si_Audience si = [] then Inl ErrEmptyAudience
      else if si_JTI si = [] then Inl ErrEmptyJTI
      else if si_TrustLevel si < 0 \<or> 100 < si_TrustLevel si
      then Inl (Errorf ''%w: got %d'' [ErrInvalidTrustLevel])
      else
        (let si1 = (if si_TTL si \<le> 0 then si \<lparr> si_TTL := ic_DefaultTTL (is_cfg i) \<rparr> else si);
             h64 = b64url_encode (cd_header_json cd (token_header i));
             c64 = b64url_encode (cd_claims_json cd (token_claims_of i now si1));
             signingInput = h64 @ dot @ c64;
             sig64 = b64url_encode (cd_sign cd (ic_DomainKey (is_cfg i)) signingInput)
         in Inr (signingInput @ dot @ sig64)))"

text \<open>\<open>strings.Split\<close> at a single character.\<close>

fun split_at :: "char \<Rightarrow> string \<Rightarrow> string list" where
  "split_at d [] = [[]]"
| "split_at d (c # s) =
     (if c = d then [] # split_at d s
      else (case split_at d s of [] \<Rightarrow> [[c]] | p # ps \<Rightarrow> (c # p) # ps))"

text \<open>\<open>time.Unix\<close>: the seconds are kept in an \<open>int64\<close> counted from the year 1.\<close>

definition time_unix :: "int \<Rightarrow> time" where
  "time_unix s = Time ((s64 (s + 62135596800) - 62135596800) * 1000000000)"

definition claims_view :: "jwt_header \<Rightarrow> jwt_claims \<Rightarrow> token_claims" where
  "claims_view h c =
     \<lparr> tc_Issuer = jc_Issuer c, tc_Audience = jc_Audience c, tc_Subject = jc_Subject c,
       tc_IssuedAt = time_unix (jc_IssuedAt c), tc_ExpiresAt = time_unix (jc_ExpiresAt c),
       tc_JTI = jc_JTI c, tc_Scope = jc_Scope c, tc_TrustLevel = jc_TrustLevel c,
       tc_AuditID = jc_AuditID c, tc_Kid = jh_Kid h \<rparr>"

definition malformed :: "string \<Rightarrow> go_error" where
  "malformed msg = Errorf msg [ErrTokenMalformed]"

definition ParseUnverified :: "codec \<Rightarrow> string \<Rightarrow> go_error + token_claims" where
  "ParseUnverified cd token =
     (let parts = split_at (CHR ''.'') token in
      if length parts \<noteq> 3 then Inl (malformed ''%w: got %d parts'')
      else case b64url_decode (parts ! 0) of None \<Rightarrow> Inl (malformed ''%w: header decode: %v'')
      | Some headerJSON \<Rightarrow>
      (case cd_parse_header cd headerJSON of None \<Rightarrow> Inl (malformed ''%w: header parse: %v'')
      | Some h \<Rightarrow>
      (case b64url_decode (parts ! 1) of None \<Rightarrow> Inl (malformed ''%w: claims decode: %v'')
      | Some claimsJSON \<Rightarrow>
      (case cd_parse_claims cd claimsJSON of None \<Rightarrow> Inl (malformed ''%w: claims parse: %v'')
      | Some c \<Rightarrow> Inr (claims_view h c)))))"

section \<open>Verification\<close>

type_synonym key_resolver = "string \<Rightarrow> go_error + string"

definition StaticKeyResolver :: "string \<Rightarrow> key_resolver" where
  "StaticKeyResolver pub kid = (if length pub \<noteq> 32 then Inl ErrKeyNotFound else Inr pub)"

definition MapKeyResolver :: "(string \<times> string) list \<Rightarrow> string \<Rightarrow> key_resolver" where
  "MapKeyResolver keys dflt kid =
     (case (case map_of keys kid of None \<Rightarrow> None | Some k \<Rightarrow> if length k = 32 then Some k else None) of
        Some k \<Rightarrow> Inr k
      | None \<Rightarrow> if length dflt = 32 then Inr dflt
                else Inl (Errorf ''%w: kid=%q'' [ErrKeyNotFound]))"

record verifier_config =
  vc_Resolver :: "key_resolver option"
  vc_ExpectedIssuer :: string
  vc_ExpectedAudience :: string
  vc_LeewaySeconds :: int

record verifier =
  vf_Resolver :: key_resolver
  vf_ExpectedIssuer :: string
  vf_ExpectedAudience :: string
  vf_LeewaySeconds :: int

definition NewVerifier :: "verifier_config \<Rightarrow> go_error + verifier" where
  "NewVerifier cfg =
     (case vc_Resolver cfg of None \<Rightarrow> Inl (Sentinel ''a2a: nil resolver'') | Some r \<Rightarrow>
      if vc_ExpectedIssuer cfg = [] then Inl (Errorf ''%w: missing expected issuer'' [ErrClaimInvalid])
      else if vc_ExpectedAudience cfg = []
      then Inl (Errorf ''%w: missing expected audience'' [ErrClaimInvalid])
      else Inr \<lparr> vf_Resolver = r, vf_ExpectedIssuer = vc_ExpectedIssuer cfg,
                 vf_ExpectedAudience = vc_ExpectedAudience cfg,
                 vf_LeewaySeconds =
                   (if vc_LeewaySeconds cfg \<le> 0 then 5 else vc_LeewaySeconds cfg) \<rparr>)"

text \<open>The checks on the claims, in their order.\<close>

definition check_claims :: "verifier \<Rightarrow> time \<Rightarrow> jwt_claims \<Rightarrow> go_error option" where
  "check_claims v now c =
     (if jc_Subject c = [] then Some (Errorf ''%w: empty sub'' [ErrClaimInvalid])
      else if jc_JTI c = [] then Some (Errorf ''%w: empty jti'' [ErrClaimInvalid])
      else if jc_Issuer c \<noteq> vf_ExpectedIssuer v then Some (Errorf ''%w: got=%q want=%q'' [ErrIssuerMismatch])
      else if jc_Audience c \<noteq> vf_ExpectedAudience v
      then Some (Errorf ''%w: got=%q want=%q'' [ErrAudienceMismatch])
      else if s64 (jc_ExpiresAt c + vf_LeewaySeconds v) \<le> unix_sec now
      then Some (Errorf ''%w: exp=%d now=%d'' [ErrTokenExpired])
      else if jc_TrustLevel c < 0 \<or> 100 < jc_TrustLevel c
      then Some (Errorf ''%w: got %d'' [ErrInvalidTrustLevel])
      else None)"

text \<open>\<open>ed25519.Verify\<close> panics on a public key that is not 32 bytes long.\<close>

definition Verifier_Verify ::
  "codec \<Rightarrow> verifier \<Rightarrow> time \<Rightarrow> string \<Rightarrow> (go_error + token_claims) outcome" where
  "Verifier_Verify cd v now token =
     (let parts = split_at (CHR ''.'') token in
      if length parts \<noteq> 3 then Return (Inl (malformed ''%w: got %d parts''))
      else case b64url_decode (parts ! 0) of
        None \<Rightarrow> Return (Inl (malformed ''%w: header decode: %v''))
      | Some headerJSON \<Rightarrow>
      (case cd_parse_header cd headerJSON of
        None \<Rightarrow> Return (Inl (malformed ''%w: header parse: %v''))
      | Some h \<Rightarrow>
      if jh_Alg h \<noteq> ''EdDSA'' then Return (Inl (Errorf ''%w: alg=%q'' [ErrUnsupportedAlg]))
      else if jh_Typ h \<noteq> ''JWT'' then Return (Inl (malformed ''%w: typ=%q''))
      else (case b64url_decode (parts ! 1) of
        None \<Rightarrow> Return (Inl (malformed ''%w: claims decode: %v''))
      | Some claimsJSON \<Rightarrow>
      (case cd_parse_claims cd claimsJSON of
        None \<Rightarrow> Return (Inl (malformed ''%w: claims parse: %v''))
      | Some c \<Rightarrow>
      (case check_claims v now c of
        Some err \<Rightarrow> Return (Inl err)
      | None \<Rightarrow>
      (case vf_Resolver v (jh_Kid h) of
        Inl err \<Rightarrow> Return (Inl err)
      | Inr pub \<Rightarrow>
      (case b64url_decode (parts ! 2) of
        None \<Rightarrow> Return (Inl (malformed ''%w: sig decode: %v''))
      | Some sig \<Rightarrow>
          if length pub \<noteq> 32 then Panic ''ed25519: bad public key length''
          else if \<not> cd_verify cd pub (parts ! 0 @ dot @ parts ! 1) sig
          then Return (Inl ErrSignatureInvalid)
          else Return (Inr (claims_view h c)))))))))"

definition HasScope :: "token_claims option \<Rightarrow> string \<Rightarrow> bool" where
  "HasScope tc scope =
     (case tc of None \<Rightarrow> False
      | Some t \<Rightarrow>
          if tc_Scope t = [] \<or> scope = [] then False
          else list_ex (\<lambda>s. s = scope) (split_at (CHR '' '') (tc_Scope t)))"

section \<open>Splitting what was joined\<close>

lemma split_at_free: "d \<notin> set s \<Longrightarrow> split_at d s = [s]"
  by (induction s) auto

lemma split_at_append: "d \<notin> set s \<Longrightarrow> split_at d (s @ d # t) = s # split_at d t"
  by (induction s) auto

lemma split_at_token:
  "split_at (CHR ''.'') (b64url_encode a @ dot @ b64url_encode b @ dot @ b64url_encode c)
     = [b64url_encode a, b64url_encode b, b64url_encode c]"
  by (simp add: dot_def split_at_append split_at_free b64url_encode_no_dot)

lemma check_claims_None:
  "check_claims v now c = None \<longleftrightarrow>
     jc_Subject c \<noteq> [] \<and> jc_JTI c \<noteq> [] \<and> jc_Issuer c = vf_ExpectedIssuer v
   \<and> jc_Audience c = vf_ExpectedAudience v
   \<and> unix_sec now < s64 (jc_ExpiresAt c + vf_LeewaySeconds v)
   \<and> 0 \<le> jc_TrustLevel c \<and> jc_TrustLevel c \<le> 100"
  by (auto simp: check_claims_def)

lemma verify_signed:
  assumes "NewIssuer cfg = Inr i" and "Issuer_Sign cd i t0 si = Inr token"
    and "c = token_claims_of i t0
           (if si_TTL si \<le> 0 then si \<lparr> si_TTL := ic_DefaultTTL (is_cfg i) \<rparr> else si)"
    and "cd_parse_header cd (cd_header_json cd (token_header i)) = Some (token_header i)"
    and "cd_parse_claims cd (cd_claims_json cd c) = Some c"
    and "\<And>m. cd_verify cd (is_domainPub i) m (cd_sign cd (ic_DomainKey (is_cfg i)) m)"
    and "vf_Resolver v (ic_KeyID (is_cfg i)) = Inr (is_domainPub i)"
    and "vf_ExpectedIssuer v = ic_Issuer (is_cfg i)" and "vf_ExpectedAudience v = si_Audience si"
    and "unix_sec now < s64 (jc_ExpiresAt c + vf_LeewaySeconds v)"
  shows "Verifier_Verify cd v now token = Return (Inr (claims_view (token_header i) c))"
proof -
  have pub: "length (is_domainPub i) = 32"
    using assms(1) by (auto simp: NewIssuer_def Let_def split: if_splits)
  have si: "si_Subject si \<noteq> []" "si_Audience si \<noteq> []" "si_JTI si \<noteq> []"
    "0 \<le> si_TrustLevel si" "si_TrustLevel si \<le> 100"
    using assms(2) by (auto simp: Issuer_Sign_def split: if_splits)
  define h64 where "h64 = b64url_encode (cd_header_json cd (token_header i))"
  define c64 where "c64 = b64url_encode (cd_claims_json cd c)"
  define sg where "sg = b64url_encode (cd_sign cd (ic_DomainKey (is_cfg i)) (h64 @ dot @ c64))"
  have token: "token = h64 @ dot @ c64 @ dot @ sg"
    using assms(2) si unfolding assms(3) h64_def c64_def sg_def
    by (simp add: Issuer_Sign_def Let_def)
  have parts: "split_at (CHR ''.'') token = [h64, c64, sg]"
    unfolding token h64_def c64_def sg_def by (rule split_at_token)
  have "check_claims v now c = None"
    using si assms(8-10) by (simp add: check_claims_None) (simp add: assms(3) token_claims_of_def)
  then show ?thesis
    using assms(4-7) pub
    by (simp add: Verifier_Verify_def parts) (simp add: h64_def c64_def sg_def token_header_def)
qed

definition sample_issuer :: issuer where
  "sample_issuer = \<lparr> is_cfg = \<lparr> ic_DomainKey = replicate 64 (CHR ''K''), ic_Issuer = ''agentid-chain'',
     ic_KeyID = ''k1'', ic_DefaultTTL = 15 * minute \<rparr>, is_domainPub = replicate 32 (CHR ''K'') \<rparr>"

definition sample_sign :: sign_input where
  "sample_sign = \<lparr> si_Subject = ''a1'', si_Audience = ''svc'', si_JTI = ''j1'', si_TTL = minute,
     si_Scope = ''read write'', si_TrustLevel = 50, si_AuditID = [] \<rparr>"

definition sample_claims :: jwt_claims where
  "sample_claims = token_claims_of sample_issuer (Time 0) sample_sign"

definition sample_codec :: codec where
  "sample_codec = \<lparr> cd_header_json = jh_Kid, cd_claims_json = jc_JTI,
     cd_parse_header = (\<lambda>s. if s = ''k1'' then Some (token_header sample_issuer) else None),
     cd_parse_claims = (\<lambda>s. if s = ''j1'' then Some sample_claims else None),
     cd_sign = (\<lambda>k m. drop 32 k @ m), cd_verify = (\<lambda>p m s. s = p @ m) \<rparr>"

definition sample_verifier :: verifier where
  "sample_verifier = \<lparr> vf_Resolver = MapKeyResolver [(''k1'', replicate 32 (CHR ''K''))] [],
     vf_ExpectedIssuer = ''agentid-chain'', vf_ExpectedAudience = ''svc'', vf_LeewaySeconds = 5 \<rparr>"

lemma sample_token:
  "\<exists>token. Issuer_Sign sample_codec sample_issuer (Time 0) sample_sign = Inr token"
  by (simp add: Issuer_Sign_def sample_sign_def Let_def)

lemma sample_issuer_new:
  "NewIssuer \<lparr> ic_DomainKey = replicate 64 (CHR ''K''), ic_Issuer = [], ic_KeyID = ''k1'',
     ic_DefaultTTL = 0 \<rparr> = Inr sample_issuer"
  by (simp add: NewIssuer_def sample_issuer_def)

lemma sample_accepted:
  assumes "Issuer_Sign sample_codec sample_issuer (Time 0) sample_sign = Inr token"
    and "unix_sec now < 65"
  shows "Verifier_Verify sample_codec sample_verifier now token
      = Return (Inr (claims_view (token_header sample_issuer) sample_claims))"
  using assms(2)
  by (intro verify_signed [OF sample_issuer_new assms(1)])
    (simp_all add: sample_claims_def sample_codec_def sample_verifier_def sample_issuer_def
      sample_sign_def token_claims_of_def token_header_def MapKeyResolver_def unix_sec_def)

section \<open>Properties of trust and tokens\<close>

text \<open>The trust level does not depend on the order of the two agents; it is none exactly when
  one of them is not active, and full exactly when both are active, on levels from advanced up
  that differ by at most two, and both allow the interoperation.\<close>

theorem trust_level_spec:
  "ComputeTrustLevel a b = ComputeTrustLevel b a
   \<and> (ComputeTrustLevel a b = TrustNone \<longleftrightarrow> \<not> (as_State a = StateActive \<and> as_State b = StateActive))
   \<and> (ComputeTrustLevel a b = TrustFull \<longleftrightarrow>
        as_State a = StateActive \<and> as_State b = StateActive
      \<and> 2 \<le> unat (as_Level a) \<and> 2 \<le> unat (as_Level b)
      \<and> \<bar>int (unat (as_Level a)) - int (unat (as_Level b))\<bar> \<le> 2
      \<and> bit (as_Permissions a) 8 \<and> bit (as_Permissions b) 8)"
proof -
  have h: "HasA2AInterop m \<longleftrightarrow> bit m 8" for m
    by (simp add: HasA2AInterop_def PermA2AInterop_def)
  have l: "LevelAdvanced \<le> x \<longleftrightarrow> 2 \<le> unat x" "x = LevelTest \<longleftrightarrow> unat x = 0" for x :: u8
    by (simp_all add: LevelAdvanced_def LevelTest_def word_le_nat_alt unat_eq_0)
  show ?thesis
    unfolding ComputeTrustLevel_def Let_def h l
    by (auto simp: TrustNone_def TrustBasic_def TrustFull_def)
qed

text \<open>C10: whatever the token is, a verifier accepts it only when it consists of three base64url parts,
  its header names the algorithm EdDSA and the type JWT, its claims have a subject and an id, the
  expected issuer and audience, a trust level from 0 to 100 and an expiry that with the leeway is
  still ahead, and the signature over the first two parts holds under the 32-byte key that the
  resolver has for the key id; the answer is then the view of exactly these claims.\<close>

theorem verify_sound:
  assumes "Verifier_Verify cd v now token = Return (Inr tc)"
  shows "\<exists>p0 p1 p2 hj cj sig h c pub.
     split_at (CHR ''.'') token = [p0, p1, p2]
   \<and> b64url_decode p0 = Some hj \<and> cd_parse_header cd hj = Some h
   \<and> jh_Alg h = ''EdDSA'' \<and> jh_Typ h = ''JWT''
   \<and> b64url_decode p1 = Some cj \<and> cd_parse_claims cd cj = Some c
   \<and> jc_Subject c \<noteq> [] \<and> jc_JTI c \<noteq> [] \<and> jc_Issuer c = vf_ExpectedIssuer v
   \<and> jc_Audience c = vf_ExpectedAudience v
   \<and> unix_sec now < s64 (jc_ExpiresAt c + vf_LeewaySeconds v)
   \<and> 0 \<le> jc_TrustLevel c \<and> jc_TrustLevel c \<le> 100
   \<and> vf_Resolver v (jh_Kid h) = Inr pub \<and> length pub = 32
   \<and> b64url_decode p2 = Some sig \<and> cd_verify cd pub (p0 @ dot @ p1) sig
   \<and> tc = claims_view h c"
proof -
  let ?ps = "split_at (CHR ''.'') token"
  have "length ?ps = 3" using assms by (auto simp: Verifier_Verify_def Let_def split: if_splits)
  then obtain p0 p1 p2 where ps: "?ps = [p0, p1, p2]"
    by (auto simp: length_Suc_conv numeral_3_eq_3)
  note V = assms [unfolded Verifier_Verify_def Let_def ps]
  obtain hj where hj: "b64url_decode p0 = Some hj"
    using V by (cases "b64url_decode p0") simp_all
  obtain h where h: "cd_parse_header cd hj = Some h" "jh_Alg h = ''EdDSA''" "jh_Typ h = ''JWT''"
    using V hj by (cases "cd_parse_header cd hj") (simp_all split: if_splits)
  obtain cj where cj: "b64url_decode p1 = Some cj"
    using V hj h by (cases "b64url_decode p1") simp_all
  obtain c where c: "cd_parse_claims cd cj = Some c"
    using V hj h cj by (cases "cd_parse_claims cd cj") simp_all
  have chk: "check_claims v now c = None"
    using V hj h cj c by (cases "check_claims v now c") simp_all
  obtain pub where pub: "vf_Resolver v (jh_Kid h) = Inr pub"
    using V hj h cj c chk by (cases "vf_Resolver v (jh_Kid h)") simp_all
  obtain sig where sig: "b64url_decode p2 = Some sig"
    using V hj h cj c chk pub by (cases "b64url_decode p2") simp_all
  have "length pub = 32" "cd_verify cd pub (p0 @ dot @ p1) sig" "tc = claims_view h c"
    using V hj h cj c chk pub sig by (simp_all split: if_splits)
  with ps hj h cj c chk pub sig show ?thesis
    unfolding check_claims_None by blast
qed

theorem verify_sound_witness:
  "\<exists>token p0 p1 p2. Issuer_Sign sample_codec sample_issuer (Time 0) sample_sign = Inr token
     \<and> split_at (CHR ''.'') token = [p0, p1, p2]"
proof -
  obtain token where t: "Issuer_Sign sample_codec sample_issuer (Time 0) sample_sign = Inr token"
    using sample_token by blast
  have "unix_sec (Time 0) < 65" by (simp add: unix_sec_def)
  from verify_sound [OF sample_accepted [OF t this]] t show ?thesis by blast
qed

text \<open>C30: a verifier that expects the issuer and the audience and has the issuer's public key for its
  key id accepts every token the issuer signs, until the expiry with the leeway has passed, and
  returns the claims that were signed, provided that the JSON conversions give the signed header
  and claims back and that the signature scheme accepts what it signed.\<close>

theorem sign_verify_roundtrip:
  assumes "NewIssuer cfg = Inr i" and "Issuer_Sign cd i t0 si = Inr token"
    and "c = token_claims_of i t0
           (if si_TTL si \<le> 0 then si \<lparr> si_TTL := ic_DefaultTTL (is_cfg i) \<rparr> else si)"
    and "cd_parse_header cd (cd_header_json cd (token_header i)) = Some (token_header i)"
    and "cd_parse_claims cd (cd_claims_json cd c) = Some c"
    and "\<And>m. cd_verify cd (is_domainPub i) m (cd_sign cd (ic_DomainKey (is_cfg i)) m)"
    and "vf_Resolver v (ic_KeyID (is_cfg i)) = Inr (is_domainPub i)"
    and "vf_ExpectedIssuer v = ic_Issuer (is_cfg i)" and "vf_ExpectedAudience v = si_Audience si"
    and "unix_sec now < s64 (jc_ExpiresAt c + vf_LeewaySeconds v)"
  shows "Verifier_Verify cd v now token = Return (Inr (claims_view (token_header i) c))"
  using assms by (rule verify_signed)

theorem sign_verify_roundtrip_witness:
  "\<exists>token. Issuer_Sign sample_codec sample_issuer (Time 0) sample_sign = Inr token
     \<and> Verifier_Verify sample_codec sample_verifier (Time (64 * second)) token
       = Return (Inr (claims_view (token_header sample_issuer) sample_claims))"
proof -
  obtain token where t: "Issuer_Sign sample_codec sample_issuer (Time 0) sample_sign = Inr token"
    using sample_token by blast
  have "Verifier_Verify sample_codec sample_verifier (Time (64 * second)) token
      = Return (Inr (claims_view (token_header sample_issuer) sample_claims))"
    by (rule sign_verify_roundtrip [OF sample_issuer_new t])
      (simp_all add: sample_claims_def sample_codec_def sample_verifier_def sample_issuer_def
        sample_sign_def token_claims_of_def token_header_def MapKeyResolver_def unix_sec_def)
  with t show ?thesis by blast
qed

end
