(* ===== verification/CacheStore.thy ===== *)
theory CacheStore
  imports AgentPrelude
begin

text \<open>
  The cache, \<open>src/internal/cache/interface.go\<close> and \<open>redis.go\<close>: the operations that the
  revocation list, the handshake and the limiters use, and their implementation over the Redis
  client library.

  The library is not part of the repository: \<open>redis_client\<close> holds its commands as functions of
  the time at which the server runs them and of the server's state, and \<open>redis_laws\<close> states what
  the Redis documentation says of them, in terms of \<open>look w t k\<close>: what a \<open>GET\<close> of the key \<open>k\<close>
  would answer at the time \<open>t\<close> if no other command came first. Closing the connection is left out.
\<close>

section \<open>The interface\<close>

abbreviation ErrMiss :: go_error where "ErrMiss \<equiv> Sentinel ''cache: miss''"
abbreviation RedisNil :: go_error where "RedisNil \<equiv> Sentinel ''redis: nil''"

record 'w kv_cache =
  kc_Get :: "time \<Rightarrow> string \<Rightarrow> 'w \<Rightarrow> go_error + string"
  kc_Set :: "time \<Rightarrow> string \<Rightarrow> string \<Rightarrow> duration \<Rightarrow> 'w \<Rightarrow> go_error option \<times> 'w"
  kc_Del :: "time \<Rightarrow> string list \<Rightarrow> 'w \<Rightarrow> go_error option \<times> 'w"
  kc_Exists :: "time \<Rightarrow> string \<Rightarrow> 'w \<Rightarrow> go_error + bool"
  kc_Expire :: "time \<Rightarrow> string \<Rightarrow> duration \<Rightarrow> 'w \<Rightarrow> go_error option \<times> 'w"
  kc_Incr :: "time \<Rightarrow> string \<Rightarrow> duration \<Rightarrow> 'w \<Rightarrow> (go_error + int) \<times> 'w"
  kc_StoreOnce :: "time \<Rightarrow> string \<Rightarrow> string \<Rightarrow> duration \<Rightarrow> 'w \<Rightarrow> go_error option \<times> 'w"

section \<open>The Redis implementation\<close>

record 'w redis_client =
  rd_Get :: "time \<Rightarrow> string \<Rightarrow> 'w \<Rightarrow> go_error + string"
  rd_Set :: "time \<Rightarrow> string \<Rightarrow> string \<Rightarrow> duration \<Rightarrow> 'w \<Rightarrow> go_error option \<times> 'w"
  rd_Del :: "time \<Rightarrow> string list \<Rightarrow> 'w \<Rightarrow> go_error option \<times> 'w"
  rd_Exists :: "time \<Rightarrow> string \<Rightarrow> 'w \<Rightarrow> go_error + int"
  rd_Expire :: "time \<Rightarrow> string \<Rightarrow> duration \<Rightarrow> 'w \<Rightarrow> go_error option \<times> 'w"
  rd_Incr :: "time \<Rightarrow> string \<Rightarrow> 'w \<Rightarrow> (go_error + int) \<times> 'w"
  rd_ExpireNX :: "time \<Rightarrow> string \<Rightarrow> duration \<Rightarrow> 'w \<Rightarrow> go_error option \<times> 'w"
  rd_SetNX :: "time \<Rightarrow> string \<Rightarrow> string \<Rightarrow> duration \<Rightarrow> 'w \<Rightarrow> (go_error + bool) \<times> 'w"
  rd_Ping :: "'w \<Rightarrow> go_error option"

record redis_config =
  rc_Addr :: string
  rc_Password :: string
  rc_DB :: int
  rc_Timeout :: duration

definition redis_Get :: "'w redis_client \<Rightarrow> time \<Rightarrow> string \<Rightarrow> 'w \<Rightarrow> go_error + string" where
  "redis_Get r now k w =
     (case rd_Get r now k w of
        Inl e \<Rightarrow> if errors_is e RedisNil then Inl ErrMiss else Inl e
      | Inr v \<Rightarrow> Inr v)"

definition redis_Del :: "'w redis_client \<Rightarrow> time \<Rightarrow> string list \<Rightarrow> 'w \<Rightarrow> go_error option \<times> 'w" where
  "redis_Del r now ks w = (if ks = [] then (None, w) else rd_Del r now ks w)"

definition redis_Exists :: "'w redis_client \<Rightarrow> time \<Rightarrow> string \<Rightarrow> 'w \<Rightarrow> go_error + bool" where
  "redis_Exists r now k w = (case rd_Exists r now k w of Inl e \<Rightarrow> Inl e | Inr n \<Rightarrow> Inr (0 < n))"

text \<open>The pipeline runs both commands; \<open>Exec\<close> returns the first error of a command.\<close>

definition redis_Incr ::
  "'w redis_client \<Rightarrow> time \<Rightarrow> string \<Rightarrow> duration \<Rightarrow> 'w \<Rightarrow> (go_error + int) \<times> 'w" where
  "redis_Incr r now k ttl w =
     (let (res, w1) = rd_Incr r now k w; (err, w2) = rd_ExpireNX r now k ttl w1
      in (case res of
            Inl e \<Rightarrow> (Inl e, w2)
          | Inr n \<Rightarrow> (case err of Some e \<Rightarrow> (Inl e, w2) | None \<Rightarrow> (Inr n, w2))))"

definition redis_StoreOnce ::
  "'w redis_client \<Rightarrow> time \<Rightarrow> string \<Rightarrow> string \<Rightarrow> duration \<Rightarrow> 'w \<Rightarrow> go_error option \<times> 'w" where
  "redis_StoreOnce r now k v ttl w =
     (case rd_SetNX r now k v ttl w of
        (Inl e, w') \<Rightarrow> (Some e, w')
      | (Inr ok, w') \<Rightarrow>
          (if \<not> ok then (Some (Errorf ''cache: key %q already exists'' []), w') else (None, w')))"

definition redisCache :: "'w redis_client \<Rightarrow> 'w kv_cache" where
  "redisCache r =
     \<lparr> kc_Get = redis_Get r, kc_Set = rd_Set r, kc_Del = redis_Del r, kc_Exists = redis_Exists r,
       kc_Expire = rd_Expire r, kc_Incr = redis_Incr r, kc_StoreOnce = redis_StoreOnce r \<rparr>"

text \<open>\<open>dial\<close> is \<open>redis.NewClient\<close>.\<close>

definition NewRedis ::
  "(redis_config \<Rightarrow> 'w redis_client) \<Rightarrow> redis_config \<Rightarrow> 'w \<Rightarrow> go_error + 'w kv_cache" where
  "NewRedis dial cfg w =
     (if rc_Addr cfg = [] then Inl (Sentinel ''cache: redis addr is empty'')
      else
        (let cfg' = (if rc_Timeout cfg = 0 then cfg \<lparr> rc_Timeout := 3 * second \<rparr> else cfg);
             c = dial cfg'
         in (case rd_Ping c w of
               Some e \<Rightarrow> Inl (Errorf ''cache: redis ping %s: %w'' [e])
             | None \<Rightarrow> Inr (redisCache c))))"

section \<open>Decimal numbers\<close>

definition dec_value :: "string \<Rightarrow> nat" where
  "dec_value s = foldl (\<lambda>n c. 10 * n + hex_val c) 0 s"

lemma hex_val_digit: "d < 10 \<Longrightarrow> hex_val (digit_char d) = d"
proof -
  assume "d < 10"
  then have "d \<in> set [0..<10]" by simp
  then show ?thesis by (auto simp: upt_rec hex_val_def digit_char_def)
qed

lemma dec_value_dec: "dec_value (dec_of_nat n) = n"
proof (induction n rule: dec_of_nat.induct)
  case (1 n)
  then show ?case
    by (subst dec_of_nat.simps) (auto simp: dec_value_def hex_val_digit)
qed

lemma dec_of_nat_inject: "dec_of_nat m = dec_of_nat n \<longleftrightarrow> m = n"
  using dec_value_dec by metis

lemma dec_of_nat_no_minus: "CHR ''-'' \<notin> set (dec_of_nat n)"
proof (induction n rule: dec_of_nat.induct)
  case (1 n)
  have "digit_char d \<noteq> CHR ''-''" for d
    using is_hex_digit_char [of d] by (auto simp: is_hex_char_def)
  then show ?case
    using 1 by (subst dec_of_nat.simps) (auto simp: eq_commute [of "CHR ''-''"])
qed

lemma dec_of_int_inject [simp]: "dec_of_int i = dec_of_int j \<longleftrightarrow> i = j"
proof -
  have "dec_of_nat n \<noteq> CHR ''-'' # s" for n s
    using dec_of_nat_no_minus [of n] by auto
  then show ?thesis
    by (auto simp: dec_of_int_def dec_of_nat_inject dest: sym)
qed

section \<open>The contract of an expiring cache\<close>

text \<open>Lifetimes reach the server in milliseconds or, with \<open>EXPIRE\<close>, in seconds, at least one.\<close>

definition ttl_ms :: "duration \<Rightarrow> duration" where
  "ttl_ms d = max 1000000 (d div 1000000 * 1000000)"

definition ttl_sec :: "duration \<Rightarrow> duration" where
  "ttl_sec d = max second (d div second * second)"

lemma ttl_ms_bounds: "0 < d \<Longrightarrow> d - 1000000 < ttl_ms d" "0 < d \<Longrightarrow> 0 < ttl_ms d"
  by (auto simp: ttl_ms_def max_def minus_div_mult_eq_mod [symmetric] algebra_simps)

type_synonym 'w view = "'w \<Rightarrow> time \<Rightarrow> string \<Rightarrow> string option"

lemma ttl_ms_le: "1000000 \<le> d \<Longrightarrow> ttl_ms d \<le> d"
  by (simp add: ttl_ms_def minus_mod_eq_div_mult [symmetric])

definition until :: "time \<Rightarrow> string option \<Rightarrow> time \<Rightarrow> string option" where
  "until e x t = (if t < e then x else None)"

definition same_key :: "'w view \<Rightarrow> time \<Rightarrow> string \<Rightarrow> 'w \<Rightarrow> 'w \<Rightarrow> bool" where
  "same_key look now k w w' \<longleftrightarrow> (\<forall>t \<ge> now. look w' t k = look w t k)"

text \<open>A write of a key: the other keys stay, and when it succeeds the key holds the value.\<close>

definition wrote :: "'w view \<Rightarrow> time \<Rightarrow> string \<Rightarrow> (time \<Rightarrow> string option) \<Rightarrow> 'w \<Rightarrow> 'w \<Rightarrow> bool" where
  "wrote look now k f w w' \<longleftrightarrow> (\<forall>t \<ge> now. look w' t k = f t)"

definition bumped :: "'w view \<Rightarrow> time \<Rightarrow> string \<Rightarrow> int \<Rightarrow> 'w \<Rightarrow> time \<Rightarrow> string option" where
  "bumped look now k n w t = (if look w t k = None then None else Some (dec_of_int n))"

definition mortal :: "'w view \<Rightarrow> time \<Rightarrow> string \<Rightarrow> 'w \<Rightarrow> bool" where
  "mortal look now k w \<longleftrightarrow> (\<exists>t \<ge> now. look w t k = None)"

text \<open>A key that is there until some time.\<close>

definition held :: "'w view \<Rightarrow> 'w \<Rightarrow> time \<Rightarrow> string \<Rightarrow> time \<Rightarrow> bool" where
  "held look w now k e \<longleftrightarrow> (\<forall>t. now \<le> t \<and> t < e \<longrightarrow> look w t k \<noteq> None)"

lemma held_later: "held look w now k e \<Longrightarrow> now \<le> now' \<Longrightarrow> held look w now' k e"
  by (auto simp: held_def)

lemma held_same: "same_key look now k w w' \<Longrightarrow> held look w now k e \<Longrightarrow> held look w' now k e"
  by (auto simp: held_def same_key_def)

locale expiring_cache =
  fixes c :: "'w kv_cache" and look :: "'w view"
  assumes get_hit: "kc_Get c now k w = Inr v \<Longrightarrow> look w now k = Some v"
    and get_miss: "kc_Get c now k w = Inl ErrMiss \<Longrightarrow> look w now k = None"
    and exists_spec: "kc_Exists c now k w = Inr b \<Longrightarrow> b \<longleftrightarrow> look w now k \<noteq> None"
    and set_other: "kc_Set c now k v ttl w = (err, w') \<Longrightarrow> k' \<noteq> k \<Longrightarrow> same_key look now k' w w'"
    and set_done: "0 < ttl \<Longrightarrow> kc_Set c now k v ttl w = (None, w')
      \<Longrightarrow> wrote look now k (until (time_add now (ttl_ms ttl)) (Some v)) w w'"
    and set_failed: "0 < ttl \<Longrightarrow> kc_Set c now k v ttl w = (Some e, w')
      \<Longrightarrow> same_key look now k w w'
         \<or> wrote look now k (until (time_add now (ttl_ms ttl)) (Some v)) w w'"
    and del_other: "kc_Del c now ks w = (err, w') \<Longrightarrow> k' \<notin> set ks \<Longrightarrow> same_key look now k' w w'"
    and del_done: "kc_Del c now ks w = (None, w') \<Longrightarrow> k \<in> set ks
      \<Longrightarrow> wrote look now k (\<lambda>_. None) w w'"
    and incr_other: "kc_Incr c now k ttl w = (res, w') \<Longrightarrow> k' \<noteq> k \<Longrightarrow> same_key look now k' w w'"
    and incr_new: "0 < ttl \<Longrightarrow> kc_Incr c now k ttl w = (Inr n, w') \<Longrightarrow> look w now k = None
      \<Longrightarrow> n = 1 \<and> wrote look now k (until (time_add now (ttl_sec ttl)) (Some (dec_of_int 1))) w w'"
    and incr_old: "0 < ttl \<Longrightarrow> kc_Incr c now k ttl w = (Inr n, w') \<Longrightarrow> look w now k = Some v
      \<Longrightarrow> mortal look now k w
      \<Longrightarrow> v = dec_of_int (n - 1) \<and> wrote look now k (bumped look now k n w) w w'"
begin

lemma held_exists: "held look w now k e \<Longrightarrow> now < e \<Longrightarrow> kc_Exists c now k w = Inr b \<Longrightarrow> b"
  using exists_spec [of now k w b] by (simp add: held_def)

lemma held_set: "0 < ttl \<Longrightarrow> kc_Set c now k v ttl w = (None, w') \<Longrightarrow> held look w' now k (time_add now (ttl_ms ttl))"
  using set_done by (fastforce simp: held_def wrote_def until_def)

text \<open>Writing the key again does not shorten its life when the new life is as long.\<close>

lemma held_set_again:
  assumes "0 < ttl" and "kc_Set c now k' v ttl w = (err, w')" and "held look w now k e"
    and "k' = k \<Longrightarrow> e \<le> time_add now (ttl_ms ttl)"
  shows "held look w' now k e"
proof (cases "k' = k")
  case False
  with assms set_other show ?thesis by (metis held_same)
next
  case True
  show ?thesis
  proof (cases err)
    case None
    with held_set assms(1,2) True have "held look w' now k (time_add now (ttl_ms ttl))" by blast
    with assms(4) True show ?thesis by (auto simp: held_def)
  next
    case (Some a)
    with set_failed assms(1,2) True have "same_key look now k w w'
      \<or> wrote look now k (until (time_add now (ttl_ms ttl)) (Some v)) w w'" by blast
    with assms(3,4) True show ?thesis
      by (auto simp: held_def wrote_def until_def same_key_def)
  qed
qed

text \<open>What a read gives while the written value lives.\<close>

lemma set_then_get:
  assumes "kc_Set c now k v ttl w = (None, w')" and "0 < ttl"
    and "now \<le> t" and "t < time_add now (ttl_ms ttl)" and "kc_Get c t k w' = Inr raw"
  shows "raw = v"
  using set_done [OF assms(2,1)] get_hit [OF assms(5)] assms(3,4) by (simp add: wrote_def until_def)

text \<open>A deleted key is a miss.\<close>

lemma del_gone:
  assumes "kc_Del c now ks w = (None, w')" and "k \<in> set ks" and "now \<le> t"
  shows "kc_Get c t k w' \<noteq> Inr v"
  using del_done [OF assms(1,2)] assms(3) get_hit by (fastforce simp: wrote_def)

text \<open>Counting: the value that an increment leaves, and the next one.\<close>

lemma incr_step:
  assumes "0 < ttl" and "kc_Incr c now k ttl w = (Inr n, w')"
    and "\<And>t. now \<le> t \<Longrightarrow> look w t k = until e (Some (dec_of_int m)) t" and "now < e"
  shows "n = m + 1 \<and> (\<forall>t. now \<le> t \<longrightarrow> look w' t k = until e (Some (dec_of_int n)) t)"
proof -
  have v: "look w now k = Some (dec_of_int m)" using assms(3,4) by (simp add: until_def)
  have "mortal look now k w"
    using assms(3) [of e] assms(4) by (auto simp: mortal_def until_def intro!: exI [of _ e])
  from incr_old [OF assms(1,2) v this] have "dec_of_int m = dec_of_int (n - 1)"
    and "wrote look now k (bumped look now k n w) w w'" by auto
  with assms(3) show ?thesis
    by (auto simp: wrote_def bumped_def until_def)
qed

end

section \<open>What Redis promises\<close>

definition redis_laws :: "'w redis_client \<Rightarrow> 'w view \<Rightarrow> bool" where
  "redis_laws r look \<longleftrightarrow>
     (\<forall>now k w v. rd_Get r now k w = Inr v \<longrightarrow> look w now k = Some v)
   \<and> (\<forall>now k w e. rd_Get r now k w = Inl e \<and> errors_is e RedisNil \<longrightarrow> look w now k = None)
   \<and> (\<forall>now k w e. rd_Get r now k w = Inl e \<longrightarrow> e \<noteq> ErrMiss)
   \<and> (\<forall>now k w n. rd_Exists r now k w = Inr n \<longrightarrow> (0 < n \<longleftrightarrow> look w now k \<noteq> None))
   \<and> (\<forall>now k v ttl w err w' k'. rd_Set r now k v ttl w = (err, w') \<and> k' \<noteq> k
        \<longrightarrow> same_key look now k' w w')
   \<and> (\<forall>now k v ttl w err w'. 0 < ttl \<and> rd_Set r now k v ttl w = (err, w')
        \<longrightarrow> err \<noteq> None \<and> same_key look now k w w'
          \<or> wrote look now k (until (time_add now (ttl_ms ttl)) (Some v)) w w')
   \<and> (\<forall>now ks w err w' k. rd_Del r now ks w = (err, w') \<and> k \<notin> set ks
        \<longrightarrow> same_key look now k w w')
   \<and> (\<forall>now ks w w' k. rd_Del r now ks w = (None, w') \<and> k \<in> set ks
        \<longrightarrow> wrote look now k (\<lambda>_. None) w w')
   \<and> (\<forall>now k w res w' k'. rd_Incr r now k w = (res, w') \<and> k' \<noteq> k \<longrightarrow> same_key look now k' w w')
   \<and> (\<forall>now k w n w'. rd_Incr r now k w = (Inr n, w') \<and> look w now k = None
        \<longrightarrow> n = 1 \<and> wrote look now k (\<lambda>_. Some (dec_of_int 1)) w w')
   \<and> (\<forall>now k w n w' v. rd_Incr r now k w = (Inr n, w') \<and> look w now k = Some v
        \<longrightarrow> v = dec_of_int (n - 1) \<and> wrote look now k (bumped look now k n w) w w')
   \<and> (\<forall>now k ttl w err w' k'. rd_ExpireNX r now k ttl w = (err, w') \<and> k' \<noteq> k
        \<longrightarrow> same_key look now k' w w')
   \<and> (\<forall>now k ttl w w'. 0 < ttl \<and> rd_ExpireNX r now k ttl w = (None, w')
        \<longrightarrow> (if mortal look now k w then same_key look now k w w'
           else wrote look now k (\<lambda>t. until (time_add now (ttl_sec ttl)) (look w t k) t) w w'))"

lemma same_key_trans:
  "same_key look now k w w1 \<Longrightarrow> same_key look now k w1 w2 \<Longrightarrow> same_key look now k w w2"
  by (simp add: same_key_def)

lemma redis_laws_D:
  assumes "redis_laws r look"
  shows "rd_Get r now k w = Inr v \<Longrightarrow> look w now k = Some v"
    and "rd_Get r now k w = Inl e \<Longrightarrow> errors_is e RedisNil \<Longrightarrow> look w now k = None"
    and "rd_Get r now k w = Inl e \<Longrightarrow> e \<noteq> ErrMiss"
    and "rd_Exists r now k w = Inr n \<Longrightarrow> (0 < n) = (look w now k \<noteq> None)"
    and "rd_Set r now k v ttl w = (err, w') \<Longrightarrow> k' \<noteq> k \<Longrightarrow> same_key look now k' w w'"
    and "rd_Set r now k v ttl w = (err, w') \<Longrightarrow> 0 < ttl \<Longrightarrow> err \<noteq> None \<and> same_key look now k w w'
      \<or> wrote look now k (until (time_add now (ttl_ms ttl)) (Some v)) w w'"
    and "rd_Del r now ks w = (err, w') \<Longrightarrow> k \<notin> set ks \<Longrightarrow> same_key look now k w w'"
    and "rd_Del r now ks w = (None, w') \<Longrightarrow> k \<in> set ks \<Longrightarrow> wrote look now k (\<lambda>_. None) w w'"
    and "rd_Incr r now k w = (res, w') \<Longrightarrow> k' \<noteq> k \<Longrightarrow> same_key look now k' w w'"
    and "rd_Incr r now k w = (Inr n, w') \<Longrightarrow> look w now k = None
      \<Longrightarrow> n = 1 \<and> wrote look now k (\<lambda>_. Some (dec_of_int 1)) w w'"
    and "rd_Incr r now k w = (Inr n, w') \<Longrightarrow> look w now k = Some v
      \<Longrightarrow> v = dec_of_int (n - 1) \<and> wrote look now k (bumped look now k n w) w w'"
    and "rd_ExpireNX r now k ttl w = (err, w') \<Longrightarrow> k' \<noteq> k \<Longrightarrow> same_key look now k' w w'"
    and "rd_ExpireNX r now k ttl w = (None, w') \<Longrightarrow> 0 < ttl
      \<Longrightarrow> (if mortal look now k w then same_key look now k w w'
          else wrote look now k (\<lambda>t. until (time_add now (ttl_sec ttl)) (look w t k) t) w w')"
  using assms unfolding redis_laws_def by (elim conjE, simp del: not_None_eq)+

text \<open>The implementation keeps the contract of the interface.\<close>

lemma redis_Incr_parts:
  "redis_Incr r now k ttl w = (res, w') \<Longrightarrow>
     \<exists>res' w1 err. rd_Incr r now k w = (res', w1) \<and> rd_ExpireNX r now k ttl w1 = (err, w')
       \<and> (\<forall>n. res = Inr n \<longrightarrow> res' = Inr n \<and> err = None)"
  by (auto simp: redis_Incr_def split: prod.splits sum.splits option.splits)

lemma redis_cache_expiring:
  assumes "redis_laws r look"
  shows "expiring_cache (redisCache r) look"
proof -
  note law = redis_laws_D [OF assms]
  show ?thesis
  proof
    fix now k w v
    assume "kc_Get (redisCache r) now k w = Inr v"
    then have "rd_Get r now k w = Inr v"
      by (auto simp: redisCache_def redis_Get_def split: sum.splits if_splits)
    then show "look w now k = Some v" by (rule law(1))
  next
    fix now k w
    assume "kc_Get (redisCache r) now k w = Inl ErrMiss"
    then obtain e where e: "rd_Get r now k w = Inl e" "\<not> errors_is e RedisNil \<longrightarrow> e = ErrMiss"
      by (auto simp: redisCache_def redis_Get_def split: sum.splits if_splits)
    with law(3) [OF e(1)] law(2) [OF e(1)] show "look w now k = None" by blast
  next
    fix now k w b
    assume "kc_Exists (redisCache r) now k w = Inr b"
    then obtain n where n: "rd_Exists r now k w = Inr n" "b = (0 < n)"
      by (auto simp: redisCache_def redis_Exists_def split: sum.splits)
    with law(4) [OF n(1)] show "b = (look w now k \<noteq> None)" by blast
  next
    fix now k v ttl w err w' k'
    assume "kc_Set (redisCache r) now k v ttl w = (err, w')" "k' \<noteq> k"
    then show "same_key look now k' w w'" using law(5) by (simp add: redisCache_def)
  next
    fix ttl :: duration and now k v w w'
    assume "0 < ttl" "kc_Set (redisCache r) now k v ttl w = (None, w')"
    then show "wrote look now k (until (time_add now (ttl_ms ttl)) (Some v)) w w'"
      using law(6) [of now k v ttl w None w'] by (simp add: redisCache_def)
  next
    fix ttl :: duration and now k v w e w'
    assume "0 < ttl" "kc_Set (redisCache r) now k v ttl w = (Some e, w')"
    then show "same_key look now k w w'
        \<or> wrote look now k (until (time_add now (ttl_ms ttl)) (Some v)) w w'"
      using law(6) [of now k v ttl w "Some e" w'] by (simp add: redisCache_def)
  next
    fix now ks w err w' k'
    assume "kc_Del (redisCache r) now ks w = (err, w')" "k' \<notin> set ks"
    then show "same_key look now k' w w'"
      using law(7) by (auto simp: redisCache_def redis_Del_def same_key_def split: if_splits)
  next
    fix now ks w w' k
    assume "kc_Del (redisCache r) now ks w = (None, w')" "k \<in> set ks"
    then have "rd_Del r now ks w = (None, w')" by (auto simp: redisCache_def redis_Del_def split: if_splits)
    from law(8) [OF this \<open>k \<in> set ks\<close>] show "wrote look now k (\<lambda>_. None) w w'" .
  next
    fix now k ttl w res w' k'
    assume "kc_Incr (redisCache r) now k ttl w = (res, w')" and k: "k' \<noteq> k"
    then have "redis_Incr r now k ttl w = (res, w')" by (simp add: redisCache_def)
    from redis_Incr_parts [OF this] obtain res' w1 err
      where "rd_Incr r now k w = (res', w1)" "rd_ExpireNX r now k ttl w1 = (err, w')" by blast
    with law(9) law(12) k show "same_key look now k' w w'" by (blast intro: same_key_trans)
  next
    fix ttl :: duration and now k w n w'
    assume ttl: "0 < ttl" and inc: "kc_Incr (redisCache r) now k ttl w = (Inr n, w')"
      and new: "look w now k = None"
    have "redis_Incr r now k ttl w = (Inr n, w')" using inc by (simp add: redisCache_def)
    from redis_Incr_parts [OF this] obtain w1 where
      r1: "rd_Incr r now k w = (Inr n, w1)" and r2: "rd_ExpireNX r now k ttl w1 = (None, w')" by blast
    from law(10) [OF r1 new] have n: "n = 1" and w1: "wrote look now k (\<lambda>_. Some (dec_of_int 1)) w w1"
      by auto
    have "\<not> mortal look now k w1" using w1 by (simp add: mortal_def wrote_def)
    with law(13) [OF r2 ttl] w1 n
    show "n = 1 \<and> wrote look now k (until (time_add now (ttl_sec ttl)) (Some (dec_of_int 1))) w w'"
      by (simp add: wrote_def)
  next
    fix ttl :: duration and now k w n w' v
    assume ttl: "0 < ttl" and inc: "kc_Incr (redisCache r) now k ttl w = (Inr n, w')"
      and old: "look w now k = Some v" and m: "mortal look now k w"
    have "redis_Incr r now k ttl w = (Inr n, w')" using inc by (simp add: redisCache_def)
    from redis_Incr_parts [OF this] obtain w1 where
      r1: "rd_Incr r now k w = (Inr n, w1)" and r2: "rd_ExpireNX r now k ttl w1 = (None, w')" by blast
    from law(11) [OF r1 old] have v: "v = dec_of_int (n - 1)"
      and w1: "wrote look now k (bumped look now k n w) w w1" by auto
    have "mortal look now k w1"
      using w1 m by (auto simp: mortal_def wrote_def bumped_def)
    with law(13) [OF r2 ttl] w1 v
    show "v = dec_of_int (n - 1) \<and> wrote look now k (bumped look now k n w) w w'"
      by (simp add: wrote_def same_key_def bumped_def)
  qed
qed

text \<open>
  A key that a caller deletes without a look at the answer: it is gone if the cache confirmed, over
  every Redis that keeps its laws.
\<close>

definition used_up :: "'w kv_cache \<Rightarrow> time \<Rightarrow> string \<Rightarrow> 'w \<Rightarrow> 'w \<Rightarrow> bool" where
  "used_up kc now k w w' \<longleftrightarrow> w' = snd (kc_Del kc now [k] w)
     \<and> (fst (kc_Del kc now [k] w) = None \<longrightarrow>
          (\<forall>r look t. kc = redisCache r \<longrightarrow> redis_laws r look \<longrightarrow> now \<le> t \<longrightarrow> look w' t k = None))"

lemma used_upI:
  assumes "w' = snd (kc_Del kc now [k] w)"
  shows "used_up kc now k w w'"
  unfolding used_up_def
proof (intro conjI impI allI)
  fix r look t
  assume d: "fst (kc_Del kc now [k] w) = None" and r: "kc = redisCache r" "redis_laws r look" "now \<le> t"
  have "kc_Del (redisCache r) now [k] w = (None, w')" using d assms r(1) by (simp add: prod_eq_iff)
  from expiring_cache.del_done [OF redis_cache_expiring [OF r(2)] this]
  have "wrote look now k (\<lambda>_. None) w w'" by simp
  with r(3) show "look w' t k = None" by (simp add: wrote_def)
qed (rule assms)

section \<open>A Redis server\<close>

text \<open>A server that keeps its keys in a list, each with a value and an optional expiry.\<close>

type_synonym redis_state = "(string \<times> string \<times> time option) list"

definition live :: "time \<Rightarrow> string \<times> time option \<Rightarrow> bool" where
  "live t e \<longleftrightarrow> (case snd e of None \<Rightarrow> True | Some x \<Rightarrow> t < x)"

definition redis_look :: "redis_state view" where
  "redis_look w t k =
     (case map_of w k of Some e \<Rightarrow> if live t e then Some (fst e) else None | None \<Rightarrow> None)"

definition parse_dec :: "string \<Rightarrow> int option" where
  "parse_dec s =
     (let i = (if starts_with ''-'' s then - int (dec_value (tl s)) else int (dec_value s))
      in if dec_of_int i = s then Some i else None)"

definition ErrNotInteger :: go_error where
  "ErrNotInteger = Sentinel ''ERR value is not an integer or out of range''"

definition server_Incr :: "time \<Rightarrow> string \<Rightarrow> redis_state \<Rightarrow> (go_error + int) \<times> redis_state" where
  "server_Incr now k w =
     (case redis_look w now k of
        None \<Rightarrow> (Inr 1, AList.update k (dec_of_int 1, None) w)
      | Some v \<Rightarrow>
          (case parse_dec v of
             None \<Rightarrow> (Inl ErrNotInteger, w)
           | Some i \<Rightarrow>
               (Inr (i + 1), AList.update k (dec_of_int (i + 1), snd (the (map_of w k))) w)))"

definition server_ExpireNX ::
  "time \<Rightarrow> string \<Rightarrow> duration \<Rightarrow> redis_state \<Rightarrow> go_error option \<times> redis_state" where
  "server_ExpireNX now k ttl w =
     (None, case map_of w k of
              Some (v, None) \<Rightarrow> AList.update k (v, Some (time_add now (ttl_sec ttl))) w
            | _ \<Rightarrow> w)"

definition redis_server :: "redis_state redis_client" where
  "redis_server =
     \<lparr> rd_Get = (\<lambda>now k w. case redis_look w now k of None \<Rightarrow> Inl RedisNil | Some v \<Rightarrow> Inr v),
       rd_Set = (\<lambda>now k v ttl w.
          (None, AList.update k (v, if ttl = 0 then None else Some (time_add now (ttl_ms ttl))) w)),
       rd_Del = (\<lambda>now ks w. (None, filter (\<lambda>e. fst e \<notin> set ks) w)),
       rd_Exists = (\<lambda>now k w. Inr (if redis_look w now k = None then 0 else 1)),
       rd_Expire = (\<lambda>now k ttl w. (None, case redis_look w now k of None \<Rightarrow> w
          | Some v \<Rightarrow> AList.update k (v, Some (time_add now (ttl_sec ttl))) w)),
       rd_Incr = server_Incr,
       rd_ExpireNX = server_ExpireNX,
       rd_SetNX = (\<lambda>now k v ttl w. case redis_look w now k of
            None \<Rightarrow> (Inr True, AList.update k (v, Some (time_add now (ttl_ms ttl))) w)
          | Some _ \<Rightarrow> (Inr False, w)),
       rd_Ping = (\<lambda>_. None) \<rparr>"

lemma map_of_filter_keys: "map_of (filter (\<lambda>e. fst e \<notin> ks) w) k = (if k \<in> ks then None else map_of w k)"
  by (induction w) auto

lemma redis_look_later: "redis_look w t k = Some v \<Longrightarrow> now \<le> t \<Longrightarrow> redis_look w now k = Some v"
  by (auto simp: redis_look_def live_def split: option.splits if_splits)

lemma redis_server_laws: "redis_laws redis_server redis_look"
  unfolding redis_laws_def
proof (intro conjI allI impI; (elim conjE)?)
  fix now k w n w' v
  assume i: "rd_Incr redis_server now k w = (Inr n, w')" and v: "redis_look w now k = Some v"
  then obtain i where p: "parse_dec v = Some i" and n: "n = i + 1"
    and w': "w' = AList.update k (dec_of_int n, snd (the (map_of w k))) w"
    by (auto simp: redis_server_def server_Incr_def split: option.splits)
  show "v = dec_of_int (n - 1)"
    using p n by (auto simp: parse_dec_def Let_def split: if_splits)
  obtain x where x: "map_of w k = Some (v, x)" "live now (v, x)"
    using v by (auto simp: redis_look_def split: option.splits if_splits)
  show "wrote redis_look now k (bumped redis_look now k n w) w w'"
    unfolding w' by (auto simp: wrote_def bumped_def redis_look_def x live_def split: option.splits)
next
  fix now k ttl w w'
  assume "0 < ttl" "rd_ExpireNX redis_server now k ttl w = (None, w')"
  then have w': "w' = snd (server_ExpireNX now k ttl w)" by (simp add: redis_server_def)
  show "if mortal redis_look now k w then same_key redis_look now k w w'
    else wrote redis_look now k
       (\<lambda>t. until (time_add now (ttl_sec ttl)) (redis_look w t k) t) w w'"
  proof (cases "map_of w k")
    case None
    then have "mortal redis_look now k w" by (auto simp: mortal_def redis_look_def)
    then show ?thesis using None by (simp add: w' server_ExpireNX_def same_key_def)
  next
    case (Some e)
    obtain v x where e: "e = (v, x)" by (cases e)
    show ?thesis
    proof (cases x)
      case None
      then have "\<not> mortal redis_look now k w"
        using Some e by (simp add: mortal_def redis_look_def live_def)
      then show ?thesis
        using Some e None by (simp add: w' server_ExpireNX_def wrote_def until_def redis_look_def live_def)
    next
      case (Some y)
      then have "mortal redis_look now k w"
        using \<open>map_of w k = Some e\<close> e
        by (auto simp: mortal_def redis_look_def live_def intro!: exI [of _ "max now y"])
      then show ?thesis
        using \<open>map_of w k = Some e\<close> e Some by (simp add: w' server_ExpireNX_def same_key_def)
    qed
  qed
qed (auto simp: redis_server_def redis_look_def live_def server_Incr_def server_ExpireNX_def
      same_key_def wrote_def until_def map_of_filter_keys split: option.splits if_splits)

interpretation rc: expiring_cache "redisCache redis_server" redis_look
  by (rule redis_cache_expiring [OF redis_server_laws])

end
