(* ===== verification/A2ARevocation.thy ===== *)
theory A2ARevocation
  imports A2AToken CacheStore
begin

text \<open>
  The revocation list of \<open>src/internal/authz/a2a/revocation.go\<close>: markers in the cache and the
  index in memory of the tokens of each agent.

  The two Go maps of the index are association lists; their order is the order in which the
  code happens to iterate. The clock and the cache's server read the same time, \<open>now\<close>.
\<close>

section \<open>The revoker\<close>

abbreviation ErrJTIRequired :: go_error where "ErrJTIRequired \<equiv> Sentinel ''a2a: jti required''"
abbreviation ErrCacheUnavailable :: go_error where
  "ErrCacheUnavailable \<equiv> Sentinel ''a2a: cache unavailable''"
abbreviation ErrEmptyAgentUuid :: go_error where
  "ErrEmptyAgentUuid \<equiv> Sentinel ''a2a: empty agent uuid''"

definition MaxRevocationTTL :: duration where
  "MaxRevocationTTL = 1 * hour"

record token_entry =
  te_agentUUID :: string
  te_expiresAt :: time

type_synonym token_index = "(string \<times> (string \<times> token_entry) list) list"

record 'w revoker_config =
  rg_Cache :: "'w kv_cache option"
  rg_MaxTTL :: duration
  rg_KeyPrefix :: string

record 'w revoker =
  rv_Cache :: "'w kv_cache"
  rv_MaxTTL :: duration
  rv_KeyPrefix :: string
  rv_index :: token_index

definition NewRevoker :: "'w revoker_config \<Rightarrow> go_error + 'w revoker" where
  "NewRevoker cfg =
     (case rg_Cache cfg of
        None \<Rightarrow> Inl ErrCacheUnavailable
      | Some c \<Rightarrow>
          Inr \<lparr> rv_Cache = c,
                rv_MaxTTL = (if rg_MaxTTL cfg \<le> 0 then MaxRevocationTTL else rg_MaxTTL cfg),
                rv_KeyPrefix = (if rg_KeyPrefix cfg = [] then ''a2a:revoked:'' else rg_KeyPrefix cfg),
                rv_index = [] \<rparr>)"

definition bucket_of :: "token_index \<Rightarrow> string \<Rightarrow> (string \<times> token_entry) list" where
  "bucket_of idx a = (case map_of idx a of None \<Rightarrow> [] | Some b \<Rightarrow> b)"

definition Revoker_Track ::
  "string \<Rightarrow> string \<Rightarrow> time \<Rightarrow> 'w revoker \<Rightarrow> go_error option \<times> 'w revoker" where
  "Revoker_Track a jti e rv =
     (if a = [] then (Some ErrEmptyAgentUuid, rv)
      else if jti = [] then (Some ErrJTIRequired, rv)
      else (None, rv \<lparr> rv_index := AList.update a
              (AList.update jti \<lparr> te_agentUUID = a, te_expiresAt = e \<rparr> (bucket_of (rv_index rv) a))
              (rv_index rv) \<rparr>))"

definition keyFor :: "'w revoker \<Rightarrow> string \<Rightarrow> string" where
  "keyFor rv jti = (if starts_with (rv_KeyPrefix rv) jti then jti else rv_KeyPrefix rv @ jti)"

fun untrack_index :: "string \<Rightarrow> token_index \<Rightarrow> token_index" where
  "untrack_index jti [] = []"
| "untrack_index jti ((a, b) # idx) =
     (if map_of b jti \<noteq> None
      then (let b' = AList.delete jti b
            in if b' = [] then untrack_index jti idx else (a, b') # untrack_index jti idx)
      else (a, b) # untrack_index jti idx)"

definition untrack :: "string \<Rightarrow> 'w revoker \<Rightarrow> 'w revoker" where
  "untrack jti rv = rv \<lparr> rv_index := untrack_index jti (rv_index rv) \<rparr>"

fun index_ttl :: "duration \<Rightarrow> string \<Rightarrow> time \<Rightarrow> token_index \<Rightarrow> duration" where
  "index_ttl m jti now [] = m"
| "index_ttl m jti now ((a, b) # idx) =
     (case map_of b jti of
        Some e \<Rightarrow>
          if \<not> is_zero_time (te_expiresAt e)
          then (let remaining = time_sub (te_expiresAt e) now
                in if m < remaining then m else remaining)
          else index_ttl m jti now idx
      | None \<Rightarrow> index_ttl m jti now idx)"

definition computeTTL :: "'w revoker \<Rightarrow> string \<Rightarrow> time \<Rightarrow> duration" where
  "computeTTL rv jti now = index_ttl (rv_MaxTTL rv) jti now (rv_index rv)"

definition Revoker_Revoke ::
  "time \<Rightarrow> string \<Rightarrow> 'w revoker \<times> 'w \<Rightarrow> go_error option \<times> 'w revoker \<times> 'w" where
  "Revoker_Revoke now jti = (\<lambda>(rv, w).
     if jti = [] then (Some ErrJTIRequired, rv, w)
     else
       (let ttl = computeTTL rv jti now in
        if ttl \<le> 0 then (None, untrack jti rv, w)
        else
          (case kc_Set (rv_Cache rv) now (keyFor rv jti) ''1'' ttl w of
             (Some e, w') \<Rightarrow> (Some (Errorf ''a2a: revoke set: %w'' [e]), rv, w')
           | (None, w') \<Rightarrow> (None, untrack jti rv, w'))))"

fun revoke_each ::
  "time \<Rightarrow> string list \<Rightarrow> 'w revoker \<times> 'w \<Rightarrow> (string list \<times> go_error option) \<times> 'w revoker \<times> 'w" where
  "revoke_each now [] s = (([], None), s)"
| "revoke_each now (j # js) s =
     (case Revoker_Revoke now j s of
        (Some e, s') \<Rightarrow> (case revoke_each now js s' of ((rs, _), s'') \<Rightarrow> ((rs, Some e), s''))
      | (None, s') \<Rightarrow> (case revoke_each now js s' of ((rs, err), s'') \<Rightarrow> ((j # rs, err), s'')))"

definition RevokeByAgent ::
  "time \<Rightarrow> string \<Rightarrow> 'w revoker \<times> 'w \<Rightarrow> (string list option \<times> go_error option) \<times> 'w revoker \<times> 'w" where
  "RevokeByAgent now a s =
     (if a = [] then ((None, Some ErrEmptyAgentUuid), s)
      else
        (case revoke_each now (map fst (bucket_of (rv_index (fst s)) a)) s of
           ((rs, err), s') \<Rightarrow> ((Some rs, err), s')))"

definition IsRevoked :: "'w revoker \<Rightarrow> time \<Rightarrow> string \<Rightarrow> 'w \<Rightarrow> bool" where
  "IsRevoked rv now jti w =
     (if jti = [] then False
      else case kc_Exists (rv_Cache rv) now (keyFor rv jti) w of Inl _ \<Rightarrow> False | Inr b \<Rightarrow> b)"

text \<open>\<open>None\<close> is the nil slice.\<close>

definition ActiveJTIs :: "'w revoker \<Rightarrow> string \<Rightarrow> string list option" where
  "ActiveJTIs rv a = map_option (map fst) (map_of (rv_index rv) a)"

definition expired_entry :: "time \<Rightarrow> token_entry \<Rightarrow> bool" where
  "expired_entry now e \<longleftrightarrow> \<not> is_zero_time (te_expiresAt e) \<and> \<not> now < te_expiresAt e"

fun gc_index :: "time \<Rightarrow> token_index \<Rightarrow> int \<times> token_index" where
  "gc_index now [] = (0, [])"
| "gc_index now ((a, b) # idx) =
     (let (n, idx') = gc_index now idx;
          b' = filter (\<lambda>(j, e). \<not> expired_entry now e) b;
          n' = n + int (length b) - int (length b')
      in (n', if b' = [] then idx' else (a, b') # idx'))"

definition Revoker_GC :: "time \<Rightarrow> 'w revoker \<Rightarrow> int \<times> 'w revoker" where
  "Revoker_GC now rv = (let (n, idx) = gc_index now (rv_index rv) in (n, rv \<lparr> rv_index := idx \<rparr>))"

section \<open>What the operations do to the index\<close>

definition tracked :: "token_index \<Rightarrow> string set" where
  "tracked idx = \<Union> ((\<lambda>(a, b). fst ` set b) ` set idx)"

lemma tracked_simps [simp]:
  "tracked [] = {}" "tracked ((a, b) # idx) = fst ` set b \<union> tracked idx"
  by (auto simp: tracked_def)

lemma fst_delete: "fst ` set (AList.delete k al) = fst ` set al - {k}"
  by (metis delete_keys set_map set_removeAll)

lemma fst_update: "fst ` set (AList.update k v al) = insert k (fst ` set al)"
  by (simp flip: dom_map_of_conv_image_fst)

lemma tracked_untrack: "tracked (untrack_index jti idx) = tracked idx - {jti}"
proof (induction jti idx rule: untrack_index.induct)
  case (2 jti a b idx)
  have "fst ` set b = {jti}" if "AList.delete jti b = []" "map_of b jti \<noteq> None"
    using that fst_delete [of jti b] by (auto simp: map_of_eq_None_iff)
  with 2 show ?case by (auto simp: Let_def fst_delete map_of_eq_None_iff)
qed simp

lemma tracked_bucket: "fst ` set (bucket_of idx a) \<subseteq> tracked idx"
  by (cases "map_of idx a") (force simp: bucket_of_def tracked_def dest: map_of_SomeD)+

lemma tracked_update: "tracked (AList.update a b idx) \<subseteq> fst ` set b \<union> tracked idx"
  by (induction idx) auto

lemma tracked_Track:
  "tracked (rv_index (snd (Revoker_Track a jti e rv))) \<subseteq> insert jti (tracked (rv_index rv))"
proof -
  have "tracked (AList.update a (AList.update jti x (bucket_of idx a)) idx) \<subseteq> insert jti (tracked idx)"
    for x idx
  proof -
    have "tracked (AList.update a (AList.update jti x (bucket_of idx a)) idx)
      \<subseteq> fst ` set (AList.update jti x (bucket_of idx a)) \<union> tracked idx" by (rule tracked_update)
    also have "\<dots> = insert jti (fst ` set (bucket_of idx a)) \<union> tracked idx" by (simp only: fst_update)
    also have "\<dots> \<subseteq> insert jti (tracked idx)" using tracked_bucket [of idx a] by blast
    finally show ?thesis .
  qed
  then show ?thesis by (simp add: Revoker_Track_def subset_insertI)
qed

lemma tracked_gc: "tracked (snd (gc_index now idx)) \<subseteq> tracked idx"
proof (induction now idx rule: gc_index.induct)
  case (2 now a b idx)
  then show ?case by (auto simp: Let_def case_prod_unfold)
qed simp

lemma revoker_fields [simp]:
  "rv_Cache (untrack jti rv) = rv_Cache rv" "rv_MaxTTL (untrack jti rv) = rv_MaxTTL rv"
  "rv_KeyPrefix (untrack jti rv) = rv_KeyPrefix rv"
  "rv_index (untrack jti rv) = untrack_index jti (rv_index rv)"
  "keyFor (untrack jti rv) = keyFor rv"
  by (auto simp: untrack_def keyFor_def)

lemma Track_fields [simp]:
  "rv_Cache (snd (Revoker_Track a jti e rv)) = rv_Cache rv"
  "rv_MaxTTL (snd (Revoker_Track a jti e rv)) = rv_MaxTTL rv"
  "rv_KeyPrefix (snd (Revoker_Track a jti e rv)) = rv_KeyPrefix rv"
  by (auto simp: Revoker_Track_def)

text \<open>A token outside the index gets the longest life, and none gets a longer one.\<close>

lemma computeTTL_untracked: "jti \<notin> tracked (rv_index rv) \<Longrightarrow> computeTTL rv jti now = rv_MaxTTL rv"
proof -
  have "jti \<notin> tracked idx \<Longrightarrow> index_ttl m jti now idx = m" for m idx
  proof (induction m jti now idx rule: index_ttl.induct)
    case (2 m jti now a b idx)
    then have "map_of b jti = None" by (auto simp: map_of_eq_None_iff)
    with 2 show ?case by simp
  qed simp
  then show "jti \<notin> tracked (rv_index rv) \<Longrightarrow> ?thesis" by (simp add: computeTTL_def)
qed

lemma computeTTL_le: "computeTTL rv jti now \<le> rv_MaxTTL rv"
proof -
  have "index_ttl m jti now idx \<le> m" for m idx
    by (induction m jti now idx rule: index_ttl.induct) (auto simp: Let_def split: option.splits)
  then show ?thesis by (simp add: computeTTL_def)
qed

lemma ttl_ms_mono: "d \<le> e \<Longrightarrow> ttl_ms d \<le> ttl_ms e"
  by (auto simp: ttl_ms_def max_def intro: zdiv_mono1 order.trans)

text \<open>Keys of ids that do not carry the prefix themselves are distinct.\<close>

definition plain_id :: "'w revoker \<Rightarrow> string \<Rightarrow> bool" where
  "plain_id rv j \<longleftrightarrow> \<not> starts_with (rv_KeyPrefix rv) j"

lemma keyFor_eq:
  "plain_id rv j \<Longrightarrow> keyFor rv j' = keyFor rv j \<Longrightarrow> j' = j \<or> \<not> plain_id rv j'"
  by (auto simp: plain_id_def keyFor_def)

section \<open>A revoked token stays revoked\<close>

text \<open>The marker of \<open>jti\<close> is in the cache until \<open>e\<close>, and nothing in the index can shorten it.\<close>

definition marked :: "'w view \<Rightarrow> string \<Rightarrow> time \<Rightarrow> time \<Rightarrow> 'w revoker \<times> 'w \<Rightarrow> bool" where
  "marked look jti e now = (\<lambda>(rv, w).
     held look w now (keyFor rv jti) e \<and> jti \<notin> tracked (rv_index rv) \<and> plain_id rv jti
   \<and> (\<forall>j \<in> tracked (rv_index rv). plain_id rv j)
   \<and> 0 < rv_MaxTTL rv \<and> e \<le> time_add now (ttl_ms (rv_MaxTTL rv)))"

context expiring_cache
begin

lemma marked_start:
  assumes "Revoker_Revoke now jti (rv, w) = (None, rv', w')" and "rv_Cache rv = c"
    and "0 < computeTTL rv jti now" and "plain_id rv jti"
    and "\<forall>j \<in> tracked (rv_index rv). plain_id rv j" and "jti \<noteq> []"
  shows "marked look jti (time_add now (ttl_ms (computeTTL rv jti now))) now (rv', w')"
proof -
  from assms have s: "kc_Set c now (keyFor rv jti) ''1'' (computeTTL rv jti now) w = (None, w')"
    and r: "rv' = untrack jti rv"
    by (auto simp: Revoker_Revoke_def Let_def split: prod.splits option.splits)
  have "ttl_ms (computeTTL rv jti now) \<le> ttl_ms (rv_MaxTTL rv)"
    by (rule ttl_ms_mono [OF computeTTL_le])
  moreover have "0 < rv_MaxTTL rv" using assms(3) computeTTL_le [of rv jti now] by simp
  ultimately show ?thesis
    using held_set [OF assms(3) s] assms r
    by (auto simp: marked_def tracked_untrack plain_id_def less_eq_time_def)
qed

lemma marked_later:
  assumes "marked look jti e now (rv, w)" and "now \<le> now'"
  shows "marked look jti e now' (rv, w)"
  using assms held_later [of look w now _ e now']
  by (auto simp: marked_def less_eq_time_def)

lemma marked_revoke:
  assumes "marked look jti e now (rv, w)" and "rv_Cache rv = c"
    and "Revoker_Revoke now j (rv, w) = (err, rv', w')"
  shows "marked look jti e now (rv', w') \<and> rv_Cache rv' = c"
proof -
  note m = assms(1) [unfolded marked_def, simplified]
  let ?ttl = "computeTTL rv j now"
  consider "rv' = rv" "w' = w" | "rv' = untrack j rv" "w' = w"
    | err' where "0 < ?ttl" "kc_Set c now (keyFor rv j) ''1'' ?ttl w = (err', w')"
        "rv' = rv \<or> rv' = untrack j rv"
    using assms(2,3) by (auto simp: Revoker_Revoke_def Let_def split: if_splits prod.splits option.splits)
  then show ?thesis
  proof cases
    case 1
    then show ?thesis using assms by simp
  next
    case 2
    then show ?thesis using m assms(2) by (auto simp: marked_def tracked_untrack plain_id_def)
  next
    case 3
    have "e \<le> time_add now (ttl_ms ?ttl)" if "keyFor rv j = keyFor rv jti"
    proof -
      from keyFor_eq [OF _ that] m have "j \<notin> tracked (rv_index rv)" by auto
      with m show ?thesis by (simp add: computeTTL_untracked)
    qed
    with held_set_again [OF 3(1,2)] m have "held look w' now (keyFor rv jti) e" by blast
    with 3(3) m assms(2) show ?thesis by (auto simp: marked_def tracked_untrack plain_id_def)
  qed
qed

lemma marked_track:
  assumes "marked look jti e now (rv, w)" and "j \<noteq> jti" and "plain_id rv j"
  shows "marked look jti e now (snd (Revoker_Track a j x rv), w)"
  using assms tracked_Track [of a j x rv]
  by (auto simp: marked_def plain_id_def keyFor_def)

lemma marked_revoked:
  assumes "marked look jti e now (rv, w)" and "rv_Cache rv = c" and "now < e" and "jti \<noteq> []"
  shows "IsRevoked rv now jti w \<or> (\<exists>x. kc_Exists c now (keyFor rv jti) w = Inl x)"
  using assms held_exists [of w now "keyFor rv jti" e]
  by (auto simp: marked_def IsRevoked_def split: sum.splits)

end

end
