(* ===== verification/A2AHandler.thy ===== *)
theory A2AHandler
  imports A2ARevocation
begin

text \<open>
  The HTTP endpoints for agent tokens, \<open>src/internal/gateway/handler/a2a.go\<close>: negotiate, verify,
  revoke and list, over the issuer, the verifier and the revoker.

  A request is its method and its decoded body, \<open>None\<close> where \<open>json.Decode\<close> reports an error; a
  reply is the body of a 200 answer or the status and the constant text of an error. The readings
  of the clock within one request are one time; \<open>uuid.NewString\<close> is the argument \<open>jti\<close>.
\<close>

section \<open>The endpoints\<close>

datatype 'b http_reply = HttpError nat string | HttpOK 'b

record a2a_handler =
  ah_Issuer :: "issuer option"
  ah_Verifier :: "verifier option"
  ah_DefaultTTL :: duration

record negotiate_request =
  nq_Subject :: string
  nq_Audience :: string
  nq_Scope :: string
  nq_TrustLevel :: int
  nq_AuditID :: string
  nq_TTLSec :: int

record negotiate_response =
  nr_Token :: string
  nr_ExpiresAt :: time
  nr_JTI :: string
  nr_TrustLevel :: int
  nr_Scope :: string

definition negotiate_ttl :: "a2a_handler \<Rightarrow> negotiate_request \<Rightarrow> duration" where
  "negotiate_ttl h req =
     (if 0 < nq_TTLSec req then s64 (nq_TTLSec req * second)
      else if ah_DefaultTTL h \<le> 0 then 15 * minute else ah_DefaultTTL h)"

definition A2A_Negotiate ::
  "codec \<Rightarrow> a2a_handler \<Rightarrow> time \<Rightarrow> string \<Rightarrow> string \<Rightarrow> negotiate_request option \<Rightarrow> 'w revoker option
   \<Rightarrow> negotiate_response http_reply \<times> 'w revoker option" where
  "A2A_Negotiate cd h now jti meth body rvo =
     (case ah_Issuer h of None \<Rightarrow> (HttpError 503 ''issuer unavailable'', rvo)
      | Some i \<Rightarrow>
      if meth \<noteq> ''POST'' then (HttpError 405 ''method not allowed'', rvo)
      else (case body of None \<Rightarrow> (HttpError 400 ''bad request'', rvo)
      | Some req0 \<Rightarrow>
      if nq_Subject req0 = [] \<or> nq_Audience req0 = []
      then (HttpError 400 ''subject and audience are required'', rvo)
      else
        (let req = (if nq_TrustLevel req0 = 0 then req0 \<lparr> nq_TrustLevel := 50 \<rparr> else req0);
             ttl = negotiate_ttl h req
         in if nq_TrustLevel req < 0 \<or> 100 < nq_TrustLevel req
            then (HttpError 400 ''trust_level must be in [0, 100]'', rvo)
            else
              (case Issuer_Sign cd i now
                      \<lparr> si_Subject = nq_Subject req, si_Audience = nq_Audience req, si_JTI = jti,
                        si_TTL = ttl, si_Scope = nq_Scope req, si_TrustLevel = nq_TrustLevel req,
                        si_AuditID = nq_AuditID req \<rparr> of
                 Inl _ \<Rightarrow> (HttpError 500 ''sign'', rvo)
               | Inr tok \<Rightarrow>
                   (HttpOK \<lparr> nr_Token = tok, nr_ExpiresAt = time_add now ttl, nr_JTI = jti,
                      nr_TrustLevel = nq_TrustLevel req, nr_Scope = nq_Scope req \<rparr>,
                    map_option (\<lambda>rv. snd (Revoker_Track (nq_Subject req) jti (time_add now ttl) rv))
                      rvo)))))"

record verify_response =
  vr_OK :: bool
  vr_Claims :: "token_claims option"
  vr_Error :: "go_error option"

definition A2A_Verify ::
  "codec \<Rightarrow> a2a_handler \<Rightarrow> time \<Rightarrow> string \<Rightarrow> string option \<Rightarrow> 'w revoker option \<Rightarrow> 'w
   \<Rightarrow> verify_response http_reply outcome" where
  "A2A_Verify cd h now meth body rvo w =
     (case ah_Verifier h of None \<Rightarrow> Return (HttpError 503 ''verifier unavailable'')
      | Some v \<Rightarrow>
      if meth \<noteq> ''POST'' then Return (HttpError 405 ''method not allowed'')
      else (case body of None \<Rightarrow> Return (HttpError 400 ''bad request'')
      | Some token \<Rightarrow>
      if token = [] then Return (HttpError 400 ''token is required'')
      else
        (case Verifier_Verify cd v now token of
           Panic m \<Rightarrow> Panic m
         | Return (Inl err) \<Rightarrow>
             Return (HttpOK \<lparr> vr_OK = False, vr_Claims = None, vr_Error = Some err \<rparr>)
         | Return (Inr claims) \<Rightarrow>
             if (case rvo of None \<Rightarrow> False | Some rv \<Rightarrow> IsRevoked rv now (tc_JTI claims) w)
             then Return (HttpOK \<lparr> vr_OK = False, vr_Claims = None,
                    vr_Error = Some (Sentinel ''token revoked'') \<rparr>)
             else Return (HttpOK \<lparr> vr_OK = True, vr_Claims = Some claims, vr_Error = None \<rparr>))))"

record revoke_request =
  rq_JTI :: string
  rq_Reason :: string

record revoke_response =
  rp_OK :: bool
  rp_JTI :: string
  rp_Reason :: string

definition A2A_Revoke ::
  "time \<Rightarrow> string \<Rightarrow> revoke_request option \<Rightarrow> 'w revoker option \<times> 'w
   \<Rightarrow> revoke_response http_reply \<times> 'w revoker option \<times> 'w" where
  "A2A_Revoke now meth body = (\<lambda>(rvo, w).
     case rvo of None \<Rightarrow> (HttpError 503 ''revoker unavailable'', rvo, w)
     | Some rv \<Rightarrow>
     if meth \<noteq> ''POST'' then (HttpError 405 ''method not allowed'', rvo, w)
     else (case body of None \<Rightarrow> (HttpError 400 ''bad request'', rvo, w)
     | Some req \<Rightarrow>
     if rq_JTI req = [] then (HttpError 400 ''jti is required'', rvo, w)
     else
       (case Revoker_Revoke now (rq_JTI req) (rv, w) of
          (Some e, rv', w') \<Rightarrow> (HttpError 500 ''revoke'', Some rv', w')
        | (None, rv', w') \<Rightarrow>
            (HttpOK \<lparr> rp_OK = True, rp_JTI = rq_JTI req, rp_Reason = rq_Reason req \<rparr>,
             Some rv', w'))))"

record list_response =
  lr_Subject :: string
  lr_JTIs :: "string list option"
  lr_Count :: int

definition A2A_List ::
  "string \<Rightarrow> string option \<Rightarrow> 'w revoker option \<Rightarrow> list_response http_reply" where
  "A2A_List meth body rvo =
     (case rvo of None \<Rightarrow> HttpError 503 ''revoker unavailable''
      | Some rv \<Rightarrow>
      if meth \<noteq> ''POST'' then HttpError 405 ''method not allowed''
      else (case body of None \<Rightarrow> HttpError 400 ''bad request''
      | Some subject \<Rightarrow>
      if subject = [] then HttpError 400 ''subject is required''
      else
        (let jtis = ActiveJTIs rv subject
         in HttpOK \<lparr> lr_Subject = subject, lr_JTIs = jtis,
              lr_Count = (case jtis of None \<Rightarrow> 0 | Some js \<Rightarrow> int (length js)) \<rparr>)))"

section \<open>Sequences of requests\<close>

datatype a2a_call =
    CallNegotiate string string "negotiate_request option"
  | CallVerify string "string option"
  | CallRevoke string "revoke_request option"
  | CallList string "string option"

definition a2a_call_step ::
  "codec \<Rightarrow> a2a_handler \<Rightarrow> time \<Rightarrow> a2a_call \<Rightarrow> 'w revoker option \<times> 'w \<Rightarrow> 'w revoker option \<times> 'w" where
  "a2a_call_step cd h now cl s =
     (case cl of
        CallNegotiate jti meth body \<Rightarrow> (snd (A2A_Negotiate cd h now jti meth body (fst s)), snd s)
      | CallVerify meth body \<Rightarrow> s
      | CallRevoke meth body \<Rightarrow> snd (A2A_Revoke now meth body s)
      | CallList meth body \<Rightarrow> s)"

fun a2a_run ::
  "codec \<Rightarrow> a2a_handler \<Rightarrow> (time \<times> a2a_call) list \<Rightarrow> 'w revoker option \<times> 'w
   \<Rightarrow> 'w revoker option \<times> 'w" where
  "a2a_run cd h [] s = s"
| "a2a_run cd h ((now, cl) # cs) s = a2a_run cd h cs (a2a_call_step cd h now cl s)"

fun in_order :: "time \<Rightarrow> (time \<times> a2a_call) list \<Rightarrow> time \<Rightarrow> bool" where
  "in_order t0 [] t = (t0 \<le> t)"
| "in_order t0 ((u, cl) # cs) t = (t0 \<le> u \<and> in_order u cs t)"

text \<open>The ids that the calls give to new tokens are neither \<open>jti\<close> nor carry the key prefix.\<close>

fun fresh_ids :: "string \<Rightarrow> string \<Rightarrow> (time \<times> a2a_call) list \<Rightarrow> bool" where
  "fresh_ids p jti [] = True"
| "fresh_ids p jti ((u, CallNegotiate j m b) # cs) = (j \<noteq> jti \<and> \<not> starts_with p j \<and> fresh_ids p jti cs)"
| "fresh_ids p jti (_ # cs) = fresh_ids p jti cs"

lemma in_order_le: "in_order t0 cs t \<Longrightarrow> t0 \<le> t"
  by (induction t0 cs t rule: in_order.induct) auto

lemma negotiate_revoker:
  "\<exists>f. snd (A2A_Negotiate cd h now jti meth body rvo) = map_option f rvo
     \<and> (f = id \<or> (\<exists>a e. f = (\<lambda>rv. snd (Revoker_Track a jti e rv))))"
proof -
  have id: "\<exists>f. rvo = map_option f rvo \<and> (f = id \<or> (\<exists>a e. f = (\<lambda>rv. snd (Revoker_Track a jti e rv))))"
    by (rule exI [of _ id]) (simp add: option.map_id)
  have tr: "\<exists>f. map_option (\<lambda>rv. snd (Revoker_Track a jti e rv)) rvo = map_option f rvo
     \<and> (f = id \<or> (\<exists>a e. f = (\<lambda>rv. snd (Revoker_Track a jti e rv))))" for a e
    by blast
  show ?thesis
    using id tr
    by (cases "ah_Issuer h"; cases body; simp add: A2A_Negotiate_def Let_def split: sum.split)
qed

context expiring_cache
begin

lemma marked_step:
  assumes "marked look jti e now (rv, w)" and "rv_Cache rv = c"
    and "fresh_ids (rv_KeyPrefix rv) jti [(now, cl)]"
  shows "\<exists>rv' w'. a2a_call_step cd h now cl (Some rv, w) = (Some rv', w')
    \<and> marked look jti e now (rv', w') \<and> rv_Cache rv' = c \<and> rv_KeyPrefix rv' = rv_KeyPrefix rv"
proof (cases cl)
  case (CallNegotiate j m b)
  obtain f where f: "snd (A2A_Negotiate cd h now j m b (Some rv)) = map_option f (Some rv)"
    "f = id \<or> (\<exists>a x. f = (\<lambda>rv. snd (Revoker_Track a j x rv)))"
    using negotiate_revoker by blast
  have "marked look jti e now (f rv, w) \<and> rv_Cache (f rv) = c \<and> rv_KeyPrefix (f rv) = rv_KeyPrefix rv"
    using f(2) assms marked_track [OF assms(1), of j] CallNegotiate by (auto simp: plain_id_def)
  with f(1) CallNegotiate show ?thesis by (simp add: a2a_call_step_def)
next
  case (CallRevoke m b)
  have "\<exists>rv' w'. snd (A2A_Revoke now m b (Some rv, w)) = (Some rv', w')
      \<and> ((rv', w') = (rv, w) \<or> (\<exists>j err. Revoker_Revoke now j (rv, w) = (err, rv', w')))"
    by (cases b) (auto simp: A2A_Revoke_def split: prod.split option.split)
  then obtain rv' w' where r: "snd (A2A_Revoke now m b (Some rv, w)) = (Some rv', w')"
    "(rv', w') = (rv, w) \<or> (\<exists>j err. Revoker_Revoke now j (rv, w) = (err, rv', w'))" by blast
  have "rv_KeyPrefix rv' = rv_KeyPrefix rv"
    using r(2) by (auto simp: Revoker_Revoke_def Let_def split: if_splits prod.splits option.splits)
  with r marked_revoke [OF assms(1,2)] assms CallRevoke show ?thesis
    by (auto simp: a2a_call_step_def)
qed (use assms in \<open>auto simp: a2a_call_step_def\<close>)

lemma marked_run:
  assumes "marked look jti e t0 (rv, w)" and "rv_Cache rv = c" and "in_order t0 cs t"
    and "fresh_ids (rv_KeyPrefix rv) jti cs"
  shows "\<exists>rv' w'. a2a_run cd h cs (Some rv, w) = (Some rv', w')
    \<and> marked look jti e t (rv', w') \<and> rv_Cache rv' = c \<and> rv_KeyPrefix rv' = rv_KeyPrefix rv"
  using assms
proof (induction cs arbitrary: t0 rv w)
  case Nil
  then show ?case using marked_later by auto
next
  case (Cons uc cs)
  obtain u cl where uc: "uc = (u, cl)" by (cases uc)
  from Cons.prems uc have "marked look jti e u (rv, w)" using marked_later by auto
  moreover have "fresh_ids (rv_KeyPrefix rv) jti [(u, cl)]" "fresh_ids (rv_KeyPrefix rv) jti cs"
    using Cons.prems uc by (cases cl; simp)+
  ultimately obtain rv1 w1 where s: "a2a_call_step cd h u cl (Some rv, w) = (Some rv1, w1)"
    "marked look jti e u (rv1, w1)" "rv_Cache rv1 = c" "rv_KeyPrefix rv1 = rv_KeyPrefix rv"
    using marked_step Cons.prems(2) by blast
  from Cons.IH [OF s(2,3)] Cons.prems uc s \<open>fresh_ids (rv_KeyPrefix rv) jti cs\<close>
  show ?case by auto
qed

end

section \<open>Properties of the endpoints\<close>

definition revoked_reply :: verify_response where
  "revoked_reply = \<lparr> vr_OK = False, vr_Claims = None, vr_Error = Some (Sentinel ''token revoked'') \<rparr>"

lemma Verify_nonempty: "Verifier_Verify cd v now token = Return (Inr tc) \<Longrightarrow> token \<noteq> []"
  by (auto simp: Verifier_Verify_def)

lemma A2A_Verify_accepted:
  assumes "Verifier_Verify cd v t token = Return (Inr tc)" and "ah_Verifier h = Some v"
  shows "A2A_Verify cd h t ''POST'' (Some token) (Some rv) w =
    Return (HttpOK (if IsRevoked rv t (tc_JTI tc) w then revoked_reply
      else \<lparr> vr_OK = True, vr_Claims = Some tc, vr_Error = None \<rparr>))"
  using assms Verify_nonempty [OF assms(1)] by (simp add: A2A_Verify_def revoked_reply_def)

text \<open>C3: after a revocation through the endpoint that still had lifetime to cover, and whatever requests
  follow in whatever order, the endpoint refuses every token with the revoked id, also one that the
  verifier accepts, until the revocation's lifetime is over, as long as the cache answers; the
  cache is any server with the documented behaviour of Redis.\<close>

theorem revoked_token_refused:
  assumes "redis_laws r look" and "rv_Cache rv = redisCache r" and "ah_Verifier h = Some v"
    and "A2A_Revoke t0 ''POST'' (Some req) (Some rv, w) = (HttpOK reply, s1)"
    and "0 < computeTTL rv (rq_JTI req) t0"
    and "\<forall>j \<in> insert (rq_JTI req) (tracked (rv_index rv)). \<not> starts_with (rv_KeyPrefix rv) j"
    and "in_order t0 cs t" and "fresh_ids (rv_KeyPrefix rv) (rq_JTI req) cs"
    and "t < time_add t0 (ttl_ms (computeTTL rv (rq_JTI req) t0))"
    and "a2a_run cd h cs s1 = (Some rv', w')"
    and "kc_Exists (redisCache r) t (keyFor rv' (rq_JTI req)) w' = Inr b"
    and "Verifier_Verify cd v t token = Return (Inr tc)" and "tc_JTI tc = rq_JTI req"
  shows "A2A_Verify cd h t ''POST'' (Some token) (Some rv') w' = Return (HttpOK revoked_reply)"
proof -
  note ec = redis_cache_expiring [OF assms(1)]
  let ?jti = "rq_JTI req" and ?e = "time_add t0 (ttl_ms (computeTTL rv (rq_JTI req) t0))"
  have jti: "?jti \<noteq> []" and rev: "\<exists>rv1 w1. s1 = (Some rv1, w1) \<and> Revoker_Revoke t0 ?jti (rv, w) = (None, rv1, w1)"
    using assms(4) by (auto simp: A2A_Revoke_def split: if_splits prod.splits option.splits)
  then obtain rv1 w1 where s1: "s1 = (Some rv1, w1)"
    and r: "Revoker_Revoke t0 ?jti (rv, w) = (None, rv1, w1)" by blast
  have same: "rv_Cache rv1 = redisCache r" "rv_KeyPrefix rv1 = rv_KeyPrefix rv"
    using r assms(2) by (auto simp: Revoker_Revoke_def Let_def split: if_splits prod.splits option.splits)
  have "marked look ?jti ?e t0 (rv1, w1)"
    using assms(6) by (intro expiring_cache.marked_start [OF ec r assms(2,5)]) (auto simp: plain_id_def jti)
  from expiring_cache.marked_run [OF ec this same(1) assms(7), of cd h] assms(8,10) s1 same(2)
  have m: "marked look ?jti ?e t (rv', w')" and c: "rv_Cache rv' = redisCache r" by auto
  from expiring_cache.marked_revoked [OF ec m c assms(9) jti] assms(11)
  have "IsRevoked rv' t (tc_JTI tc) w'" using assms(13) by auto
  with A2A_Verify_accepted [OF assms(12,3), of rv' w'] show ?thesis by simp
qed

definition sample_handler :: a2a_handler where
  "sample_handler = \<lparr> ah_Issuer = Some sample_issuer, ah_Verifier = Some sample_verifier,
     ah_DefaultTTL = minute \<rparr>"

definition sample_revoker :: "redis_state revoker" where
  "sample_revoker = \<lparr> rv_Cache = redisCache redis_server, rv_MaxTTL = hour,
     rv_KeyPrefix = ''a2a:revoked:'', rv_index = [] \<rparr>"

definition sample_negotiate :: negotiate_request where
  "sample_negotiate = \<lparr> nq_Subject = ''a1'', nq_Audience = ''svc'', nq_Scope = ''read write'',
     nq_TrustLevel = 0, nq_AuditID = [], nq_TTLSec = 0 \<rparr>"

definition sample_revoke :: revoke_request where
  "sample_revoke = \<lparr> rq_JTI = ''j1'', rq_Reason = [] \<rparr>"

text \<open>The revoker after the sample token was negotiated at time 0, and after its revocation.\<close>

definition tracked_revoker :: "redis_state revoker" where
  "tracked_revoker = sample_revoker \<lparr> rv_index :=
     [(''a1'', [(''j1'', \<lparr> te_agentUUID = ''a1'', te_expiresAt = Time minute \<rparr>)])] \<rparr>"

definition sample_marker :: redis_state where
  "sample_marker = [(''a2a:revoked:j1'', ''1'', Some (Time minute))]"

lemma sample_negotiated:
  assumes "Issuer_Sign sample_codec sample_issuer (Time 0) sample_sign = Inr token"
  shows "A2A_Negotiate sample_codec sample_handler (Time 0) ''j1'' ''POST'' (Some sample_negotiate)
      (Some sample_revoker)
    = (HttpOK \<lparr> nr_Token = token, nr_ExpiresAt = Time minute, nr_JTI = ''j1'', nr_TrustLevel = 50,
         nr_Scope = ''read write'' \<rparr>, Some tracked_revoker)"
  using assms
  by (simp add: A2A_Negotiate_def sample_handler_def sample_negotiate_def negotiate_ttl_def
      sample_sign_def Let_def Revoker_Track_def sample_revoker_def tracked_revoker_def bucket_of_def
      time_add_def)

lemma sample_ttl: "computeTTL tracked_revoker ''j1'' (Time (10 * second)) = 50 * second"
  by (simp add: computeTTL_def tracked_revoker_def sample_revoker_def is_zero_time_def zero_time_def
      time_sub_def)

lemma sample_revoked:
  "A2A_Revoke (Time (10 * second)) ''POST'' (Some sample_revoke) (Some tracked_revoker, [])
    = (HttpOK \<lparr> rp_OK = True, rp_JTI = ''j1'', rp_Reason = [] \<rparr>, Some sample_revoker, sample_marker)"
  by (simp add: A2A_Revoke_def sample_revoke_def Revoker_Revoke_def Let_def sample_ttl [simplified])
    (simp add: tracked_revoker_def sample_revoker_def redisCache_def redis_server_def untrack_def
      keyFor_def starts_with_def sample_marker_def ttl_ms_def time_add_def)

definition later_marker :: redis_state where
  "later_marker = [(''a2a:revoked:j1'', ''1'', Some (Time (20 * second + hour)))]"

lemma sample_run:
  "a2a_run sample_codec sample_handler [(Time (20 * second), CallRevoke ''POST'' (Some sample_revoke))]
     (Some sample_revoker, sample_marker) = (Some sample_revoker, later_marker)"
  by (simp add: a2a_call_step_def A2A_Revoke_def sample_revoke_def Revoker_Revoke_def computeTTL_def
      Let_def sample_revoker_def redisCache_def redis_server_def untrack_def keyFor_def starts_with_def
      sample_marker_def later_marker_def ttl_ms_def time_add_def)

lemma later_exists:
  "kc_Exists (redisCache redis_server) (Time (30 * second)) (keyFor sample_revoker ''j1'') later_marker
     = Inr True"
  by (simp add: redisCache_def redis_server_def redis_Exists_def redis_look_def live_def keyFor_def
      starts_with_def sample_revoker_def later_marker_def less_time_def)

theorem revoked_token_refused_witness:
  "\<exists>token. Verifier_Verify sample_codec sample_verifier (Time (30 * second)) token
      = Return (Inr (claims_view (token_header sample_issuer) sample_claims))
   \<and> A2A_Verify sample_codec sample_handler (Time (30 * second)) ''POST'' (Some token)
      (Some sample_revoker) later_marker = Return (HttpOK revoked_reply)"
proof -
  obtain token where t: "Issuer_Sign sample_codec sample_issuer (Time 0) sample_sign = Inr token"
    using sample_token by blast
  have now: "unix_sec (Time (30 * second)) < 65" by (simp add: unix_sec_def)
  have j: "rq_JTI sample_revoke = ''j1''" by (simp add: sample_revoke_def)
  have "A2A_Verify sample_codec sample_handler (Time (30 * second)) ''POST'' (Some token)
      (Some sample_revoker) later_marker = Return (HttpOK revoked_reply)"
  proof (rule revoked_token_refused [OF redis_server_laws _ _ sample_revoked _ _ _ _ _ sample_run _
        sample_accepted [OF t now]])
    show "kc_Exists (redisCache redis_server) (Time (30 * second))
      (keyFor sample_revoker (rq_JTI sample_revoke)) later_marker = Inr True"
      unfolding j by (rule later_exists)
    show "Time (30 * second) < time_add (Time (10 * second))
       (ttl_ms (computeTTL tracked_revoker (rq_JTI sample_revoke) (Time (10 * second))))"
      by (simp add: j sample_ttl [simplified] ttl_ms_def less_time_def)
    show "\<forall>j \<in> insert (rq_JTI sample_revoke) (tracked (rv_index tracked_revoker)).
       \<not> starts_with (rv_KeyPrefix tracked_revoker) j"
      by (simp add: j tracked_revoker_def sample_revoker_def starts_with_def)
    show "0 < computeTTL tracked_revoker (rq_JTI sample_revoke) (Time (10 * second))"
      by (simp add: j sample_ttl [simplified])
  qed (simp_all add: sample_handler_def tracked_revoker_def sample_revoker_def j less_eq_time_def
      claims_view_def sample_claims_def token_claims_of_def sample_sign_def)
  with sample_accepted [OF t now] show ?thesis by blast
qed

text \<open>The marker of a revoked token lives until the token's expiry, but a verifier accepts a token for
  its leeway longer: in those seconds the endpoint accepts the revoked token again.\<close>

theorem revoked_token_returns_in_leeway:
  "\<exists>token rv1 rv2 w2 reply.
     A2A_Negotiate sample_codec sample_handler (Time 0) ''j1'' ''POST'' (Some sample_negotiate)
       (Some sample_revoker) = (HttpOK reply, Some rv1) \<and> nr_Token reply = token
   \<and> A2A_Revoke (Time (10 * second)) ''POST'' (Some sample_revoke) (Some rv1, [])
       = (HttpOK \<lparr> rp_OK = True, rp_JTI = ''j1'', rp_Reason = [] \<rparr>, Some rv2, w2)
   \<and> A2A_Verify sample_codec sample_handler (Time (30 * second)) ''POST'' (Some token) (Some rv2) w2
       = Return (HttpOK revoked_reply)
   \<and> A2A_Verify sample_codec sample_handler (Time (62 * second)) ''POST'' (Some token) (Some rv2) w2
       = Return (HttpOK \<lparr> vr_OK = True, vr_Claims =
           Some (claims_view (token_header sample_issuer) sample_claims), vr_Error = None \<rparr>)"
proof -
  obtain token where t: "Issuer_Sign sample_codec sample_issuer (Time 0) sample_sign = Inr token"
    using sample_token by blast
  have h: "ah_Verifier sample_handler = Some sample_verifier" by (simp add: sample_handler_def)
  have jti: "tc_JTI (claims_view (token_header sample_issuer) sample_claims) = ''j1''"
    by (simp add: claims_view_def sample_claims_def token_claims_of_def sample_sign_def)
  have revoked: "IsRevoked sample_revoker (Time (n * second)) ''j1'' sample_marker \<longleftrightarrow> n < 60" for n
    by (auto simp: IsRevoked_def sample_revoker_def keyFor_def starts_with_def redisCache_def
        redis_Exists_def redis_server_def redis_look_def live_def sample_marker_def less_time_def)
  have now: "unix_sec (Time (30 * second)) < 65" "unix_sec (Time (62 * second)) < 65"
    by (simp_all add: unix_sec_def)
  have "A2A_Verify sample_codec sample_handler (Time (30 * second)) ''POST'' (Some token)
      (Some sample_revoker) sample_marker = Return (HttpOK revoked_reply)"
    using A2A_Verify_accepted [OF sample_accepted [OF t now(1)] h, of sample_revoker sample_marker]
    revoked [of 30] by (simp add: jti)
  moreover have "A2A_Verify sample_codec sample_handler (Time (62 * second)) ''POST'' (Some token)
      (Some sample_revoker) sample_marker = Return (HttpOK \<lparr> vr_OK = True,
           vr_Claims = Some (claims_view (token_header sample_issuer) sample_claims), vr_Error = None \<rparr>)"
    using A2A_Verify_accepted [OF sample_accepted [OF t now(2)] h, of sample_revoker sample_marker]
    revoked [of 62] by (simp add: jti)
  ultimately show ?thesis
    using sample_negotiated [OF t] sample_revoked by fastforce
qed

text \<open>A requested lifetime whose nanoseconds wrap around to a negative number is not refused: the
  issuer gives the token its default lifetime, but the index holds an expiry in the past, so that a
  revocation answers with success and leaves the cache as it was.\<close>

theorem huge_ttl_defeats_revocation:
  assumes "A2A_Negotiate cd h now jti ''POST'' (Some req) (Some rv) = (HttpOK reply, Some rv1)"
    and "ah_Issuer h = Some i" and "0 < nq_TTLSec req" and "s64 (nq_TTLSec req * second) \<le> 0"
    and "0 < nq_TrustLevel req" and "rv_index rv = []" and "0 \<le> unix_nano now" and "now \<le> now'"
  shows "Issuer_Sign cd i now \<lparr> si_Subject = nq_Subject req, si_Audience = nq_Audience req,
       si_JTI = jti, si_TTL = ic_DefaultTTL (is_cfg i), si_Scope = nq_Scope req,
       si_TrustLevel = nq_TrustLevel req, si_AuditID = nq_AuditID req \<rparr> = Inr (nr_Token reply)
   \<and> (\<exists>r rv2. A2A_Revoke now' ''POST'' (Some \<lparr> rq_JTI = jti, rq_Reason = [] \<rparr>) (Some rv1, w)
       = (HttpOK r, Some rv2, w) \<and> rp_OK r)"
proof -
  let ?ttl = "s64 (nq_TTLSec req * second)"
  let ?si = "\<lambda>d. \<lparr> si_Subject = nq_Subject req, si_Audience = nq_Audience req,
       si_JTI = jti, si_TTL = d, si_Scope = nq_Scope req,
       si_TrustLevel = nq_TrustLevel req, si_AuditID = nq_AuditID req \<rparr>"
  have sub: "nq_Subject req \<noteq> []"
    and sg: "Issuer_Sign cd i now (?si ?ttl) = Inr (nr_Token reply)"
    and rv1: "rv1 = snd (Revoker_Track (nq_Subject req) jti (time_add now ?ttl) rv)"
    using assms(1-3,5)
    by (auto simp: A2A_Negotiate_def negotiate_ttl_def Let_def split: if_splits sum.splits)
  have jti: "jti \<noteq> []" using sg by (auto simp: Issuer_Sign_def split: if_splits)
  have "Issuer_Sign cd i now (?si (ic_DefaultTTL (is_cfg i))) = Issuer_Sign cd i now (?si ?ttl)"
    using assms(4) by (simp add: Issuer_Sign_def Let_def)
  moreover have "computeTTL rv1 jti now' \<le> 0"
  proof -
    have "- (2 ^ 63) \<le> ?ttl" by (rule s64_range)
    then have "\<not> is_zero_time (time_add now ?ttl)"
      using assms(7) by (simp add: is_zero_time_def zero_time_def time_add_def)
    moreover have "time_sub (time_add now ?ttl) now' \<le> 0"
      using assms(4,8) time_sub_pos_iff [of "time_add now ?ttl" now']
      by (simp add: less_time_def less_eq_time_def not_less flip: not_le)
    ultimately show ?thesis
      using sub jti assms(6) rv1
      by (simp add: computeTTL_def Revoker_Track_def bucket_of_def Let_def)
  qed
  then have "Revoker_Revoke now' jti (rv1, w) = (None, untrack jti rv1, w)"
    using jti by (simp add: Revoker_Revoke_def)
  then have "\<exists>r rv2. A2A_Revoke now' ''POST'' (Some \<lparr> rq_JTI = jti, rq_Reason = [] \<rparr>) (Some rv1, w)
       = (HttpOK r, Some rv2, w) \<and> rp_OK r"
    using jti by (simp add: A2A_Revoke_def)
  ultimately show ?thesis using sg by simp
qed

definition huge_negotiate :: negotiate_request where
  "huge_negotiate = sample_negotiate \<lparr> nq_TrustLevel := 50, nq_TTLSec := 9223372037 \<rparr>"

lemma s64_huge: "s64 (9223372037 * second) \<le> 0"
  by (simp add: s64_def signed_take_bit_eq_take_bit_minus take_bit_eq_mod bit_iff_odd)

lemma huge_negotiated:
  "\<exists>reply rv1. A2A_Negotiate sample_codec sample_handler (Time 0) ''j1'' ''POST''
     (Some huge_negotiate) (Some sample_revoker) = (HttpOK reply, Some rv1)"
  by (simp add: A2A_Negotiate_def sample_handler_def huge_negotiate_def sample_negotiate_def
      Let_def Issuer_Sign_def)

theorem huge_ttl_defeats_revocation_witness:
  "\<exists>reply rv1 rv2 r. A2A_Negotiate sample_codec sample_handler (Time 0) ''j1'' ''POST''
       (Some huge_negotiate) (Some sample_revoker) = (HttpOK reply, Some rv1)
   \<and> A2A_Revoke (Time second) ''POST'' (Some \<lparr> rq_JTI = ''j1'', rq_Reason = [] \<rparr>) (Some rv1, [])
       = (HttpOK r, Some rv2, []) \<and> rp_OK r"
proof -
  obtain reply rv1 where n: "A2A_Negotiate sample_codec sample_handler (Time 0) ''j1'' ''POST''
      (Some huge_negotiate) (Some sample_revoker) = (HttpOK reply, Some rv1)"
    using huge_negotiated by blast
  have "\<exists>r rv2. A2A_Revoke (Time second) ''POST'' (Some \<lparr> rq_JTI = ''j1'', rq_Reason = [] \<rparr>)
      (Some rv1, []) = (HttpOK r, Some rv2, []) \<and> rp_OK r"
    by (rule conjunct2 [OF huge_ttl_defeats_revocation [OF n]])
      (use s64_huge in \<open>simp_all add: sample_handler_def huge_negotiate_def sample_revoker_def
        less_eq_time_def\<close>)
  with n show ?thesis by blast
qed

end
