(* ===== verification/A2AJwks.thy ===== *)
theory A2AJwks
  imports A2AHandler
begin

text \<open>
  Publishing the keys of the issuer, \<open>src/internal/authz/a2a/jwks.go\<close> and the key endpoint of
  \<open>src/internal/gateway/handler/a2a.go\<close>: key sources, the cached key set, and the resolver a
  verifier builds from a published set.

  The JSON text of a key set is a function of the set, so the handler keeps the set only. A key
  source is what its \<open>Keys\<close> returns at the moment; \<open>sort.Slice\<close> is a stable sort by the key id.
\<close>

section \<open>Keys and key sources\<close>

record jwk =
  jw_Kty :: string
  jw_Crv :: string
  jw_Use :: string
  jw_Alg :: string
  jw_Kid :: string
  jw_X :: string

record key_entry =
  ke_Kid :: string
  ke_Public :: string

definition StaticKeySource_Keys :: "key_entry list \<Rightarrow> go_error + key_entry list" where
  "StaticKeySource_Keys es = Inr (sort_key ke_Kid es)"

definition IssuerKeySource_Keys :: "issuer option \<Rightarrow> go_error + key_entry list" where
  "IssuerKeySource_Keys io =
     (case io of
        None \<Rightarrow> Inl (Sentinel ''a2a: nil issuer'')
      | Some i \<Rightarrow> Inr [\<lparr> ke_Kid = ic_KeyID (is_cfg i), ke_Public = is_domainPub i \<rparr>])"

definition JWKFromEd25519 :: "string \<Rightarrow> string \<Rightarrow> jwk" where
  "JWKFromEd25519 kid pub =
     \<lparr> jw_Kty = ''OKP'', jw_Crv = ''Ed25519'', jw_Use = ''sig'', jw_Alg = ''EdDSA'', jw_Kid = kid,
       jw_X = b64url_encode pub \<rparr>"

section \<open>The cached key set\<close>

record jwks_handler =
  jk_CacheTTL :: duration
  jk_RefreshInterval :: duration
  jk_cached :: "jwk list option"
  jk_lastFetch :: time

definition NewJWKSHandler :: "bool \<Rightarrow> duration \<Rightarrow> duration \<Rightarrow> go_error + jwks_handler" where
  "NewJWKSHandler has_source cacheTTL refresh =
     (if \<not> has_source then Inl (Sentinel ''a2a: nil key source'')
      else Inr \<lparr> jk_CacheTTL = (if cacheTTL \<le> 0 then 5 * minute else cacheTTL),
                 jk_RefreshInterval = refresh, jk_cached = None, jk_lastFetch = zero_time \<rparr>)"

definition jwks_of :: "key_entry list \<Rightarrow> jwk list" where
  "jwks_of es = [JWKFromEd25519 (ke_Kid e) (ke_Public e). e \<leftarrow> es, length (ke_Public e) = 32]"

definition jwks_fetch ::
  "go_error + key_entry list \<Rightarrow> time \<Rightarrow> jwks_handler \<Rightarrow> (go_error + jwk list) \<times> jwks_handler" where
  "jwks_fetch keys now h =
     (case keys of
        Inl e \<Rightarrow> (Inl (Errorf ''a2a: key source: %w'' [e]), h)
      | Inr es \<Rightarrow>
          (Inr (jwks_of es), h \<lparr> jk_cached := Some (jwks_of es), jk_lastFetch := now \<rparr>))"

definition jwks_snapshot ::
  "go_error + key_entry list \<Rightarrow> time \<Rightarrow> jwks_handler \<Rightarrow> (go_error + jwk list) \<times> jwks_handler" where
  "jwks_snapshot keys now h =
     (case jk_cached h of
        None \<Rightarrow> jwks_fetch keys now h
      | Some ks \<Rightarrow>
          if 0 < jk_RefreshInterval h \<and> time_sub now (jk_lastFetch h) < jk_RefreshInterval h
          then (Inr ks, h)
          else if jk_RefreshInterval h = 0 then (Inr ks, h)
          else jwks_fetch keys now h)"

definition jwks_Snapshot ::
  "go_error + key_entry list \<Rightarrow> time \<Rightarrow> jwks_handler \<Rightarrow> (go_error + jwk list) \<times> jwks_handler" where
  "jwks_Snapshot keys now h =
     (case jwks_snapshot keys now h of
        (Inl e, h') \<Rightarrow> (Inl e, h')
      | (Inr _, h') \<Rightarrow> (Inr (the (jk_cached h')), h'))"

definition jwks_Refresh ::
  "go_error + key_entry list \<Rightarrow> time \<Rightarrow> jwks_handler \<Rightarrow> go_error option \<times> jwks_handler" where
  "jwks_Refresh keys now h =
     (case jwks_fetch keys now h of (Inl e, h') \<Rightarrow> (Some e, h') | (Inr _, h') \<Rightarrow> (None, h'))"

text \<open>The body is \<open>None\<close> for a \<open>HEAD\<close> request; the second component is \<open>max-age\<close> in seconds.\<close>

definition jwks_ServeHTTP ::
  "go_error + key_entry list \<Rightarrow> time \<Rightarrow> string \<Rightarrow> jwks_handler
   \<Rightarrow> (jwk list option \<times> int) http_reply \<times> jwks_handler" where
  "jwks_ServeHTTP keys now meth h =
     (if meth \<noteq> ''GET'' \<and> meth \<noteq> ''HEAD'' then (HttpError 405 ''method not allowed'', h)
      else
        (case jwks_snapshot keys now h of
           (Inl e, h') \<Rightarrow> (HttpError 500 ''{error:%q}'', h')
         | (Inr ks, h') \<Rightarrow>
             (HttpOK (if meth = ''HEAD'' then None else Some ks, jk_CacheTTL h' div second), h')))"

text \<open>The key endpoint of the gateway, over its own copy of the key.\<close>

definition gateway_JWKS ::
  "string option \<Rightarrow> string \<Rightarrow> duration \<Rightarrow> string \<Rightarrow> (jwk list \<times> int) http_reply" where
  "gateway_JWKS pub kid cacheTTL meth =
     (case pub of
        None \<Rightarrow> HttpError 503 ''public key unavailable''
      | Some p \<Rightarrow>
          if meth \<noteq> ''GET'' then HttpError 405 ''method not allowed''
          else HttpOK ([JWKFromEd25519 kid p],
            (if cacheTTL \<le> 0 then 5 * minute else cacheTTL) div second))"

section \<open>The resolver of a published set\<close>

definition usable_key :: "jwk \<Rightarrow> string option" where
  "usable_key k =
     (if jw_Kty k \<noteq> ''OKP'' \<or> jw_Crv k \<noteq> ''Ed25519'' then None
      else case b64url_decode (jw_X k) of
        None \<Rightarrow> None
      | Some pub \<Rightarrow> if length pub \<noteq> 32 then None else Some pub)"

fun collect_keys :: "jwk list \<Rightarrow> (string \<times> string) list \<Rightarrow> (string \<times> string) list" where
  "collect_keys [] m = m"
| "collect_keys (k # ks) m =
     collect_keys ks (case usable_key k of None \<Rightarrow> m | Some pub \<Rightarrow> AList.update (jw_Kid k) pub m)"

definition ResolverFromJWKS :: "jwk list option \<Rightarrow> go_error + key_resolver" where
  "ResolverFromJWKS jwks =
     (case jwks of
        None \<Rightarrow> Inl (Sentinel ''a2a: nil jwks'')
      | Some ks \<Rightarrow> Inr (MapKeyResolver (collect_keys ks []) []))"

lemma usable_published: "usable_key (JWKFromEd25519 kid pub) = (if length pub = 32 then Some pub else None)"
  by (simp add: usable_key_def JWKFromEd25519_def)

text \<open>The key that a list of entries has for an id: the last of the right length.\<close>

definition entry_key :: "key_entry list \<Rightarrow> string \<Rightarrow> string option" where
  "entry_key es = map_of (rev [(ke_Kid e, ke_Public e). e \<leftarrow> es, length (ke_Public e) = 32])"

lemma collect_published:
  "map_of (collect_keys (jwks_of es) m) kid =
     (case entry_key es kid of None \<Rightarrow> map_of m kid | Some p \<Rightarrow> Some p)"
proof (induction es arbitrary: m)
  case Nil
  then show ?case by (simp add: jwks_of_def entry_key_def)
next
  case (Cons e es)
  have kid: "jw_Kid (JWKFromEd25519 (ke_Kid e) (ke_Public e)) = ke_Kid e"
    by (simp add: JWKFromEd25519_def)
  show ?case
    using Cons.IH by (auto simp: jwks_of_def entry_key_def usable_published kid map_add_def
        split: option.splits)
qed

lemma entry_key_length: "entry_key es kid = Some p \<Longrightarrow> length p = 32"
  by (auto simp: entry_key_def dest!: map_of_SomeD split: if_splits)

lemma resolver_published:
  assumes "ResolverFromJWKS (Some (jwks_of es)) = Inr res"
  shows "res kid = (case entry_key es kid of
      None \<Rightarrow> Inl (Errorf ''%w: kid=%q'' [ErrKeyNotFound]) | Some p \<Rightarrow> Inr p)"
  using assms entry_key_length [of es kid]
  by (auto simp: ResolverFromJWKS_def MapKeyResolver_def collect_published split: option.splits)

section \<open>Properties of the published keys\<close>

text \<open>A resolver built from what the key endpoint serves for a source finds for a key id exactly the
  last 32-byte key that the source has for it, and reports the key as missing otherwise.\<close>

theorem jwks_resolver_spec:
  assumes "jwks_ServeHTTP (Inr es) now ''GET'' h = (HttpOK (Some ks, age), h')"
    and "jk_cached h = None"
  shows "\<exists>res. ResolverFromJWKS (Some ks) = Inr res
     \<and> (\<forall>kid p. res kid = Inr p \<longleftrightarrow> entry_key es kid = Some p)
     \<and> (\<forall>kid. entry_key es kid = None \<longrightarrow> res kid = Inl (Errorf ''%w: kid=%q'' [ErrKeyNotFound]))"
proof -
  have ks: "ks = jwks_of es"
    using assms by (auto simp: jwks_ServeHTTP_def jwks_snapshot_def jwks_fetch_def)
  obtain res where res: "ResolverFromJWKS (Some ks) = Inr res" by (simp add: ResolverFromJWKS_def)
  from resolver_published [OF res [unfolded ks]]
  have "(\<forall>kid p. res kid = Inr p \<longleftrightarrow> entry_key es kid = Some p)
     \<and> (\<forall>kid. entry_key es kid = None \<longrightarrow> res kid = Inl (Errorf ''%w: kid=%q'' [ErrKeyNotFound]))"
    by (auto split: option.splits)
  with res show ?thesis by blast
qed

definition fresh_jwks :: jwks_handler where
  "fresh_jwks = \<lparr> jk_CacheTTL = 5 * minute, jk_RefreshInterval = 0, jk_cached = None,
     jk_lastFetch = zero_time \<rparr>"

definition two_keys :: "key_entry list" where
  "two_keys = [\<lparr> ke_Kid = ''k1'', ke_Public = replicate 32 (CHR ''K'') \<rparr>,
     \<lparr> ke_Kid = ''k2'', ke_Public = ''short'' \<rparr>]"

theorem jwks_resolver_spec_witness:
  "\<exists>ks res h'. jwks_ServeHTTP (Inr two_keys) (Time 0) ''GET'' fresh_jwks = (HttpOK (Some ks, 300), h')
     \<and> ResolverFromJWKS (Some ks) = Inr res \<and> res ''k1'' = Inr (replicate 32 (CHR ''K''))
     \<and> res ''k2'' = Inl (Errorf ''%w: kid=%q'' [ErrKeyNotFound])"
proof -
  have s: "jwks_ServeHTTP (Inr two_keys) (Time 0) ''GET'' fresh_jwks
    = (HttpOK (Some (jwks_of two_keys), 300), fresh_jwks \<lparr> jk_cached := Some (jwks_of two_keys),
        jk_lastFetch := Time 0 \<rparr>)"
    by (simp add: jwks_ServeHTTP_def jwks_snapshot_def jwks_fetch_def fresh_jwks_def)
  have "entry_key two_keys ''k1'' = Some (replicate 32 (CHR ''K''))" "entry_key two_keys ''k2'' = None"
    by (simp_all add: entry_key_def two_keys_def)
  with jwks_resolver_spec [OF s] s show ?thesis by (fastforce simp: fresh_jwks_def)
qed

text \<open>A token signed by an issuer is accepted by every verifier whose keys come from the key set that
  the issuer's own key source publishes, under the assumptions on JSON and signatures of the
  round trip of tokens.\<close>

theorem published_key_verifies:
  assumes "NewIssuer cfg = Inr i" and "Issuer_Sign cd i t0 si = Inr token"
    and "c = token_claims_of i t0
           (if si_TTL si \<le> 0 then si \<lparr> si_TTL := ic_DefaultTTL (is_cfg i) \<rparr> else si)"
    and "cd_parse_header cd (cd_header_json cd (token_header i)) = Some (token_header i)"
    and "cd_parse_claims cd (cd_claims_json cd c) = Some c"
    and "\<And>m. cd_verify cd (is_domainPub i) m (cd_sign cd (ic_DomainKey (is_cfg i)) m)"
    and "jwks_fetch (IssuerKeySource_Keys (Some i)) t1 h = (Inr ks, h')"
    and "ResolverFromJWKS (Some ks) = Inr res"
    and "NewVerifier \<lparr> vc_Resolver = Some res, vc_ExpectedIssuer = ic_Issuer (is_cfg i),
           vc_ExpectedAudience = si_Audience si, vc_LeewaySeconds = lee \<rparr> = Inr v"
    and "unix_sec now < s64 (jc_ExpiresAt c + vf_LeewaySeconds v)"
  shows "Verifier_Verify cd v now token = Return (Inr (claims_view (token_header i) c))"
proof (rule verify_signed [OF assms(1-6)])
  have len: "length (is_domainPub i) = 32"
    using assms(1) by (auto simp: NewIssuer_def Let_def split: if_splits)
  have "ks = jwks_of [\<lparr> ke_Kid = ic_KeyID (is_cfg i), ke_Public = is_domainPub i \<rparr>]"
    using assms(7) by (simp add: jwks_fetch_def IssuerKeySource_Keys_def)
  from resolver_published [OF assms(8) [unfolded this]] len
  have "res (ic_KeyID (is_cfg i)) = Inr (is_domainPub i)" by (simp add: entry_key_def)
  with assms(9) show "vf_Resolver v (ic_KeyID (is_cfg i)) = Inr (is_domainPub i)"
    "vf_ExpectedIssuer v = ic_Issuer (is_cfg i)" "vf_ExpectedAudience v = si_Audience si"
    by (auto simp: NewVerifier_def split: if_splits)
qed (rule assms(10))

theorem published_key_verifies_witness:
  "\<exists>token ks res v h'. Issuer_Sign sample_codec sample_issuer (Time 0) sample_sign = Inr token
     \<and> jwks_fetch (IssuerKeySource_Keys (Some sample_issuer)) (Time 0) fresh_jwks = (Inr ks, h')
     \<and> ResolverFromJWKS (Some ks) = Inr res
     \<and> NewVerifier \<lparr> vc_Resolver = Some res, vc_ExpectedIssuer = ''agentid-chain'',
           vc_ExpectedAudience = ''svc'', vc_LeewaySeconds = 0 \<rparr> = Inr v
     \<and> Verifier_Verify sample_codec v (Time (64 * second)) token
         = Return (Inr (claims_view (token_header sample_issuer) sample_claims))"
proof -
  obtain token where t: "Issuer_Sign sample_codec sample_issuer (Time 0) sample_sign = Inr token"
    using sample_token by blast
  obtain ks h' where f: "jwks_fetch (IssuerKeySource_Keys (Some sample_issuer)) (Time 0) fresh_jwks
      = (Inr ks, h')"
    by (simp add: jwks_fetch_def IssuerKeySource_Keys_def)
  obtain res where r: "ResolverFromJWKS (Some ks) = Inr res" by (simp add: ResolverFromJWKS_def)
  obtain v where v: "NewVerifier \<lparr> vc_Resolver = Some res, vc_ExpectedIssuer = ic_Issuer (is_cfg sample_issuer),
      vc_ExpectedAudience = si_Audience sample_sign, vc_LeewaySeconds = 0 \<rparr> = Inr v"
    and lee: "vf_LeewaySeconds v = 5"
    by (simp add: NewVerifier_def sample_issuer_def sample_sign_def)
  have "Verifier_Verify sample_codec v (Time (64 * second)) token
      = Return (Inr (claims_view (token_header sample_issuer) sample_claims))"
    by (rule published_key_verifies [OF sample_issuer_new t _ _ _ _ f r v])
      (simp_all add: lee sample_claims_def sample_codec_def sample_issuer_def sample_sign_def
        token_claims_of_def token_header_def unix_sec_def)
  with t f r v show ?thesis by (auto simp: sample_issuer_def sample_sign_def)
qed

text \<open>Without a refresh interval, the cached key set is served for ever: whatever keys the source has
  by then, no request reaches it.\<close>

theorem jwks_never_refreshed:
  assumes "jk_RefreshInterval h = 0" and "jk_cached h = Some ks"
  shows "jwks_ServeHTTP keys now ''GET'' h = (HttpOK (Some ks, jk_CacheTTL h div second), h)"
  using assms by (simp add: jwks_ServeHTTP_def jwks_snapshot_def)

theorem jwks_never_refreshed_witness:
  "jwks_ServeHTTP (Inr two_keys) (Time hour) ''GET'' (fresh_jwks \<lparr> jk_cached := Some [] \<rparr>)
     = (HttpOK (Some [], 300), fresh_jwks \<lparr> jk_cached := Some [] \<rparr>)"
  using jwks_never_refreshed [of "fresh_jwks \<lparr> jk_cached := Some [] \<rparr>" "[]" "Inr two_keys" "Time hour"]
  by (simp add: fresh_jwks_def)

end
