(* ===== verification/Rfc3339.thy ===== *)
theory Rfc3339
  imports CacheStore
begin

text \<open>
  The textual time format of the standard library, \<open>time.RFC3339Nano\<close>, as the handshake writes
  and reads it: \<open>Format\<close> of a UTC time from the year 0 on, and \<open>Parse\<close> of a text with the zone \<open>Z\<close>
  (times carry no location here, so the texts with an offset do not arise).
\<close>

section \<open>The calendar\<close>

definition leap :: "nat \<Rightarrow> bool" where
  "leap y \<longleftrightarrow> y mod 4 = 0 \<and> (y mod 100 \<noteq> 0 \<or> y mod 400 = 0)"

definition year_len :: "nat \<Rightarrow> nat" where
  "year_len y = (if leap y then 366 else 365)"

definition month_lens :: "nat \<Rightarrow> nat list" where
  "month_lens y = [31, if leap y then 29 else 28, 31, 30, 31, 30, 31, 31, 30, 31, 30, 31]"

function year_of :: "nat \<Rightarrow> nat \<Rightarrow> nat \<times> nat" where
  "year_of y d = (if d < year_len y then (y, d) else year_of (Suc y) (d - year_len y))"
  by pat_completeness auto
termination
  by (relation "measure snd") (auto simp: year_len_def)

declare year_of.simps [simp del]

fun month_of :: "nat list \<Rightarrow> nat \<Rightarrow> nat \<times> nat" where
  "month_of [] d = (0, d)"
| "month_of (l # ls) d =
     (if d < l then (0, d) else (let (m, r) = month_of ls (d - l) in (Suc m, r)))"

definition days_before_year :: "nat \<Rightarrow> nat" where
  "days_before_year y = sum_list (map year_len [0..<y])"

definition days_before_month :: "nat list \<Rightarrow> nat \<Rightarrow> nat" where
  "days_before_month ls m = sum_list (take m ls)"

lemma year_of_spec:
  "year_of y d = (y', r) \<Longrightarrow>
     y \<le> y' \<and> r < year_len y' \<and> d = sum_list (map year_len [y..<y']) + r"
proof (induction y d arbitrary: y' r rule: year_of.induct)
  case (1 y d)
  show ?case
  proof (cases "d < year_len y")
    case True
    then show ?thesis using "1.prems" by (subst (asm) year_of.simps) auto
  next
    case False
    with "1.prems" have "year_of (Suc y) (d - year_len y) = (y', r)"
      by (subst (asm) year_of.simps) auto
    with "1.IH" False have "Suc y \<le> y'" "r < year_len y'"
      "d - year_len y = sum_list (map year_len [Suc y..<y']) + r" by auto
    with False show ?thesis by (auto simp: upt_conv_Cons)
  qed
qed

lemma month_of_spec:
  "month_of ls d = (m, r) \<Longrightarrow> d < sum_list ls \<Longrightarrow>
     m < length ls \<and> r < ls ! m \<and> d = days_before_month ls m + r"
proof (induction ls d arbitrary: m r rule: month_of.induct)
  case (2 l ls d)
  show ?case
  proof (cases "d < l")
    case True
    then show ?thesis using "2.prems" by (auto simp: days_before_month_def)
  next
    case False
    then obtain m' where m': "month_of ls (d - l) = (m', r)" "m = Suc m'"
      using "2.prems" by (auto split: prod.splits)
    have "d - l < sum_list ls" using "2.prems"(2) False by simp
    with "2.IH" [OF False m'(1)] m' False show ?thesis
      by (auto simp: days_before_month_def)
  qed
qed (simp add: days_before_month_def)

lemma sum_month_lens: "sum_list (month_lens y) = year_len y"
  by (simp add: month_lens_def year_len_def)

section \<open>Writing and reading\<close>

definition pad :: "nat \<Rightarrow> nat \<Rightarrow> string" where
  "pad w n = replicate (w - length (dec_of_nat n)) (CHR ''0'') @ dec_of_nat n"

definition epoch_days :: int where
  "epoch_days = 719528"

definition strip_zeros :: "string \<Rightarrow> string" where
  "strip_zeros s = rev (dropWhile (\<lambda>c. c = CHR ''0'') (rev s))"

definition format_time :: "time \<Rightarrow> string" where
  "format_time t =
     (let ns = nat (unix_nano t mod 1000000000);
          secs = unix_nano t div 1000000000;
          sod = nat (secs mod 86400);
          (y, doy) = year_of 0 (nat (secs div 86400 + epoch_days));
          (m, d) = month_of (month_lens y) doy
      in pad 4 y @ ''-'' @ pad 2 (Suc m) @ ''-'' @ pad 2 (Suc d) @ ''T''
         @ pad 2 (sod div 3600) @ '':'' @ pad 2 (sod mod 3600 div 60) @ '':'' @ pad 2 (sod mod 60)
         @ (if ns = 0 then [] else ''.'' @ strip_zeros (pad 9 ns)) @ ''Z'')"

definition is_digit :: "char \<Rightarrow> bool" where
  "is_digit c \<longleftrightarrow> c \<in> set ''0123456789''"

text \<open>A field of \<open>w\<close> digits and what follows it; a constant text and what follows it.\<close>

definition digits :: "nat \<Rightarrow> string \<Rightarrow> (nat \<times> string) option" where
  "digits w s =
     (if length s < w \<or> \<not> list_all is_digit (take w s) then None
      else Some (dec_value (take w s), drop w s))"

fun literal :: "char \<Rightarrow> string \<Rightarrow> string option" where
  "literal c [] = None"
| "literal c (x # s) = (if x = c then Some s else None)"

text \<open>The fraction: the first nine digits count, none may follow a missing dot.\<close>

definition fraction :: "string \<Rightarrow> (nat \<times> string) option" where
  "fraction s =
     (if s \<noteq> [] \<and> hd s = CHR ''.''
      then (let ds = takeWhile is_digit (tl s)
            in if ds = [] then None
               else Some (dec_value (take 9 ds) * 10 ^ (9 - length (take 9 ds)),
                          dropWhile is_digit (tl s)))
      else Some (0, s))"

definition parse_time :: "string \<Rightarrow> time option" where
  "parse_time s =
     Option.bind (digits 4 s) (\<lambda>(y, s1). Option.bind (literal (CHR ''-'') s1) (\<lambda>s2.
     Option.bind (digits 2 s2) (\<lambda>(m, s3). Option.bind (literal (CHR ''-'') s3) (\<lambda>s4.
     Option.bind (digits 2 s4) (\<lambda>(d, s5). Option.bind (literal (CHR ''T'') s5) (\<lambda>s6.
     Option.bind (digits 2 s6) (\<lambda>(h, s7). Option.bind (literal (CHR '':'') s7) (\<lambda>s8.
     Option.bind (digits 2 s8) (\<lambda>(mi, s9). Option.bind (literal (CHR '':'') s9) (\<lambda>s10.
     Option.bind (digits 2 s10) (\<lambda>(sec, s11). Option.bind (fraction s11) (\<lambda>(ns, s12).
       if s12 \<noteq> ''Z'' \<or> m = 0 \<or> 12 < m \<or> d = 0 \<or> month_lens y ! (m - 1) < d
          \<or> 24 \<le> h \<or> 60 \<le> mi \<or> 60 \<le> sec then None
       else Some (Time
         (((int (days_before_year y + days_before_month (month_lens y) (m - 1) + (d - 1)) - epoch_days)
             * 86400 + int (h * 3600 + mi * 60 + sec)) * 1000000000 + int ns))))))))))))))"

section \<open>Reading what was written\<close>

lemma dec_value_append: "dec_value (a @ b) = dec_value a * 10 ^ length b + dec_value b"
proof (induction b rule: rev_induct)
  case (snoc c b)
  then show ?case by (simp add: dec_value_def algebra_simps flip: append_assoc)
qed (simp add: dec_value_def)

lemma dec_value_zeros: "dec_value (replicate n (CHR ''0'')) = 0"
  by (induction n) (simp_all add: dec_value_def hex_val_def)

lemma dec_value_pad [simp]: "dec_value (pad w n) = n"
  by (simp add: pad_def dec_value_append dec_value_zeros dec_value_dec)

lemma digit_is_digit: "d < 10 \<Longrightarrow> is_digit (digit_char d)"
proof -
  assume "d < 10"
  then have "d \<in> set [0..<10]" by simp
  then show ?thesis by (auto simp: upt_rec is_digit_def digit_char_def)
qed

lemma dec_digits: "list_all is_digit (dec_of_nat n)"
proof (induction n rule: dec_of_nat.induct)
  case (1 n)
  then show ?case by (subst dec_of_nat.simps) (auto simp: digit_is_digit)
qed

lemma dec_length: "n < 10 ^ w \<Longrightarrow> 0 < w \<Longrightarrow> length (dec_of_nat n) \<le> w"
proof (induction n arbitrary: w rule: dec_of_nat.induct)
  case (1 n)
  show ?case
  proof (cases "n < 10")
    case True
    then show ?thesis using "1.prems" by (subst dec_of_nat.simps) simp
  next
    case False
    then obtain w' where w: "w = Suc w'" "0 < w'"
      using "1.prems" by (cases w; cases "w - 1") auto
    then have "n div 10 < 10 ^ w'" using "1.prems" by (simp add: less_mult_imp_div_less mult.commute)
    with "1.IH" [OF False this w(2)] False w show ?thesis by (subst dec_of_nat.simps) simp
  qed
qed

lemma is_digit_0: "is_digit (CHR ''0'')"
  by (simp add: is_digit_def)

lemma pad_digits [simp]: "list_all is_digit (pad w n)"
  using dec_digits [of n] is_digit_0 by (auto simp: pad_def list_all_iff)

lemma pad_length: "n < 10 ^ w \<Longrightarrow> 0 < w \<Longrightarrow> length (pad w n) = w"
  using dec_length [of n w] by (simp add: pad_def)

lemma digits_pad: "n < 10 ^ w \<Longrightarrow> 0 < w \<Longrightarrow> digits w (pad w n @ s) = Some (n, s)"
  by (simp add: digits_def pad_length)

lemma strip_zeros_value:
  "dec_value (strip_zeros s) * 10 ^ (length s - length (strip_zeros s)) = dec_value s"
proof (induction s rule: rev_induct)
  case (snoc c s)
  show ?case
  proof (cases "c = CHR ''0''")
    case True
    have "length (strip_zeros s) \<le> length s"
      unfolding strip_zeros_def by (metis length_dropWhile_le length_rev)
    then have "Suc (length s) - length (strip_zeros s) = Suc (length s - length (strip_zeros s))" by simp
    moreover have "strip_zeros (s @ [c]) = strip_zeros s" using True by (simp add: strip_zeros_def)
    moreover have "dec_value (s @ [c]) = 10 * dec_value s" using True
      by (simp add: dec_value_def hex_val_def)
    ultimately show ?thesis using snoc by (simp add: algebra_simps)
  qed (simp add: strip_zeros_def)
qed (simp add: strip_zeros_def)

lemma strip_zeros_facts:
  "length (strip_zeros s) \<le> length s" "list_all is_digit s \<Longrightarrow> list_all is_digit (strip_zeros s)"
  "dec_value s \<noteq> 0 \<Longrightarrow> strip_zeros s \<noteq> []"
proof -
  show "length (strip_zeros s) \<le> length s"
    unfolding strip_zeros_def by (metis length_dropWhile_le length_rev)
  show "list_all is_digit s \<Longrightarrow> list_all is_digit (strip_zeros s)"
    by (auto simp: strip_zeros_def list_all_iff dest: set_dropWhileD)
  show "dec_value s \<noteq> 0 \<Longrightarrow> strip_zeros s \<noteq> []"
    using strip_zeros_value [of s] by (auto simp: dec_value_def)
qed

lemma takeWhile_digits:
  "list_all is_digit ds \<Longrightarrow> takeWhile is_digit (ds @ ''Z'') = ds \<and> dropWhile is_digit (ds @ ''Z'') = ''Z''"
  by (induction ds) (auto simp: is_digit_def)

lemma fraction_written:
  assumes "ns < 10 ^ 9"
  shows "fraction ((if ns = 0 then [] else ''.'' @ strip_zeros (pad 9 ns)) @ ''Z'') = Some (ns, ''Z'')"
proof (cases "ns = 0")
  case False
  let ?ds = "strip_zeros (pad 9 ns)"
  have len: "length (pad 9 ns) = 9" using assms by (intro pad_length) auto
  have ds: "length ?ds \<le> 9" "list_all is_digit ?ds" "?ds \<noteq> []"
    using strip_zeros_facts [of "pad 9 ns"] len False by auto
  moreover have "dec_value ?ds * 10 ^ (9 - length ?ds) = ns"
    using strip_zeros_value [of "pad 9 ns"] len by simp
  ultimately show ?thesis
    using False takeWhile_digits [of ?ds] by (simp add: fraction_def)
qed (simp add: fraction_def)

text \<open>The times of the years 0 to 9999.\<close>

definition in_calendar :: "time \<Rightarrow> bool" where
  "in_calendar t \<longleftrightarrow> - epoch_days \<le> unix_nano t div 1000000000 div 86400
     \<and> fst (year_of 0 (nat (unix_nano t div 1000000000 div 86400 + epoch_days))) < 10000"

lemma parse_format_time:
  assumes "in_calendar t"
  shows "parse_time (format_time t) = Some t"
proof -
  define secs where "secs = unix_nano t div 1000000000"
  define ns where "ns = nat (unix_nano t mod 1000000000)"
  define sod where "sod = nat (secs mod 86400)"
  define day where "day = nat (secs div 86400 + epoch_days)"
  obtain y doy where y: "year_of 0 day = (y, doy)" by fastforce
  obtain m d where m: "month_of (month_lens y) doy = (m, d)" by fastforce
  have yb: "y < 10 ^ 4" and day0: "0 \<le> secs div 86400 + epoch_days"
    using assms y by (simp_all add: in_calendar_def secs_def day_def)
  have doy: "doy < year_len y" "day = days_before_year y + doy"
    using year_of_spec [OF y] by (auto simp: days_before_year_def)
  have md: "m < 12" "d < month_lens y ! m" "doy = days_before_month (month_lens y) m + d"
    using month_of_spec [OF m] doy(1) by (auto simp: sum_month_lens) (simp add: month_lens_def)
  have "set (month_lens y) \<subseteq> {..31}" by (auto simp: month_lens_def)
  with md nth_mem [of m "month_lens y"] have d31: "d < 31" by (force simp: month_lens_def)
  have ns: "ns < 10 ^ 9" "int ns = unix_nano t mod 1000000000" by (simp_all add: ns_def nat_less_iff)
  have sod: "sod < 86400" "int sod = secs mod 86400" by (simp_all add: sod_def nat_less_iff)
  have hms: "sod div 3600 < 24" "sod mod 3600 div 60 < 60" "sod mod 60 < 60"
    using sod(1) by (auto simp: less_mult_imp_div_less)
  have total: "sod div 3600 * 3600 + sod mod 3600 div 60 * 60 + sod mod 60 = sod"
  proof -
    have "sod mod 3600 mod 60 = sod mod 60" by (rule mod_mod_cancel) simp
    with div_mult_mod_eq [of "sod mod 3600" 60]
    have "sod mod 3600 div 60 * 60 + sod mod 60 = sod mod 3600" by simp
    with div_mult_mod_eq [of sod 3600] show ?thesis by (metis add.assoc)
  qed
  define fr where "fr = (if ns = 0 then [] else ''.'' @ strip_zeros (pad 9 ns)) @ ''Z''"
  have fr: "fraction fr = Some (ns, ''Z'')" unfolding fr_def by (rule fraction_written [OF ns(1)])
  have out: "format_time t = pad 4 y @ ''-'' @ pad 2 (Suc m) @ ''-'' @ pad 2 (Suc d) @ ''T''
         @ pad 2 (sod div 3600) @ '':'' @ pad 2 (sod mod 3600 div 60) @ '':'' @ pad 2 (sod mod 60)
         @ fr"
    using y m by (simp add: fr_def format_time_def secs_def ns_def sod_def day_def Let_def)
  have "Suc m < 10 ^ 2" "Suc d < 10 ^ 2" "sod div 3600 < 10 ^ 2" "sod mod 3600 div 60 < 10 ^ 2"
    "sod mod 60 < 10 ^ 2"
    using md(1) d31 hms by simp_all
  with yb have dp: "digits 4 (pad 4 y @ r) = Some (y, r)" "digits 2 (pad 2 (Suc m) @ r) = Some (Suc m, r)"
    "digits 2 (pad 2 (Suc d) @ r) = Some (Suc d, r)"
    "digits 2 (pad 2 (sod div 3600) @ r) = Some (sod div 3600, r)"
    "digits 2 (pad 2 (sod mod 3600 div 60) @ r) = Some (sod mod 3600 div 60, r)"
    "digits 2 (pad 2 (sod mod 60) @ r) = Some (sod mod 60, r)" for r
    by (simp_all only: digits_pad zero_less_numeral)
  have "parse_time (format_time t) = Some (Time
      (((int (days_before_year y + days_before_month (month_lens y) m + d) - epoch_days)
            * 86400 + int sod) * 1000000000 + int ns))"
    unfolding parse_time_def out using md hms total
    by (simp add: dp fr)
  also have "int (days_before_year y + days_before_month (month_lens y) m + d) = secs div 86400 + epoch_days"
    using doy(2) md(3) day0 by (simp add: day_def)
  also have "(secs div 86400 + epoch_days - epoch_days) * 86400 + int sod = secs"
    unfolding sod(2) by simp
  also have "secs * 1000000000 + int ns = unix_nano t"
    unfolding ns(2) secs_def by simp
  finally show ?thesis by simp
qed

text \<open>The characters of a written time.\<close>

definition time_char :: "char \<Rightarrow> bool" where
  "time_char c \<longleftrightarrow> c \<in> set ''0123456789-T:.Z''"

lemma time_chars:
  "is_digit c \<Longrightarrow> time_char c" "time_char (CHR ''-'')" "time_char (CHR ''T'')" "time_char (CHR '':'')"
  "time_char (CHR ''.'')" "time_char (CHR ''Z'')"
  by (auto simp: is_digit_def time_char_def)

lemma format_chars: "list_all time_char (format_time t)"
proof -
  have p: "list_all time_char (pad w n)" for w n
    using pad_digits [of w n] by (auto simp: list_all_iff time_chars(1) simp del: pad_digits)
  have "list_all time_char (strip_zeros (pad w n))" for w n
    using strip_zeros_facts(2) [OF pad_digits [of w n]] by (auto simp: list_all_iff time_chars(1))
  with p show ?thesis by (simp add: format_time_def Let_def case_prod_unfold time_chars)
qed

end
