(* ===== verification/AapHandshake.thy ===== *)
theory AapHandshake
  imports DomainAgent Base64Url Rfc3339
begin

text \<open>
  The admission handshake, \<open>src/internal/authz/aap/challenge.go\<close> and \<open>verify.go\<close>: the server
  stores a signed challenge in the cache, the agent signs it, the server consumes it, checks the
  answer and issues a proof.

  Ed25519 is library code: \<open>ed25519\<close> holds its two operations. The random bytes are arguments; the
  clock and the cache's server read the same time, \<open>now\<close>.
\<close>

section \<open>Challenges\<close>

record ed25519 =
  ed_sign :: "string \<Rightarrow> string \<Rightarrow> string"
  ed_verify :: "string \<Rightarrow> string \<Rightarrow> string \<Rightarrow> bool"

abbreviation ErrEmptyDomain :: go_error where "ErrEmptyDomain \<equiv> Sentinel ''aap: empty domain signing key''"
abbreviation ErrInvalidChallengeID :: go_error where
  "ErrInvalidChallengeID \<equiv> Sentinel ''aap: invalid challenge id''"
abbreviation ErrInvalidChallenge :: go_error where
  "ErrInvalidChallenge \<equiv> Sentinel ''aap: invalid or expired challenge''"
abbreviation ErrStoreUnavailable :: go_error where
  "ErrStoreUnavailable \<equiv> Sentinel ''aap: challenge store unavailable''"

record challenge =
  ch_ChallengeID :: string
  ch_Nonce :: string
  ch_IssuedAt :: time
  ch_ExpiresAt :: time
  ch_DomainSig :: string

definition Challenge_IsExpired :: "challenge \<Rightarrow> time \<Rightarrow> bool" where
  "Challenge_IsExpired c now \<longleftrightarrow> \<not> now < ch_ExpiresAt c"

record aap_config =
  ag_ChallengeTTL :: duration
  ag_DomainKey :: string
  ag_ChallengeIDLen :: int

record 'w generator =
  gn_cfg :: aap_config
  gn_store :: "'w kv_cache"

definition NewGenerator :: "'w kv_cache option \<Rightarrow> aap_config \<Rightarrow> go_error + 'w generator" where
  "NewGenerator store cfg =
     (case store of
        None \<Rightarrow> Inl ErrStoreUnavailable
      | Some st \<Rightarrow>
          (let c1 = (if ag_ChallengeTTL cfg \<le> 0 then cfg \<lparr> ag_ChallengeTTL := 30 * second \<rparr> else cfg);
               c2 = (if ag_ChallengeIDLen c1 \<le> 0 then c1 \<lparr> ag_ChallengeIDLen := 16 \<rparr> else c1)
           in if length (ag_DomainKey c2) \<noteq> 64 then Inl ErrEmptyDomain
              else Inr \<lparr> gn_cfg = c2, gn_store = st \<rparr>))"

definition signPayload :: "string \<Rightarrow> string \<Rightarrow> time \<Rightarrow> string" where
  "signPayload challengeID nonce issuedAt = challengeID @ '':'' @ nonce @ '':'' @ format_time issuedAt"

definition isValidChallengeID :: "string \<Rightarrow> bool" where
  "isValidChallengeID s \<longleftrightarrow>
     (if s = [] \<or> odd (length s) \<or> 64 < length s then False else list_all is_hex_char s)"

definition challengeStoreKey :: "string \<Rightarrow> string" where
  "challengeStoreKey i = ''aap:challenge:'' @ i"

section \<open>The stored text\<close>

definition qt :: char where "qt = CHR 0x22"
definition bsl :: char where "bsl = CHR 0x5C"

text \<open>\<open>%q\<close> on ASCII text.\<close>

definition quote_char :: "char \<Rightarrow> string" where
  "quote_char c =
     (let n = of_char c :: nat in
      if c = qt \<or> c = bsl then [bsl, c]
      else if 32 \<le> n \<and> n \<le> 126 then [c]
      else if n = 7 then [bsl, CHR ''a''] else if n = 8 then [bsl, CHR ''b'']
      else if n = 9 then [bsl, CHR ''t''] else if n = 10 then [bsl, CHR ''n'']
      else if n = 11 then [bsl, CHR ''v''] else if n = 12 then [bsl, CHR ''f'']
      else if n = 13 then [bsl, CHR ''r''] else [bsl, CHR ''x''] @ hex_byte c)"

definition go_quote :: "string \<Rightarrow> string" where
  "go_quote s = [qt] @ concat (map quote_char s) @ [qt]"

definition json_key :: "string \<Rightarrow> string" where
  "json_key k = [qt] @ k @ [qt] @ '':''"

definition encodeChallenge :: "challenge \<Rightarrow> string" where
  "encodeChallenge c =
     ''{'' @ json_key ''challenge_id'' @ go_quote (ch_ChallengeID c)
     @ '','' @ json_key ''nonce'' @ go_quote (ch_Nonce c)
     @ '','' @ json_key ''issued_at'' @ go_quote (format_time (ch_IssuedAt c))
     @ '','' @ json_key ''expires_at'' @ go_quote (format_time (ch_ExpiresAt c))
     @ '','' @ json_key ''domain_sig'' @ go_quote (ch_DomainSig c) @ ''}''"

text \<open>\<open>strings.Index\<close>.\<close>

fun str_index :: "string \<Rightarrow> string \<Rightarrow> nat option" where
  "str_index p [] = (if p = [] then Some 0 else None)"
| "str_index p (c # s) = (if starts_with p (c # s) then Some 0 else map_option Suc (str_index p s))"

definition jsonField :: "string \<Rightarrow> string \<Rightarrow> go_error + string" where
  "jsonField s key =
     (let k = json_key key in
      case str_index k s of
        None \<Rightarrow> Inl (Errorf ''aap: missing field %s'' [])
      | Some idx \<Rightarrow>
          (let rest = dropWhile (\<lambda>c. c = CHR '' '' \<or> c = CHR 0x09) (drop (idx + length k) s)
           in if rest = [] \<or> hd rest \<noteq> qt then Inl (Errorf ''aap: field %s not a string'' [])
              else (case str_index [qt] (tl rest) of
                      None \<Rightarrow> Inl (Errorf ''aap: field %s unterminated'' [])
                    | Some e \<Rightarrow> Inr (take e (tl rest)))))"

definition decodeChallenge :: "string \<Rightarrow> go_error + challenge" where
  "decodeChallenge s =
     (case jsonField s ''challenge_id'' of Inl e \<Rightarrow> Inl e | Inr cid \<Rightarrow>
     (case jsonField s ''nonce'' of Inl e \<Rightarrow> Inl e | Inr nonce \<Rightarrow>
     (case jsonField s ''domain_sig'' of Inl e \<Rightarrow> Inl e | Inr dsig \<Rightarrow>
     (case jsonField s ''issued_at'' of Inl e \<Rightarrow> Inl e | Inr issued \<Rightarrow>
     (case jsonField s ''expires_at'' of Inl e \<Rightarrow> Inl e | Inr expires \<Rightarrow>
     (case parse_time issued of None \<Rightarrow> Inl (Errorf ''aap: parse issued_at: %w'' []) | Some t1 \<Rightarrow>
     (case parse_time expires of None \<Rightarrow> Inl (Errorf ''aap: parse expires_at: %w'' []) | Some t2 \<Rightarrow>
        Inr \<lparr> ch_ChallengeID = cid, ch_Nonce = nonce, ch_IssuedAt = t1, ch_ExpiresAt = t2,
              ch_DomainSig = dsig \<rparr>)))))))"

section \<open>Generating and consuming\<close>

definition storeChallenge ::
  "'w generator \<Rightarrow> time \<Rightarrow> challenge \<Rightarrow> 'w \<Rightarrow> go_error option \<times> 'w" where
  "storeChallenge g now c w =
     kc_Set (gn_store g) now (challengeStoreKey (ch_ChallengeID c)) (encodeChallenge c)
       (ag_ChallengeTTL (gn_cfg g)) w"

definition new_challenge :: "ed25519 \<Rightarrow> 'w generator \<Rightarrow> time \<Rightarrow> string \<Rightarrow> string \<Rightarrow> challenge" where
  "new_challenge ed g now cid nonce =
     \<lparr> ch_ChallengeID = cid, ch_Nonce = nonce, ch_IssuedAt = now,
       ch_ExpiresAt = time_add now (ag_ChallengeTTL (gn_cfg g)),
       ch_DomainSig = b64url_encode
         (ed_sign ed (ag_DomainKey (gn_cfg g)) (signPayload cid nonce now)) \<rparr>"

definition Generate ::
  "ed25519 \<Rightarrow> 'w generator \<Rightarrow> time \<Rightarrow> go_error + string \<Rightarrow> go_error + string \<Rightarrow> 'w
   \<Rightarrow> (go_error + challenge) \<times> 'w" where
  "Generate ed g now idBytes nonceBytes w =
     (case idBytes of Inl e \<Rightarrow> (Inl (Errorf ''aap: gen challenge_id: %w'' [e]), w) | Inr ib \<Rightarrow>
     (case nonceBytes of Inl e \<Rightarrow> (Inl (Errorf ''aap: gen nonce: %w'' [e]), w) | Inr nb \<Rightarrow>
       (let c = new_challenge ed g now (hex_encode ib) (hex_encode nb)
        in (case storeChallenge g now c w of
              (Some e, w') \<Rightarrow> (Inl e, w')
            | (None, w') \<Rightarrow> (Inr c, w')))))"

definition GenerateWithID ::
  "ed25519 \<Rightarrow> 'w generator \<Rightarrow> time \<Rightarrow> string \<Rightarrow> go_error + string \<Rightarrow> 'w
   \<Rightarrow> (go_error + challenge) \<times> 'w" where
  "GenerateWithID ed g now cid nonceBytes w =
     (if \<not> isValidChallengeID cid then (Inl ErrInvalidChallengeID, w)
      else (case kc_Exists (gn_store g) now (challengeStoreKey cid) w of
        Inl e \<Rightarrow> (Inl e, w)
      | Inr True \<Rightarrow> (Inl (Errorf ''%w: id=%s'' [ErrInvalidChallenge]), w)
      | Inr False \<Rightarrow>
      (case nonceBytes of Inl e \<Rightarrow> (Inl e, w) | Inr nb \<Rightarrow>
        (let c = new_challenge ed g now cid (hex_encode nb)
         in (case storeChallenge g now c w of
               (Some e, w') \<Rightarrow> (Inl e, w')
             | (None, w') \<Rightarrow> (Inr c, w'))))))"

definition LoadChallenge :: "'w generator \<Rightarrow> time \<Rightarrow> string \<Rightarrow> 'w \<Rightarrow> go_error + challenge" where
  "LoadChallenge g now cid w =
     (case kc_Get (gn_store g) now (challengeStoreKey cid) w of
        Inl e \<Rightarrow> Inl e
      | Inr raw \<Rightarrow> decodeChallenge raw)"

text \<open>The outcome of the deletion is not looked at.\<close>

definition ConsumeChallenge ::
  "'w generator \<Rightarrow> time \<Rightarrow> string \<Rightarrow> 'w \<Rightarrow> (go_error + challenge) \<times> 'w" where
  "ConsumeChallenge g now cid w =
     (case LoadChallenge g now cid w of
        Inl e \<Rightarrow> (Inl e, w)
      | Inr c \<Rightarrow> (Inr c, snd (kc_Del (gn_store g) now [challengeStoreKey cid] w)))"

section \<open>Verifying the answer\<close>

abbreviation ErrResponseExpired :: go_error where "ErrResponseExpired \<equiv> Sentinel ''aap: response expired''"
abbreviation AapErrSignatureInvalid :: go_error where
  "AapErrSignatureInvalid \<equiv> Sentinel ''aap: signature invalid''"
abbreviation ErrEmptyAgentPubKey :: go_error where
  "ErrEmptyAgentPubKey \<equiv> Sentinel ''aap: empty agent public key''"
abbreviation ErrInvalidAgentPubKey :: go_error where
  "ErrInvalidAgentPubKey \<equiv> Sentinel ''aap: invalid agent public key''"
abbreviation ErrEmptyAgentUUID :: go_error where "ErrEmptyAgentUUID \<equiv> Sentinel ''aap: empty agent uuid''"

record verify_input =
  vi_ChallengeID :: string
  vi_Response :: string
  vi_AgentPubKey :: string
  vi_AgentUUID :: string
  vi_Now :: time

record verify_output =
  vo_Challenge :: challenge
  vo_AgentUUID :: string
  vo_AgentPubKey :: string
  vo_VerifiedAt :: time

record 'w aap_verifier =
  av_gen :: "'w generator"
  av_ResponseMaxTTL :: duration
  av_domainPubKey :: string

definition NewAapVerifier :: "'w generator option \<Rightarrow> duration \<Rightarrow> go_error + 'w aap_verifier" where
  "NewAapVerifier gen maxTTL =
     (case gen of
        None \<Rightarrow> Inl (Sentinel ''aap: nil generator'')
      | Some g \<Rightarrow>
          Inr \<lparr> av_gen = g, av_ResponseMaxTTL = (if maxTTL \<le> 0 then 10 * minute else maxTTL),
                av_domainPubKey = drop 32 (ag_DomainKey (gn_cfg g)) \<rparr>)"

definition responsePayload :: "string \<Rightarrow> string \<Rightarrow> time \<Rightarrow> string \<Rightarrow> string" where
  "responsePayload cid nonce issuedAt agentUUID =
     cid @ '':'' @ nonce @ '':'' @ format_time issuedAt @ '':'' @ agentUUID"

text \<open>\<open>base64.StdEncoding\<close>: like the URL alphabet, with \<open>+\<close>, \<open>/\<close> and the padding.\<close>

definition b64std_val :: "char \<Rightarrow> nat option" where
  "b64std_val c =
     (if c = CHR ''+'' then Some 62 else if c = CHR ''/'' then Some 63
      else if c = CHR ''-'' \<or> c = CHR ''_'' then None else b64_val c)"

definition b64std_decode :: "string \<Rightarrow> string option" where
  "b64std_decode s =
     (let cs = filter (\<lambda>c. c \<noteq> char_of (10 :: nat) \<and> c \<noteq> char_of (13 :: nat)) s;
          body = rev (dropWhile (\<lambda>c. c = CHR ''='') (rev cs));
          vs = map b64std_val body
      in if length cs mod 4 \<noteq> 0 \<or> 2 < length cs - length body \<or> None \<in> set vs then None
         else map_option (map byte) (b64_ungroup (map the vs)))"

definition parsePubKey :: "string \<Rightarrow> go_error + string" where
  "parsePubKey s0 =
     (let s = trim_space s0 in
      if s = [] then Inl ErrEmptyAgentPubKey
      else
        (let hex = length s = 64 \<or> length s = 66 \<and> starts_with ''0x'' s;
             clean = (if starts_with ''0x'' s \<or> starts_with ''0X'' s then drop 2 s else s);
             b = (if hex then hex_decode clean
                  else case b64url_decode s of Some b \<Rightarrow> Some b | None \<Rightarrow> b64std_decode s)
         in case b of
              None \<Rightarrow> Inl (Errorf (if hex then ''%w: hex decode: %v'' else ''%w: base64 decode: %v'')
                         [ErrInvalidAgentPubKey])
            | Some bytes \<Rightarrow>
                if length bytes \<noteq> 32
                then Inl (Errorf ''%w: got %d bytes, want %d'' [ErrInvalidAgentPubKey])
                else Inr bytes))"

text \<open>The checks before the challenge is consumed: the time and the key, or the error.\<close>

definition check_verify_input :: "time \<Rightarrow> verify_input \<Rightarrow> go_error + time \<times> string" where
  "check_verify_input clock vi =
     (if vi_ChallengeID vi = [] then Inl ErrInvalidChallengeID
      else if vi_AgentUUID vi = [] then Inl ErrEmptyAgentUUID
      else if UUID_Validate (vi_AgentUUID vi) \<noteq> None then Inl (Errorf ''%w: %s'' [ErrEmptyAgentUUID])
      else if vi_AgentPubKey vi = [] then Inl ErrEmptyAgentPubKey
      else if vi_Response vi = [] then Inl AapErrSignatureInvalid
      else (case parsePubKey (vi_AgentPubKey vi) of
              Inl e \<Rightarrow> Inl e
            | Inr pub \<Rightarrow> Inr (if is_zero_time (vi_Now vi) then clock else vi_Now vi, pub)))"

definition check_answer ::
  "ed25519 \<Rightarrow> duration \<Rightarrow> verify_input \<Rightarrow> time \<Rightarrow> string \<Rightarrow> challenge \<Rightarrow> go_error + verify_output" where
  "check_answer ed maxTTL vi now pub c =
     (if Challenge_IsExpired c now then Inl (Errorf ''%w: issued=%s now=%s'' [ErrResponseExpired])
      else if maxTTL < time_sub now (ch_IssuedAt c)
      then Inl (Errorf ''%w: delta=%v'' [ErrResponseExpired])
      else (case b64url_decode (vi_Response vi) of
        None \<Rightarrow> Inl (Errorf ''%w: decode response: %v'' [AapErrSignatureInvalid])
      | Some sig \<Rightarrow>
          if \<not> ed_verify ed pub
               (responsePayload (ch_ChallengeID c) (ch_Nonce c) (ch_IssuedAt c) (vi_AgentUUID vi)) sig
          then Inl AapErrSignatureInvalid
          else Inr \<lparr> vo_Challenge = c, vo_AgentUUID = vi_AgentUUID vi, vo_AgentPubKey = pub,
                     vo_VerifiedAt = now \<rparr>))"

definition Aap_Verify ::
  "ed25519 \<Rightarrow> 'w aap_verifier \<Rightarrow> time \<Rightarrow> verify_input \<Rightarrow> 'w \<Rightarrow> (go_error + verify_output) \<times> 'w" where
  "Aap_Verify ed v clock vi w =
     (case check_verify_input clock vi of
        Inl e \<Rightarrow> (Inl e, w)
      | Inr (now, pub) \<Rightarrow>
          (case ConsumeChallenge (av_gen v) clock (vi_ChallengeID vi) w of
             (Inl e, w') \<Rightarrow> (Inl (Errorf ''%w: %s'' [ErrInvalidChallenge]), w')
           | (Inr c, w') \<Rightarrow> (check_answer ed (av_ResponseMaxTTL v) vi now pub c, w')))"

section \<open>Proofs\<close>

record aap_proof =
  pf_ProofID :: string
  pf_AgentUUID :: string
  pf_AgentPubKey :: string
  pf_IssuedAt :: time
  pf_ExpiresAt :: time
  pf_DomainSig :: string

definition Proof_IsExpired :: "aap_proof \<Rightarrow> time \<Rightarrow> bool" where
  "Proof_IsExpired p now \<longleftrightarrow> \<not> now < pf_ExpiresAt p"

definition proofPayload :: "string \<Rightarrow> string \<Rightarrow> time \<Rightarrow> time \<Rightarrow> string" where
  "proofPayload pid agentUUID issuedAt expiresAt =
     pid @ '':'' @ agentUUID @ '':'' @ format_time issuedAt @ '':'' @ format_time expiresAt"

definition IssueProof ::
  "ed25519 \<Rightarrow> 'w aap_verifier \<Rightarrow> time \<Rightarrow> verify_output option \<Rightarrow> duration \<Rightarrow> go_error + aap_proof" where
  "IssueProof ed v now vo ttl0 =
     (case vo of
        None \<Rightarrow> Inl (Sentinel ''aap: nil verify output'')
      | Some o' \<Rightarrow>
          (let ttl = (if ttl0 \<le> 0 then 5 * minute else ttl0);
               pid = ch_ChallengeID (vo_Challenge o');
               e = time_add now ttl
           in Inr \<lparr> pf_ProofID = pid, pf_AgentUUID = vo_AgentUUID o',
                    pf_AgentPubKey = b64url_encode (vo_AgentPubKey o'), pf_IssuedAt = now,
                    pf_ExpiresAt = e,
                    pf_DomainSig = b64url_encode (ed_sign ed (ag_DomainKey (gn_cfg (av_gen v)))
                       (proofPayload pid (vo_AgentUUID o') now e)) \<rparr>))"

definition VerifyProof ::
  "ed25519 \<Rightarrow> 'w aap_verifier \<Rightarrow> time \<Rightarrow> aap_proof option \<Rightarrow> go_error option" where
  "VerifyProof ed v now po =
     (case po of
        None \<Rightarrow> Some (Sentinel ''aap: nil proof'')
      | Some p \<Rightarrow>
          if Proof_IsExpired p now then Some (Errorf ''%w: proof expired'' [ErrResponseExpired])
          else (case b64url_decode (pf_DomainSig p) of
            None \<Rightarrow> Some (Errorf ''%w: decode proof sig: %v'' [AapErrSignatureInvalid])
          | Some sig \<Rightarrow>
              if \<not> ed_verify ed (av_domainPubKey v)
                   (proofPayload (pf_ProofID p) (pf_AgentUUID p) (pf_IssuedAt p) (pf_ExpiresAt p)) sig
              then Some AapErrSignatureInvalid
              else (case parsePubKey (pf_AgentPubKey p) of Inl e \<Rightarrow> Some e | Inr _ \<Rightarrow> None)))"

section \<open>Reading a stored challenge\<close>

definition plain_char :: "char \<Rightarrow> bool" where
  "plain_char c \<longleftrightarrow> c \<noteq> qt \<and> c \<noteq> bsl \<and> 32 \<le> (of_char c :: nat) \<and> (of_char c :: nat) \<le> 126"

lemma go_quote_plain: "list_all plain_char s \<Longrightarrow> go_quote s = qt # s @ [qt]"
proof -
  have "list_all plain_char s \<Longrightarrow> concat (map quote_char s) = s"
    by (induction s) (auto simp: plain_char_def quote_char_def Let_def)
  then show "list_all plain_char s \<Longrightarrow> ?thesis" by (simp add: go_quote_def)
qed

lemma plain_no_quote: "list_all plain_char s \<Longrightarrow> qt \<notin> set s"
  by (auto simp: list_all_iff plain_char_def)

lemma plain_cases:
  "is_hex_char c \<Longrightarrow> plain_char c" "time_char c \<Longrightarrow> plain_char c"
  by (auto simp: is_hex_char_def time_char_def plain_char_def qt_def bsl_def)

lemma plain_char_code:
  "plain_char c \<longleftrightarrow> (of_char c :: nat) \<noteq> 34 \<and> (of_char c :: nat) \<noteq> 92
     \<and> 32 \<le> (of_char c :: nat) \<and> (of_char c :: nat) \<le> 126"
proof -
  have "of_char qt = (34 :: nat)" "of_char bsl = (92 :: nat)" by (simp_all add: qt_def bsl_def)
  then have "c = qt \<longleftrightarrow> of_char c = (34 :: nat)" "c = bsl \<longleftrightarrow> of_char c = (92 :: nat)"
    by (metis of_char_eq_iff)+
  then show ?thesis by (simp add: plain_char_def)
qed

lemma plain_b64: "list_all plain_char (b64url_encode s)"
proof -
  have "plain_char (b64_char n)" if "n < 64" for n
    using that unfolding plain_char_code b64_char_def by auto
  moreover have "\<forall>v \<in> set (b64_groups (map of_char s)). v < 64"
    using of_char_small by (intro b64_groups_small) auto
  ultimately show ?thesis by (simp add: b64url_encode_def list_all_iff)
qed

lemma plain_hex: "list_all plain_char (hex_encode s)"
  using hex_encode_hex [of s] by (auto simp: list_all_iff plain_cases)

lemma plain_time: "list_all plain_char (format_time t)"
  using format_chars [of t] by (auto simp: list_all_iff plain_cases)

lemma starts_with_append [simp]: "starts_with p (p @ s)"
  by (simp add: starts_with_def)

lemma starts_with_Cons: "starts_with (c # p) s \<longleftrightarrow> s \<noteq> [] \<and> hd s = c \<and> starts_with p (tl s)"
  by (cases s) (auto simp: starts_with_def)

lemma starts_with_Nil [simp]: "starts_with [] s"
  by (simp add: starts_with_def)

lemma str_index_skip: "c \<notin> set p \<Longrightarrow>
    str_index (c # k) (p @ s) = map_option (\<lambda>i. length p + i) (str_index (c # k) s)"
proof (induction p)
  case (Cons x p)
  then show ?case
    by (cases "str_index (c # k) s") (auto simp: starts_with_Cons)
qed (cases "str_index (c # k) s"; simp)

lemma str_index_here: "str_index (c # p) (c # p @ s) = Some 0"
  using starts_with_append [of "c # p" s] by simp

lemma jsonField_skip: "qt \<notin> set p \<Longrightarrow> jsonField (p @ s) key = jsonField s key"
proof -
  assume "qt \<notin> set p"
  from str_index_skip [OF this, of "key @ [qt] @ '':''" s]
  have i: "str_index (json_key key) (p @ s) = map_option (\<lambda>i. length p + i) (str_index (json_key key) s)"
    by (simp add: json_key_def)
  have d: "drop (length p + i + l) (p @ s) = drop (i + l) s" for i l
    by (simp add: add.assoc)
  show "jsonField (p @ s) key = jsonField s key"
    unfolding jsonField_def Let_def i
    by (cases "str_index (json_key key) s") (simp_all only: option.map option.case d)
qed

lemma starts_with_key:
  "qt \<notin> set key \<Longrightarrow> qt \<notin> set v \<Longrightarrow>
     starts_with (key @ qt # r) (v @ qt # s) \<longleftrightarrow> v = key \<and> starts_with r s"
proof (induction key arbitrary: v)
  case Nil
  then show ?case by (cases v) (auto simp: starts_with_Cons)
next
  case (Cons c key)
  then show ?case by (cases v) (auto simp: starts_with_Cons)
qed

text \<open>A quoted text is passed over unless it is the key with a colon after it.\<close>

lemma jsonField_other:
  assumes "qt \<notin> set key" and "qt \<notin> set v" and "v \<noteq> key \<or> \<not> starts_with '':'' s"
  shows "jsonField (qt # v @ qt # s) key = jsonField (qt # s) key"
proof -
  have "\<not> starts_with (json_key key) (qt # v @ qt # s)"
    using assms by (auto simp: json_key_def starts_with_Cons starts_with_key)
  then have "str_index (json_key key) (qt # v @ qt # s)
      = map_option Suc (str_index (json_key key) (v @ qt # s))" by simp
  then have "jsonField (qt # v @ qt # s) key = jsonField (v @ qt # s) key"
    by (cases "str_index (json_key key) (v @ qt # s)") (simp_all add: jsonField_def Let_def)
  with jsonField_skip [OF assms(2)] show ?thesis by simp
qed

lemma jsonField_here:
  assumes "qt \<notin> set v"
  shows "jsonField (qt # key @ qt # CHR '':'' # qt # v @ qt # s) key = Inr v"
proof -
  have 1: "str_index (json_key key) (qt # key @ qt # CHR '':'' # qt # v @ qt # s) = Some 0"
    using str_index_here [of qt "key @ [qt] @ '':''"] by (simp add: json_key_def)
  have 2: "str_index [qt] (v @ qt # s) = Some (length v)"
    using str_index_skip [OF assms, of "[]" "qt # s"] by (simp add: starts_with_Cons)
  have "qt \<noteq> CHR '' ''" "qt \<noteq> CHR 0x09" by (simp_all add: qt_def)
  with 1 2 show ?thesis by (simp add: jsonField_def Let_def json_key_def)
qed

definition clean_challenge :: "challenge \<Rightarrow> bool" where
  "clean_challenge c \<longleftrightarrow> list_all plain_char (ch_ChallengeID c) \<and> list_all plain_char (ch_Nonce c)
     \<and> list_all plain_char (ch_DomainSig c) \<and> in_calendar (ch_IssuedAt c) \<and> in_calendar (ch_ExpiresAt c)"

text \<open>An object of quoted fields.\<close>

fun json_object :: "(string \<times> string) list \<Rightarrow> string" where
  "json_object [] = ''}''"
| "json_object [(k, v)] = qt # k @ qt # CHR '':'' # qt # v @ qt # ''}''"
| "json_object ((k, v) # fs) = qt # k @ qt # CHR '':'' # qt # v @ qt # CHR '','' # json_object fs"

lemma jsonField_pass:
  assumes "qt \<notin> set key" and "qt \<notin> set k" and "qt \<notin> set v" and "k \<noteq> key"
    and "key \<noteq> '':''" and "key \<noteq> '',''"
  shows "jsonField (qt # k @ qt # CHR '':'' # qt # v @ qt # CHR '','' # qt # r) key = jsonField (qt # r) key"
proof -
  have q: "qt \<notin> set '':''" "qt \<notin> set '',''" by (simp_all add: qt_def)
  have "jsonField (qt # k @ qt # CHR '':'' # qt # v @ qt # CHR '','' # qt # r) key
      = jsonField (qt # CHR '':'' # qt # v @ qt # CHR '','' # qt # r) key"
    by (rule jsonField_other) (use assms in auto)
  also have "\<dots> = jsonField (qt # v @ qt # CHR '','' # qt # r) key"
    using jsonField_other [of key "'':''" "v @ qt # CHR '','' # qt # r"] assms q by simp
  also have "\<dots> = jsonField (qt # CHR '','' # qt # r) key"
    by (rule jsonField_other) (use assms in \<open>auto simp: starts_with_Cons\<close>)
  also have "\<dots> = jsonField (qt # r) key"
    using jsonField_other [of key "'',''" r] assms q by simp
  finally show ?thesis .
qed

lemma jsonField_object:
  assumes "qt \<notin> set key" and "key \<noteq> '':''" and "key \<noteq> '',''"
  shows "\<forall>(k, v) \<in> set fs. qt \<notin> set k \<and> qt \<notin> set v \<Longrightarrow> map_of fs key = Some x
    \<Longrightarrow> jsonField (json_object fs) key = Inr x"
proof (induction fs rule: json_object.induct)
  case (2 k v)
  then show ?case using jsonField_here [of v key] by (auto split: if_splits)
next
  case (3 k v f fs)
  obtain r where r: "json_object (f # fs) = qt # r" by (cases f; cases fs) auto
  show ?case
  proof (cases "k = key")
    case True
    then show ?thesis using "3.prems" jsonField_here [of v key] by auto
  next
    case False
    with jsonField_pass [of key k v r] assms "3.prems"
    have "jsonField (json_object ((k, v) # f # fs)) key = jsonField (json_object (f # fs)) key"
      by (simp add: r)
    with "3.IH" "3.prems" False show ?thesis by simp
  qed
qed simp

lemma decode_encode_challenge:
  assumes "clean_challenge c"
  shows "decodeChallenge (encodeChallenge c) = Inr c"
proof -
  let ?fs = "[(''challenge_id'', ch_ChallengeID c), (''nonce'', ch_Nonce c),
    (''issued_at'', format_time (ch_IssuedAt c)), (''expires_at'', format_time (ch_ExpiresAt c)),
    (''domain_sig'', ch_DomainSig c)]"
  have plain: "list_all plain_char (ch_ChallengeID c)" "list_all plain_char (ch_Nonce c)"
    "list_all plain_char (ch_DomainSig c)" "in_calendar (ch_IssuedAt c)" "in_calendar (ch_ExpiresAt c)"
    using assms by (simp_all add: clean_challenge_def)
  have q: "qt \<notin> set ''challenge_id''" "qt \<notin> set ''nonce''" "qt \<notin> set ''issued_at''"
    "qt \<notin> set ''expires_at''" "qt \<notin> set ''domain_sig''" "qt \<notin> set ''{''"
    by (simp_all add: qt_def)
  have enc: "encodeChallenge c = ''{'' @ json_object ?fs"
    using plain plain_time [of "ch_IssuedAt c"] plain_time [of "ch_ExpiresAt c"]
    by (simp add: encodeChallenge_def go_quote_plain json_key_def)
  have fs: "\<forall>(k, v) \<in> set ?fs. qt \<notin> set k \<and> qt \<notin> set v"
    using q plain plain_time plain_no_quote by simp
  have "jsonField (encodeChallenge c) key = Inr v" if "map_of ?fs key = Some v" "qt \<notin> set key"
    "key \<noteq> '':''" "key \<noteq> '',''" for key v
    unfolding enc jsonField_skip [OF q(6)] by (rule jsonField_object [OF that(2-4) fs that(1)])
  with q have "jsonField (encodeChallenge c) ''challenge_id'' = Inr (ch_ChallengeID c)"
    "jsonField (encodeChallenge c) ''nonce'' = Inr (ch_Nonce c)"
    "jsonField (encodeChallenge c) ''issued_at'' = Inr (format_time (ch_IssuedAt c))"
    "jsonField (encodeChallenge c) ''expires_at'' = Inr (format_time (ch_ExpiresAt c))"
    "jsonField (encodeChallenge c) ''domain_sig'' = Inr (ch_DomainSig c)" by simp_all
  then show ?thesis
    using plain(4,5) by (simp add: decodeChallenge_def parse_format_time)
qed

end
