(* ===== verification/AapRules.thy ===== *)
theory AapRules
  imports AapHandshake DomainRules
begin

text \<open>
  What the admission handshake guarantees: an answer is accepted only for a stored, unexpired
  challenge and a valid signature; a challenge serves once; an honest agent gets through. The
  cache is any server with the documented behaviour of Redis.
\<close>

section \<open>The written key\<close>

lemma length_b64_groups: "length (b64_groups bs) = (4 * length bs + 2) div 3"
  by (induction bs rule: b64_groups.induct) auto

lemma length_b64url: "length (b64url_encode s) = (4 * length s + 2) div 3"
  by (simp add: b64url_encode_def length_b64_groups)

lemma b64_not_blank: "c \<in> set (b64url_encode s) \<Longrightarrow> \<not> blank_byte c"
proof -
  have "\<not> plain_char c \<or> c = CHR '' ''" if "blank_byte c" for c
    using that by (auto simp: blank_byte_def space_runes_def plain_char_code)
  moreover have "CHR '' '' \<notin> set (b64url_encode s)"
  proof -
    have "b64_char n \<noteq> CHR '' ''" if "n < 64" for n
    proof -
      have "b64_val (CHR '' '') = None" by (simp add: b64_val_def)
      with b64_val_char [OF that] show ?thesis by auto
    qed
    moreover have "\<forall>v \<in> set (b64_groups (map of_char s)). v < 64"
      using of_char_small by (intro b64_groups_small) auto
    ultimately show ?thesis by (fastforce simp: b64url_encode_def)
  qed
  ultimately show "c \<in> set (b64url_encode s) \<Longrightarrow> \<not> blank_byte c"
    using plain_b64 [of s] by (auto simp: list_all_iff)
qed

text \<open>Trimming keeps a string whose ends are not blank.\<close>

lemma strip_front_keep:
  assumes "s \<noteq> []" and "\<not> blank_byte (hd s)" and "\<And>p. p \<in> set ps \<Longrightarrow> set p \<subseteq> set (concat space_runes)"
  shows "strip_front ps s = s"
proof -
  obtain c r where s: "s = c # r" using assms(1) by (cases s) auto
  have "hd p \<noteq> c" if "p \<in> set ps" "p \<noteq> []" for p
    using assms(2) assms(3) [OF that(1)] that(2) s by (cases p) (auto simp: blank_byte_def)
  with strip_front_head s show ?thesis by metis
qed

lemma trim_space_keep:
  assumes "s \<noteq> []" and "\<forall>c \<in> set s. \<not> blank_byte c"
  shows "trim_space s = s"
proof -
  have "strip_front space_runes s = s"
    using assms by (intro strip_front_keep) auto
  moreover have "strip_front (map rev space_runes) (rev s) = rev s"
  proof (rule strip_front_keep)
    show "\<not> blank_byte (hd (rev s))" using assms by (simp add: hd_rev)
    show "set p \<subseteq> set (concat space_runes)" if "p \<in> set (map rev space_runes)" for p
      using that by auto
  qed (use assms in simp)
  ultimately show ?thesis by (simp add: trim_space_def)
qed

lemma parsePubKey_written: "length pub = 32 \<Longrightarrow> parsePubKey (b64url_encode pub) = Inr pub"
proof -
  assume pub: "length pub = 32"
  then have ne: "b64url_encode pub \<noteq> []" by auto
  have "trim_space (b64url_encode pub) = b64url_encode pub"
    using ne b64_not_blank by (intro trim_space_keep) auto
  with pub ne show ?thesis by (simp add: parsePubKey_def length_b64url Let_def)
qed

lemma parsePubKey_length: "parsePubKey s = Inr pub \<Longrightarrow> length pub = 32"
  by (auto simp: parsePubKey_def Let_def split: if_splits option.splits)

section \<open>The honest agent\<close>

definition honest_input :: "ed25519 \<Rightarrow> string \<Rightarrow> string \<Rightarrow> string \<Rightarrow> time \<Rightarrow> challenge \<Rightarrow> verify_input" where
  "honest_input ed key pub uuid t c =
     \<lparr> vi_ChallengeID = ch_ChallengeID c,
       vi_Response = b64url_encode (ed_sign ed key
         (responsePayload (ch_ChallengeID c) (ch_Nonce c) (ch_IssuedAt c) uuid)),
       vi_AgentPubKey = b64url_encode pub, vi_AgentUUID = uuid, vi_Now = t \<rparr>"

text \<open>A generated challenge can be loaded while the cache keeps it.\<close>

lemma generated_loads:
  assumes "redis_laws r look" and "gn_store g = redisCache r" and "1000000 \<le> ag_ChallengeTTL (gn_cfg g)"
    and "Generate ed g t0 (Inr ib) (Inr nb) w = (Inr c, w1)"
    and "in_calendar t0" and "in_calendar (time_add t0 (ag_ChallengeTTL (gn_cfg g)))"
    and "t0 \<le> t" and "t < time_add t0 (ttl_ms (ag_ChallengeTTL (gn_cfg g)))"
    and "kc_Get (redisCache r) t (challengeStoreKey (ch_ChallengeID c)) w1 = Inr raw"
  shows "c = new_challenge ed g t0 (hex_encode ib) (hex_encode nb)
    \<and> LoadChallenge g t (ch_ChallengeID c) w1 = Inr c"
proof -
  note ec = redis_cache_expiring [OF assms(1)]
  from assms(4) have c: "c = new_challenge ed g t0 (hex_encode ib) (hex_encode nb)"
    and s: "storeChallenge g t0 c w = (None, w1)"
    by (auto simp: Generate_def Let_def split: prod.splits option.splits)
  have "kc_Set (redisCache r) t0 (challengeStoreKey (ch_ChallengeID c)) (encodeChallenge c)
      (ag_ChallengeTTL (gn_cfg g)) w = (None, w1)"
    using s assms(2) by (simp add: storeChallenge_def)
  from expiring_cache.set_done [OF ec _ this] assms(3,7,8)
  have "look w1 t (challengeStoreKey (ch_ChallengeID c)) = Some (encodeChallenge c)"
    by (simp add: wrote_def until_def)
  with expiring_cache.get_hit [OF ec assms(9)] have "raw = encodeChallenge c" by simp
  moreover have "clean_challenge c"
    using assms(5,6) by (simp add: c clean_challenge_def new_challenge_def plain_hex plain_b64)
  ultimately show ?thesis
    using assms(2,9) c decode_encode_challenge by (simp add: LoadChallenge_def)
qed

lemma honest_accepted:
  assumes "redis_laws r look" and "gn_store g = redisCache r" and "av_gen v = g"
    and "1000000 \<le> ag_ChallengeTTL (gn_cfg g)"
    and "Generate ed g t0 (Inr ib) (Inr nb) w = (Inr c, w1)" and "ib \<noteq> []"
    and "in_calendar t0" and "in_calendar (time_add t0 (ag_ChallengeTTL (gn_cfg g)))"
    and "t0 \<le> t" and "t < time_add t0 (ttl_ms (ag_ChallengeTTL (gn_cfg g)))" and "\<not> is_zero_time t"
    and "time_sub t t0 \<le> av_ResponseMaxTTL v"
    and "kc_Get (redisCache r) t (challengeStoreKey (ch_ChallengeID c)) w1 = Inr raw"
    and "UUID_Validate uuid = None" and "length pub = 32"
    and "\<And>m. ed_verify ed pub m (ed_sign ed key m)" and "\<And>m. ed_sign ed key m \<noteq> []"
  shows "\<exists>w2. Aap_Verify ed v t (honest_input ed key pub uuid t c) w1
    = (Inr \<lparr> vo_Challenge = c, vo_AgentUUID = uuid, vo_AgentPubKey = pub, vo_VerifiedAt = t \<rparr>, w2)"
proof -
  from generated_loads [OF assms(1,2,4,5,7-10,13)]
  have c: "c = new_challenge ed g t0 (hex_encode ib) (hex_encode nb)"
    and load: "LoadChallenge g t (ch_ChallengeID c) w1 = Inr c" by auto
  have cid: "ch_ChallengeID c \<noteq> []" using assms(6) by (simp add: c new_challenge_def)
  have uuid: "uuid \<noteq> []" using assms(14) by (auto simp: UUID_Validate_def UUID_IsZero_def)
  have pk: "b64url_encode pub \<noteq> []" using assms(15) by auto
  have chk: "check_verify_input t (honest_input ed key pub uuid t c) = Inr (t, pub)"
    using cid uuid pk assms(11,14,15,17)
    by (simp add: check_verify_input_def honest_input_def parsePubKey_written)
  have "time_add t0 (ttl_ms (ag_ChallengeTTL (gn_cfg g))) \<le> ch_ExpiresAt c"
    using ttl_ms_le [OF assms(4)] by (simp add: c new_challenge_def less_eq_time_def)
  with assms(10) have "\<not> Challenge_IsExpired c t" by (simp add: Challenge_IsExpired_def)
  moreover have "time_sub t (ch_IssuedAt c) \<le> av_ResponseMaxTTL v"
    using assms(12) by (simp add: c new_challenge_def)
  ultimately have "check_answer ed (av_ResponseMaxTTL v) (honest_input ed key pub uuid t c) t pub c
    = Inr \<lparr> vo_Challenge = c, vo_AgentUUID = uuid, vo_AgentPubKey = pub, vo_VerifiedAt = t \<rparr>"
    using assms(16) by (simp add: check_answer_def honest_input_def)
  moreover have "vi_ChallengeID (honest_input ed key pub uuid t c) = ch_ChallengeID c"
    by (simp add: honest_input_def)
  ultimately show ?thesis
    using chk load assms(3) by (simp add: Aap_Verify_def ConsumeChallenge_def)
qed

lemma proof_accepted:
  assumes "length (vo_AgentPubKey out) = 32" and "0 < ttl" and "t' < time_add t ttl"
    and "\<And>m. ed_verify ed (av_domainPubKey v) m (ed_sign ed (ag_DomainKey (gn_cfg (av_gen v))) m)"
  shows "\<exists>p. IssueProof ed v t (Some out) ttl = Inr p \<and> VerifyProof ed v t' (Some p) = None"
  using assms parsePubKey_written [OF assms(1)]
  by (simp add: IssueProof_def VerifyProof_def Proof_IsExpired_def Let_def)

definition sample_ed :: ed25519 where
  "sample_ed = \<lparr> ed_sign = (\<lambda>k m. drop 32 k @ m), ed_verify = (\<lambda>p m s. s = p @ m) \<rparr>"

definition sample_generator :: "redis_state generator" where
  "sample_generator = \<lparr> gn_cfg = \<lparr> ag_ChallengeTTL = 30 * second,
     ag_DomainKey = replicate 64 (CHR ''D''), ag_ChallengeIDLen = 16 \<rparr>,
     gn_store = redisCache redis_server \<rparr>"

definition sample_aap :: "redis_state aap_verifier" where
  "sample_aap = \<lparr> av_gen = sample_generator, av_ResponseMaxTTL = 10 * minute,
     av_domainPubKey = replicate 32 (CHR ''D'') \<rparr>"

definition start_time :: time where "start_time = time_add zero_time hour"
definition answer_time :: time where "answer_time = time_add start_time (5 * second)"

definition sample_challenge :: challenge where
  "sample_challenge = new_challenge sample_ed sample_generator start_time
     (hex_encode (replicate 16 (CHR ''i''))) (hex_encode (replicate 16 (CHR ''n'')))"

definition sample_store :: redis_state where
  "sample_store = [(challengeStoreKey (ch_ChallengeID sample_challenge),
     encodeChallenge sample_challenge, Some (time_add start_time (30 * second)))]"

definition sample_uuid :: string where
  "sample_uuid = ''0123456789abcdef0123456789ABCDEF''"

definition sample_answer :: verify_input where
  "sample_answer = honest_input sample_ed (replicate 64 (CHR ''A'')) (replicate 32 (CHR ''A''))
     sample_uuid answer_time sample_challenge"

lemma sample_generated:
  "Generate sample_ed sample_generator start_time (Inr (replicate 16 (CHR ''i'')))
     (Inr (replicate 16 (CHR ''n''))) [] = (Inr sample_challenge, sample_store)"
proof -
  have "storeChallenge sample_generator start_time sample_challenge [] = (None, sample_store)"
    by (simp add: storeChallenge_def sample_generator_def redisCache_def redis_server_def ttl_ms_def
        sample_store_def)
  then show ?thesis unfolding Generate_def by (simp add: Let_def flip: sample_challenge_def)
qed

lemma sample_uuid_valid: "UUID_Validate sample_uuid = None"
  by (simp add: sample_uuid_def UUID_Validate_iff uuidPattern_def take_hex_def is_hex_char_def)

lemma sample_times:
  "in_calendar start_time" "in_calendar (time_add start_time (30 * second))" "start_time \<le> answer_time"
  "answer_time < time_add start_time (ttl_ms (30 * second))" "\<not> is_zero_time answer_time"
  "time_sub answer_time start_time = 5 * second"
  by (simp_all add: in_calendar_def start_time_def answer_time_def zero_time_def time_add_def
      epoch_days_def year_of.simps year_len_def leap_def less_eq_time_def less_time_def ttl_ms_def
      is_zero_time_def time_sub_def)

lemma sample_get:
  "kc_Get (redisCache redis_server) answer_time (challengeStoreKey (ch_ChallengeID sample_challenge))
     sample_store = Inr (encodeChallenge sample_challenge)"
  using sample_times(4)
  by (simp add: redisCache_def redis_Get_def redis_server_def redis_look_def sample_store_def live_def
      ttl_ms_def)

lemma sample_fields [simp]:
  "gn_store sample_generator = redisCache redis_server"
  "gn_cfg sample_generator = \<lparr> ag_ChallengeTTL = 30 * second,
     ag_DomainKey = replicate 64 (CHR ''D''), ag_ChallengeIDLen = 16 \<rparr>"
  "av_gen sample_aap = sample_generator" "av_ResponseMaxTTL sample_aap = 10 * minute"
  "av_domainPubKey sample_aap = replicate 32 (CHR ''D'')"
  "ed_verify sample_ed p m s = (s = p @ m)" "ed_sign sample_ed k m = drop 32 k @ m"
  by (simp_all add: sample_generator_def sample_aap_def sample_ed_def)

lemma sample_answered:
  "\<exists>w2. Aap_Verify sample_ed sample_aap answer_time sample_answer sample_store
    = (Inr \<lparr> vo_Challenge = sample_challenge, vo_AgentUUID = sample_uuid,
        vo_AgentPubKey = replicate 32 (CHR ''A''), vo_VerifiedAt = answer_time \<rparr>, w2)"
  unfolding sample_answer_def
  by (rule honest_accepted [OF redis_server_laws _ _ _ sample_generated _ _ _ _ _ _ _ sample_get])
    (use sample_times sample_uuid_valid in simp_all)

section \<open>Properties of the handshake\<close>

text \<open>C16: an answer is accepted only when the agent id is valid, the key has 32 bytes, the cache holds a
  challenge under the given id that has not expired and is not older than the limit, and the
  signature over its id, nonce, time and the agent id holds under the key; the answer names exactly
  these. The call asks the cache once to delete the challenge and does not look at the answer: if the
  cache confirms, the challenge is gone, otherwise it may stay.\<close>

theorem aap_verify_sound:
  assumes "Aap_Verify ed v clock vi w = (Inr out, w')"
  shows "\<exists>now pub sig raw c.
     now = (if is_zero_time (vi_Now vi) then clock else vi_Now vi)
   \<and> UUID_Validate (vi_AgentUUID vi) = None
   \<and> parsePubKey (vi_AgentPubKey vi) = Inr pub \<and> length pub = 32
   \<and> kc_Get (gn_store (av_gen v)) clock (challengeStoreKey (vi_ChallengeID vi)) w = Inr raw
   \<and> decodeChallenge raw = Inr c \<and> now < ch_ExpiresAt c
   \<and> time_sub now (ch_IssuedAt c) \<le> av_ResponseMaxTTL v
   \<and> b64url_decode (vi_Response vi) = Some sig
   \<and> ed_verify ed pub (responsePayload (ch_ChallengeID c) (ch_Nonce c) (ch_IssuedAt c) (vi_AgentUUID vi)) sig
   \<and> out = \<lparr> vo_Challenge = c, vo_AgentUUID = vi_AgentUUID vi, vo_AgentPubKey = pub, vo_VerifiedAt = now \<rparr>
   \<and> used_up (gn_store (av_gen v)) clock (challengeStoreKey (vi_ChallengeID vi)) w w'"
proof -
  obtain now pub where chk: "check_verify_input clock vi = Inr (now, pub)"
    using assms by (cases "check_verify_input clock vi") (auto simp: Aap_Verify_def)
  obtain c where load: "LoadChallenge (av_gen v) clock (vi_ChallengeID vi) w = Inr c"
    using assms chk by (auto simp: Aap_Verify_def ConsumeChallenge_def split: sum.splits)
  have ans: "check_answer ed (av_ResponseMaxTTL v) vi now pub c = Inr out"
    and w': "w' = snd (kc_Del (gn_store (av_gen v)) clock [challengeStoreKey (vi_ChallengeID vi)] w)"
    using assms chk load by (simp_all add: Aap_Verify_def ConsumeChallenge_def)
  obtain raw where raw: "kc_Get (gn_store (av_gen v)) clock (challengeStoreKey (vi_ChallengeID vi)) w = Inr raw"
    "decodeChallenge raw = Inr c"
    using load by (auto simp: LoadChallenge_def split: sum.splits)
  have pk: "UUID_Validate (vi_AgentUUID vi) = None" "parsePubKey (vi_AgentPubKey vi) = Inr pub"
    "now = (if is_zero_time (vi_Now vi) then clock else vi_Now vi)"
    using chk by (auto simp: check_verify_input_def split: if_splits sum.splits)
  obtain sig where sig: "b64url_decode (vi_Response vi) = Some sig"
    using ans by (auto simp: check_answer_def split: if_splits option.splits)
  have "now < ch_ExpiresAt c" "time_sub now (ch_IssuedAt c) \<le> av_ResponseMaxTTL v"
    "ed_verify ed pub (responsePayload (ch_ChallengeID c) (ch_Nonce c) (ch_IssuedAt c) (vi_AgentUUID vi)) sig"
    "out = \<lparr> vo_Challenge = c, vo_AgentUUID = vi_AgentUUID vi, vo_AgentPubKey = pub, vo_VerifiedAt = now \<rparr>"
    using ans sig by (auto simp: check_answer_def Challenge_IsExpired_def not_less split: if_splits)
  with pk parsePubKey_length [OF pk(2)] raw sig used_upI [OF w'] show ?thesis by metis
qed

theorem aap_verify_sound_witness:
  "\<exists>out w2 raw. Aap_Verify sample_ed sample_aap answer_time sample_answer sample_store = (Inr out, w2)
     \<and> decodeChallenge raw = Inr (vo_Challenge out) \<and> answer_time < ch_ExpiresAt (vo_Challenge out)"
proof -
  obtain out w2 where a: "Aap_Verify sample_ed sample_aap answer_time sample_answer sample_store = (Inr out, w2)"
    using sample_answered by blast
  have "vi_Now sample_answer = answer_time" by (simp add: sample_answer_def honest_input_def)
  with aap_verify_sound [OF a] sample_times(5) a show ?thesis by fastforce
qed

text \<open>C5: an answer to a stored challenge uses it up, whether the answer is right or wrong: as long as the
  deletion succeeded and nobody stores the id again, every later answer for the id is refused.\<close>

theorem challenge_single_use:
  assumes "redis_laws r look" and "gn_store (av_gen v) = redisCache r"
    and "check_verify_input clock vi = Inr (now, pub)"
    and "LoadChallenge (av_gen v) clock (vi_ChallengeID vi) w = Inr c"
    and "fst (kc_Del (redisCache r) clock [challengeStoreKey (vi_ChallengeID vi)] w) = None"
    and "Aap_Verify ed v clock vi w = (res, w1)"
    and "same_key look clock (challengeStoreKey (vi_ChallengeID vi)) w1 w2"
    and "clock \<le> t" and "vi_ChallengeID vi' = vi_ChallengeID vi"
  shows "\<exists>e. Aap_Verify ed v t vi' w2 = (Inl e, w2)"
proof -
  let ?k = "challengeStoreKey (vi_ChallengeID vi)"
  note ec = redis_cache_expiring [OF assms(1)]
  have "w1 = snd (kc_Del (redisCache r) clock [?k] w)"
    using assms(2-4,6) by (simp add: Aap_Verify_def ConsumeChallenge_def)
  then have del: "kc_Del (redisCache r) clock [?k] w = (None, w1)"
    using assms(5) by (simp add: prod_eq_iff)
  from expiring_cache.del_done [OF ec this]
  have "wrote look clock ?k (\<lambda>_. None) w w1" by simp
  then have "look w2 t ?k = None" using assms(7,8) by (simp add: wrote_def same_key_def)
  then have "kc_Get (redisCache r) t ?k w2 \<noteq> Inr raw" for raw
    using expiring_cache.get_hit [OF ec] by fastforce
  then obtain e where "kc_Get (redisCache r) t ?k w2 = Inl e"
    by (cases "kc_Get (redisCache r) t ?k w2") auto
  then have "ConsumeChallenge (av_gen v) t (vi_ChallengeID vi') w2 = (Inl e, w2)"
    using assms(2,9) by (simp add: ConsumeChallenge_def LoadChallenge_def)
  then show ?thesis
    by (cases "check_verify_input t vi'") (auto simp: Aap_Verify_def)
qed

theorem challenge_single_use_witness:
  "\<exists>res w1 e. Aap_Verify sample_ed sample_aap answer_time sample_answer sample_store = (res, w1)
     \<and> Aap_Verify sample_ed sample_aap (time_add answer_time second) sample_answer w1 = (Inl e, w1)"
proof -
  obtain res w1 where a: "Aap_Verify sample_ed sample_aap answer_time sample_answer sample_store = (res, w1)"
    by fastforce
  have cid: "vi_ChallengeID sample_answer = ch_ChallengeID sample_challenge"
    by (simp add: sample_answer_def honest_input_def)
  have chk: "check_verify_input answer_time sample_answer = Inr (answer_time, replicate 32 (CHR ''A''))"
  proof -
    have "ch_ChallengeID sample_challenge \<noteq> []"
      by (simp add: sample_challenge_def new_challenge_def hex_encode_def hex_byte_def)
    then show ?thesis
      using sample_times(5) sample_uuid_valid
      by (simp add: check_verify_input_def sample_answer_def honest_input_def parsePubKey_written)
        (simp add: sample_uuid_def)
  qed
  have load: "LoadChallenge (av_gen sample_aap) answer_time (vi_ChallengeID sample_answer) sample_store
      = Inr sample_challenge"
    using generated_loads [OF redis_server_laws _ _ sample_generated, of answer_time] sample_times sample_get
    by (simp add: cid)
  have "\<exists>e. Aap_Verify sample_ed sample_aap (time_add answer_time second) sample_answer w1 = (Inl e, w1)"
    by (rule challenge_single_use [OF redis_server_laws _ chk load _ a])
      (simp_all add: redisCache_def redis_Del_def redis_server_def same_key_def less_eq_time_def)
  with a show ?thesis by blast
qed

text \<open>C31: an agent that signs the generated challenge with its key and answers while the cache holds it is
  accepted, and the proof then issued verifies until it expires, provided that the signature scheme
  accepts what it signed and that the times are in the years 0 to 9999.\<close>

theorem handshake_completes:
  assumes "redis_laws r look" and "gn_store g = redisCache r" and "av_gen v = g"
    and "1000000 \<le> ag_ChallengeTTL (gn_cfg g)"
    and "Generate ed g t0 (Inr ib) (Inr nb) w = (Inr c, w1)" and "ib \<noteq> []"
    and "in_calendar t0" and "in_calendar (time_add t0 (ag_ChallengeTTL (gn_cfg g)))"
    and "t0 \<le> t" and "t < time_add t0 (ttl_ms (ag_ChallengeTTL (gn_cfg g)))" and "\<not> is_zero_time t"
    and "time_sub t t0 \<le> av_ResponseMaxTTL v"
    and "kc_Get (redisCache r) t (challengeStoreKey (ch_ChallengeID c)) w1 = Inr raw"
    and "UUID_Validate uuid = None" and "length pub = 32"
    and "\<And>m. ed_verify ed pub m (ed_sign ed key m)" and "\<And>m. ed_sign ed key m \<noteq> []"
    and "\<And>m. ed_verify ed (av_domainPubKey v) m (ed_sign ed (ag_DomainKey (gn_cfg g)) m)"
    and "0 < ttl" and "t' < time_add t ttl"
  shows "\<exists>out w2 p. Aap_Verify ed v t (honest_input ed key pub uuid t c) w1 = (Inr out, w2)
    \<and> vo_AgentUUID out = uuid \<and> vo_AgentPubKey out = pub
    \<and> IssueProof ed v t (Some out) ttl = Inr p \<and> pf_AgentUUID p = uuid
    \<and> VerifyProof ed v t' (Some p) = None"
proof -
  define out where "out = \<lparr> vo_Challenge = c, vo_AgentUUID = uuid, vo_AgentPubKey = pub, vo_VerifiedAt = t \<rparr>"
  obtain w2 where a: "Aap_Verify ed v t (honest_input ed key pub uuid t c) w1 = (Inr out, w2)"
    using honest_accepted [OF assms(1-17)] unfolding out_def by blast
  have "length (vo_AgentPubKey out) = 32" using assms(15) by (simp add: out_def)
  from proof_accepted [OF this assms(19,20)] assms(3,18)
  obtain p where p: "IssueProof ed v t (Some out) ttl = Inr p" "VerifyProof ed v t' (Some p) = None"
    by blast
  moreover have "pf_AgentUUID p = uuid" using p(1) by (auto simp: IssueProof_def Let_def out_def)
  ultimately show ?thesis using a by (auto simp: out_def)
qed

theorem handshake_completes_witness:
  "\<exists>out w2 p. Aap_Verify sample_ed sample_aap answer_time sample_answer sample_store = (Inr out, w2)
    \<and> IssueProof sample_ed sample_aap answer_time (Some out) minute = Inr p
    \<and> VerifyProof sample_ed sample_aap (time_add answer_time second) (Some p) = None"
proof -
  have "\<exists>out w2 p. Aap_Verify sample_ed sample_aap answer_time sample_answer sample_store = (Inr out, w2)
    \<and> vo_AgentUUID out = sample_uuid \<and> vo_AgentPubKey out = replicate 32 (CHR ''A'')
    \<and> IssueProof sample_ed sample_aap answer_time (Some out) minute = Inr p \<and> pf_AgentUUID p = sample_uuid
    \<and> VerifyProof sample_ed sample_aap (time_add answer_time second) (Some p) = None"
    unfolding sample_answer_def
    by (rule handshake_completes [OF redis_server_laws _ _ _ sample_generated _ _ _ _ _ _ _ sample_get])
      (use sample_times sample_uuid_valid in \<open>simp_all add: less_time_def\<close>)
  then show ?thesis by blast
qed

end
