(* ===== verification/HttpModel.thy ===== *)
theory HttpModel
  imports A2AToken AapHandshake
begin

text \<open>
  What the middleware packages use of \<open>net/http\<close>: a request with its method, path, headers and the
  values that earlier middlewares put into its context; a response with a status, its headers and
  a text; a handler as a function of the request, the headers already set on the writer and the
  state. The context values of the admission middleware and of the gateway are record fields.
\<close>

record user_context =
  uc_AgentUUID :: string
  uc_AgentPubKey :: string
  uc_Issuer :: string
  uc_IssuedAt :: time
  uc_ExpiresAt :: time
  uc_JTI :: string
  uc_Proof :: string

record http_request =
  hr_Method :: string
  hr_Path :: string
  hr_URI :: string
  hr_Host :: string
  hr_RemoteAddr :: string
  hr_TLS :: bool
  hr_Header :: "string \<Rightarrow> string"
  hr_user :: "user_context option"
  hr_agent_uuid :: "string option"
  hr_request_id :: "string option"

type_synonym headers = "(string \<times> string) list"

record http_response =
  rs_status :: nat
  rs_headers :: headers
  rs_text :: string

type_synonym 'w handler = "http_request \<Rightarrow> headers \<Rightarrow> 'w \<Rightarrow> http_response outcome \<times> 'w"
type_synonym 'w middleware = "'w handler \<Rightarrow> 'w handler"

definition set_header :: "string \<Rightarrow> string \<Rightarrow> headers \<Rightarrow> headers" where
  "set_header k v hs = AList.update k v hs"

definition respond :: "nat \<Rightarrow> headers \<Rightarrow> string \<Rightarrow> 'w \<Rightarrow> http_response outcome \<times> 'w" where
  "respond st hs txt w = (Return \<lparr> rs_status = st, rs_headers = hs, rs_text = txt \<rparr>, w)"

text \<open>\<open>http.Error\<close> sets its two headers and the text.\<close>

definition http_error :: "nat \<Rightarrow> string \<Rightarrow> headers \<Rightarrow> 'w \<Rightarrow> http_response outcome \<times> 'w" where
  "http_error st msg hs w =
     respond st (set_header ''X-Content-Type-Options'' ''nosniff''
       (set_header ''Content-Type'' ''text/plain; charset=utf-8'' hs)) msg w"

text \<open>\<open>strings.EqualFold\<close> against a lower-case ASCII text: the long s and the Kelvin sign fold too.\<close>

fun fold_case :: "string \<Rightarrow> string" where
  "fold_case [] = []"
| "fold_case (c # s) =
     (if c = CHR 0xC5 \<and> s \<noteq> [] \<and> hd s = CHR 0xBF then CHR ''s'' # fold_case (tl s)
      else if c = CHR 0xE2 \<and> take 2 s = [CHR 0x84, CHR 0xAA] then CHR ''k'' # fold_case (drop 2 s)
      else (let n = of_char c :: nat
            in if 65 \<le> n \<and> n \<le> 90 then char_of (n + 32) else c) # fold_case s)"

text \<open>\<open>strings.Contains\<close>.\<close>

definition contains :: "string \<Rightarrow> string \<Rightarrow> bool" where
  "contains s p \<longleftrightarrow> str_index p s \<noteq> None"

section \<open>Printing a number\<close>

text \<open>The loop of the two hand-written \<open>Itoa\<close> functions, on the digits it has written so far.\<close>

function digits_loop :: "int \<Rightarrow> string \<Rightarrow> string" where
  "digits_loop i ds =
     (if i \<le> 0 then ds else digits_loop (i div 10) (char_of (48 + nat (i mod 10)) # ds))"
  by pat_completeness auto
termination
  by (relation "measure (\<lambda>(i, ds). nat i)") auto

declare digits_loop.simps [simp del]

text \<open>The negation of the least \<open>int\<close> is itself.\<close>

definition hand_itoa :: "int \<Rightarrow> string" where
  "hand_itoa i =
     (if i = 0 then ''0''
      else if i < 0 then CHR ''-'' # digits_loop (s64 (- i)) []
      else digits_loop i [])"

lemma char_digit: "d < 10 \<Longrightarrow> char_of (48 + d) = digit_char d"
proof -
  assume "d < 10"
  then have "d \<in> set [0..<10]" by simp
  then have "of_char (digit_char d) = 48 + d" by (auto simp: upt_rec digit_char_def)
  then show ?thesis by (metis char_of_char)
qed

lemma digits_loop_dec: "0 < n \<Longrightarrow> digits_loop (int n) ds = dec_of_nat n @ ds"
proof (induction n arbitrary: ds rule: dec_of_nat.induct)
  case (1 n)
  have dig: "char_of (48 + nat (int n mod 10)) = digit_char (n mod 10)"
    by (simp add: char_digit nat_mod_distrib)
  show ?case
  proof (cases "n < 10")
    case True
    then have "digits_loop (int n div 10) ds' = ds'" for ds'
      by (subst digits_loop.simps) simp
    with "1.prems" dig True show ?thesis
      by (subst digits_loop.simps, subst dec_of_nat.simps) simp
  next
    case False
    then have "0 < n div 10" by (simp add: div_greater_zero_iff)
    from "1.IH" [OF False this] have "digits_loop (int n div 10) ds' = dec_of_nat (n div 10) @ ds'" for ds'
      by (simp add: zdiv_int)
    moreover have "dec_of_nat n = dec_of_nat (n div 10) @ [digit_char (n mod 10)]"
      using False by (subst dec_of_nat.simps) simp
    ultimately show ?thesis
      using "1.prems" dig by (subst digits_loop.simps) simp
  qed
qed

lemma hand_itoa_dec:
  assumes "- (2 ^ 63) < i" and "i < 2 ^ 63"
  shows "hand_itoa i = dec_of_int i"
proof -
  have zero: "dec_of_nat 0 = ''0''" by (subst dec_of_nat.simps) (simp add: digit_char_def)
  have neg: "s64 (- i) = - i" if "i < 0" using that assms by simp
  show ?thesis
    using digits_loop_dec [of "nat i" "[]"] digits_loop_dec [of "nat (- i)" "[]"] neg zero
    by (auto simp: hand_itoa_def dec_of_int_def)
qed

end
