(* ===== verification/AapProof.thy ===== *)
theory AapProof
  imports HttpModel
begin

text \<open>
  The proof token of a completed handshake and the middleware that demands it,
  \<open>src/internal/authz/aap/proof.go\<close> and \<open>middleware.go\<close>.

  JSON is library code: \<open>proof_json\<close> holds the four conversions. The custom error handler, the
  skipper and the next handler are arguments; the clock is \<open>now\<close>.
\<close>

section \<open>Signing and verifying\<close>

abbreviation ErrProofMalformed :: go_error where "ErrProofMalformed \<equiv> Sentinel ''aap: proof malformed''"
abbreviation ErrProofIssuerMismatch :: go_error where
  "ErrProofIssuerMismatch \<equiv> Sentinel ''aap: proof issuer mismatch''"
abbreviation ErrProofUnsupportedAlg :: go_error where
  "ErrProofUnsupportedAlg \<equiv> Sentinel ''aap: unsupported alg''"
abbreviation ErrProofClaimInvalid :: go_error where
  "ErrProofClaimInvalid \<equiv> Sentinel ''aap: proof claim invalid''"

record proof_header =
  ph_Alg :: string
  ph_Typ :: string

record proof_claims =
  pc_Issuer :: string
  pc_Subject :: string
  pc_IssuedAt :: int
  pc_ExpiresAt :: int
  pc_PublicKey :: string
  pc_JTI :: string

record proof_json =
  pj_header :: "proof_header \<Rightarrow> string"
  pj_claims :: "proof_claims \<Rightarrow> string"
  pj_parse_header :: "string \<Rightarrow> proof_header option"
  pj_parse_claims :: "string \<Rightarrow> proof_claims option"

record proof_signer =
  ps_domainKey :: string
  ps_domainPub :: string
  ps_issuer :: string

definition NewProofSigner :: "string \<Rightarrow> string \<Rightarrow> go_error + proof_signer" where
  "NewProofSigner key issuer =
     (if length key \<noteq> 64 then Inl ErrEmptyDomain
      else Inr \<lparr> ps_domainKey = key, ps_domainPub = drop 32 key,
                 ps_issuer = (if issuer = [] then ''agentid-chain'' else issuer) \<rparr>)"

record proof_sign_input =
  pi_AgentUUID :: string
  pi_AgentPubKey :: string
  pi_JTI :: string
  pi_TTL :: duration

record proof_view =
  pv_Issuer :: string
  pv_AgentUUID :: string
  pv_IssuedAt :: time
  pv_ExpiresAt :: time
  pv_AgentPubKey :: string
  pv_JTI :: string

definition validateUUIDString :: "string \<Rightarrow> bool" where
  "validateUUIDString s \<longleftrightarrow>
     (if length s \<noteq> 32 \<and> length s \<noteq> 36 then False
      else list_all (\<lambda>c. is_hex_char c \<or> c = CHR ''-'') s)"

definition proof_head :: proof_header where
  "proof_head = \<lparr> ph_Alg = ''EdDSA'', ph_Typ = ''JWT'' \<rparr>"

definition proof_claims_of :: "proof_signer \<Rightarrow> time \<Rightarrow> proof_sign_input \<Rightarrow> proof_claims" where
  "proof_claims_of s now pi =
     \<lparr> pc_Issuer = ps_issuer s, pc_Subject = pi_AgentUUID pi, pc_IssuedAt = unix_sec now,
       pc_ExpiresAt = unix_sec (time_add now (if pi_TTL pi \<le> 0 then 5 * minute else pi_TTL pi)),
       pc_PublicKey = b64url_encode (pi_AgentPubKey pi), pc_JTI = pi_JTI pi \<rparr>"

definition Proof_Sign ::
  "proof_json \<Rightarrow> ed25519 \<Rightarrow> proof_signer \<Rightarrow> time \<Rightarrow> proof_sign_input \<Rightarrow> go_error + string" where
  "Proof_Sign pj ed s now pi =
     (if pi_AgentUUID pi = [] then Inl ErrEmptyAgentUUID
      else if \<not> validateUUIDString (pi_AgentUUID pi) then Inl (Errorf ''%w: %s'' [ErrEmptyAgentUUID])
      else if pi_JTI pi = [] then Inl ErrProofClaimInvalid
      else
        (let h64 = b64url_encode (pj_header pj proof_head);
             c64 = b64url_encode (pj_claims pj (proof_claims_of s now pi));
             signingInput = h64 @ dot @ c64
         in Inr (signingInput @ dot @ b64url_encode (ed_sign ed (ps_domainKey s) signingInput))))"

definition proof_malformed :: "string \<Rightarrow> go_error" where
  "proof_malformed msg = Errorf msg [ErrProofMalformed]"

definition Proof_Verify ::
  "proof_json \<Rightarrow> ed25519 \<Rightarrow> proof_signer \<Rightarrow> time \<Rightarrow> string \<Rightarrow> go_error + proof_view" where
  "Proof_Verify pj ed s now token =
     (let parts = split_at (CHR ''.'') token in
      if length parts \<noteq> 3 then Inl (proof_malformed ''%w: got %d parts'')
      else case b64url_decode (parts ! 0) of None \<Rightarrow> Inl (proof_malformed ''%w: header decode: %v'')
      | Some headerJSON \<Rightarrow>
      (case pj_parse_header pj headerJSON of None \<Rightarrow> Inl (proof_malformed ''%w: header parse: %v'')
      | Some h \<Rightarrow>
      if ph_Alg h \<noteq> ''EdDSA'' then Inl (Errorf ''%w: alg=%s'' [ErrProofUnsupportedAlg])
      else if ph_Typ h \<noteq> ''JWT'' then Inl (proof_malformed ''%w: typ=%s'')
      else (case b64url_decode (parts ! 1) of None \<Rightarrow> Inl (proof_malformed ''%w: claims decode: %v'')
      | Some claimsJSON \<Rightarrow>
      (case pj_parse_claims pj claimsJSON of None \<Rightarrow> Inl (proof_malformed ''%w: claims parse: %v'')
      | Some c \<Rightarrow>
      if pc_Issuer c \<noteq> ps_issuer s then Inl (Errorf ''%w: got=%s want=%s'' [ErrProofIssuerMismatch])
      else if pc_ExpiresAt c \<le> unix_sec now then Inl (Errorf ''%w: expired at %d'' [ErrResponseExpired])
      else if pc_Subject c = [] then Inl (Errorf ''%w: empty sub'' [ErrProofClaimInvalid])
      else (case b64url_decode (parts ! 2) of None \<Rightarrow> Inl (proof_malformed ''%w: sig decode: %v'')
      | Some sig \<Rightarrow>
      if \<not> ed_verify ed (ps_domainPub s) (parts ! 0 @ dot @ parts ! 1) sig
      then Inl AapErrSignatureInvalid
      else (case b64url_decode (pc_PublicKey c) of None \<Rightarrow> Inl (proof_malformed ''%w: pubkey decode: %v'')
      | Some pub \<Rightarrow>
      if length pub \<noteq> 32 then Inl (Errorf ''%w: pubkey length %d'' [ErrProofClaimInvalid])
      else Inr \<lparr> pv_Issuer = pc_Issuer c, pv_AgentUUID = pc_Subject c,
                 pv_IssuedAt = time_unix (pc_IssuedAt c), pv_ExpiresAt = time_unix (pc_ExpiresAt c),
                 pv_AgentPubKey = pub, pv_JTI = pc_JTI c \<rparr>))))))"

section \<open>The middleware\<close>

abbreviation ErrMissingProof :: go_error where "ErrMissingProof \<equiv> Sentinel ''aap: missing X-AAP-Proof header''"
abbreviation ErrHTTPSRequired :: go_error where "ErrHTTPSRequired \<equiv> Sentinel ''aap: HTTPS required''"

definition WithUserContext :: "user_context option \<Rightarrow> http_request \<Rightarrow> http_request" where
  "WithUserContext u r = (case u of None \<Rightarrow> r | Some _ \<Rightarrow> r \<lparr> hr_user := u \<rparr>)"

definition FromContext :: "http_request \<Rightarrow> user_context option" where
  "FromContext r = hr_user r"

definition isForwardedHTTPS :: "http_request \<Rightarrow> bool" where
  "isForwardedHTTPS r \<longleftrightarrow> fold_case (hr_Header r ''X-Forwarded-Proto'') = ''https''"

definition intToStr :: "int \<Rightarrow> string" where
  "intToStr i = hand_itoa i"

definition defaultErrorHandler :: "go_error \<Rightarrow> headers \<Rightarrow> 'w \<Rightarrow> http_response outcome \<times> 'w" where
  "defaultErrorHandler err hs w =
     (let (code, msg) =
        (if errors_is err ErrHTTPSRequired then (426, ''https required'')
         else if errors_is err ErrMissingProof then (401, ''missing proof'')
         else if errors_is err ErrResponseExpired then (401, ''proof expired'')
         else if errors_is err AapErrSignatureInvalid then (401, ''invalid signature'')
         else if errors_is err ErrProofIssuerMismatch then (401, ''issuer mismatch'')
         else if errors_is err ErrProofUnsupportedAlg then (401, ''unsupported alg'')
         else if errors_is err ErrProofMalformed then (401, ''malformed proof'')
         else (401, ''unauthorized''))
      in respond (nat code) (set_header ''Content-Type'' ''application/json'' hs)
           (''{'' @ json_key ''error'' @ [qt] @ msg @ [qt] @ '','' @ json_key ''code''
            @ intToStr code @ ''}'') w)"

record 'w aap_mw_config =
  mc_Signer :: "proof_signer option"
  mc_HeaderName :: string
  mc_RequireHTTPS :: bool
  mc_Skipper :: "(http_request \<Rightarrow> bool) option"
  mc_ErrorHandler :: "(go_error \<Rightarrow> headers \<Rightarrow> 'w \<Rightarrow> http_response outcome \<times> 'w) option"

record 'w aap_middleware =
  am_Signer :: proof_signer
  am_HeaderName :: string
  am_RequireHTTPS :: bool
  am_Skipper :: "(http_request \<Rightarrow> bool) option"
  am_ErrorHandler :: "go_error \<Rightarrow> headers \<Rightarrow> 'w \<Rightarrow> http_response outcome \<times> 'w"

definition NewAapMiddleware :: "'w aap_mw_config \<Rightarrow> go_error + 'w aap_middleware" where
  "NewAapMiddleware cfg =
     (case mc_Signer cfg of
        None \<Rightarrow> Inl (Sentinel ''aap: nil signer'')
      | Some s \<Rightarrow>
          Inr \<lparr> am_Signer = s,
                am_HeaderName = (if mc_HeaderName cfg = [] then ''X-AAP-Proof'' else mc_HeaderName cfg),
                am_RequireHTTPS = mc_RequireHTTPS cfg, am_Skipper = mc_Skipper cfg,
                am_ErrorHandler = (case mc_ErrorHandler cfg of None \<Rightarrow> defaultErrorHandler | Some f \<Rightarrow> f) \<rparr>)"

text \<open>What the middleware decides about a request: the request it passes on, or the error.\<close>

definition aap_admit ::
  "proof_json \<Rightarrow> ed25519 \<Rightarrow> 'w aap_middleware \<Rightarrow> time \<Rightarrow> http_request \<Rightarrow> go_error + http_request" where
  "aap_admit pj ed m now r =
     (if (case am_Skipper m of None \<Rightarrow> False | Some skip \<Rightarrow> skip r) then Inr r
      else if am_RequireHTTPS m \<and> \<not> hr_TLS r \<and> \<not> isForwardedHTTPS r then Inl ErrHTTPSRequired
      else
        (let tok = hr_Header r (am_HeaderName m) in
         if tok = [] then Inl ErrMissingProof
         else (case Proof_Verify pj ed (am_Signer m) now tok of
                 Inl err \<Rightarrow> Inl err
               | Inr v \<Rightarrow>
                   Inr (WithUserContext (Some \<lparr> uc_AgentUUID = pv_AgentUUID v,
                      uc_AgentPubKey = pv_AgentPubKey v, uc_Issuer = pv_Issuer v,
                      uc_IssuedAt = pv_IssuedAt v, uc_ExpiresAt = pv_ExpiresAt v, uc_JTI = pv_JTI v,
                      uc_Proof = tok \<rparr>) r))))"

definition Aap_Wrap :: "proof_json \<Rightarrow> ed25519 \<Rightarrow> 'w aap_middleware \<Rightarrow> time \<Rightarrow> 'w middleware" where
  "Aap_Wrap pj ed m now next' r hs w =
     (case aap_admit pj ed m now r of
        Inl err \<Rightarrow> am_ErrorHandler m err hs w
      | Inr r' \<Rightarrow> next' r' hs w)"

section \<open>What a verified proof is\<close>

lemma proof_verified:
  assumes "Proof_Verify pj ed s now token = Inr v"
  shows "\<exists>p0 p1 p2 hj cj sig h c pub.
     split_at (CHR ''.'') token = [p0, p1, p2]
   \<and> b64url_decode p0 = Some hj \<and> pj_parse_header pj hj = Some h
   \<and> ph_Alg h = ''EdDSA'' \<and> ph_Typ h = ''JWT''
   \<and> b64url_decode p1 = Some cj \<and> pj_parse_claims pj cj = Some c
   \<and> pc_Issuer c = ps_issuer s \<and> unix_sec now < pc_ExpiresAt c \<and> pc_Subject c \<noteq> []
   \<and> b64url_decode p2 = Some sig \<and> ed_verify ed (ps_domainPub s) (p0 @ dot @ p1) sig
   \<and> b64url_decode (pc_PublicKey c) = Some pub \<and> length pub = 32
   \<and> v = \<lparr> pv_Issuer = pc_Issuer c, pv_AgentUUID = pc_Subject c, pv_IssuedAt = time_unix (pc_IssuedAt c),
          pv_ExpiresAt = time_unix (pc_ExpiresAt c), pv_AgentPubKey = pub, pv_JTI = pc_JTI c \<rparr>"
proof -
  let ?ps = "split_at (CHR ''.'') token"
  have "length ?ps = 3" using assms by (auto simp: Proof_Verify_def Let_def split: if_splits)
  then obtain p0 p1 p2 where ps: "?ps = [p0, p1, p2]"
    by (auto simp: length_Suc_conv numeral_3_eq_3)
  note V = assms [unfolded Proof_Verify_def Let_def ps]
  obtain hj where hj: "b64url_decode p0 = Some hj"
    using V by (cases "b64url_decode p0") simp_all
  obtain h where h: "pj_parse_header pj hj = Some h" "ph_Alg h = ''EdDSA''" "ph_Typ h = ''JWT''"
    using V hj by (cases "pj_parse_header pj hj") (simp_all split: if_splits)
  obtain cj where cj: "b64url_decode p1 = Some cj"
    using V hj h by (cases "b64url_decode p1") simp_all
  obtain c where c: "pj_parse_claims pj cj = Some c" "pc_Issuer c = ps_issuer s"
    "unix_sec now < pc_ExpiresAt c" "pc_Subject c \<noteq> []"
    using V hj h cj by (cases "pj_parse_claims pj cj") (simp_all split: if_splits)
  obtain sig where sig: "b64url_decode p2 = Some sig" "ed_verify ed (ps_domainPub s) (p0 @ dot @ p1) sig"
    using V hj h cj c by (cases "b64url_decode p2") (simp_all split: if_splits)
  obtain pub where "b64url_decode (pc_PublicKey c) = Some pub" "length pub = 32"
    "v = \<lparr> pv_Issuer = pc_Issuer c, pv_AgentUUID = pc_Subject c, pv_IssuedAt = time_unix (pc_IssuedAt c),
          pv_ExpiresAt = time_unix (pc_ExpiresAt c), pv_AgentPubKey = pub, pv_JTI = pc_JTI c \<rparr>"
    using V hj h cj c sig by (cases "b64url_decode (pc_PublicKey c)") (simp_all split: if_splits)
  with ps hj h cj c sig show ?thesis by blast
qed

text \<open>A signed proof verifies, and names the agent and the key that were signed.\<close>

lemma signed_proof_verifies:
  assumes "NewProofSigner key iss = Inr s" and "Proof_Sign pj ed s t0 pi = Inr token"
    and "pj_parse_header pj (pj_header pj proof_head) = Some proof_head"
    and "c = proof_claims_of s t0 pi" and "pj_parse_claims pj (pj_claims pj c) = Some c"
    and "\<And>m. ed_verify ed (ps_domainPub s) m (ed_sign ed (ps_domainKey s) m)"
    and "length (pi_AgentPubKey pi) = 32" and "unix_sec now < pc_ExpiresAt c"
  shows "Proof_Verify pj ed s now token = Inr \<lparr> pv_Issuer = ps_issuer s, pv_AgentUUID = pi_AgentUUID pi,
      pv_IssuedAt = time_unix (pc_IssuedAt c), pv_ExpiresAt = time_unix (pc_ExpiresAt c),
      pv_AgentPubKey = pi_AgentPubKey pi, pv_JTI = pi_JTI pi \<rparr>"
proof -
  have pi: "pi_AgentUUID pi \<noteq> []" using assms(2) by (auto simp: Proof_Sign_def split: if_splits)
  define h64 where "h64 = b64url_encode (pj_header pj proof_head)"
  define c64 where "c64 = b64url_encode (pj_claims pj c)"
  define sg where "sg = b64url_encode (ed_sign ed (ps_domainKey s) (h64 @ dot @ c64))"
  have token: "token = h64 @ dot @ c64 @ dot @ sg"
    using assms(2) unfolding assms(4) h64_def c64_def sg_def
    by (auto simp: Proof_Sign_def Let_def split: if_splits)
  have parts: "split_at (CHR ''.'') token = [h64, c64, sg]"
    unfolding token h64_def c64_def sg_def by (rule split_at_token)
  have c: "pc_Issuer c = ps_issuer s" "pc_Subject c = pi_AgentUUID pi" "pc_JTI c = pi_JTI pi"
    "pc_PublicKey c = b64url_encode (pi_AgentPubKey pi)"
    by (simp_all add: assms(4) proof_claims_of_def)
  have head: "ph_Alg proof_head = ''EdDSA''" "ph_Typ proof_head = ''JWT''" by (simp_all add: proof_head_def)
  have d: "b64url_decode h64 = Some (pj_header pj proof_head)" "b64url_decode c64 = Some (pj_claims pj c)"
    "b64url_decode sg = Some (ed_sign ed (ps_domainKey s) (h64 @ dot @ c64))"
    by (simp_all add: h64_def c64_def sg_def)
  show ?thesis
    using assms(3,5-8) pi c head by (simp add: Proof_Verify_def parts d)
qed

section \<open>Properties of the middleware\<close>

definition sample_pj :: proof_json where
  "sample_pj = \<lparr> pj_header = ph_Typ, pj_claims = pc_JTI,
     pj_parse_header = (\<lambda>s. if s = ''JWT'' then Some proof_head else None),
     pj_parse_claims = (\<lambda>s. if s = ''j1'' then Some \<lparr> pc_Issuer = ''agentid-chain'',
        pc_Subject = replicate 32 (CHR ''a''), pc_IssuedAt = 0, pc_ExpiresAt = 300,
        pc_PublicKey = b64url_encode (replicate 32 (CHR ''A'')), pc_JTI = ''j1'' \<rparr> else None) \<rparr>"

definition sample_signature :: ed25519 where
  "sample_signature = \<lparr> ed_sign = (\<lambda>k m. drop 32 k @ m), ed_verify = (\<lambda>p m s. s = p @ m) \<rparr>"

definition sample_signer :: proof_signer where
  "sample_signer = \<lparr> ps_domainKey = replicate 64 (CHR ''D''), ps_domainPub = replicate 32 (CHR ''D''),
     ps_issuer = ''agentid-chain'' \<rparr>"

definition sample_pi :: proof_sign_input where
  "sample_pi = \<lparr> pi_AgentUUID = replicate 32 (CHR ''a''), pi_AgentPubKey = replicate 32 (CHR ''A''),
     pi_JTI = ''j1'', pi_TTL = 0 \<rparr>"

definition sample_proof :: string where
  "sample_proof = (case Proof_Sign sample_pj sample_signature sample_signer (Time 0) sample_pi of
     Inr t \<Rightarrow> t | Inl _ \<Rightarrow> [])"

definition sample_mw :: "unit aap_middleware" where
  "sample_mw = \<lparr> am_Signer = sample_signer, am_HeaderName = ''X-AAP-Proof'', am_RequireHTTPS = True,
     am_Skipper = None, am_ErrorHandler = defaultErrorHandler \<rparr>"

definition sample_http :: "string \<Rightarrow> http_request" where
  "sample_http tok = \<lparr> hr_Method = ''GET'', hr_Path = ''/x'', hr_URI = ''/x'', hr_Host = ''h'',
     hr_RemoteAddr = ''1.2.3.4:5'', hr_TLS = True,
     hr_Header = (\<lambda>k. if k = ''X-AAP-Proof'' then tok else []), hr_user = None, hr_agent_uuid = None,
     hr_request_id = None \<rparr>"

lemma sample_signed:
  "Proof_Sign sample_pj sample_signature sample_signer (Time 0) sample_pi = Inr sample_proof"
  by (simp add: sample_proof_def Proof_Sign_def sample_pi_def validateUUIDString_def is_hex_char_def
      Let_def list_all_iff)

lemma sample_proof_nonempty: "sample_proof \<noteq> []"
  by (simp add: sample_proof_def Proof_Sign_def sample_pi_def validateUUIDString_def is_hex_char_def
      Let_def list_all_iff dot_def)

lemma sample_new_signer: "NewProofSigner (replicate 64 (CHR ''D'')) [] = Inr sample_signer"
  by (simp add: NewProofSigner_def sample_signer_def)

lemma sample_proof_claims:
  "proof_claims_of sample_signer (Time 0) sample_pi = \<lparr> pc_Issuer = ''agentid-chain'',
     pc_Subject = replicate 32 (CHR ''a''), pc_IssuedAt = 0, pc_ExpiresAt = 300,
     pc_PublicKey = b64url_encode (replicate 32 (CHR ''A'')), pc_JTI = ''j1'' \<rparr>"
  by (simp add: proof_claims_of_def sample_signer_def sample_pi_def unix_sec_def time_add_def)

lemma sample_pj_facts:
  "pj_parse_header sample_pj (pj_header sample_pj proof_head) = Some proof_head"
  "pj_parse_claims sample_pj (pj_claims sample_pj (proof_claims_of sample_signer (Time 0) sample_pi))
     = Some (proof_claims_of sample_signer (Time 0) sample_pi)"
  "ed_verify sample_signature (ps_domainPub sample_signer) m
     (ed_sign sample_signature (ps_domainKey sample_signer) m)"
  "length (pi_AgentPubKey sample_pi) = 32"
  "unix_sec (Time second) < pc_ExpiresAt (proof_claims_of sample_signer (Time 0) sample_pi)"
  unfolding sample_proof_claims
  by (simp_all add: sample_pj_def proof_head_def sample_signature_def sample_signer_def sample_pi_def
      unix_sec_def)

lemma sample_verified:
  "\<exists>v. Proof_Verify sample_pj sample_signature sample_signer (Time second) sample_proof = Inr v"
  using signed_proof_verifies [OF sample_new_signer sample_signed sample_pj_facts(1) refl
      sample_pj_facts(2-5)] by blast

text \<open>C20: the admission middleware hands a request on only unchanged, when the skipper takes it, or with
  the context of an agent: then the transport is HTTPS where that is required, the header carries a
  token of the issuer, signed with the domain key over its first two parts and not expired, and the
  context names the subject and the 32-byte key of its claims.\<close>

theorem aap_admit_sound:
  assumes "aap_admit pj ed m now r = Inr r'"
  shows "(\<exists>skip. am_Skipper m = Some skip \<and> skip r \<and> r' = r)
     \<or> (am_RequireHTTPS m \<longrightarrow> hr_TLS r \<or> isForwardedHTTPS r)
       \<and> (\<exists>u p0 p1 p2 cj sig c pub.
            r' = r \<lparr> hr_user := Some u \<rparr> \<and> uc_Proof u = hr_Header r (am_HeaderName m)
          \<and> split_at (CHR ''.'') (uc_Proof u) = [p0, p1, p2]
          \<and> b64url_decode p1 = Some cj \<and> pj_parse_claims pj cj = Some c
          \<and> b64url_decode p2 = Some sig
          \<and> ed_verify ed (ps_domainPub (am_Signer m)) (p0 @ dot @ p1) sig
          \<and> pc_Issuer c = ps_issuer (am_Signer m) \<and> unix_sec now < pc_ExpiresAt c
          \<and> uc_AgentUUID u = pc_Subject c \<and> pc_Subject c \<noteq> []
          \<and> b64url_decode (pc_PublicKey c) = Some pub \<and> uc_AgentPubKey u = pub \<and> length pub = 32)"
proof (cases "case am_Skipper m of None \<Rightarrow> False | Some skip \<Rightarrow> skip r")
  case True
  with assms show ?thesis by (auto simp: aap_admit_def split: option.splits)
next
  case False
  let ?tok = "hr_Header r (am_HeaderName m)"
  have s: "am_RequireHTTPS m \<longrightarrow> hr_TLS r \<or> isForwardedHTTPS r" and tok: "?tok \<noteq> []"
    using assms False by (auto simp: aap_admit_def Let_def split: if_splits)
  obtain v where v: "Proof_Verify pj ed (am_Signer m) now ?tok = Inr v"
    using assms False s tok
    by (cases "Proof_Verify pj ed (am_Signer m) now ?tok") (auto simp: aap_admit_def Let_def)
  have "r' = r \<lparr> hr_user := Some \<lparr> uc_AgentUUID = pv_AgentUUID v, uc_AgentPubKey = pv_AgentPubKey v,
      uc_Issuer = pv_Issuer v, uc_IssuedAt = pv_IssuedAt v, uc_ExpiresAt = pv_ExpiresAt v,
      uc_JTI = pv_JTI v, uc_Proof = ?tok \<rparr> \<rparr>"
    using assms False s tok v by (auto simp: aap_admit_def Let_def WithUserContext_def)
  moreover note proof_verified [OF v]
  ultimately show ?thesis using s by fastforce
qed

theorem aap_admit_sound_witness:
  "\<exists>r' u. aap_admit sample_pj sample_signature sample_mw (Time second) (sample_http sample_proof) = Inr r'
     \<and> hr_user r' = Some u \<and> uc_Proof u = sample_proof"
proof -
  obtain r' where r': "aap_admit sample_pj sample_signature sample_mw (Time second) (sample_http sample_proof) = Inr r'"
    using sample_verified sample_proof_nonempty
    by (auto simp: aap_admit_def sample_mw_def sample_http_def)
  from aap_admit_sound [OF r'] r' show ?thesis
    by (auto simp: sample_mw_def sample_http_def)
qed

text \<open>A request that carries, over HTTPS, a proof token that the domain's own signer issued for an
  agent reaches the next handler with the context of that agent until the token expires, under the
  assumptions on JSON and signatures.\<close>

theorem signed_proof_admitted:
  assumes "NewProofSigner key iss = Inr s" and "Proof_Sign pj ed s t0 pi = Inr token"
    and "pj_parse_header pj (pj_header pj proof_head) = Some proof_head"
    and "c = proof_claims_of s t0 pi" and "pj_parse_claims pj (pj_claims pj c) = Some c"
    and "\<And>m. ed_verify ed (ps_domainPub s) m (ed_sign ed (ps_domainKey s) m)"
    and "length (pi_AgentPubKey pi) = 32" and "unix_sec now < pc_ExpiresAt c"
    and "am_Signer mw = s" and "am_Skipper mw = None" and "hr_TLS r"
    and "hr_Header r (am_HeaderName mw) = token"
  shows "\<exists>u. Aap_Wrap pj ed mw now next' r hs w = next' (r \<lparr> hr_user := Some u \<rparr>) hs w
    \<and> uc_AgentUUID u = pi_AgentUUID pi \<and> uc_AgentPubKey u = pi_AgentPubKey pi \<and> uc_JTI u = pi_JTI pi"
proof -
  have "token \<noteq> []" using assms(2) by (auto simp: Proof_Sign_def Let_def dot_def split: if_splits)
  with signed_proof_verifies [OF assms(1-8)] assms(9-12)
  have "Aap_Wrap pj ed mw now next' r hs w = next' (r \<lparr> hr_user := Some
     \<lparr> uc_AgentUUID = pi_AgentUUID pi, uc_AgentPubKey = pi_AgentPubKey pi, uc_Issuer = ps_issuer s,
       uc_IssuedAt = time_unix (pc_IssuedAt c), uc_ExpiresAt = time_unix (pc_ExpiresAt c),
       uc_JTI = pi_JTI pi, uc_Proof = token \<rparr> \<rparr>) hs w"
    by (simp add: Aap_Wrap_def aap_admit_def WithUserContext_def)
  then show ?thesis by (intro exI conjI) (assumption, simp_all)
qed

definition echo_agent :: "unit handler" where
  "echo_agent r hs w = respond 200 hs (case hr_user r of None \<Rightarrow> [] | Some u \<Rightarrow> uc_AgentUUID u) w"

theorem signed_proof_admitted_witness:
  "Aap_Wrap sample_pj sample_signature sample_mw (Time second) echo_agent (sample_http sample_proof) [] ()
     = respond 200 [] (replicate 32 (CHR ''a'')) ()"
proof -
  have mw: "am_Signer sample_mw = sample_signer" "am_Skipper sample_mw = None"
    "hr_TLS (sample_http sample_proof)"
    "hr_Header (sample_http sample_proof) (am_HeaderName sample_mw) = sample_proof"
    by (simp_all add: sample_mw_def sample_http_def)
  from signed_proof_admitted [OF sample_new_signer sample_signed sample_pj_facts(1) refl
      sample_pj_facts(2-5) mw, of echo_agent "[]" "()"]
  show ?thesis by (auto simp: sample_pi_def echo_agent_def)
qed

end
