(* ===== verification/GatewayMiddleware.thy ===== *)
theory GatewayMiddleware
  imports AapProof
begin

text \<open>
  The middleware chain of the gateway, \<open>src/internal/gateway/middleware/\<close>: recovery from panics,
  request ids, CORS, the user agent filter, API keys, TLS enforcement, security headers and the
  gateway's own check of the proof header.

  Logging and metrics leave requests and responses as they are and are left out, as are the headers
  that a handler has set when it panics. \<open>uuid.NewString\<close> is the argument \<open>newid\<close>, the JSON decoder
  of the proof header the argument \<open>pjson\<close>.
\<close>

section \<open>Chains\<close>

definition Chain_Append :: "'w middleware list \<Rightarrow> 'w middleware \<Rightarrow> 'w middleware list" where
  "Chain_Append mws mw = mws @ [mw]"

fun chain_loop :: "'w middleware list \<Rightarrow> 'w handler \<Rightarrow> 'w handler" where
  "chain_loop [] h = h"
| "chain_loop (mw # rest) h = chain_loop rest (mw h)"

definition Chain_Then :: "'w middleware list \<Rightarrow> 'w middleware" where
  "Chain_Then mws h = chain_loop (rev mws) h"

section \<open>Recovery, request ids, CORS\<close>

definition Recover :: "'w middleware" where
  "Recover next' r hs w =
     (case next' r hs w of
        (Return resp, w') \<Rightarrow> (Return resp, w')
      | (Panic _, w') \<Rightarrow> http_error 500 ''internal server error'' hs w')"

definition HeaderRequestID :: string where "HeaderRequestID = ''X-Request-ID''"

definition RequestID :: "string \<Rightarrow> 'w middleware" where
  "RequestID newid next' r hs w =
     (let rid0 = hr_Header r HeaderRequestID;
          rid = (if rid0 = [] then newid else rid0)
      in next' (r \<lparr> hr_request_id := Some rid \<rparr>) (set_header HeaderRequestID rid hs) w)"

definition RequestIDFromContext :: "http_request option \<Rightarrow> string" where
  "RequestIDFromContext ctx =
     (case ctx of None \<Rightarrow> [] | Some r \<Rightarrow> (case hr_request_id r of None \<Rightarrow> [] | Some v \<Rightarrow> v))"

record cors_config =
  co_AllowOrigins :: string
  co_AllowMethods :: string
  co_AllowHeaders :: string
  co_ExposeHeaders :: string
  co_MaxAge :: int
  co_AllowCredentials :: bool

definition DefaultCORSConfig :: cors_config where
  "DefaultCORSConfig =
     \<lparr> co_AllowOrigins = ''*'', co_AllowMethods = ''GET,POST,PUT,DELETE,OPTIONS,PATCH'',
       co_AllowHeaders = ''Content-Type,Authorization,X-Request-ID,X-API-Key,X-AAP-Proof'',
       co_ExposeHeaders = ''X-Request-ID'', co_MaxAge = 86400, co_AllowCredentials = False \<rparr>"

definition itoa :: "int \<Rightarrow> string" where
  "itoa n = hand_itoa n"

definition or_default :: "string \<Rightarrow> string \<Rightarrow> string" where
  "or_default s d = (if s = [] then d else s)"

definition CORS :: "cors_config \<Rightarrow> 'w middleware" where
  "CORS cfg next' r hs w =
     (let d = DefaultCORSConfig;
          h1 = set_header ''Access-Control-Allow-Origin'' (or_default (co_AllowOrigins cfg) (co_AllowOrigins d)) hs;
          h2 = set_header ''Access-Control-Allow-Methods'' (or_default (co_AllowMethods cfg) (co_AllowMethods d)) h1;
          h3 = set_header ''Access-Control-Allow-Headers'' (or_default (co_AllowHeaders cfg) (co_AllowHeaders d)) h2;
          h4 = set_header ''Access-Control-Expose-Headers'' (or_default (co_ExposeHeaders cfg) (co_ExposeHeaders d)) h3;
          h5 = set_header ''Access-Control-Max-Age''
                 (itoa (if co_MaxAge cfg = 0 then co_MaxAge d else co_MaxAge cfg)) h4;
          h6 = (if co_AllowCredentials cfg
                then set_header ''Access-Control-Allow-Credentials'' ''true'' h5 else h5)
      in if hr_Method r = ''OPTIONS'' then respond 204 h6 [] w else next' r h6 w)"

section \<open>The user agent filter\<close>

record ua_config =
  ua_BlockPatterns :: "string list"
  ua_AllowList :: "string list"
  ua_BlockEmpty :: bool

definition DefaultUAConfig :: ua_config where
  "DefaultUAConfig =
     \<lparr> ua_BlockPatterns = [''sqlmap'', ''nikto'', ''masscan'', ''nmap'', ''zgrab'', ''nessus''],
       ua_AllowList = [], ua_BlockEmpty = True \<rparr>"

definition isProbePath :: "string \<Rightarrow> bool" where
  "isProbePath p \<longleftrightarrow> p \<in> {''/live'', ''/ready'', ''/readyz'', ''/healthz'', ''/metrics''}"

definition ua_effective :: "ua_config \<Rightarrow> ua_config" where
  "ua_effective cfg =
     (if \<not> ua_BlockEmpty cfg \<and> ua_BlockPatterns cfg = [] \<and> ua_AllowList cfg = [] then DefaultUAConfig
      else cfg)"

definition UABlock :: "ua_config \<Rightarrow> 'w middleware" where
  "UABlock cfg0 next' r hs w =
     (let cfg = ua_effective cfg0;
          block = map to_lower (ua_BlockPatterns cfg);
          allow = map to_lower (ua_AllowList cfg);
          ua = hr_Header r ''User-Agent'';
          uaLower = to_lower ua
      in if isProbePath (hr_Path r) then next' r hs w
         else if allow \<noteq> [] \<and> \<not> list_ex (contains uaLower) allow
         then http_error 403 ''forbidden user agent'' hs w
         else if ua_BlockEmpty cfg \<and> ua = [] then http_error 403 ''empty user agent'' hs w
         else if list_ex (contains uaLower) block then http_error 403 ''blocked user agent'' hs w
         else next' r hs w)"

section \<open>API keys\<close>

record api_key_config =
  ak_Keys :: "string list"
  ak_Header :: string
  ak_SkipPaths :: "string list"
  ak_Realm :: string

definition unauthorized :: "string \<Rightarrow> string \<Rightarrow> headers \<Rightarrow> 'w \<Rightarrow> http_response outcome \<times> 'w" where
  "unauthorized realm msg hs w =
     http_error 401 msg (set_header ''WWW-Authenticate'' (''Bearer realm='' @ [qt] @ realm @ [qt]) hs) w"

definition APIKey :: "api_key_config \<Rightarrow> 'w middleware" where
  "APIKey cfg next' r hs w =
     (let header = or_default (ak_Header cfg) ''X-API-Key'';
          realm = or_default (ak_Realm cfg) ''agentid'';
          got = hr_Header r header
      in if hr_Path r \<in> set (ak_SkipPaths cfg) then next' r hs w
         else if got = [] then unauthorized realm ''missing API key'' hs w
         else if \<not> list_ex (\<lambda>k. got = k) (ak_Keys cfg) then unauthorized realm ''invalid API key'' hs w
         else next' r hs w)"

section \<open>The gateway's check of the proof header\<close>

record aap_proof_header =
  ap_AgentUUID :: string
  ap_ChallengeID :: string
  ap_PubKey :: string
  ap_Sig :: string

definition HeaderAAPProof :: string where "HeaderAAPProof = ''X-AAP-Proof''"

text \<open>\<open>strings.IndexByte\<close>: the body starts after the first colon, unless it is the first or last byte.\<close>

definition proof_body :: "string \<Rightarrow> string" where
  "proof_body hdr =
     (case str_index '':'' hdr of
        None \<Rightarrow> hdr
      | Some idx \<Rightarrow> if 0 < idx \<and> idx + 1 < length hdr then drop (idx + 1) hdr else hdr)"

definition parseAAPProof ::
  "(string \<Rightarrow> aap_proof_header option) \<Rightarrow> string \<Rightarrow> go_error + aap_proof_header" where
  "parseAAPProof pjson hdr =
     (case b64url_decode (proof_body hdr) of
        None \<Rightarrow> Inl (Sentinel ''illegal base64 data'')
      | Some raw \<Rightarrow>
          (case pjson raw of
             None \<Rightarrow> Inl (Sentinel ''json'')
           | Some p \<Rightarrow>
               if ap_AgentUUID p = [] \<or> ap_ChallengeID p = [] \<or> ap_PubKey p = [] \<or> ap_Sig p = []
               then Inl (Sentinel ''missing required field'') else Inr p))"

definition verifyAAPProofStub :: "aap_proof_header \<Rightarrow> go_error option" where
  "verifyAAPProofStub p =
     (if b64url_decode (ap_PubKey p) = None then Some (Sentinel ''invalid pubkey encoding'')
      else if b64url_decode (ap_Sig p) = None then Some (Sentinel ''invalid sig encoding'')
      else if length (ap_AgentUUID p) < 16 then Some (Sentinel ''uuid too short'')
      else None)"

definition Gateway_AAP :: "(string \<Rightarrow> aap_proof_header option) \<Rightarrow> 'w middleware" where
  "Gateway_AAP pjson next' r hs w =
     (if isProbePath (hr_Path r) then next' r hs w
      else
        (let proofHdr = hr_Header r HeaderAAPProof in
         if proofHdr = [] then http_error 401 ''missing X-AAP-Proof'' hs w
         else (case parseAAPProof pjson proofHdr of
                 Inl _ \<Rightarrow> http_error 401 ''invalid X-AAP-Proof: '' hs w
               | Inr p \<Rightarrow>
                   (case verifyAAPProofStub p of
                      Some _ \<Rightarrow> http_error 401 ''AAP verify failed: '' hs w
                    | None \<Rightarrow> next' (r \<lparr> hr_agent_uuid := Some (ap_AgentUUID p) \<rparr>) hs w))))"

definition AgentUUIDFromContext :: "http_request option \<Rightarrow> string" where
  "AgentUUIDFromContext ctx =
     (case ctx of None \<Rightarrow> [] | Some r \<Rightarrow> (case hr_agent_uuid r of None \<Rightarrow> [] | Some v \<Rightarrow> v))"

section \<open>TLS and security headers\<close>

record tls_config =
  tl_Enabled :: bool
  tl_Port :: int
  tl_TrustProxy :: bool
  tl_HSTSMaxAge :: int
  tl_HSTSIncludeSubdomains :: bool
  tl_HSTSPreload :: bool
  tl_ExemptPaths :: "string list"

definition DefaultTLSConfig :: tls_config where
  "DefaultTLSConfig =
     \<lparr> tl_Enabled = True, tl_Port = 443, tl_TrustProxy = False, tl_HSTSMaxAge = 31536000,
       tl_HSTSIncludeSubdomains = True, tl_HSTSPreload = True,
       tl_ExemptPaths = [''/live'', ''/ready'', ''/healthz'', ''/health'', ''/metrics'', ''/debug/''] \<rparr>"

definition buildHSTS :: "int \<Rightarrow> bool \<Rightarrow> bool \<Rightarrow> string" where
  "buildHSTS age sub pre =
     ''max-age='' @ itoa age @ (if sub then ''; includeSubDomains'' else [])
     @ (if pre then ''; preload'' else [])"

definition tls_HSTS :: "tls_config \<Rightarrow> string" where
  "tls_HSTS cfg = buildHSTS (tl_HSTSMaxAge cfg) (tl_HSTSIncludeSubdomains cfg) (tl_HSTSPreload cfg)"

definition setHSTS :: "tls_config \<Rightarrow> headers \<Rightarrow> headers" where
  "setHSTS cfg hs =
     (if 0 < tl_HSTSMaxAge cfg then set_header ''Strict-Transport-Security'' (tls_HSTS cfg) hs else hs)"

text \<open>The position of the last colon.\<close>

definition last_colon :: "string \<Rightarrow> nat option" where
  "last_colon s = map_option (\<lambda>i. length s - 1 - i) (str_index '':'' (rev s))"

definition splitHostPort :: "string \<Rightarrow> string \<times> string" where
  "splitHostPort addr =
     (if starts_with ''['' addr
      then (case str_index '']'' addr of
              None \<Rightarrow> (addr, [])
            | Some e \<Rightarrow>
                (take (e + 1) addr,
                 if e + 1 < length addr \<and> addr ! (e + 1) = CHR '':'' then drop (e + 2) addr else []))
      else if 1 < length (filter (\<lambda>c. c = CHR '':'') addr) then (addr, [])
      else (case last_colon addr of
              None \<Rightarrow> (addr, [])
            | Some i \<Rightarrow> (take i addr, drop (i + 1) addr)))"

definition tls_effective :: "tls_config \<Rightarrow> tls_config" where
  "tls_effective cfg =
     (let c1 = (if tl_Port cfg = 0 then cfg \<lparr> tl_Port := 443 \<rparr> else cfg)
      in if tl_HSTSMaxAge c1 = 0 \<and> tl_Enabled c1 then c1 \<lparr> tl_HSTSMaxAge := 31536000 \<rparr> else c1)"

definition tls_scheme :: "tls_config \<Rightarrow> http_request \<Rightarrow> string" where
  "tls_scheme cfg r =
     (if hr_TLS r then ''https''
      else if tl_TrustProxy cfg \<and> hr_Header r ''X-Forwarded-Proto'' \<noteq> []
      then to_lower (hr_Header r ''X-Forwarded-Proto'') else ''http'')"

definition tls_target :: "tls_config \<Rightarrow> http_request \<Rightarrow> string" where
  "tls_target cfg r =
     ''https://'' @ fst (splitHostPort (hr_Host r))
     @ (if tl_Port cfg \<noteq> 443 then '':'' @ itoa (tl_Port cfg) else []) @ hr_URI r"

definition TLS :: "tls_config \<Rightarrow> 'w middleware" where
  "TLS cfg0 next' r hs w =
     (let cfg = tls_effective cfg0 in
      if \<not> tl_Enabled cfg then next' r hs w
      else if hr_Path r \<in> set (tl_ExemptPaths cfg) then next' r (setHSTS cfg hs) w
      else if tls_scheme cfg r \<noteq> ''https''
      then respond 308 (set_header ''Strict-Transport-Security'' (tls_HSTS cfg)
             (set_header ''Location'' (tls_target cfg r) hs)) [] w
      else next' r (setHSTS cfg hs) w)"

record security_config =
  sc_Enabled :: bool
  sc_CSP :: string
  sc_XFrameOptions :: string
  sc_ReferrerPolicy :: string
  sc_PermissionsPolicy :: string
  sc_COOP :: string
  sc_COEP :: string
  sc_CORP :: string
  sc_NoCachePaths :: "string list"
  sc_HSTSMaxAge :: int
  sc_HSTSIncludeSubdomains :: bool
  sc_HSTSPreload :: bool

definition hasPathPrefix :: "string \<Rightarrow> string \<Rightarrow> bool" where
  "hasPathPrefix path prefix = (if length path < length prefix then False else take (length prefix) path = prefix)"

definition set_if :: "string \<Rightarrow> string \<Rightarrow> headers \<Rightarrow> headers" where
  "set_if k v hs = (if v \<noteq> [] then set_header k v hs else hs)"

definition security_headers :: "security_config \<Rightarrow> string \<Rightarrow> headers \<Rightarrow> headers" where
  "security_headers cfg path hs =
     (let h1 = set_if ''Content-Security-Policy'' (sc_CSP cfg) hs;
          h2 = set_header ''X-Content-Type-Options'' ''nosniff'' h1;
          h3 = set_if ''X-Frame-Options'' (sc_XFrameOptions cfg) h2;
          h4 = set_if ''Referrer-Policy'' (sc_ReferrerPolicy cfg) h3;
          h5 = set_if ''Permissions-Policy'' (sc_PermissionsPolicy cfg) h4;
          h6 = set_header ''X-Permitted-Cross-Domain-Policies'' ''none'' h5;
          h7 = set_if ''Cross-Origin-Opener-Policy'' (sc_COOP cfg) h6;
          h8 = set_if ''Cross-Origin-Embedder-Policy'' (sc_COEP cfg) h7;
          h9 = set_if ''Cross-Origin-Resource-Policy'' (sc_CORP cfg) h8;
          h10 = (if 0 < sc_HSTSMaxAge cfg
                 then set_header ''Strict-Transport-Security''
                   (buildHSTS (sc_HSTSMaxAge cfg) (sc_HSTSIncludeSubdomains cfg) (sc_HSTSPreload cfg)) h9
                 else h9)
      in if list_ex (hasPathPrefix path) (sc_NoCachePaths cfg)
         then set_header ''Expires'' ''0'' (set_header ''Pragma'' ''no-cache''
                (set_header ''Cache-Control'' ''no-store, no-cache, must-revalidate, max-age=0'' h10))
         else h10)"

definition SecurityHeaders :: "security_config \<Rightarrow> 'w middleware" where
  "SecurityHeaders cfg next' r hs w =
     (if \<not> sc_Enabled cfg then next' r hs w
      else next' r (security_headers cfg (hr_Path r) hs) w)"

section \<open>When a handler is reached\<close>

lemma chain_loop_append: "chain_loop (a @ b) h = chain_loop b (chain_loop a h)"
  by (induction a arbitrary: h) auto

lemma Chain_Then_Cons [simp]: "Chain_Then (mw # mws) h = mw (Chain_Then mws h)"
  by (simp add: Chain_Then_def chain_loop_append)

lemma Chain_Then_Nil [simp]: "Chain_Then [] h = h"
  by (simp add: Chain_Then_def)

lemma Recover_reach: "Recover h r hs w \<noteq> Recover h' r hs w \<Longrightarrow> h r hs w \<noteq> h' r hs w"
  by (auto simp: Recover_def)

lemma CORS_reach:
  "CORS c h r hs w \<noteq> CORS c h' r hs w \<Longrightarrow> hr_Method r \<noteq> ''OPTIONS'' \<and> (\<exists>hs'. h r hs' w \<noteq> h' r hs' w)"
  by (auto simp: CORS_def Let_def split: if_splits)

definition ua_admits :: "ua_config \<Rightarrow> http_request \<Rightarrow> bool" where
  "ua_admits cfg0 r \<longleftrightarrow>
     (let cfg = ua_effective cfg0; ua = to_lower (hr_Header r ''User-Agent'') in
      isProbePath (hr_Path r)
      \<or> (ua_AllowList cfg = [] \<or> (\<exists>p \<in> set (ua_AllowList cfg). contains ua (to_lower p)))
        \<and> (ua_BlockEmpty cfg \<longrightarrow> hr_Header r ''User-Agent'' \<noteq> [])
        \<and> (\<forall>p \<in> set (ua_BlockPatterns cfg). \<not> contains ua (to_lower p)))"

lemma UABlock_reach:
  "UABlock c h r hs w \<noteq> UABlock c h' r hs w \<Longrightarrow> ua_admits c r \<and> h r hs w \<noteq> h' r hs w"
  by (auto simp: UABlock_def ua_admits_def Let_def list_ex_iff split: if_splits)

definition key_admits :: "api_key_config \<Rightarrow> http_request \<Rightarrow> bool" where
  "key_admits cfg r \<longleftrightarrow>
     hr_Path r \<in> set (ak_SkipPaths cfg)
     \<or> hr_Header r (or_default (ak_Header cfg) ''X-API-Key'') \<noteq> []
       \<and> hr_Header r (or_default (ak_Header cfg) ''X-API-Key'') \<in> set (ak_Keys cfg)"

lemma APIKey_reach:
  "APIKey c h r hs w \<noteq> APIKey c h' r hs w \<Longrightarrow> key_admits c r \<and> h r hs w \<noteq> h' r hs w"
  by (auto simp: APIKey_def key_admits_def Let_def list_ex_iff split: if_splits)

definition proof_shape :: "(string \<Rightarrow> aap_proof_header option) \<Rightarrow> http_request \<Rightarrow> bool" where
  "proof_shape pjson r \<longleftrightarrow>
     isProbePath (hr_Path r)
     \<or> (\<exists>p. parseAAPProof pjson (hr_Header r HeaderAAPProof) = Inr p \<and> verifyAAPProofStub p = None)"

lemma Gateway_AAP_reach:
  "Gateway_AAP pj h r hs w \<noteq> Gateway_AAP pj h' r hs w \<Longrightarrow> proof_shape pj r"
  by (auto simp: Gateway_AAP_def proof_shape_def Let_def split: if_splits sum.splits option.splits)

text \<open>A header that is the encoding of the JSON text has no colon.\<close>

lemma parse_written:
  assumes "pj raw = Some p" and "ap_AgentUUID p \<noteq> []" and "ap_ChallengeID p \<noteq> []"
    and "ap_PubKey p \<noteq> []" and "ap_Sig p \<noteq> []"
  shows "parseAAPProof pj (b64url_encode raw) = Inr p"
proof -
  have "\<forall>v \<in> set (b64_groups (map of_char raw)). v < 64"
    using of_char_small by (intro b64_groups_small) auto
  moreover have "b64_char n \<noteq> CHR '':''" if "n < 64" for n
  proof -
    have "b64_val (CHR '':'') = None" by (simp add: b64_val_def)
    with b64_val_char [OF that] show ?thesis by auto
  qed
  ultimately have "CHR '':'' \<notin> set (b64url_encode raw)"
    by (fastforce simp: b64url_encode_def)
  then have "str_index '':'' (b64url_encode raw) = None"
    using str_index_skip [of "CHR '':''" "b64url_encode raw" "[]" "[]"] by simp
  then have "proof_body (b64url_encode raw) = b64url_encode raw" by (simp add: proof_body_def)
  with assms show ?thesis by (simp add: parseAAPProof_def)
qed

section \<open>Properties of the chain\<close>

text \<open>The middlewares in the order of the package's documentation, logging and metrics aside.\<close>

definition documented_chain ::
  "string \<Rightarrow> cors_config \<Rightarrow> ua_config \<Rightarrow> api_key_config \<Rightarrow> (string \<Rightarrow> aap_proof_header option)
   \<Rightarrow> 'w middleware list" where
  "documented_chain newid co ua ak pj =
     [Recover, RequestID newid, CORS co, UABlock ua, APIKey ak, Gateway_AAP pj]"

text \<open>C21: behind the documented chain, the answer to a request depends on the handler only when the request
  is no preflight, its user agent is admitted, it carries one of the keys or its path skips them, and
  its proof header has the right shape or its path is a probe; and no request ends in a panic.\<close>

theorem gateway_chain_guards:
  "(Chain_Then (documented_chain i co ua ak pj) h r hs w
      \<noteq> Chain_Then (documented_chain i co ua ak pj) h' r hs w
    \<longrightarrow> hr_Method r \<noteq> ''OPTIONS'' \<and> ua_admits ua r \<and> key_admits ak r \<and> proof_shape pj r)
   \<and> (\<exists>resp. fst (Chain_Then (documented_chain i co ua ak pj) h r hs w) = Return resp)"
proof (intro conjI impI)
  assume "Chain_Then (documented_chain i co ua ak pj) h r hs w
      \<noteq> Chain_Then (documented_chain i co ua ak pj) h' r hs w"
  then have "RequestID i (CORS co (UABlock ua (APIKey ak (Gateway_AAP pj h)))) r hs w
      \<noteq> RequestID i (CORS co (UABlock ua (APIKey ak (Gateway_AAP pj h')))) r hs w"
    unfolding documented_chain_def Chain_Then_Cons Chain_Then_Nil by (rule Recover_reach)
  then obtain rid hs1 where
    "CORS co (UABlock ua (APIKey ak (Gateway_AAP pj h))) (r \<lparr> hr_request_id := Some rid \<rparr>) hs1 w
      \<noteq> CORS co (UABlock ua (APIKey ak (Gateway_AAP pj h'))) (r \<lparr> hr_request_id := Some rid \<rparr>) hs1 w"
    by (auto simp: RequestID_def Let_def)
  from CORS_reach [OF this] obtain hs2 where m: "hr_Method r \<noteq> ''OPTIONS''" and
    "UABlock ua (APIKey ak (Gateway_AAP pj h)) (r \<lparr> hr_request_id := Some rid \<rparr>) hs2 w
      \<noteq> UABlock ua (APIKey ak (Gateway_AAP pj h')) (r \<lparr> hr_request_id := Some rid \<rparr>) hs2 w" by auto
  from UABlock_reach [OF this(2)] have u: "ua_admits ua (r \<lparr> hr_request_id := Some rid \<rparr>)" and
    "APIKey ak (Gateway_AAP pj h) (r \<lparr> hr_request_id := Some rid \<rparr>) hs2 w
      \<noteq> APIKey ak (Gateway_AAP pj h') (r \<lparr> hr_request_id := Some rid \<rparr>) hs2 w" by auto
  from APIKey_reach [OF this(2)] have k: "key_admits ak (r \<lparr> hr_request_id := Some rid \<rparr>)" and
    "Gateway_AAP pj h (r \<lparr> hr_request_id := Some rid \<rparr>) hs2 w
      \<noteq> Gateway_AAP pj h' (r \<lparr> hr_request_id := Some rid \<rparr>) hs2 w" by auto
  from Gateway_AAP_reach [OF this(2)] have p: "proof_shape pj (r \<lparr> hr_request_id := Some rid \<rparr>)" .
  show "hr_Method r \<noteq> ''OPTIONS''" by (rule m)
  show "ua_admits ua r" using u by (simp add: ua_admits_def)
  show "key_admits ak r" using k by (simp add: key_admits_def)
  show "proof_shape pj r" using p by (simp add: proof_shape_def)
next
  show "\<exists>resp. fst (Chain_Then (documented_chain i co ua ak pj) h r hs w) = Return resp"
    by (auto simp: documented_chain_def Recover_def http_error_def respond_def
        split: prod.split outcome.split)
qed

definition forged_json :: "string \<Rightarrow> aap_proof_header option" where
  "forged_json s = (if s = ''x'' then Some \<lparr> ap_AgentUUID = replicate 32 (CHR ''f''),
     ap_ChallengeID = ''c'', ap_PubKey = b64url_encode ''k'', ap_Sig = b64url_encode ''s'' \<rparr> else None)"

definition who_handler :: "unit handler" where
  "who_handler r hs w = respond 200 hs (AgentUUIDFromContext (Some r)) w"

definition keyed_request :: http_request where
  "keyed_request = (sample_http []) \<lparr> hr_Header := (\<lambda>k.
     if k = ''X-AAP-Proof'' then b64url_encode ''x'' else if k = ''X-API-Key'' then ''k1''
     else if k = ''User-Agent'' then ''go'' else []) \<rparr>"

definition one_key :: api_key_config where
  "one_key = \<lparr> ak_Keys = [''k1''], ak_Header = [], ak_SkipPaths = [], ak_Realm = [] \<rparr>"

lemma keyed_reaches:
  "\<exists>r' hs. Chain_Then (documented_chain ''id'' DefaultCORSConfig DefaultUAConfig one_key forged_json)
     (\<lambda>r hs w. respond 200 hs msg w) keyed_request [] () = respond 200 hs msg ()"
proof -
  have p: "parseAAPProof forged_json (b64url_encode ''x'') = Inr \<lparr> ap_AgentUUID = replicate 32 (CHR ''f''),
     ap_ChallengeID = ''c'', ap_PubKey = b64url_encode ''k'', ap_Sig = b64url_encode ''s'' \<rparr>"
    by (rule parse_written) (simp_all add: forged_json_def)
  show ?thesis
    by (simp add: documented_chain_def Recover_def RequestID_def CORS_def UABlock_def APIKey_def
        Gateway_AAP_def keyed_request_def sample_http_def one_key_def isProbePath_def or_default_def
        ua_effective_def DefaultUAConfig_def HeaderAAPProof_def HeaderRequestID_def Let_def p
        verifyAAPProofStub_def contains_def starts_with_def respond_def)
qed

theorem gateway_chain_guards_witness:
  "ua_admits DefaultUAConfig keyed_request \<and> key_admits one_key keyed_request
     \<and> proof_shape forged_json keyed_request"
proof -
  let ?h = "\<lambda>m (r :: http_request) (hs :: headers) (w :: unit). respond 200 hs m w"
  let ?c = "documented_chain ''id'' DefaultCORSConfig DefaultUAConfig one_key forged_json :: unit middleware list"
  have "Chain_Then ?c (?h ''a'') keyed_request [] () \<noteq> Chain_Then ?c (?h ''b'') keyed_request [] ()"
    using keyed_reaches [of "''a''"] keyed_reaches [of "''b''"] by (auto simp: respond_def)
  with gateway_chain_guards [of "''id''" DefaultCORSConfig DefaultUAConfig one_key forged_json
      "?h ''a''" keyed_request "[]" "()" "?h ''b''"] show ?thesis by blast
qed

text \<open>The gateway checks no signature: whoever writes a well-formed header, with any agent id of at
  least sixteen characters and any bytes as key and signature, is taken for that agent.\<close>

theorem gateway_aap_accepts_forged:
  assumes "16 \<le> length uuid" and "cid \<noteq> []" and "pub \<noteq> []" and "sig \<noteq> []" and "raw \<noteq> []"
    and "pj raw = Some \<lparr> ap_AgentUUID = uuid, ap_ChallengeID = cid, ap_PubKey = b64url_encode pub,
           ap_Sig = b64url_encode sig \<rparr>"
    and "hr_Header r HeaderAAPProof = b64url_encode raw"
  shows "\<exists>r'. Gateway_AAP pj h r hs w = h r' hs w
     \<and> (\<not> isProbePath (hr_Path r) \<longrightarrow> AgentUUIDFromContext (Some r') = uuid)"
proof -
  have "parseAAPProof pj (hr_Header r HeaderAAPProof) = Inr \<lparr> ap_AgentUUID = uuid,
      ap_ChallengeID = cid, ap_PubKey = b64url_encode pub, ap_Sig = b64url_encode sig \<rparr>"
    using assms unfolding assms(7) by (intro parse_written) auto
  with assms(1,5,7) show ?thesis
    by (auto simp: Gateway_AAP_def verifyAAPProofStub_def AgentUUIDFromContext_def)
qed

theorem gateway_aap_accepts_forged_witness:
  "Gateway_AAP forged_json who_handler (sample_http (b64url_encode ''x'')) [] ()
     = respond 200 [] (replicate 32 (CHR ''f'')) ()"
proof -
  have h: "hr_Header (sample_http (b64url_encode ''x'')) HeaderAAPProof = b64url_encode ''x''"
    by (simp add: sample_http_def HeaderAAPProof_def)
  have j: "forged_json ''x'' = Some \<lparr> ap_AgentUUID = replicate 32 (CHR ''f''),
     ap_ChallengeID = ''c'', ap_PubKey = b64url_encode ''k'', ap_Sig = b64url_encode ''s'' \<rparr>"
    by (simp add: forged_json_def)
  have "\<not> isProbePath (hr_Path (sample_http (b64url_encode ''x'')))"
    by (simp add: sample_http_def isProbePath_def)
  with gateway_aap_accepts_forged [where pj = forged_json and raw = "''x''" and pub = "''k''"
      and sig = "''s''" and uuid = "replicate 32 (CHR ''f'')" and cid = "''c''"
      and h = who_handler and hs = "[]" and w = "()", OF _ _ _ _ _ j h]
  show ?thesis by (auto simp: who_handler_def)
qed

end
