(* ===== verification/RateLimit.thy ===== *)
theory RateLimit
  imports HttpModel
begin

text \<open>
  The fixed-window limiter of the handshake, \<open>src/internal/authz/aap/ratelimit.go\<close>: a counter in
  the cache for each client and window.

  \<open>int64(Window.Seconds())\<close> goes through a floating-point number; it is exact here for windows up to
  a few months or of whole seconds. The limiter's clock and the cache's server read the same time.
\<close>

section \<open>The limiter\<close>

abbreviation AapErrRateLimited :: go_error where
  "AapErrRateLimited \<equiv> Sentinel ''aap: rate limit exceeded''"

record 'w limiter_config =
  lc_Cache :: "'w kv_cache option"
  lc_Limit :: int
  lc_Window :: duration
  lc_KeyPrefix :: string
  lc_FailOpen :: bool

record 'w limiter =
  lm_Cache :: "'w kv_cache"
  lm_Limit :: int
  lm_Window :: duration
  lm_KeyPrefix :: string
  lm_FailOpen :: bool

definition NewLimiter :: "'w limiter_config \<Rightarrow> go_error + 'w limiter" where
  "NewLimiter cfg =
     (case lc_Cache cfg of
        None \<Rightarrow> Inl (Sentinel ''aap: nil cache'')
      | Some c \<Rightarrow>
          Inr \<lparr> lm_Cache = c, lm_Limit = (if lc_Limit cfg \<le> 0 then 10 else lc_Limit cfg),
                lm_Window = (if lc_Window cfg \<le> 0 then minute else lc_Window cfg),
                lm_KeyPrefix = (if lc_KeyPrefix cfg = [] then ''rl:aap'' else lc_KeyPrefix cfg),
                lm_FailOpen = lc_FailOpen cfg \<rparr>)"

definition window_seconds :: "'w limiter \<Rightarrow> int" where
  "window_seconds l = lm_Window l div second"

definition window_bucket :: "'w limiter \<Rightarrow> time \<Rightarrow> int" where
  "window_bucket l now = unix_sec now - go_rem (unix_sec now) (window_seconds l)"

definition limiter_key :: "'w limiter \<Rightarrow> time \<Rightarrow> string \<Rightarrow> string \<Rightarrow> string outcome" where
  "limiter_key l now ip owner =
     (if window_seconds l = 0 then Panic ''integer divide by zero''
      else Return (lm_KeyPrefix l @ '':'' @ ip @ '':'' @ owner @ '':'' @ dec_of_int (window_bucket l now)))"

type_synonym decision = "bool \<times> int \<times> go_error option"

definition decide :: "'w limiter \<Rightarrow> go_error + int \<Rightarrow> decision" where
  "decide l res =
     (case res of
        Inl e \<Rightarrow> if lm_FailOpen l then (True, lm_Limit l, None)
                 else (False, 0, Some (Errorf ''aap: rate limit incr: %w'' [e]))
      | Inr count \<Rightarrow>
          if lm_Limit l < count then (False, 0, Some AapErrRateLimited)
          else (True, lm_Limit l - count, None))"

definition Limiter_Allow ::
  "'w limiter \<Rightarrow> time \<Rightarrow> string \<Rightarrow> string \<Rightarrow> 'w \<Rightarrow> decision outcome \<times> 'w" where
  "Limiter_Allow l now ip owner w =
     (case limiter_key l now ip owner of
        Panic m \<Rightarrow> (Panic m, w)
      | Return key \<Rightarrow>
          (case kc_Incr (lm_Cache l) now key (lm_Window l) w of
             (res, w') \<Rightarrow> (Return (decide l res), w')))"

definition Limiter_AllowWith :: "'w limiter \<Rightarrow> time \<Rightarrow> string \<Rightarrow> 'w \<Rightarrow> decision \<times> 'w" where
  "Limiter_AllowWith l now suffix w =
     (case kc_Incr (lm_Cache l) now (lm_KeyPrefix l @ '':'' @ suffix) (lm_Window l) w of
        (res, w') \<Rightarrow> (decide l res, w'))"

definition Limiter_Reset ::
  "'w limiter \<Rightarrow> time \<Rightarrow> string \<Rightarrow> string \<Rightarrow> 'w \<Rightarrow> go_error option outcome \<times> 'w" where
  "Limiter_Reset l now ip owner w =
     (case limiter_key l now ip owner of
        Panic m \<Rightarrow> (Panic m, w)
      | Return key \<Rightarrow>
          (case kc_Del (lm_Cache l) now [key] w of (err, w') \<Rightarrow> (Return err, w')))"

section \<open>The middleware\<close>

definition until_char :: "char \<Rightarrow> string \<Rightarrow> string" where
  "until_char c s = takeWhile (\<lambda>x. x \<noteq> c) s"

definition clientIP :: "http_request \<Rightarrow> string" where
  "clientIP r =
     (if hr_Header r ''X-Forwarded-For'' \<noteq> [] then until_char (CHR '','') (hr_Header r ''X-Forwarded-For'')
      else if hr_Header r ''X-Real-IP'' \<noteq> [] then hr_Header r ''X-Real-IP''
      else until_char (CHR '':'') (hr_RemoteAddr r))"

definition Limiter_WrapHTTP :: "'w limiter \<Rightarrow> time \<Rightarrow> 'w middleware" where
  "Limiter_WrapHTTP l now next' r hs w =
     (case Limiter_Allow l now (clientIP r) (hr_Header r ''X-AAP-User-DID'') w of
        (Panic m, w') \<Rightarrow> (Panic m, w')
      | (Return (allowed, remaining, err), w') \<Rightarrow>
          (if (case err of None \<Rightarrow> False | Some e \<Rightarrow> \<not> errors_is e AapErrRateLimited)
           then http_error 500 ''internal error'' hs w'
           else
             (let h1 = set_header ''X-RateLimit-Limit'' (dec_of_int (lm_Limit l)) hs;
                  h2 = set_header ''X-RateLimit-Remaining'' (dec_of_int remaining) h1
              in if \<not> allowed
                 then http_error 429 ''rate limit exceeded''
                        (set_header ''Retry-After'' (dec_of_int (window_seconds l)) h2) w'
                 else next' r h2 w')))"

section \<open>Counting within one window\<close>

type_synonym limit_request = "time \<times> string \<times> string"

fun limiter_run :: "'w limiter \<Rightarrow> limit_request list \<Rightarrow> 'w \<Rightarrow> decision outcome list" where
  "limiter_run l [] w = []"
| "limiter_run l ((now, ip, owner) # rs) w =
     (case Limiter_Allow l now ip owner w of (d, w') \<Rightarrow> d # limiter_run l rs w')"

fun times_in_order :: "time \<Rightarrow> limit_request list \<Rightarrow> bool" where
  "times_in_order t [] = True"
| "times_in_order t ((u, _) # rs) = (t \<le> u \<and> times_in_order u rs)"

definition same_client :: "'w limiter \<Rightarrow> string \<Rightarrow> limit_request \<Rightarrow> bool" where
  "same_client l K = (\<lambda>(now, ip, owner). limiter_key l now ip owner = Return K)"

definition cache_answered :: "decision outcome \<Rightarrow> bool" where
  "cache_answered d \<longleftrightarrow> (\<exists>ok rem. d = Return (ok, rem, None) \<or> d = Return (ok, rem, Some AapErrRateLimited))"

text \<open>The decisions about the requests of one key.\<close>

definition decisions_for :: "'w limiter \<Rightarrow> string \<Rightarrow> limit_request list \<Rightarrow> 'w \<Rightarrow> decision outcome list" where
  "decisions_for l K rs w = map snd (filter (\<lambda>(q, d). same_client l K q) (zip rs (limiter_run l rs w)))"

definition expected :: "int \<Rightarrow> int \<Rightarrow> decision outcome" where
  "expected limit n = Return (if limit < n then (False, 0, Some AapErrRateLimited) else (True, limit - n, None))"

fun expected_from :: "int \<Rightarrow> int \<Rightarrow> nat \<Rightarrow> decision outcome list" where
  "expected_from limit n 0 = []"
| "expected_from limit n (Suc m) = expected limit (n + 1) # expected_from limit (n + 1) m"

definition counted :: "'w view \<Rightarrow> string \<Rightarrow> time \<Rightarrow> time \<Rightarrow> int \<Rightarrow> 'w \<Rightarrow> bool" where
  "counted look K e0 now n w \<longleftrightarrow>
     (if n = 0 then \<forall>t \<ge> now. look w t K = None
      else \<exists>e \<ge> e0. \<forall>t \<ge> now. look w t K = until e (Some (dec_of_int n)) t)"

lemma counted_later: "counted look K e0 now n w \<Longrightarrow> now \<le> now' \<Longrightarrow> counted look K e0 now' n w"
  by (auto simp: counted_def split: if_splits)

lemma counted_same:
  "same_key look now K w w' \<Longrightarrow> counted look K e0 now n w \<Longrightarrow> counted look K e0 now n w'"
  by (auto simp: counted_def same_key_def split: if_splits)

context expiring_cache
begin

lemma counted_incr:
  assumes "counted look K e0 now n w" and "kc_Incr c now K ttl w = (Inr m, w')" and "0 < ttl"
    and "0 \<le> n" and "now < e0" and "e0 \<le> time_add now (ttl_sec ttl)"
  shows "m = n + 1 \<and> counted look K e0 now (n + 1) w'"
proof (cases "n = 0")
  case True
  with assms(1) have "look w now K = None" by (simp add: counted_def)
  from incr_new [OF assms(3,2) this] assms(6) True show ?thesis
    by (auto simp: counted_def wrote_def)
next
  case False
  with assms(1) obtain e where e: "e0 \<le> e"
    "\<And>t. now \<le> t \<Longrightarrow> look w t K = until e (Some (dec_of_int n)) t"
    by (auto simp: counted_def)
  have "now < e" using assms(5) e(1) by simp
  from incr_step [OF assms(3,2) e(2) this] assms(4) False e(1) show ?thesis
    by (auto simp: counted_def)
qed

lemma decisions_counted:
  assumes "lm_Cache l = c" and "0 < lm_Window l"
    and "counted look K e0 t0 n w" and "0 \<le> n" and "times_in_order t0 rs"
    and "\<forall>(t, q) \<in> set rs. t < e0 \<and> e0 \<le> time_add t (ttl_sec (lm_Window l))"
    and "\<forall>d \<in> set (limiter_run l rs w). cache_answered d" and "\<not> lm_FailOpen l"
  shows "decisions_for l K rs w = expected_from (lm_Limit l) n (length (filter (same_client l K) rs))"
  using assms(3-7)
proof (induction rs arbitrary: t0 n w)
  case Nil
  then show ?case by (simp add: decisions_for_def)
next
  case (Cons q rs)
  obtain t ip owner where q: "q = (t, ip, owner)" by (cases q)
  obtain d w' where d: "Limiter_Allow l t ip owner w = (d, w')" by fastforce
  have ans: "cache_answered d" and rest: "\<forall>d \<in> set (limiter_run l rs w'). cache_answered d"
    using Cons.prems(5) by (simp_all add: q d)
  have t: "t0 \<le> t" "times_in_order t rs" "t < e0" "e0 \<le> time_add t (ttl_sec (lm_Window l))"
    using Cons.prems(3,4) by (auto simp: q)
  have later: "counted look K e0 t n w" by (rule counted_later [OF Cons.prems(1) t(1)])
  obtain key where key: "limiter_key l t ip owner = Return key"
    using d ans by (cases "limiter_key l t ip owner") (auto simp: Limiter_Allow_def cache_answered_def)
  obtain res where res: "kc_Incr c t key (lm_Window l) w = (res, w')" "d = Return (decide l res)"
    using d assms(1) key by (auto simp: Limiter_Allow_def split: prod.splits)
  then obtain m where m: "res = Inr m"
    using ans assms(8) by (cases res) (auto simp: decide_def cache_answered_def)
  have step: "decisions_for l K (q # rs) w
      = (if key = K then [d] else []) @ decisions_for l K rs w'"
    by (simp add: decisions_for_def q d same_client_def key)
  show ?case
  proof (cases "key = K")
    case True
    from counted_incr [OF later res(1) [unfolded m True] assms(2) Cons.prems(2) t(3,4)]
    have n: "m = n + 1" "counted look K e0 t (n + 1) w'" by auto
    have "d = expected (lm_Limit l) (n + 1)" using res(2) m n(1) by (simp add: decide_def expected_def)
    moreover have "decisions_for l K rs w'
        = expected_from (lm_Limit l) (n + 1) (length (filter (same_client l K) rs))"
      using Cons.IH [OF n(2) _ t(2) _ rest] Cons.prems(2,4) by simp
    ultimately show ?thesis unfolding step using True by (simp add: q same_client_def key)
  next
    case False
    from incr_other [OF res(1)] False have "same_key look t K w w'" by simp
    from counted_same [OF this later] have "counted look K e0 t n w'" .
    from Cons.IH [OF this Cons.prems(2) t(2) _ rest] Cons.prems(4) False step show ?thesis
      by (simp add: q same_client_def key)
  qed
qed

end

lemma expected_from_nth:
  "expected_from limit n m = map (\<lambda>i. expected limit (n + int (Suc i))) [0..<m]"
proof (induction m arbitrary: n)
  case (Suc m)
  have "[0..<Suc m] = 0 # map Suc [0..<m]" by (simp add: upt_conv_Cons map_Suc_upt)
  with Suc show ?case by (simp add: algebra_simps del: upt_Suc)
qed simp

section \<open>Properties of the limiter\<close>

text \<open>C9: within one window, whatever requests of other clients come in between, the first requests of a
  client are allowed, up to the limit and with the remaining count going down to 0, and all later
  ones are refused; the cache is any server with the documented behaviour of Redis, and answers.\<close>

theorem limit_per_window:
  assumes "redis_laws r look" and "lm_Cache l = redisCache r" and "second \<le> lm_Window l"
    and "\<forall>t \<ge> t0. look w t K = None" and "times_in_order t0 rs"
    and "\<forall>(t, q) \<in> set rs. 0 \<le> unix_nano t \<and> window_bucket l t = b"
    and "\<forall>d \<in> set (limiter_run l rs w). cache_answered d" and "\<not> lm_FailOpen l"
  shows "decisions_for l K rs w =
    map (\<lambda>i. if int i < lm_Limit l then Return (True, lm_Limit l - int i - 1, None)
             else Return (False, 0, Some AapErrRateLimited))
      [0..<length (filter (same_client l K) rs)]"
proof -
  let ?W = "window_seconds l" and ?e = "Time ((b + window_seconds l) * second)"
  have W: "0 < ?W" "?W * second \<le> lm_Window l"
    using assms(3) by (auto simp: window_seconds_def pos_imp_zdiv_pos_iff minus_mod_eq_div_mult [symmetric])
  have ttl: "ttl_sec (lm_Window l) = ?W * second"
    using W(1) by (simp add: ttl_sec_def window_seconds_def max_def)
  have span: "t < ?e \<and> ?e \<le> time_add t (ttl_sec (lm_Window l))"
    if "0 \<le> unix_nano t" "window_bucket l t = b" for t
  proof -
    have sec: "0 \<le> unix_sec t" using that(1) by (simp add: unix_sec_def)
    have b: "b = unix_sec t - unix_sec t mod ?W"
      using that(2) W(1) sec by (simp add: window_bucket_def go_rem_nonneg)
    have "unix_sec t mod ?W < ?W" "0 \<le> unix_sec t mod ?W" using W(1) by simp_all
    then have le: "b \<le> unix_sec t" "unix_sec t + 1 \<le> b + ?W" using b by simp_all
    have "unix_nano t < (unix_sec t + 1) * second" "unix_sec t * second \<le> unix_nano t"
      by (simp_all add: unix_sec_def minus_mod_eq_div_mult [symmetric] algebra_simps)
    moreover have "(unix_sec t + 1) * second \<le> (b + ?W) * second"
      using le(2) by (intro mult_right_mono) auto
    moreover have "b * second \<le> unix_sec t * second" using le(1) by (intro mult_right_mono) auto
    ultimately show ?thesis
      by (simp add: less_time_def less_eq_time_def ttl algebra_simps)
  qed
  have "\<forall>(t, q) \<in> set rs. t < ?e \<and> ?e \<le> time_add t (ttl_sec (lm_Window l))"
    using span assms(6) by blast
  moreover have "counted look K ?e t0 0 w" using assms(4) by (simp add: counted_def)
  ultimately have "decisions_for l K rs w
      = expected_from (lm_Limit l) 0 (length (filter (same_client l K) rs))"
    using expiring_cache.decisions_counted [OF redis_cache_expiring [OF assms(1)] assms(2), of K ?e t0 0 w rs]
      assms(3,5,7,8) by simp
  then show ?thesis by (simp add: expected_from_nth expected_def)
qed

definition sample_limiter :: "redis_state limiter" where
  "sample_limiter = \<lparr> lm_Cache = redisCache redis_server, lm_Limit = 1, lm_Window = minute,
     lm_KeyPrefix = ''rl:aap'', lm_FailOpen = False \<rparr>"

definition sample_requests :: "limit_request list" where
  "sample_requests = [(Time (61 * second), ''a'', ''o''), (Time (62 * second), ''b'', ''o''),
     (Time (63 * second), ''a'', ''o'')]"

lemma sample_buckets:
  "window_bucket sample_limiter (Time (61 * second)) = 60"
  "window_bucket sample_limiter (Time (62 * second)) = 60"
  "window_bucket sample_limiter (Time (63 * second)) = 60"
  "window_seconds sample_limiter = 60"
  by (simp_all add: window_bucket_def window_seconds_def sample_limiter_def unix_sec_def go_rem_nonneg)

lemma parse_dec_dec: "parse_dec (dec_of_int i) = Some i"
proof -
  have ns: "\<not> starts_with ''-'' (dec_of_nat n)" for n
    using dec_of_nat_no_minus [of n] by (cases "dec_of_nat n") (auto simp: starts_with_Cons)
  have "starts_with ''-'' (CHR ''-'' # s)" for s by (simp add: starts_with_def)
  with ns have "(if starts_with ''-'' (dec_of_int i) then - int (dec_value (tl (dec_of_int i)))
      else int (dec_value (dec_of_int i))) = i"
    by (simp add: dec_of_int_def dec_value_dec)
  then show ?thesis by (simp add: parse_dec_def)
qed

lemma sample_keys:
  "limiter_key sample_limiter (Time (61 * second)) a o' = Return (''rl:aap:'' @ a @ '':'' @ o' @ '':'' @ dec_of_int 60)"
  "limiter_key sample_limiter (Time (62 * second)) a o' = Return (''rl:aap:'' @ a @ '':'' @ o' @ '':'' @ dec_of_int 60)"
  "limiter_key sample_limiter (Time (63 * second)) a o' = Return (''rl:aap:'' @ a @ '':'' @ o' @ '':'' @ dec_of_int 60)"
  unfolding limiter_key_def sample_buckets by (simp_all add: sample_limiter_def)

lemma sample_limiter_run:
  "limiter_run sample_limiter sample_requests [] =
     [Return (True, 0, None), Return (True, 0, None), Return (False, 0, Some AapErrRateLimited)]"
  unfolding sample_requests_def limiter_run.simps Limiter_Allow_def sample_keys
  by (simp add: sample_limiter_def redisCache_def redis_Incr_def redis_server_def server_Incr_def
      server_ExpireNX_def redis_look_def live_def parse_dec_dec ttl_sec_def time_add_def less_time_def
      decide_def)

theorem limit_per_window_witness:
  "decisions_for sample_limiter (''rl:aap:a:o:'' @ dec_of_int 60) sample_requests []
    = [Return (True, 0, None), Return (False, 0, Some AapErrRateLimited)]"
proof -
  let ?K = "''rl:aap:a:o:'' @ dec_of_int 60"
  have n: "length (filter (same_client sample_limiter ?K) sample_requests) = 2"
    unfolding sample_requests_def same_client_def by (simp add: sample_keys [simplified])
  have "decisions_for sample_limiter ?K sample_requests [] =
    map (\<lambda>i. if int i < lm_Limit sample_limiter then Return (True, lm_Limit sample_limiter - int i - 1, None)
             else Return (False, 0, Some AapErrRateLimited))
      [0..<length (filter (same_client sample_limiter ?K) sample_requests)]"
  proof (rule limit_per_window [OF redis_server_laws])
    show "\<forall>(t, q) \<in> set sample_requests. 0 \<le> unix_nano t \<and> window_bucket sample_limiter t = 60"
      unfolding sample_requests_def by (simp add: sample_buckets [simplified])
    show "\<forall>d \<in> set (limiter_run sample_limiter sample_requests []). cache_answered d"
      unfolding sample_limiter_run by (auto simp: cache_answered_def)
    show "times_in_order (Time 0) sample_requests"
      by (simp add: sample_requests_def less_eq_time_def)
  qed (simp_all add: sample_limiter_def redis_look_def)
  then show ?thesis unfolding n by (simp add: sample_limiter_def upt_rec)
qed

text \<open>A window of less than a second, which the constructor accepts, makes every request panic.\<close>

theorem sub_second_window_panics:
  assumes "NewLimiter cfg = Inr l" and "0 < lc_Window cfg" and "lc_Window cfg < second"
  shows "Limiter_Allow l now ip owner w = (Panic ''integer divide by zero'', w)"
proof -
  have "lm_Window l = lc_Window cfg"
    using assms by (auto simp: NewLimiter_def split: option.splits)
  then have "window_seconds l = 0" using assms(2,3) by (simp add: window_seconds_def)
  then show ?thesis by (simp add: Limiter_Allow_def limiter_key_def)
qed

theorem sub_second_window_panics_witness:
  "\<exists>l. NewLimiter \<lparr> lc_Cache = Some (redisCache redis_server), lc_Limit = 10,
       lc_Window = 500000000, lc_KeyPrefix = [], lc_FailOpen = True \<rparr> = Inr l
     \<and> Limiter_Allow l (Time 0) ''a'' ''o'' [] = (Panic ''integer divide by zero'', [])"
proof -
  obtain l where l: "NewLimiter \<lparr> lc_Cache = Some (redisCache redis_server), lc_Limit = 10,
       lc_Window = 500000000, lc_KeyPrefix = [], lc_FailOpen = True \<rparr> = Inr l"
    by (simp add: NewLimiter_def)
  from sub_second_window_panics [OF l] l show ?thesis by auto
qed

text \<open>Clients with an IPv6 address are told apart by their first group only.\<close>

lemma clientIP_ipv6:
  assumes "hr_Header r ''X-Forwarded-For'' = []" and "hr_Header r ''X-Real-IP'' = []"
    and "hr_RemoteAddr r = CHR ''['' # grp @ CHR '':'' # rest" and "CHR '':'' \<notin> set grp"
  shows "clientIP r = CHR ''['' # grp"
proof -
  have "takeWhile (\<lambda>x. x \<noteq> CHR '':'') (grp @ CHR '':'' # rest) = grp"
    using assms(4) by (intro takeWhile_tail [THEN trans]) (auto simp: takeWhile_eq_all_conv)
  then show ?thesis using assms(1-3) by (simp add: clientIP_def until_char_def)
qed

end
