(* ===== verification/OutboxTable.thy ===== *)
theory OutboxTable
  imports AgentPrelude
begin

text \<open>
  The table of outbox events as the program sees it through its ent client: the entity of
  \<open>ent/outboxevent.go\<close>, the validators that \<open>ent/schema/outbox_event.go\<close> declares and the
  builders of \<open>ent/outboxevent_create.go\<close> and \<open>ent/outboxevent_update.go\<close> run before they save,
  the two unique columns, and the query of the poller.

  The database itself is outside the repository. Its rows are a list in the order in which the
  database returns rows of equal sort key, and \<open>db_faults\<close> holds what goes wrong with it: each
  statement takes one entry, and an entry that is an error is the failure of that statement
  (a lost connection, an expired context). An update that reaches the database changes one row.
  Payloads are of any type.
\<close>

section \<open>The entity\<close>

record 'p outbox_row =
  or_ID :: string
  or_AggregateType :: string
  or_AggregateID :: string
  or_EventType :: string
  or_Payload :: 'p
  or_OccurredAt :: time
  or_IdempotencyKey :: string
  or_Status :: u8
  or_RetryCount :: int
  or_LastError :: string
  or_NextRetryAt :: time

record 'p outbox_db =
  db_rows :: "'p outbox_row list"
  db_faults :: "go_error option list"

definition next_fault :: "'p outbox_db \<Rightarrow> go_error option \<times> 'p outbox_db" where
  "next_fault db =
     (case db_faults db of
        [] \<Rightarrow> (None, db)
      | f # fs \<Rightarrow> (f, db\<lparr>db_faults := fs\<rparr>))"

section \<open>Validators\<close>

abbreviation ErrValueTooShort :: go_error where
  "ErrValueTooShort \<equiv> Sentinel ''value is less than the required length''"

abbreviation ErrValueTooLong :: go_error where
  "ErrValueTooLong \<equiv> Sentinel ''value is greater than the required length''"

abbreviation ErrValueRange :: go_error where
  "ErrValueRange \<equiv> Sentinel ''value out of range''"

abbreviation ConstraintError :: go_error where
  "ConstraintError \<equiv> Sentinel ''ent: constraint failed''"

abbreviation NotFoundError :: go_error where
  "NotFoundError \<equiv> Sentinel ''ent: outbox_event not found''"

definition NotEmpty_MaxLen :: "nat \<Rightarrow> string \<Rightarrow> go_error option" where
  "NotEmpty_MaxLen n s =
     (if s = [] then Some ErrValueTooShort
      else if n < length s then Some ErrValueTooLong else None)"

definition AggregateTypeValidator :: "string \<Rightarrow> go_error option" where
  "AggregateTypeValidator = NotEmpty_MaxLen 64"

definition AggregateIDValidator :: "string \<Rightarrow> go_error option" where
  "AggregateIDValidator = NotEmpty_MaxLen 64"

definition EventTypeValidator :: "string \<Rightarrow> go_error option" where
  "EventTypeValidator = NotEmpty_MaxLen 128"

definition IdempotencyKeyValidator :: "string \<Rightarrow> go_error option" where
  "IdempotencyKeyValidator = NotEmpty_MaxLen 128"

definition StatusValidator :: "u8 \<Rightarrow> go_error option" where
  "StatusValidator v = (if 3 < v then Some ErrValueRange else None)"

definition LastErrorValidator :: "string \<Rightarrow> go_error option" where
  "LastErrorValidator s = (if 1024 < length s then Some ErrValueTooLong else None)"

definition validation_error :: "string \<Rightarrow> go_error option \<Rightarrow> go_error option" where
  "validation_error field r =
     map_option (\<lambda>e. Errorf (''ent: validator failed for field OutboxEvent.'' @ field @ '': %w'') [e]) r"

fun first_error :: "go_error option list \<Rightarrow> go_error option" where
  "first_error [] = None"
| "first_error (Some e # rs) = Some e"
| "first_error (None # rs) = first_error rs"

section \<open>Create\<close>

definition OutboxEventCreate_check :: "'p outbox_row \<Rightarrow> go_error option" where
  "OutboxEventCreate_check r =
     first_error
       [validation_error ''aggregate_type'' (AggregateTypeValidator (or_AggregateType r)),
        validation_error ''aggregate_id'' (AggregateIDValidator (or_AggregateID r)),
        validation_error ''event_type'' (EventTypeValidator (or_EventType r)),
        validation_error ''idempotency_key'' (IdempotencyKeyValidator (or_IdempotencyKey r)),
        validation_error ''status'' (StatusValidator (or_Status r)),
        validation_error ''last_error'' (LastErrorValidator (or_LastError r))]"

definition OutboxEventCreate_Save ::
  "'p outbox_row \<Rightarrow> 'p outbox_db \<Rightarrow> (go_error + 'p outbox_row) \<times> 'p outbox_db" where
  "OutboxEventCreate_Save r db =
     (case OutboxEventCreate_check r of
        Some e \<Rightarrow> (Inl e, db)
      | None \<Rightarrow>
          (case next_fault db of
             (Some e, db') \<Rightarrow> (Inl e, db')
           | (None, db') \<Rightarrow>
               if or_ID r \<in> or_ID ` set (db_rows db')
                  \<or> or_IdempotencyKey r \<in> or_IdempotencyKey ` set (db_rows db')
               then (Inl ConstraintError, db')
               else (Inr r, db'\<lparr>db_rows := db_rows db' @ [r]\<rparr>)))"

section \<open>Update of one row\<close>

text \<open>A field of the mutation is \<open>None\<close> until its setter is called.\<close>

record outbox_mutation =
  mu_Status :: "u8 option"
  mu_RetryCount :: "int option"
  mu_LastError :: "string option"
  mu_NextRetryAt :: "time option"

definition UpdateOneID :: outbox_mutation where
  "UpdateOneID = \<lparr> mu_Status = None, mu_RetryCount = None, mu_LastError = None,
                   mu_NextRetryAt = None \<rparr>"

definition SetStatus :: "u8 \<Rightarrow> outbox_mutation \<Rightarrow> outbox_mutation" where
  "SetStatus v m = m\<lparr>mu_Status := Some v\<rparr>"

definition SetRetryCount :: "int \<Rightarrow> outbox_mutation \<Rightarrow> outbox_mutation" where
  "SetRetryCount v m = m\<lparr>mu_RetryCount := Some v\<rparr>"

definition SetLastError :: "string \<Rightarrow> outbox_mutation \<Rightarrow> outbox_mutation" where
  "SetLastError v m = m\<lparr>mu_LastError := Some v\<rparr>"

definition SetNextRetryAt :: "time \<Rightarrow> outbox_mutation \<Rightarrow> outbox_mutation" where
  "SetNextRetryAt v m = m\<lparr>mu_NextRetryAt := Some v\<rparr>"

definition OutboxEventUpdateOne_check :: "outbox_mutation \<Rightarrow> go_error option" where
  "OutboxEventUpdateOne_check m =
     first_error
       [validation_error ''status'' (Option.bind (mu_Status m) StatusValidator),
        validation_error ''last_error'' (Option.bind (mu_LastError m) LastErrorValidator)]"

definition with_mutation :: "outbox_mutation \<Rightarrow> 'p outbox_row \<Rightarrow> 'p outbox_row" where
  "with_mutation m r =
     r\<lparr>or_Status := case_option (or_Status r) id (mu_Status m),
       or_RetryCount := case_option (or_RetryCount r) id (mu_RetryCount m),
       or_LastError := case_option (or_LastError r) id (mu_LastError m),
       or_NextRetryAt := case_option (or_NextRetryAt r) id (mu_NextRetryAt m)\<rparr>"

definition OutboxEventUpdateOne_Save ::
  "string \<Rightarrow> outbox_mutation \<Rightarrow> 'p outbox_db \<Rightarrow> go_error option \<times> 'p outbox_db" where
  "OutboxEventUpdateOne_Save rid m db =
     (case OutboxEventUpdateOne_check m of
        Some e \<Rightarrow> (Some e, db)
      | None \<Rightarrow>
          (case next_fault db of
             (Some e, db') \<Rightarrow> (Some e, db')
           | (None, db') \<Rightarrow>
               if rid \<in> or_ID ` set (db_rows db')
               then (None, db'\<lparr>db_rows :=
                       map (\<lambda>r. if or_ID r = rid then with_mutation m r else r) (db_rows db')\<rparr>)
               else (Some NotFoundError, db')))"

section \<open>The query of the poller\<close>

text \<open>
  \<open>Where(StatusEQ(0), NextRetryAtLTE(now)).Order(Asc(occurred_at)).Limit(n).All\<close>; a negative
  limit is refused by the database.
\<close>

definition due :: "time \<Rightarrow> 'p outbox_row \<Rightarrow> bool" where
  "due now r \<longleftrightarrow> or_Status r = 0 \<and> or_NextRetryAt r \<le> now"

definition OutboxEvent_Query ::
  "time \<Rightarrow> int \<Rightarrow> 'p outbox_db \<Rightarrow> (go_error + 'p outbox_row list) \<times> 'p outbox_db" where
  "OutboxEvent_Query now n db =
     (case next_fault db of
        (Some e, db') \<Rightarrow> (Inl e, db')
      | (None, db') \<Rightarrow>
          if n < 0 then (Inl (Sentinel ''LIMIT must not be negative''), db')
          else (Inr (take (nat n) (sort_key or_OccurredAt (filter (due now) (db_rows db')))), db'))"

section \<open>What the statements do to the table\<close>

definition ids :: "'p outbox_db \<Rightarrow> string list" where
  "ids db = map or_ID (db_rows db)"

definition keys_of :: "'p outbox_db \<Rightarrow> string list" where
  "keys_of db = map or_IdempotencyKey (db_rows db)"

definition table_ok :: "'p outbox_db \<Rightarrow> bool" where
  "table_ok db \<longleftrightarrow> distinct (ids db) \<and> distinct (keys_of db)"

lemma next_fault_rows [simp]: "next_fault db = (f, db') \<Longrightarrow> db_rows db' = db_rows db"
  by (auto simp: next_fault_def split: list.splits)

lemma next_fault_none [simp]: "db_faults db = [] \<Longrightarrow> next_fault db = (None, db)"
  by (simp add: next_fault_def)

lemma with_mutation_fixed [simp]:
  "or_ID (with_mutation m r) = or_ID r"
  "or_AggregateType (with_mutation m r) = or_AggregateType r"
  "or_AggregateID (with_mutation m r) = or_AggregateID r"
  "or_EventType (with_mutation m r) = or_EventType r"
  "or_Payload (with_mutation m r) = or_Payload r"
  "or_OccurredAt (with_mutation m r) = or_OccurredAt r"
  "or_IdempotencyKey (with_mutation m r) = or_IdempotencyKey r"
  by (simp_all add: with_mutation_def)

lemma with_mutation_set [simp]:
  "or_Status (with_mutation m r) = case_option (or_Status r) id (mu_Status m)"
  "or_RetryCount (with_mutation m r) = case_option (or_RetryCount r) id (mu_RetryCount m)"
  "or_LastError (with_mutation m r) = case_option (or_LastError r) id (mu_LastError m)"
  "or_NextRetryAt (with_mutation m r) = case_option (or_NextRetryAt r) id (mu_NextRetryAt m)"
  by (simp_all add: with_mutation_def)

lemma mutation_fields [simp]:
  "mu_Status (SetStatus v m) = Some v" "mu_RetryCount (SetStatus v m) = mu_RetryCount m"
  "mu_LastError (SetStatus v m) = mu_LastError m" "mu_NextRetryAt (SetStatus v m) = mu_NextRetryAt m"
  "mu_Status (SetRetryCount i m) = mu_Status m" "mu_RetryCount (SetRetryCount i m) = Some i"
  "mu_LastError (SetRetryCount i m) = mu_LastError m"
  "mu_NextRetryAt (SetRetryCount i m) = mu_NextRetryAt m"
  "mu_Status (SetLastError e m) = mu_Status m" "mu_RetryCount (SetLastError e m) = mu_RetryCount m"
  "mu_LastError (SetLastError e m) = Some e" "mu_NextRetryAt (SetLastError e m) = mu_NextRetryAt m"
  "mu_Status (SetNextRetryAt t m) = mu_Status m"
  "mu_RetryCount (SetNextRetryAt t m) = mu_RetryCount m"
  "mu_LastError (SetNextRetryAt t m) = mu_LastError m" "mu_NextRetryAt (SetNextRetryAt t m) = Some t"
  "mu_Status UpdateOneID = None" "mu_RetryCount UpdateOneID = None"
  "mu_LastError UpdateOneID = None" "mu_NextRetryAt UpdateOneID = None"
  by (simp_all add: SetStatus_def SetRetryCount_def SetLastError_def SetNextRetryAt_def
      UpdateOneID_def)

text \<open>An update either fails and leaves the rows alone, or changes the rows of that ID.\<close>

lemma Update_cases:
  assumes "OutboxEventUpdateOne_Save rid m db = (res, db')"
  obtains (failed) e where "res = Some e" "db_rows db' = db_rows db"
  | (changed) "res = None" "OutboxEventUpdateOne_check m = None"
      "db_rows db' = map (\<lambda>r. if or_ID r = rid then with_mutation m r else r) (db_rows db)"
proof (cases res)
  case (Some e)
  have "db_rows db' = db_rows db"
    using assms Some
    by (auto simp: OutboxEventUpdateOne_Save_def split: option.splits prod.splits if_splits)
  with Some show thesis by (rule failed)
next
  case None
  show thesis
    by (rule changed) (use assms None in
      \<open>auto simp: OutboxEventUpdateOne_Save_def split: option.splits prod.splits if_splits\<close>)
qed

lemma Update_ids: "OutboxEventUpdateOne_Save rid m db = (res, db') \<Longrightarrow> ids db' = ids db"
  by (erule Update_cases) (auto simp: ids_def)

lemma Update_table_ok:
  "OutboxEventUpdateOne_Save rid m db = (res, db') \<Longrightarrow> table_ok db' = table_ok db"
  by (erule Update_cases) (auto simp: ids_def keys_of_def table_ok_def comp_def if_distrib cong: if_cong)

lemma Update_faultless:
  assumes "db_faults db = []" "OutboxEventUpdateOne_check m = None" "rid \<in> set (ids db)"
  shows "OutboxEventUpdateOne_Save rid m db =
           (None, db\<lparr>db_rows := map (\<lambda>r. if or_ID r = rid then with_mutation m r else r) (db_rows db)\<rparr>)"
  using assms by (auto simp: OutboxEventUpdateOne_Save_def ids_def)

lemma Update_long_error:
  assumes "mu_LastError m = Some s" "1024 < length s"
  shows "\<exists>e. OutboxEventUpdateOne_Save rid m db = (Some e, db)"
proof -
  have "\<exists>e. OutboxEventUpdateOne_check m = Some e"
    using assms
    by (cases "validation_error ''status'' (Option.bind (mu_Status m) StatusValidator)")
      (auto simp: OutboxEventUpdateOne_check_def LastErrorValidator_def validation_error_def)
  then show ?thesis by (auto simp: OutboxEventUpdateOne_Save_def)
qed

lemma Query_rows:
  assumes "OutboxEvent_Query now n db = (Inr evs, db')"
  shows "db_rows db' = db_rows db" "set evs \<subseteq> {r \<in> set (db_rows db). due now r}"
    "length evs = min (nat n) (length (filter (due now) (db_rows db)))"
    "evs = take (nat n) (sort_key or_OccurredAt (filter (due now) (db_rows db)))"
proof -
  have e: "evs = take (nat n) (sort_key or_OccurredAt (filter (due now) (db_rows db')))"
    "db_rows db' = db_rows db"
    using assms by (auto simp: OutboxEvent_Query_def split: option.splits prod.splits if_splits)
  then show "db_rows db' = db_rows db"
    "evs = take (nat n) (sort_key or_OccurredAt (filter (due now) (db_rows db)))" by simp_all
  have "set evs \<subseteq> set (sort_key or_OccurredAt (filter (due now) (db_rows db)))"
    unfolding e using set_take_subset by metis
  then show "set evs \<subseteq> {r \<in> set (db_rows db). due now r}" by auto
  show "length evs = min (nat n) (length (filter (due now) (db_rows db)))"
    by (simp add: e min.commute)
qed

lemma Query_db: "OutboxEvent_Query now n db = (Inl e, db') \<Longrightarrow> db_rows db' = db_rows db"
  by (auto simp: OutboxEvent_Query_def split: option.splits prod.splits if_splits)

lemma sort_key_take_distinct:
  "distinct (map f xs) \<Longrightarrow> distinct (map f (take n (sort_key g (filter P xs))))"
proof -
  assume d: "distinct (map f xs)"
  then have "distinct xs" and inj: "inj_on f (set xs)" by (simp_all add: distinct_map)
  have "distinct (take n (sort_key g (filter P xs)))"
    using \<open>distinct xs\<close> by (intro distinct_take) simp
  moreover have "set (take n (sort_key g (filter P xs))) \<subseteq> set xs"
    using set_take_subset [of n "sort_key g (filter P xs)"] by auto
  ultimately show ?thesis
    using inj by (simp add: distinct_map inj_on_subset)
qed

end
