(* ===== verification/Outbox.thy ===== *)
theory Outbox
  imports OutboxTable Rfc3339
begin

text \<open>
  The transactional outbox of \<open>internal/storage\<close>: the writer (\<open>outbox_writer.go\<close>), the forwarder
  to a Redis stream (\<open>outbox_forwarder.go\<close>) and the poller (\<open>outbox_poller.go\<close>), over the table
  of \<open>OutboxTable\<close>.

  A handler acts on a state of its own, the sink, and answers with an error or none; \<open>err_text\<close>
  is the \<open>Error()\<close> of its errors. The clock of a batch is a function: \<open>clk 0\<close> is read when the
  batch is queried and \<open>clk (k + 1)\<close> when event number \<open>k\<close> of the batch has failed. Logging is left
  out, and the context of a batch shows only as faults of the database.
\<close>

section \<open>Writer\<close>

abbreviation OutboxStatusPending :: u8 where
  "OutboxStatusPending \<equiv> 0"

abbreviation ErrInvalidInput :: go_error where
  "ErrInvalidInput \<equiv> Sentinel ''storage: invalid input''"

record 'p outbox_event =
  oe_AggregateType :: string
  oe_AggregateID :: string
  oe_EventType :: string
  oe_Payload :: "'p option"
  oe_IdempotencyKey :: string

definition validateOutboxEvent :: "'p outbox_event \<Rightarrow> go_error option" where
  "validateOutboxEvent e =
     (if oe_AggregateType e = [] then Some (Sentinel ''aggregate_type is empty'')
      else if oe_AggregateID e = [] then Some (Sentinel ''aggregate_id is empty'')
      else if oe_EventType e = [] then Some (Sentinel ''event_type is empty'')
      else if oe_IdempotencyKey e = [] then Some (Sentinel ''idempotency_key is empty'')
      else if oe_Payload e = None then Some (Sentinel ''payload is nil'')
      else None)"

definition new_outbox_row :: "string \<Rightarrow> time \<Rightarrow> 'p outbox_event \<Rightarrow> 'p outbox_row" where
  "new_outbox_row uid now e =
     \<lparr> or_ID = uid, or_AggregateType = oe_AggregateType e, or_AggregateID = oe_AggregateID e,
       or_EventType = oe_EventType e, or_Payload = the (oe_Payload e), or_OccurredAt = now,
       or_IdempotencyKey = oe_IdempotencyKey e, or_Status = OutboxStatusPending,
       or_RetryCount = 0, or_LastError = [], or_NextRetryAt = now \<rparr>"

text \<open>
  \<open>marshal\<close> is \<open>json.Marshal\<close> on the payload type; \<open>uid\<close> is the ID that the schema generates
  for the new row.
\<close>

definition WriteOutbox ::
  "('p \<Rightarrow> go_error + string) \<Rightarrow> string \<Rightarrow> time \<Rightarrow> 'p outbox_event \<Rightarrow> 'p outbox_db
     \<Rightarrow> go_error option \<times> 'p outbox_db" where
  "WriteOutbox marshal uid now e db =
     (case validateOutboxEvent e of
        Some err \<Rightarrow> (Some (Errorf ''%w: %w'' [ErrInvalidInput, err]), db)
      | None \<Rightarrow>
          (case marshal (the (oe_Payload e)) of
             Inl err \<Rightarrow> (Some (Errorf ''%w: payload marshal: %w'' [ErrInvalidInput, err]), db)
           | Inr _ \<Rightarrow>
               (case OutboxEventCreate_Save (new_outbox_row uid now e) db of
                  (Inl err, db') \<Rightarrow> (Some (Errorf ''storage: outbox write: %w'' [err]), db')
                | (Inr _, db') \<Rightarrow> (None, db'))))"

section \<open>Forwarder\<close>

definition OutboxStreamKey :: string where
  "OutboxStreamKey = ''agentid:events''"

definition OutboxStreamMaxLen :: int where
  "OutboxStreamMaxLen = 1000"

record xadd_args =
  xa_Stream :: string
  xa_MaxLen :: int
  xa_Approx :: bool
  xa_Values :: "(string \<times> string) list"

text \<open>The call \<open>XAdd\<close> of the Redis client: the ID of the new entry, or an error.\<close>

type_synonym 'x xadd = "xadd_args \<Rightarrow> 'x \<Rightarrow> (go_error + string) \<times> 'x"

record 'x outbox_forwarder =
  fw_client :: "'x xadd option"
  fw_stream :: string

definition NewOutboxForwarder :: "'x xadd option \<Rightarrow> string \<Rightarrow> 'x outbox_forwarder" where
  "NewOutboxForwarder c stream =
     \<lparr> fw_client = c, fw_stream = (if stream = [] then OutboxStreamKey else stream) \<rparr>"

text \<open>The layout \<open>2006-01-02T15:04:05.000000Z07:00\<close> of a UTC time.\<close>

definition format_micros :: "time \<Rightarrow> string" where
  "format_micros t =
     (let us = nat (unix_nano t mod 1000000000) div 1000;
          secs = unix_nano t div 1000000000;
          sod = nat (secs mod 86400);
          (y, doy) = year_of 0 (nat (secs div 86400 + epoch_days));
          (m, d) = month_of (month_lens y) doy
      in pad 4 y @ ''-'' @ pad 2 (Suc m) @ ''-'' @ pad 2 (Suc d) @ ''T''
         @ pad 2 (sod div 3600) @ '':'' @ pad 2 (sod mod 3600 div 60) @ '':'' @ pad 2 (sod mod 60)
         @ ''.'' @ pad 6 us @ ''Z'')"

definition stream_values :: "string \<Rightarrow> 'p outbox_row \<Rightarrow> (string \<times> string) list" where
  "stream_values payload r =
     [(''id'', or_ID r), (''aggregate_type'', or_AggregateType r),
      (''aggregate_id'', or_AggregateID r), (''event_type'', or_EventType r),
      (''payload'', payload), (''occurred_at'', format_micros (or_OccurredAt r)),
      (''idempotency_key'', or_IdempotencyKey r)]"

definition HandleOutboxEvent ::
  "('p \<Rightarrow> go_error + string) \<Rightarrow> 'x outbox_forwarder \<Rightarrow> 'p outbox_row \<Rightarrow> 'x \<Rightarrow> go_error option \<times> 'x" where
  "HandleOutboxEvent marshal f r x =
     (case fw_client f of
        None \<Rightarrow> (Some (Sentinel ''outbox forwarder: redis client is nil''), x)
      | Some XAdd \<Rightarrow>
          (case marshal (or_Payload r) of
             Inl e \<Rightarrow> (Some (Errorf ''marshal payload: %w'' [e]), x)
           | Inr payload \<Rightarrow>
               (case XAdd \<lparr> xa_Stream = fw_stream f, xa_MaxLen = OutboxStreamMaxLen,
                            xa_Approx = True, xa_Values = stream_values payload r \<rparr> x of
                  (Inl e, x') \<Rightarrow> (Some (Errorf ''xadd %s: %w'' [e]), x')
                | (Inr _, x') \<Rightarrow> (None, x'))))"

section \<open>Poller\<close>

record poller_config =
  pc_BatchSize :: int
  pc_PollInterval :: duration
  pc_BatchTimeout :: duration
  pc_MaxRetries :: int
  pc_BackoffBase :: duration
  pc_BackoffMax :: duration

type_synonym ('p, 'x) outbox_handler = "'p outbox_row \<Rightarrow> 'x \<Rightarrow> go_error option \<times> 'x"

record ('p, 'x) outbox_poller =
  pl_handler :: "('p, 'x) outbox_handler"
  pl_cfg :: poller_config

type_synonym ('p, 'x) poll_state = "'p outbox_db \<times> 'x"

definition NewOutboxPoller :: "('p, 'x) outbox_handler \<Rightarrow> poller_config \<Rightarrow> ('p, 'x) outbox_poller" where
  "NewOutboxPoller h cfg =
     \<lparr> pl_handler = h,
       pl_cfg =
         \<lparr> pc_BatchSize = (if pc_BatchSize cfg = 0 then 100 else pc_BatchSize cfg),
           pc_PollInterval = (if pc_PollInterval cfg = 0 then 2 * second else pc_PollInterval cfg),
           pc_BatchTimeout = (if pc_BatchTimeout cfg = 0 then 30 * second else pc_BatchTimeout cfg),
           pc_MaxRetries = (if pc_MaxRetries cfg = 0 then 5 else pc_MaxRetries cfg),
           pc_BackoffBase = (if pc_BackoffBase cfg = 0 then 5 * second else pc_BackoffBase cfg),
           pc_BackoffMax = (if pc_BackoffMax cfg = 0 then 5 * minute else pc_BackoffMax cfg) \<rparr> \<rparr>"

text \<open>The loop of \<open>computeBackoff\<close>: \<open>n\<close> rounds are left; the product wraps like an \<open>int64\<close>.\<close>

fun backoff_loop :: "duration \<Rightarrow> nat \<Rightarrow> duration \<Rightarrow> duration" where
  "backoff_loop cap 0 b = b"
| "backoff_loop cap (Suc n) b =
     (let b' = s64 (b * 3) in if cap < b' then cap else backoff_loop cap n b')"

definition computeBackoff :: "poller_config \<Rightarrow> int \<Rightarrow> duration" where
  "computeBackoff cfg retry =
     (let r = (if retry < 1 then 1 else retry)
      in backoff_loop (pc_BackoffMax cfg) (nat (r - 1)) (pc_BackoffBase cfg))"

definition failure_update :: "poller_config \<Rightarrow> time \<Rightarrow> string \<Rightarrow> int \<Rightarrow> outbox_mutation" where
  "failure_update cfg now msg newCount =
     (if pc_MaxRetries cfg \<le> newCount
      then SetLastError msg (SetRetryCount newCount (SetStatus 3 UpdateOneID))
      else SetNextRetryAt (time_add now (computeBackoff cfg newCount))
             (SetLastError msg (SetRetryCount newCount (SetStatus 0 UpdateOneID))))"

definition handleOne ::
  "(go_error \<Rightarrow> string) \<Rightarrow> ('p, 'x) outbox_poller \<Rightarrow> time \<Rightarrow> 'p outbox_row \<Rightarrow> ('p, 'x) poll_state
     \<Rightarrow> go_error option \<times> ('p, 'x) poll_state" where
  "handleOne err_text p now evt s =
     (let (db, x) = s; (err, x') = pl_handler p evt x in
      case err of
        None \<Rightarrow>
          (let (uerr, db') = OutboxEventUpdateOne_Save (or_ID evt)
                               (SetLastError [] (SetStatus 1 UpdateOneID)) db
           in (map_option (\<lambda>e. Errorf ''mark published: %w'' [e]) uerr, (db', x')))
      | Some e \<Rightarrow>
          (let newCount = s64 (or_RetryCount evt + 1);
               (uerr, db') = OutboxEventUpdateOne_Save (or_ID evt)
                               (failure_update (pl_cfg p) now (err_text e) newCount) db
           in (map_option (\<lambda>u. Errorf (if pc_MaxRetries (pl_cfg p) \<le> newCount
                                       then ''mark dead: %w'' else ''mark retry: %w'') [u]) uerr,
               (db', x'))))"

fun handle_batch ::
  "(go_error \<Rightarrow> string) \<Rightarrow> ('p, 'x) outbox_poller \<Rightarrow> (nat \<Rightarrow> time) \<Rightarrow> 'p outbox_row list
     \<Rightarrow> ('p, 'x) poll_state \<Rightarrow> ('p, 'x) poll_state" where
  "handle_batch err_text p clk [] s = s"
| "handle_batch err_text p clk (evt # evts) s =
     handle_batch err_text p (clk \<circ> Suc) evts (snd (handleOne err_text p (clk 0) evt s))"

definition processBatch ::
  "(go_error \<Rightarrow> string) \<Rightarrow> ('p, 'x) outbox_poller \<Rightarrow> (nat \<Rightarrow> time) \<Rightarrow> ('p, 'x) poll_state
     \<Rightarrow> go_error option \<times> ('p, 'x) poll_state" where
  "processBatch err_text p clk s =
     (case OutboxEvent_Query (clk 0) (pc_BatchSize (pl_cfg p)) (fst s) of
        (Inl e, db') \<Rightarrow> (Some (Errorf ''query outbox: %w'' [e]), (db', snd s))
      | (Inr evts, db') \<Rightarrow> (None, handle_batch err_text p (clk \<circ> Suc) evts (db', snd s)))"

text \<open>
  \<open>Run\<close> takes what its \<open>select\<close> receives, one after the other: a tick, at which it processes a
  batch, or the end of the context. The result is \<open>None\<close> while it has not returned.
\<close>

datatype poll_event = Tick "nat \<Rightarrow> time" | CtxDone

fun run_loop ::
  "(go_error \<Rightarrow> string) \<Rightarrow> ('p, 'x) outbox_poller \<Rightarrow> poll_event list \<Rightarrow> ('p, 'x) poll_state
     \<Rightarrow> go_error option outcome option \<times> ('p, 'x) poll_state" where
  "run_loop err_text p [] s = (None, s)"
| "run_loop err_text p (CtxDone # es) s = (Some (Return None), s)"
| "run_loop err_text p (Tick clk # es) s =
     run_loop err_text p es (snd (processBatch err_text p clk s))"

definition Poller_Run ::
  "(go_error \<Rightarrow> string) \<Rightarrow> ('p, 'x) outbox_poller \<Rightarrow> poll_event list \<Rightarrow> ('p, 'x) poll_state
     \<Rightarrow> go_error option outcome option \<times> ('p, 'x) poll_state" where
  "Poller_Run err_text p es s =
     (if pc_PollInterval (pl_cfg p) \<le> 0
      then (Some (Panic ''non-positive interval for NewTicker''), s)
      else run_loop err_text p es s)"

end
