(* ===== verification/OutboxRules.thy ===== *)
theory OutboxRules
  imports Outbox
begin

text \<open>
  What the outbox promises. The delay of a retry is the documented exponential; a write adds one
  pending row or none; with a database that answers and handlers whose error texts fit the column
  the poller settles every event.
\<close>

section \<open>Backoff\<close>

lemma backoff_loop_exact:
  "0 < b \<Longrightarrow> b \<le> cap \<Longrightarrow> cap \<le> (2 ^ 63 - 1) div 3 \<Longrightarrow> backoff_loop cap n b = min (b * 3 ^ n) cap"
proof (induction n arbitrary: b)
  case (Suc n)
  have no_wrap: "s64 (b * 3) = b * 3"
    using Suc.prems by simp
  have grow: "b * 3 \<le> b * 3 ^ Suc n"
    using Suc.prems(1) by simp
  show ?case
  proof (cases "cap < b * 3")
    case True
    with no_wrap grow show ?thesis by (simp add: Let_def)
  next
    case False
    with Suc.IH [of "b * 3"] Suc.prems no_wrap show ?thesis
      by (simp add: Let_def mult.assoc)
  qed
qed simp

lemma backoff_loop_le: "backoff_loop cap n b \<le> max b cap"
proof (cases n)
  case (Suc k)
  have "backoff_loop cap k c \<le> cap" if "c \<le> cap" for c
    using that by (induction k arbitrary: c) (auto simp: Let_def)
  with Suc show ?thesis by (simp add: Let_def le_max_iff_disj)
qed simp

lemma computeBackoff_le: "computeBackoff cfg n \<le> max (pc_BackoffBase cfg) (pc_BackoffMax cfg)"
  by (simp add: computeBackoff_def Let_def backoff_loop_le)

lemma computeBackoff_exact:
  assumes "0 < pc_BackoffBase cfg" "pc_BackoffBase cfg \<le> pc_BackoffMax cfg"
    "pc_BackoffMax cfg \<le> (2 ^ 63 - 1) div 3" "1 \<le> n"
  shows "computeBackoff cfg n = min (pc_BackoffBase cfg * 3 ^ nat (n - 1)) (pc_BackoffMax cfg)"
  using assms by (simp add: computeBackoff_def backoff_loop_exact)

text \<open>With a positive base not above the maximum, and a maximum that is at most a third of the
  largest duration, the delay before retry \<open>n\<close> is \<open>Base * 3 ^ (n - 1)\<close>, cut at the maximum: the
  product of the loop never wraps, and the delay lies between the base and the maximum.\<close>

theorem backoff_spec:
  assumes "0 < pc_BackoffBase cfg" "pc_BackoffBase cfg \<le> pc_BackoffMax cfg"
    "pc_BackoffMax cfg \<le> (2 ^ 63 - 1) div 3" "1 \<le> n"
  shows "computeBackoff cfg n = min (pc_BackoffBase cfg * 3 ^ nat (n - 1)) (pc_BackoffMax cfg)
     \<and> pc_BackoffBase cfg \<le> computeBackoff cfg n \<and> computeBackoff cfg n \<le> pc_BackoffMax cfg"
proof -
  have "pc_BackoffBase cfg * 1 \<le> pc_BackoffBase cfg * 3 ^ nat (n - 1)"
    using assms(1) by (intro mult_left_mono) simp_all
  with assms(2) computeBackoff_exact [OF assms] show ?thesis by simp
qed

definition default_poller_config :: poller_config where
  "default_poller_config =
     \<lparr> pc_BatchSize = 100, pc_PollInterval = 2000000000, pc_BatchTimeout = 30000000000,
       pc_MaxRetries = 5, pc_BackoffBase = 5000000000, pc_BackoffMax = 300000000000 \<rparr>"

theorem backoff_spec_witness:
  "map (computeBackoff default_poller_config) [1, 2, 3, 4, 5, 6]
     = [5000000000, 15000000000, 45000000000, 135000000000, 300000000000, 300000000000]"
  by (simp add: backoff_spec default_poller_config_def)

section \<open>Writing\<close>

definition fits :: "nat \<Rightarrow> string \<Rightarrow> bool" where
  "fits n s \<longleftrightarrow> s \<noteq> [] \<and> length s \<le> n"

definition event_fits :: "'p outbox_event \<Rightarrow> bool" where
  "event_fits e \<longleftrightarrow>
     fits 64 (oe_AggregateType e) \<and> fits 64 (oe_AggregateID e) \<and> fits 128 (oe_EventType e)
     \<and> fits 128 (oe_IdempotencyKey e) \<and> oe_Payload e \<noteq> None"

lemma validators_fit [simp]:
  "AggregateTypeValidator s = None \<longleftrightarrow> fits 64 s"
  "AggregateIDValidator s = None \<longleftrightarrow> fits 64 s"
  "EventTypeValidator s = None \<longleftrightarrow> fits 128 s"
  "IdempotencyKeyValidator s = None \<longleftrightarrow> fits 128 s"
  by (auto simp: AggregateTypeValidator_def AggregateIDValidator_def EventTypeValidator_def
      IdempotencyKeyValidator_def NotEmpty_MaxLen_def fits_def)

lemma first_error_none: "first_error es = None \<longleftrightarrow> (\<forall>e \<in> set es. e = None)"
  by (induction es rule: first_error.induct) auto

lemma create_check_new_row:
  "OutboxEventCreate_check (new_outbox_row uid now e) = None \<longleftrightarrow>
     fits 64 (oe_AggregateType e) \<and> fits 64 (oe_AggregateID e) \<and> fits 128 (oe_EventType e)
     \<and> fits 128 (oe_IdempotencyKey e)"
  by (simp add: OutboxEventCreate_check_def first_error_none validation_error_def
      new_outbox_row_def StatusValidator_def LastErrorValidator_def)

lemma validateOutboxEvent_none:
  "validateOutboxEvent e = None \<longleftrightarrow>
     oe_AggregateType e \<noteq> [] \<and> oe_AggregateID e \<noteq> [] \<and> oe_EventType e \<noteq> []
     \<and> oe_IdempotencyKey e \<noteq> [] \<and> oe_Payload e \<noteq> None"
  by (simp add: validateOutboxEvent_def)

lemma WriteOutbox_cases:
  assumes "WriteOutbox marshal uid now e db = (res, db')"
  obtains (refused) err where "res = Some err" "db_rows db' = db_rows db"
      "\<not> (event_fits e \<and> (\<exists>s. marshal (the (oe_Payload e)) = Inr s) \<and> fst (next_fault db) = None
           \<and> uid \<notin> set (ids db) \<and> oe_IdempotencyKey e \<notin> set (keys_of db))"
  | (written) "res = None" "db_rows db' = db_rows db @ [new_outbox_row uid now e]"
      "event_fits e" "\<exists>s. marshal (the (oe_Payload e)) = Inr s" "fst (next_fault db) = None"
      "uid \<notin> set (ids db)" "oe_IdempotencyKey e \<notin> set (keys_of db)"
proof (cases "validateOutboxEvent e")
  case (Some err)
  then have "\<not> event_fits e"
    by (metis event_fits_def fits_def option.distinct(1) validateOutboxEvent_none)
  with Some assms show thesis by (intro refused) (auto simp: WriteOutbox_def)
next
  case valid: None
  show thesis
  proof (cases "marshal (the (oe_Payload e))")
    case (Inl err)
    with valid assms show thesis by (intro refused) (auto simp: WriteOutbox_def)
  next
    case (Inr s)
    note m = this
    show thesis
    proof (cases "OutboxEventCreate_check (new_outbox_row uid now e)")
      case (Some err)
      then have "\<not> event_fits e"
        using create_check_new_row [of uid now e] by (auto simp: event_fits_def)
      with Some valid m assms show thesis
        by (intro refused) (auto simp: WriteOutbox_def OutboxEventCreate_Save_def)
    next
      case chk: None
      then have ok: "event_fits e"
        using create_check_new_row [of uid now e] valid
        by (auto simp: event_fits_def validateOutboxEvent_none)
      obtain f db1 where f: "next_fault db = (f, db1)" by (cases "next_fault db")
      then have rows: "db_rows db1 = db_rows db" by simp
      show thesis
      proof (cases f)
        case (Some err)
        with f rows chk valid m assms show thesis
          by (intro refused) (auto simp: WriteOutbox_def OutboxEventCreate_Save_def)
      next
        case None
        have new: "or_ID (new_outbox_row uid now e) = uid"
          "or_IdempotencyKey (new_outbox_row uid now e) = oe_IdempotencyKey e"
          by (simp_all add: new_outbox_row_def)
        show thesis
        proof (cases "uid \<in> set (ids db) \<or> oe_IdempotencyKey e \<in> set (keys_of db)")
          case True
          with f None rows chk valid m assms new show thesis
            by (intro refused)
              (auto simp: WriteOutbox_def OutboxEventCreate_Save_def ids_def keys_of_def)
        next
          case False
          with f None rows chk valid m assms new ok show thesis
            by (intro written)
              (auto simp: WriteOutbox_def OutboxEventCreate_Save_def ids_def keys_of_def)
        qed
      qed
    qed
  qed
qed

text \<open>\<open>WriteOutbox\<close> succeeds exactly when the required fields are present and fit their columns,
  the payload can be marshalled, the database answers, and neither the ID nor the idempotency key is
  in the table yet; it then appends one pending row with no retries that is due at once, and
  otherwise it leaves the rows alone. IDs and idempotency keys stay distinct.\<close>

theorem write_outbox_spec:
  assumes "WriteOutbox marshal uid now e db = (res, db')" "table_ok db"
  shows "(res = None \<longleftrightarrow>
           event_fits e \<and> (\<exists>s. marshal (the (oe_Payload e)) = Inr s) \<and> fst (next_fault db) = None
           \<and> uid \<notin> set (ids db) \<and> oe_IdempotencyKey e \<notin> set (keys_of db))
     \<and> db_rows db' = (if res = None then db_rows db @ [new_outbox_row uid now e] else db_rows db)
     \<and> due now (new_outbox_row uid now e) \<and> or_RetryCount (new_outbox_row uid now e) = 0
     \<and> table_ok db'"
  using assms(1)
proof (cases rule: WriteOutbox_cases)
  case (refused err)
  with assms(2) show ?thesis
    by (auto simp: due_def new_outbox_row_def table_ok_def ids_def keys_of_def)
next
  case written
  with assms(2) show ?thesis
    by (auto simp: due_def new_outbox_row_def table_ok_def ids_def keys_of_def)
qed

definition sample_event :: "string outbox_event" where
  "sample_event = \<lparr> oe_AggregateType = ''agent'', oe_AggregateID = ''a1'',
     oe_EventType = ''agent.banned'', oe_Payload = Some ''{}'', oe_IdempotencyKey = ''k1'' \<rparr>"

definition empty_table :: "string outbox_db" where
  "empty_table = \<lparr> db_rows = [], db_faults = [] \<rparr>"

theorem write_outbox_spec_witness:
  "WriteOutbox Inr ''id1'' (Time 0) sample_event empty_table
     = (None, \<lparr> db_rows = [new_outbox_row ''id1'' (Time 0) sample_event], db_faults = [] \<rparr>)"
proof -
  have ok: "table_ok empty_table" by (simp add: table_ok_def empty_table_def ids_def keys_of_def)
  obtain res db' where w: "WriteOutbox Inr ''id1'' (Time 0) sample_event empty_table = (res, db')"
    by fastforce
  have "res = None \<and> db_rows db' = [new_outbox_row ''id1'' (Time 0) sample_event]"
    using write_outbox_spec [OF w ok]
    by (simp add: event_fits_def fits_def sample_event_def empty_table_def ids_def keys_of_def)
  moreover have "db_faults db' = []"
    using w by (auto simp: WriteOutbox_def OutboxEventCreate_Save_def empty_table_def
        next_fault_def split: option.splits sum.splits if_splits)
  ultimately show ?thesis using w by (simp add: outbox_db.equality)
qed

section \<open>Handling one event\<close>

definition same_event :: "'p outbox_row \<Rightarrow> 'p outbox_row \<Rightarrow> bool" where
  "same_event r r' \<longleftrightarrow>
     or_ID r' = or_ID r \<and> or_AggregateType r' = or_AggregateType r
     \<and> or_AggregateID r' = or_AggregateID r \<and> or_EventType r' = or_EventType r
     \<and> or_Payload r' = or_Payload r \<and> or_OccurredAt r' = or_OccurredAt r
     \<and> or_IdempotencyKey r' = or_IdempotencyKey r"

lemma same_event_refl [simp]: "same_event r r"
  by (simp add: same_event_def)

lemma same_event_mutation [simp]: "same_event r (with_mutation m r)"
  by (simp add: same_event_def)

lemma same_event_trans: "same_event r r' \<Longrightarrow> same_event r' r'' \<Longrightarrow> same_event r r''"
  by (simp add: same_event_def)

definition handling_update ::
  "(go_error \<Rightarrow> string) \<Rightarrow> ('p, 'x) outbox_poller \<Rightarrow> time \<Rightarrow> 'p outbox_row \<Rightarrow> 'x \<Rightarrow> outbox_mutation" where
  "handling_update err_text p now evt x =
     (case fst (pl_handler p evt x) of
        None \<Rightarrow> SetLastError [] (SetStatus 1 UpdateOneID)
      | Some e \<Rightarrow> failure_update (pl_cfg p) now (err_text e) (s64 (or_RetryCount evt + 1)))"

lemma handleOne_state:
  "snd (handleOne err_text p now evt (db, x)) =
     (snd (OutboxEventUpdateOne_Save (or_ID evt) (handling_update err_text p now evt x) db),
      snd (pl_handler p evt x))"
  by (auto simp: handleOne_def handling_update_def Let_def split: prod.split option.split)

lemma failure_update_fields:
  "mu_Status (failure_update cfg now msg n) = Some (if pc_MaxRetries cfg \<le> n then 3 else 0)"
  "mu_RetryCount (failure_update cfg now msg n) = Some n"
  "mu_LastError (failure_update cfg now msg n) = Some msg"
  "mu_NextRetryAt (failure_update cfg now msg n) =
     (if pc_MaxRetries cfg \<le> n then None else Some (time_add now (computeBackoff cfg n)))"
  by (simp_all add: failure_update_def)

lemma handling_update_status:
  "mu_Status (handling_update err_text p now evt x) = Some 1 \<longleftrightarrow> fst (pl_handler p evt x) = None"
  "\<exists>st \<in> {0, 1, 3}. mu_Status (handling_update err_text p now evt x) = Some st"
  by (auto simp: handling_update_def failure_update_fields split: option.split)

definition short_errors :: "(go_error \<Rightarrow> string) \<Rightarrow> ('p, 'x) outbox_handler \<Rightarrow> bool" where
  "short_errors err_text h \<longleftrightarrow>
     (\<forall>evt x e. fst (h evt x) = Some e \<longrightarrow> length (err_text e) \<le> 1024)"

lemma handling_update_check:
  assumes "short_errors err_text (pl_handler p)"
  shows "OutboxEventUpdateOne_check (handling_update err_text p now evt x) = None"
proof (cases "fst (pl_handler p evt x)")
  case (Some e)
  with assms have "length (err_text e) \<le> 1024" by (simp add: short_errors_def)
  with Some show ?thesis
    by (simp add: handling_update_def OutboxEventUpdateOne_check_def failure_update_fields
        StatusValidator_def LastErrorValidator_def validation_error_def)
qed (simp add: handling_update_def OutboxEventUpdateOne_check_def StatusValidator_def
    LastErrorValidator_def validation_error_def)

section \<open>Every event is settled\<close>

definition pending_ok :: "poller_config \<Rightarrow> 'p outbox_row \<Rightarrow> bool" where
  "pending_ok cfg r \<longleftrightarrow> or_Status r = 0 \<longrightarrow> 0 \<le> or_RetryCount r \<and> or_RetryCount r < 2 ^ 63 - 1"

definition unsettled :: "poller_config \<Rightarrow> 'p outbox_row \<Rightarrow> nat" where
  "unsettled cfg r =
     (if or_Status r = 0 then nat (max 1 (pc_MaxRetries cfg - or_RetryCount r)) else 0)"

definition work :: "poller_config \<Rightarrow> 'p outbox_row list \<Rightarrow> nat" where
  "work cfg rs = sum_list (map (unsettled cfg) rs)"

definition patience :: "poller_config \<Rightarrow> duration" where
  "patience cfg = max 0 (max (pc_BackoffBase cfg) (pc_BackoffMax cfg))"

definition advanced :: "poller_config \<Rightarrow> time set \<Rightarrow> 'p outbox_row \<Rightarrow> 'p outbox_row \<Rightarrow> bool" where
  "advanced cfg C r r' \<longleftrightarrow>
     same_event r r' \<and> (or_Status r \<noteq> 0 \<longrightarrow> r' = r)
     \<and> (or_Status r = 0 \<longrightarrow> or_Status r' \<in> {0, 1, 3})
     \<and> (pending_ok cfg r \<longrightarrow> pending_ok cfg r')
     \<and> (or_Status r' = 0 \<longrightarrow> r' = r \<or> (\<exists>t \<in> C. or_NextRetryAt r' \<le> time_add t (patience cfg)))"

lemma advanced_refl [simp]: "advanced cfg C r r"
  by (auto simp: advanced_def)

lemma advanced_trans: "advanced cfg C r r' \<Longrightarrow> advanced cfg C r' r'' \<Longrightarrow> advanced cfg C r r''"
proof (cases "or_Status r' = 0")
  case True
  assume h: "advanced cfg C r r'" "advanced cfg C r' r''"
  then have r: "same_event r r'" "same_event r' r''" "or_Status r = 0"
    and s: "or_Status r'' \<in> {0, 1, 3}" "pending_ok cfg r \<longrightarrow> pending_ok cfg r''"
    and n: "r' = r \<or> (\<exists>t \<in> C. or_NextRetryAt r' \<le> time_add t (patience cfg))"
      "or_Status r'' = 0 \<longrightarrow> r'' = r' \<or> (\<exists>t \<in> C. or_NextRetryAt r'' \<le> time_add t (patience cfg))"
    using True by (auto simp: advanced_def)
  have "or_Status r'' = 0 \<longrightarrow> r'' = r \<or> (\<exists>t \<in> C. or_NextRetryAt r'' \<le> time_add t (patience cfg))"
    using n by blast
  with r s same_event_trans [OF r(1,2)] show ?thesis unfolding advanced_def by blast
next
  case False
  assume h: "advanced cfg C r r'" "advanced cfg C r' r''"
  with False have "r'' = r'" by (simp add: advanced_def)
  with h show ?thesis by simp
qed

lemma handled_row:
  assumes "or_Status evt = 0" "pending_ok (pl_cfg p) evt" "pc_MaxRetries (pl_cfg p) < 2 ^ 63"
    and r'_def: "r' = with_mutation (handling_update err_text p now evt x) evt"
  shows "advanced (pl_cfg p) {now} evt r'" "unsettled (pl_cfg p) r' < unsettled (pl_cfg p) evt"
proof -
  have n: "s64 (or_RetryCount evt + 1) = or_RetryCount evt + 1"
    using assms(1,2) by (simp add: pending_ok_def)
  have delay: "or_NextRetryAt r' \<le> time_add now (patience (pl_cfg p))" if "or_Status r' = 0"
    using that computeBackoff_le [of "pl_cfg p" "or_RetryCount evt + 1"]
    by (auto simp: r'_def handling_update_def failure_update_fields n patience_def less_eq_time_def
        split: option.splits if_splits)
  show "advanced (pl_cfg p) {now} evt r'"
    using assms(1-3) delay
    by (auto simp: advanced_def r'_def handling_update_def failure_update_fields pending_ok_def n
        split: option.splits if_splits)
  show "unsettled (pl_cfg p) r' < unsettled (pl_cfg p) evt"
    using assms(1)
    by (auto simp: r'_def unsettled_def handling_update_def failure_update_fields n
        split: option.splits if_splits)
qed

lemma work_map_less:
  assumes "r \<in> set rs" "unsettled cfg (f r) < unsettled cfg r"
    "\<And>r. r \<in> set rs \<Longrightarrow> unsettled cfg (f r) \<le> unsettled cfg r"
  shows "work cfg (map f rs) < work cfg rs"
  using assms
proof (induction rs)
  case (Cons a rs)
  have le: "work cfg (map f rs) \<le> work cfg rs"
    using Cons.prems(3) by (auto simp: work_def comp_def intro!: sum_list_mono)
  show ?case
  proof (cases "r = a")
    case True
    with Cons.prems(2) le show ?thesis by (simp add: work_def)
  next
    case False
    with Cons have "work cfg (map f rs) < work cfg rs" by auto
    moreover have "unsettled cfg (f a) \<le> unsettled cfg a" using Cons.prems(3) by simp
    ultimately show ?thesis by (simp add: work_def)
  qed
qed simp

lemma handleOne_faultless:
  assumes "db_faults db = []" "distinct (ids db)" "evt \<in> set (db_rows db)" "or_Status evt = 0"
    "\<forall>r \<in> set (db_rows db). pending_ok (pl_cfg p) r" "pc_MaxRetries (pl_cfg p) < 2 ^ 63"
    "short_errors err_text (pl_handler p)"
    "snd (handleOne err_text p now evt (db, x)) = (db', x')"
  shows "db_faults db' = []" "list_all2 (advanced (pl_cfg p) {now}) (db_rows db) (db_rows db')"
    "work (pl_cfg p) (db_rows db') < work (pl_cfg p) (db_rows db)"
    "\<And>r. r \<in> set (db_rows db) \<Longrightarrow> or_ID r \<noteq> or_ID evt \<Longrightarrow> r \<in> set (db_rows db')"
    "x' = snd (pl_handler p evt x)"
proof -
  define m where "m = handling_update err_text p now evt x"
  define f where "f = (\<lambda>r :: 'a outbox_row. if or_ID r = or_ID evt then with_mutation m r else r)"
  have i: "or_ID evt \<in> set (ids db)" using assms(3) by (simp add: ids_def)
  have c: "OutboxEventUpdateOne_check m = None"
    unfolding m_def by (rule handling_update_check [OF assms(7)])
  have db': "db' = db\<lparr>db_rows := map f (db_rows db)\<rparr>" and x': "x' = snd (pl_handler p evt x)"
    using assms(8) unfolding handleOne_state m_def [symmetric] Update_faultless [OF assms(1) c i]
    by (simp_all add: f_def)
  have only: "r = evt" if "r \<in> set (db_rows db)" "or_ID r = or_ID evt" for r
    using that assms(2,3) by (auto simp: ids_def distinct_map inj_on_def)
  have fe: "advanced (pl_cfg p) {now} r (f r) \<and> unsettled (pl_cfg p) (f r) \<le> unsettled (pl_cfg p) r"
    if "r \<in> set (db_rows db)" for r
  proof (cases "or_ID r = or_ID evt")
    case True
    with only that have r: "r = evt" by simp
    with handled_row [OF assms(4) _ assms(6) refl, where err_text = err_text and now = now and x = x] assms(3,5)
    show ?thesis by (auto simp: f_def m_def intro: less_imp_le)
  qed (simp add: f_def)
  show "db_faults db' = []" "x' = snd (pl_handler p evt x)" using assms(1) db' x' by simp_all
  show "list_all2 (advanced (pl_cfg p) {now}) (db_rows db) (db_rows db')"
    using fe by (auto simp: db' list_all2_conv_all_nth)
  have "unsettled (pl_cfg p) (f evt) < unsettled (pl_cfg p) evt"
    using handled_row(2) [OF assms(4) _ assms(6) refl, where err_text = err_text and now = now and x = x] assms(3,5)
    by (auto simp: f_def m_def)
  with fe assms(3) show "work (pl_cfg p) (db_rows db') < work (pl_cfg p) (db_rows db)"
    by (auto simp: db' intro!: work_map_less)
  show "r \<in> set (db_rows db')" if "r \<in> set (db_rows db)" "or_ID r \<noteq> or_ID evt" for r
    using that by (auto simp: db' f_def intro!: image_eqI [of _ _ r])
qed

lemma advanced_mono: "advanced cfg C r r' \<Longrightarrow> C \<subseteq> D \<Longrightarrow> advanced cfg D r r'"
  unfolding advanced_def by blast

lemma advanced_list_ids: "list_all2 (advanced cfg C) rs rs' \<Longrightarrow> map or_ID rs' = map or_ID rs"
  by (induction rule: list_all2_induct) (auto simp: advanced_def same_event_def)

lemma advanced_list_ok:
  "list_all2 (advanced cfg C) rs rs' \<Longrightarrow> \<forall>r \<in> set rs. pending_ok cfg r \<Longrightarrow> \<forall>r \<in> set rs'. pending_ok cfg r"
  by (induction rule: list_all2_induct) (auto simp: advanced_def)

lemma advanced_list_trans:
  "list_all2 (advanced cfg C) rs rs' \<Longrightarrow> list_all2 (advanced cfg C) rs' rs''
     \<Longrightarrow> list_all2 (advanced cfg C) rs rs''"
  by (rule list_all2_trans [of "advanced cfg C" "advanced cfg C"]) (auto intro: advanced_trans)

lemma handle_batch_faultless:
  assumes "db_faults db = []" "distinct (ids db)" "distinct (map or_ID evts)"
    "set evts \<subseteq> set (db_rows db)" "\<forall>evt \<in> set evts. or_Status evt = 0"
    "\<forall>r \<in> set (db_rows db). pending_ok (pl_cfg p) r" "pc_MaxRetries (pl_cfg p) < 2 ^ 63"
    "short_errors err_text (pl_handler p)" "range clk \<subseteq> C"
    "handle_batch err_text p clk evts (db, x) = (db', x')"
  shows "db_faults db' = [] \<and> list_all2 (advanced (pl_cfg p) C) (db_rows db) (db_rows db')
     \<and> work (pl_cfg p) (db_rows db') + length evts \<le> work (pl_cfg p) (db_rows db)"
  using assms
proof (induction evts arbitrary: clk db x)
  case Nil
  then show ?case by (simp add: list_all2_refl)
next
  case (Cons evt evts)
  obtain db1 x1 where h: "snd (handleOne err_text p (clk 0) evt (db, x)) = (db1, x1)" by fastforce
  have evt: "evt \<in> set (db_rows db)" "or_Status evt = 0" using Cons.prems(4,5) by simp_all
  note one = handleOne_faultless [OF Cons.prems(1,2) evt Cons.prems(6-8) h]
  have adv: "list_all2 (advanced (pl_cfg p) C) (db_rows db) (db_rows db1)"
    using one(2) by (rule list_all2_mono) (use Cons.prems(9) in \<open>auto intro: advanced_mono\<close>)
  have rest: "db_faults db' = [] \<and> list_all2 (advanced (pl_cfg p) C) (db_rows db1) (db_rows db')
     \<and> work (pl_cfg p) (db_rows db') + length evts \<le> work (pl_cfg p) (db_rows db1)"
  proof (rule Cons.IH)
    show "distinct (ids db1)"
      using Cons.prems(2) advanced_list_ids [OF adv] by (simp add: ids_def)
    show "set evts \<subseteq> set (db_rows db1)"
    proof
      fix r
      assume r: "r \<in> set evts"
      then have "or_ID r \<in> set (map or_ID evts)" by simp
      with Cons.prems(3) have "or_ID r \<noteq> or_ID evt" by (metis distinct.simps(2) list.simps(9))
      with r Cons.prems(4) show "r \<in> set (db_rows db1)" by (intro one(4)) auto
    qed
    show "\<forall>r \<in> set (db_rows db1). pending_ok (pl_cfg p) r"
      by (rule advanced_list_ok [OF adv Cons.prems(6)])
    show "range (clk \<circ> Suc) \<subseteq> C" using Cons.prems(9) by auto
    show "handle_batch err_text p (clk \<circ> Suc) evts (db1, x1) = (db', x')"
      using Cons.prems(10) h by simp
  qed (use one(1) Cons.prems in auto)
  with one(3) advanced_list_trans [OF adv] show ?case by auto
qed

lemma processBatch_faultless:
  assumes "db_faults db = []" "distinct (ids db)"
    "\<forall>r \<in> set (db_rows db). pending_ok (pl_cfg p) r" "pc_MaxRetries (pl_cfg p) < 2 ^ 63"
    "short_errors err_text (pl_handler p)" "1 \<le> pc_BatchSize (pl_cfg p)"
    "\<forall>r \<in> set (db_rows db). or_Status r = 0 \<longrightarrow> or_NextRetryAt r \<le> clk 0"
    "snd (processBatch err_text p clk (db, x)) = (db', x')"
  shows "db_faults db' = []" "list_all2 (advanced (pl_cfg p) (range clk)) (db_rows db) (db_rows db')"
    "work (pl_cfg p) (db_rows db') < work (pl_cfg p) (db_rows db)
       \<or> (\<forall>r \<in> set (db_rows db). or_Status r \<noteq> 0)"
proof -
  let ?n = "nat (pc_BatchSize (pl_cfg p))"
  define evts where "evts = take ?n (sort_key or_OccurredAt (filter (due (clk 0)) (db_rows db)))"
  have q: "OutboxEvent_Query (clk 0) (pc_BatchSize (pl_cfg p)) db = (Inr evts, db)"
    using assms(1,6) by (simp add: OutboxEvent_Query_def evts_def)
  then have run: "handle_batch err_text p (clk \<circ> Suc) evts (db, x) = (db', x')"
    using assms(8) by (simp add: processBatch_def)
  have "set evts \<subseteq> {r \<in> set (db_rows db). due (clk 0) r}" using Query_rows(2) [OF q] .
  moreover have "distinct (map or_ID evts)"
    unfolding evts_def by (rule sort_key_take_distinct) (use assms(2) in \<open>simp add: ids_def\<close>)
  ultimately have all: "db_faults db' = []
      \<and> list_all2 (advanced (pl_cfg p) (range clk)) (db_rows db) (db_rows db')
      \<and> work (pl_cfg p) (db_rows db') + length evts \<le> work (pl_cfg p) (db_rows db)"
    by (intro handle_batch_faultless [OF assms(1,2) _ _ _ assms(3-5) _ run]) (auto simp: due_def)
  then show "db_faults db' = []" "list_all2 (advanced (pl_cfg p) (range clk)) (db_rows db) (db_rows db')"
    by simp_all
  show "work (pl_cfg p) (db_rows db') < work (pl_cfg p) (db_rows db)
       \<or> (\<forall>r \<in> set (db_rows db). or_Status r \<noteq> 0)"
  proof (cases "\<exists>r \<in> set (db_rows db). or_Status r = 0")
    case True
    then obtain r where "r \<in> set (db_rows db)" "or_Status r = 0" by blast
    with assms(7) have "r \<in> set (filter (due (clk 0)) (db_rows db))" by (simp add: due_def)
    then have "1 \<le> length evts"
      using Query_rows(3) [OF q] assms(6) by (cases "filter (due (clk 0)) (db_rows db)") auto
    with all show ?thesis by linarith
  qed blast
qed

definition settled :: "'p outbox_row \<Rightarrow> 'p outbox_row \<Rightarrow> bool" where
  "settled r r' \<longleftrightarrow>
     same_event r r' \<and> (if or_Status r = 0 then or_Status r' = 1 \<or> or_Status r' = 3 else r' = r)"

fun spaced :: "duration \<Rightarrow> (nat \<Rightarrow> time) list \<Rightarrow> bool" where
  "spaced d (c # c' # cs) \<longleftrightarrow> (\<forall>k. time_add (c k) d \<le> c' 0) \<and> spaced d (c' # cs)"
| "spaced d cs \<longleftrightarrow> True"

lemma advanced_settled: "advanced cfg C r r' \<Longrightarrow> settled r' r'' \<Longrightarrow> settled r r''"
  by (auto simp: advanced_def settled_def same_event_def split: if_splits)

lemma settled_refl: "\<forall>r \<in> set rs. or_Status r \<noteq> 0 \<Longrightarrow> list_all2 settled rs rs"
  by (simp add: list_all2_same settled_def)

lemma unsettled_zero: "unsettled cfg r = 0 \<longleftrightarrow> or_Status r \<noteq> 0"
proof (cases "or_Status r = 0")
  case True
  have "unsettled cfg r = nat (max 1 (pc_MaxRetries cfg - or_RetryCount r))"
    unfolding unsettled_def if_P [OF True] ..
  moreover have "1 \<le> max 1 (pc_MaxRetries cfg - or_RetryCount r)" by simp
  ultimately have "unsettled cfg r \<noteq> 0" by linarith
  with True show ?thesis by blast
next
  case False
  then show ?thesis unfolding unsettled_def if_not_P [OF False] by blast
qed

lemma work_zero: "work cfg rs = 0 \<Longrightarrow> \<forall>r \<in> set rs. or_Status r \<noteq> 0"
  by (simp add: work_def unsettled_zero)

lemma no_pending_work: "\<forall>r \<in> set rs. or_Status r \<noteq> 0 \<Longrightarrow> work cfg rs = 0"
  by (simp add: work_def unsettled_zero)

lemma work_bound:
  assumes "\<forall>r \<in> set rs. pending_ok cfg r"
  shows "work cfg rs \<le> length rs * nat (max 1 (pc_MaxRetries cfg))"
proof -
  have "unsettled cfg r \<le> nat (max 1 (pc_MaxRetries cfg))" if "r \<in> set rs" for r
    using assms that by (auto simp: unsettled_def pending_ok_def)
  then have "sum_list (map (unsettled cfg) rs) \<le> sum_list (map (\<lambda>_. nat (max 1 (pc_MaxRetries cfg))) rs)"
    by (intro sum_list_mono) blast
  then show ?thesis by (simp add: work_def sum_list_triv)
qed

text \<open>After a round the rows that are still pending are due when the next round begins.\<close>

lemma advanced_due:
  assumes "list_all2 (advanced cfg (range c)) rs rs'" "\<forall>k. time_add (c k) (patience cfg) \<le> t"
    "\<forall>r \<in> set rs. or_Status r = 0 \<longrightarrow> or_NextRetryAt r \<le> c 0"
  shows "\<forall>r \<in> set rs'. or_Status r = 0 \<longrightarrow> or_NextRetryAt r \<le> t"
proof -
  have "0 \<le> patience cfg" by (simp add: patience_def)
  then have c0: "c 0 \<le> t"
    using assms(2)[rule_format, of 0] by (auto simp: less_eq_time_def)
  have "or_NextRetryAt r' \<le> t" if "advanced cfg (range c) r r'" "or_Status r' = 0"
    "or_Status r = 0 \<longrightarrow> or_NextRetryAt r \<le> c 0" for r r'
    using that c0 assms(2) unfolding advanced_def by (metis (no_types, lifting) imageE order_trans)
  with assms(1,3) show ?thesis
    by (induction rule: list_all2_induct) auto
qed

lemma rounds_settle:
  assumes "db_faults db = []" "distinct (ids db)"
    "\<forall>r \<in> set (db_rows db). pending_ok (pl_cfg p) r" "pc_MaxRetries (pl_cfg p) < 2 ^ 63"
    "short_errors err_text (pl_handler p)" "1 \<le> pc_BatchSize (pl_cfg p)"
    "\<forall>r \<in> set (db_rows db). or_Status r = 0 \<longrightarrow> clks \<noteq> [] \<and> or_NextRetryAt r \<le> hd clks 0"
    "spaced (patience (pl_cfg p)) clks" "work (pl_cfg p) (db_rows db) \<le> length clks"
    "run_loop err_text p (map Tick clks @ es) (db, x) = (res, db', x')"
  shows "\<exists>db1 x1. run_loop err_text p es (db1, x1) = (res, db', x')
            \<and> list_all2 settled (db_rows db) (db_rows db1)"
  using assms
proof (induction clks arbitrary: db x)
  case Nil
  then have "list_all2 settled (db_rows db) (db_rows db)"
    by (intro settled_refl work_zero [of "pl_cfg p"]) simp
  with Nil show ?case by (intro exI [of _ db] exI [of _ x]) simp
next
  case (Cons c cs)
  obtain db1 x1 where one: "snd (processBatch err_text p c (db, x)) = (db1, x1)" by fastforce
  have d: "\<forall>r \<in> set (db_rows db). or_Status r = 0 \<longrightarrow> or_NextRetryAt r \<le> c 0"
    using Cons.prems(7) by simp
  note r = processBatch_faultless [OF Cons.prems(1-6) d one]
  have "\<exists>db2 x2. run_loop err_text p es (db2, x2) = (res, db', x')
          \<and> list_all2 settled (db_rows db1) (db_rows db2)"
  proof (rule Cons.IH [OF r(1) _ _ Cons.prems(4-6)])
    show "distinct (ids db1)"
      using Cons.prems(2) advanced_list_ids [OF r(2)] by (simp add: ids_def)
    show "\<forall>r \<in> set (db_rows db1). pending_ok (pl_cfg p) r"
      by (rule advanced_list_ok [OF r(2) Cons.prems(3)])
    show w: "work (pl_cfg p) (db_rows db1) \<le> length cs"
    proof (cases "\<forall>r \<in> set (db_rows db). or_Status r \<noteq> 0")
      case True
      have "\<forall>r \<in> set (db_rows db1). or_Status r \<noteq> 0"
        using r(2) True by (induction rule: list_all2_induct) (auto simp: advanced_def)
      then show ?thesis by (simp add: no_pending_work)
    next
      case False
      with r(3) Cons.prems(9) show ?thesis by simp
    qed
    show "\<forall>r \<in> set (db_rows db1). or_Status r = 0 \<longrightarrow> cs \<noteq> [] \<and> or_NextRetryAt r \<le> hd cs 0"
    proof (cases cs)
      case Nil
      with w have "\<forall>r \<in> set (db_rows db1). or_Status r \<noteq> 0"
        by (intro work_zero [of "pl_cfg p"]) simp
      then show ?thesis by blast
    next
      case (Cons c' cs')
      with Cons.prems(8) have "\<forall>k. time_add (c k) (patience (pl_cfg p)) \<le> c' 0" by simp
      from advanced_due [OF r(2) this d] Cons show ?thesis by simp
    qed
    show "spaced (patience (pl_cfg p)) cs" using Cons.prems(8) by (cases cs) auto
    show "run_loop err_text p (map Tick cs @ es) (db1, x1) = (res, db', x')"
      using Cons.prems(10) one by simp
  qed
  then obtain db2 x2 where "run_loop err_text p es (db2, x2) = (res, db', x')"
    and s: "list_all2 settled (db_rows db1) (db_rows db2)" by blast
  moreover have "list_all2 settled (db_rows db) (db_rows db2)"
    by (rule list_all2_trans [OF _ r(2) s]) (rule advanced_settled)
  ultimately show ?case by blast
qed

text \<open>C4: Every event is settled. Let the database answer, let the texts of the handler's errors fit
  their column (1024 bytes), and let the ticks be spaced by the largest delay. Then, whatever the
  handler answers, \<open>Run\<close> returns once its context ends, and after as many ticks as there are rows
  times attempts every event that was pending is published or dead; the others are as before.\<close>

theorem outbox_settles:
  assumes "db_faults db = []" "distinct (ids db)"
    and "\<forall>r \<in> set (db_rows db). pending_ok (pl_cfg p) r" "pc_MaxRetries (pl_cfg p) < 2 ^ 63"
    and "short_errors err_text (pl_handler p)" "1 \<le> pc_BatchSize (pl_cfg p)"
    and "0 < pc_PollInterval (pl_cfg p)"
    and "\<forall>r \<in> set (db_rows db). or_Status r = 0 \<longrightarrow> clks \<noteq> [] \<and> or_NextRetryAt r \<le> hd clks 0"
    and "spaced (patience (pl_cfg p)) clks"
    and "length (db_rows db) * nat (max 1 (pc_MaxRetries (pl_cfg p))) \<le> length clks"
  shows "\<exists>db' x'. Poller_Run err_text p (map Tick clks @ [CtxDone]) (db, x)
            = (Some (Return None), db', x')
          \<and> list_all2 settled (db_rows db) (db_rows db')"
proof -
  obtain res db' x' where run: "run_loop err_text p (map Tick clks @ [CtxDone]) (db, x) = (res, db', x')"
    by (metis surj_pair)
  have "work (pl_cfg p) (db_rows db) \<le> length clks"
    using work_bound [OF assms(3)] assms(10) by linarith
  from rounds_settle [OF assms(1-6,8,9) this run] assms(7) run show ?thesis
    by (auto simp: Poller_Run_def)
qed

definition stubborn_poller :: "(string, nat) outbox_poller" where
  "stubborn_poller =
     \<lparr> pl_handler = (\<lambda>evt n. (Some (Sentinel ''down''), n + 1)),
       pl_cfg = default_poller_config\<lparr>pc_MaxRetries := 2\<rparr> \<rparr>"

definition one_event_table :: "string outbox_db" where
  "one_event_table = \<lparr> db_rows = [new_outbox_row ''id1'' (Time 0) sample_event], db_faults = [] \<rparr>"

theorem outbox_settles_witness:
  "\<exists>db' x'. Poller_Run (\<lambda>e. ''down'') stubborn_poller
       (map Tick [\<lambda>k. Time 0, \<lambda>k. Time 600000000000] @ [CtxDone]) (one_event_table, 0)
         = (Some (Return None), db', x')
     \<and> list_all2 settled [new_outbox_row ''id1'' (Time 0) sample_event] (db_rows db')"
proof -
  have rows: "db_rows one_event_table = [new_outbox_row ''id1'' (Time 0) sample_event]"
    by (simp add: one_event_table_def)
  show ?thesis
    unfolding rows [symmetric]
    by (rule outbox_settles)
      (simp_all add: one_event_table_def ids_def pending_ok_def new_outbox_row_def short_errors_def
        stubborn_poller_def default_poller_config_def patience_def less_eq_time_def)
qed

end
