(* ===== verification/OutboxDelivery.thy ===== *)
theory OutboxDelivery
  imports OutboxRules
begin

text \<open>
  Delivery through the outbox. A locale states what a sink promises the poller, and its lemmas show
  that then no event is marked as published unless the sink has it, whatever fails. The forwarder to
  a Redis stream is interpreted as such a sink. Two theorems show what the poller does not give:
  an event whose error text is too long for the column is never settled, and two pollers on one
  table deliver the same events twice.
\<close>

section \<open>Sinks\<close>

definition published_ok ::
  "('p outbox_row \<Rightarrow> 'x \<Rightarrow> bool) \<Rightarrow> ('p, 'x) poll_state \<Rightarrow> bool" where
  "published_ok delivered s \<longleftrightarrow>
     (\<forall>r \<in> set (db_rows (fst s)). or_Status r = 1 \<longrightarrow> delivered r (snd s))"

definition snapshot_of :: "'p outbox_db \<Rightarrow> 'p outbox_row \<Rightarrow> bool" where
  "snapshot_of db evt \<longleftrightarrow> (\<forall>r \<in> set (db_rows db). or_ID r = or_ID evt \<longrightarrow> same_event evt r)"

lemma same_rows_snapshot:
  assumes "list_all2 same_event (db_rows db) (db_rows db')" "snapshot_of db evt"
  shows "snapshot_of db' evt"
proof -
  have "\<exists>r0 \<in> set (db_rows db). same_event r0 r" if "r \<in> set (db_rows db')" for r
    using assms(1) that by (metis list_all2_conv_all_nth in_set_conv_nth)
  moreover have "or_ID r0 = or_ID r" if "same_event r0 r" for r0 r :: "'a outbox_row"
    using that by (simp add: same_event_def)
  ultimately show ?thesis
    using assms(2) same_event_trans unfolding snapshot_of_def by metis
qed

lemma same_rows_ids:
  "list_all2 same_event (db_rows db) (db_rows db') \<Longrightarrow> ids db' = ids db \<and> keys_of db' = keys_of db"
  unfolding ids_def keys_of_def by (induction rule: list_all2_induct) (auto simp: same_event_def)

lemma handleOne_same_rows:
  "list_all2 same_event (db_rows db) (db_rows (fst (snd (handleOne err_text p now evt (db, x)))))"
proof -
  obtain u db' where u: "OutboxEventUpdateOne_Save (or_ID evt) (handling_update err_text p now evt x) db
      = (u, db')" by fastforce
  then have "list_all2 same_event (db_rows db) (db_rows db')"
    by (cases rule: Update_cases) (auto simp: list_all2_conv_all_nth)
  with u show ?thesis by (simp add: handleOne_state)
qed

lemma handle_batch_same_rows:
  "list_all2 same_event (db_rows db) (db_rows (fst (handle_batch err_text p clk evts (db, x))))"
proof (induction evts arbitrary: clk db x)
  case (Cons evt evts)
  obtain db1 x1 where h: "snd (handleOne err_text p (clk 0) evt (db, x)) = (db1, x1)" by fastforce
  have "list_all2 same_event (db_rows db) (db_rows db1)"
    using handleOne_same_rows [of db err_text p "clk 0" evt x] h by simp
  from list_all2_trans [OF same_event_trans this Cons.IH [of db1 "clk \<circ> Suc" x1]] h show ?case
    by (simp del: comp_apply)
qed (simp add: list_all2_refl)

locale event_sink =
  fixes h :: "('p, 'x) outbox_handler"
    and delivered :: "'p outbox_row \<Rightarrow> 'x \<Rightarrow> bool"
  assumes accepted: "h evt x = (None, x') \<Longrightarrow> delivered evt x'"
    and kept: "delivered r x \<Longrightarrow> delivered r (snd (h evt x))"
    and respects: "same_event r r' \<Longrightarrow> delivered r x \<Longrightarrow> delivered r' x"
begin

lemma handleOne_published:
  assumes "pl_handler p = h" "published_ok delivered (db, x)" "snapshot_of db evt"
  shows "published_ok delivered (snd (handleOne err_text p now evt (db, x)))"
proof -
  let ?m = "handling_update err_text p now evt x"
  obtain u db' where u: "OutboxEventUpdateOne_Save (or_ID evt) ?m db = (u, db')" by fastforce
  have new: "delivered r (snd (h evt x))" if "mu_Status ?m = Some 1" "or_ID r = or_ID evt"
    "r \<in> set (db_rows db)" for r
  proof -
    have "h evt x = (None, snd (h evt x))"
      using handling_update_status(1) [of err_text p now evt x] that(1) assms(1)
      by (simp add: prod_eq_iff)
    with accepted assms(3) that(2,3) show ?thesis
      by (auto simp: snapshot_of_def intro: respects)
  qed
  from u show ?thesis
  proof (cases rule: Update_cases)
    case (failed e)
    with assms u kept show ?thesis by (auto simp: published_ok_def handleOne_state)
  next
    case changed
    obtain st where st: "mu_Status ?m = Some st"
      using handling_update_status(2) [of err_text p now evt x] by blast
    have "delivered r' (snd (h evt x))" if "r' \<in> set (db_rows db')" "or_Status r' = 1" for r'
    proof -
      from that(1) changed(3) obtain r where r: "r \<in> set (db_rows db)"
        and r': "r' = (if or_ID r = or_ID evt then with_mutation ?m r else r)" by auto
      show ?thesis
      proof (cases "or_ID r = or_ID evt")
        case True
        with r' that(2) st have "mu_Status ?m = Some 1" by simp
        from respects [OF same_event_mutation new [OF this True r]] True r' show ?thesis by simp
      next
        case False
        with r' that(2) r assms(2) show ?thesis by (auto simp: published_ok_def intro: kept)
      qed
    qed
    with u assms(1) show ?thesis by (simp add: published_ok_def handleOne_state)
  qed
qed

lemma handle_batch_published:
  assumes "pl_handler p = h" "published_ok delivered (db, x)" "\<forall>evt \<in> set evts. snapshot_of db evt"
  shows "published_ok delivered (handle_batch err_text p clk evts (db, x))"
  using assms(2,3)
proof (induction evts arbitrary: clk db x)
  case (Cons evt evts)
  obtain db1 x1 where h: "snd (handleOne err_text p (clk 0) evt (db, x)) = (db1, x1)" by fastforce
  have "published_ok delivered (db1, x1)"
    using handleOne_published [OF assms(1) Cons.prems(1), of evt err_text "clk 0"] Cons.prems(2) h
    by simp
  moreover have "\<forall>evt \<in> set evts. snapshot_of db1 evt"
    using same_rows_snapshot handleOne_same_rows [of db err_text p "clk 0" evt x] h Cons.prems(2)
    by auto
  ultimately show ?case
    unfolding handle_batch.simps h by (rule Cons.IH)
qed simp

lemma processBatch_published:
  assumes "pl_handler p = h" "published_ok delivered (db, x)" "table_ok db"
    "snd (processBatch err_text p clk (db, x)) = (db', x')"
  shows "published_ok delivered (db', x')" "table_ok db'"
proof -
  obtain r db1 where q: "OutboxEvent_Query (clk 0) (pc_BatchSize (pl_cfg p)) db = (r, db1)" by fastforce
  have "published_ok delivered (db', x') \<and> table_ok db'"
  proof (cases r)
    case (Inl e)
    with q assms(2-4) Query_db [of _ _ db e db1] show ?thesis
      by (auto simp: processBatch_def published_ok_def table_ok_def ids_def keys_of_def)
  next
    case (Inr evts)
    note rows = Query_rows(1,2) [OF q [unfolded Inr]]
    have run: "handle_batch err_text p (clk \<circ> Suc) evts (db1, x) = (db', x')"
      using q Inr assms(4) by (simp add: processBatch_def)
    have "snapshot_of db1 evt" if "evt \<in> set evts" for evt
    proof -
      have "evt \<in> set (db_rows db)" "inj_on or_ID (set (db_rows db))"
        using that rows(2) assms(3) by (auto simp: table_ok_def ids_def distinct_map)
      then have "r = evt" if "r \<in> set (db_rows db)" "or_ID r = or_ID evt" for r
        using that by (auto dest: inj_onD)
      then show ?thesis using rows(1) by (metis same_event_refl snapshot_of_def)
    qed
    moreover have "published_ok delivered (db1, x)" "table_ok db1"
      using assms(2,3) rows(1) by (simp_all add: published_ok_def table_ok_def ids_def keys_of_def)
    ultimately show ?thesis
      using handle_batch_published [OF assms(1), of db1 x evts err_text "clk \<circ> Suc"] run
        same_rows_ids [OF handle_batch_same_rows [of db1 err_text p "clk \<circ> Suc" evts x]]
      by (simp add: table_ok_def)
  qed
  then show "published_ok delivered (db', x')" "table_ok db'" by simp_all
qed

end

section \<open>The forwarder is a sink\<close>

text \<open>
  A Redis server with streams: the log of the entries it has accepted, oldest first, before any
  trimming (\<open>MAXLEN ~\<close> lets the server drop old entries), and the faults of its next commands.
\<close>

record redis_stream =
  st_log :: "(string \<times> (string \<times> string) list) list"
  st_faults :: "go_error option list"

definition stream_XADD :: "redis_stream xadd" where
  "stream_XADD a x =
     (case st_faults x of
        Some e # fs \<Rightarrow> (Inl e, x\<lparr>st_faults := fs\<rparr>)
      | fs \<Rightarrow> (Inr (dec_of_nat (length (st_log x)) @ ''-0''),
               x\<lparr>st_log := st_log x @ [(xa_Stream a, xa_Values a)], st_faults := tl fs\<rparr>))"

definition in_stream ::
  "('p \<Rightarrow> go_error + string) \<Rightarrow> string \<Rightarrow> 'p outbox_row \<Rightarrow> redis_stream \<Rightarrow> bool" where
  "in_stream marshal stream r x \<longleftrightarrow>
     (\<exists>payload. marshal (or_Payload r) = Inr payload
        \<and> ((if stream = [] then OutboxStreamKey else stream), stream_values payload r) \<in> set (st_log x))"

definition stream_handler ::
  "('p \<Rightarrow> go_error + string) \<Rightarrow> string \<Rightarrow> ('p, redis_stream) outbox_handler" where
  "stream_handler marshal stream =
     HandleOutboxEvent marshal (NewOutboxForwarder (Some stream_XADD) stream)"

lemma stream_XADD_log:
  "st_log (snd (stream_XADD a x)) =
     st_log x @ (case fst (stream_XADD a x) of Inl _ \<Rightarrow> [] | Inr _ \<Rightarrow> [(xa_Stream a, xa_Values a)])"
  by (auto simp: stream_XADD_def split: list.split option.split)

lemma stream_handler_log:
  "st_log (snd (stream_handler marshal stream evt x)) =
     st_log x @ (case fst (stream_handler marshal stream evt x) of
                   Some _ \<Rightarrow> []
                 | None \<Rightarrow> [(if stream = [] then OutboxStreamKey else stream,
                             stream_values (projr (marshal (or_Payload evt))) evt)])"
proof (cases "marshal (or_Payload evt)")
  case (Inr payload)
  define k where "k = (if stream = [] then OutboxStreamKey else stream)"
  define a where "a = \<lparr> xa_Stream = k, xa_MaxLen = OutboxStreamMaxLen, xa_Approx = True,
                        xa_Values = stream_values payload evt \<rparr>"
  obtain r x' where a: "stream_XADD a x = (r, x')" by fastforce
  have "stream_handler marshal stream evt x =
      (case r of Inl e \<Rightarrow> (Some (Errorf ''xadd %s: %w'' [e]), x') | Inr _ \<Rightarrow> (None, x'))"
    using Inr a unfolding a_def k_def
    by (simp add: stream_handler_def HandleOutboxEvent_def NewOutboxForwarder_def)
  with Inr a stream_XADD_log [of a x] show ?thesis
    unfolding k_def [symmetric] by (cases r) (simp_all add: a_def)
qed (simp add: stream_handler_def HandleOutboxEvent_def NewOutboxForwarder_def)

lemma stream_handler_ok:
  "fst (stream_handler marshal stream evt x) = None \<Longrightarrow> \<exists>s. marshal (or_Payload evt) = Inr s"
  by (auto simp: stream_handler_def HandleOutboxEvent_def NewOutboxForwarder_def split: sum.splits)

interpretation forwarder: event_sink "stream_handler marshal stream" "in_stream marshal stream"
  for marshal :: "'p \<Rightarrow> go_error + string" and stream :: string
proof
  fix evt :: "'p outbox_row" and x x'
  assume h: "stream_handler marshal stream evt x = (None, x')"
  then obtain s where "marshal (or_Payload evt) = Inr s"
    using stream_handler_ok [of marshal stream evt x] by auto
  then show "in_stream marshal stream evt x'"
    using stream_handler_log [of marshal stream evt x] h by (simp add: in_stream_def)
next
  fix r evt :: "'p outbox_row" and x
  assume "in_stream marshal stream r x"
  then show "in_stream marshal stream r (snd (stream_handler marshal stream evt x))"
    by (auto simp: in_stream_def stream_handler_log)
next
  fix r r' :: "'p outbox_row" and x
  assume "same_event r r'" "in_stream marshal stream r x"
  then show "in_stream marshal stream r' x"
    by (auto simp: in_stream_def same_event_def stream_values_def)
qed

section \<open>Writers and a poller on one table\<close>

datatype 'p outbox_op = Write string time "'p outbox_event" | Poll "nat \<Rightarrow> time"

fun outbox_step ::
  "(go_error \<Rightarrow> string) \<Rightarrow> ('p \<Rightarrow> go_error + string) \<Rightarrow> ('p, 'x) outbox_poller \<Rightarrow> 'p outbox_op
     \<Rightarrow> ('p, 'x) poll_state \<Rightarrow> ('p, 'x) poll_state" where
  "outbox_step err_text marshal p (Write uid now e) (db, x) = (snd (WriteOutbox marshal uid now e db), x)"
| "outbox_step err_text marshal p (Poll clk) (db, x) = snd (processBatch err_text p clk (db, x))"

definition outbox_run ::
  "(go_error \<Rightarrow> string) \<Rightarrow> ('p \<Rightarrow> go_error + string) \<Rightarrow> ('p, 'x) outbox_poller \<Rightarrow> 'p outbox_op list
     \<Rightarrow> ('p, 'x) poll_state \<Rightarrow> ('p, 'x) poll_state" where
  "outbox_run err_text marshal p ops s = fold (outbox_step err_text marshal p) ops s"

context event_sink
begin

lemma step_published:
  assumes "pl_handler p = h" "published_ok delivered s" "table_ok (fst s)"
  shows "published_ok delivered (outbox_step err_text marshal p q s)
     \<and> table_ok (fst (outbox_step err_text marshal p q s))"
proof -
  obtain db x where s: "s = (db, x)" by fastforce
  show ?thesis
  proof (cases q)
    case (Write uid now e)
    obtain res db' where w: "WriteOutbox marshal uid now e db = (res, db')" by fastforce
    from w show ?thesis
    proof (cases rule: WriteOutbox_cases)
      case (refused err)
      with w Write s assms(2,3) show ?thesis
        by (simp add: published_ok_def table_ok_def ids_def keys_of_def)
    next
      case written
      with w Write s assms(2,3) show ?thesis
        by (auto simp: published_ok_def table_ok_def ids_def keys_of_def new_outbox_row_def)
    qed
  next
    case (Poll clk)
    obtain db' x' where b: "snd (processBatch err_text p clk (db, x)) = (db', x')" by fastforce
    from processBatch_published [OF assms(1) _ _ this] assms(2,3) Poll s b show ?thesis by simp
  qed
qed

lemma run_published:
  assumes "pl_handler p = h" "published_ok delivered s" "table_ok (fst s)"
  shows "published_ok delivered (outbox_run err_text marshal p ops s)"
  using assms(2,3)
proof (induction ops arbitrary: s)
  case (Cons q ops)
  with step_published [OF assms(1) Cons.prems] show ?case by (simp add: outbox_run_def)
qed (simp add: outbox_run_def)

end

text \<open>C7: Nothing is marked as published that was not sent. Let writers and a poller with the stream
  forwarder work on an empty table in any order, at any times, with any configuration and any
  failures of the database and of Redis: every row with the status published has its entry, with all
  its fields, in the log of the stream.\<close>

theorem published_was_delivered:
  assumes "pl_handler p = stream_handler marshal stream"
    and "outbox_run err_text marshal p ops
           (\<lparr> db_rows = [], db_faults = fs \<rparr>, \<lparr> st_log = [], st_faults = gs \<rparr>) = (db, x)"
    and "r \<in> set (db_rows db)" "or_Status r = 1"
  shows "in_stream marshal stream r x"
  using forwarder.run_published [OF assms(1), where err_text = err_text and ops = ops and marshal = marshal
      and s = "(\<lparr> db_rows = [], db_faults = fs \<rparr>, \<lparr> st_log = [], st_faults = gs \<rparr>)"] assms(2-4)
  by (simp add: published_ok_def table_ok_def ids_def keys_of_def)

definition stream_poller :: "(string, redis_stream) outbox_poller" where
  "stream_poller = \<lparr> pl_handler = stream_handler Inr [], pl_cfg = default_poller_config \<rparr>"

lemma sample_row [simp]:
  "new_outbox_row ''id1'' t sample_event =
     \<lparr> or_ID = ''id1'', or_AggregateType = ''agent'', or_AggregateID = ''a1'',
       or_EventType = ''agent.banned'', or_Payload = ''{}'', or_OccurredAt = t,
       or_IdempotencyKey = ''k1'', or_Status = 0, or_RetryCount = 0, or_LastError = [],
       or_NextRetryAt = t \<rparr>"
  by (simp add: new_outbox_row_def sample_event_def)

lemma sample_write:
  "WriteOutbox Inr ''id1'' t sample_event \<lparr> db_rows = [], db_faults = [] \<rparr>
     = (None, \<lparr> db_rows = [new_outbox_row ''id1'' t sample_event], db_faults = [] \<rparr>)"
proof -
  obtain res db' where w: "WriteOutbox Inr ''id1'' t sample_event \<lparr> db_rows = [], db_faults = [] \<rparr>
      = (res, db')" by fastforce
  have "event_fits sample_event"
    by (simp add: event_fits_def fits_def sample_event_def)
  with w have rn: "res = None" "db_rows db' = [new_outbox_row ''id1'' t sample_event]"
    by (cases rule: WriteOutbox_cases; simp add: ids_def keys_of_def)+
  have "db_faults db' = []"
    using w by (auto simp: WriteOutbox_def OutboxEventCreate_Save_def next_fault_def
        split: option.splits sum.splits if_splits)
  with w rn show ?thesis by (simp add: outbox_db.equality)
qed

theorem published_was_delivered_witness:
  "\<exists>r x. in_stream Inr [] r x \<and> or_Status r = 1
     \<and> outbox_run (\<lambda>e. []) Inr stream_poller [Write ''id1'' (Time 0) sample_event, Poll (\<lambda>k. Time 1)]
         (\<lparr> db_rows = [], db_faults = [] \<rparr>, \<lparr> st_log = [], st_faults = [] \<rparr>)
         = (\<lparr> db_rows = [r], db_faults = [] \<rparr>, x)"
proof -
  define r where "r = (new_outbox_row ''id1'' (Time 0) sample_event)\<lparr>or_Status := 1\<rparr>"
  obtain x where run:
    "outbox_run (\<lambda>e. []) Inr stream_poller [Write ''id1'' (Time 0) sample_event, Poll (\<lambda>k. Time 1)]
       (\<lparr> db_rows = [], db_faults = [] \<rparr>, \<lparr> st_log = [], st_faults = [] \<rparr>)
       = (\<lparr> db_rows = [r], db_faults = [] \<rparr>, x)"
    by (simp add: outbox_run_def sample_write processBatch_def OutboxEvent_Query_def next_fault_def
        default_poller_config_def stream_poller_def due_def less_eq_time_def handleOne_state
        handling_update_def stream_handler_def HandleOutboxEvent_def NewOutboxForwarder_def
        stream_XADD_def OutboxEventUpdateOne_Save_def OutboxEventUpdateOne_check_def
        StatusValidator_def LastErrorValidator_def validation_error_def with_mutation_def r_def)
  have "in_stream Inr [] r x"
    by (rule published_was_delivered [OF _ run]) (simp_all add: stream_poller_def r_def)
  with run show ?thesis by (auto simp: r_def)
qed

section \<open>What the poller does not give\<close>

lemma long_error_update:
  assumes "fst (pl_handler p evt x) = Some e" "1024 < length (err_text e)"
  shows "snd (OutboxEventUpdateOne_Save (or_ID evt) (handling_update err_text p now evt x) db) = db"
proof -
  have "mu_LastError (handling_update err_text p now evt x) = Some (err_text e)"
    using assms(1) by (simp add: handling_update_def failure_update_fields)
  from Update_long_error [OF this assms(2), of "or_ID evt" db] show ?thesis by auto
qed

definition poisonous :: "(go_error \<Rightarrow> string) \<Rightarrow> ('p, 'x) outbox_poller \<Rightarrow> 'p outbox_row \<Rightarrow> bool" where
  "poisonous err_text p r \<longleftrightarrow> (\<forall>x. \<exists>e. fst (pl_handler p r x) = Some e \<and> 1024 < length (err_text e))"

lemma handle_batch_poison:
  assumes "poisonous err_text p r" "r \<in> set (db_rows db)"
    "\<forall>evt \<in> set evts. or_ID evt = or_ID r \<longrightarrow> evt = r"
  shows "r \<in> set (db_rows (fst (handle_batch err_text p clk evts (db, x))))"
  using assms(2,3)
proof (induction evts arbitrary: clk db x)
  case (Cons evt evts)
  obtain db1 x1 where h: "snd (handleOne err_text p (clk 0) evt (db, x)) = (db1, x1)" by fastforce
  have "r \<in> set (db_rows db1)"
  proof (cases "or_ID evt = or_ID r")
    case True
    with Cons.prems(2) have "evt = r" by simp
    moreover from assms(1) obtain e where "fst (pl_handler p r x) = Some e" "1024 < length (err_text e)"
      by (auto simp: poisonous_def)
    ultimately show ?thesis
      using h long_error_update [of p r x e err_text "clk 0" db] Cons.prems(1)
      by (simp add: handleOne_state)
  next
    case False
    obtain u db' where u: "OutboxEventUpdateOne_Save (or_ID evt)
        (handling_update err_text p (clk 0) evt x) db = (u, db')" by fastforce
    then have "r \<in> set (db_rows db')"
      by (cases rule: Update_cases) (use Cons.prems(1) False in \<open>auto intro!: image_eqI [of _ _ r]\<close>)
    with u h show ?thesis by (simp add: handleOne_state)
  qed
  with Cons.IH [of db1 "clk \<circ> Suc" x1] Cons.prems(2) h show ?case by (simp del: comp_apply)
qed simp

lemma processBatch_poison:
  assumes "poisonous err_text p r" "r \<in> set (db_rows db)" "distinct (ids db)"
    "snd (processBatch err_text p clk (db, x)) = (db', x')"
  shows "r \<in> set (db_rows db')" "distinct (ids db')"
proof -
  obtain q db1 where q: "OutboxEvent_Query (clk 0) (pc_BatchSize (pl_cfg p)) db = (q, db1)" by fastforce
  have "r \<in> set (db_rows db') \<and> distinct (ids db')"
  proof (cases q)
    case (Inl e)
    with q assms Query_db [of _ _ db e db1] show ?thesis by (auto simp: processBatch_def ids_def)
  next
    case (Inr evts)
    note rows = Query_rows(1,2) [OF q [unfolded Inr]]
    have run: "handle_batch err_text p (clk \<circ> Suc) evts (db1, x) = (db', x')"
      using q Inr assms(4) by (simp add: processBatch_def)
    have inj: "inj_on or_ID (set (db_rows db))"
      using assms(3) by (simp add: ids_def distinct_map)
    have "\<forall>evt \<in> set evts. or_ID evt = or_ID r \<longrightarrow> evt = r"
      using rows(2) assms(2) by (auto intro: inj_onD [OF inj])
    with handle_batch_poison [OF assms(1), of db1 evts "clk \<circ> Suc" x] rows(1) assms(2) run
    have "r \<in> set (db_rows db')" by simp
    moreover have "distinct (ids db')"
      using same_rows_ids [OF handle_batch_same_rows [of db1 err_text p "clk \<circ> Suc" evts x]]
        run rows(1) assms(3) by (simp add: ids_def)
    ultimately show ?thesis ..
  qed
  then show "r \<in> set (db_rows db')" "distinct (ids db')" by simp_all
qed

lemma poison_rows:
  assumes "poisonous err_text p r" "r \<in> set (db_rows db)" "distinct (ids db)"
    and "run_loop err_text p (map Tick clks) (db, x) = (res, db', x')"
  shows "r \<in> set (db_rows db')"
  using assms(2-4)
proof (induction clks arbitrary: db x)
  case (Cons clk clks)
  obtain db1 x1 where b: "snd (processBatch err_text p clk (db, x)) = (db1, x1)" by fastforce
  note one = processBatch_poison [OF assms(1) Cons.prems(1,2) b]
  from Cons.IH [OF one] Cons.prems(3) b show ?case by simp
qed simp

text \<open>The poller with a list of the events that its handler was called with, oldest first.\<close>

definition traced ::
  "('p, 'x) outbox_poller \<Rightarrow> ('p, 'x \<times> 'p outbox_row list) outbox_poller" where
  "traced p =
     \<lparr> pl_handler = (\<lambda>evt (x, calls). let (err, x') = pl_handler p evt x in (err, (x', calls @ [evt]))),
       pl_cfg = pl_cfg p \<rparr>"

lemma traced_cfg [simp]: "pl_cfg (traced p) = pl_cfg p"
  by (simp add: traced_def)

lemma handleOne_traced:
  "snd (handleOne err_text (traced p) now evt (db, x, calls)) =
     (case snd (handleOne err_text p now evt (db, x)) of (db', x') \<Rightarrow> (db', x', calls @ [evt]))"
  by (simp add: handleOne_state handling_update_def traced_def case_prod_unfold Let_def
      split: option.split)

lemma handle_batch_traced:
  "handle_batch err_text (traced p) clk evts (db, x, calls) =
     (case handle_batch err_text p clk evts (db, x) of (db', x') \<Rightarrow> (db', x', calls @ evts))"
proof (induction evts arbitrary: clk db x calls)
  case (Cons evt evts)
  obtain db1 x1 where "snd (handleOne err_text p (clk 0) evt (db, x)) = (db1, x1)" by fastforce
  then show ?case by (simp add: handleOne_traced Cons.IH case_prod_unfold del: comp_apply)
qed simp

lemma handle_batch_faults:
  "db_faults db = [] \<Longrightarrow> db_faults (fst (handle_batch err_text p clk evts (db, x))) = []"
proof (induction evts arbitrary: clk db x)
  case (Cons evt evts)
  obtain db1 x1 where h: "snd (handleOne err_text p (clk 0) evt (db, x)) = (db1, x1)" by fastforce
  have "db_faults db1 = []"
    using h Cons.prems
    by (auto simp: handleOne_state OutboxEventUpdateOne_Save_def split: option.splits prod.splits if_splits)
  from Cons.IH [OF this, of "clk \<circ> Suc" x1] h show ?case by (simp del: comp_apply)
qed simp

lemma count_list_distinct: "distinct xs \<Longrightarrow> x \<in> set xs \<Longrightarrow> count_list xs x = 1"
  by (induction xs) (auto simp: count_list_0_iff)

text \<open>A due event of a table that fits in one batch is in that batch once.\<close>

definition answering :: "('p, 'x) outbox_poller \<Rightarrow> 'p outbox_db \<Rightarrow> bool" where
  "answering p db \<longleftrightarrow> db_faults db = [] \<and> int (length (db_rows db)) \<le> pc_BatchSize (pl_cfg p)"

lemma processBatch_calls:
  assumes "answering p db" "distinct (ids db)" "r \<in> set (db_rows db)" "due (clk 0) r"
    and "snd (processBatch err_text p clk (db, x)) = (db', x')"
  shows "\<exists>evts. snd (processBatch err_text (traced p) clk (db, x, calls)) = (db', x', calls @ evts)
       \<and> count_list evts r = 1" "answering p db'"
proof -
  let ?evts = "sort_key or_OccurredAt (filter (due (clk 0)) (db_rows db))"
  have "length ?evts \<le> nat (pc_BatchSize (pl_cfg p))"
    using assms(1) length_filter_le [of "due (clk 0)" "db_rows db"]
    unfolding answering_def length_sort by linarith
  then have q: "OutboxEvent_Query (clk 0) (pc_BatchSize (pl_cfg p)) db = (Inr ?evts, db)"
    using assms(1) by (simp add: answering_def OutboxEvent_Query_def)
  with assms(5) have run: "handle_batch err_text p (clk \<circ> Suc) ?evts (db, x) = (db', x')"
    by (simp add: processBatch_def)
  have "distinct ?evts" using assms(2) by (simp add: ids_def distinct_map)
  then have "count_list ?evts r = 1"
    using assms(3,4) count_list_distinct [of ?evts r] by simp
  with q run show "\<exists>evts. snd (processBatch err_text (traced p) clk (db, x, calls)) = (db', x', calls @ evts)
       \<and> count_list evts r = 1"
    by (auto simp: processBatch_def handle_batch_traced)
  have "length (db_rows db') = length (db_rows db)"
    using handle_batch_same_rows [of db err_text p "clk \<circ> Suc" ?evts x] run
    by (simp add: list_all2_lengthD)
  moreover have "db_faults db' = []"
    using handle_batch_faults [of db err_text p "clk \<circ> Suc" ?evts x] run assms(1)
    by (simp add: answering_def)
  ultimately show "answering p db'" using assms(1) by (simp add: answering_def)
qed

lemma poison_calls:
  assumes "poisonous err_text p r" "r \<in> set (db_rows db)" "distinct (ids db)" "answering p db"
    and "\<forall>clk \<in> set clks. due (clk 0) r"
    and "run_loop err_text p (map Tick clks) (db, x) = (res, db', x')"
  shows "\<exists>evts. run_loop err_text (traced p) (map Tick clks) (db, x, calls) = (res, db', x', calls @ evts)
       \<and> count_list evts r = length clks"
  using assms(2-6)
proof (induction clks arbitrary: db x calls)
  case (Cons clk clks)
  obtain db1 x1 where b: "snd (processBatch err_text p clk (db, x)) = (db1, x1)" by fastforce
  obtain evts where t: "snd (processBatch err_text (traced p) clk (db, x, calls)) = (db1, x1, calls @ evts)"
    "count_list evts r = 1" and ok: "answering p db1"
    using processBatch_calls [OF Cons.prems(3,2,1) _ b] Cons.prems(4) by auto
  note one = processBatch_poison [OF assms(1) Cons.prems(1,2) b]
  have "run_loop err_text p (map Tick clks) (db1, x1) = (res, db', x')" using Cons.prems(5) b by simp
  from Cons.IH [OF one ok _ this, of "calls @ evts"] Cons.prems(4) obtain evts' where
    "run_loop err_text (traced p) (map Tick clks) (db1, x1, calls @ evts) = (res, db', x', (calls @ evts) @ evts')"
    "count_list evts' r = length clks" by auto
  with t show ?case by (auto intro!: exI [of _ "evts @ evts'"])
qed simp

text \<open>C40: An event for which the handler always fails with an error text of more than 1024 bytes is
  never settled: the update that would count the failure does not pass the validator of the column,
  so after any ticks, and whatever the maximum of retries, its row is exactly as it was. So it is
  retried for ever: while the database answers, the table fits in one batch and the ticks come after
  its retry time, every tick calls the handler with it once more; \<open>traced\<close> lists the calls.\<close>

theorem long_error_never_settles:
  assumes "poisonous err_text p r" "r \<in> set (db_rows db)" "distinct (ids db)"
    and "run_loop err_text p (map Tick clks) (db, x) = (res, db', x')"
  shows "r \<in> set (db_rows db')
    \<and> (answering p db \<longrightarrow> (\<forall>clk \<in> set clks. due (clk 0) r) \<longrightarrow>
        (\<exists>calls. run_loop err_text (traced p) (map Tick clks) (db, x, []) = (res, db', x', calls)
           \<and> count_list calls r = length clks))"
  using poison_rows [OF assms] poison_calls [OF assms(1-3) _ _ assms(4), of "[]"] by simp

definition poison_poller :: "(string, nat) outbox_poller" where
  "poison_poller =
     \<lparr> pl_handler = (\<lambda>evt n. (Some (Sentinel ''down''), n + 1)), pl_cfg = default_poller_config \<rparr>"

theorem long_error_never_settles_witness:
  "\<exists>res db' x' calls. run_loop (\<lambda>e. replicate 1025 (CHR ''x'')) (traced poison_poller)
       (map Tick (replicate 6 (\<lambda>k. Time 1))) (one_event_table, 0, []) = (res, db', x', calls)
     \<and> new_outbox_row ''id1'' (Time 0) sample_event \<in> set (db_rows db')
     \<and> count_list calls (new_outbox_row ''id1'' (Time 0) sample_event) = 6"
proof -
  obtain res db' x' where run: "run_loop (\<lambda>e. replicate 1025 (CHR ''x'')) poison_poller
       (map Tick (replicate 6 (\<lambda>k. Time 1))) (one_event_table, 0) = (res, db', x')"
    by (metis surj_pair)
  have "answering poison_poller one_event_table"
    by (simp add: answering_def poison_poller_def one_event_table_def default_poller_config_def)
  moreover have "due (Time 1) (new_outbox_row ''id1'' (Time 0) sample_event)"
    by (simp add: due_def new_outbox_row_def less_eq_time_def)
  ultimately show ?thesis
    using long_error_never_settles [OF _ _ _ run, of "new_outbox_row ''id1'' (Time 0) sample_event"]
    by (simp add: poisonous_def poison_poller_def one_event_table_def ids_def) blast
qed

text \<open>
  Two processes poll one table: both run their query before either has handled what it found. The
  package comment promises row locks (\<open>FOR UPDATE SKIP LOCKED\<close>); the query takes none.
\<close>

definition two_pollers ::
  "(go_error \<Rightarrow> string) \<Rightarrow> ('p, 'x) outbox_poller \<Rightarrow> (nat \<Rightarrow> time) \<Rightarrow> (nat \<Rightarrow> time)
     \<Rightarrow> ('p, 'x) poll_state \<Rightarrow> ('p, 'x) poll_state" where
  "two_pollers err_text p clkA clkB s =
     (case OutboxEvent_Query (clkA 0) (pc_BatchSize (pl_cfg p)) (fst s) of
        (Inl _, db1) \<Rightarrow> snd (processBatch err_text p clkB (db1, snd s))
      | (Inr evtsA, db1) \<Rightarrow>
          (case OutboxEvent_Query (clkB 0) (pc_BatchSize (pl_cfg p)) db1 of
             (Inl _, db2) \<Rightarrow> handle_batch err_text p (clkA \<circ> Suc) evtsA (db2, snd s)
           | (Inr evtsB, db2) \<Rightarrow>
               handle_batch err_text p (clkB \<circ> Suc) evtsB
                 (handle_batch err_text p (clkA \<circ> Suc) evtsA (db2, snd s))))"

definition batch_of :: "('p, 'x) outbox_poller \<Rightarrow> time \<Rightarrow> 'p outbox_db \<Rightarrow> 'p outbox_row list" where
  "batch_of p now db =
     take (nat (pc_BatchSize (pl_cfg p))) (sort_key or_OccurredAt (filter (due now) (db_rows db)))"

definition stream_entries :: "string \<Rightarrow> string outbox_row list \<Rightarrow> (string \<times> (string \<times> string) list) list" where
  "stream_entries stream evts = map (\<lambda>r. (stream, stream_values (or_Payload r) r)) evts"

lemma handle_batch_stream:
  assumes "pl_handler p = stream_handler Inr []"
  shows "st_faults x = [] \<Longrightarrow>
    snd (handle_batch err_text p clk evts (db, x)) = x\<lparr>st_log := st_log x @ stream_entries OutboxStreamKey evts\<rparr>"
proof (induction evts arbitrary: clk db x)
  case (Cons evt evts)
  obtain db1 x1 where h: "snd (handleOne err_text p (clk 0) evt (db, x)) = (db1, x1)" by fastforce
  then have x1: "x1 = x\<lparr>st_log := st_log x @ [(OutboxStreamKey, stream_values (or_Payload evt) evt)]\<rparr>"
    using Cons.prems assms
    by (auto simp: handleOne_state stream_handler_def HandleOutboxEvent_def
        NewOutboxForwarder_def stream_XADD_def)
  with Cons.IH [of x1 "clk \<circ> Suc" db1] Cons.prems h show ?case
    by (simp add: stream_entries_def del: comp_apply)
qed (simp add: stream_entries_def)

text \<open>Two pollers that query before either has handled its batch both send every due event of the
  batch: no lock keeps the second from reading the rows of the first, and the stream gets each entry
  twice.\<close>

theorem two_pollers_deliver_twice:
  assumes "pl_handler p = stream_handler Inr []" "0 \<le> pc_BatchSize (pl_cfg p)"
    and "db_faults db = []" "st_faults x = []" "clkA 0 = now" "clkB 0 = now"
  shows "st_log (snd (two_pollers err_text p clkA clkB (db, x)))
           = st_log x @ stream_entries OutboxStreamKey (batch_of p now db)
                      @ stream_entries OutboxStreamKey (batch_of p now db)"
proof -
  let ?b = "batch_of p now db"
  obtain db1 x1 where h: "handle_batch err_text p (clkA \<circ> Suc) ?b (db, x) = (db1, x1)" by fastforce
  with handle_batch_stream [OF assms(1,4), of err_text "clkA \<circ> Suc" ?b db]
  have x1: "x1 = x\<lparr>st_log := st_log x @ stream_entries OutboxStreamKey ?b\<rparr>" by simp
  have q: "OutboxEvent_Query now (pc_BatchSize (pl_cfg p)) db = (Inr ?b, db)"
    using assms(2,3) by (simp add: OutboxEvent_Query_def batch_of_def)
  have "two_pollers err_text p clkA clkB (db, x) = handle_batch err_text p (clkB \<circ> Suc) ?b (db1, x1)"
    unfolding two_pollers_def assms(5,6) fst_conv q by (simp add: q h del: comp_apply)
  moreover have "st_faults x1 = []" using x1 assms(4) by simp
  ultimately show ?thesis
    using handle_batch_stream [OF assms(1), of x1 err_text "clkB \<circ> Suc" ?b db1] x1 by simp
qed

theorem two_pollers_deliver_twice_witness:
  "map fst (st_log (snd (two_pollers (\<lambda>e. []) stream_poller (\<lambda>k. Time 1) (\<lambda>k. Time 1)
      (one_event_table, \<lparr> st_log = [], st_faults = [] \<rparr>)))) = [OutboxStreamKey, OutboxStreamKey]"
  by (subst two_pollers_deliver_twice [where now = "Time 1"])
    (simp_all add: stream_poller_def default_poller_config_def one_event_table_def batch_of_def
      stream_entries_def due_def less_eq_time_def)

end
