(* ===== verification/Utf8.thy ===== *)
theory Utf8
  imports AgentPrelude
begin

text \<open>
  The runes of a Go string, as \<open>for _, r := range s\<close> and \<open>[]rune(s)\<close> read them: the bytes are
  decoded as UTF-8, and a byte that starts no valid encoding is the rune U+FFFD. The tables of the
  package \<open>unicode\<close> are a record of functions on runes.
\<close>

definition bytes_of :: "string \<Rightarrow> nat list" where
  "bytes_of s = map of_char s"

definition RuneError :: nat where
  "RuneError = 65533"

definition within :: "nat \<Rightarrow> nat \<Rightarrow> nat \<Rightarrow> bool" where
  "within lo hi b \<longleftrightarrow> lo \<le> b \<and> b \<le> hi"

definition decode_rune :: "nat list \<Rightarrow> nat \<times> nat" where
  "decode_rune bs =
     (let b0 = bs ! 0; b1 = bs ! 1; b2 = bs ! 2; b3 = bs ! 3; n = length bs
      in if b0 < 128 then (b0, 1)
         else if within 194 223 b0 \<and> 2 \<le> n \<and> within 128 191 b1
         then ((b0 - 192) * 64 + (b1 - 128), 2)
         else if within 224 239 b0 \<and> 3 \<le> n
                 \<and> within (if b0 = 224 then 160 else 128) (if b0 = 237 then 159 else 191) b1
                 \<and> within 128 191 b2
         then ((b0 - 224) * 4096 + (b1 - 128) * 64 + (b2 - 128), 3)
         else if within 240 244 b0 \<and> 4 \<le> n
                 \<and> within (if b0 = 240 then 144 else 128) (if b0 = 244 then 143 else 191) b1
                 \<and> within 128 191 b2 \<and> within 128 191 b3
         then ((b0 - 240) * 262144 + (b1 - 128) * 4096 + (b2 - 128) * 64 + (b3 - 128), 4)
         else (RuneError, 1))"

lemma decode_rune_width: "1 \<le> snd (decode_rune bs)"
  by (simp add: decode_rune_def Let_def)

function decode_runes :: "nat list \<Rightarrow> nat list" where
  "decode_runes bs =
     (if bs = [] then []
      else fst (decode_rune bs) # decode_runes (drop (snd (decode_rune bs)) bs))"
  by pat_completeness auto
termination
proof (relation "measure length")
  fix bs :: "nat list"
  assume "bs \<noteq> []"
  with decode_rune_width [of bs] show "(drop (snd (decode_rune bs)) bs, bs) \<in> measure length"
    by (cases bs) auto
qed simp

declare decode_runes.simps [simp del]

definition runes :: "string \<Rightarrow> nat list" where
  "runes s = decode_runes (bytes_of s)"

lemma runes_Nil [simp]: "runes [] = []"
  by (simp add: runes_def bytes_of_def decode_runes.simps)

lemma runes_empty [simp]: "runes s = [] \<longleftrightarrow> s = []"
  by (simp add: runes_def bytes_of_def decode_runes.simps [of "map of_char s"])

lemma decode_runes_ascii: "\<forall>b \<in> set bs. b < 128 \<Longrightarrow> decode_runes bs = bs"
proof (induction bs)
  case (Cons b bs)
  have "decode_rune (b # bs) = (b, 1)" using Cons.prems by (simp add: decode_rune_def)
  with Cons show ?case by (subst decode_runes.simps) simp
qed (simp add: decode_runes.simps)

lemma runes_ascii: "\<forall>c \<in> set s. of_char c < (128 :: nat) \<Longrightarrow> runes s = map of_char s"
  by (simp add: runes_def bytes_of_def decode_runes_ascii)

record unicode_tables =
  un_ToLower :: "nat \<Rightarrow> nat"
  un_IsLetter :: "nat \<Rightarrow> bool"
  un_IsDigit :: "nat \<Rightarrow> bool"

text \<open>The tables on the runes below 128; other runes are kept and are neither letter nor digit.\<close>

definition ascii_tables :: unicode_tables where
  "ascii_tables =
     \<lparr> un_ToLower = (\<lambda>r. if within 65 90 r then r + 32 else r),
       un_IsLetter = (\<lambda>r. within 65 90 r \<or> within 97 122 r),
       un_IsDigit = within 48 57 \<rparr>"

end
