(* ===== verification/MoltCaptcha.thy ===== *)
theory MoltCaptcha
  imports HttpModel Utf8
begin

text \<open>
  The reverse captcha of \<open>internal/authz/moltcaptcha\<close>: difficulties and challenges with their
  generator (\<open>generator.go\<close>), the stored form (\<open>codec.go\<close>), the verifier (\<open>verifier.go\<close>) and the
  keyword matcher (\<open>semantic.go\<close>). The JSON conversions of the stored form and the tables of the
  package \<open>unicode\<close> are parameters; the 16 random bytes of an id are an argument.
\<close>

section \<open>Difficulties\<close>

abbreviation ErrEmptyTopicPool :: go_error where
  "ErrEmptyTopicPool \<equiv> Sentinel ''moltcaptcha: empty topic pool''"
abbreviation ErrInvalidDifficulty :: go_error where
  "ErrInvalidDifficulty \<equiv> Sentinel ''moltcaptcha: invalid difficulty''"
abbreviation MoltErrStoreUnavailable :: go_error where
  "MoltErrStoreUnavailable \<equiv> Sentinel ''moltcaptcha: challenge store unavailable''"
abbreviation ErrChallengeNotFound :: go_error where
  "ErrChallengeNotFound \<equiv> Sentinel ''moltcaptcha: challenge not found''"

definition DifficultyEasy :: string where "DifficultyEasy = ''easy''"
definition DifficultyMedium :: string where "DifficultyMedium = ''medium''"
definition DifficultyHard :: string where "DifficultyHard = ''hard''"
definition DifficultyExtreme :: string where "DifficultyExtreme = ''extreme''"

lemmas difficulty_defs =
  DifficultyEasy_def DifficultyMedium_def DifficultyHard_def DifficultyExtreme_def

definition AllDifficulties :: "string list" where
  "AllDifficulties = [DifficultyEasy, DifficultyMedium, DifficultyHard, DifficultyExtreme]"

definition Difficulty_Hops :: "string \<Rightarrow> int" where
  "Difficulty_Hops d =
     (if d = DifficultyEasy then 1 else if d = DifficultyMedium then 2
      else if d = DifficultyHard then 3 else if d = DifficultyExtreme then 4 else 0)"

definition Difficulty_TimeLimit :: "string \<Rightarrow> duration" where
  "Difficulty_TimeLimit d =
     (if d = DifficultyEasy then 30 * second else if d = DifficultyMedium then 20 * second
      else if d = DifficultyHard then 15 * second else if d = DifficultyExtreme then 10 * second
      else 0)"

definition Difficulty_IsValid :: "string \<Rightarrow> bool" where
  "Difficulty_IsValid d \<longleftrightarrow> d \<in> set AllDifficulties"

definition ParseDifficulty :: "string \<Rightarrow> go_error + string" where
  "ParseDifficulty s =
     (let d = to_lower (trim_space s)
      in if \<not> Difficulty_IsValid d then Inl (Errorf ''%w: %s'' [ErrInvalidDifficulty]) else Inr d)"

section \<open>Challenges\<close>

record molt_challenge =
  mc_ChallengeID :: string
  mc_Topic :: string
  mc_Difficulty :: string
  mc_Hops :: int
  mc_IssuedAt :: time
  mc_ExpiresAt :: time
  mc_TimeLimit :: duration
  mc_Hints :: "string list"
  mc_PromptTemplate :: string

definition Molt_IsExpired :: "molt_challenge \<Rightarrow> time \<Rightarrow> bool" where
  "Molt_IsExpired c now \<longleftrightarrow> \<not> now < mc_ExpiresAt c"

definition Molt_Remaining :: "molt_challenge \<Rightarrow> time \<Rightarrow> duration" where
  "Molt_Remaining c now = (if Molt_IsExpired c now then 0 else time_sub (mc_ExpiresAt c) now)"

section \<open>The stored form\<close>

record molt_envelope =
  me_Version :: int
  me_ChallengeID :: string
  me_Topic :: string
  me_Difficulty :: string
  me_Hops :: int
  me_IssuedAt :: string
  me_ExpiresAt :: string
  me_TimeLimitNs :: int
  me_Hints :: "string list"
  me_Prompt :: string

record molt_json =
  mj_Marshal :: "molt_envelope \<Rightarrow> string"
  mj_Unmarshal :: "string \<Rightarrow> go_error + molt_envelope"

definition molt_envelope_of :: "molt_challenge \<Rightarrow> molt_envelope" where
  "molt_envelope_of c =
     \<lparr> me_Version = 1, me_ChallengeID = mc_ChallengeID c, me_Topic = mc_Topic c,
       me_Difficulty = mc_Difficulty c, me_Hops = mc_Hops c,
       me_IssuedAt = format_time (mc_IssuedAt c), me_ExpiresAt = format_time (mc_ExpiresAt c),
       me_TimeLimitNs = mc_TimeLimit c, me_Hints = mc_Hints c, me_Prompt = mc_PromptTemplate c \<rparr>"

definition Molt_encodeChallenge :: "molt_json \<Rightarrow> molt_challenge option \<Rightarrow> go_error + string" where
  "Molt_encodeChallenge mj co =
     (case co of
        None \<Rightarrow> Inl (Sentinel ''moltcaptcha: nil challenge'')
      | Some c \<Rightarrow> Inr (mj_Marshal mj (molt_envelope_of c)))"

definition Molt_decodeChallenge :: "molt_json \<Rightarrow> string \<Rightarrow> go_error + molt_challenge" where
  "Molt_decodeChallenge mj data =
     (case mj_Unmarshal mj data of
        Inl e \<Rightarrow> Inl (Errorf ''moltcaptcha: decode: %w'' [e])
      | Inr env \<Rightarrow>
      if me_Version env \<noteq> 1 then Inl (Errorf ''moltcaptcha: unsupported version %d'' [])
      else (case parse_time (me_IssuedAt env) of
        None \<Rightarrow> Inl (Errorf ''moltcaptcha: parse issued_at: %w'' [Sentinel ''time: cannot parse''])
      | Some issued \<Rightarrow>
      (case parse_time (me_ExpiresAt env) of
        None \<Rightarrow> Inl (Errorf ''moltcaptcha: parse expires_at: %w'' [Sentinel ''time: cannot parse''])
      | Some expires \<Rightarrow>
          Inr \<lparr> mc_ChallengeID = me_ChallengeID env, mc_Topic = me_Topic env,
                mc_Difficulty = me_Difficulty env, mc_Hops = me_Hops env, mc_IssuedAt = issued,
                mc_ExpiresAt = expires, mc_TimeLimit = me_TimeLimitNs env,
                mc_Hints = me_Hints env, mc_PromptTemplate = me_Prompt env \<rparr>)))"

text \<open>\<open>strings.ReplaceAll\<close> for a pattern that is not empty.\<close>

function replace_all :: "string \<Rightarrow> string \<Rightarrow> string \<Rightarrow> string" where
  "replace_all old new s =
     (if s = [] \<or> old = [] then s
      else if starts_with old s then new @ replace_all old new (drop (length old) s)
      else hd s # replace_all old new (tl s))"
  by pat_completeness auto
termination
  by (relation "measure (\<lambda>(old, new, s). length s)") auto

declare replace_all.simps [simp del]

definition renderPrompt :: "string \<Rightarrow> string \<Rightarrow> int \<Rightarrow> string" where
  "renderPrompt tpl topic hops =
     replace_all ''{hops}'' (dec_of_int hops) (replace_all ''{topic}'' topic tpl)"

section \<open>Generator\<close>

definition arrow :: string where
  "arrow = [CHR 0xE2, CHR 0x86, CHR 0x92]"

definition defaultEasyPrompt :: string where
  \<open>defaultEasyPrompt = ''Given the topic "{topic}", provide exactly 1 term that is semantically and directly related to it. Respond with a single word/short phrase, no explanation.''\<close>

definition defaultMediumPrompt :: string where
  \<open>defaultMediumPrompt = ''Given the topic "{topic}", provide exactly 2 terms forming a logical chain (topic '' @ arrow @ '' related concept). Format: "term1, term2".''\<close>

definition defaultHardPrompt :: string where
  \<open>defaultHardPrompt = ''Given the topic "{topic}", provide exactly 3 terms forming a deep logical chain. Each term should be a logical extension of the previous. Format: "term1, term2, term3".''\<close>

definition defaultExtremePrompt :: string where
  \<open>defaultExtremePrompt = ''Given the topic "{topic}", provide exactly 4 terms forming a deep multi-hop logical chain. Each subsequent term should be a logical extension of the previous. Format: "term1, term2, term3, term4".''\<close>

definition defaultPromptTemplates :: "(string \<times> string) list" where
  "defaultPromptTemplates =
     [(DifficultyEasy, defaultEasyPrompt), (DifficultyMedium, defaultMediumPrompt),
      (DifficultyHard, defaultHardPrompt), (DifficultyExtreme, defaultExtremePrompt)]"

record 'w molt_config =
  mg_Cache :: "'w kv_cache option"
  mg_DefaultDifficulty :: string
  mg_DefaultTTL :: duration
  mg_TopicPool :: "string list"
  mg_PromptTemplates :: "(string \<times> string) list option"

record 'w molt_generator =
  mo_Cache :: "'w kv_cache"
  mo_DefaultDifficulty :: string
  mo_DefaultTTL :: duration
  mo_TopicPool :: "string list"
  mo_PromptTemplates :: "(string \<times> string) list"

definition NewMoltGenerator :: "'w molt_config \<Rightarrow> go_error + 'w molt_generator" where
  "NewMoltGenerator cfg =
     (case mg_Cache cfg of
        None \<Rightarrow> Inl MoltErrStoreUnavailable
      | Some c \<Rightarrow>
      if mg_TopicPool cfg = [] then Inl ErrEmptyTopicPool
      else
        (let d = (if mg_DefaultDifficulty cfg = [] then DifficultyMedium else mg_DefaultDifficulty cfg)
         in if \<not> Difficulty_IsValid d then Inl (Errorf ''%w: %s'' [ErrInvalidDifficulty])
            else Inr \<lparr> mo_Cache = c, mo_DefaultDifficulty = d,
                       mo_DefaultTTL = (if mg_DefaultTTL cfg \<le> 0 then 30 * second else mg_DefaultTTL cfg),
                       mo_TopicPool = mg_TopicPool cfg,
                       mo_PromptTemplates =
                         (case mg_PromptTemplates cfg of None \<Rightarrow> defaultPromptTemplates | Some t \<Rightarrow> t) \<rparr>))"

text \<open>The sum of the runes wraps like a \<open>uint32\<close>.\<close>

definition pickTopic :: "'w molt_generator \<Rightarrow> string \<Rightarrow> string" where
  "pickTopic g cid =
     (if length (mo_TopicPool g) = 1 then mo_TopicPool g ! 0
      else mo_TopicPool g ! ((sum_list (runes cid) mod 2 ^ 32) mod length (mo_TopicPool g)))"

definition hintsFor :: "string \<Rightarrow> string \<Rightarrow> string list" where
  "hintsFor diff topic =
     [''Topic: '' @ topic,
      ''Difficulty: '' @ diff @ '' ('' @ dec_of_int (Difficulty_Hops diff) @ '' hops)'']
     @ (if diff = DifficultyEasy then [''Provide 1 semantically related term.'']
        else if diff = DifficultyMedium
        then [''Provide 2 terms forming a logical chain (topic '' @ arrow @ '' concept).'']
        else if diff = DifficultyHard then [''Provide 3 terms forming a deep logical chain.'']
        else if diff = DifficultyExtreme then [''Provide 4 terms with strict semantic chain.'']
        else [])"

definition molt_storeKey :: "string \<Rightarrow> string" where
  "molt_storeKey cid = ''mc:challenge:'' @ cid"

definition molt_storeChallenge ::
  "molt_json \<Rightarrow> 'w molt_generator \<Rightarrow> time \<Rightarrow> molt_challenge \<Rightarrow> duration \<Rightarrow> 'w \<Rightarrow> go_error option \<times> 'w" where
  "molt_storeChallenge mj g clock c ttl w =
     (case Molt_encodeChallenge mj (Some c) of
        Inl e \<Rightarrow> (Some e, w)
      | Inr data \<Rightarrow> kc_Set (mo_Cache g) clock (molt_storeKey (mc_ChallengeID c)) data ttl w)"

definition new_molt_challenge :: "'w molt_generator \<Rightarrow> time \<Rightarrow> string \<Rightarrow> string \<Rightarrow> molt_challenge" where
  "new_molt_challenge g now diff cid =
     (let topic = pickTopic g cid in
      \<lparr> mc_ChallengeID = cid, mc_Topic = topic, mc_Difficulty = diff,
        mc_Hops = Difficulty_Hops diff, mc_IssuedAt = now,
        mc_ExpiresAt = time_add now (mo_DefaultTTL g), mc_TimeLimit = Difficulty_TimeLimit diff,
        mc_Hints = hintsFor diff topic,
        mc_PromptTemplate =
          (case map_of (mo_PromptTemplates g) diff of None \<Rightarrow> [] | Some t \<Rightarrow> t) \<rparr>)"

definition GenerateWithDifficulty ::
  "molt_json \<Rightarrow> 'w molt_generator \<Rightarrow> time \<Rightarrow> go_error + string \<Rightarrow> string \<Rightarrow> 'w
     \<Rightarrow> (go_error + molt_challenge) \<times> 'w" where
  "GenerateWithDifficulty mj g now idBytes diff w =
     (if \<not> Difficulty_IsValid diff then (Inl (Errorf ''%w: %s'' [ErrInvalidDifficulty]), w)
      else (case idBytes of
        Inl e \<Rightarrow> (Inl (Errorf ''moltcaptcha: gen id: %w'' [e]), w)
      | Inr ib \<Rightarrow>
          (let c = new_molt_challenge g now diff (hex_encode ib)
           in case molt_storeChallenge mj g now c (mo_DefaultTTL g) w of
                (Some e, w') \<Rightarrow> (Inl e, w')
              | (None, w') \<Rightarrow> (Inr c, w'))))"

definition Molt_Generate ::
  "molt_json \<Rightarrow> 'w molt_generator \<Rightarrow> time \<Rightarrow> go_error + string \<Rightarrow> 'w \<Rightarrow> (go_error + molt_challenge) \<times> 'w" where
  "Molt_Generate mj g now idBytes w =
     GenerateWithDifficulty mj g now idBytes (mo_DefaultDifficulty g) w"

definition Molt_StoreChallenge ::
  "molt_json \<Rightarrow> 'w molt_generator \<Rightarrow> time \<Rightarrow> molt_challenge option \<Rightarrow> 'w \<Rightarrow> go_error option \<times> 'w" where
  "Molt_StoreChallenge mj g clock co w =
     (case co of
        None \<Rightarrow> (Some (Sentinel ''moltcaptcha: nil challenge''), w)
      | Some c \<Rightarrow>
          (let ttl = time_sub (mc_ExpiresAt c) (mc_IssuedAt c)
           in molt_storeChallenge mj g clock c (if ttl \<le> 0 then mo_DefaultTTL g else ttl) w))"

definition Molt_LoadChallenge ::
  "molt_json \<Rightarrow> 'w molt_generator \<Rightarrow> time \<Rightarrow> string \<Rightarrow> 'w \<Rightarrow> go_error + molt_challenge" where
  "Molt_LoadChallenge mj g clock cid w =
     (case kc_Get (mo_Cache g) clock (molt_storeKey cid) w of
        Inl e \<Rightarrow> Inl (if errors_is e ErrMiss then Errorf ''%w: id=%s'' [ErrChallengeNotFound] else e)
      | Inr raw \<Rightarrow> Molt_decodeChallenge mj raw)"

definition Molt_ConsumeChallenge ::
  "molt_json \<Rightarrow> 'w molt_generator \<Rightarrow> time \<Rightarrow> string \<Rightarrow> 'w \<Rightarrow> (go_error + molt_challenge) \<times> 'w" where
  "Molt_ConsumeChallenge mj g clock cid w =
     (case Molt_LoadChallenge mj g clock cid w of
        Inl e \<Rightarrow> (Inl e, w)
      | Inr c \<Rightarrow> (Inr c, snd (kc_Del (mo_Cache g) clock [molt_storeKey cid] w)))"

end
