(* ===== verification/MoltVerifier.thy ===== *)
theory MoltVerifier
  imports MoltCaptcha
begin

text \<open>
  The verifier of the reverse captcha (\<open>verifier.go\<close>), which consumes the challenge and checks the
  words of an answer one rule after the other, and the keyword matcher (\<open>semantic.go\<close>). The lock of
  the matcher is left out; a Go map of keywords is an association list.
\<close>

section \<open>Verifier\<close>

abbreviation ErrInvalidResponse :: go_error where
  "ErrInvalidResponse \<equiv> Sentinel ''moltcaptcha: invalid response''"
abbreviation ErrWordCountMismatch :: go_error where
  "ErrWordCountMismatch \<equiv> Sentinel ''moltcaptcha: word count mismatch''"
abbreviation ErrTotalCharsOutOfRange :: go_error where
  "ErrTotalCharsOutOfRange \<equiv> Sentinel ''moltcaptcha: total chars out of range''"
abbreviation ErrAsciiSumMismatch :: go_error where
  "ErrAsciiSumMismatch \<equiv> Sentinel ''moltcaptcha: ascii sum mismatch''"
abbreviation ErrCharPositionMismatch :: go_error where
  "ErrCharPositionMismatch \<equiv> Sentinel ''moltcaptcha: char position mismatch''"
abbreviation ErrSemanticMismatch :: go_error where
  "ErrSemanticMismatch \<equiv> Sentinel ''moltcaptcha: semantic chain broken''"
abbreviation ErrResponseTooLate :: go_error where
  "ErrResponseTooLate \<equiv> Sentinel ''moltcaptcha: response too late''"

record molt_input =
  mi_ChallengeID :: string
  mi_Words :: "string list"
  mi_SubmittedAt :: time

record molt_output =
  mv_Challenge :: molt_challenge
  mv_ASCII :: int
  mv_TotalChars :: int
  mv_WordCount :: int
  mv_Elapsed :: duration

record 'w molt_verifier =
  ml_Generator :: "'w molt_generator"
  ml_MinWordLen :: int
  ml_MaxWordLen :: int
  ml_TotalCharsMin :: int
  ml_TotalCharsMax :: int
  ml_ASCIIOffset :: int
  ml_SemanticMinOverlap :: int

definition NewMoltVerifier ::
  "'w molt_generator option \<Rightarrow> 'w molt_verifier \<Rightarrow> go_error + 'w molt_verifier" where
  "NewMoltVerifier gen cfg =
     (case gen of
        None \<Rightarrow> Inl (Sentinel ''moltcaptcha: nil generator'')
      | Some g \<Rightarrow>
          Inr (cfg\<lparr>ml_Generator := g,
                    ml_MinWordLen := (if ml_MinWordLen cfg \<le> 0 then 2 else ml_MinWordLen cfg),
                    ml_MaxWordLen := (if ml_MaxWordLen cfg \<le> 0 then 30 else ml_MaxWordLen cfg),
                    ml_SemanticMinOverlap :=
                      (if ml_SemanticMinOverlap cfg \<le> 0 then 1 else ml_SemanticMinOverlap cfg)\<rparr>))"

definition totalCharsMin :: "'w molt_verifier \<Rightarrow> molt_challenge \<Rightarrow> int" where
  "totalCharsMin v c =
     (if 0 < ml_TotalCharsMin v then ml_TotalCharsMin v else s64 (mc_Hops c * ml_MinWordLen v))"

definition totalCharsMax :: "'w molt_verifier \<Rightarrow> molt_challenge \<Rightarrow> int" where
  "totalCharsMax v c =
     (if 0 < ml_TotalCharsMax v then ml_TotalCharsMax v else s64 (mc_Hops c * ml_MaxWordLen v))"

definition rune_sum :: "string \<Rightarrow> int" where
  "rune_sum s = int (sum_list (runes s))"

definition expectedASCIISum :: "'w molt_verifier \<Rightarrow> molt_challenge \<Rightarrow> int" where
  "expectedASCIISum v c = s64 (rune_sum (mc_Topic c) * mc_Hops c + ml_ASCIIOffset v)"

definition caseInsensitiveEqual :: "unicode_tables \<Rightarrow> nat \<Rightarrow> nat \<Rightarrow> bool" where
  "caseInsensitiveEqual u a b \<longleftrightarrow> un_ToLower u a = un_ToLower u b"

definition checkCharPositions :: "unicode_tables \<Rightarrow> molt_challenge \<Rightarrow> string list \<Rightarrow> bool" where
  "checkCharPositions u c words \<longleftrightarrow>
     words \<noteq> []
     \<and> (let topic = trim_space (mc_Topic c);
            rs = runes topic;
            firstWord = runes (trim_space (hd words));
            lastWord = runes (trim_space (last words))
        in topic \<noteq> []
           \<and> firstWord \<noteq> [] \<and> caseInsensitiveEqual u (hd firstWord) (hd rs)
           \<and> lastWord \<noteq> [] \<and> caseInsensitiveEqual u (last lastWord) (last rs))"

definition alnum_runes :: "unicode_tables \<Rightarrow> string \<Rightarrow> nat list" where
  "alnum_runes u s = map (un_ToLower u) (filter (\<lambda>r. un_IsLetter u r \<or> un_IsDigit u r) (runes s))"

text \<open>The second loop of \<open>commonCharCount\<close>: \<open>seen\<close> holds the runes counted so far.\<close>

fun common_loop :: "nat list \<Rightarrow> nat list \<Rightarrow> nat list \<Rightarrow> int \<Rightarrow> int" where
  "common_loop as seen [] count = count"
| "common_loop as seen (lr # rs) count =
     (if lr \<in> set as \<and> lr \<notin> set seen then common_loop as (lr # seen) rs (count + 1)
      else common_loop as seen rs count)"

definition commonCharCount :: "unicode_tables \<Rightarrow> string \<Rightarrow> string \<Rightarrow> int" where
  "commonCharCount u a b = common_loop (alnum_runes u a) [] (alnum_runes u b) 0"

fun checkSemantic :: "unicode_tables \<Rightarrow> int \<Rightarrow> string list \<Rightarrow> bool" where
  "checkSemantic u n (a # b # ws) \<longleftrightarrow> \<not> commonCharCount u a b < n \<and> checkSemantic u n (b # ws)"
| "checkSemantic u n ws \<longleftrightarrow> True"

definition molt_check ::
  "unicode_tables \<Rightarrow> 'w molt_verifier \<Rightarrow> time \<Rightarrow> string list \<Rightarrow> molt_challenge \<Rightarrow> go_error + molt_output" where
  "molt_check u v submitted words c =
     (if Molt_IsExpired c submitted then Inl (Errorf ''%w: at %s'' [ErrResponseTooLate])
      else
        (let elapsed = time_sub submitted (mc_IssuedAt c);
             totalChars = sum_list (map (\<lambda>w. int (length (trim_space w))) words);
             normalized = map trim_space words;
             ascii = s64 (sum_list (map rune_sum normalized))
         in if mc_TimeLimit c < elapsed
            then Inl (Errorf ''%w: elapsed=%v limit=%v'' [ErrResponseTooLate])
            else if int (length words) \<noteq> mc_Hops c
            then Inl (Errorf ''%w: got %d, want %d'' [ErrWordCountMismatch])
            else if totalChars < totalCharsMin v c \<or> totalCharsMax v c < totalChars
            then Inl (Errorf ''%w: got %d, want [%d, %d]'' [ErrTotalCharsOutOfRange])
            else if ascii \<noteq> expectedASCIISum v c
            then Inl (Errorf ''%w: got %d, want %d (offset=%d)'' [ErrAsciiSumMismatch])
            else if \<not> checkCharPositions u c normalized then Inl ErrCharPositionMismatch
            else if \<not> checkSemantic u (ml_SemanticMinOverlap v) normalized then Inl ErrSemanticMismatch
            else Inr \<lparr> mv_Challenge = c, mv_ASCII = ascii, mv_TotalChars = totalChars,
                       mv_WordCount = int (length words), mv_Elapsed = elapsed \<rparr>))"

definition Molt_Verify ::
  "unicode_tables \<Rightarrow> molt_json \<Rightarrow> 'w molt_verifier \<Rightarrow> time \<Rightarrow> molt_input \<Rightarrow> 'w
     \<Rightarrow> (go_error + molt_output) \<times> 'w" where
  "Molt_Verify u mj v clock inp w =
     (if mi_ChallengeID inp = [] then (Inl ErrChallengeNotFound, w)
      else if mi_Words inp = [] then (Inl (Errorf ''%w: empty words'' [ErrInvalidResponse]), w)
      else (case Molt_ConsumeChallenge mj (ml_Generator v) clock (mi_ChallengeID inp) w of
              (Inl e, w') \<Rightarrow> (Inl e, w')
            | (Inr c, w') \<Rightarrow>
                (molt_check u v
                   (if is_zero_time (mi_SubmittedAt inp) then clock else mi_SubmittedAt inp)
                   (mi_Words inp) c, w')))"

section \<open>Matcher\<close>

record molt_matcher =
  mt_words :: "(string \<times> string list) list"
  mt_loaded :: bool

definition cloneKeywords :: "(string \<times> string list) list \<Rightarrow> (string \<times> string list) list" where
  "cloneKeywords src = map (\<lambda>(k, v). (k, v)) src"

definition defaultKeywords :: "(string \<times> string list) list" where
  "defaultKeywords =
    [(''verification'', [''auth'', ''authenticate'', ''check'', ''proof'', ''validate'', ''verify'', ''confirm'', ''attest'', ''credential'']),
     (''authenticity'', [''genuine'', ''real'', ''original'', ''legitimate'', ''trusted'', ''true'', ''sincere'', ''actual'', ''provenance'']),
     (''digital trust'', [''trust'', ''secure'', ''reliable'', ''confident'', ''dependable'', ''warranty'', ''guarantee'', ''faith'', ''integrity'']),
     (''cryptography'', [''cipher'', ''encrypt'', ''decrypt'', ''key'', ''hash'', ''signature'', ''secret'', ''code'', ''algorithm'']),
     (''identity'', [''identifier'', ''self'', ''persona'', ''subject'', ''principal'', ''claim'', ''attestation'', ''did'', ''uuid'']),
     (''algorithms'', [''procedure'', ''method'', ''routine'', ''process'', ''step'', ''logic'', ''function'', ''recipe'', ''computation'']),
     (''neural networks'', [''neuron'', ''layer'', ''perceptron'', ''activation'', ''weight'', ''backprop'', ''deep'', ''model'', ''tensor'']),
     (''computation'', [''compute'', ''calculate'', ''process'', ''execute'', ''evaluate'', ''operate'', ''derive'', ''solve'', ''run'']),
     (''binary'', [''bit'', ''byte'', ''zero'', ''one'', ''true'', ''false'', ''boolean'', ''base-2'', ''digital'']),
     (''protocols'', [''handshake'', ''exchange'', ''negotiation'', ''agreement'', ''standard'', ''specification'', ''rule'', ''format'']),
     (''encryption'', [''cipher'', ''secret'', ''key'', ''lock'', ''scramble'', ''obfuscate'', ''conceal'', ''protect'', ''crypt'']),
     (''tokens'', [''credential'', ''passport'', ''badge'', ''marker'', ''symbol'', ''voucher'', ''coupon'', ''chip'', ''nonce'']),
     (''agents'', [''actor'', ''entity'', ''delegate'', ''proxy'', ''representative'', ''operator'', ''executor'', ''doer'', ''broker'']),
     (''automation'', [''script'', ''bot'', ''machine'', ''robotic'', ''automatic'', ''scheduled'', ''triggered'', ''programmed'', ''systematic'']),
     (''circuits'', [''gate'', ''wire'', ''logic'', ''chip'', ''board'', ''electrical'', ''path'', ''loop'', ''transistor'']),
     (''logic gates'', [''and'', ''or'', ''not'', ''nand'', ''nor'', ''xor'', ''xnor'', ''boolean'', ''truth-table'']),
     (''recursion'', [''self-reference'', ''loop'', ''iterate'', ''recurse'', ''base-case'', ''induction'', ''stack'', ''tree'', ''nested'']),
     (''entropy'', [''randomness'', ''uncertainty'', ''chaos'', ''disorder'', ''information'', ''bits'', ''noise'', ''spread'', ''variance'']),
     (''hashing'', [''digest'', ''fingerprint'', ''checksum'', ''sha'', ''md5'', ''map'', ''bucket'', ''scatter'', ''transform'']),
     (''signatures'', [''seal'', ''mark'', ''sign'', ''endorsement'', ''authorization'', ''approval'', ''handwriting'', ''credential'', ''proof''])]"

definition NewMatcher :: molt_matcher where
  "NewMatcher = \<lparr> mt_words = cloneKeywords defaultKeywords, mt_loaded = True \<rparr>"

definition NewMatcherFromMap :: "(string \<times> string list) list \<Rightarrow> molt_matcher" where
  "NewMatcherFromMap m = \<lparr> mt_words = cloneKeywords m, mt_loaded = True \<rparr>"

definition Matcher_Load :: "(string \<times> string list) list \<Rightarrow> molt_matcher \<Rightarrow> molt_matcher" where
  "Matcher_Load ws m = m\<lparr>mt_words := cloneKeywords ws, mt_loaded := True\<rparr>"

definition Matcher_Size :: "molt_matcher \<Rightarrow> int" where
  "Matcher_Size m = int (length (mt_words m))"

definition topic_keywords :: "molt_matcher \<Rightarrow> string \<Rightarrow> string list option" where
  "topic_keywords m topic = map_of (mt_words m) (to_lower (trim_space topic))"

definition KeywordsFor :: "molt_matcher \<Rightarrow> string \<Rightarrow> string list" where
  "KeywordsFor m topic = (case topic_keywords m topic of None \<Rightarrow> [] | Some k \<Rightarrow> k)"

definition Matcher_Topics :: "molt_matcher \<Rightarrow> string list" where
  "Matcher_Topics m = map fst (mt_words m)"

fun any_word :: "string list \<Rightarrow> string list \<Rightarrow> bool \<times> string" where
  "any_word kw [] = (False, [])"
| "any_word kw (w # ws) =
     (case find (contains (to_lower w)) kw of Some k \<Rightarrow> (True, k) | None \<Rightarrow> any_word kw ws)"

definition ContainsAny :: "molt_matcher \<Rightarrow> string list \<Rightarrow> string \<Rightarrow> bool \<times> string" where
  "ContainsAny m answer topic =
     (case topic_keywords m topic of None \<Rightarrow> (False, []) | Some kw \<Rightarrow> any_word kw answer)"

fun join_space :: "string list \<Rightarrow> string" where
  "join_space [] = []"
| "join_space [w] = w"
| "join_space (w # ws) = w @ '' '' @ join_space ws"

definition ContainsAll :: "molt_matcher \<Rightarrow> string list \<Rightarrow> string \<Rightarrow> bool" where
  "ContainsAll m answer topic =
     (case topic_keywords m topic of None \<Rightarrow> False
      | Some kw \<Rightarrow> (let combined = to_lower (join_space answer) in list_all (contains combined) kw))"

definition MatchCount :: "molt_matcher \<Rightarrow> string list \<Rightarrow> string \<Rightarrow> int" where
  "MatchCount m answer topic =
     (case topic_keywords m topic of None \<Rightarrow> 0
      | Some kw \<Rightarrow>
          (let combined = to_lower (join_space answer)
           in foldl (\<lambda>count k. if contains combined k then count + 1 else count) 0 kw))"

definition MatchedKeywords :: "molt_matcher \<Rightarrow> string list \<Rightarrow> string \<Rightarrow> string list" where
  "MatchedKeywords m answer topic =
     (case topic_keywords m topic of None \<Rightarrow> []
      | Some kw \<Rightarrow> (let combined = to_lower (join_space answer) in filter (contains combined) kw))"

end
