(* ===== verification/MoltRules.thy ===== *)
theory MoltRules
  imports MoltVerifier AapRules
begin

text \<open>
  What the reverse captcha shows. An accepted answer obeys every rule and has used its challenge up.
  But the rules are met by repeating the topic: the answer that writes the topic once per hop is
  accepted whatever the topic, so that no reasoning is proved. The views of the keyword matcher agree,
  and a topic stored with a capital letter is never found.
\<close>

section \<open>Counting common characters\<close>

lemma common_loop_card:
  "common_loop as seen rs n = n + int (card (set rs \<inter> set as - set seen))"
proof (induction rs arbitrary: seen n)
  case (Cons r rs)
  have split: "set (r # rs) \<inter> set as - set seen =
    (if r \<in> set as \<and> r \<notin> set seen then insert r (set rs \<inter> set as - set (r # seen))
     else set rs \<inter> set as - set seen)" by auto
  show ?case
  proof (cases "r \<in> set as \<and> r \<notin> set seen")
    case True
    with split have "card (set (r # rs) \<inter> set as - set seen) =
        Suc (card (set rs \<inter> set as - set (r # seen)))" by simp
    with True Cons.IH [of "r # seen" "n + 1"] show ?thesis by simp
  next
    case False
    with split have "set (r # rs) \<inter> set as - set seen = set rs \<inter> set as - set seen" by simp
    with False Cons.IH [of seen n] show ?thesis by auto
  qed
qed simp

lemma commonCharCount_card:
  "commonCharCount u a b = int (card (set (alnum_runes u b) \<inter> set (alnum_runes u a)))"
  by (simp add: commonCharCount_def common_loop_card)

lemma commonCharCount_commute: "commonCharCount u a b = commonCharCount u b a"
  by (simp add: commonCharCount_card Int_commute)

lemma checkSemantic_replicate:
  "n \<le> commonCharCount u a a \<Longrightarrow> checkSemantic u n (replicate k a)"
proof (induction k)
  case (Suc k)
  then show ?case by (cases k) simp_all
qed simp

lemma checkSemantic_iff:
  "checkSemantic u n ws \<longleftrightarrow> (\<forall>i. Suc i < length ws \<longrightarrow> n \<le> commonCharCount u (ws ! i) (ws ! Suc i))"
proof (induction u n ws rule: checkSemantic.induct)
  case (1 u n a b ws)
  have "(\<forall>i. Suc i < length (a # b # ws) \<longrightarrow> n \<le> commonCharCount u ((a # b # ws) ! i) ((a # b # ws) ! Suc i))
    \<longleftrightarrow> n \<le> commonCharCount u a b
        \<and> (\<forall>i. Suc i < length (b # ws) \<longrightarrow> n \<le> commonCharCount u ((b # ws) ! i) ((b # ws) ! Suc i))"
    by (auto simp: nth_Cons split: nat.splits)
  with 1 show ?case by (simp add: not_less)
qed simp_all

section \<open>What an accepted answer shows\<close>

text \<open>C17: An answer is accepted only when its challenge was stored and has not expired; when the answer
  came within the time limit and has as many words as hops; when the lengths and the rune sum of
  the words are as required; when the first word begins and the last word ends
  like the topic; and when neighbouring words share enough letters and digits. The call asks the cache
  once to delete the challenge and does not look at the answer: if the cache confirms, the challenge
  is gone, otherwise it may stay.\<close>

theorem molt_verify_sound:
  assumes "Molt_Verify u mj v clock inp w = (Inr out, w')"
    and "sub = (if is_zero_time (mi_SubmittedAt inp) then clock else mi_SubmittedAt inp)"
    and "ws = map trim_space (mi_Words inp)"
  shows "\<exists>c. Molt_LoadChallenge mj (ml_Generator v) clock (mi_ChallengeID inp) w = Inr c
    \<and> used_up (mo_Cache (ml_Generator v)) clock (molt_storeKey (mi_ChallengeID inp)) w w'
    \<and> sub < mc_ExpiresAt c \<and> time_sub sub (mc_IssuedAt c) \<le> mc_TimeLimit c
    \<and> int (length ws) = mc_Hops c
    \<and> totalCharsMin v c \<le> sum_list (map (\<lambda>x. int (length x)) ws)
    \<and> sum_list (map (\<lambda>x. int (length x)) ws) \<le> totalCharsMax v c
    \<and> s64 (sum_list (map rune_sum ws)) = expectedASCIISum v c
    \<and> un_ToLower u (hd (runes (trim_space (hd ws)))) = un_ToLower u (hd (runes (trim_space (mc_Topic c))))
    \<and> un_ToLower u (last (runes (trim_space (last ws)))) = un_ToLower u (last (runes (trim_space (mc_Topic c))))
    \<and> (\<forall>i. Suc i < length ws \<longrightarrow>
          ml_SemanticMinOverlap v \<le> int (card (set (alnum_runes u (ws ! i)) \<inter> set (alnum_runes u (ws ! Suc i)))))
    \<and> mv_Challenge out = c"
proof -
  from assms(1) obtain c where load: "Molt_LoadChallenge mj (ml_Generator v) clock (mi_ChallengeID inp) w = Inr c"
    and w': "w' = snd (kc_Del (mo_Cache (ml_Generator v)) clock [molt_storeKey (mi_ChallengeID inp)] w)"
    and chk: "molt_check u v sub (mi_Words inp) c = Inr out"
    by (auto simp: Molt_Verify_def Molt_ConsumeChallenge_def assms(2) split: if_splits sum.splits)
  have sem: "checkSemantic u (ml_SemanticMinOverlap v) ws"
    and pos: "checkCharPositions u c ws"
    using chk by (auto simp: molt_check_def Let_def assms(3) split: if_splits)
  have "\<forall>i. Suc i < length ws \<longrightarrow>
      ml_SemanticMinOverlap v \<le> int (card (set (alnum_runes u (ws ! i)) \<inter> set (alnum_runes u (ws ! Suc i))))"
    using sem unfolding checkSemantic_iff commonCharCount_card by (simp add: Int_commute)
  moreover have "un_ToLower u (hd (runes (trim_space (hd ws)))) = un_ToLower u (hd (runes (trim_space (mc_Topic c))))"
    "un_ToLower u (last (runes (trim_space (last ws)))) = un_ToLower u (last (runes (trim_space (mc_Topic c))))"
    using pos by (auto simp: checkCharPositions_def caseInsensitiveEqual_def Let_def)
  moreover have "sub < mc_ExpiresAt c" "time_sub sub (mc_IssuedAt c) \<le> mc_TimeLimit c"
    "int (length ws) = mc_Hops c"
    "totalCharsMin v c \<le> sum_list (map (\<lambda>x. int (length x)) ws)"
    "sum_list (map (\<lambda>x. int (length x)) ws) \<le> totalCharsMax v c"
    "s64 (sum_list (map rune_sum ws)) = expectedASCIISum v c" "mv_Challenge out = c"
    using chk by (auto simp: molt_check_def Let_def assms(3) Molt_IsExpired_def comp_def split: if_splits)
  ultimately show ?thesis using load used_upI [OF w'] by blast
qed

section \<open>Repeating the topic\<close>

definition echo_input :: "molt_challenge \<Rightarrow> time \<Rightarrow> molt_input" where
  "echo_input c t =
     \<lparr> mi_ChallengeID = mc_ChallengeID c,
       mi_Words = replicate (nat (mc_Hops c)) (mc_Topic c), mi_SubmittedAt = t \<rparr>"

definition echo_fits :: "unicode_tables \<Rightarrow> 'w molt_verifier \<Rightarrow> string \<Rightarrow> bool" where
  "echo_fits u v topic \<longleftrightarrow>
     topic \<noteq> [] \<and> trim_space topic = topic
     \<and> ml_MinWordLen v \<le> int (length topic) \<and> int (length topic) \<le> ml_MaxWordLen v
     \<and> 0 \<le> ml_MinWordLen v \<and> ml_MaxWordLen v < 2 ^ 60
     \<and> ml_TotalCharsMin v = 0 \<and> ml_TotalCharsMax v = 0 \<and> ml_ASCIIOffset v = 0
     \<and> ml_SemanticMinOverlap v \<le> int (card (set (alnum_runes u topic)))"

lemma echo_check:
  assumes "echo_fits u v (mc_Topic c)" "1 \<le> mc_Hops c" "mc_Hops c \<le> 4"
    "t < mc_ExpiresAt c" "time_sub t (mc_IssuedAt c) \<le> mc_TimeLimit c"
  shows "\<exists>out. molt_check u v t (replicate (nat (mc_Hops c)) (mc_Topic c)) c = Inr out"
proof -
  let ?n = "nat (mc_Hops c)" and ?t = "mc_Topic c"
  have n: "?n \<noteq> 0" "int ?n = mc_Hops c" using assms(2) by auto
  have tr: "trim_space ?t = ?t" "?t \<noteq> []" using assms(1) by (auto simp: echo_fits_def)
  have norm: "map trim_space (replicate ?n ?t) = replicate ?n ?t" by (simp add: tr)
  have total: "sum_list (map (\<lambda>w. int (length (trim_space w))) (replicate ?n ?t)) = mc_Hops c * int (length ?t)"
    using n by (simp add: tr sum_list_replicate)
  have small: "mc_Hops c * ml_MaxWordLen v < 2 ^ 63" "0 \<le> ml_MaxWordLen v"
    "mc_Hops c * ml_MinWordLen v \<le> mc_Hops c * ml_MaxWordLen v" "0 \<le> mc_Hops c * ml_MinWordLen v"
  proof -
    show m: "0 \<le> ml_MaxWordLen v" using assms(1) by (auto simp: echo_fits_def)
    then have "mc_Hops c * ml_MaxWordLen v \<le> 4 * ml_MaxWordLen v"
      using assms(3) by (intro mult_right_mono) simp_all
    with assms(1) show "mc_Hops c * ml_MaxWordLen v < 2 ^ 63" by (simp add: echo_fits_def)
    show "mc_Hops c * ml_MinWordLen v \<le> mc_Hops c * ml_MaxWordLen v"
      using assms(1,2) by (intro mult_left_mono) (auto simp: echo_fits_def)
    show "0 \<le> mc_Hops c * ml_MinWordLen v" using assms(1,2) by (simp add: echo_fits_def)
  qed
  have lo: "totalCharsMin v c = mc_Hops c * ml_MinWordLen v"
    using assms(1) small by (simp add: totalCharsMin_def echo_fits_def)
  have "0 \<le> mc_Hops c * ml_MaxWordLen v" using small(3,4) by linarith
  then have hi: "totalCharsMax v c = mc_Hops c * ml_MaxWordLen v"
    using assms(1) small(1) by (simp add: totalCharsMax_def echo_fits_def)
  have bounds: "totalCharsMin v c \<le> mc_Hops c * int (length ?t)" "mc_Hops c * int (length ?t) \<le> totalCharsMax v c"
    unfolding lo hi using assms(1,2) by (auto simp: echo_fits_def intro!: mult_left_mono)
  have asc: "s64 (sum_list (map rune_sum (replicate ?n ?t))) = expectedASCIISum v c"
    using n assms(1) by (simp add: expectedASCIISum_def sum_list_replicate echo_fits_def mult.commute)
  have pos: "checkCharPositions u c (replicate ?n ?t)"
    using n tr by (simp add: checkCharPositions_def Let_def caseInsensitiveEqual_def)
  have sem: "checkSemantic u (ml_SemanticMinOverlap v) (replicate ?n ?t)"
    by (rule checkSemantic_replicate) (use assms(1) in \<open>simp add: commonCharCount_card echo_fits_def\<close>)
  show ?thesis
    using assms(4,5) n bounds asc pos sem
    unfolding molt_check_def Let_def norm total Molt_IsExpired_def by (simp add: not_less)
qed

lemma molt_decode_encode:
  assumes "mj_Unmarshal mj (mj_Marshal mj (molt_envelope_of c)) = Inr (molt_envelope_of c)"
    and "in_calendar (mc_IssuedAt c)" "in_calendar (mc_ExpiresAt c)"
  shows "Molt_decodeChallenge mj (mj_Marshal mj (molt_envelope_of c)) = Inr c"
  using assms by (simp add: Molt_decodeChallenge_def molt_envelope_of_def parse_format_time)

lemma generated_molt_loads:
  assumes "redis_laws r look" and "mo_Cache g = redisCache r" and "1000000 \<le> mo_DefaultTTL g"
    and "GenerateWithDifficulty mj g t0 (Inr ib) diff w = (Inr c, w1)"
    and "mj_Unmarshal mj (mj_Marshal mj (molt_envelope_of c)) = Inr (molt_envelope_of c)"
    and "in_calendar t0" "in_calendar (time_add t0 (mo_DefaultTTL g))"
    and "t0 \<le> t" "t < time_add t0 (ttl_ms (mo_DefaultTTL g))"
    and "kc_Get (redisCache r) t (molt_storeKey (mc_ChallengeID c)) w1 = Inr raw"
  shows "c = new_molt_challenge g t0 diff (hex_encode ib)" "Difficulty_IsValid diff"
    "Molt_LoadChallenge mj g t (mc_ChallengeID c) w1 = Inr c"
proof -
  note ec = redis_cache_expiring [OF assms(1)]
  from assms(4) show c: "c = new_molt_challenge g t0 diff (hex_encode ib)" and d: "Difficulty_IsValid diff"
    by (auto simp: GenerateWithDifficulty_def Let_def split: if_splits prod.splits option.splits)
  from assms(4) c d have s: "kc_Set (redisCache r) t0 (molt_storeKey (mc_ChallengeID c))
      (mj_Marshal mj (molt_envelope_of c)) (mo_DefaultTTL g) w = (None, w1)"
    using assms(2) by (auto simp: GenerateWithDifficulty_def Let_def molt_storeChallenge_def
        Molt_encodeChallenge_def split: prod.splits option.splits)
  from expiring_cache.set_then_get [OF ec s _ assms(8,9,10)] assms(3)
  have "raw = mj_Marshal mj (molt_envelope_of c)" by simp
  moreover have "in_calendar (mc_IssuedAt c)" "in_calendar (mc_ExpiresAt c)"
    using assms(6,7) by (simp_all add: c new_molt_challenge_def Let_def)
  ultimately show "Molt_LoadChallenge mj g t (mc_ChallengeID c) w1 = Inr c"
    using assms(2,5,10) molt_decode_encode [of mj c] by (simp add: Molt_LoadChallenge_def)
qed

text \<open>C35: The captcha proves no reasoning: a program that writes the topic once per hop is accepted. It
  generates no words of its own; it only needs a verifier without an offset and with the default
  totals, and a topic that is as long as a word may be and has enough different letters or digits
  for the overlap. This holds for every difficulty and every topic of the pool, over any server with
  the documented behaviour of Redis, while the server keeps the challenge and answers.\<close>

theorem molt_echo_accepted:
  assumes "redis_laws r look" and "mo_Cache g = redisCache r" and "1000000 \<le> mo_DefaultTTL g"
    and "GenerateWithDifficulty mj g t0 (Inr ib) diff w = (Inr c, w1)" and "ib \<noteq> []"
    and "mj_Unmarshal mj (mj_Marshal mj (molt_envelope_of c)) = Inr (molt_envelope_of c)"
    and "in_calendar t0" "in_calendar (time_add t0 (mo_DefaultTTL g))"
    and "t0 \<le> t" "t < time_add t0 (ttl_ms (mo_DefaultTTL g))" "time_sub t t0 \<le> Difficulty_TimeLimit diff"
    and "kc_Get (redisCache r) t (molt_storeKey (mc_ChallengeID c)) w1 = Inr raw"
    and "ml_Generator v = g" and "echo_fits u v (mc_Topic c)"
  shows "\<exists>out w2. Molt_Verify u mj v t (echo_input c t) w1 = (Inr out, w2) \<and> mv_Challenge out = c"
proof -
  note g = generated_molt_loads [OF assms(1-4,6-10,12)]
  have hops: "mc_Hops c = Difficulty_Hops diff" "mc_IssuedAt c = t0"
    "mc_TimeLimit c = Difficulty_TimeLimit diff" "mc_ChallengeID c = hex_encode ib"
    "mc_ExpiresAt c = time_add t0 (mo_DefaultTTL g)"
    by (simp_all add: g(1) new_molt_challenge_def Let_def)
  have range: "1 \<le> mc_Hops c" "mc_Hops c \<le> 4"
    using g(2) by (auto simp: hops Difficulty_IsValid_def AllDifficulties_def Difficulty_Hops_def difficulty_defs)
  have "time_add t0 (ttl_ms (mo_DefaultTTL g)) \<le> mc_ExpiresAt c"
    using ttl_ms_le [OF assms(3)] by (simp add: hops less_eq_time_def)
  with assms(10) have "t < mc_ExpiresAt c" by simp
  from echo_check [OF assms(14) range this] assms(11) hops
  obtain out where out: "molt_check u v t (replicate (nat (mc_Hops c)) (mc_Topic c)) c = Inr out" by auto
  have "hex_encode ib \<noteq> []" using assms(5) by simp
  moreover have "replicate (nat (mc_Hops c)) (mc_Topic c) \<noteq> []" using range by auto
  moreover have "mv_Challenge out = c"
    using out by (auto simp: molt_check_def Let_def split: if_splits)
  ultimately show ?thesis
    using out g(3) assms(13) hops(4)
    by (simp add: Molt_Verify_def Molt_ConsumeChallenge_def echo_input_def)
qed

text \<open>A generator with one topic, on the concrete server.\<close>

definition molt_sample_generator :: "redis_state molt_generator" where
  "molt_sample_generator =
     \<lparr> mo_Cache = redisCache redis_server, mo_DefaultDifficulty = ''medium'', mo_DefaultTTL = 30 * second,
       mo_TopicPool = [''tokens''], mo_PromptTemplates = defaultPromptTemplates \<rparr>"

definition molt_sample_challenge :: molt_challenge where
  "molt_sample_challenge =
     new_molt_challenge molt_sample_generator start_time ''extreme'' (hex_encode (replicate 16 (CHR ''i'')))"

definition molt_sample_json :: molt_json where
  "molt_sample_json =
     \<lparr> mj_Marshal = (\<lambda>e. ''challenge''), mj_Unmarshal = (\<lambda>s. Inr (molt_envelope_of molt_sample_challenge)) \<rparr>"

definition molt_sample_verifier :: "redis_state molt_verifier" where
  "molt_sample_verifier =
     \<lparr> ml_Generator = molt_sample_generator, ml_MinWordLen = 2, ml_MaxWordLen = 30, ml_TotalCharsMin = 0,
       ml_TotalCharsMax = 0, ml_ASCIIOffset = 0, ml_SemanticMinOverlap = 1 \<rparr>"

definition molt_sample_store :: redis_state where
  "molt_sample_store = [(molt_storeKey (mc_ChallengeID molt_sample_challenge), ''challenge'',
     Some (time_add start_time (30 * second)))]"

lemma molt_sample_fields [simp]:
  "mo_Cache molt_sample_generator = redisCache redis_server"
  "mo_DefaultTTL molt_sample_generator = 30 * second"
  "ml_Generator molt_sample_verifier = molt_sample_generator"
  "mc_Topic molt_sample_challenge = ''tokens''"
  by (simp_all add: molt_sample_generator_def molt_sample_verifier_def molt_sample_challenge_def
      new_molt_challenge_def pickTopic_def Let_def)

lemma molt_sample_generated:
  "GenerateWithDifficulty molt_sample_json molt_sample_generator start_time
     (Inr (replicate 16 (CHR ''i''))) ''extreme'' [] = (Inr molt_sample_challenge, molt_sample_store)"
proof -
  have "molt_storeChallenge molt_sample_json molt_sample_generator start_time molt_sample_challenge
      (30 * second) [] = (None, molt_sample_store)"
    by (simp add: molt_storeChallenge_def Molt_encodeChallenge_def molt_sample_json_def
        molt_sample_generator_def redisCache_def redis_server_def ttl_ms_def molt_sample_store_def)
  then show ?thesis
    unfolding GenerateWithDifficulty_def
    by (simp add: Let_def Difficulty_IsValid_def AllDifficulties_def difficulty_defs
        flip: molt_sample_challenge_def)
qed

lemma molt_sample_fits: "echo_fits ascii_tables molt_sample_verifier ''tokens''"
proof -
  have r: "runes ''tokens'' = [116, 111, 107, 101, 110, 115]"
    by (subst runes_ascii) auto
  have t: "trim_space ''tokens'' = ''tokens''"
    by (rule trim_space_keep) (auto simp: blank_byte_def space_runes_def)
  show ?thesis
    by (simp add: echo_fits_def t molt_sample_verifier_def alnum_runes_def r ascii_tables_def within_def
        card_insert_if)
qed

theorem molt_echo_accepted_witness:
  "\<exists>out w2. Molt_Verify ascii_tables molt_sample_json molt_sample_verifier answer_time
       (echo_input molt_sample_challenge answer_time) molt_sample_store = (Inr out, w2)
     \<and> mv_Challenge out = molt_sample_challenge"
proof (rule molt_echo_accepted [OF redis_server_laws _ _ molt_sample_generated])
  show "echo_fits ascii_tables molt_sample_verifier (mc_Topic molt_sample_challenge)"
    using molt_sample_fits by simp
  show "kc_Get (redisCache redis_server) answer_time (molt_storeKey (mc_ChallengeID molt_sample_challenge))
      molt_sample_store = Inr ''challenge''"
    using sample_times(4)
    by (simp add: redisCache_def redis_Get_def redis_server_def redis_look_def molt_sample_store_def
        live_def ttl_ms_def)
qed (use sample_times in \<open>simp_all add: molt_sample_json_def Difficulty_TimeLimit_def difficulty_defs\<close>)

text \<open>The same answer shows that acceptance is possible at all.\<close>

theorem molt_verify_sound_witness:
  "\<exists>c. Molt_LoadChallenge molt_sample_json molt_sample_generator answer_time
         (mc_ChallengeID molt_sample_challenge) molt_sample_store = Inr c \<and> mc_Hops c = 4"
proof -
  have "\<exists>out. molt_check ascii_tables molt_sample_verifier answer_time
      (replicate (nat (mc_Hops molt_sample_challenge)) (mc_Topic molt_sample_challenge)) molt_sample_challenge
      = Inr out"
    by (rule echo_check)
      (use molt_sample_fits sample_times in \<open>simp_all add: molt_sample_challenge_def new_molt_challenge_def
        Let_def Difficulty_Hops_def Difficulty_TimeLimit_def difficulty_defs pickTopic_def
        molt_sample_generator_def ttl_ms_def\<close>)
  then obtain out where out: "molt_check ascii_tables molt_sample_verifier answer_time
      (replicate (nat (mc_Hops molt_sample_challenge)) (mc_Topic molt_sample_challenge)) molt_sample_challenge
      = Inr out" ..
  have load: "Molt_LoadChallenge molt_sample_json molt_sample_generator answer_time
      (mc_ChallengeID molt_sample_challenge) molt_sample_store = Inr molt_sample_challenge"
    by (rule generated_molt_loads(3) [OF redis_server_laws _ _ molt_sample_generated, where raw = "''challenge''"])
      (use sample_times in \<open>simp_all add: molt_sample_json_def redisCache_def redis_Get_def
        redis_server_def redis_look_def molt_sample_store_def live_def ttl_ms_def\<close>)
  have cid: "mc_ChallengeID molt_sample_challenge \<noteq> []"
    by (simp add: molt_sample_challenge_def new_molt_challenge_def Let_def)
  have hops: "mc_Hops molt_sample_challenge = 4"
    by (simp add: molt_sample_challenge_def new_molt_challenge_def Let_def Difficulty_Hops_def difficulty_defs)
  obtain w2 where acc: "Molt_Verify ascii_tables molt_sample_json molt_sample_verifier answer_time
      (echo_input molt_sample_challenge answer_time) molt_sample_store = (Inr out, w2)"
    using out load cid hops
    by (auto simp: Molt_Verify_def Molt_ConsumeChallenge_def echo_input_def)
  from molt_verify_sound [OF acc refl refl] load hops show ?thesis
    by (auto simp: echo_input_def)
qed

section \<open>The views of the matcher\<close>

lemma str_index_iff: "str_index p s \<noteq> None \<longleftrightarrow> (\<exists>a b. s = a @ p @ b)"
proof (induction s)
  case (Cons c s)
  show ?case
  proof (cases "starts_with p (c # s)")
    case True
    then have "c # s = [] @ p @ drop (length p) (c # s)"
      unfolding starts_with_def by (metis append_Nil append_take_drop_id)
    with True show ?thesis by (metis option.distinct(1) str_index.simps(2))
  next
    case False
    have "(\<exists>a b. c # s = a @ p @ b) \<longleftrightarrow> (\<exists>a b. s = a @ p @ b)"
    proof
      assume "\<exists>a b. c # s = a @ p @ b"
      then obtain a b where ab: "c # s = a @ p @ b" by blast
      with False have "a \<noteq> []" by (auto simp: starts_with_def)
      with ab show "\<exists>a b. s = a @ p @ b" by (cases a) auto
    next
      assume "\<exists>a b. s = a @ p @ b"
      then show "\<exists>a b. c # s = a @ p @ b" by (metis append_Cons)
    qed
    with False Cons show ?thesis by simp
  qed
qed simp

lemma contains_within: "contains s p \<Longrightarrow> contains (a @ s @ b) p"
  unfolding contains_def str_index_iff by (metis append.assoc)

lemma to_lower_space: "to_lower (w @ CHR '' '' # s) = to_lower w @ CHR '' '' # to_lower s"
proof (induction w rule: to_lower.induct)
  case (2 c w)
  have hd: "hd (w @ CHR '' '' # s) = (if w = [] then CHR '' '' else hd w)" by simp
  have tl: "w \<noteq> [] \<Longrightarrow> tl (w @ CHR '' '' # s) = tl w @ CHR '' '' # s" by simp
  have tk: "take 2 (w @ CHR '' '' # s) = [CHR 0x84, CHR 0xAA] \<longleftrightarrow> take 2 w = [CHR 0x84, CHR 0xAA]"
    by (cases w; cases "tl w") auto
  have dr: "take 2 w = [CHR 0x84, CHR 0xAA] \<Longrightarrow> drop 2 (w @ CHR '' '' # s) = drop 2 w @ CHR '' '' # s"
    by (cases w; cases "tl w") auto
  show ?case
  proof (cases "c = CHR 0xC4 \<and> w \<noteq> [] \<and> hd w = CHR 0xB0")
    case True
    with 2(1) show ?thesis by simp
  next
    case no1: False
    show ?thesis
    proof (cases "c = CHR 0xE2 \<and> take 2 w = [CHR 0x84, CHR 0xAA]")
      case True
      with 2(2) no1 tk dr show ?thesis by simp
    next
      case no2: False
      with 2(3) no1 tk hd show ?thesis by (auto simp: Let_def)
    qed
  qed
qed simp

lemma word_in_join:
  assumes "w \<in> set ws" "contains (to_lower w) k"
  shows "contains (to_lower (join_space ws)) k"
  using assms
proof (induction ws rule: join_space.induct)
  case (3 w' x ws)
  have j: "to_lower (join_space (w' # x # ws)) = to_lower w' @ CHR '' '' # to_lower (join_space (x # ws))"
    by (simp add: to_lower_space)
  show ?case
  proof (cases "w = w'")
    case True
    with contains_within [OF 3(3), of "[]" "CHR '' '' # to_lower (join_space (x # ws))"] j show ?thesis
      by simp
  next
    case False
    with 3 have "contains (to_lower (join_space (x # ws))) k" by simp
    from contains_within [OF this, of "to_lower w' @ '' ''" "[]"] j show ?thesis by simp
  qed
qed simp_all

lemma any_word_found: "any_word kw ws = (True, k) \<Longrightarrow> k \<in> set kw \<and> (\<exists>w \<in> set ws. contains (to_lower w) k)"
  by (induction kw ws rule: any_word.induct) (auto split: option.splits simp: find_Some_iff)

lemma count_loop: "foldl (\<lambda>count k. if P k then count + 1 else count) (n :: int) ks = n + int (length (filter P ks))"
  by (induction ks arbitrary: n) auto

text \<open>The views of the matcher agree: the count is the number of matched keywords, all keywords are
  contained exactly when all of a known topic match, and a keyword that \<open>ContainsAny\<close> reports is among
  the matched ones, so that the count is positive.\<close>

theorem matcher_views_agree:
  "MatchCount m answer topic = int (length (MatchedKeywords m answer topic))
   \<and> (ContainsAll m answer topic \<longleftrightarrow>
        topic_keywords m topic \<noteq> None \<and> MatchedKeywords m answer topic = KeywordsFor m topic)
   \<and> (ContainsAny m answer topic = (True, k) \<longrightarrow>
        k \<in> set (MatchedKeywords m answer topic) \<and> 0 < MatchCount m answer topic)"
proof (cases "topic_keywords m topic")
  case None
  then show ?thesis
    by (simp add: MatchCount_def MatchedKeywords_def ContainsAll_def ContainsAny_def)
next
  case (Some kw)
  define comb where "comb = to_lower (join_space answer)"
  have m: "MatchedKeywords m answer topic = filter (contains comb) kw"
    and n: "MatchCount m answer topic = int (length (filter (contains comb) kw))"
    and a: "ContainsAll m answer topic \<longleftrightarrow> list_all (contains comb) kw"
    and y: "ContainsAny m answer topic = any_word kw answer"
    using Some by (simp_all add: MatchedKeywords_def MatchCount_def ContainsAll_def ContainsAny_def
        Let_def comb_def count_loop)
  have "k \<in> set (filter (contains comb) kw)" if "any_word kw answer = (True, k)"
    using any_word_found [OF that] word_in_join unfolding comb_def by auto
  moreover have "0 < int (length (filter (contains comb) kw))" if "k \<in> set (filter (contains comb) kw)"
    using that by (cases "filter (contains comb) kw") simp_all
  ultimately show ?thesis
    using Some unfolding m n a y KeywordsFor_def by (auto simp: list_all_iff filter_id_conv)
qed

theorem matcher_views_agree_witness:
  "ContainsAny NewMatcher [''handshakes''] ''protocols'' = (True, ''handshake'')
   \<and> 0 < MatchCount NewMatcher [''handshakes''] ''protocols''"
proof -
  have t: "trim_space ''protocols'' = ''protocols''"
    by (rule trim_space_keep) (auto simp: blank_byte_def space_runes_def)
  have l: "to_lower ''protocols'' = ''protocols''" "to_lower ''handshakes'' = ''handshakes''"
    by (simp_all add: Let_def)
  have kw: "topic_keywords NewMatcher ''protocols'' = Some [''handshake'', ''exchange'', ''negotiation'',
      ''agreement'', ''standard'', ''specification'', ''rule'', ''format'']"
    by (simp add: topic_keywords_def t l NewMatcher_def cloneKeywords_def defaultKeywords_def)
  have "ContainsAny NewMatcher [''handshakes''] ''protocols'' = (True, ''handshake'')"
    by (simp add: ContainsAny_def kw l contains_def starts_with_def)
  with matcher_views_agree [of NewMatcher "[''handshakes'']" "''protocols''" "''handshake''"]
  show ?thesis by blast
qed

text \<open>Keys are documented as case-insensitive, but a table is kept as it is given: a topic with a
  capital letter in it is never looked up.\<close>

lemma to_lower_no_capital:
  assumes "CHR 0xC4 \<notin> set s" "CHR 0xE2 \<notin> set s"
  shows "\<forall>c \<in> set (to_lower s). \<not> (65 \<le> (of_char c :: nat) \<and> (of_char c :: nat) \<le> 90)"
  using assms
proof (induction s rule: to_lower.induct)
  case (2 c s)
  have "to_lower (c # s) = (let n = of_char c :: nat in if 65 \<le> n \<and> n \<le> 90 then char_of (n + 32) else c) # to_lower s"
    using 2(4,5) by auto
  with 2(3-5) show ?case by (auto simp: Let_def)
qed simp

lemma capital_topic_not_found:
  assumes "CHR 0xC4 \<notin> set (trim_space topic)" "CHR 0xE2 \<notin> set (trim_space topic)"
    and "\<forall>t \<in> set (map fst ks). \<exists>c \<in> set t. 65 \<le> (of_char c :: nat) \<and> (of_char c :: nat) \<le> 90"
  shows "KeywordsFor (NewMatcherFromMap ks) topic = []"
proof -
  have "to_lower (trim_space topic) \<notin> fst ` set ks"
    using to_lower_no_capital [OF assms(1,2)] assms(3) by fastforce
  then have "map_of ks (to_lower (trim_space topic)) = None" by (simp add: map_of_eq_None_iff)
  then show ?thesis by (simp add: KeywordsFor_def topic_keywords_def NewMatcherFromMap_def cloneKeywords_def)
qed

end
