(* ===== verification/GatewayApi.thy ===== *)
theory GatewayApi
  imports ServiceRules HttpModel
begin

text \<open>
  The REST interface of the gateway (\<open>gateway/handler/api.go\<close> and \<open>health.go\<close>): each endpoint
  decodes its body, calls the workflow of the service layer and maps the outcome to a status. The
  decoded body is an argument, an error when it is no JSON of the expected form; a reply is its
  status with a text, an error whose text is written, or a JSON value. An agent path is dispatched
  on its parts. The captcha endpoints are functions that the program injects.
\<close>

section \<open>Replies\<close>

datatype api_body =
    RegisterBody agent string u64
  | InfoBody svc_agent_info
  | UpgradeBody upgrade_agent_response
  | CheckBody check_permission_response
  | BanBody ban_agent_response
  | UnbanBody unban_agent_response
  | RevokeBody revoke_agent_response

datatype api_reply =
    ApiText nat string
  | ApiError nat go_error
  | ApiJSON nat api_body

fun api_status :: "api_reply \<Rightarrow> nat" where
  "api_status (ApiText n _) = n"
| "api_status (ApiError n _) = n"
| "api_status (ApiJSON n _) = n"

abbreviation ContextDeadlineExceeded :: go_error where
  "ContextDeadlineExceeded \<equiv> Sentinel ''context deadline exceeded''"

abbreviation ContextCanceled :: go_error where
  "ContextCanceled \<equiv> Sentinel ''context canceled''"

definition writeServiceError :: "go_error \<Rightarrow> api_reply" where
  "writeServiceError e =
     (if errors_is e ContextDeadlineExceeded then ApiText 504 ''deadline exceeded''
      else if errors_is e ContextCanceled then ApiText 499 ''request canceled''
      else if errors_is e SvcErrAgentNotFound \<or> errors_is e ErrInvalidRegisterInput then ApiError 400 e
      else if errors_is e ErrAgentAlreadyExists \<or> errors_is e ErrAgentAlreadyBanned then ApiError 409 e
      else if errors_is e ErrAgentNotBanned \<or> errors_is e ErrNotRevocable
              \<or> errors_is e ErrInvalidUpgradeLevel \<or> errors_is e ErrAgentNotUpgradable
      then ApiError 422 e
      else if errors_is e ErrChainRegisterFailed then ApiError 502 e
      else ApiError 500 e)"

text \<open>What an endpoint writes for the two results of a workflow.\<close>

definition answer_reply :: "nat \<Rightarrow> ('r \<Rightarrow> api_body) \<Rightarrow> 'r option \<Rightarrow> go_error option \<Rightarrow> api_reply" where
  "answer_reply st f resp err =
     (case err of Some e \<Rightarrow> writeServiceError e | None \<Rightarrow> ApiJSON st (f (the resp)))"

section \<open>Endpoints\<close>

record 'w api_handler =
  ap_RegisterSvc :: "'w workflow option"
  ap_UpgradeSvc :: "'w workflow option"
  ap_RevokeSvc :: "'w workflow option"
  ap_BanSvc :: "'w workflow option"
  ap_UnbanSvc :: "'w workflow option"
  ap_GetInfoSvc :: "('w store_client \<times> 'w chain_client option) option"
  ap_CheckSvc :: "'w store_client option"

record api_register_request =
  arq_UUID :: string
  arq_Owner :: string
  arq_Level :: u8
  arq_PublicKey :: string
  arq_Permission :: u64

definition Api_Register ::
  "'w api_handler \<Rightarrow> time \<Rightarrow> string \<Rightarrow> api_register_request option \<Rightarrow> 'w \<Rightarrow> api_reply \<times> 'w" where
  "Api_Register h now meth body w =
     (case ap_RegisterSvc h of
        None \<Rightarrow> (ApiText 503 ''register service unavailable'', w)
      | Some sv \<Rightarrow>
      if meth \<noteq> ''POST'' then (ApiText 405 ''method not allowed'', w)
      else (case body of
        None \<Rightarrow> (ApiText 400 ''bad request'', w)
      | Some req \<Rightarrow>
      (case b64url_decode (arq_PublicKey req) of
        None \<Rightarrow> (ApiText 400 ''invalid public_key encoding'', w)
      | Some pub \<Rightarrow>
      if length pub \<noteq> 32 then (ApiText 400 ''invalid public_key length'', w)
      else
        (let (resp, err, w') = HandleRegister sv now
               (Some \<lparr> rar_UUID = arq_UUID req, rar_Owner = arq_Owner req, rar_Level = arq_Level req,
                       rar_PublicKey = pub, rar_Permissions = arq_Permission req,
                       rar_Metadata = [], rar_Now = now \<rparr>) w
         in (answer_reply 201
               (\<lambda>r. RegisterBody (rap_Agent r) (rap_TxHash r) (rap_BlockNumber r)) resp err, w')))))"

definition Api_getInfo :: "'w api_handler \<Rightarrow> string \<Rightarrow> 'w \<Rightarrow> api_reply" where
  "Api_getInfo h u w =
     (case ap_GetInfoSvc h of
        None \<Rightarrow> ApiText 503 ''get_info service unavailable''
      | Some (st, ch) \<Rightarrow>
          (case HandleGetInfo st ch u w of
             Inl e \<Rightarrow> writeServiceError e
           | Inr info \<Rightarrow> ApiJSON 200 (InfoBody info)))"

record api_upgrade_body =
  aub_NewLevel :: u8
  aub_Reason :: string
  aub_Actor :: string

definition Api_upgrade ::
  "'w api_handler \<Rightarrow> time \<Rightarrow> string \<Rightarrow> api_upgrade_body option \<Rightarrow> 'w \<Rightarrow> api_reply \<times> 'w" where
  "Api_upgrade h now u body w =
     (case ap_UpgradeSvc h of
        None \<Rightarrow> (ApiText 503 ''upgrade service unavailable'', w)
      | Some sv \<Rightarrow>
      (case body of
        None \<Rightarrow> (ApiText 400 ''bad request'', w)
      | Some b \<Rightarrow>
        (let (resp, err, w') = HandleUpgrade sv now
               (Some \<lparr> uar_UUID = u, uar_NewLevel = aub_NewLevel b, uar_Reason = aub_Reason b,
                       uar_Actor = aub_Actor b, uar_Now = now \<rparr>) w
         in (answer_reply 200 UpgradeBody resp err, w'))))"

definition Api_checkPerm :: "'w api_handler \<Rightarrow> string \<Rightarrow> uint option \<Rightarrow> 'w \<Rightarrow> api_reply" where
  "Api_checkPerm h u body w =
     (case ap_CheckSvc h of
        None \<Rightarrow> ApiText 503 ''check_permission service unavailable''
      | Some st \<Rightarrow>
      (case body of
        None \<Rightarrow> ApiText 400 ''bad request''
      | Some b \<Rightarrow>
        (let (resp, err) = HandleCheckPermission st (Some \<lparr> cpr_UUID = u, cpr_Bit = b \<rparr>) w
         in answer_reply 200 CheckBody resp err)))"

record api_ban_body =
  abb_Reason :: string
  abb_Actor :: string

definition Api_ban ::
  "'w api_handler \<Rightarrow> time \<Rightarrow> string \<Rightarrow> api_ban_body option \<Rightarrow> 'w \<Rightarrow> api_reply \<times> 'w" where
  "Api_ban h now u body w =
     (case ap_BanSvc h of
        None \<Rightarrow> (ApiText 503 ''ban service unavailable'', w)
      | Some sv \<Rightarrow>
      (case body of
        None \<Rightarrow> (ApiText 400 ''bad request'', w)
      | Some b \<Rightarrow>
        (let (resp, err, w') = HandleBan sv now
               (Some \<lparr> bar_UUID = u, bar_Reason = abb_Reason b, bar_Actor = abb_Actor b,
                       bar_Now = now \<rparr>) w
         in (answer_reply 200 BanBody resp err, w'))))"

definition Api_unban ::
  "'w api_handler \<Rightarrow> time \<Rightarrow> string \<Rightarrow> api_ban_body option \<Rightarrow> 'w \<Rightarrow> api_reply \<times> 'w" where
  "Api_unban h now u body w =
     (case ap_UnbanSvc h of
        None \<Rightarrow> (ApiText 503 ''unban service unavailable'', w)
      | Some sv \<Rightarrow>
      (case body of
        None \<Rightarrow> (ApiText 400 ''bad request'', w)
      | Some b \<Rightarrow>
        (let (resp, err, w') = HandleUnban sv now
               (Some \<lparr> unr_UUID = u, unr_Actor = abb_Actor b, unr_Now = now \<rparr>) w
         in (answer_reply 200 UnbanBody resp err, w'))))"

definition Api_revoke ::
  "'w api_handler \<Rightarrow> time \<Rightarrow> string \<Rightarrow> api_ban_body option \<Rightarrow> 'w \<Rightarrow> api_reply \<times> 'w" where
  "Api_revoke h now u body w =
     (case ap_RevokeSvc h of
        None \<Rightarrow> (ApiText 503 ''revoke service unavailable'', w)
      | Some sv \<Rightarrow>
      (case body of
        None \<Rightarrow> (ApiText 400 ''bad request'', w)
      | Some b \<Rightarrow>
        (let (resp, err, w') = HandleRevoke sv now
               (Some \<lparr> rvr_UUID = u, rvr_Reason = abb_Reason b, rvr_Actor = abb_Actor b,
                       rvr_Now = now \<rparr>) w
         in (answer_reply 200 RevokeBody resp err, w'))))"

section \<open>Dispatch\<close>

text \<open>How the three kinds of bodies of the agent endpoints read one request body.\<close>

record api_bodies =
  bd_upgrade :: "api_upgrade_body option"
  bd_check :: "uint option"
  bd_ban :: "api_ban_body option"

definition trim_prefix :: "string \<Rightarrow> string \<Rightarrow> string" where
  "trim_prefix p s = (if starts_with p s then drop (length p) s else s)"

definition path_parts :: "string \<Rightarrow> string list" where
  "path_parts path = split_at (CHR ''/'') (trim_prefix ''/api/v2/agents/'' path)"

definition AgentByPath ::
  "'w api_handler \<Rightarrow> time \<Rightarrow> string \<Rightarrow> string \<Rightarrow> api_bodies \<Rightarrow> 'w \<Rightarrow> api_reply \<times> 'w" where
  "AgentByPath h now meth path bd w =
     (let parts = path_parts path; u = hd parts; n = length parts; sub = parts ! 1; post = (meth = ''POST'')
      in if n = 0 \<or> u = [] then (ApiText 400 ''missing uuid'', w)
         else if n = 1 \<and> meth = ''GET'' then (Api_getInfo h u w, w)
         else if n = 2 \<and> sub = ''upgrade'' \<and> post then Api_upgrade h now u (bd_upgrade bd) w
         else if n = 2 \<and> sub = ''check'' \<and> post then (Api_checkPerm h u (bd_check bd) w, w)
         else if n = 2 \<and> sub = ''ban'' \<and> post then Api_ban h now u (bd_ban bd) w
         else if n = 2 \<and> sub = ''unban'' \<and> post then Api_unban h now u (bd_ban bd) w
         else if n = 2 \<and> sub = ''revoke'' \<and> post then Api_revoke h now u (bd_ban bd) w
         else (ApiText 404 ''not found'', w))"

section \<open>Probes\<close>

type_synonym 'w ready_fn = "'w \<Rightarrow> go_error option"

definition Live :: api_reply where
  "Live = ApiText 200 ''ok''"

definition Ready :: "'w ready_fn option \<Rightarrow> 'w \<Rightarrow> api_reply" where
  "Ready rf w =
     (case rf of None \<Rightarrow> Live
      | Some f \<Rightarrow> (case f w of Some e \<Rightarrow> ApiError 503 (Errorf ''not ready: '' [e]) | None \<Rightarrow> ApiText 200 ''ready''))"

definition Healthz :: "'w ready_fn option \<Rightarrow> 'w \<Rightarrow> api_reply" where
  "Healthz rf w =
     (case rf of None \<Rightarrow> Live
      | Some f \<Rightarrow> (case f w of Some e \<Rightarrow> ApiError 503 (Errorf ''unhealthy: '' [e]) | None \<Rightarrow> ApiText 200 ''healthy''))"

section \<open>What the endpoints do to the storage\<close>

text \<open>The storage of every workflow of a handler is the one the contract speaks of.\<close>

definition api_contract ::
  "'w store_client \<Rightarrow> ('w \<Rightarrow> string \<Rightarrow> agent_record option) \<Rightarrow> ('w \<Rightarrow> string \<Rightarrow> u64) \<Rightarrow> 'w api_handler \<Rightarrow> bool" where
  "api_contract st ids perms h \<longleftrightarrow>
     (\<forall>sv. Some sv \<in> {ap_RegisterSvc h, ap_UpgradeSvc h, ap_RevokeSvc h, ap_BanSvc h, ap_UnbanSvc h}
        \<longrightarrow> workflow_contract st ids perms sv)"

definition only_agent :: "('w \<Rightarrow> string \<Rightarrow> agent_record option) \<Rightarrow> ('w \<Rightarrow> string \<Rightarrow> u64) \<Rightarrow> string \<Rightarrow> 'w \<Rightarrow> 'w \<Rightarrow> bool" where
  "only_agent ids perms u w w' \<longleftrightarrow> (\<forall>v. v \<noteq> u \<longrightarrow> ids w' v = ids w v \<and> perms w' v = perms w v)"

lemma only_agent_refl [simp]: "only_agent ids perms u w w"
  by (simp add: only_agent_def)

lemma writeServiceError_status: "400 \<le> api_status (writeServiceError e)"
  by (simp add: writeServiceError_def)

lemma answer_reply_ok:
  "api_status (answer_reply st f resp err) < 400 \<Longrightarrow> err = None \<and> api_status (answer_reply st f resp err) = st"
  using writeServiceError_status by (cases err) (auto simp: answer_reply_def not_le [symmetric])

lemma record_ok_uuid: "records_ok m \<Longrightarrow> m u = Some r \<Longrightarrow> sr_UUID r = u"
  by (auto simp: records_ok_def record_ok_def)

lemma Api_upgrade_only:
  assumes "api_contract st ids perms h" "records_ok (ids w)" "Api_upgrade h now u body w = (rep, w')"
  shows "only_agent ids perms u w w'"
proof -
  have "w' = w \<or> (\<exists>sv q resp err. workflow_contract st ids perms sv \<and> uar_UUID q = u
      \<and> HandleUpgrade sv now (Some q) w = (resp, err, w'))"
    using assms(1,3)
    by (auto simp: Api_upgrade_def Let_def api_contract_def split: option.splits prod.splits)
  then show ?thesis
  proof (elim disjE exE conjE)
    fix sv q resp err
    assume c: "workflow_contract st ids perms sv" "uar_UUID q = u"
      and h: "HandleUpgrade sv now (Some q) w = (resp, err, w')"
    from workflow_contract.upgrade_effect [OF c(1) h] c(2) record_ok_uuid [OF assms(2)]
    show ?thesis
      by (auto simp: only_agent_def workflow_contract.same_def [OF c(1)])
  qed simp
qed

lemma Api_ban_only:
  assumes "api_contract st ids perms h" "records_ok (ids w)" "Api_ban h now u body w = (rep, w')"
  shows "only_agent ids perms u w w'"
proof -
  have "w' = w \<or> (\<exists>sv q resp err. workflow_contract st ids perms sv \<and> bar_UUID q = u
      \<and> HandleBan sv now (Some q) w = (resp, err, w'))"
    using assms(1,3)
    by (auto simp: Api_ban_def Let_def api_contract_def split: option.splits prod.splits)
  then show ?thesis
  proof (elim disjE exE conjE)
    fix sv q resp err
    assume c: "workflow_contract st ids perms sv" "bar_UUID q = u"
      and h: "HandleBan sv now (Some q) w = (resp, err, w')"
    from workflow_contract.ban_effect [OF c(1) h] c(2) record_ok_uuid [OF assms(2)]
    show ?thesis
      by (auto simp: only_agent_def workflow_contract.same_def [OF c(1)])
  qed simp
qed

lemma Api_revoke_only:
  assumes "api_contract st ids perms h" "records_ok (ids w)" "Api_revoke h now u body w = (rep, w')"
  shows "only_agent ids perms u w w'"
proof -
  have "w' = w \<or> (\<exists>sv q resp err. workflow_contract st ids perms sv \<and> rvr_UUID q = u
      \<and> HandleRevoke sv now (Some q) w = (resp, err, w'))"
    using assms(1,3)
    by (auto simp: Api_revoke_def Let_def api_contract_def split: option.splits prod.splits)
  then show ?thesis
  proof (elim disjE exE conjE)
    fix sv q resp err
    assume c: "workflow_contract st ids perms sv" "rvr_UUID q = u"
      and h: "HandleRevoke sv now (Some q) w = (resp, err, w')"
    from workflow_contract.revoke_effect [OF c(1) h] c(2) record_ok_uuid [OF assms(2)]
    show ?thesis
      by (auto simp: only_agent_def workflow_contract.same_def [OF c(1)])
  qed simp
qed

lemma Api_unban_fails:
  assumes "Api_unban h now u body w = (rep, w')"
  shows "w' = w \<and> 400 \<le> api_status rep"
proof (cases "ap_UnbanSvc h")
  case (Some sv)
  show ?thesis
  proof (cases body)
    case (Some b)
    let ?q = "Some \<lparr> unr_UUID = u, unr_Actor = abb_Actor b, unr_Now = now \<rparr>"
    from unban_fails [of sv now ?q w] obtain err where "HandleUnban sv now ?q w = (None, Some err, w)" by blast
    with assms Some \<open>ap_UnbanSvc h = Some sv\<close> writeServiceError_status show ?thesis
      by (auto simp: Api_unban_def answer_reply_def)
  qed (use assms Some in \<open>auto simp: Api_unban_def\<close>)
qed (use assms in \<open>auto simp: Api_unban_def\<close>)

lemma if_equals: "(if P then a else b) = c \<longleftrightarrow> P \<and> a = c \<or> \<not> P \<and> b = c"
  by simp

lemma agent_path_effect:
  assumes "api_contract st ids perms h" "records_ok (ids w)"
    and "AgentByPath h now meth path bd w = (rep, w')"
  shows "only_agent ids perms (hd (path_parts path)) w w'
    \<and> (w' \<noteq> w \<longrightarrow> meth = ''POST'' \<and> tl (path_parts path) \<in> {[''upgrade''], [''ban''], [''revoke'']})"
proof -
  define parts where "parts = path_parts path"
  consider (up) "length parts = 2" "parts ! 1 = ''upgrade''" "meth = ''POST''"
      "Api_upgrade h now (hd parts) (bd_upgrade bd) w = (rep, w')"
    | (ban) "length parts = 2" "parts ! 1 = ''ban''" "meth = ''POST''"
      "Api_ban h now (hd parts) (bd_ban bd) w = (rep, w')"
    | (rev) "length parts = 2" "parts ! 1 = ''revoke''" "meth = ''POST''"
      "Api_revoke h now (hd parts) (bd_ban bd) w = (rep, w')"
    | (other) "w' = w"
  proof -
    from assms(3) show thesis
      unfolding AgentByPath_def Let_def parts_def [symmetric] if_equals
    proof (elim disjE conjE)
      assume "(Api_getInfo h (hd parts) w, w) = (rep, w')" "length parts = 1"
      then show thesis by (intro other) auto
    next
      assume "(Api_checkPerm h (hd parts) (bd_check bd) w, w) = (rep, w')" "parts ! 1 = ''check''"
      then show thesis by (intro other) auto
    next
      assume "(ApiText 400 ''missing uuid'', w) = (rep, w')"
      then show thesis by (intro other) auto
    next
      assume "(ApiText 404 ''not found'', w) = (rep, w')"
      then show thesis by (intro other) auto
    next
      assume "Api_upgrade h now (hd parts) (bd_upgrade bd) w = (rep, w')" "length parts = 2"
        "parts ! 1 = ''upgrade''" "meth = ''POST''"
      then show thesis by (rule up [rotated 3])
    next
      assume "Api_ban h now (hd parts) (bd_ban bd) w = (rep, w')" "length parts = 2"
        "parts ! 1 = ''ban''" "meth = ''POST''"
      then show thesis by (rule ban [rotated 3])
    next
      assume "Api_revoke h now (hd parts) (bd_ban bd) w = (rep, w')" "length parts = 2"
        "parts ! 1 = ''revoke''" "meth = ''POST''"
      then show thesis by (rule rev [rotated 3])
    next
      assume "Api_unban h now (hd parts) (bd_ban bd) w = (rep, w')"
      from Api_unban_fails [OF this] show thesis by (intro other) auto
    qed (intro other, auto)
  qed
  then show ?thesis
  proof cases
    case up
    then have "tl parts = [''upgrade'']" by (cases parts; cases "tl parts") auto
    with Api_upgrade_only [OF assms(1,2) up(4)] up(3) show ?thesis by (simp add: parts_def)
  next
    case ban
    then have "tl parts = [''ban'']" by (cases parts; cases "tl parts") auto
    with Api_ban_only [OF assms(1,2) ban(4)] ban(3) show ?thesis by (simp add: parts_def)
  next
    case rev
    then have "tl parts = [''revoke'']" by (cases parts; cases "tl parts") auto
    with Api_revoke_only [OF assms(1,2) rev(4)] rev(3) show ?thesis by (simp add: parts_def)
  next
    case other
    then show ?thesis by (simp add: parts_def)
  qed
qed

text \<open>A request to an agent path changes at most the agent that the path names: the records and the
  permissions of all other agents stay as they are, and only a POST to one of the known endpoints
  changes anything. The endpoint that lifts a ban never succeeds.\<close>

theorem api_path_confines:
  assumes "api_contract st ids perms h" "records_ok (ids w)"
    and "AgentByPath h now meth path bd w = (rep, w')"
  shows "only_agent ids perms (hd (path_parts path)) w w'
    \<and> (w' \<noteq> w \<longrightarrow> meth = ''POST'' \<and> tl (path_parts path) \<in> {[''upgrade''], [''ban''], [''revoke'']})
    \<and> (tl (path_parts path) = [''unban''] \<longrightarrow> 400 \<le> api_status rep)"
proof -
  have "400 \<le> api_status rep" if "tl (path_parts path) = [''unban'']"
  proof -
    from that have "length (path_parts path) = 2" "path_parts path ! 1 = ''unban''"
      by (cases "path_parts path"; auto)+
    with assms(3) Api_unban_fails [of h now "hd (path_parts path)" "bd_ban bd" w rep w']
    show ?thesis by (auto simp: AgentByPath_def Let_def if_equals)
  qed
  with agent_path_effect [OF assms] show ?thesis by blast
qed

definition mem_handler :: "mem_world api_handler" where
  "mem_handler =
     \<lparr> ap_RegisterSvc = Some (mem_workflow False), ap_UpgradeSvc = Some (mem_workflow False),
       ap_RevokeSvc = Some (mem_workflow False), ap_BanSvc = Some (mem_workflow False),
       ap_UnbanSvc = Some (mem_workflow False), ap_GetInfoSvc = Some (mem_client, None),
       ap_CheckSvc = Some mem_client \<rparr>"

definition ban_path :: string where
  "ban_path = ''/api/v2/agents/'' @ rar_UUID mem_request @ ''/ban''"

definition ban_bodies :: api_bodies where
  "ban_bodies = \<lparr> bd_upgrade = None, bd_check = None, bd_ban = Some \<lparr> abb_Reason = ''spam'', abb_Actor = [] \<rparr> \<rparr>"

lemma mem_handler_contract:
  "api_contract mem_client (\<lambda>w. map_of (mw_agents w)) mem_perms mem_handler"
  using mem_workflow_contract by (auto simp: api_contract_def mem_handler_def)

theorem api_path_confines_witness:
  "hd (path_parts ban_path) = rar_UUID mem_request
   \<and> (\<exists>rep w'. AgentByPath mem_handler (Time 9) ''POST'' ban_path ban_bodies mem_registered = (rep, w')
        \<and> only_agent (\<lambda>w. map_of (mw_agents w)) mem_perms (rar_UUID mem_request) mem_registered w')"
proof -
  have p: "path_parts ban_path = [rar_UUID mem_request, ''ban'']"
    by (simp add: path_parts_def ban_path_def trim_prefix_def starts_with_def mem_request_def)
  obtain rep w' where r: "AgentByPath mem_handler (Time 9) ''POST'' ban_path ban_bodies mem_registered = (rep, w')"
    by fastforce
  from api_path_confines [OF mem_handler_contract mem_registered_ok r] r p show ?thesis by simp
qed

section \<open>Registering over the interface\<close>

definition api_request :: "api_register_request \<Rightarrow> string \<Rightarrow> time \<Rightarrow> register_agent_request" where
  "api_request q pub now =
     \<lparr> rar_UUID = arq_UUID q, rar_Owner = arq_Owner q, rar_Level = arq_Level q, rar_PublicKey = pub,
       rar_Permissions = arq_Permission q, rar_Metadata = [], rar_Now = now \<rparr>"

text \<open>A registration that reaches the workflow, and one that is refused before it.\<close>

lemma Api_Register_cases:
  assumes "ap_RegisterSvc h = Some sv" and "Api_Register h now meth body w = (rep, w')"
  obtains (early) "w' = w" "400 \<le> api_status rep"
      "\<nexists>q pub. meth = ''POST'' \<and> body = Some q \<and> b64url_decode (arq_PublicKey q) = Some pub \<and> length pub = 32"
  | (served) q pub resp err where "meth = ''POST''" "body = Some q"
      "b64url_decode (arq_PublicKey q) = Some pub" "length pub = 32"
      "HandleRegister sv now (Some (api_request q pub now)) w = (resp, err, w')"
      "rep = answer_reply 201 (\<lambda>r. RegisterBody (rap_Agent r) (rap_TxHash r) (rap_BlockNumber r)) resp err"
proof (cases "\<exists>q pub. meth = ''POST'' \<and> body = Some q \<and> b64url_decode (arq_PublicKey q) = Some pub
    \<and> length pub = 32")
  case False
  moreover have "w' = w \<and> 400 \<le> api_status rep"
    using assms False by (auto simp: Api_Register_def split: option.splits if_splits)
  ultimately show thesis using early by blast
next
  case True
  then obtain q pub where q: "meth = ''POST''" "body = Some q"
    "b64url_decode (arq_PublicKey q) = Some pub" "length pub = 32" by blast
  then show thesis
    using assms served [OF q] by (auto simp: Api_Register_def api_request_def split: prod.splits)
qed

lemma answered_201:
  assumes "rep = answer_reply 201 f resp err" and "api_status rep = 201"
  shows "err = None"
  using answer_reply_ok [of 201 f resp err] assms by simp

text \<open>What a read over the interface shows of an agent with a given record and mask.\<close>

lemma read_back:
  assumes "l1_contract st ids perms" and "ap_GetInfoSvc h = Some (st, ch)"
    and "ids w u = Some (registered_record (api_request q pub now) now)"
    and "perms w u = sr_Permissions (registered_record (api_request q pub now) now)"
    and "Api_getInfo h u w = ApiJSON 200 (InfoBody info)"
  shows "sai_UUID info = arq_UUID q \<and> sai_Owner info = arq_Owner q \<and> sai_Level info = arq_Level q
    \<and> sai_PublicKey info = b64url_encode pub \<and> sai_State info = StateRegistered
    \<and> sai_Permissions info = (if arq_Permission q = 0
         then DefaultMaxPermissions (arq_Level q) else arq_Permission q)"
proof -
  from assms(2,5) have g: "HandleGetInfo st ch u w = Inr info"
    by (auto simp: Api_getInfo_def writeServiceError_def split: sum.splits if_splits)
  then obtain r m where r: "st_GetAgent st u w = Inr r" and m: "st_GetPermissions st u w = Inr m"
    by (auto simp: HandleGetInfo_def split: if_splits sum.splits)
  have "r = registered_record (api_request q pub now) now"
    using l1_contract.get_ok [OF assms(1) r] assms(3) by simp
  moreover have "m = sr_Permissions (registered_record (api_request q pub now) now)"
    using l1_contract.perms_get [OF assms(1) m] assms(4) by simp
  ultimately show ?thesis
    using g r m by (auto simp: HandleGetInfo_def registered_record_def api_request_def split: if_splits)
qed

definition admissible :: "'w workflow \<Rightarrow> time \<Rightarrow> string \<Rightarrow> api_register_request option \<Rightarrow> 'w \<Rightarrow>
    api_register_request \<Rightarrow> string \<Rightarrow> bool" where
  "admissible sv now meth body w q pub \<longleftrightarrow> meth = ''POST'' \<and> body = Some q
     \<and> b64url_decode (arq_PublicKey q) = Some pub \<and> valid_register (api_request q pub now)
     \<and> wf_provider sv (arq_UUID q) w = Inr False"

text \<open>C19: A registration over the interface is answered with 201 only when the key is the base64 text of
  32 bytes, the input is valid and the provider does not know the agent; the storage then holds the
  requested record, and a read of it through the interface that succeeds shows the requested owner,
  level, key and mask, or the level's maximum for none, in the state registered. A request that is not
  valid, or for a known agent, changes nothing. One that passes these checks and still fails leaves the
  agents unchanged but for at most exactly the requested record.\<close>

theorem api_register_spec:
  assumes "workflow_contract st ids perms sv" and "ap_RegisterSvc h = Some sv"
    and "ap_GetInfoSvc h = Some (st, ch)" and "\<not> is_zero_time now"
    and "Api_Register h now meth body w = (rep, w')"
  shows "(api_status rep = 201 \<longrightarrow> (\<exists>q pub. admissible sv now meth body w q pub
        \<and> ids w' = (ids w)(arq_UUID q \<mapsto> registered_record (api_request q pub now) now)
        \<and> (\<forall>info. Api_getInfo h (arq_UUID q) w' = ApiJSON 200 (InfoBody info) \<longrightarrow>
             sai_UUID info = arq_UUID q \<and> sai_Owner info = arq_Owner q \<and> sai_Level info = arq_Level q
             \<and> sai_PublicKey info = b64url_encode pub \<and> sai_State info = StateRegistered
             \<and> sai_Permissions info = (if arq_Permission q = 0
                  then DefaultMaxPermissions (arq_Level q) else arq_Permission q))))
    \<and> ((\<nexists>q pub. admissible sv now meth body w q pub) \<longrightarrow>
        400 \<le> api_status rep \<and> ids w' = ids w \<and> perms w' = perms w)
    \<and> (api_status rep \<noteq> 201 \<longrightarrow> 400 \<le> api_status rep
        \<and> (ids w' = ids w \<and> perms w' = perms w
           \<or> (\<exists>q pub. admissible sv now meth body w q pub
                \<and> ids w' = (ids w)(arq_UUID q \<mapsto> registered_record (api_request q pub now) now))))"
  using assms(2,5)
proof (cases rule: Api_Register_cases)
  case early
  then show ?thesis by (auto simp: admissible_def valid_register_def api_request_def)
next
  case (served q pub resp err)
  let ?r = "api_request q pub now"
  let ?rec = "registered_record ?r now"
  have now: "or_now now (rar_Now ?r) = now" and uuid: "rar_UUID ?r = arq_UUID q"
    using assms(4) by (simp_all add: api_request_def or_now_def)
  note same = workflow_contract.same_def [OF assms(1)]
    and eff = workflow_contract.register_effect [OF assms(1) served(5)]
  have ok: "admissible sv now meth body w q pub \<longleftrightarrow> valid_register ?r \<and> wf_provider sv (arq_UUID q) w = Inr False"
    using served by (simp add: admissible_def)
  have only: "admissible sv now meth body w q' pub' \<Longrightarrow> q' = q \<and> pub' = pub" for q' pub'
    using served by (auto simp: admissible_def)
  have fails: "400 \<le> api_status rep" if "api_status rep \<noteq> 201"
    using that writeServiceError_status unfolding served(6) answer_reply_def
    by (auto split: option.splits)
  show ?thesis
  proof (cases "api_status rep = 201")
    case True
    then have "err = None" using answered_201 [OF served(6)] by simp
    with eff now uuid True have good: "admissible sv now meth body w q pub"
      and i: "ids w' = (ids w)(arq_UUID q \<mapsto> ?rec)" and p: "perms w' = (perms w)(arq_UUID q := sr_Permissions ?rec)"
      by (auto simp: same ok split: if_splits)
    have l1: "l1_contract st ids perms" using assms(1) by (simp add: workflow_contract_def)
    note read = read_back [OF l1 assms(3), of w' "arq_UUID q" q pub now]
    have "admissible sv now meth body w q pub \<and> ids w' = (ids w)(arq_UUID q \<mapsto> ?rec)
        \<and> (\<forall>info. Api_getInfo h (arq_UUID q) w' = ApiJSON 200 (InfoBody info) \<longrightarrow>
             sai_UUID info = arq_UUID q \<and> sai_Owner info = arq_Owner q \<and> sai_Level info = arq_Level q
             \<and> sai_PublicKey info = b64url_encode pub \<and> sai_State info = StateRegistered
             \<and> sai_Permissions info = (if arq_Permission q = 0
                  then DefaultMaxPermissions (arq_Level q) else arq_Permission q))"
      by (intro conjI allI impI good i; use read i p in simp)
    with True good show ?thesis by blast
  next
    case False
    with eff now uuid ok fails only show ?thesis by (auto simp: same split: if_splits)
  qed
qed

definition mem_api_request :: api_register_request where
  "mem_api_request = \<lparr> arq_UUID = rar_UUID mem_request, arq_Owner = rar_Owner mem_request,
     arq_Level = 1, arq_PublicKey = b64url_encode (replicate 32 (CHR ''k'')), arq_Permission = 0 \<rparr>"

lemma mem_api_register:
  "\<exists>rep w'. Api_Register mem_handler (Time 5) ''POST'' (Some mem_api_request) empty_world = (rep, w')
     \<and> api_status rep = 201 \<and> map_of (mw_agents w') (rar_UUID mem_request) \<noteq> None"
proof -
  have q: "api_request mem_api_request (replicate 32 (CHR ''k'')) (Time 5) = mem_request"
    by (simp add: api_request_def mem_api_request_def mem_request_def)
  have fields: "arq_UUID mem_api_request = rar_UUID mem_request"
    "b64url_decode (arq_PublicKey mem_api_request) = Some (replicate 32 (CHR ''k''))"
    by (simp_all add: mem_api_request_def)
  have "wf_provider (mem_workflow False) (rar_UUID mem_request) empty_world = Inr False" by simp
  note c = HandleRegister_checked [OF mem_request_valid this, of "Time 5"]
  obtain resp w' where h: "HandleRegister (mem_workflow False) (Time 5) (Some mem_request) empty_world
      = (Some resp, None, w')"
    using c by (cases "HandleRegister (mem_workflow False) (Time 5) (Some mem_request) empty_world") auto
  have "Api_Register mem_handler (Time 5) ''POST'' (Some mem_api_request) empty_world =
      (answer_reply 201 (\<lambda>r. RegisterBody (rap_Agent r) (rap_TxHash r) (rap_BlockNumber r)) (Some resp) None, w')"
    using h by (simp add: Api_Register_def mem_handler_def fields flip: q)
      (simp add: api_request_def mem_api_request_def)
  moreover from wm.register_effect [OF h] have "map_of (mw_agents w') (rar_UUID mem_request) \<noteq> None" by auto
  ultimately show ?thesis by (simp add: answer_reply_def)
qed

theorem api_register_spec_witness:
  "\<exists>rep w'. Api_Register mem_handler (Time 5) ''POST'' (Some mem_api_request) empty_world = (rep, w')
     \<and> api_status rep = 201
     \<and> map_of (mw_agents w') = [rar_UUID mem_request \<mapsto> registered_record mem_request (Time 5)]"
proof -
  have q: "api_request mem_api_request (replicate 32 (CHR ''k'')) (Time 5) = mem_request"
    by (simp add: api_request_def mem_api_request_def mem_request_def)
  have fields: "arq_UUID mem_api_request = rar_UUID mem_request"
    "b64url_decode (arq_PublicKey mem_api_request) = Some (replicate 32 (CHR ''k''))"
    by (simp_all add: mem_api_request_def)
  have "wf_provider (mem_workflow False) (rar_UUID mem_request) empty_world = Inr False" by simp
  note c = HandleRegister_checked [OF mem_request_valid this, of "Time 5"]
  obtain rep w' where r: "Api_Register mem_handler (Time 5) ''POST'' (Some mem_api_request) empty_world = (rep, w')"
    by fastforce
  have "Api_Register mem_handler (Time 5) ''POST'' (Some mem_api_request) empty_world =
      (let (resp, err, w') = HandleRegister (mem_workflow False) (Time 5) (Some mem_request) empty_world
       in (answer_reply 201 (\<lambda>r. RegisterBody (rap_Agent r) (rap_TxHash r) (rap_BlockNumber r)) resp err, w'))"
    by (simp add: Api_Register_def mem_handler_def fields flip: q) (simp add: api_request_def mem_api_request_def)
  with r c have s: "api_status rep = 201"
    by (auto simp: answer_reply_def split: prod.splits)
  have live: "\<not> is_zero_time (Time 5)" by (simp add: is_zero_time_def zero_time_def)
  have parts: "ap_RegisterSvc mem_handler = Some (mem_workflow False)" "ap_GetInfoSvc mem_handler = Some (mem_client, None)"
    by (simp_all add: mem_handler_def)
  obtain q' pub where a: "admissible (mem_workflow False) (Time 5) ''POST'' (Some mem_api_request) empty_world q' pub"
    and i: "map_of (mw_agents w') = (map_of (mw_agents empty_world))
      (arq_UUID q' \<mapsto> registered_record (api_request q' pub (Time 5)) (Time 5))"
    using api_register_spec [OF mem_workflow_contract parts live r] s by blast
  from a fields have "q' = mem_api_request" "pub = replicate 32 (CHR ''k'')" unfolding admissible_def by auto
  with i r s q fields show ?thesis by (simp add: empty_world_def)
qed

section \<open>A failed chain leaves the agent behind\<close>

lemma valid_key_length: "valid_register (api_request q pub now) \<Longrightarrow> length pub = 32"
  by (simp add: valid_register_def api_request_def)

text \<open>A registration whose chain call fails: 502 and no agent, but the record is stored.\<close>

lemma chain_failure_stored:
  assumes "workflow_contract st ids perms sv" and "ap_RegisterSvc h = Some sv" and "\<not> is_zero_time now"
    and "admissible sv now ''POST'' (Some q) w q pub"
    and "st_PutAgent (wf_store sv) (registered_record (api_request q pub now) now) w = (None, w1)"
    and "st_SetPermissions (wf_store sv) (arq_UUID q)
           (sr_Permissions (registered_record (api_request q pub now) now)) w1 = (None, w2)"
    and "wf_chain sv = Some ch" and "\<And>r. fst (cc_RegisterAgent ch r w2) = Inl cherr"
    and "Api_Register h now ''POST'' (Some q) w = (rep, w')"
  shows "api_status rep = 502 \<and> ids w' (arq_UUID q) = Some (registered_record (api_request q pub now) now)
    \<and> workflow_step sv w w'"
proof -
  let ?q = "api_request q pub now"
  let ?m = "sr_Permissions (registered_record ?q now)"
  have uuid: "rar_UUID ?q = arq_UUID q" and nw: "or_now now (rar_Now ?q) = now"
    using assms(3) by (simp_all add: or_now_def api_request_def)
  from assms(4) have v: "valid_register ?q" and prov: "wf_provider sv (rar_UUID ?q) w = Inr False"
    and key: "b64url_decode (arq_PublicKey q) = Some pub" by (simp_all add: admissible_def api_request_def)
  let ?cr = "\<lparr> scr_UUID = rar_UUID ?q, scr_Owner = rar_Owner ?q, scr_Level = rar_Level ?q,
        scr_Permissions = ?m, scr_PublicKey = rar_PublicKey ?q, scr_Metadata = rar_Metadata ?q \<rparr>"
  obtain w3 where c3: "cc_RegisterAgent ch ?cr w2 = (Inl cherr, w3)"
    using assms(8) [of ?cr] by (cases "cc_RegisterAgent ch ?cr w2") simp
  have ch: "chain_registration sv ?q ?m w2 = (Inl cherr, w3)"
    by (simp add: chain_registration_def assms(7) c3)
  obtain a where hr: "HandleRegister sv now (Some ?q) w
      = (Some a, Some (Errorf ''%w: %v'' [ErrChainRegisterFailed]), w3)"
    using HandleRegister_checked [OF v prov, of now, unfolded nw uuid] assms(5,6) ch by simp
  with assms(2,9) key valid_key_length [OF v]
  have rep: "rep = writeServiceError (Errorf ''%w: %v'' [ErrChainRegisterFailed])" and w': "w' = w3"
    by (auto simp: Api_Register_def api_request_def answer_reply_def)
  from workflow_contract.register_effect [OF assms(1) hr] nw uuid
  have "ids w3 (arq_UUID q) = Some (registered_record ?q now)"
    by (auto simp: workflow_contract.same_def [OF assms(1)] split: if_splits)
  then show ?thesis
    using workflow_step.register [OF hr] by (simp add: rep w' writeServiceError_def)
qed

lemma known_not_registered:
  assumes "workflow_contract st ids perms sv" and "truthful sv ids" and "ap_RegisterSvc h = Some sv"
    and "ids w (arq_UUID q) = Some r" and "Api_Register h now ''POST'' (Some q) w = (rep, w')"
  shows "api_status rep \<noteq> 201"
  using assms(3,5)
proof (cases rule: Api_Register_cases)
  case (served q' pub resp err)
  have "wf_provider sv (arq_UUID q) w \<noteq> Inr False"
    using assms(2,4) unfolding truthful_def by fastforce
  with workflow_contract.register_effect [OF assms(1) served(5)] served(2) have "err \<noteq> None"
    by (auto simp: api_request_def)
  with answered_201 [OF served(6)] show ?thesis by blast
qed auto

text \<open>C33: When the chain fails after the record and the mask were stored, the registration is answered
  with 502 and without an agent, but the record stays; with a provider that tells the truth about
  the storage, whatever calls of the workflows follow, and even if the chain answers again, no later
  registration of the same UUID succeeds.\<close>

theorem api_chain_failure_sticks:
  assumes "workflow_contract st ids perms sv" and "truthful sv ids" and "records_ok (ids w)"
    and "ap_RegisterSvc h = Some sv" and "\<not> is_zero_time now"
    and "admissible sv now ''POST'' (Some q) w q pub"
    and "st_PutAgent (wf_store sv) (registered_record (api_request q pub now) now) w = (None, w1)"
    and "st_SetPermissions (wf_store sv) (arq_UUID q)
           (sr_Permissions (registered_record (api_request q pub now) now)) w1 = (None, w2)"
    and "wf_chain sv = Some ch" and "\<And>r. fst (cc_RegisterAgent ch r w2) = Inl cherr"
    and "Api_Register h now ''POST'' (Some q) w = (rep, w')"
    and "(workflow_step sv)\<^sup>*\<^sup>* w' v"
    and "Api_Register h now' ''POST'' (Some q') v = (rep', v')" and "arq_UUID q' = arq_UUID q"
  shows "api_status rep = 502 \<and> ids w' (arq_UUID q) = Some (registered_record (api_request q pub now) now)
    \<and> api_status rep' \<noteq> 201"
proof -
  note stored = chain_failure_stored [OF assms(1,4-11)]
  have "records_ok (ids w')"
    using workflow_contract.run_records [OF assms(1) r_into_rtranclp] stored assms(3) by blast
  then obtain r where "ids v (arq_UUID q') = Some r"
    using workflow_contract.run_kept [OF assms(1,12) _ assms(2)] stored assms(14) by metis
  from known_not_registered [OF assms(1,2,4) this assms(13)] stored show ?thesis by blast
qed

text \<open>A chain that does not answer before the first event, with a provider that knows the storage.\<close>

definition offline_workflow :: "mem_world workflow" where
  "offline_workflow = mem_workflow False
     \<lparr> wf_chain := Some (mem_chain e2e_receipt
          \<lparr> cc_RegisterAgent := (\<lambda>_ w. (if mw_events w = [] then Inl (Sentinel ''chain offline'')
                                      else Inr e2e_receipt, w)) \<rparr>),
       wf_provider := (\<lambda>u w. Inr (map_of (mw_agents w) u \<noteq> None)) \<rparr>"

lemma offline_contract:
  "workflow_contract mem_client (\<lambda>w. map_of (mw_agents w)) mem_perms offline_workflow"
  by unfold_locales
    (auto simp: offline_workflow_def mem_client_def mem_workflow_def mem_chain_def mem_audit_def
      mem_perms_def map_of_update split: option.splits)

theorem api_chain_failure_sticks_witness:
  "\<exists>rep w' v rep' v'.
     Api_Register (mem_handler \<lparr> ap_RegisterSvc := Some offline_workflow \<rparr>) (Time 5) ''POST''
       (Some mem_api_request) empty_world = (rep, w')
   \<and> workflow_step offline_workflow w' v
   \<and> Api_Register (mem_handler \<lparr> ap_RegisterSvc := Some offline_workflow \<rparr>) (Time 6) ''POST''
       (Some mem_api_request) v = (rep', v')
   \<and> api_status rep = 502 \<and> api_status rep' \<noteq> 201"
proof -
  let ?h = "mem_handler \<lparr> ap_RegisterSvc := Some offline_workflow \<rparr>"
  let ?k = "replicate 32 (CHR ''k'')"
  have q: "api_request mem_api_request ?k (Time 5) = mem_request"
    by (simp add: api_request_def mem_api_request_def mem_request_def)
  have fields: "arq_UUID mem_api_request = rar_UUID mem_request"
    "b64url_decode (arq_PublicKey mem_api_request) = Some ?k"
    by (simp_all add: mem_api_request_def)
  have truth: "truthful offline_workflow (\<lambda>w. map_of (mw_agents w))"
    by (simp add: truthful_def offline_workflow_def)
  have live: "\<not> is_zero_time (Time 5)" by (simp add: is_zero_time_def zero_time_def)
  have ok: "admissible offline_workflow (Time 5) ''POST'' (Some mem_api_request) empty_world mem_api_request ?k"
    using mem_request_valid by (simp add: admissible_def q fields offline_workflow_def empty_world_def)
  have store: "wf_store offline_workflow = mem_client"
    by (simp add: offline_workflow_def mem_workflow_def)
  let ?w1 = "snd (st_PutAgent mem_client (registered_record mem_request (Time 5)) empty_world)"
  let ?w2 = "snd (st_SetPermissions mem_client (arq_UUID mem_api_request)
      (sr_Permissions (registered_record mem_request (Time 5))) ?w1)"
  have puts: "st_PutAgent (wf_store offline_workflow)
      (registered_record (api_request mem_api_request ?k (Time 5)) (Time 5)) empty_world = (None, ?w1)"
    "st_SetPermissions (wf_store offline_workflow) (arq_UUID mem_api_request)
      (sr_Permissions (registered_record (api_request mem_api_request ?k (Time 5)) (Time 5))) ?w1 = (None, ?w2)"
    by (simp_all add: store q)
  obtain ch where ch: "wf_chain offline_workflow = Some ch"
    "\<And>r. fst (cc_RegisterAgent ch r ?w2) = Inl (Sentinel ''chain offline'')"
    by (simp add: offline_workflow_def empty_world_def)
  obtain rep w' where r1: "Api_Register ?h (Time 5) ''POST'' (Some mem_api_request) empty_world = (rep, w')"
    by fastforce
  obtain v where v: "workflow_step offline_workflow w' v"
    using workflow_step.ban by (metis prod_cases3)
  obtain rep' v' where r2: "Api_Register ?h (Time 6) ''POST'' (Some mem_api_request) v = (rep', v')"
    by fastforce
  have clean: "records_ok (map_of (mw_agents empty_world))" by (simp add: records_ok_def empty_world_def)
  have svc: "ap_RegisterSvc ?h = Some offline_workflow" by simp
  have "api_status rep = 502 \<and> api_status rep' \<noteq> 201"
    using api_chain_failure_sticks [OF offline_contract truth clean svc live ok puts ch r1
        r_into_rtranclp [of "workflow_step offline_workflow", OF v] r2 refl] by blast
  with r1 v r2 show ?thesis by blast
qed

end
