(* ===== verification/McpServer.thy ===== *)
theory McpServer
  imports Rfc3339
begin

text \<open>
  The tool server of \<open>internal/mcp/server.go\<close>: JSON-RPC 2.0 over a byte stream. The scanner of the
  standard library is modelled with its limit on the length of a line and with what it does after
  that limit was met; decoding and encoding of JSON and the text of an error are parameters. A
  tool is a handler over a world of type \<open>'w\<close>, its result, which the server only encodes, has
  type \<open>'r\<close>. The map of tools is an association list; \<open>Tools\<close> lists it in an unspecified order.
\<close>

section \<open>Messages\<close>

record mcp_request =
  mq_JSONRPC :: string
  mq_ID :: "string option"
  mq_Method :: string
  mq_Params :: string

record mcp_error =
  me_Code :: int
  me_Message :: string

abbreviation CodeParse :: int where "CodeParse \<equiv> - 32700"
abbreviation CodeMethodNotFound :: int where "CodeMethodNotFound \<equiv> - 32601"
abbreviation CodeInvalidParams :: int where "CodeInvalidParams \<equiv> - 32602"
abbreviation CodeUnauthorized :: int where "CodeUnauthorized \<equiv> - 32001"
abbreviation CodeToolNotFound :: int where "CodeToolNotFound \<equiv> - 32002"

abbreviation ErrMcpInvalidRequest :: go_error where
  "ErrMcpInvalidRequest \<equiv> Sentinel ''mcp: invalid request''"
abbreviation ErrScannerTooLong :: go_error where
  "ErrScannerTooLong \<equiv> Sentinel ''bufio.Scanner: token too long''"
abbreviation ErrUnexpectedEOF :: go_error where
  "ErrUnexpectedEOF \<equiv> Sentinel ''unexpected EOF''"

record object_schema =
  os_Properties :: "(string \<times> string \<times> string) list"
  os_Required :: "string list"

record mcp_tool =
  mt_Name :: string
  mt_Description :: string
  mt_InputSchema :: object_schema

record server_info =
  si_Name :: string
  si_Version :: string

record call_params =
  cp_Name :: string
  cp_Arguments :: string

text \<open>The values that the server answers with; \<open>CallText\<close> is a \<open>CallResult\<close> with one text block.\<close>

datatype mcp_result =
    PingOk
  | InitResult server_info
  | ToolsResult "mcp_tool list"
  | CallText bool string

record mcp_response =
  mr_JSONRPC :: string
  mr_ID :: "string option"
  mr_Result :: "mcp_result option"
  mr_Error :: "mcp_error option"

text \<open>
  What the server uses of \<open>encoding/json\<close>: decoding a request, the parameters of a call and the two
  keys of an initialisation, whose decoding error is ignored; encoding a response and a result.
  \<open>mj_Text\<close> is the text of an error.
\<close>

record 'r mcp_json =
  mj_Request :: "string \<Rightarrow> go_error + mcp_request"
  mj_Call :: "string \<Rightarrow> go_error + call_params"
  mj_Keys :: "string \<Rightarrow> string \<times> string"
  mj_Response :: "mcp_response \<Rightarrow> string"
  mj_Result :: "'r \<Rightarrow> string"
  mj_Text :: "go_error \<Rightarrow> string"

section \<open>The server\<close>

record ('r, 'w) tool_descriptor =
  td_Tool :: mcp_tool
  td_Handler :: "string \<Rightarrow> 'w \<Rightarrow> (go_error + 'r) \<times> 'w"

record ('r, 'w) mcp_server =
  ms_Info :: server_info
  ms_Tools :: "(string \<times> ('r, 'w) tool_descriptor) list"
  ms_AuthKey :: string
  ms_Authed :: bool

definition NewServer :: "server_info \<Rightarrow> string \<Rightarrow> ('r, 'w) mcp_server" where
  "NewServer info key = \<lparr> ms_Info = info, ms_Tools = [], ms_AuthKey = key, ms_Authed = False \<rparr>"

definition RegisterTool ::
  "string \<Rightarrow> string \<Rightarrow> object_schema \<Rightarrow> (string \<Rightarrow> 'w \<Rightarrow> (go_error + 'r) \<times> 'w) \<Rightarrow>
   ('r, 'w) mcp_server \<Rightarrow> ('r, 'w) mcp_server" where
  "RegisterTool name description schema h s =
     s \<lparr> ms_Tools := AList.update name
           \<lparr> td_Tool = \<lparr> mt_Name = name, mt_Description = description, mt_InputSchema = schema \<rparr>,
             td_Handler = h \<rparr> (ms_Tools s) \<rparr>"

definition Mcp_Tools :: "('r, 'w) mcp_server \<Rightarrow> mcp_tool list" where
  "Mcp_Tools s = map (td_Tool \<circ> snd) (ms_Tools s)"

section \<open>Requests\<close>

definition okResp :: "mcp_request \<Rightarrow> mcp_result \<Rightarrow> mcp_response" where
  "okResp req r = \<lparr> mr_JSONRPC = ''2.0'', mr_ID = mq_ID req, mr_Result = Some r, mr_Error = None \<rparr>"

definition errResp :: "mcp_request \<Rightarrow> int \<Rightarrow> string \<Rightarrow> mcp_response" where
  "errResp req code msg =
     \<lparr> mr_JSONRPC = ''2.0'', mr_ID = mq_ID req, mr_Result = None,
       mr_Error = Some \<lparr> me_Code = code, me_Message = msg \<rparr> \<rparr>"

definition requireAuth :: "('r, 'w) mcp_server \<Rightarrow> (int \<times> string) option" where
  "requireAuth s =
     (if ms_AuthKey s = [] then None
      else if ms_Authed s then None
      else Some (CodeUnauthorized, ''mcp: unauthorized''))"

definition given_key :: "'r mcp_json \<Rightarrow> string \<Rightarrow> string" where
  "given_key j params =
     (let (api, auth) = mj_Keys j params in if api = [] then auth else api)"

definition handleInitialize ::
  "'r mcp_json \<Rightarrow> ('r, 'w) mcp_server \<Rightarrow> mcp_request \<Rightarrow> mcp_response \<times> ('r, 'w) mcp_server" where
  "handleInitialize j s req =
     (if ms_AuthKey s \<noteq> []
      then if given_key j (mq_Params req) \<noteq> ms_AuthKey s
        then (errResp req CodeUnauthorized ''mcp: unauthorized'', s)
        else (okResp req (InitResult (ms_Info s)), s \<lparr> ms_Authed := True \<rparr>)
      else (okResp req (InitResult (ms_Info s)), s))"

definition handleToolsList :: "('r, 'w) mcp_server \<Rightarrow> mcp_request \<Rightarrow> mcp_response" where
  "handleToolsList s req =
     (case requireAuth s of
        Some (c, m) \<Rightarrow> errResp req c m
      | None \<Rightarrow> okResp req (ToolsResult (Mcp_Tools s)))"

definition handleToolsCall ::
  "'r mcp_json \<Rightarrow> ('r, 'w) mcp_server \<Rightarrow> mcp_request \<Rightarrow> 'w \<Rightarrow> mcp_response \<times> 'w" where
  "handleToolsCall j s req w =
     (case requireAuth s of
        Some (c, m) \<Rightarrow> (errResp req c m, w)
      | None \<Rightarrow>
          (case mj_Call j (mq_Params req) of
             Inl err \<Rightarrow> (errResp req CodeInvalidParams (mj_Text j err), w)
           | Inr p \<Rightarrow>
               (case map_of (ms_Tools s) (cp_Name p) of
                  None \<Rightarrow> (errResp req CodeToolNotFound (cp_Name p @ '': mcp: tool not found''), w)
                | Some t \<Rightarrow>
                    (case td_Handler t (cp_Arguments p) w of
                       (Inl err, w') \<Rightarrow> (okResp req (CallText True (mj_Text j err)), w')
                     | (Inr r, w') \<Rightarrow> (okResp req (CallText False (mj_Result j r)), w')))))"

definition mcp_handle ::
  "'r mcp_json \<Rightarrow> ('r, 'w) mcp_server \<Rightarrow> mcp_request \<Rightarrow> 'w \<Rightarrow>
   mcp_response option \<times> ('r, 'w) mcp_server \<times> 'w" where
  "mcp_handle j s req w =
     (if mq_Method req = ''initialize''
        then (let (resp, s') = handleInitialize j s req in (Some resp, s', w))
      else if mq_Method req = ''ping'' then (Some (okResp req PingOk), s, w)
      else if mq_Method req = ''tools/list'' then (Some (handleToolsList s req), s, w)
      else if mq_Method req = ''tools/call''
        then (let (resp, w') = handleToolsCall j s req w in (Some resp, s, w'))
      else if mq_Method req = ''notifications/initialized'' then (None, s, w)
      else if mq_Method req = ''notifications/cancelled'' then (None, s, w)
      else (Some (errResp req CodeMethodNotFound (''method not found: '' @ mq_Method req)), s, w))"

section \<open>The line scanner\<close>

text \<open>
  \<open>bufio.Scanner\<close> with \<open>ScanLines\<close> over a reader that ends with \<open>io.EOF\<close>. \<open>sc_rest\<close> is what was not
  scanned yet. A line that fills the buffer sets the error and yields no token; the next call
  still returns the full buffer as a token, and the rest of the stream is never read.
\<close>

abbreviation newline :: char where "newline \<equiv> CHR 0x0A"

record scanner =
  sc_rest :: string
  sc_TooLong :: bool

definition first_line :: "string \<Rightarrow> string" where
  "first_line d = takeWhile (\<lambda>c. c \<noteq> newline) d"

definition drop_cr :: "string \<Rightarrow> string" where
  "drop_cr l = (if l \<noteq> [] \<and> last l = CHR 0x0D then butlast l else l)"

definition sc_Scan :: "nat \<Rightarrow> scanner \<Rightarrow> string option \<times> scanner" where
  "sc_Scan mx sc =
     (let d = sc_rest sc; l = first_line d
      in if \<not> sc_TooLong sc \<and> mx \<le> length l
         then (None, \<lparr> sc_rest = take mx d, sc_TooLong = True \<rparr>)
         else if d = [] then (None, sc)
         else (Some (drop_cr l), sc \<lparr> sc_rest := drop (Suc (length l)) d \<rparr>))"

lemma first_line_length: "length (first_line d) \<le> length d"
  by (simp add: first_line_def length_takeWhile_le)

lemma sc_Scan_shorter: "sc_Scan mx sc = (Some l, sc') \<Longrightarrow> length (sc_rest sc') < length (sc_rest sc)"
  by (auto simp: sc_Scan_def Let_def split: if_splits)

section \<open>Reading a request\<close>

text \<open>A read returns a request, \<open>io.EOF\<close> or another error, or panics.\<close>

datatype read_result =
    ReadOK mcp_request
  | ReadErr go_error
  | ReadEOF
  | ReadPanic string

definition decode_request :: "'r mcp_json \<Rightarrow> string \<Rightarrow> read_result" where
  "decode_request j body =
     (case mj_Request j body of
        Inl err \<Rightarrow> ReadErr (Errorf ''%w: %v'' [ErrMcpInvalidRequest])
      | Inr r \<Rightarrow> ReadOK r)"

text \<open>The second comparison is between 16 and 15 bytes.\<close>

definition isContentLengthHeader :: "string \<Rightarrow> bool" where
  "isContentLengthHeader line \<longleftrightarrow>
     16 < length line \<and> (take 15 line = ''Content-Length:'' \<or> take 16 line = ''content-length:'')"

text \<open>\<open>fmt.Sscanf\<close> with \<open>%d\<close> into an \<open>int\<close>: an optional sign and decimal digits in range.\<close>

definition scan_int :: "string \<Rightarrow> int option" where
  "scan_int s =
     (let neg = (s \<noteq> [] \<and> hd s = CHR ''-'');
          signed = (s \<noteq> [] \<and> (hd s = CHR ''-'' \<or> hd s = CHR ''+''));
          ds = takeWhile is_digit (if signed then tl s else s);
          v = (if neg then - int (dec_value ds) else int (dec_value ds))
      in if ds = [] \<or> v < - (2 ^ 63) \<or> 2 ^ 63 \<le> v then None else Some v)"

text \<open>The space of the format has to match at least one space, or the end of the line.\<close>

definition parseContentLength :: "string \<Rightarrow> int" where
  "parseContentLength line =
     (if take 15 line \<noteq> ''Content-Length:'' then 0
      else (let r = drop 15 line; r' = strip_front space_runes r
            in if r \<noteq> [] \<and> r' = r then 0
               else case scan_int r' of None \<Rightarrow> 0 | Some n \<Rightarrow> n))"

text \<open>The loop that reads more lines until the body has \<open>n\<close> bytes.\<close>

function fill_body :: "nat \<Rightarrow> int \<Rightarrow> string \<Rightarrow> scanner \<Rightarrow> string \<times> scanner" where
  "fill_body mx n body sc =
     (if int (length body) < n
      then case sc_Scan mx sc of
             (None, sc') \<Rightarrow> (body, sc')
           | (Some l, sc') \<Rightarrow> fill_body mx n (body @ newline # l) sc'
      else (body, sc))"
  by pat_completeness auto
termination
  by (relation "measure (\<lambda>(mx, n, body, sc). length (sc_rest sc))") (auto dest: sc_Scan_shorter [OF sym])

declare fill_body.simps [simp del]

text \<open>\<open>make\<close> panics for a negative capacity and for one beyond the address space.\<close>

definition readFramed :: "'r mcp_json \<Rightarrow> nat \<Rightarrow> scanner \<Rightarrow> int \<Rightarrow> read_result \<times> scanner" where
  "readFramed j mx sc n =
     (case sc_Scan mx sc of
        (None, sc') \<Rightarrow> (ReadErr ErrUnexpectedEOF, sc')
      | (Some l, sc') \<Rightarrow>
          if n < 0 \<or> 2 ^ 48 < n then (ReadPanic ''makeslice: cap out of range'', sc')
          else (let (body, sc'') = fill_body mx n l sc'
                in if int (length body) < n then (ReadErr ErrUnexpectedEOF, sc'')
                   else (decode_request j (take (nat n) body), sc'')))"

function readRequest :: "'r mcp_json \<Rightarrow> nat \<Rightarrow> scanner \<Rightarrow> read_result \<times> scanner" where
  "readRequest j mx sc =
     (case sc_Scan mx sc of
        (None, sc') \<Rightarrow> (if sc_TooLong sc' then ReadErr ErrScannerTooLong else ReadEOF, sc')
      | (Some line, sc') \<Rightarrow>
          if line = [] then readRequest j mx sc'
          else if isContentLengthHeader line then readFramed j mx sc' (parseContentLength line)
          else (decode_request j line, sc'))"
  by pat_completeness auto
termination
  by (relation "measure (\<lambda>(j, mx, sc). length (sc_rest sc))") (auto dest: sc_Scan_shorter [OF sym])

declare readRequest.simps [simp del]

section \<open>The main loop\<close>

record ('r, 'w) mcp_run =
  run_in :: scanner
  run_server :: "('r, 'w) mcp_server"
  run_out :: string
  run_world :: 'w

datatype serve_end = Served | ContextEnded | Panicked string

definition mcp_write :: "'r mcp_json \<Rightarrow> mcp_response \<Rightarrow> ('r, 'w) mcp_run \<Rightarrow> ('r, 'w) mcp_run" where
  "mcp_write j resp st = st \<lparr> run_out := run_out st @ mj_Response j resp @ [newline] \<rparr>"

definition writeError ::
  "'r mcp_json \<Rightarrow> string option \<Rightarrow> int \<Rightarrow> string \<Rightarrow> ('r, 'w) mcp_run \<Rightarrow> ('r, 'w) mcp_run" where
  "writeError j rid code msg =
     mcp_write j \<lparr> mr_JSONRPC = ''2.0'', mr_ID = rid, mr_Result = None,
                   mr_Error = Some \<lparr> me_Code = code, me_Message = msg \<rparr> \<rparr>"

definition mcp_limit :: nat where
  "mcp_limit = 16 * 1024 * 1024"

text \<open>One round of the loop after the context was asked: the end of the loop or the next state.\<close>

definition serve_round ::
  "'r mcp_json \<Rightarrow> ('r, 'w) mcp_run \<Rightarrow> serve_end \<times> ('r, 'w) mcp_run + ('r, 'w) mcp_run" where
  "serve_round j st =
     (case readRequest j mcp_limit (run_in st) of
        (ReadEOF, sc) \<Rightarrow> Inl (Served, st \<lparr> run_in := sc \<rparr>)
      | (ReadPanic m, sc) \<Rightarrow> Inl (Panicked m, st \<lparr> run_in := sc \<rparr>)
      | (ReadErr err, sc) \<Rightarrow> Inr (writeError j None CodeParse (mj_Text j err) (st \<lparr> run_in := sc \<rparr>))
      | (ReadOK req, sc) \<Rightarrow>
          (case mcp_handle j (run_server st) req (run_world st) of
             (resp, s', w') \<Rightarrow>
               (let st' = st \<lparr> run_in := sc, run_server := s', run_world := w' \<rparr>
                in Inr (case resp of None \<Rightarrow> st' | Some r \<Rightarrow> mcp_write j r st'))))"

text \<open>
  The loop may never end: \<open>None\<close>. \<open>ended k\<close> tells whether the context has ended when round \<open>k\<close>
  begins. The input is a text that is there from the start and ends: a read that would wait for
  more, during which the loop does not look at its context, does not occur. A panic is an end of its
  own, not a return.
\<close>

partial_function (option) mcp_serve ::
  "'r mcp_json \<Rightarrow> (nat \<Rightarrow> bool) \<Rightarrow> nat \<Rightarrow> ('r, 'w) mcp_run \<Rightarrow> (serve_end \<times> ('r, 'w) mcp_run) option" where
  "mcp_serve j ended k st =
     (if ended k then Some (ContextEnded, st)
      else case serve_round j st of
             Inl r \<Rightarrow> Some r
           | Inr st' \<Rightarrow> mcp_serve j ended (Suc k) st')"

definition mcp_start :: "('r, 'w) mcp_server \<Rightarrow> string \<Rightarrow> 'w \<Rightarrow> ('r, 'w) mcp_run" where
  "mcp_start s input w =
     \<lparr> run_in = \<lparr> sc_rest = input, sc_TooLong = False \<rparr>, run_server = s, run_out = [],
       run_world = w \<rparr>"

definition Mcp_Serve ::
  "'r mcp_json \<Rightarrow> (nat \<Rightarrow> bool) \<Rightarrow> ('r, 'w) mcp_server \<Rightarrow> string \<Rightarrow> 'w \<Rightarrow>
   (serve_end \<times> ('r, 'w) mcp_run) option" where
  "Mcp_Serve j ended s input w = mcp_serve j ended 0 (mcp_start s input w)"

end
