(* ===== verification/McpTools.thy ===== *)
theory McpTools
  imports McpServer LocalBackend
begin

text \<open>
  The eight tools of \<open>internal/mcp/tools.go\<close> over an identity backend, which is a record of
  operations on a world of type \<open>'w\<close>: the interface \<open>IdentityBackend\<close> as far as the tools call it.
  A registration may return a nil credential next to no error, as the batch tool expects. The
  decoders of the arguments are parameters.
\<close>

section \<open>The backend and the arguments\<close>

record 'w identity_backend =
  ib_RegisterAgent :: "backend_register_request \<Rightarrow> 'w \<Rightarrow> (go_error + backend_credential option) \<times> 'w"
  ib_GetAgentInfo :: "string \<Rightarrow> 'w \<Rightarrow> (go_error + agent_info) \<times> 'w"
  ib_UpdateAgentLevel :: "string \<Rightarrow> u8 \<Rightarrow> string \<Rightarrow> 'w \<Rightarrow> go_error option \<times> 'w"
  ib_BanAgent :: "string \<Rightarrow> string \<Rightarrow> 'w \<Rightarrow> go_error option \<times> 'w"
  ib_UnbanAgent :: "string \<Rightarrow> 'w \<Rightarrow> go_error option \<times> 'w"
  ib_GetChangeLogs :: "string \<Rightarrow> 'w \<Rightarrow> go_error + backend_log list"

record tool_register_args =
  tr_Owner :: string
  tr_Level :: u8
  tr_Permission :: u64
  tr_PublicKey :: string
  tr_Metadata :: "(string \<times> string) list"

record tool_upgrade_args =
  tu_UUID :: string
  tu_TargetLevel :: u8
  tu_Reason :: string

record tool_perm_args =
  tp_UUID :: string
  tp_Permission :: u64

record tool_audit_args =
  tl_UUID :: string
  tl_Limit :: int

record tool_ban_args =
  tb_UUID :: string
  tb_Reason :: string

record tool_json =
  tj_Ref :: "string \<Rightarrow> go_error + string"
  tj_Register :: "string \<Rightarrow> go_error + tool_register_args"
  tj_Upgrade :: "string \<Rightarrow> go_error + tool_upgrade_args"
  tj_Perm :: "string \<Rightarrow> go_error + tool_perm_args"
  tj_Audit :: "string \<Rightarrow> go_error + tool_audit_args"
  tj_Batch :: "string \<Rightarrow> go_error + tool_register_args list"
  tj_Ban :: "string \<Rightarrow> go_error + tool_ban_args"

text \<open>The values that the tools return; a batch entry has its index, owner and outcome.\<close>

datatype batch_outcome = BatchError go_error | BatchNil | BatchDone string string string

datatype tool_result =
    ToolCredential "backend_credential option"
  | ToolInfo agent_info
  | ToolUpgraded string u8
  | ToolPermission string u64 u64 bool u64
  | ToolLogs "backend_log list" int
  | ToolBatch "(int \<times> string \<times> batch_outcome) list" int
  | ToolAction string string

abbreviation invalid_args :: "go_error \<Rightarrow> go_error" where
  "invalid_args err \<equiv> Errorf ''invalid args: %w'' [err]"

section \<open>The tools\<close>

definition tool_register ::
  "tool_json \<Rightarrow> 'w identity_backend \<Rightarrow> string \<Rightarrow> 'w \<Rightarrow> (go_error + tool_result) \<times> 'w" where
  "tool_register tj be raw w =
     (case tj_Register tj raw of
        Inl err \<Rightarrow> (Inl (invalid_args err), w)
      | Inr a \<Rightarrow>
          if tr_Owner a = [] \<or> tr_PublicKey a = []
          then (Inl (Errorf ''owner and public_key are required'' []), w)
          else
            (case ib_RegisterAgent be
                    \<lparr> rq_Owner = tr_Owner a,
                      rq_Level = (if tr_Level a = 0 then 1 else tr_Level a),
                      rq_Permission = (if tr_Permission a = 0 then 0xFF else tr_Permission a),
                      rq_PublicKey = tr_PublicKey a, rq_Metadata = tr_Metadata a \<rparr> w of
               (Inl err, w') \<Rightarrow> (Inl err, w')
             | (Inr cred, w') \<Rightarrow> (Inr (ToolCredential cred), w')))"

definition tool_get_info ::
  "tool_json \<Rightarrow> 'w identity_backend \<Rightarrow> string \<Rightarrow> 'w \<Rightarrow> (go_error + tool_result) \<times> 'w" where
  "tool_get_info tj be raw w =
     (case tj_Ref tj raw of
        Inl err \<Rightarrow> (Inl (invalid_args err), w)
      | Inr u \<Rightarrow>
          if u = [] then (Inl (Errorf ''uuid is required'' []), w)
          else (case ib_GetAgentInfo be u w of
                  (Inl err, w') \<Rightarrow> (Inl err, w')
                | (Inr info, w') \<Rightarrow> (Inr (ToolInfo info), w')))"

definition tool_upgrade ::
  "tool_json \<Rightarrow> 'w identity_backend \<Rightarrow> string \<Rightarrow> 'w \<Rightarrow> (go_error + tool_result) \<times> 'w" where
  "tool_upgrade tj be raw w =
     (case tj_Upgrade tj raw of
        Inl err \<Rightarrow> (Inl (invalid_args err), w)
      | Inr a \<Rightarrow>
          if tu_UUID a = [] \<or> tu_TargetLevel a = 0
          then (Inl (Errorf ''uuid and target_level are required'' []), w)
          else (case ib_UpdateAgentLevel be (tu_UUID a) (tu_TargetLevel a) (tu_Reason a) w of
                  (Some err, w') \<Rightarrow> (Inl err, w')
                | (None, w') \<Rightarrow> (Inr (ToolUpgraded (tu_UUID a) (tu_TargetLevel a)), w')))"

definition tool_check_permission ::
  "tool_json \<Rightarrow> 'w identity_backend \<Rightarrow> string \<Rightarrow> 'w \<Rightarrow> (go_error + tool_result) \<times> 'w" where
  "tool_check_permission tj be raw w =
     (case tj_Perm tj raw of
        Inl err \<Rightarrow> (Inl (invalid_args err), w)
      | Inr a \<Rightarrow>
          if tp_UUID a = [] then (Inl (Errorf ''uuid is required'' []), w)
          else (case ib_GetAgentInfo be (tp_UUID a) w of
                  (Inl err, w') \<Rightarrow> (Inl err, w')
                | (Inr info, w') \<Rightarrow>
                    (Inr (ToolPermission (tp_UUID a) (tp_Permission a) (ai_Permission info)
                            (and (ai_Permission info) (tp_Permission a) = tp_Permission a)
                            (and (tp_Permission a) (not (ai_Permission info)))), w')))"

definition tool_audit_logs ::
  "tool_json \<Rightarrow> 'w identity_backend \<Rightarrow> string \<Rightarrow> 'w \<Rightarrow> (go_error + tool_result) \<times> 'w" where
  "tool_audit_logs tj be raw w =
     (case tj_Audit tj raw of
        Inl err \<Rightarrow> (Inl (invalid_args err), w)
      | Inr a \<Rightarrow>
          if tl_UUID a = [] then (Inl (Errorf ''uuid is required'' []), w)
          else (case ib_GetChangeLogs be (tl_UUID a) w of
                  Inl err \<Rightarrow> (Inl err, w)
                | Inr logs \<Rightarrow>
                    (let logs' = (if 0 < tl_Limit a \<and> tl_Limit a < int (length logs)
                                  then drop (nat (int (length logs) - tl_Limit a)) logs else logs)
                     in (Inr (ToolLogs logs' (int (length logs'))), w))))"

fun tool_batch_loop ::
  "'w identity_backend \<Rightarrow> int \<Rightarrow> tool_register_args list \<Rightarrow> 'w \<Rightarrow>
   (int \<times> string \<times> batch_outcome) list \<times> 'w" where
  "tool_batch_loop be i [] w = ([], w)"
| "tool_batch_loop be i (it # its) w =
     (let (res, w') = ib_RegisterAgent be
            \<lparr> rq_Owner = tr_Owner it,
              rq_Level = (if tr_Level it = 0 then 1 else tr_Level it),
              rq_Permission = (if tr_Permission it = 0 then 0xFF else tr_Permission it),
              rq_PublicKey = tr_PublicKey it, rq_Metadata = [] \<rparr> w;
          entry = (i, tr_Owner it,
             (case res of
                Inl err \<Rightarrow> BatchError err
              | Inr None \<Rightarrow> BatchNil
              | Inr (Some cred) \<Rightarrow> BatchDone (bc_UUID cred) (bc_State cred) (bc_TxHash cred)));
          (entries, w'') = tool_batch_loop be (i + 1) its w'
      in (entry # entries, w''))"

definition tool_batch_register ::
  "tool_json \<Rightarrow> 'w identity_backend \<Rightarrow> string \<Rightarrow> 'w \<Rightarrow> (go_error + tool_result) \<times> 'w" where
  "tool_batch_register tj be raw w =
     (case tj_Batch tj raw of
        Inl err \<Rightarrow> (Inl (invalid_args err), w)
      | Inr items \<Rightarrow>
          if length items = 0 then (Inl (Errorf ''items must be non-empty'' []), w)
          else if 100 < length items then (Inl (Errorf ''items length must be <= 100'' []), w)
          else (let (results, w') = tool_batch_loop be 0 items w
                in (Inr (ToolBatch results (int (length results))), w')))"

definition tool_ban ::
  "tool_json \<Rightarrow> 'w identity_backend \<Rightarrow> string \<Rightarrow> 'w \<Rightarrow> (go_error + tool_result) \<times> 'w" where
  "tool_ban tj be raw w =
     (case tj_Ban tj raw of
        Inl err \<Rightarrow> (Inl (invalid_args err), w)
      | Inr a \<Rightarrow>
          if tb_UUID a = [] then (Inl (Errorf ''uuid is required'' []), w)
          else (case ib_BanAgent be (tb_UUID a) (if tb_Reason a = [] then ''policy'' else tb_Reason a) w of
                  (Some err, w') \<Rightarrow> (Inl err, w')
                | (None, w') \<Rightarrow> (Inr (ToolAction (tb_UUID a) ''banned''), w')))"

definition tool_unban ::
  "tool_json \<Rightarrow> 'w identity_backend \<Rightarrow> string \<Rightarrow> 'w \<Rightarrow> (go_error + tool_result) \<times> 'w" where
  "tool_unban tj be raw w =
     (case tj_Ref tj raw of
        Inl err \<Rightarrow> (Inl (invalid_args err), w)
      | Inr u \<Rightarrow>
          if u = [] then (Inl (Errorf ''uuid is required'' []), w)
          else (case ib_UnbanAgent be u w of
                  (Some err, w') \<Rightarrow> (Inl err, w')
                | (None, w') \<Rightarrow> (Inr (ToolAction u ''unbanned''), w')))"

section \<open>Registering the tools\<close>

definition containsAny :: "string \<Rightarrow> string list \<Rightarrow> bool" where
  "containsAny s subs \<longleftrightarrow>
     list_ex (\<lambda>sub. length sub \<le> length s
        \<and> list_ex (\<lambda>i. take (length sub) (drop i s) = sub) [0..<Suc (length s - length sub)]) subs"

definition objectSchema :: "(string \<times> string) list \<Rightarrow> string list \<Rightarrow> object_schema" where
  "objectSchema props required =
     \<lparr> os_Properties = map (\<lambda>(k, desc). (k,
          (if containsAny desc [''integer'', ''bitmask''] then ''integer'' else ''string''), desc)) props,
       os_Required = required \<rparr>"

definition RegisterAgentIDTools ::
  "tool_json \<Rightarrow> 'w identity_backend \<Rightarrow> (tool_result, 'w) mcp_server \<Rightarrow> (tool_result, 'w) mcp_server" where
  "RegisterAgentIDTools tj be s =
     (let uuid = (''uuid'', ''string (uuid v7)'') in
      fold (\<lambda>(name, description, schema, h) s. RegisterTool name description schema h s)
       [(''agentid_register'', ''Register a new agent. Returns credential with uuid, level, state, tx_hash.'',
         objectSchema [(''owner'', ''string (DID, e.g. did:agentid:alice)''), (''level'', ''integer 1-3''),
             (''permission'', ''integer bitmask (default 255)''), (''public_key'', ''string (base64)'')]
           [''owner'', ''level'', ''public_key''], tool_register tj be),
        (''agentid_get_info'', ''Get agent full info by uuid.'',
         objectSchema [uuid] [''uuid''], tool_get_info tj be),
        (''agentid_upgrade'', ''Upgrade agent level (newLevel must be > currentLevel).'',
         objectSchema [uuid, (''target_level'', ''integer 2-3''), (''reason'', ''string (optional)'')]
           [''uuid'', ''target_level''], tool_upgrade tj be),
        (''agentid_check_permission'', ''Check whether agent has all bits in the given permission bitmask.'',
         objectSchema [uuid, (''permission'', ''integer bitmask'')] [''uuid'', ''permission''],
         tool_check_permission tj be),
        (''agentid_audit_logs'',
         ''Get change logs (register/upgrade/ban/unban/unregister) for an agent.'',
         objectSchema [uuid, (''limit'', ''integer (optional, default 50)'')] [''uuid''],
         tool_audit_logs tj be),
        (''agentid_batch_register'', ''Register multiple agents in one call. Returns per-item credentials.'',
         objectSchema [(''items'', ''array of {owner,level,permission,public_key}'')] [''items''],
         tool_batch_register tj be),
        (''agentid_ban'', ''Ban an agent (state -> banned; idempotent).'',
         objectSchema [uuid, (''reason'', ''string (optional, default 'policy')'')] [''uuid''],
         tool_ban tj be),
        (''agentid_unban'', ''Unban an agent (state banned -> active; idempotent).'',
         objectSchema [uuid] [''uuid''], tool_unban tj be)] s)"

end
