(* ===== verification/McpRules.thy ===== *)
theory McpRules
  imports McpServer
begin

text \<open>
  What the tool server shows. The loop ends on every input whose lines are shorter than the limit of
  the scanner, and without end of its context never after a longer line. Without the key no tool
  runs. The framing with a length header never delivers a message, and a negative length panics.
\<close>

section \<open>Termination\<close>

text \<open>Every line of the stream is shorter than the limit, so that the scanner never stops early.\<close>

function short_lines :: "nat \<Rightarrow> string \<Rightarrow> bool" where
  "short_lines mx d =
     (if d = [] then True
      else length (first_line d) < mx \<and> short_lines mx (drop (Suc (length (first_line d))) d))"
  by pat_completeness auto
termination by (relation "measure (\<lambda>(mx, d). length d)") auto

declare short_lines.simps [simp del]

definition calm :: "scanner \<Rightarrow> bool" where
  "calm sc \<longleftrightarrow> \<not> sc_TooLong sc \<and> short_lines mcp_limit (sc_rest sc)"

lemma mcp_limit_pos: "0 < mcp_limit"
  by (simp add: mcp_limit_def)

lemma calm_Scan:
  assumes "sc_Scan mcp_limit sc = (r, sc')" and "calm sc"
  shows "calm sc' \<and> length (sc_rest sc') \<le> length (sc_rest sc)
    \<and> (r = None \<longleftrightarrow> sc_rest sc = []) \<and> (r \<noteq> None \<longrightarrow> length (sc_rest sc') < length (sc_rest sc))"
  using assms mcp_limit_pos
  by (subst (asm) calm_def, subst (asm) short_lines.simps)
    (auto simp: sc_Scan_def Let_def calm_def short_lines.simps [of _ "[]"] first_line_def
      split: if_splits)

lemma calm_fill:
  "calm sc \<Longrightarrow> fill_body mcp_limit n body sc = (body', sc') \<Longrightarrow>
   calm sc' \<and> length (sc_rest sc') \<le> length (sc_rest sc)"
proof (induction mcp_limit n body sc rule: fill_body.induct)
  case (1 n body sc)
  obtain r sc1 where s: "sc_Scan mcp_limit sc = (r, sc1)" by fastforce
  note c = calm_Scan [OF s 1(2)] and eq = 1(3) [unfolded fill_body.simps [of mcp_limit n body sc] s]
  show ?case
  proof (cases "int (length body) < n \<and> r \<noteq> None")
    case True
    then obtain l where l: "r = Some l" by blast
    from True eq l have "fill_body mcp_limit n (body @ newline # l) sc1 = (body', sc')" by simp
    with 1(1) [OF _ s [symmetric] l] True c show ?thesis by fastforce
  qed (use eq c 1(2) in \<open>auto split: if_splits\<close>)
qed

lemma calm_framed:
  assumes "calm sc" and "readFramed j mcp_limit sc n = (res, sc')"
  shows "calm sc' \<and> length (sc_rest sc') \<le> length (sc_rest sc)"
proof -
  obtain r sc1 where s: "sc_Scan mcp_limit sc = (r, sc1)" by fastforce
  note c = calm_Scan [OF s assms(1)]
  show ?thesis
  proof (cases r)
    case None
    with assms(2) s c show ?thesis by (auto simp: readFramed_def)
  next
    case (Some l)
    obtain body sc2 where f: "fill_body mcp_limit n l sc1 = (body, sc2)" by fastforce
    from calm_fill [OF _ f] c assms(2) s Some show ?thesis
      by (auto simp: readFramed_def f split: if_splits)
  qed
qed

lemma calm_read:
  "calm sc \<Longrightarrow> readRequest j mcp_limit sc = (res, sc') \<Longrightarrow>
   calm sc' \<and> (res = ReadEOF \<or> length (sc_rest sc') < length (sc_rest sc))"
proof (induction j mcp_limit sc rule: readRequest.induct)
  case (1 j sc)
  obtain r sc1 where s: "sc_Scan mcp_limit sc = (r, sc1)" by fastforce
  note c = calm_Scan [OF s 1(2)]
  note eq = 1(3) [unfolded readRequest.simps [of j mcp_limit sc] s]
  show ?case
  proof (cases r)
    case None
    with eq c show ?thesis by (auto simp: calm_def)
  next
    case (Some l)
    show ?thesis
    proof (cases "l = []")
      case True
      with 1(1) [OF s [symmetric] Some True] eq c Some show ?thesis by fastforce
    next
      case False
      then show ?thesis using eq c Some calm_framed [of sc1 j "parseContentLength l" res sc']
        by (auto split: if_splits)
    qed
  qed
qed

lemma read_eof: "readRequest j mx sc = (ReadEOF, sc') \<Longrightarrow> sc_rest sc' = []"
proof (induction j mx sc rule: readRequest.induct)
  case (1 j mx sc)
  obtain r sc1 where s: "sc_Scan mx sc = (r, sc1)" by fastforce
  note eq = 1(2) [unfolded readRequest.simps [of j mx sc] s]
  show ?case
  proof (cases r)
    case None
    with eq s show ?thesis
      by (auto simp: sc_Scan_def Let_def split: if_splits)
  next
    case (Some l)
    have n: "readFramed j mx sc1 n \<noteq> (ReadEOF, sc')" for n
      by (auto simp: readFramed_def decode_request_def split: option.splits sum.splits prod.splits)
    show ?thesis
    proof (cases "l = []")
      case True
      with 1(1) [OF s [symmetric] Some True] eq Some show ?thesis by simp
    qed (use eq Some n in \<open>auto simp: decode_request_def split: if_splits sum.splits\<close>)
  qed
qed

lemma serve_round_in:
  assumes "serve_round j st = Inr st'"
  obtains res sc where "readRequest j mcp_limit (run_in st) = (res, sc)" "run_in st' = sc"
    "res \<noteq> ReadEOF" "\<nexists>m. res = ReadPanic m"
  using assms
  by (auto simp: serve_round_def writeError_def mcp_write_def Let_def
      split: prod.splits read_result.splits option.splits)

lemma serve_round_calm:
  assumes "serve_round j st = Inr st'" and "calm (run_in st)"
  shows "calm (run_in st') \<and> length (sc_rest (run_in st')) < length (sc_rest (run_in st))"
  using serve_round_in [OF assms(1)] calm_read [OF assms(2)] by metis

lemma serve_short_ends:
  "calm (run_in st) \<Longrightarrow> \<exists>r. mcp_serve j ended k st = Some r"
proof (induction "length (sc_rest (run_in st))" arbitrary: st k rule: less_induct)
  case less
  show ?case
  proof (cases "serve_round j st")
    case (Inr st')
    with less serve_round_calm [OF Inr] show ?thesis by (subst mcp_serve.simps) auto
  qed (subst mcp_serve.simps, auto)
qed

lemma serve_context_ends: "ended (k + n) \<Longrightarrow> \<exists>r. mcp_serve j ended k st = Some r"
proof (induction n arbitrary: k st)
  case 0
  then show ?case by (subst mcp_serve.simps) simp
next
  case (Suc n)
  then have "ended (Suc k + n)" by simp
  note ih = Suc.IH [OF this]
  show ?case by (subst mcp_serve.simps) (use ih in \<open>auto split: sum.split\<close>)
qed

text \<open>Once a line was too long, or if one is still to come, the end of the stream is never seen.\<close>

lemma doomed_Scan:
  assumes "sc_Scan mcp_limit sc = (r, sc')" and "\<not> calm sc"
  shows "\<not> calm sc' \<and> (r = None \<longrightarrow> sc_TooLong sc')"
proof (cases "sc_TooLong sc")
  case False
  with assms(2) have "\<not> short_lines mcp_limit (sc_rest sc)" by (simp add: calm_def)
  from this [unfolded short_lines.simps [of _ "sc_rest sc"]] False assms(1) show ?thesis
    by (auto simp: sc_Scan_def Let_def calm_def split: if_splits)
qed (use assms(1) in \<open>auto simp: sc_Scan_def Let_def calm_def split: if_splits\<close>)

lemma doomed_fill:
  "\<not> calm sc \<Longrightarrow> fill_body mcp_limit n body sc = (body', sc') \<Longrightarrow> \<not> calm sc'"
proof (induction mcp_limit n body sc rule: fill_body.induct)
  case (1 n body sc)
  obtain r sc1 where s: "sc_Scan mcp_limit sc = (r, sc1)" by fastforce
  note c = doomed_Scan [OF s 1(2)] and eq = 1(3) [unfolded fill_body.simps [of mcp_limit n body sc] s]
  show ?case
  proof (cases "int (length body) < n \<and> r \<noteq> None")
    case True
    then obtain l where l: "r = Some l" by blast
    from True eq l have "fill_body mcp_limit n (body @ newline # l) sc1 = (body', sc')" by simp
    with 1(1) [OF _ s [symmetric] l] True c show ?thesis by fastforce
  qed (use eq c 1(2) in \<open>auto split: if_splits\<close>)
qed

lemma doomed_framed:
  assumes "\<not> calm sc" and "readFramed j mcp_limit sc n = (res, sc')"
  shows "\<not> calm sc' \<and> res \<noteq> ReadEOF"
proof -
  obtain r sc1 where s: "sc_Scan mcp_limit sc = (r, sc1)" by fastforce
  note c = doomed_Scan [OF s assms(1)]
  show ?thesis
  proof (cases r)
    case None
    with assms(2) s c show ?thesis by (auto simp: readFramed_def)
  next
    case (Some l)
    obtain body sc2 where f: "fill_body mcp_limit n l sc1 = (body, sc2)" by fastforce
    from doomed_fill [OF _ f] c assms(2) s Some show ?thesis
      by (auto simp: readFramed_def decode_request_def f split: if_splits sum.splits)
  qed
qed

lemma doomed_read:
  "\<not> calm sc \<Longrightarrow> readRequest j mcp_limit sc = (res, sc') \<Longrightarrow> \<not> calm sc' \<and> res \<noteq> ReadEOF"
proof (induction j mcp_limit sc rule: readRequest.induct)
  case (1 j sc)
  obtain r sc1 where s: "sc_Scan mcp_limit sc = (r, sc1)" by fastforce
  note c = doomed_Scan [OF s 1(2)]
  note eq = 1(3) [unfolded readRequest.simps [of j mcp_limit sc] s]
  show ?case
  proof (cases r)
    case None
    with eq c show ?thesis by auto
  next
    case (Some l)
    show ?thesis
    proof (cases "l = []")
      case True
      with 1(1) [OF s [symmetric] Some True] eq c Some show ?thesis by fastforce
    next
      case False
      then show ?thesis using eq c Some doomed_framed [of sc1 j "parseContentLength l" res sc']
        by (auto simp: decode_request_def split: if_splits sum.splits)
    qed
  qed
qed

text \<open>How a loop that returns has ended.\<close>

lemma serve_end:
  assumes "mcp_serve j ended k st = Some r"
  shows "(fst r = ContextEnded \<longrightarrow> (\<exists>i. ended i))
    \<and> (fst r = Served \<longrightarrow> calm (run_in st) \<and> sc_rest (run_in (snd r)) = [])"
proof (rule mcp_serve.raw_induct [OF _ assms, where P = "\<lambda>j ended k st r.
    (fst r = ContextEnded \<longrightarrow> (\<exists>i. ended i))
    \<and> (fst r = Served \<longrightarrow> calm (run_in st) \<and> sc_rest (run_in (snd r)) = [])"])
  fix f j ended k st r
  assume ih: "\<And>j ended k st r. f j ended k st = Some r \<Longrightarrow>
      (fst r = ContextEnded \<longrightarrow> (\<exists>i. ended i))
      \<and> (fst r = Served \<longrightarrow> calm (run_in st) \<and> sc_rest (run_in (snd r)) = [])"
    and eq: "(if ended k then Some (ContextEnded, st)
      else case serve_round j st of Inl r \<Rightarrow> Some r | Inr st' \<Rightarrow> f j ended (Suc k) st') = Some r"
  show "(fst r = ContextEnded \<longrightarrow> (\<exists>i. ended i))
    \<and> (fst r = Served \<longrightarrow> calm (run_in st) \<and> sc_rest (run_in (snd r)) = [])"
  proof (cases "ended k")
    case True
    with eq show ?thesis by auto
  next
    case False
    show ?thesis
    proof (cases "serve_round j st")
      case (Inl x)
      then show ?thesis
        using False eq read_eof [of j mcp_limit "run_in st"] doomed_read [of "run_in st" j]
        by (auto simp: serve_round_def Let_def split: prod.splits read_result.splits)
    next
      case (Inr st')
      with False eq have f: "f j ended (Suc k) st' = Some r" by simp
      obtain res where "readRequest j mcp_limit (run_in st) = (res, run_in st')"
        using serve_round_in [OF Inr] by metis
      then show ?thesis using ih [OF f] doomed_read [of "run_in st" j res "run_in st'"] by blast
    qed
  qed
qed

text \<open>
  The lines of the stream, and those that declare no length that \<open>make\<close> panics on: such a length is
  negative or beyond the address space.
\<close>

function stream_lines :: "string \<Rightarrow> string list" where
  "stream_lines d =
     (if d = [] then [] else drop_cr (first_line d) # stream_lines (drop (Suc (length (first_line d))) d))"
  by pat_completeness auto
termination by (relation "measure length") auto

declare stream_lines.simps [simp del]

definition harmless_line :: "string \<Rightarrow> bool" where
  "harmless_line l \<longleftrightarrow>
     (isContentLengthHeader l \<longrightarrow> 0 \<le> parseContentLength l \<and> parseContentLength l \<le> 2 ^ 48)"

abbreviation lines_of :: "scanner \<Rightarrow> string set" where
  "lines_of sc \<equiv> set (stream_lines (sc_rest sc))"

lemma lines_of_step:
  "sc_rest sc \<noteq> [] \<Longrightarrow> lines_of sc = insert (drop_cr (first_line (sc_rest sc)))
     (set (stream_lines (drop (Suc (length (first_line (sc_rest sc)))) (sc_rest sc))))"
  by (subst stream_lines.simps) simp

lemma lines_Scan:
  assumes "sc_Scan mcp_limit sc = (r, sc')" and "calm sc"
  shows "lines_of sc' \<subseteq> lines_of sc \<and> (\<forall>l. r = Some l \<longrightarrow> l \<in> lines_of sc)"
proof (cases "sc_rest sc = []")
  case True
  then show ?thesis
    using assms mcp_limit_pos by (auto simp: sc_Scan_def Let_def calm_def first_line_def split: if_splits)
next
  case False
  have "length (first_line (sc_rest sc)) < mcp_limit"
    using assms(2) False short_lines.simps [of mcp_limit "sc_rest sc"] by (simp add: calm_def split: if_splits)
  with False assms(1) show ?thesis
    unfolding lines_of_step [OF False] by (auto simp: sc_Scan_def Let_def)
qed

lemma lines_fill:
  "calm sc \<Longrightarrow> fill_body mcp_limit n body sc = (body', sc') \<Longrightarrow> lines_of sc' \<subseteq> lines_of sc"
proof (induction mcp_limit n body sc rule: fill_body.induct)
  case (1 n body sc)
  obtain r sc1 where s: "sc_Scan mcp_limit sc = (r, sc1)" by fastforce
  note c = calm_Scan [OF s 1(2)] and l = lines_Scan [OF s 1(2)]
    and eq = 1(3) [unfolded fill_body.simps [of mcp_limit n body sc] s]
  show ?case
  proof (cases "int (length body) < n \<and> r \<noteq> None")
    case True
    then obtain x where x: "r = Some x" by blast
    from True eq x have "fill_body mcp_limit n (body @ newline # x) sc1 = (body', sc')" by simp
    with 1(1) [OF _ s [symmetric] x] True c l show ?thesis by fastforce
  qed (use eq l in \<open>auto split: if_splits\<close>)
qed

lemma lines_read:
  "calm sc \<Longrightarrow> readRequest j mcp_limit sc = (res, sc') \<Longrightarrow>
   lines_of sc' \<subseteq> lines_of sc \<and> (\<forall>m. res = ReadPanic m \<longrightarrow> (\<exists>l \<in> lines_of sc. \<not> harmless_line l))"
proof (induction j mcp_limit sc rule: readRequest.induct)
  case (1 j sc)
  obtain r sc1 where s: "sc_Scan mcp_limit sc = (r, sc1)" by fastforce
  note c = calm_Scan [OF s 1(2)] and l = lines_Scan [OF s 1(2)]
    and eq = 1(3) [unfolded readRequest.simps [of j mcp_limit sc] s]
  show ?case
  proof (cases r)
    case None
    with eq l show ?thesis by (auto split: if_splits)
  next
    case (Some x)
    consider (empty) "x = []" | (header) "x \<noteq> []" "isContentLengthHeader x"
      | (line) "x \<noteq> []" "\<not> isContentLengthHeader x" by blast
    then show ?thesis
    proof cases
      case empty
      with 1(1) [OF s [symmetric] Some] eq c l Some show ?thesis by fastforce
    next
      case header
      then have f: "readFramed j mcp_limit sc1 (parseContentLength x) = (res, sc')" using eq Some by simp
      obtain r2 sc2 where s2: "sc_Scan mcp_limit sc1 = (r2, sc2)" by fastforce
      have c1: "calm sc1" using c by blast
      note l2 = lines_Scan [OF s2 c1]
      show ?thesis
      proof (cases r2)
        case None
        with f s2 l l2 show ?thesis by (auto simp: readFramed_def)
      next
        case r2: (Some y)
        obtain body sc3 where b: "fill_body mcp_limit (parseContentLength x) y sc2 = (body, sc3)" by fastforce
        have "lines_of sc3 \<subseteq> lines_of sc2" using lines_fill [OF _ b] calm_Scan [OF s2 c1] by blast
        with f s2 r2 b l l2 Some header show ?thesis
          by (auto simp: readFramed_def harmless_line_def decode_request_def split: if_splits sum.splits)
      qed
    next
      case line
      with eq l Some show ?thesis by (auto simp: decode_request_def split: sum.splits)
    qed
  qed
qed

lemma serve_harmless_ends:
  "calm (run_in st) \<Longrightarrow> \<forall>l \<in> lines_of (run_in st). harmless_line l \<Longrightarrow>
   \<exists>e st'. mcp_serve j ended k st = Some (e, st') \<and> (e = Served \<or> e = ContextEnded)"
proof (induction "length (sc_rest (run_in st))" arbitrary: st k rule: less_induct)
  case less
  show ?case
  proof (cases "ended k")
    case True
    then show ?thesis by (subst mcp_serve.simps) simp
  next
    case False
    show ?thesis
    proof (cases "serve_round j st")
      case (Inl x)
      then have "fst x = Served"
        using lines_read [OF less(2), of j] less(3)
        by (fastforce simp: serve_round_def Let_def split: prod.splits read_result.splits)
      with Inl False show ?thesis by (subst mcp_serve.simps) (cases x, simp)
    next
      case (Inr st')
      obtain res where "readRequest j mcp_limit (run_in st) = (res, run_in st')"
        using serve_round_in [OF Inr] by metis
      with lines_read [OF less(2)] less(3) have "\<forall>l \<in> lines_of (run_in st'). harmless_line l" by blast
      with less(1) [of st' "Suc k"] less(2) serve_round_calm [OF Inr] Inr False show ?thesis
        by (subst mcp_serve.simps) auto
    qed
  qed
qed

text \<open>C12: Over an input that was written and closed, so that no read waits, the main loop ends if
  every line is shorter than the limit of the scanner or the context ends. With short lines of which
  none declares a negative or huge length it ends by returning; otherwise it may end in a panic. It
  reports the end of the context only when that came, and a regular end only when every line was
  shorter than the limit, and then the input is used up. So without an end of the context one line
  of 16 MB keeps the loop writing errors for ever.\<close>

theorem mcp_serve_termination:
  "(short_lines mcp_limit input \<or> (\<exists>k. ended k) \<longrightarrow> Mcp_Serve j ended s input w \<noteq> None)
   \<and> (short_lines mcp_limit input \<and> (\<forall>l \<in> set (stream_lines input). harmless_line l) \<longrightarrow>
        (\<exists>e st. Mcp_Serve j ended s input w = Some (e, st) \<and> (e = Served \<or> e = ContextEnded)))
   \<and> (\<forall>e st. Mcp_Serve j ended s input w = Some (e, st) \<longrightarrow>
        (e = ContextEnded \<longrightarrow> (\<exists>k. ended k))
        \<and> (e = Served \<longrightarrow> short_lines mcp_limit input \<and> sc_rest (run_in st) = []))"
proof (intro conjI impI)
  assume "short_lines mcp_limit input \<or> (\<exists>k. ended k)"
  then show "Mcp_Serve j ended s input w \<noteq> None"
  proof
    assume "short_lines mcp_limit input"
    then have "calm (run_in (mcp_start s input w))" by (simp add: calm_def mcp_start_def)
    then show ?thesis using serve_short_ends unfolding Mcp_Serve_def by fastforce
  next
    assume "\<exists>k. ended k"
    then show ?thesis using serve_context_ends [of ended 0] unfolding Mcp_Serve_def by fastforce
  qed
next
  assume "short_lines mcp_limit input \<and> (\<forall>l \<in> set (stream_lines input). harmless_line l)"
  then show "\<exists>e st. Mcp_Serve j ended s input w = Some (e, st) \<and> (e = Served \<or> e = ContextEnded)"
    unfolding Mcp_Serve_def by (intro serve_harmless_ends) (simp_all add: calm_def mcp_start_def)
next
  show "\<forall>e st. Mcp_Serve j ended s input w = Some (e, st) \<longrightarrow>
        (e = ContextEnded \<longrightarrow> (\<exists>k. ended k))
        \<and> (e = Served \<longrightarrow> short_lines mcp_limit input \<and> sc_rest (run_in st) = [])"
    using serve_end [of j ended 0 "mcp_start s input w"]
    by (fastforce simp: Mcp_Serve_def calm_def mcp_start_def)
qed

text \<open>The framing with a length header, as the language servers send it, never delivers its
  message: the empty line after the header is taken for the beginning of the body, and the decoder
  gets a line break and the message without its last byte.\<close>

theorem framed_message_truncated:
  assumes "body \<noteq> []" "newline \<notin> set body" "short_lines mcp_limit (body @ rest)"
    and "input = ''Content-Length: '' @ dec_of_nat (length body) @ [CHR 0x0D, newline, CHR 0x0D, newline]
           @ body @ rest"
  shows "\<exists>sc'. readRequest j mcp_limit \<lparr> sc_rest = input, sc_TooLong = False \<rparr>
    = (decode_request j (newline # butlast body), sc')"
proof -
  let ?n = "length body"
  let ?h = "''Content-Length: '' @ dec_of_nat ?n"
  let ?l = "first_line (body @ rest)"
  have l: "?l = body @ first_line rest"
    using assms(2) unfolding first_line_def by (subst takeWhile_append2) auto
  have short: "length ?l < mcp_limit"
    using assms(1,3) by (subst (asm) short_lines.simps) auto
  then have n: "?n < 2 ^ 24" unfolding l mcp_limit_def by simp
  then have dl: "length (dec_of_nat ?n) \<le> 8" using dec_length [of ?n 8] by simp
  have dig: "list_all is_digit (dec_of_nat ?n)" by (rule dec_digits)
  have dne: "dec_of_nat ?n \<noteq> []" by (subst dec_of_nat.simps) auto
  have ih: "isContentLengthHeader ?h"
    using dne by (cases "dec_of_nat ?n") (simp_all add: isContentLengthHeader_def)
  obtain d ds where d: "dec_of_nat ?n = d # ds" "is_digit d" using dne dig by (cases "dec_of_nat ?n") auto
  have sp: "strip_front space_runes (CHR '' '' # dec_of_nat ?n) = dec_of_nat ?n"
  proof -
    have "strip_front space_runes (CHR '' '' # d # ds) = strip_front space_runes (d # ds)"
      by (subst strip_front.simps) (simp add: space_runes_def starts_with_def)
    also have "\<dots> = d # ds"
      by (rule strip_front_head) (use d(2) in \<open>auto simp: space_runes_def is_digit_def\<close>)
    finally show ?thesis using d by simp
  qed
  have "takeWhile is_digit ds = ds"
    using dig d by (simp add: takeWhile_eq_all_conv list_all_iff)
  moreover have ns: "d \<noteq> CHR ''-''" "d \<noteq> CHR ''+''" using d(2) by (auto simp: is_digit_def)
  ultimately have si: "scan_int (dec_of_nat ?n) = Some (int ?n)"
    using n d ns dec_value_dec [of ?n] by (simp add: scan_int_def Let_def takeWhile_eq_all_conv [THEN iffD2])
  have pc: "parseContentLength ?h = int ?n"
  proof -
    have "take 15 ?h = ''Content-Length:''" "drop 15 ?h = CHR '' '' # dec_of_nat ?n" by simp_all
    then show ?thesis
      unfolding parseContentLength_def Let_def by (simp only: sp si not_Cons_self not_False_eq_True if_True if_False option.case) simp
  qed
  have "\<not> is_digit newline" by (simp add: is_digit_def)
  then have nl: "newline \<notin> set ?h" using dig by (auto simp: list_all_iff)
  have f1: "first_line (?h @ CHR 0x0D # newline # t) = ?h @ [CHR 0x0D]" for t
    using nl unfolding first_line_def by (subst takeWhile_append2) auto
  have s1: "sc_Scan mcp_limit \<lparr> sc_rest = ?h @ CHR 0x0D # newline # t, sc_TooLong = False \<rparr>
      = (Some ?h, \<lparr> sc_rest = t, sc_TooLong = False \<rparr>)" for t
    using dl unfolding sc_Scan_def Let_def scanner.select_convs f1
    by (simp add: mcp_limit_def drop_cr_def)
  have s2: "sc_Scan mcp_limit \<lparr> sc_rest = CHR 0x0D # newline # t, sc_TooLong = False \<rparr>
      = (Some [], \<lparr> sc_rest = t, sc_TooLong = False \<rparr>)" for t
    by (simp add: sc_Scan_def first_line_def mcp_limit_def drop_cr_def)
  obtain sc3 where s3: "sc_Scan mcp_limit \<lparr> sc_rest = body @ rest, sc_TooLong = False \<rparr> = (Some (drop_cr ?l), sc3)"
    using short assms(1) by (simp add: sc_Scan_def Let_def)
  have len: "?n \<le> Suc (length (drop_cr ?l))" by (simp add: l drop_cr_def)
  have fill: "fill_body mcp_limit (int ?n) [] \<lparr> sc_rest = body @ rest, sc_TooLong = False \<rparr>
      = (newline # drop_cr ?l, sc3)"
    using assms(1) len
    by (subst fill_body.simps) (simp add: s3 fill_body.simps [of _ _ "newline # drop_cr ?l"])
  have cut: "take ?n (newline # drop_cr ?l) = newline # butlast body"
  proof -
    obtain m where m: "?n = Suc m" using assms(1) by (cases body) auto
    have "take m (drop_cr ?l) = take m (butlast ?l)" "take m (butlast ?l) = take m body"
      using m by (auto simp: drop_cr_def l butlast_conv_take min_def)
    then show ?thesis using m by (simp add: butlast_conv_take)
  qed
  have "readRequest j mcp_limit \<lparr> sc_rest = input, sc_TooLong = False \<rparr>
      = readFramed j mcp_limit \<lparr> sc_rest = CHR 0x0D # newline # body @ rest, sc_TooLong = False \<rparr> (int ?n)"
    using s1 [of "CHR 0x0D # newline # body @ rest"] ih pc
    by (subst readRequest.simps) (simp add: assms(4))
  also have "\<dots> = (decode_request j (newline # butlast body), sc3)"
    using n len cut by (simp add: readFramed_def s2 fill)
  finally show ?thesis by blast
qed

section \<open>Authorisation\<close>

text \<open>The rounds that the loop has made and what each of them read.\<close>

inductive mcp_trace ::
  "'r mcp_json \<Rightarrow> ('r, 'w) mcp_run \<Rightarrow> read_result list \<Rightarrow> ('r, 'w) mcp_run \<Rightarrow> bool"
  for j st where
  start: "mcp_trace j st [] st"
| round: "mcp_trace j st rs st1 \<Longrightarrow> serve_round j st1 = Inr st2 \<Longrightarrow>
    mcp_trace j st (rs @ [fst (readRequest j mcp_limit (run_in st1))]) st2"

lemma serve_round_cases:
  assumes "serve_round j st = Inr st'"
  obtains (failed) err where "fst (readRequest j mcp_limit (run_in st)) = ReadErr err"
      "run_server st' = run_server st" "run_world st' = run_world st"
  | (request) req resp where "fst (readRequest j mcp_limit (run_in st)) = ReadOK req"
      "mcp_handle j (run_server st) req (run_world st) = (resp, run_server st', run_world st')"
  using assms
  by (auto simp: serve_round_def writeError_def mcp_write_def Let_def
      split: prod.splits read_result.splits option.splits)

text \<open>A request changes at most whether the client is authorised, and the world by one handler.\<close>

lemma handle_effect:
  assumes "mcp_handle j s req w = (resp, s', w')"
  shows "ms_Tools s' = ms_Tools s
    \<and> (w' = w \<or> (\<exists>nm t raw r. map_of (ms_Tools s) nm = Some t \<and> td_Handler t raw w = (r, w')))"
  using assms
  by (auto simp: mcp_handle_def handleInitialize_def handleToolsCall_def Let_def
      split: if_splits option.splits sum.splits prod.splits)

lemma unauthorised_handle:
  assumes "mcp_handle j s req w = (resp, s', w')" and "ms_AuthKey s \<noteq> []" and "\<not> ms_Authed s"
    and "mq_Method req = ''initialize'' \<Longrightarrow> given_key j (mq_Params req) \<noteq> ms_AuthKey s"
  shows "s' = s \<and> w' = w
    \<and> (mq_Method req = ''tools/call'' \<longrightarrow> resp = Some (errResp req CodeUnauthorized ''mcp: unauthorized''))"
  using assms
  by (auto simp: mcp_handle_def handleInitialize_def handleToolsCall_def requireAuth_def Let_def
      split: if_splits)

text \<open>C11: A server with a key runs no tool for a client that does not give it: whatever bytes were
  sent, as long as no initialisation among the requests read carried the key, the world of the
  tools is unchanged, the client is not authorised and a further call is refused as such.\<close>

theorem mcp_needs_key:
  assumes "mcp_trace j (mcp_start s input w) rs st" and "ms_AuthKey s \<noteq> []" and "\<not> ms_Authed s"
    and "\<nexists>req. ReadOK req \<in> set rs \<and> mq_Method req = ''initialize''
           \<and> given_key j (mq_Params req) = ms_AuthKey s"
  shows "run_world st = w \<and> run_server st = s
    \<and> (mq_Method req = ''tools/call'' \<longrightarrow> mcp_handle j (run_server st) req (run_world st)
         = (Some (errResp req CodeUnauthorized ''mcp: unauthorized''), s, w))"
proof -
  have "run_world st = w \<and> run_server st = s" using assms(1,4)
  proof (induction rule: mcp_trace.induct)
    case start
    then show ?case by (simp add: mcp_start_def)
  next
    case (round rs st1 st2)
    then have ih: "run_world st1 = w" "run_server st1 = s" by auto
    from round.hyps(2) show ?case
    proof (cases rule: serve_round_cases)
      case failed
      with ih show ?thesis by simp
    next
      case (request req resp)
      with round.prems have "mq_Method req = ''initialize'' \<Longrightarrow> given_key j (mq_Params req) \<noteq> ms_AuthKey s"
        by auto
      with unauthorised_handle [OF request(2)] ih assms(2,3) show ?thesis by simp
    qed
  qed
  then show ?thesis
    using assms(2,3) by (simp add: mcp_handle_def handleToolsCall_def requireAuth_def)
qed

text \<open>Before any authorisation a header with a negative length brings the server down: the
  allocation of the body panics, and nothing recovers.\<close>

theorem negative_length_panics:
  assumes "length line < mcp_limit" "newline \<notin> set line" "\<not> ended 0"
    and "input = ''Content-Length: -1'' @ newline # line @ newline # rest"
  shows "\<exists>st. Mcp_Serve j ended s input w = Some (Panicked ''makeslice: cap out of range'', st)
    \<and> run_world st = w"
proof -
  have f: "first_line (line @ newline # rest) = line"
    using assms(2) unfolding first_line_def by (subst takeWhile_append2) auto
  have "sc_Scan mcp_limit \<lparr> sc_rest = input, sc_TooLong = False \<rparr>
      = (Some ''Content-Length: -1'', \<lparr> sc_rest = line @ newline # rest, sc_TooLong = False \<rparr>)"
    by (simp add: assms(4) sc_Scan_def first_line_def mcp_limit_def drop_cr_def)
  moreover have "sc_Scan mcp_limit \<lparr> sc_rest = line @ newline # rest, sc_TooLong = False \<rparr>
      = (Some (drop_cr line), \<lparr> sc_rest = rest, sc_TooLong = False \<rparr>)"
    using assms(1) by (simp add: sc_Scan_def f)
  moreover have "parseContentLength ''Content-Length: -1'' = -1"
  proof -
    have "strip_front space_runes '' -1'' = ''-1''"
      by (subst strip_front.simps, simp add: space_runes_def starts_with_def,
          subst strip_front.simps, simp add: starts_with_def)
    then show ?thesis
      by (simp add: parseContentLength_def scan_int_def is_digit_def dec_value_def hex_val_def)
  qed
  ultimately have "readRequest j mcp_limit \<lparr> sc_rest = input, sc_TooLong = False \<rparr>
      = (ReadPanic ''makeslice: cap out of range'', \<lparr> sc_rest = rest, sc_TooLong = False \<rparr>)"
    by (subst readRequest.simps) (simp add: isContentLengthHeader_def readFramed_def)
  then show ?thesis
    using assms(3) unfolding Mcp_Serve_def
    by (subst mcp_serve.simps) (simp add: serve_round_def mcp_start_def)
qed

end
