(* ===== verification/McpToolRules.thy ===== *)
theory McpToolRules
  imports McpTools McpRules
begin

text \<open>
  The tool server with its eight tools over a backend. A locale states what a backend keeps; every
  run of the server then keeps it. The local backend is interpreted as such a backend with its
  store consistent and its audit logs complete.
\<close>

section \<open>A backend that keeps an invariant\<close>

locale tool_backend =
  fixes be :: "'w identity_backend" and inv :: "'w \<Rightarrow> bool"
  assumes register: "inv w \<Longrightarrow> ib_RegisterAgent be rq w = (r, w') \<Longrightarrow> inv w'"
    and info: "inv w \<Longrightarrow> ib_GetAgentInfo be u w = (ri, w') \<Longrightarrow> inv w'"
    and upgrade: "inv w \<Longrightarrow> ib_UpdateAgentLevel be u l rs w = (ro, w') \<Longrightarrow> inv w'"
    and ban: "inv w \<Longrightarrow> ib_BanAgent be u rs w = (ro, w') \<Longrightarrow> inv w'"
    and unban: "inv w \<Longrightarrow> ib_UnbanAgent be u w = (ro, w') \<Longrightarrow> inv w'"
begin

lemma batch_loop_inv: "inv w \<Longrightarrow> inv (snd (tool_batch_loop be i its w))"
proof (induction its arbitrary: i w)
  case (Cons it its)
  let ?rq = "\<lparr> rq_Owner = tr_Owner it, rq_Level = (if tr_Level it = 0 then 1 else tr_Level it),
    rq_Permission = (if tr_Permission it = 0 then 0xFF else tr_Permission it),
    rq_PublicKey = tr_PublicKey it, rq_Metadata = [] \<rparr>"
  obtain r w1 where r: "ib_RegisterAgent be ?rq w = (r, w1)" by fastforce
  from Cons.IH [OF register [OF Cons.prems r]] show ?case
    by (simp add: r case_prod_beta Let_def)
qed simp

lemma tool_register_inv: "inv w \<Longrightarrow> inv (snd (tool_register tj be raw w))"
  by (auto simp: tool_register_def split: sum.split prod.split intro: register)

lemma tool_get_info_inv: "inv w \<Longrightarrow> inv (snd (tool_get_info tj be raw w))"
  by (auto simp: tool_get_info_def split: sum.split prod.split intro: info)

lemma tool_upgrade_inv: "inv w \<Longrightarrow> inv (snd (tool_upgrade tj be raw w))"
  by (auto simp: tool_upgrade_def split: sum.split prod.split option.split intro: upgrade)

lemma tool_check_permission_inv: "inv w \<Longrightarrow> inv (snd (tool_check_permission tj be raw w))"
  by (auto simp: tool_check_permission_def split: sum.split prod.split intro: info)

lemma tool_audit_logs_inv: "inv w \<Longrightarrow> inv (snd (tool_audit_logs tj be raw w))"
  by (simp add: tool_audit_logs_def Let_def split: sum.split)

lemma tool_batch_register_inv: "inv w \<Longrightarrow> inv (snd (tool_batch_register tj be raw w))"
  using batch_loop_inv by (simp add: tool_batch_register_def case_prod_beta Let_def split: sum.split)

lemma tool_ban_inv: "inv w \<Longrightarrow> inv (snd (tool_ban tj be raw w))"
  by (auto simp: tool_ban_def split: sum.split prod.split option.split intro: ban)

lemma tool_unban_inv: "inv w \<Longrightarrow> inv (snd (tool_unban tj be raw w))"
  by (auto simp: tool_unban_def split: sum.split prod.split option.split intro: unban)

lemmas tools_inv = tool_register_inv tool_get_info_inv tool_upgrade_inv tool_check_permission_inv
  tool_audit_logs_inv tool_batch_register_inv tool_ban_inv tool_unban_inv

lemma registered_tool:
  assumes "map_of (ms_Tools (RegisterAgentIDTools tj be (NewServer info key))) nm = Some t"
    and "inv w" and "td_Handler t raw w = (r, w')"
  shows "inv w'"
proof -
  have "td_Handler t \<in> {tool_register tj be, tool_get_info tj be, tool_upgrade tj be,
      tool_check_permission tj be, tool_audit_logs tj be, tool_batch_register tj be,
      tool_ban tj be, tool_unban tj be}"
    using assms(1)
    by (simp add: RegisterAgentIDTools_def RegisterTool_def NewServer_def Let_def split: if_split_asm)
      auto
  then have "inv (snd (td_Handler t raw w))" using tools_inv [OF assms(2)] by auto
  with assms(3) show ?thesis by simp
qed

lemma trace_inv:
  assumes "mcp_trace j (mcp_start s input w) rs st"
    and "ms_Tools s = ms_Tools (RegisterAgentIDTools tj be (NewServer info key))" and "inv w"
  shows "inv (run_world st) \<and> ms_Tools (run_server st) = ms_Tools s"
  using assms(1)
proof (induction rule: mcp_trace.induct)
  case start
  then show ?case using assms(3) by (simp add: mcp_start_def)
next
  case (round rs st1 st2)
  from round.hyps(2) show ?case
  proof (cases rule: serve_round_cases)
    case failed
    with round.IH show ?thesis by simp
  next
    case (request req resp)
    with handle_effect [OF this(2)] round.IH registered_tool [of tj info key] assms(2)
    show ?thesis by auto
  qed
qed

end

section \<open>The local backend\<close>

text \<open>
  The world of a local backend: its store, its cache and the number of environments used; each call
  takes the next clock reading and generated UUID.
\<close>

definition local_identity ::
  "('s, 'c) local_backend \<Rightarrow> (nat \<Rightarrow> backend_env) \<Rightarrow> ('s \<times> 'c \<times> nat) identity_backend" where
  "local_identity b envs =
     \<lparr> ib_RegisterAgent = (\<lambda>rq (s, c, n).
         let (r, s', c') = Local_RegisterAgent b (envs n) (Some rq) (s, c)
         in (map_sum id Some r, s', c', Suc n)),
       ib_GetAgentInfo = (\<lambda>u (s, c, n). let (r, s', c') = Local_GetAgentInfo b u (s, c) in (r, s', c', Suc n)),
       ib_UpdateAgentLevel = (\<lambda>u l rs (s, c, n).
         let (r, s', c') = Local_UpdateAgentLevel b (envs n) u l rs (s, c) in (r, s', c', Suc n)),
       ib_BanAgent = (\<lambda>u rs (s, c, n).
         let (r, s', c') = Local_BanAgent b (envs n) u rs (s, c) in (r, s', c', Suc n)),
       ib_UnbanAgent = (\<lambda>u (s, c, n).
         let (r, s', c') = Local_UnbanAgent b (envs n) u (s, c) in (r, s', c', Suc n)),
       ib_GetChangeLogs = (\<lambda>u (s, c, n). Local_GetChangeLogs b u s) \<rparr>"

definition fresh_envs :: "(nat \<Rightarrow> backend_env) \<Rightarrow> bool" where
  "fresh_envs envs \<longleftrightarrow> (\<forall>i k u. en_uuid (envs i) = Inr u \<and> en_uuid (envs k) = Inr u \<longrightarrow> i = k)"

definition local_inv ::
  "(memory_persistence, 'c) local_backend \<Rightarrow> (nat \<Rightarrow> backend_env) \<Rightarrow> memory_persistence \<times> 'c \<times> nat \<Rightarrow> bool" where
  "local_inv b envs = (\<lambda>(m, c, n). lb_pers b = memory_ops \<and> fresh_envs envs \<and> memory_inv m
     \<and> reg_ok (contents m)
     \<and> (\<forall>u. map_of (mp_agents m) u \<noteq> None \<longrightarrow> (\<exists>k<n. en_uuid (envs k) = Inr u)))"

lemma spec_move_dom: "dom (fst (snd (spec_move env u a t rs idem R))) \<subseteq> dom (fst R) \<union> {ai_UUID r |r v. fst R v = Some r}"
  by (auto simp: spec_move_def reg_write_def split: option.splits if_splits)

lemma spec_upgrade_dom: "dom (fst (snd (spec_upgrade env u l rs R))) \<subseteq> dom (fst R) \<union> {ai_UUID r |r v. fst R v = Some r}"
  by (auto simp: spec_upgrade_def reg_write_def split: option.splits if_splits)

lemma reg_ok_keys: "reg_ok R \<Longrightarrow> {ai_UUID r |r v. fst R v = Some r} \<subseteq> dom (fst R)"
  using reg_ok_entry by fastforce

lemma local_inv_used:
  assumes "local_inv b envs (m, c, n)" and "map_of (mp_agents m) u \<noteq> None"
  shows "\<exists>k<Suc n. en_uuid (envs k) = Inr u"
proof -
  from assms obtain k where "k < n" "en_uuid (envs k) = Inr u" unfolding local_inv_def by blast
  then show ?thesis by (intro exI [of _ k]) simp
qed

lemma local_inv_same: "local_inv b envs (m, c, n) \<Longrightarrow> local_inv b envs (m, c', Suc n)"
  using local_inv_used [of b envs m c n] by (simp add: local_inv_def)

lemma local_inv_refined:
  assumes "local_inv b envs (m, c, n)" and "refines memory_inv contents res sp"
    and "reg_step (contents m) (snd sp)"
    and "dom (fst (snd sp)) \<subseteq> dom (map_of (mp_agents m)) \<union> {ai_UUID r |r v. map_of (mp_agents m) v = Some r}"
  shows "local_inv b envs (fst (snd res), c', Suc n)"
proof -
  let ?m = "fst (snd res)"
  have c: "contents ?m = snd sp" "memory_inv ?m" using assms(2) by (auto simp: refines_def)
  have ok: "reg_ok (contents m)" using assms(1) by (simp add: local_inv_def)
  have e: "map_of (mp_agents ?m) = fst (snd sp)" using arg_cong [OF c(1), of fst] by simp
  have "dom (map_of (mp_agents ?m)) \<subseteq> dom (map_of (mp_agents m))"
    unfolding e by (rule order_trans [OF assms(4)]) (use reg_ok_keys [OF ok] in simp)
  then have "map_of (mp_agents ?m) u \<noteq> None \<Longrightarrow> map_of (mp_agents m) u \<noteq> None" for u
    by (auto simp: dom_def subset_iff)
  then have "map_of (mp_agents ?m) u \<noteq> None \<Longrightarrow> \<exists>k<Suc n. en_uuid (envs k) = Inr u" for u
    using local_inv_used [OF assms(1)] by simp
  moreover have "reg_ok (contents ?m)" using reg_step_ok [OF assms(3) ok] c(1) by simp
  ultimately show ?thesis using assms(1) c(2) by (auto simp: local_inv_def)
qed

interpretation local_tools: tool_backend "local_identity b envs" "local_inv b envs" for b envs
proof
  fix w w' rq r
  assume inv: "local_inv b envs w" and step: "ib_RegisterAgent (local_identity b envs) rq w = (r, w')"
  obtain m c n where w: "w = (m, c, n)" by (cases w)
  obtain res m' c' where r: "Local_RegisterAgent b (envs n) (Some rq) (m, c) = (res, m', c')" "w' = (m', c', Suc n)"
    using step by (auto simp: local_identity_def w Let_def split: prod.splits)
  have pers: "lb_pers b = memory_ops" "memory_inv m" using inv by (auto simp: local_inv_def w)
  from mem.local_register_cases [OF r(1) pers(2,1)]
  show "local_inv b envs w'"
  proof
    assume "m' = m"
    with inv r local_inv_same show ?thesis unfolding w by simp
  next
    assume "\<exists>rq uid. en_uuid (envs n) = Inr uid \<and> uid \<noteq> [] \<and> memory_inv m'
      \<and> contents m' = spec_register (envs n) rq uid (contents m)"
    then obtain rq uid where u: "en_uuid (envs n) = Inr uid" "memory_inv m'"
      "contents m' = spec_register (envs n) rq uid (contents m)" by blast
    have new: "map_of (mp_agents m) uid = None"
      using inv u(1) by (fastforce simp: local_inv_def w fresh_envs_def)
    then have "reg_ok (contents m')"
      using inv reg_ok_spec_register [of "contents m" uid] by (simp add: local_inv_def w u(3))
    moreover have "map_of (mp_agents m') v \<noteq> None \<Longrightarrow> v = uid \<or> map_of (mp_agents m) v \<noteq> None" for v
      using arg_cong [OF u(3), of fst] by (auto simp: spec_register_def reg_write_def split: if_splits)
    moreover have "\<exists>k<Suc n. en_uuid (envs k) = Inr v" if "map_of (mp_agents m') v \<noteq> None" for v
      using calculation(2) [OF that] u(1) local_inv_used [OF inv [unfolded w]] by blast
    ultimately show ?thesis
      using inv u(2) unfolding local_inv_def w r(2) by auto
  qed
next
  fix w w' u ri
  assume "local_inv b envs w" "ib_GetAgentInfo (local_identity b envs) u w = (ri, w')"
  then show "local_inv b envs w'"
    by (cases w) (auto simp: local_identity_def Local_GetAgentInfo_def Let_def
        split: sum.splits if_splits dest: local_inv_same)
next
  fix w w' u l rs ro
  assume inv: "local_inv b envs w" and step: "ib_UpdateAgentLevel (local_identity b envs) u l rs w = (ro, w')"
  obtain m c n where w: "w = (m, c, n)" by (cases w)
  have ok: "memory_inv m" "lb_pers b = memory_ops" "reg_ok (contents m)" using inv by (auto simp: local_inv_def w)
  have "w' = (fst (snd (Local_UpdateAgentLevel b (envs n) u l rs (m, c))),
      snd (snd (Local_UpdateAgentLevel b (envs n) u l rs (m, c))), Suc n)"
    using step by (simp add: local_identity_def w case_prod_beta Let_def)
  then show "local_inv b envs w'"
    using local_inv_refined [OF inv [unfolded w] mem.local_upgrade_refines [OF ok(1,2) reg_ok_states_valid [OF ok(3)]]
        reg_step.upgrade spec_upgrade_dom [of "envs n" u l rs "contents m", unfolded fst_conv]] by simp
next
  fix w w' u rs ro
  assume inv: "local_inv b envs w" and step: "ib_BanAgent (local_identity b envs) u rs w = (ro, w')"
  obtain m c n where w: "w = (m, c, n)" by (cases w)
  have ok: "memory_inv m" "lb_pers b = memory_ops" "reg_ok (contents m)" using inv by (auto simp: local_inv_def w)
  have "w' = (fst (snd (Local_BanAgent b (envs n) u rs (m, c))),
      snd (snd (Local_BanAgent b (envs n) u rs (m, c))), Suc n)"
    using step by (simp add: local_identity_def w case_prod_beta Let_def)
  then show "local_inv b envs w'"
    using local_inv_refined [OF inv [unfolded w] mem.local_ban_refines [OF ok(1,2) reg_ok_states_valid [OF ok(3)]]
        reg_step.ban spec_move_dom [of "envs n" u "''ban''" StateBanned rs "\<lambda>st. st = StateBanned"
          "contents m", unfolded fst_conv]] by simp
next
  fix w w' u ro
  assume inv: "local_inv b envs w" and step: "ib_UnbanAgent (local_identity b envs) u w = (ro, w')"
  obtain m c n where w: "w = (m, c, n)" by (cases w)
  have ok: "memory_inv m" "lb_pers b = memory_ops" "reg_ok (contents m)" using inv by (auto simp: local_inv_def w)
  have "w' = (fst (snd (Local_UnbanAgent b (envs n) u (m, c))),
      snd (snd (Local_UnbanAgent b (envs n) u (m, c))), Suc n)"
    using step by (simp add: local_identity_def w case_prod_beta Let_def)
  then show "local_inv b envs w'"
    using local_inv_refined [OF inv [unfolded w] mem.local_unban_refines [OF ok(1,2)]
        reg_step.unban spec_move_dom [of "envs n" u "''unban''" StateActive "[]"
          "\<lambda>st. st \<noteq> StateBanned" "contents m", unfolded fst_conv]] by simp
qed

section \<open>The server over a local backend\<close>

text \<open>C25: Whatever bytes reach a server with the eight tools over a local backend on an empty in-memory
  store, and whatever it answers, after every round the store is consistent and the audit log of
  each agent is a path of the state table from registration to the state of its record, provided
  that the generator never repeats a UUID.\<close>

theorem mcp_local_audit:
  assumes "mcp_trace j (mcp_start (RegisterAgentIDTools tj (local_identity b envs) (NewServer info key))
             input (NewMemoryPersistence, c, 0)) rs st"
    and "lb_pers b = memory_ops" "fresh_envs envs" and "run_world st = (m, c', n)"
  shows "memory_inv m \<and> (\<forall>u. entry_ok u (map_of (mp_agents m) u) (log_list m u))"
proof -
  have "local_inv b envs (NewMemoryPersistence, c, 0)"
    using assms(2,3) reg_ok_new memory_inv_new by (simp add: local_inv_def) (simp add: NewMemoryPersistence_def)
  from local_tools.trace_inv [OF assms(1) refl this] assms(4) show ?thesis
    by (simp add: local_inv_def reg_ok_def)
qed

text \<open>The audit tool with a limit answers with the oldest entries: the backend lists the newest
  first and the tool keeps the end of that list, so none of the entries it drops is older than
  one that it returns.\<close>

theorem audit_limit_keeps_oldest:
  assumes "tool_audit_logs tj (local_identity b envs) raw (m, c, n) = (Inr (ToolLogs ls cnt), w')"
    and "lb_pers b = memory_ops" "memory_inv m" and "tj_Audit tj raw = Inr a"
    and "0 < tl_Limit a" "tl_Limit a \<le> int (length (log_list m (tl_UUID a)))"
  shows "\<exists>dropped. mset (dropped @ ls) = mset (log_list m (tl_UUID a)) \<and> int (length ls) = tl_Limit a
    \<and> (\<forall>d\<in>set dropped. \<forall>l\<in>set ls. bl_OccurredAt l \<le> bl_OccurredAt d)"
proof -
  have u: "tl_UUID a \<noteq> []" using assms(1,4) by (auto simp: tool_audit_logs_def)
  from mem.local_logs_spec [OF assms(3,2) u] obtain all where all:
    "Local_GetChangeLogs b (tl_UUID a) m = Inr all" "mset all = mset (log_list m (tl_UUID a))"
    "sorted_wrt (\<lambda>x y. \<not> bl_OccurredAt x < bl_OccurredAt y) all" by blast
  have len: "length all = length (log_list m (tl_UUID a))" using all(2) by (metis size_mset)
  let ?k = "nat (int (length all) - tl_Limit a)"
  have ls: "ls = drop ?k all" and k: "?k \<le> length all"
    using assms(1,4,5,6) u all(1) len
    by (auto simp: tool_audit_logs_def local_identity_def Let_def split: if_splits)
  have "sorted_wrt (\<lambda>x y. \<not> bl_OccurredAt x < bl_OccurredAt y) (take ?k all @ drop ?k all)"
    using all(3) by simp
  then have "\<forall>d\<in>set (take ?k all). \<forall>l\<in>set (drop ?k all). \<not> bl_OccurredAt d < bl_OccurredAt l"
    unfolding sorted_wrt_append by blast
  moreover have "mset (take ?k all @ drop ?k all) = mset (log_list m (tl_UUID a))" using all(2) by simp
  moreover have "int (length (drop ?k all)) = tl_Limit a" using assms(5,6) len by simp
  ultimately show ?thesis
    unfolding ls by (intro exI [of _ "take ?k all"]) (auto simp: not_less)
qed

section \<open>Samples\<close>

text \<open>Decoders that know the few messages that the samples send.\<close>

definition sample_mcp_json :: "'r mcp_json" where
  "sample_mcp_json =
     \<lparr> mj_Request = (\<lambda>body. if body = ''call''
          then Inr \<lparr> mq_JSONRPC = ''2.0'', mq_ID = None, mq_Method = ''tools/call'', mq_Params = ''reg'' \<rparr>
          else Inl (Sentinel ''syntax'')),
       mj_Call = (\<lambda>p. Inr \<lparr> cp_Name = ''agentid_register'', cp_Arguments = p \<rparr>),
       mj_Keys = (\<lambda>_. ([], [])), mj_Response = (\<lambda>_. ''ok''), mj_Result = (\<lambda>_. ''result''),
       mj_Text = (\<lambda>_. ''error'') \<rparr>"

definition sample_tool_json :: tool_json where
  "sample_tool_json =
     \<lparr> tj_Ref = Inr,
       tj_Register = (\<lambda>_. Inr \<lparr> tr_Owner = ''acme'', tr_Level = 1, tr_Permission = 3,
          tr_PublicKey = ''k'', tr_Metadata = [] \<rparr>),
       tj_Upgrade = (\<lambda>_. Inl (Sentinel ''syntax'')), tj_Perm = (\<lambda>_. Inl (Sentinel ''syntax'')),
       tj_Audit = (\<lambda>u. Inr \<lparr> tl_UUID = u, tl_Limit = 1 \<rparr>),
       tj_Batch = (\<lambda>_. Inl (Sentinel ''syntax'')), tj_Ban = (\<lambda>_. Inl (Sentinel ''syntax'')) \<rparr>"

definition sample_envs :: "nat \<Rightarrow> backend_env" where
  "sample_envs n = (if n = 0 then sample_env else sample_env \<lparr> en_uuid := Inl ErrBackendUnavailable \<rparr>)"

lemma sample_envs_fresh: "fresh_envs sample_envs"
  by (auto simp: fresh_envs_def sample_envs_def sample_env_def split: if_splits)

abbreviation sample_info_server :: server_info where
  "sample_info_server \<equiv> \<lparr> si_Name = ''agentid'', si_Version = ''2'' \<rparr>"

lemma sample_read:
  "readRequest sample_mcp_json mcp_limit \<lparr> sc_rest = ''call'', sc_TooLong = False \<rparr>
     = (ReadOK \<lparr> mq_JSONRPC = ''2.0'', mq_ID = None, mq_Method = ''tools/call'', mq_Params = ''reg'' \<rparr>,
        \<lparr> sc_rest = [], sc_TooLong = False \<rparr>)"
  by (subst readRequest.simps)
    (simp add: sc_Scan_def first_line_def drop_cr_def mcp_limit_def isContentLengthHeader_def
      decode_request_def sample_mcp_json_def)

abbreviation sample_call :: mcp_request where
  "sample_call \<equiv> \<lparr> mq_JSONRPC = ''2.0'', mq_ID = None, mq_Method = ''tools/call'', mq_Params = ''reg'' \<rparr>"

text \<open>The run that reads one call.\<close>

lemma sample_round:
  fixes s :: "('r, 'w) mcp_server"
  assumes "mcp_handle sample_mcp_json s sample_call w = (resp, s', w')"
  shows "\<exists>st. mcp_trace sample_mcp_json (mcp_start s ''call'' w) [ReadOK sample_call] st \<and> run_world st = w'"
proof -
  let ?st = "mcp_start s ''call'' w"
  obtain st where st: "serve_round sample_mcp_json ?st = Inr st" "run_world st = w'"
    using assms
    by (cases resp) (simp_all add: serve_round_def mcp_start_def sample_read Let_def mcp_write_def)
  have "fst (readRequest (sample_mcp_json :: 'r mcp_json) mcp_limit (run_in ?st)) = ReadOK sample_call"
    by (simp add: mcp_start_def sample_read)
  with mcp_trace.round [OF mcp_trace.start st(1)] st(2) show ?thesis by auto
qed

theorem mcp_local_audit_witness:
  "\<exists>st m n. mcp_trace sample_mcp_json (mcp_start (RegisterAgentIDTools sample_tool_json
         (local_identity sample_local sample_envs) (NewServer sample_info_server []))
         ''call'' (NewMemoryPersistence, (), 0)) [ReadOK sample_call] st
     \<and> run_world st = (m, (), n) \<and> map_of (mp_agents m) ''u9'' \<noteq> None
     \<and> entry_ok ''u9'' (map_of (mp_agents m) ''u9'') (log_list m ''u9'')"
proof -
  let ?be = "local_identity sample_local sample_envs"
  let ?s = "RegisterAgentIDTools sample_tool_json ?be (NewServer sample_info_server [])"
  let ?w = "(NewMemoryPersistence, (), 0)"
  have t: "map_option td_Handler (map_of (ms_Tools ?s) ''agentid_register'') = Some (tool_register sample_tool_json ?be)"
    by (simp add: RegisterAgentIDTools_def RegisterTool_def NewServer_def Let_def)
  obtain resp s' w' where h: "mcp_handle sample_mcp_json ?s sample_call ?w = (resp, s', w')"
    by (metis prod_cases3)
  obtain r where r: "tool_register sample_tool_json ?be ''reg'' ?w = (r, w')"
    using h t
    by (auto simp: mcp_handle_def handleToolsCall_def requireAuth_def Let_def sample_mcp_json_def
        RegisterAgentIDTools_def RegisterTool_def NewServer_def split: sum.splits prod.splits)
  have w': "map_of (mp_agents (fst w')) ''u9'' \<noteq> None"
    using r by (auto simp: tool_register_def sample_tool_json_def local_identity_def
        Local_RegisterAgent_def sample_envs_def sample_env_def memory_ops_def Memory_PutAgent_def
        Memory_AppendLog_def NewMemoryPersistence_def Let_def split: prod.splits if_splits option.splits)
  obtain m n where m: "w' = (m, (), n)" by (cases w') auto
  obtain st where st: "mcp_trace sample_mcp_json (mcp_start ?s ''call'' ?w) [ReadOK sample_call] st"
    "run_world st = (m, (), n)"
    using sample_round [OF h] m by auto
  from mcp_local_audit [OF st(1) sample_local_pers sample_envs_fresh st(2)] st w' m show ?thesis by auto
qed

theorem mcp_needs_key_witness:
  "\<exists>st. mcp_trace sample_mcp_json (mcp_start (NewServer sample_info_server ''key'' :: (unit, nat) mcp_server)
       ''call'' 0) [ReadOK sample_call] st \<and> run_world st = 0"
proof -
  let ?s = "NewServer sample_info_server ''key'' :: (unit, nat) mcp_server"
  obtain st where st: "mcp_trace sample_mcp_json (mcp_start ?s ''call'' 0) [ReadOK sample_call] st"
    using sample_round [of ?s 0] by (metis prod_cases3)
  have "run_world st = 0"
    using mcp_needs_key [OF st] by (simp add: NewServer_def)
  with st show ?thesis by blast
qed

theorem mcp_serve_termination_witness:
  "(\<exists>st. Mcp_Serve sample_mcp_json (\<lambda>_. False) (NewServer sample_info_server [] :: (unit, nat) mcp_server) ''call'' 0
        = Some (Served, st))
   \<and> (\<nexists>st. Mcp_Serve sample_mcp_json (\<lambda>_. False) (NewServer sample_info_server [] :: (unit, nat) mcp_server)
        (replicate mcp_limit (CHR ''a'')) 0 = Some (Served, st))"
proof -
  note ends = mcp_serve_termination [of _ "\<lambda>_. False" sample_mcp_json
      "NewServer sample_info_server [] :: (unit, nat) mcp_server" 0]
  have "short_lines mcp_limit ''call''"
    by (simp add: short_lines.simps first_line_def mcp_limit_def)
  moreover have "\<forall>l \<in> set (stream_lines ''call''). harmless_line l"
    by (simp add: stream_lines.simps first_line_def drop_cr_def harmless_line_def isContentLengthHeader_def)
  ultimately have "\<exists>st. Mcp_Serve sample_mcp_json (\<lambda>_. False)
      (NewServer sample_info_server [] :: (unit, nat) mcp_server) ''call'' 0 = Some (Served, st)"
    using ends [of "''call''"] by blast
  moreover have "\<not> short_lines mcp_limit (replicate mcp_limit (CHR ''a''))"
    by (subst short_lines.simps) (simp add: first_line_def takeWhile_replicate mcp_limit_pos)
  then have "\<nexists>st. Mcp_Serve sample_mcp_json (\<lambda>_. False)
      (NewServer sample_info_server [] :: (unit, nat) mcp_server) (replicate mcp_limit (CHR ''a'')) 0 = Some (Served, st)"
    using ends [of "replicate mcp_limit (CHR ''a'')"] by blast
  ultimately show ?thesis by blast
qed

theorem framed_message_truncated_witness:
  "\<exists>sc'. readRequest (sample_mcp_json :: unit mcp_json) mcp_limit
      \<lparr> sc_rest = ''Content-Length: 4'' @ [CHR 0x0D, newline, CHR 0x0D, newline] @ ''call'', sc_TooLong = False \<rparr>
    = (ReadErr (Errorf ''%w: %v'' [ErrMcpInvalidRequest]), sc')"
proof -
  have "dec_of_nat (Suc (Suc (Suc (Suc 0)))) = ''4''" by (subst dec_of_nat.simps) (simp add: digit_char_def)
  moreover have "short_lines mcp_limit (''call'' @ [])"
    by (simp add: short_lines.simps first_line_def mcp_limit_def)
  moreover have "decode_request (sample_mcp_json :: unit mcp_json) (newline # ''cal'')
      = ReadErr (Errorf ''%w: %v'' [ErrMcpInvalidRequest])"
    by (simp add: decode_request_def sample_mcp_json_def)
  moreover have "\<exists>sc'. readRequest (sample_mcp_json :: unit mcp_json) mcp_limit
      \<lparr> sc_rest = ''Content-Length: '' @ dec_of_nat (length ''call'')
          @ [CHR 0x0D, newline, CHR 0x0D, newline] @ ''call'' @ [], sc_TooLong = False \<rparr>
      = (decode_request (sample_mcp_json :: unit mcp_json) (newline # butlast ''call''), sc')"
    using calculation(2) framed_message_truncated [where body = "''call''" and rest = "[]"
        and j = "sample_mcp_json :: unit mcp_json", OF _ _ _ refl] by simp
  ultimately show ?thesis by simp
qed

theorem negative_length_panics_witness:
  "\<exists>st. Mcp_Serve sample_mcp_json (\<lambda>_. False) (NewServer sample_info_server ''key'' :: (unit, nat) mcp_server)
      (''Content-Length: -1'' @ newline # newline # []) 0 = Some (Panicked ''makeslice: cap out of range'', st)"
  using negative_length_panics [of "[]" "\<lambda>_. False" _ "[]" sample_mcp_json
      "NewServer sample_info_server ''key'' :: (unit, nat) mcp_server" 0]
  by (auto simp: mcp_limit_pos)

theorem audit_limit_keeps_oldest_witness:
  "\<exists>ls w' dropped. tool_audit_logs sample_tool_json (local_identity sample_local sample_envs) ''u9''
       (sample_run, (), 1) = (Inr (ToolLogs ls 1), w')
     \<and> mset (dropped @ ls) = mset (log_list sample_run ''u9'')"
proof -
  have inv: "memory_inv sample_run"
    using mem.local_run_simulates [OF sample_run_steps sample_local_pers] reg_ok_new memory_inv_new by simp
  have logs: "length (log_list sample_run ''u9'') = 1"
    by (simp add: sample_run_def Local_RegisterAgent_def sample_request_def sample_env_def memory_ops_def
        Memory_PutAgent_def Memory_AppendLog_def NewMemoryPersistence_def log_list_def empty_log_def Let_def)
  obtain all where all: "Local_GetChangeLogs sample_local ''u9'' sample_run = Inr all"
    "mset all = mset (log_list sample_run ''u9'')"
    using mem.local_logs_spec [OF inv sample_local_pers, of "''u9''"] by auto
  have "length all = 1" using all(2) logs by (metis size_mset)
  with all(1) have t: "tool_audit_logs sample_tool_json (local_identity sample_local sample_envs) ''u9''
      (sample_run, (), 1) = (Inr (ToolLogs all 1), (sample_run, (), 1))"
    by (simp add: tool_audit_logs_def sample_tool_json_def local_identity_def)
  from audit_limit_keeps_oldest [OF t sample_local_pers inv, of "\<lparr> tl_UUID = ''u9'', tl_Limit = 1 \<rparr>"] logs t
  show ?thesis by (auto simp: sample_tool_json_def)
qed

end
