(* ===== verification/GoRegexp.thy ===== *)
theory GoRegexp
  imports AgentPrelude
begin

text \<open>
  What the program uses of the package \<open>regexp\<close>: the leftmost match, and among those that begin
  there the first in the order of a backtracking search. A pattern is matched against the bytes
  of the text; the patterns of the program tell runes apart only by ASCII characters, and by the
  two runes beyond ASCII that fold to a letter, which \<open>any_case\<close> adds.
\<close>

section \<open>Patterns and matching\<close>

datatype regex =
    REps
  | RSet "char \<Rightarrow> bool"
  | RSeq regex regex
  | RAlt regex regex
  | RStar regex
  | RLazy regex
  | RGroup nat regex
  | RBol
  | REol
  | RBoundary

text \<open>
  A match from a position, which is the byte before it, if any, and the rest of the text: the
  captured groups and the position after it. The list is in the order of preference.
\<close>

type_synonym position = "char option \<times> string"
type_synonym captures = "(nat \<times> string) list"

text \<open>Repeating \<open>f\<close>, greedy and lazy; every round has to consume something.\<close>

fun star_greedy :: "(position \<Rightarrow> (captures \<times> position) list) \<Rightarrow> nat \<Rightarrow> position \<Rightarrow> (captures \<times> position) list" where
  "star_greedy f 0 st = [([], st)]"
| "star_greedy f (Suc n) st =
     concat (map (\<lambda>(c, st1). if length (snd st1) < length (snd st)
                 then map (\<lambda>(c2, st2). (c @ c2, st2)) (star_greedy f n st1) else []) (f st))
     @ [([], st)]"

fun star_lazy :: "(position \<Rightarrow> (captures \<times> position) list) \<Rightarrow> nat \<Rightarrow> position \<Rightarrow> (captures \<times> position) list" where
  "star_lazy f 0 st = [([], st)]"
| "star_lazy f (Suc n) st =
     ([], st) # concat (map (\<lambda>(c, st1). if length (snd st1) < length (snd st)
                 then map (\<lambda>(c2, st2). (c @ c2, st2)) (star_lazy f n st1) else []) (f st))"

text \<open>Exactly one of the bytes beside the position is of a word, in ASCII.\<close>

definition word_char :: "char \<Rightarrow> bool" where
  "word_char c \<longleftrightarrow> c \<in> set (''0123456789abcdefghijklmnopqrstuvwxyzABCDEFGHIJKLMNOPQRSTUVWXYZ_'')"

definition at_boundary :: "position \<Rightarrow> bool" where
  "at_boundary st \<longleftrightarrow>
     (case fst st of None \<Rightarrow> False | Some c \<Rightarrow> word_char c)
     \<noteq> (case snd st of [] \<Rightarrow> False | c # cs \<Rightarrow> word_char c)"

fun rmatch :: "regex \<Rightarrow> position \<Rightarrow> (captures \<times> position) list" where
  "rmatch REps st = [([], st)]"
| "rmatch (RSet p) st =
     (case snd st of [] \<Rightarrow> [] | c # cs \<Rightarrow> if p c then [([], Some c, cs)] else [])"
| "rmatch (RSeq r1 r2) st =
     concat (map (\<lambda>(c1, st1). map (\<lambda>(c2, st2). (c1 @ c2, st2)) (rmatch r2 st1)) (rmatch r1 st))"
| "rmatch (RAlt r1 r2) st = rmatch r1 st @ rmatch r2 st"
| "rmatch (RStar r) st = star_greedy (rmatch r) (length (snd st)) st"
| "rmatch (RLazy r) st = star_lazy (rmatch r) (length (snd st)) st"
| "rmatch (RGroup n r) st =
     map (\<lambda>(c, st'). (c @ [(n, take (length (snd st) - length (snd st')) (snd st))], st')) (rmatch r st)"
| "rmatch RBol st = (if fst st = None then [([], st)] else [])"
| "rmatch REol st = (if snd st = [] then [([], st)] else [])"
| "rmatch RBoundary st = (if at_boundary st then [([], st)] else [])"

fun rfind :: "regex \<Rightarrow> char option \<Rightarrow> string \<Rightarrow> (captures \<times> string) option" where
  "rfind r b s =
     (case rmatch r (b, s) of
        (c, b', s') # _ \<Rightarrow> Some (c, take (length s - length s') s)
      | [] \<Rightarrow> (case s of [] \<Rightarrow> None | x # cs \<Rightarrow> rfind r (Some x) cs))"

declare rfind.simps [simp del]

definition FindString :: "regex \<Rightarrow> string \<Rightarrow> string" where
  "FindString r s = (case rfind r None s of None \<Rightarrow> [] | Some (c, m) \<Rightarrow> m)"

text \<open>A group of \<open>FindStringSubmatch\<close>, empty when it took no part; \<open>None\<close> without a match.\<close>

definition Submatch :: "regex \<Rightarrow> nat \<Rightarrow> string \<Rightarrow> string option" where
  "Submatch r n s =
     (case rfind r None s of
        None \<Rightarrow> None
      | Some (c, m) \<Rightarrow> Some (case map_of c n of None \<Rightarrow> [] | Some g \<Rightarrow> g))"

text \<open>
  \<open>ReplaceAllStringFunc\<close> from a position; the flag says that a match ends there, where an empty match
  is not taken.
\<close>

fun rreplace :: "regex \<Rightarrow> (string \<Rightarrow> string) \<Rightarrow> bool \<Rightarrow> char option \<Rightarrow> string \<Rightarrow> string" where
  "rreplace r f after b s =
     (case rmatch r (b, s) of
        (c, b', s') # _ \<Rightarrow>
          if length s' < length s then f (take (length s - length s') s) @ rreplace r f True b' s'
          else (if after then [] else f [])
               @ (case s of [] \<Rightarrow> [] | x # cs \<Rightarrow> x # rreplace r f False (Some x) cs)
      | [] \<Rightarrow> (case s of [] \<Rightarrow> [] | x # cs \<Rightarrow> x # rreplace r f False (Some x) cs))"

declare rreplace.simps [simp del]

definition ReplaceAllStringFunc :: "regex \<Rightarrow> (string \<Rightarrow> string) \<Rightarrow> string \<Rightarrow> string" where
  "ReplaceAllStringFunc r f s = rreplace r f False None s"

section \<open>Building patterns\<close>

definition many1 :: "regex \<Rightarrow> regex" where "many1 r = RSeq r (RStar r)"
definition many1_lazy :: "regex \<Rightarrow> regex" where "many1_lazy r = RSeq r (RLazy r)"
definition opt :: "regex \<Rightarrow> regex" where "opt r = RAlt r REps"

fun rseq :: "regex list \<Rightarrow> regex" where
  "rseq [] = REps"
| "rseq [r] = r"
| "rseq (r # rs) = RSeq r (rseq rs)"

fun ralt :: "regex list \<Rightarrow> regex" where
  "ralt [] = RSet (\<lambda>_. False)"
| "ralt [r] = r"
| "ralt (r # rs) = RAlt r (ralt rs)"

definition rtimes :: "nat \<Rightarrow> regex \<Rightarrow> regex" where
  "rtimes n r = rseq (replicate n r)"

text \<open>At most \<open>n\<close> more, as many as possible.\<close>

fun up_to :: "nat \<Rightarrow> regex \<Rightarrow> regex" where
  "up_to 0 r = REps"
| "up_to (Suc n) r = opt (RSeq r (up_to n r))"

definition lit :: "string \<Rightarrow> regex" where
  "lit s = rseq (map (\<lambda>c. RSet (\<lambda>d. d = c)) s)"

abbreviation one_of :: "string \<Rightarrow> regex" where
  "one_of s \<equiv> RSet (\<lambda>c. c \<in> set s)"

abbreviation "re_digits \<equiv> ''0123456789''"
abbreviation "re_lower \<equiv> ''abcdefghijklmnopqrstuvwxyz''"
abbreviation "re_upper \<equiv> ''ABCDEFGHIJKLMNOPQRSTUVWXYZ''"
definition re_space :: string where
  "re_space = [CHR 0x09, CHR 0x0A, CHR 0x0C, CHR 0x0D, CHR '' '']"

text \<open>The other case of an ASCII letter; \<open>any_case\<close> is a class under \<open>(?i)\<close>.\<close>

definition swap_case :: "char \<Rightarrow> char" where
  "swap_case c =
     (case map_of (zip (re_lower @ re_upper) (re_upper @ re_lower)) c of None \<Rightarrow> c | Some d \<Rightarrow> d)"

definition any_case :: "string \<Rightarrow> regex" where
  "any_case s =
     ralt ([one_of (s @ map swap_case s)]
       @ (if list_ex (\<lambda>c. c \<in> set ''kK'') s then [lit [CHR 0xE2, CHR 0x84, CHR 0xAA]] else [])
       @ (if list_ex (\<lambda>c. c \<in> set ''sS'') s then [lit [CHR 0xC5, CHR 0xBF]] else []))"

definition lit_any :: "string \<Rightarrow> regex" where
  "lit_any s = rseq (map (\<lambda>c. any_case [c]) s)"

section \<open>What a match is\<close>

text \<open>The strings that a pattern denotes, apart from its anchors.\<close>

fun rlang :: "regex \<Rightarrow> string set" where
  "rlang REps = {[]}"
| "rlang (RSet p) = {[c] |c. p c}"
| "rlang (RSeq r1 r2) = {u @ v |u v. u \<in> rlang r1 \<and> v \<in> rlang r2}"
| "rlang (RAlt r1 r2) = rlang r1 \<union> rlang r2"
| "rlang (RStar r) = {concat us |us. set us \<subseteq> rlang r}"
| "rlang (RLazy r) = {concat us |us. set us \<subseteq> rlang r}"
| "rlang (RGroup n r) = rlang r"
| "rlang RBol = {[]}"
| "rlang REol = {[]}"
| "rlang RBoundary = {[]}"

fun anchored :: "regex \<Rightarrow> bool" where
  "anchored RBol = True"
| "anchored REol = True"
| "anchored RBoundary = True"
| "anchored (RSeq r1 r2) = (anchored r1 \<or> anchored r2)"
| "anchored (RAlt r1 r2) = (anchored r1 \<or> anchored r2)"
| "anchored (RStar r) = anchored r"
| "anchored (RLazy r) = anchored r"
| "anchored (RGroup n r) = anchored r"
| "anchored _ = False"

lemma star_sound:
  assumes "\<And>st c st'. (c, st') \<in> set (f st) \<Longrightarrow> \<exists>p. snd st = p @ snd st' \<and> p \<in> L"
  shows "(c, st') \<in> set (star_greedy f n st) \<Longrightarrow> \<exists>us. snd st = concat us @ snd st' \<and> set us \<subseteq> L"
    and "(c, st') \<in> set (star_lazy f n st) \<Longrightarrow> \<exists>us. snd st = concat us @ snd st' \<and> set us \<subseteq> L"
proof -
  have step: "\<exists>us. snd st = concat us @ snd st' \<and> set us \<subseteq> L"
    if "(c1, st1) \<in> set (f st)" "\<exists>us. snd st1 = concat us @ snd st' \<and> set us \<subseteq> L" for c1 st1 st
  proof -
    from assms [OF that(1)] obtain p where p: "snd st = p @ snd st1" "p \<in> L" by blast
    from that(2) obtain us where "snd st1 = concat us @ snd st'" "set us \<subseteq> L" by blast
    with p show ?thesis by (intro exI [of _ "p # us"]) simp
  qed
  show "(c, st') \<in> set (star_greedy f n st) \<Longrightarrow> \<exists>us. snd st = concat us @ snd st' \<and> set us \<subseteq> L"
  proof (induction n arbitrary: st c)
    case (Suc n)
    from Suc.prems consider "st' = st"
      | c1 st1 c2 where "(c1, st1) \<in> set (f st)" "(c2, st') \<in> set (star_greedy f n st1)"
      by (auto split: if_splits)
    then show ?case
      using step Suc.IH by cases (auto intro: exI [of _ "[]"])
  qed (auto intro: exI [of _ "[]"])
  show "(c, st') \<in> set (star_lazy f n st) \<Longrightarrow> \<exists>us. snd st = concat us @ snd st' \<and> set us \<subseteq> L"
  proof (induction n arbitrary: st c)
    case (Suc n)
    from Suc.prems consider "st' = st"
      | c1 st1 c2 where "(c1, st1) \<in> set (f st)" "(c2, st') \<in> set (star_lazy f n st1)"
      by (auto split: if_splits)
    then show ?case
      using step Suc.IH by cases (auto intro: exI [of _ "[]"])
  qed (auto intro: exI [of _ "[]"])
qed

lemma rmatch_sound: "(c, st') \<in> set (rmatch r st) \<Longrightarrow> \<exists>p. snd st = p @ snd st' \<and> p \<in> rlang r"
proof (induction r arbitrary: st c st')
  case (RSeq r1 r2)
  then obtain c1 st1 c2 where "(c1, st1) \<in> set (rmatch r1 st)" "(c2, st') \<in> set (rmatch r2 st1)"
    by fastforce
  with RSeq.IH obtain p q where "snd st = p @ snd st1" "p \<in> rlang r1" "snd st1 = q @ snd st'" "q \<in> rlang r2"
    by blast
  then show ?case by (intro exI [of _ "p @ q"]) auto
next
  case (RStar r)
  from star_sound(1) [of "rmatch r" "rlang r", OF RStar.IH] RStar.prems show ?case by fastforce
next
  case (RLazy r)
  from star_sound(2) [of "rmatch r" "rlang r", OF RLazy.IH] RLazy.prems show ?case by fastforce
next
  case (RAlt r1 r2)
  from RAlt.prems consider "(c, st') \<in> set (rmatch r1 st)" | "(c, st') \<in> set (rmatch r2 st)" by auto
  then show ?case
  proof cases
    case 1
    from RAlt.IH(1) [OF this] show ?thesis by auto
  next
    case 2
    from RAlt.IH(2) [OF this] show ?thesis by auto
  qed
qed (auto split: list.splits if_splits)

lemma rfind_sound:
  "rfind r b s = Some (c, m) \<Longrightarrow> m \<in> rlang r \<and> (\<exists>u v. s = u @ m @ v)"
proof (induction r b s rule: rfind.induct)
  case (1 r b s)
  show ?case
  proof (cases "rmatch r (b, s)")
    case Nil
    with 1 obtain x cs where "s = x # cs" "rfind r (Some x) cs = Some (c, m)"
      by (auto simp: rfind.simps [of r b s] split: list.splits)
    with 1(1) [OF Nil] show ?thesis by (metis append_Cons)
  next
    case (Cons x xs)
    obtain b' s' where x: "x = (c, b', s')" "m = take (length s - length s') s"
      using 1(2) Cons by (cases x) (auto simp: rfind.simps [of r b s])
    then have "(c, b', s') \<in> set (rmatch r (b, s))" using Cons by simp
    from rmatch_sound [OF this] obtain p where "s = p @ s'" "p \<in> rlang r" by auto
    with x show ?thesis by (intro conjI) (auto intro: exI [of _ "[]"])
  qed
qed

lemma star_step:
  assumes "(c1, st1) \<in> set (f st)" and "length (snd st1) < length (snd st)"
  shows "(c2, st2) \<in> set (star_greedy f n st1) \<Longrightarrow> (c1 @ c2, st2) \<in> set (star_greedy f (Suc n) st)"
    and "(c2, st2) \<in> set (star_lazy f n st1) \<Longrightarrow> (c1 @ c2, st2) \<in> set (star_lazy f (Suc n) st)"
proof -
  assume a: "(c2, st2) \<in> set (star_greedy f n st1)"
  let ?F = "\<lambda>(c, st1). if length (snd st1) < length (snd st)
      then map (\<lambda>(c2, st2). (c @ c2, st2)) (star_greedy f n st1) else []"
  have "map (\<lambda>(c2, st2). (c1 @ c2, st2)) (star_greedy f n st1) \<in> set (map ?F (f st))"
    unfolding set_map by (rule rev_image_eqI [OF assms(1)]) (use assms(2) in simp)
  moreover have "(c1 @ c2, st2) \<in> set (map (\<lambda>(c2, st2). (c1 @ c2, st2)) (star_greedy f n st1))"
    unfolding set_map by (rule rev_image_eqI [OF a]) simp
  ultimately have "(c1 @ c2, st2) \<in> set (concat (map ?F (f st)))"
    unfolding set_concat by (rule UN_I)
  then show "(c1 @ c2, st2) \<in> set (star_greedy f (Suc n) st)" by simp
next
  assume a: "(c2, st2) \<in> set (star_lazy f n st1)"
  let ?F = "\<lambda>(c, st1). if length (snd st1) < length (snd st)
      then map (\<lambda>(c2, st2). (c @ c2, st2)) (star_lazy f n st1) else []"
  have "map (\<lambda>(c2, st2). (c1 @ c2, st2)) (star_lazy f n st1) \<in> set (map ?F (f st))"
    unfolding set_map by (rule rev_image_eqI [OF assms(1)]) (use assms(2) in simp)
  moreover have "(c1 @ c2, st2) \<in> set (map (\<lambda>(c2, st2). (c1 @ c2, st2)) (star_lazy f n st1))"
    unfolding set_map by (rule rev_image_eqI [OF a]) simp
  ultimately have "(c1 @ c2, st2) \<in> set (concat (map ?F (f st)))"
    unfolding set_concat by (rule UN_I)
  then show "(c1 @ c2, st2) \<in> set (star_lazy f (Suc n) st)" by simp
qed

lemma star_complete:
  assumes "\<And>b u s. u \<in> L \<Longrightarrow> \<exists>c b'. (c, b', s) \<in> set (f (b, u @ s))"
  shows "set us \<subseteq> L \<Longrightarrow> length (concat us) \<le> n \<Longrightarrow>
    \<exists>c b'. (c, b', s) \<in> set (star_greedy f n (b, concat us @ s))"
    and "set us \<subseteq> L \<Longrightarrow> length (concat us) \<le> n \<Longrightarrow>
    \<exists>c b'. (c, b', s) \<in> set (star_lazy f n (b, concat us @ s))"
proof (induction us arbitrary: b n)
  case Nil
  { case 1 then show ?case by (cases n) auto }
  { case 2 then show ?case by (cases n) auto }
next
  case (Cons u us)
  { case 1
    then obtain c b1 where c: "(c, b1, concat us @ s) \<in> set (f (b, u @ concat us @ s))"
      using assms [of u "concat us @ s" b] by auto
    show ?case
    proof (cases "u = []")
      case False
      then obtain k where k: "n = Suc k" "length (concat us) \<le> k"
        using 1 by (cases n; cases u) auto
      obtain c2 b2 where "(c2, b2, s) \<in> set (star_greedy f k (b1, concat us @ s))"
        using Cons.IH(1) [of k b1] 1 k by auto
      with star_step(1) [where f = f and st = "(b, u @ concat us @ s)", OF c, of c2 "(b2, s)" k] 1 False k show ?thesis by (auto simp del: star_greedy.simps star_lazy.simps)
    qed (use Cons.IH(1) 1 in simp) }
  { case 2
    then obtain c b1 where c: "(c, b1, concat us @ s) \<in> set (f (b, u @ concat us @ s))"
      using assms [of u "concat us @ s" b] by auto
    show ?case
    proof (cases "u = []")
      case False
      then obtain k where k: "n = Suc k" "length (concat us) \<le> k"
        using 2 by (cases n; cases u) auto
      obtain c2 b2 where "(c2, b2, s) \<in> set (star_lazy f k (b1, concat us @ s))"
        using Cons.IH(2) [of k b1] 2 k by auto
      with star_step(2) [where f = f and st = "(b, u @ concat us @ s)", OF c, of c2 "(b2, s)" k] 2 False k show ?thesis by (auto simp del: star_greedy.simps star_lazy.simps)
    qed (use Cons.IH(2) 2 in simp) }
qed

lemma rmatch_complete:
  "\<not> anchored r \<Longrightarrow> u \<in> rlang r \<Longrightarrow> \<exists>c b'. (c, b', s) \<in> set (rmatch r (b, u @ s))"
proof (induction r arbitrary: b u s)
  case (RSeq r1 r2)
  then obtain p q where u: "u = p @ q" "p \<in> rlang r1" "q \<in> rlang r2" by auto
  obtain c1 b1 where 1: "(c1, b1, q @ s) \<in> set (rmatch r1 (b, p @ q @ s))"
    using RSeq.IH(1) RSeq.prems u by fastforce
  obtain c2 b2 where 2: "(c2, b2, s) \<in> set (rmatch r2 (b1, q @ s))"
    using RSeq.IH(2) RSeq.prems u by fastforce
  show ?case
    by (intro exI [of _ "c1 @ c2"] exI [of _ b2]) (use 1 2 u in \<open>force simp: image_iff\<close>)
next
  case (RStar r)
  then obtain us where "u = concat us" "set us \<subseteq> rlang r" by auto
  with star_complete(1) [of "rlang r" "rmatch r" us "length (u @ s)" s b] RStar show ?case by simp
next
  case (RLazy r)
  then obtain us where "u = concat us" "set us \<subseteq> rlang r" by auto
  with star_complete(2) [of "rlang r" "rmatch r" us "length (u @ s)" s b] RLazy show ?case by simp
next
  case (RGroup n r)
  then obtain c b' where "(c, b', s) \<in> set (rmatch r (b, u @ s))" by fastforce
  then show ?case by (auto simp: image_iff Bex_def)
next
  case (RAlt r1 r2)
  then show ?case by fastforce
qed auto

text \<open>Where nothing is found nothing is replaced.\<close>

lemma rreplace_unfound: "rfind r b s = None \<Longrightarrow> rreplace r f after b s = s"
proof (induction s arbitrary: b after)
  case Nil
  then show ?case by (subst rreplace.simps) (subst (asm) rfind.simps, auto split: list.splits)
next
  case (Cons x s)
  from Cons.prems have "rmatch r (b, x # s) = []" "rfind r (Some x) s = None"
    by (subst (asm) rfind.simps, auto split: list.splits)+
  with Cons.IH show ?case by (subst rreplace.simps) simp
qed

text \<open>A pattern without anchors is found in a text exactly when the text has a part that it denotes.\<close>

lemma rfind_complete:
  assumes "\<not> anchored r"
  shows "u \<in> rlang r \<Longrightarrow> rfind r b (t @ u @ v) \<noteq> None"
proof (induction t arbitrary: b)
  case Nil
  obtain c b' where "(c, b', v) \<in> set (rmatch r (b, u @ v))"
    using rmatch_complete [OF assms Nil] by blast
  then show ?case by (subst rfind.simps) (auto split: list.split)
next
  case (Cons x t)
  then show ?case by (subst rfind.simps) (auto split: list.split)
qed

end
