(* ===== verification/Prompt.thy ===== *)
theory Prompt
  imports GoRegexp HttpModel Complex_Main
begin

text \<open>
  From a sentence to a command of the CLI, \<open>src/internal/prompt\<close>: the keyword classifier
  (\<open>classifier.go\<close>), the extraction of named values (\<open>slots.go\<close>), the validator with the pipeline
  (\<open>validator.go\<close>) and the generator of the arguments (\<open>generator.go\<close>). The scores are rational
  numbers: the only sums that a float would round are above 1 and cut to 1. The iteration over
  the map of extractors has no order to respect, because each writes its own slot.
\<close>

section \<open>The classifier\<close>

definition IntentRegister :: string where "IntentRegister = ''register''"
definition IntentUpgrade :: string where "IntentUpgrade = ''upgrade''"
definition IntentQuery :: string where "IntentQuery = ''query''"
definition IntentBatch :: string where "IntentBatch = ''batch''"
definition IntentConfig :: string where "IntentConfig = ''config''"
definition IntentAudit :: string where "IntentAudit = ''audit''"
definition IntentUnknown :: string where "IntentUnknown = ''unknown''"

lemmas intent_names = IntentRegister_def IntentUpgrade_def IntentQuery_def IntentBatch_def
  IntentConfig_def IntentAudit_def IntentUnknown_def

record prompt_rule =
  ru_intent :: string
  ru_keywords :: "string list"
  ru_weight :: rat

definition NewKeywordClassifier :: "prompt_rule list" where
  "NewKeywordClassifier =
      [\<lparr> ru_intent = IntentBatch, ru_keywords =
         [''batch'', ''bulk'', ''many agents'', ''multiple agents'', ''csv'',
          [CHR 0xE6, CHR 0x89, CHR 0xB9, CHR 0xE9, CHR 0x87, CHR 0x8F],
          [CHR 0xE5, CHR 0xA4, CHR 0x9A, CHR 0xE4, CHR 0xB8, CHR 0xAA] @ '' agent''],
         ru_weight = 1 \<rparr>,
       \<lparr> ru_intent = IntentConfig, ru_keywords =
         [''config set'', ''config show'', ''config reset'', ''configure'', ''configuration'',
          [CHR 0xE9, CHR 0x85, CHR 0x8D, CHR 0xE7, CHR 0xBD, CHR 0xAE],
          [CHR 0xE8, CHR 0xAE, CHR 0xBE, CHR 0xE7, CHR 0xBD, CHR 0xAE]],
         ru_weight = 1 \<rparr>,
       \<lparr> ru_intent = IntentAudit, ru_keywords =
         [''audit'', ''logs'', ''history'', ''changes'', ''log of'', ''audit logs'',
          [CHR 0xE5, CHR 0xAE, CHR 0xA1, CHR 0xE8, CHR 0xAE, CHR 0xA1],
          [CHR 0xE5, CHR 0x8F, CHR 0x98, CHR 0xE6, CHR 0x9B, CHR 0xB4, CHR 0xE8, CHR 0xAE, CHR 0xB0, CHR 0xE5, CHR 0xBD, CHR 0x95]],
         ru_weight = 9 / 10 \<rparr>,
       \<lparr> ru_intent = IntentRegister, ru_keywords =
         [''register'', ''create agent'', ''new agent'', ''enroll'', ''onboard''],
         ru_weight = 1 \<rparr>,
       \<lparr> ru_intent = IntentUpgrade, ru_keywords =
         [''upgrade'', ''promote'', ''elevate'', ''increase level'',
          [CHR 0xE6, CHR 0x8F, CHR 0x90, CHR 0xE5, CHR 0x8D, CHR 0x87]],
         ru_weight = 1 \<rparr>,
       \<lparr> ru_intent = IntentQuery, ru_keywords =
         [''info'', ''show'', ''get info'', ''find'', ''look up'',
          [CHR 0xE6, CHR 0x9F, CHR 0xA5, CHR 0xE8, CHR 0xAF, CHR 0xA2],
          [CHR 0xE8, CHR 0xAF, CHR 0xA6, CHR 0xE6, CHR 0x83, CHR 0x85],
          [CHR 0xE8, CHR 0x8E, CHR 0xB7, CHR 0xE5, CHR 0x8F, CHR 0x96]],
         ru_weight = 8 / 10 \<rparr>]"

definition prompt_lower :: "string \<Rightarrow> string" where
  "prompt_lower = map (\<lambda>c. if c \<in> set re_upper then swap_case c else c)"

definition prompt_indexOf :: "string \<Rightarrow> string \<Rightarrow> int" where
  "prompt_indexOf s sub = (case str_index sub s of None \<Rightarrow> - 1 | Some i \<Rightarrow> int i)"

definition prompt_contains :: "string \<Rightarrow> string \<Rightarrow> bool" where
  "prompt_contains haystack needle \<longleftrightarrow> needle = [] \<or> 0 \<le> prompt_indexOf haystack needle"

definition rule_score :: "string \<Rightarrow> prompt_rule \<Rightarrow> rat" where
  "rule_score low r =
     (let score = foldl (\<lambda>s kw. if prompt_contains low kw then s + ru_weight r else s) 0 (ru_keywords r)
      in if 1 < score then 1 else score)"

definition Confidence :: "prompt_rule list \<Rightarrow> string \<Rightarrow> string \<times> rat" where
  "Confidence rules text =
     (let low = prompt_lower text;
          (best, bestScore) = foldl (\<lambda>(best, bestScore) r.
             if bestScore < rule_score low r then (ru_intent r, rule_score low r) else (best, bestScore))
             (IntentUnknown, 0) rules
      in if bestScore < 1 / 10 then (IntentUnknown, 0) else (best, bestScore))"

definition Classify :: "prompt_rule list \<Rightarrow> string \<Rightarrow> string" where
  "Classify rules text = fst (Confidence rules text)"

section \<open>Slots\<close>

definition SlotOwner :: string where "SlotOwner = ''owner''"
definition SlotUUID :: string where "SlotUUID = ''uuid''"
definition SlotLevel :: string where "SlotLevel = ''level''"
definition SlotPermission :: string where "SlotPermission = ''permission''"
definition SlotReason :: string where "SlotReason = ''reason''"
definition SlotPublicKey :: string where "SlotPublicKey = ''public_key''"
definition SlotName :: string where "SlotName = ''name''"
definition SlotPath :: string where "SlotPath = ''path''"
definition SlotConfigKey :: string where "SlotConfigKey = ''config_key''"
definition SlotConfigVal :: string where "SlotConfigVal = ''config_value''"
definition SlotLimit :: string where "SlotLimit = ''limit''"
definition SlotFormat :: string where "SlotFormat = ''format''"

lemmas slot_names = SlotOwner_def SlotUUID_def SlotLevel_def SlotPermission_def SlotReason_def
  SlotPublicKey_def SlotName_def SlotPath_def SlotConfigKey_def SlotConfigVal_def SlotLimit_def
  SlotFormat_def

type_synonym slots = "string \<Rightarrow> string option"
type_synonym slot_filler = "(string \<times> (string \<Rightarrow> string)) list"

definition Slots_Has :: "slots \<Rightarrow> string \<Rightarrow> bool" where
  "Slots_Has s k = (case s k of None \<Rightarrow> False | Some v \<Rightarrow> v \<noteq> [])"

definition Slots_Get :: "slots \<Rightarrow> string \<Rightarrow> string \<Rightarrow> string" where
  "Slots_Get s k d = (case s k of None \<Rightarrow> d | Some v \<Rightarrow> v)"

section \<open>The extractors\<close>

abbreviation "re_hex \<equiv> one_of ''0123456789abcdefABCDEF''"
abbreviation "re_word \<equiv> one_of (re_digits @ re_upper @ ''_'' @ re_lower)"
abbreviation "re_spaces \<equiv> many1 (one_of re_space)"

text \<open>The value of group 1, empty without a match.\<close>

definition group1 :: "regex \<Rightarrow> string \<Rightarrow> string" where
  "group1 r text = (case Submatch r 1 text of None \<Rightarrow> [] | Some g \<Rightarrow> g)"

definition uuidRe :: regex where
  "uuidRe = rseq [rtimes 8 re_hex, lit ''-'', rtimes 4 re_hex, lit ''-'', rtimes 4 re_hex, lit ''-'',
     rtimes 4 re_hex, lit ''-'', rtimes 12 re_hex]"

definition extractUUID :: "string \<Rightarrow> string" where
  "extractUUID = FindString uuidRe"

definition didRe :: regex where
  "didRe = rseq [lit ''did:agentid:'', many1 (one_of (re_upper @ re_lower @ re_digits @ ''_-''))]"

definition extractOwner :: "string \<Rightarrow> string" where
  "extractOwner = FindString didRe"

definition levelRe :: regex where
  "levelRe = rseq [lit_any ''level'', re_spaces, RGroup 1 (many1 (one_of re_digits))]"

text \<open>\<open>strconv.ParseUint\<close> with eight bits on a run of digits.\<close>

definition extractLevel :: "string \<Rightarrow> string" where
  "extractLevel text = (let g = group1 levelRe text in if 255 < dec_value g then [] else g)"

definition permRe :: regex where
  "permRe = rseq [lit_any ''permission'', opt (any_case ''s''), re_spaces,
     RGroup 1 (RAlt (rseq [lit ''0'', any_case ''x'', many1 re_hex]) (many1 (one_of re_digits)))]"

definition extractPermission :: "string \<Rightarrow> string" where
  "extractPermission = group1 permRe"

definition reasonRe :: regex where
  "reasonRe = rseq [ralt [lit_any ''for'', lit_any ''because'', lit_any ''reason''], re_spaces,
     RGroup 1 (many1_lazy (RSet (\<lambda>c. c \<notin> set [CHR '','', CHR ''.'', CHR 0x0A]))),
     ralt [rseq [re_spaces, ralt [lit_any ''on'', lit_any ''at'', lit_any ''by'', lit_any ''with'',
             lit_any ''using''], one_of re_space],
           REol, one_of [CHR '','', CHR ''.'', CHR 0x0A], REol]]"

text \<open>The cutset of the calls of \<open>strings.Trim\<close>.\<close>

definition trim_marks :: "string \<Rightarrow> string" where
  "trim_marks s =
     (let mark = (\<lambda>c. c \<in> set [CHR '' '', CHR 0x09, CHR 0x0A, CHR '','', CHR ''.'', CHR 0x22, CHR 0x27, CHR 0x60])
      in rev (dropWhile mark (rev (dropWhile mark s))))"

definition extractReason :: "string \<Rightarrow> string" where
  "extractReason text = trim_space (trim_marks (group1 reasonRe text))"

definition pkRe :: regex where
  "pkRe = rseq [ralt [rseq [lit_any ''public'', opt (one_of (''_'' @ re_space)), lit_any ''key''], lit_any ''pk''],
     RStar (one_of re_space), one_of ''=:'', RStar (one_of re_space),
     RGroup 1 (let c = any_case (re_upper @ re_lower @ re_digits @ ''+/=_-'')
               in rseq [rtimes 8 c, RStar c])]"

definition extractPublicKey :: "string \<Rightarrow> string" where
  "extractPublicKey = group1 pkRe"

definition nameRe :: regex where
  "nameRe = rseq [RAlt RBol (one_of ('','' @ re_space)),
     ralt [lit_any ''for'', lit_any ''named'', lit_any ''called''], re_spaces,
     RGroup 1 (let c = any_case (re_lower @ re_upper @ re_digits @ ''_-'')
               in rseq [any_case (re_lower @ re_upper), c, up_to 30 c])]"

definition extractName :: "string \<Rightarrow> string" where
  "extractName text =
     (let w = group1 nameRe text
      in if to_lower w \<in> set [''the'', ''a'', ''an'', ''agent'', ''new'', ''this'', ''that'', ''for'', ''to'',
              ''at'', ''on'', ''by'', ''with''] then [] else w)"

definition pathRe :: regex where
  "pathRe =
     (let name = RAlt re_word (lit ''-''); deep = ralt [re_word, one_of ''-./'']
      in ralt [rseq [opt (rseq [up_to 2 (lit ''.''), lit ''/'']),
                 RStar (rseq [many1 name, lit ''/'']), many1 name, lit ''.'',
                 many1 (one_of (re_lower @ re_upper @ re_digits))],
               rseq [lit ''~/'', many1 deep],
               rseq [lit ''/'', many1 deep]])"

definition extractPath :: "string \<Rightarrow> string" where
  "extractPath = FindString pathRe"

abbreviation re_key_tail :: regex where
  "re_key_tail \<equiv> many1 (any_case (re_lower @ re_digits @ ''_-''))"

definition configKeyRe :: regex where
  "configKeyRe = rseq [lit_any ''config'', opt (rseq [re_spaces, lit_any ''set'']), re_spaces,
     RGroup 1 (rseq [any_case re_lower, re_key_tail])]"

definition extractConfigKey :: "string \<Rightarrow> string" where
  "extractConfigKey text = to_lower (group1 configKeyRe text)"

definition configValRe :: regex where
  "configValRe = rseq [ralt [lit_any ''set'', lit_any ''to'', lit ''=''], re_spaces, any_case re_lower,
     re_key_tail, re_spaces, RGroup 1 (many1 (RSet (\<lambda>c. c \<notin> set re_space))), REol]"

text \<open>\<open>strings.Fields\<close>: the parts between runs of space runes.\<close>

function fields_loop :: "string \<Rightarrow> string \<Rightarrow> string list" where
  "fields_loop cur s =
     (case s of
        [] \<Rightarrow> if cur = [] then [] else [cur]
      | c # cs \<Rightarrow>
          (case find (\<lambda>p. p \<noteq> [] \<and> starts_with p s) space_runes of
             Some p \<Rightarrow> (if cur = [] then [] else [cur]) @ fields_loop [] (drop (length p) s)
           | None \<Rightarrow> fields_loop (cur @ [c]) cs))"
  by pat_completeness auto
termination
  by (relation "measure (\<lambda>(cur, s). length s)") (auto simp: find_Some_iff)

declare fields_loop.simps [simp del]

definition go_fields :: "string \<Rightarrow> string list" where
  "go_fields s = fields_loop [] s"

definition extractConfigValue :: "string \<Rightarrow> string" where
  "extractConfigValue text =
     (case Submatch configValRe 1 (trim_space text) of
        None \<Rightarrow> (let parts = go_fields text in if parts \<noteq> [] then last parts else [])
      | Some g \<Rightarrow> trim_marks g)"

definition limitRe :: regex where
  "limitRe = ralt [rseq [lit_any ''limit'', re_spaces, RGroup 1 (many1 (one_of re_digits))],
     rseq [lit_any ''last'', re_spaces, RGroup 2 (many1 (one_of re_digits))],
     rseq [lit_any ''top'', re_spaces, RGroup 3 (many1 (one_of re_digits))]]"

definition extractLimit :: "string \<Rightarrow> string" where
  "extractLimit text =
     (case find (\<lambda>m. m \<noteq> []) (List.map_filter (\<lambda>i. Submatch limitRe i text) [1, 2, 3]) of
        None \<Rightarrow> [] | Some m \<Rightarrow> m)"

definition formatRe :: regex where
  "formatRe = rseq [ralt [lit_any ''as'', lit_any ''format'', lit_any ''in''], re_spaces,
     RGroup 1 (ralt [lit_any ''json'', lit_any ''yaml'', lit_any ''table'', lit_any ''csv''])]"

definition extractFormat :: "string \<Rightarrow> string" where
  "extractFormat text = to_lower (group1 formatRe text)"

definition NewSlotFiller :: slot_filler where
  "NewSlotFiller =
     [(SlotUUID, extractUUID), (SlotOwner, extractOwner), (SlotLevel, extractLevel),
      (SlotPermission, extractPermission), (SlotReason, extractReason),
      (SlotPublicKey, extractPublicKey), (SlotName, extractName), (SlotPath, extractPath),
      (SlotConfigKey, extractConfigKey), (SlotConfigVal, extractConfigValue),
      (SlotLimit, extractLimit), (SlotFormat, extractFormat)]"

definition Filler_Fill :: "slot_filler \<Rightarrow> string \<Rightarrow> slots" where
  "Filler_Fill f text k =
     (case map_of f k of
        None \<Rightarrow> None
      | Some ex \<Rightarrow> (let v = ex text in if v \<noteq> [] then Some v else None))"

definition Filler_Register :: "string \<Rightarrow> (string \<Rightarrow> string) \<Rightarrow> slot_filler \<Rightarrow> slot_filler" where
  "Filler_Register name ex f = AList.update name ex f"

section \<open>The generator\<close>

abbreviation ErrUnknownIntent :: go_error where "ErrUnknownIntent \<equiv> Sentinel ''prompt: unknown intent''"
abbreviation ErrMissingOwner :: go_error where "ErrMissingOwner \<equiv> Sentinel ''prompt: missing owner slot''"
abbreviation ErrMissingUUID :: go_error where "ErrMissingUUID \<equiv> Sentinel ''prompt: missing uuid slot''"
abbreviation ErrMissingPath :: go_error where "ErrMissingPath \<equiv> Sentinel ''prompt: missing file path slot''"
abbreviation ErrMissingConfigKey :: go_error where
  "ErrMissingConfigKey \<equiv> Sentinel ''prompt: missing config key slot''"

type_synonym command = "string \<times> string list"

abbreviation optional_flag :: "string \<Rightarrow> string \<Rightarrow> string list" where
  "optional_flag flag v \<equiv> (if v \<noteq> [] then [flag, v] else [])"

definition genRegister :: "slots \<Rightarrow> go_error + command" where
  "genRegister s =
     (let owner0 = Slots_Get s SlotOwner [];
          name = Slots_Get s SlotName [];
          owner = (if owner0 = [] \<and> name \<noteq> [] then ''did:agentid:'' @ name else owner0)
      in if owner = [] then Inl ErrMissingOwner
         else (let pk0 = Slots_Get s SlotPublicKey [];
                   pk = (if pk0 = [] then ''pk_default'' else pk0)
               in Inr (''register'',
                    [''--owner'', owner] @ optional_flag ''--level'' (Slots_Get s SlotLevel [])
                    @ optional_flag ''--permission'' (Slots_Get s SlotPermission [])
                    @ [''--public-key'', pk])))"

definition genUpgrade :: "slots \<Rightarrow> go_error + command" where
  "genUpgrade s =
     (let uuid = Slots_Get s SlotUUID []; lvl = Slots_Get s SlotLevel []
      in if uuid = [] then Inl ErrMissingUUID
         else Inr (''upgrade'',
           [''--uuid'', uuid] @ [''--target-level'', if lvl \<noteq> [] then lvl else ''2'']
           @ optional_flag ''--reason'' (Slots_Get s SlotReason [])))"

definition genQuery :: "slots \<Rightarrow> go_error + command" where
  "genQuery s =
     (let uuid = Slots_Get s SlotUUID []
      in if uuid = [] then Inl ErrMissingUUID
         else Inr (''info'', [''--uuid'', uuid] @ optional_flag ''--format'' (Slots_Get s SlotFormat [])))"

definition genBatch :: "slots \<Rightarrow> go_error + command" where
  "genBatch s =
     (let path = Slots_Get s SlotPath []
      in if path = [] then Inl ErrMissingPath
         else Inr (''batch-register'',
           [''--file'', path]
           @ (if Slots_Has s SlotFormat then [''--format'', Slots_Get s SlotFormat ''json''] else [])))"

definition genConfig :: "slots \<Rightarrow> go_error + command" where
  "genConfig s =
     (let key = Slots_Get s SlotConfigKey []; v = Slots_Get s SlotConfigVal []
      in if key = [] then Inl ErrMissingConfigKey
         else if v = [] then Inr (''config'', [''show''])
         else Inr (''config'', [''set'', key, v]))"

definition genAudit :: "slots \<Rightarrow> go_error + command" where
  "genAudit s =
     (let uuid = Slots_Get s SlotUUID []
      in if uuid = [] then Inl ErrMissingUUID
         else Inr (''audit'', [''--uuid'', uuid] @ optional_flag ''--limit'' (Slots_Get s SlotLimit [])))"

definition Prompt_Generate :: "string \<Rightarrow> slots \<Rightarrow> go_error + command" where
  "Prompt_Generate intent s =
     (if intent = IntentRegister then genRegister s
      else if intent = IntentUpgrade then genUpgrade s
      else if intent = IntentQuery then genQuery s
      else if intent = IntentBatch then genBatch s
      else if intent = IntentConfig then genConfig s
      else if intent = IntentAudit then genAudit s
      else Inl ErrUnknownIntent)"

section \<open>The validator and the pipeline\<close>

definition Prompt_Validate :: "string \<Rightarrow> slots \<Rightarrow> go_error option" where
  "Prompt_Validate intent s =
     (if intent = IntentRegister
        then (if \<not> Slots_Has s SlotOwner \<and> \<not> Slots_Has s SlotName then Some ErrMissingOwner else None)
      else if intent \<in> {IntentUpgrade, IntentQuery, IntentAudit}
        then (if \<not> Slots_Has s SlotUUID then Some ErrMissingUUID else None)
      else if intent = IntentBatch
        then (if \<not> Slots_Has s SlotPath then Some ErrMissingPath else None)
      else if intent = IntentConfig then None
      else if intent = IntentUnknown then Some ErrUnknownIntent
      else None)"

record prompt_pipeline =
  pp_Classifier :: "string \<Rightarrow> string \<times> rat"
  pp_Filler :: slot_filler
  pp_Validator :: "string \<Rightarrow> slots \<Rightarrow> go_error option"
  pp_Generator :: "string \<Rightarrow> slots \<Rightarrow> go_error + command"

definition NewPipeline :: prompt_pipeline where
  "NewPipeline = \<lparr> pp_Classifier = Confidence NewKeywordClassifier, pp_Filler = NewSlotFiller,
     pp_Validator = Prompt_Validate, pp_Generator = Prompt_Generate \<rparr>"

text \<open>\<open>Skipped\<close> holds the error whose text the code stores.\<close>

record prompt_result =
  pt_Intent :: string
  pt_Slots :: slots
  pt_Cmd :: string
  pt_Args :: "string list"
  pt_Score :: rat
  pt_Skipped :: "go_error option"

definition Pipeline_Process ::
  "prompt_pipeline \<Rightarrow> string \<Rightarrow> prompt_result option \<times> go_error option" where
  "Pipeline_Process p text =
     (let (intent, score) = pp_Classifier p text
      in if intent = IntentUnknown then (None, Some ErrUnknownIntent)
         else
           (let s = Filler_Fill (pp_Filler p) text;
                skipped = (\<lambda>err. \<lparr> pt_Intent = intent, pt_Slots = s, pt_Cmd = [], pt_Args = [],
                              pt_Score = score, pt_Skipped = Some err \<rparr>)
            in case pp_Validator p intent s of
                 Some err \<Rightarrow> (Some (skipped err), Some err)
               | None \<Rightarrow>
                   (case pp_Generator p intent s of
                      Inl err \<Rightarrow> (Some (skipped err), Some err)
                    | Inr (cmd, args) \<Rightarrow>
                        (Some \<lparr> pt_Intent = intent, pt_Slots = s, pt_Cmd = cmd, pt_Args = args,
                                pt_Score = score, pt_Skipped = None \<rparr>, None))))"

end
