(* ===== verification/PromptRules.thy ===== *)
theory PromptRules
  imports Prompt
begin

text \<open>
  What the prompt pipeline shows: a command about an agent names the UUID that the sentence holds,
  the validator and the generator agree, the score is the best of the rules, and a sentence about
  the configuration becomes a change even where it asks to show.
\<close>

section \<open>The shape of a UUID\<close>

fun dashed :: "nat list \<Rightarrow> string \<Rightarrow> bool" where
  "dashed [] s = (s = [])"
| "dashed [n] s = (take_hex n s = Some [])"
| "dashed (n # ns) s =
     (case take_hex n s of None \<Rightarrow> False | Some r \<Rightarrow> r \<noteq> [] \<and> hd r = CHR ''-'' \<and> dashed ns (tl r))"

lemma take_hex_Some: "take_hex n s = Some r \<longleftrightarrow> (\<exists>p. s = p @ r \<and> length p = n \<and> list_all is_hex_char p)"
  by (auto simp: take_hex_def intro: exI [of _ "take n s"])

lemma dashed_Cons:
  "dashed (n # m # ns) s \<longleftrightarrow> (\<exists>t. take_hex n s = Some (CHR ''-'' # t) \<and> dashed (m # ns) t)"
proof (cases "take_hex n s")
  case (Some r)
  then show ?thesis by (cases r) auto
qed simp

lemma dashed_last: "dashed [n] s \<longleftrightarrow> length s = n \<and> list_all is_hex_char s"
  by (auto simp: take_hex_Some)

lemma dashed_match: "dashed ns s \<Longrightarrow> match_groups ns s \<and> (ns \<noteq> [] \<longrightarrow> Suc (length s) = sum_list ns + length ns)"
proof (induction ns s rule: dashed.induct)
  case (2 n s)
  then show ?case by (auto simp: take_hex_Some)
next
  case (3 n m ns s)
  then obtain r where r: "take_hex n s = Some (CHR ''-'' # r)" "dashed (m # ns) r"
    by (auto split: option.splits) (metis list.collapse)
  with 3 have ih: "match_groups (m # ns) r" "Suc (length r) = sum_list (m # ns) + length (m # ns)"
    by auto
  have "length s = n + Suc (length r)" using r(1) by (auto simp: take_hex_Some)
  with ih r(1) show ?case by simp
qed simp

lemma match_dashed:
  "match_groups ns s \<Longrightarrow> ns \<noteq> [] \<Longrightarrow>
   Suc (length s) \<le> sum_list ns + length ns \<and> (Suc (length s) = sum_list ns + length ns \<longrightarrow> dashed ns s)"
proof (induction ns s rule: match_groups.induct)
  case (2 n s)
  then show ?case by (auto simp: take_hex_Some)
next
  case (3 n m ns s)
  then obtain r where r: "take_hex n s = Some r" "match_groups (m # ns) (skip_dash r)"
    by (auto split: option.splits)
  have len: "length s = n + length r" using r(1) by (auto simp: take_hex_Some)
  from 3(1) [OF r] have ih: "Suc (length (skip_dash r)) \<le> sum_list (m # ns) + length (m # ns)"
    "Suc (length (skip_dash r)) = sum_list (m # ns) + length (m # ns) \<Longrightarrow> dashed (m # ns) (skip_dash r)"
    by auto
  show ?case
  proof (cases "r \<noteq> [] \<and> hd r = CHR ''-''")
    case True
    then obtain t where t: "r = CHR ''-'' # t" by (cases r) auto
    with ih have "Suc (length t) \<le> sum_list (m # ns) + length (m # ns)"
      "Suc (length t) = sum_list (m # ns) + length (m # ns) \<Longrightarrow> dashed (m # ns) t"
      by simp_all
    then show ?thesis using len r(1) t by (simp del: match_groups.simps)
  next
    case False
    then have "skip_dash r = r" by (cases r) auto
    with ih len show ?thesis by simp
  qed
qed simp

lemma uuid36_dashed: "uuidPattern s \<and> length s = 36 \<longleftrightarrow> dashed [8, 4, 4, 4, 12] s"
  using dashed_match [of "[8, 4, 4, 4, 12]" s] match_dashed [of "[8, 4, 4, 4, 12]" s]
    match_dashed [of "[32]" s]
  by (auto simp: uuidPattern_def simp del: match_groups.simps dashed.simps)

lemma rlang_set_seq: "rlang (RSeq (RSet p) r) = {c # v |c v. p c \<and> v \<in> rlang r}"
  by (rule set_eqI, simp) (metis append_Cons append_Nil)

lemma rlang_many: "rlang (rseq (replicate n (RSet p))) = {s. length s = n \<and> list_all p s}"
proof (induction n)
  case (Suc n)
  show ?case
  proof (cases n)
    case 0
    then show ?thesis by (auto simp: length_Suc_conv)
  next
    case (Suc k)
    have "rlang (rseq (replicate (Suc n) (RSet p)))
        = {c # v |c v. p c \<and> v \<in> rlang (rseq (replicate n (RSet p)))}"
      by (simp add: Suc rlang_set_seq del: rlang.simps)
    also have "\<dots> = {s. length s = Suc n \<and> list_all p s}"
      unfolding Suc.IH by (rule set_eqI, case_tac x) auto
    finally show ?thesis .
  qed
qed auto

lemma rlang_hex: "rlang (rtimes n re_hex) = {s. length s = n \<and> list_all is_hex_char s}"
  unfolding rtimes_def rlang_many by (auto simp: list_all_iff is_hex_char_def)

lemma rlang_group:
  "rlang (RSeq (rtimes n re_hex) (RSeq (lit ''-'') r)) =
     {s. \<exists>t. take_hex n s = Some (CHR ''-'' # t) \<and> t \<in> rlang r}"
proof -
  have dash: "rlang (RSeq (lit ''-'') r) = {CHR ''-'' # v |v. v \<in> rlang r}"
    by (simp add: lit_def rlang_set_seq del: rlang.simps)
  show ?thesis
  proof (intro set_eqI iffI)
    fix x assume "x \<in> rlang (RSeq (rtimes n re_hex) (RSeq (lit ''-'') r))"
    then obtain u v where "x = u @ CHR ''-'' # v" "u \<in> rlang (rtimes n re_hex)" "v \<in> rlang r"
      unfolding rlang.simps(3) [of "rtimes n re_hex"] dash by blast
    then show "x \<in> {s. \<exists>t. take_hex n s = Some (CHR ''-'' # t) \<and> t \<in> rlang r}"
      unfolding rlang_hex take_hex_Some by blast
  next
    fix x assume "x \<in> {s. \<exists>t. take_hex n s = Some (CHR ''-'' # t) \<and> t \<in> rlang r}"
    then obtain u v where "x = u @ CHR ''-'' # v" "u \<in> rlang (rtimes n re_hex)" "v \<in> rlang r"
      unfolding rlang_hex take_hex_Some by blast
    then show "x \<in> rlang (RSeq (rtimes n re_hex) (RSeq (lit ''-'') r))"
      unfolding rlang.simps(3) [of "rtimes n re_hex"] dash by blast
  qed
qed

lemma rlang_uuid: "rlang uuidRe = {s. uuidPattern s \<and> length s = 36}"
proof -
  have "rlang uuidRe = {s. dashed [8, 4, 4, 4, 12] s}"
    unfolding uuidRe_def rseq.simps rlang_group rlang_hex
    by (simp only: dashed_Cons dashed_last mem_Collect_eq)
  then show ?thesis by (simp add: uuid36_dashed)
qed

section \<open>Commands about an agent\<close>

lemma anchored_rseq: "\<forall>r\<in>set rs. \<not> anchored r \<Longrightarrow> \<not> anchored (rseq rs)"
  by (induction rs rule: rseq.induct) auto

lemma extractUUID_found: "extractUUID text \<noteq> [] \<Longrightarrow>
   uuidPattern (extractUUID text) \<and> length (extractUUID text) = 36 \<and> (\<exists>u v. text = u @ extractUUID text @ v)"
  using rfind_sound [of uuidRe None "text"] rlang_uuid
  by (fastforce simp: extractUUID_def FindString_def split: option.splits)

lemma extractUUID_none:
  assumes "extractUUID text = []"
  shows "text \<noteq> u @ x @ v \<or> \<not> uuidPattern x \<or> length x \<noteq> 36"
proof (rule ccontr)
  assume "\<not> ?thesis"
  then have x: "text = u @ x @ v" "x \<in> rlang uuidRe" by (auto simp: rlang_uuid)
  have "\<not> anchored uuidRe"
    unfolding uuidRe_def rtimes_def lit_def by (simp add: anchored_rseq)
  from rfind_complete [OF this x(2), of None u v] x(1) obtain c m where m: "rfind uuidRe None text = Some (c, m)"
    by auto
  with assms have "m = []" by (simp add: extractUUID_def FindString_def)
  with rfind_sound [OF m] show False by (simp add: rlang_uuid)
qed

lemma filled_slot:
  "Slots_Get (Filler_Fill NewSlotFiller text) SlotUUID [] = extractUUID text"
  "Slots_Has (Filler_Fill NewSlotFiller text) SlotUUID \<longleftrightarrow> extractUUID text \<noteq> []"
  by (auto simp: Slots_Get_def Slots_Has_def Filler_Fill_def NewSlotFiller_def slot_names Let_def)

lemma intents_distinct [simp]:
  "distinct [IntentRegister, IntentUpgrade, IntentQuery, IntentBatch, IntentConfig, IntentAudit, IntentUnknown]"
  by (simp add: intent_names)

text \<open>A sentence classified as an upgrade, a query or an audit gives a command exactly when it
  contains a UUID of the domain in its form of 36 characters, and then the command begins with the
  flag \<open>--uuid\<close> and such a part of the sentence; otherwise it is refused for the missing slot.\<close>

theorem prompt_uuid_spec:
  assumes "Classify NewKeywordClassifier text = intent" and "intent \<in> {IntentUpgrade, IntentQuery, IntentAudit}"
  shows "\<exists>r err. Pipeline_Process NewPipeline text = (Some r, err) \<and> pt_Intent r = intent
    \<and> (if \<exists>u x v. text = u @ x @ v \<and> uuidPattern x \<and> length x = 36
       then err = None \<and> (\<exists>u x v rest. text = u @ x @ v \<and> uuidPattern x \<and> length x = 36
              \<and> pt_Args r = ''--uuid'' # x # rest)
       else err = Some ErrMissingUUID \<and> pt_Args r = [])"
proof -
  obtain score where c: "Confidence NewKeywordClassifier text = (intent, score)"
    using assms(1) by (cases "Confidence NewKeywordClassifier text") (simp add: Classify_def)
  have i: "intent \<noteq> IntentUnknown" using assms(2) by (auto simp: intent_names)
  let ?s = "Filler_Fill NewSlotFiller text"
  show ?thesis
  proof (cases "extractUUID text = []")
    case True
    have "\<nexists>u x v. text = u @ x @ v \<and> uuidPattern x \<and> length x = 36"
      using extractUUID_none [OF True] by blast
    moreover have "Prompt_Validate intent ?s = Some ErrMissingUUID"
      using assms(2) True by (auto simp: Prompt_Validate_def filled_slot intent_names)
    ultimately show ?thesis
      using c i by (simp add: Pipeline_Process_def NewPipeline_def)
  next
    case False
    note f = extractUUID_found [OF False]
    have v: "Prompt_Validate intent ?s = None"
      using assms(2) False by (auto simp: Prompt_Validate_def filled_slot intent_names)
    have "\<exists>cmd rest. Prompt_Generate intent ?s = Inr (cmd, ''--uuid'' # extractUUID text # rest)"
      using assms(2) False
      by (auto simp: Prompt_Generate_def genUpgrade_def genQuery_def genAudit_def filled_slot intent_names Let_def)
    then obtain cmd rest where g: "Prompt_Generate intent ?s = Inr (cmd, ''--uuid'' # extractUUID text # rest)"
      by blast
    obtain r where "Pipeline_Process NewPipeline text = (Some r, None)" "pt_Intent r = intent"
      "pt_Args r = ''--uuid'' # extractUUID text # rest"
      using c i v g by (simp add: Pipeline_Process_def NewPipeline_def)
    with f show ?thesis by auto
  qed
qed

abbreviation sample_sentence :: string where
  "sample_sentence \<equiv> ''info 019eab1a-b761-7a60-955c-37f926faa109''"

lemma sample_sentence_query: "Classify NewKeywordClassifier sample_sentence = IntentQuery"
  by code_simp

lemma sample_uuid36: "dashed [8, 4, 4, 4, 12] ''019eab1a-b761-7a60-955c-37f926faa109''"
  by (simp add: take_hex_def is_hex_char_def)

theorem prompt_uuid_spec_witness:
  "\<exists>r x rest. Pipeline_Process NewPipeline sample_sentence = (Some r, None)
     \<and> pt_Args r = ''--uuid'' # x # rest \<and> length x = 36"
proof -
  have "\<exists>u x v. sample_sentence = u @ x @ v \<and> uuidPattern x \<and> length x = 36"
    using sample_uuid36 unfolding uuid36_dashed [symmetric]
    by (intro exI [of _ "''info ''"] exI [of _ "''019eab1a-b761-7a60-955c-37f926faa109''"] exI [of _ "[]"]) simp
  with prompt_uuid_spec [OF sample_sentence_query] show ?thesis by auto
qed

section \<open>The validator and the generator\<close>

text \<open>For every intent but the configuration the validator refuses exactly the slots for which the
  generator would fail, with the same error; for the configuration the generator misses the key
  where the validator misses nothing.\<close>

theorem validator_generator_agree:
  "(\<forall>intent \<in> {IntentRegister, IntentUpgrade, IntentQuery, IntentBatch, IntentAudit, IntentUnknown}.
      Prompt_Validate intent s = (case Prompt_Generate intent s of Inl e \<Rightarrow> Some e | Inr cmd \<Rightarrow> None))
   \<and> Prompt_Validate IntentConfig s = None
   \<and> (Prompt_Generate IntentConfig s = Inl ErrMissingConfigKey \<longleftrightarrow> \<not> Slots_Has s SlotConfigKey)"
  by (auto simp: Prompt_Validate_def Prompt_Generate_def genRegister_def genUpgrade_def genQuery_def
      genBatch_def genAudit_def genConfig_def Slots_Has_def Slots_Get_def Let_def intent_names
      split: option.splits)

theorem validator_generator_agree_witness:
  "Prompt_Validate IntentUpgrade Map.empty = Some ErrMissingUUID
   \<and> Prompt_Generate IntentUpgrade Map.empty = Inl ErrMissingUUID"
proof -
  have "Prompt_Generate IntentUpgrade Map.empty = Inl ErrMissingUUID"
    by (simp add: Prompt_Generate_def genUpgrade_def Slots_Get_def intent_names)
  then show ?thesis using validator_generator_agree [of Map.empty] by simp
qed

section \<open>The configuration\<close>

lemma fields_cur: "cur \<noteq> [] \<Longrightarrow> fields_loop cur s \<noteq> []"
proof (induction cur s rule: fields_loop.induct)
  case (1 cur s)
  then show ?case by (subst fields_loop.simps) (auto split: list.split option.split)
qed

lemma fields_nonempty: "c \<in> set s \<Longrightarrow> \<not> blank_byte c \<Longrightarrow> fields_loop cur s \<noteq> []"
proof (induction cur s rule: fields_loop.induct)
  case (1 cur s)
  then obtain d ds where s: "s = d # ds" by (cases s) auto
  show ?case
  proof (cases "find (\<lambda>p. p \<noteq> [] \<and> starts_with p s) space_runes")
    case None
    show ?thesis
    proof (cases "c \<in> set ds")
      case True
      with 1(1) [OF s None] 1(4) s None show ?thesis by (subst fields_loop.simps) simp
    next
      case False
      show ?thesis using s None fields_cur [of "cur @ [d]" ds] by (subst fields_loop.simps) simp
    qed
  next
    case (Some p)
    then have p: "p \<in> set space_runes" "p \<noteq> []" "take (length p) s = p"
      by (auto simp: find_Some_iff starts_with_def in_set_conv_nth)
    have "c \<notin> set p" using 1(4) p(1) by (auto simp: blank_byte_def)
    moreover have "c \<in> set (take (length p) s) \<union> set (drop (length p) s)"
      using 1(3) by (metis append_take_drop_id set_append)
    ultimately have "c \<in> set (drop (length p) s)" using p(3) by auto
    with 1(2) [OF s Some] 1(4) s Some show ?thesis by (subst fields_loop.simps) simp
  qed
qed

lemma fields_parts: "x \<in> set (fields_loop cur s) \<Longrightarrow> x \<noteq> []"
proof (induction cur s rule: fields_loop.induct)
  case (1 cur s)
  then show ?case
    by (subst (asm) (3) fields_loop.simps) (auto split: list.splits option.splits if_splits)
qed

lemma config_key_text: "extractConfigKey text \<noteq> [] \<Longrightarrow> \<exists>c \<in> set text. \<not> blank_byte c"
proof -
  assume "extractConfigKey text \<noteq> []"
  then obtain c m where m: "rfind configKeyRe None text = Some (c, m)"
    by (auto simp: extractConfigKey_def group1_def Submatch_def split: option.splits)
  from rfind_sound [OF this] obtain u v where t: "text = u @ m @ v" and l: "m \<in> rlang configKeyRe" by blast
  have "rlang (lit_any ''config'') \<subseteq> {x. hd x \<in> {CHR ''c'', CHR ''C''} \<and> x \<noteq> []}"
    by (auto simp: lit_any_def any_case_def swap_case_def)
  with l obtain w x where "m = w @ x" "hd w \<in> {CHR ''c'', CHR ''C''}" "w \<noteq> []"
    unfolding configKeyRe_def rseq.simps rlang.simps(3) [of "lit_any ''config''"] by blast
  then obtain d where "d \<in> set text" "d = CHR ''c'' \<or> d = CHR ''C''"
    using t by (cases w) auto
  moreover have "\<not> blank_byte (CHR ''c'')" "\<not> blank_byte (CHR ''C'')"
    by (simp_all add: blank_byte_def space_runes_def)
  ultimately show ?thesis by blast
qed

text \<open>A sentence about the configuration that names a key becomes a change, not a display, unless
  it has the full form of a change whose value is only punctuation: without that form the last
  word of the sentence is taken as the value, whatever it is.\<close>

theorem config_becomes_set:
  assumes "Classify NewKeywordClassifier text = IntentConfig" and "extractConfigKey text \<noteq> []"
    and "Submatch configValRe 1 (trim_space text) = None"
  shows "\<exists>r. Pipeline_Process NewPipeline text = (Some r, None) \<and> pt_Cmd r = ''config''
    \<and> pt_Args r = [''set'', extractConfigKey text, last (go_fields text)]"
proof -
  let ?s = "Filler_Fill NewSlotFiller text"
  obtain c where "c \<in> set text" "\<not> blank_byte c" using config_key_text [OF assms(2)] by blast
  then have ne: "go_fields text \<noteq> []" unfolding go_fields_def by (rule fields_nonempty)
  then have "last (go_fields text) \<noteq> []" using fields_parts last_in_set unfolding go_fields_def by blast
  with ne assms(3) have v: "extractConfigValue text = last (go_fields text)" "extractConfigValue text \<noteq> []"
    by (auto simp: extractConfigValue_def Let_def)
  have k: "?s SlotConfigKey = Some (extractConfigKey text)" "?s SlotConfigVal = Some (last (go_fields text))"
    using assms(2) v by (simp_all add: Filler_Fill_def NewSlotFiller_def slot_names Let_def)
  have "Prompt_Generate IntentConfig ?s = Inr (''config'', [''set'', extractConfigKey text, last (go_fields text)])"
    using assms(2) v k by (simp add: Prompt_Generate_def genConfig_def Slots_Get_def intent_names Let_def)
  moreover have "Prompt_Validate IntentConfig ?s = None" by (simp add: Prompt_Validate_def intent_names)
  moreover obtain score where "Confidence NewKeywordClassifier text = (IntentConfig, score)"
    using assms(1) by (cases "Confidence NewKeywordClassifier text") (simp add: Classify_def)
  moreover have "IntentConfig \<noteq> IntentUnknown" by (simp add: intent_names)
  ultimately show ?thesis by (simp add: Pipeline_Process_def NewPipeline_def)
qed

theorem config_becomes_set_witness:
  "\<exists>r. Pipeline_Process NewPipeline ''config show'' = (Some r, None) \<and> pt_Args r = [''set'', ''show'', ''show'']"
proof -
  have "Classify NewKeywordClassifier ''config show'' = IntentConfig" by code_simp
  moreover have "extractConfigKey ''config show'' = ''show''" by code_simp
  moreover have "Submatch configValRe 1 (trim_space ''config show'') = None" by code_simp
  moreover have "last (go_fields ''config show'') = ''show''" by code_simp
  ultimately show ?thesis using config_becomes_set [of "''config show''"] by auto
qed

end
