(* ===== verification/ChainHttp.thy ===== *)
theory ChainHttp
  imports ChainMock HttpModel
begin

text \<open>
  The chain over HTTP: the server of \<open>src/cmd/mock-chain/main.go\<close>, which offers the operations of a
  chain adapter and some Ethereum calls, and the client of \<open>core/chain_adapter/http/http.go\<close>, which
  is an adapter again. JSON is a record of encoders and decoders, the parsing of a request target
  and the fate of a message on the network are parameters. Logging and the life cycle of the
  server process are left out.
\<close>

section \<open>Messages\<close>

record http_register_req =
  hq_UUID :: string
  hq_Owner :: string
  hq_Level :: u8
  hq_Permission :: u64
  hq_PublicKey :: string
  hq_Metadata :: "(string \<times> string) list"

record http_update_req =
  hu_UUID :: string
  hu_NewLevel :: u8
  hu_Reason :: string

record http_ban_req =
  hb_UUID :: string
  hb_Reason :: string

record http_receipt_resp =
  hp_TxHash :: string
  hp_BlockNumber :: u64
  hp_GasUsed :: u64
  hp_ConfirmedAt :: string

record http_state_resp =
  hs_UUID :: string
  hs_Owner :: string
  hs_Level :: u8
  hs_State :: string
  hs_Permission :: u64
  hs_PublicKey :: string
  hs_TxHash :: string
  hs_UpdatedAt :: string

datatype rpc_result = RpcText string | RpcNoAccounts | RpcError int string

record rpc_request =
  rq_Method :: string
  rq_ID :: string

text \<open>
  Encoders and decoders. The client writes the requests of the interface and reads its receipts
  and states, the server reads and writes the types above; \<open>cj_error_of\<close> gives the empty text for
  a body that is no error.
\<close>

record chain_json =
  cj_register :: "chain_register_request \<Rightarrow> string"
  cj_register_of :: "string \<Rightarrow> go_error + http_register_req"
  cj_update :: "update_level_request \<Rightarrow> string"
  cj_update_of :: "string \<Rightarrow> go_error + http_update_req"
  cj_ban :: "ban_request \<Rightarrow> string"
  cj_ban_of :: "string \<Rightarrow> go_error + http_ban_req"
  cj_receipt :: "http_receipt_resp \<Rightarrow> string"
  cj_receipt_of :: "string \<Rightarrow> go_error + receipt"
  cj_state :: "http_state_resp \<Rightarrow> string"
  cj_state_of :: "string \<Rightarrow> go_error + agent_onchain"
  cj_error :: "string \<Rightarrow> string"
  cj_error_of :: "string \<Rightarrow> string"
  cj_health :: "string \<Rightarrow> string"
  cj_rpc_of :: "string \<Rightarrow> rpc_request option"
  cj_rpc :: "string option \<Rightarrow> rpc_result \<Rightarrow> string"
  cj_text :: "go_error \<Rightarrow> string"

section \<open>The server\<close>

text \<open>A request as a handler sees it; the query is the value of its parameter \<open>uuid\<close>.\<close>

record chain_call =
  hc_Method :: string
  hc_Path :: string
  hc_uuid :: string
  hc_Body :: string

type_synonym reply = "nat \<times> string"

definition chain_error_text :: "chain_json \<Rightarrow> go_error \<Rightarrow> string" where
  "chain_error_text j err =
     (case err of
        ErrChainUnavailable r \<Rightarrow> ''chain_adapter: unavailable: '' @ r
      | ErrAgentNotFoundOnchain u \<Rightarrow> ''chain_adapter: agent not found onchain: '' @ u
      | ErrTxFailed r \<Rightarrow> ''chain_adapter: tx failed: '' @ r
      | _ \<Rightarrow> cj_text j err)"

definition writeJSONErr :: "chain_json \<Rightarrow> nat \<Rightarrow> string \<Rightarrow> reply" where
  "writeJSONErr j st msg = (st, cj_error j msg)"

definition writeChainErr :: "chain_json \<Rightarrow> go_error \<Rightarrow> reply" where
  "writeChainErr j err =
     (case err of
        ErrAgentNotFoundOnchain u \<Rightarrow> writeJSONErr j 404 (chain_error_text j err)
      | ErrChainUnavailable r \<Rightarrow> writeJSONErr j 503 (chain_error_text j err)
      | ErrTxFailed r \<Rightarrow> writeJSONErr j 400 (chain_error_text j err)
      | _ \<Rightarrow> writeJSONErr j 500 (chain_error_text j err))"

definition receiptToResp :: "receipt \<Rightarrow> http_receipt_resp" where
  "receiptToResp r =
     \<lparr> hp_TxHash = rc_TxHash r, hp_BlockNumber = rc_BlockNumber r, hp_GasUsed = rc_GasUsed r,
       hp_ConfirmedAt = format_time (rc_ConfirmedAt r) \<rparr>"

definition agentToResp :: "agent_onchain \<Rightarrow> http_state_resp" where
  "agentToResp a =
     \<lparr> hs_UUID = ao_UUID a, hs_Owner = ao_Owner a, hs_Level = ao_Level a, hs_State = ao_State a,
       hs_Permission = ao_Permission a, hs_PublicKey = ao_PublicKey a, hs_TxHash = ao_TxHash a,
       hs_UpdatedAt = format_time (ao_UpdatedAt a) \<rparr>"

text \<open>The end of every handler that changes the ledger.\<close>

definition answer_receipt :: "chain_json \<Rightarrow> (go_error + receipt) \<times> 'a \<Rightarrow> reply \<times> 'a" where
  "answer_receipt j res =
     (case res of
        (Inl err, a) \<Rightarrow> (writeChainErr j err, a)
      | (Inr rc, a) \<Rightarrow> ((200, cj_receipt j (receiptToResp rc)), a))"

abbreviation not_allowed :: reply where
  "not_allowed \<equiv> (405, ''method not allowed'')"

definition registerHandler ::
  "'a chain_adapter \<Rightarrow> chain_json \<Rightarrow> chain_env \<Rightarrow> chain_call \<Rightarrow> 'a \<Rightarrow> reply \<times> 'a" where
  "registerHandler adp j env c a =
     (if hc_Method c \<noteq> ''POST'' then (not_allowed, a)
      else case cj_register_of j (hc_Body c) of
          Inl err \<Rightarrow> (writeJSONErr j 400 (''invalid body: '' @ cj_text j err), a)
        | Inr q \<Rightarrow>
            answer_receipt j (ca_RegisterAgent adp env
              (Some \<lparr> crr_UUID = hq_UUID q, crr_Owner = hq_Owner q, crr_Level = hq_Level q,
                      crr_Permission = hq_Permission q, crr_PublicKey = hq_PublicKey q,
                      crr_Metadata = hq_Metadata q \<rparr>) a))"

definition updateLevelHandler ::
  "'a chain_adapter \<Rightarrow> chain_json \<Rightarrow> chain_env \<Rightarrow> chain_call \<Rightarrow> 'a \<Rightarrow> reply \<times> 'a" where
  "updateLevelHandler adp j env c a =
     (if hc_Method c \<noteq> ''POST'' then (not_allowed, a)
      else case cj_update_of j (hc_Body c) of
          Inl err \<Rightarrow> (writeJSONErr j 400 (''invalid body: '' @ cj_text j err), a)
        | Inr q \<Rightarrow>
            answer_receipt j (ca_UpdateLevel adp env
              (Some \<lparr> ulr_UUID = hu_UUID q, ulr_NewLevel = hu_NewLevel q, ulr_Reason = hu_Reason q \<rparr>) a))"

definition banHandler ::
  "'a chain_adapter \<Rightarrow> chain_json \<Rightarrow> chain_env \<Rightarrow> chain_call \<Rightarrow> 'a \<Rightarrow> reply \<times> 'a" where
  "banHandler adp j env c a =
     (if hc_Method c \<noteq> ''POST'' then (not_allowed, a)
      else case cj_ban_of j (hc_Body c) of
          Inl err \<Rightarrow> (writeJSONErr j 400 (''invalid body: '' @ cj_text j err), a)
        | Inr q \<Rightarrow>
            answer_receipt j (ca_BanAgent adp env
              (Some \<lparr> br_UUID = hb_UUID q, br_Reason = hb_Reason q \<rparr>) a))"

text \<open>The UUID of an unban or a revocation, from the query or from the body.\<close>

definition call_uuid :: "chain_json \<Rightarrow> chain_call \<Rightarrow> string" where
  "call_uuid j c =
     (if hc_uuid c = []
      then (case cj_ban_of j (hc_Body c) of Inl err \<Rightarrow> [] | Inr body \<Rightarrow> hb_UUID body)
      else hc_uuid c)"

definition unbanHandler ::
  "'a chain_adapter \<Rightarrow> chain_json \<Rightarrow> chain_env \<Rightarrow> chain_call \<Rightarrow> 'a \<Rightarrow> reply \<times> 'a" where
  "unbanHandler adp j env c a =
     (if hc_Method c \<noteq> ''POST'' then (not_allowed, a)
      else if call_uuid j c = [] then (writeJSONErr j 400 ''uuid required'', a)
      else answer_receipt j (ca_UnbanAgent adp env (call_uuid j c) a))"

definition revokeHandler ::
  "'a chain_adapter \<Rightarrow> chain_json \<Rightarrow> chain_env \<Rightarrow> chain_call \<Rightarrow> 'a \<Rightarrow> reply \<times> 'a" where
  "revokeHandler adp j env c a =
     (if hc_Method c \<noteq> ''POST'' then (not_allowed, a)
      else if call_uuid j c = [] then (writeJSONErr j 400 ''uuid required'', a)
      else answer_receipt j (ca_RevokeAgent adp env (call_uuid j c) a))"

definition getStateHandler ::
  "'a chain_adapter \<Rightarrow> chain_json \<Rightarrow> chain_call \<Rightarrow> 'a \<Rightarrow> reply" where
  "getStateHandler adp j c a =
     (if hc_Method c \<noteq> ''GET'' then not_allowed
      else if hc_uuid c = [] then writeJSONErr j 400 ''uuid required''
      else case ca_GetAgentState adp (hc_uuid c) a of
          Inl err \<Rightarrow> writeChainErr j err
        | Inr agent \<Rightarrow> (200, cj_state j (agentToResp agent)))"

definition healthzHandler :: "'a chain_adapter \<Rightarrow> chain_json \<Rightarrow> go_error option \<Rightarrow> 'a \<Rightarrow> reply" where
  "healthzHandler adp j ctx_done a =
     (case ca_HealthCheck adp ctx_done a of
        Some err \<Rightarrow> writeJSONErr j 503 (chain_error_text j err)
      | None \<Rightarrow> (200, cj_health j (ca_ChainType adp)))"

text \<open>The Ethereum calls; \<open>%x\<close> prints without leading zeros.\<close>

fun hex_of_nat :: "nat \<Rightarrow> string" where
  "hex_of_nat n = (if n < 16 then [digit_char n] else hex_of_nat (n div 16) @ [digit_char (n mod 16)])"

declare hex_of_nat.simps [simp del]

definition handleRPCMethod :: "string \<Rightarrow> string \<Rightarrow> mock_adapter \<Rightarrow> rpc_result" where
  "handleRPCMethod version meth m =
     (if meth = ''eth_blockNumber'' then RpcText (''0x'' @ hex_of_nat (unat (ma_blockNo m)))
      else if meth = ''eth_chainId'' then RpcText (''0x'' @ hex_of_nat (unat (ma_chainID m)))
      else if meth = ''net_version'' then RpcText (dec_of_nat (unat (ma_chainID m)))
      else if meth = ''eth_accounts'' then RpcNoAccounts
      else if meth = ''web3_clientVersion''
        then RpcText (''mock-chain/'' @ (if version = [] then ''dev'' else version))
      else RpcError (- 32601) (''method not implemented: '' @ meth))"

definition jsonRPCHandler :: "chain_json \<Rightarrow> string \<Rightarrow> chain_call \<Rightarrow> mock_adapter \<Rightarrow> reply" where
  "jsonRPCHandler j version c m =
     (if hc_Method c \<noteq> ''POST'' then not_allowed
      else case cj_rpc_of j (hc_Body c) of
          None \<Rightarrow> (200, cj_rpc j None (RpcError (- 32700) ''parse error''))
        | Some q \<Rightarrow> (200, cj_rpc j (Some (rq_ID q)) (handleRPCMethod version (rq_Method q) m)))"

text \<open>The routes that \<open>main\<close> sets up over a mock adapter.\<close>

definition mock_chain ::
  "chain_json \<Rightarrow> string \<Rightarrow> chain_env \<Rightarrow> chain_call \<Rightarrow> mock_adapter \<Rightarrow> reply \<times> mock_adapter" where
  "mock_chain j version env c m =
     (let p = hc_Path c in
      if p = ''/healthz'' \<or> p = ''/readyz'' then (healthzHandler mock_ops j None m, m)
      else if p = ''/api/v1/agents/register'' then registerHandler mock_ops j env c m
      else if p = ''/api/v1/agents/update-level'' then updateLevelHandler mock_ops j env c m
      else if p = ''/api/v1/agents/ban'' then banHandler mock_ops j env c m
      else if p = ''/api/v1/agents/unban'' then unbanHandler mock_ops j env c m
      else if p = ''/api/v1/agents/revoke'' then revokeHandler mock_ops j env c m
      else if p = ''/api/v1/agents/state'' then (getStateHandler mock_ops j c m, m)
      else (jsonRPCHandler j version c m, m))"

section \<open>The client\<close>

text \<open>
  What happens to a call on its way: it arrives with its whole answer; it is not sent; the answer
  is lost after the server has worked; the body of the answer is cut.
\<close>

datatype delivery = Delivered | NotSent string | AnswerLost string | AnswerCut nat

text \<open>
  The client: how its HTTP library reads a target, as the path and the value of the parameter
  \<open>uuid\<close> or an error, and the server that it reaches, whose state is of type \<open>'a\<close>.
\<close>

record 'a http_adapter =
  ha_target :: "string \<Rightarrow> string + string \<times> string"
  ha_server :: "chain_env \<Rightarrow> chain_call \<Rightarrow> 'a \<Rightarrow> reply \<times> 'a"

definition http_extractUUID :: "string \<Rightarrow> string" where
  "http_extractUUID path =
     (case str_index ''?uuid='' path of None \<Rightarrow> [] | Some i \<Rightarrow> drop (i + 6) path)"

definition status_error :: "chain_json \<Rightarrow> string \<Rightarrow> nat \<Rightarrow> string \<Rightarrow> go_error" where
  "status_error j path st body =
     (let msg = (if cj_error_of j body = [] then body else cj_error_of j body)
      in if st = 404 then ErrAgentNotFoundOnchain (http_extractUUID path)
         else if st = 503 then ErrChainUnavailable msg
         else ErrTxFailed msg)"

text \<open>The body of a successful answer, or an error; encoding a request cannot fail.\<close>

definition http_do ::
  "'a http_adapter \<Rightarrow> chain_json \<Rightarrow> delivery \<Rightarrow> chain_env \<Rightarrow> string \<Rightarrow> string \<Rightarrow> string \<Rightarrow> 'a \<Rightarrow>
   (go_error + string) \<times> 'a" where
  "http_do h j net env meth target body a =
     (case ha_target h target of
        Inl err \<Rightarrow> (Inl (ErrChainUnavailable (''new request: '' @ err)), a)
      | Inr (path, uuid) \<Rightarrow>
          (let call = \<lparr> hc_Method = meth, hc_Path = path, hc_uuid = uuid, hc_Body = body \<rparr>;
               ((st, resp), a') = ha_server h env call a;
               read = (\<lambda>b. if st = 200 then Inr b else Inl (status_error j target st b))
           in case net of
                Delivered \<Rightarrow> (read resp, a')
              | AnswerCut n \<Rightarrow> (read (take n resp), a')
              | NotSent err \<Rightarrow> (Inl (ErrChainUnavailable (''do request: '' @ err)), a)
              | AnswerLost err \<Rightarrow> (Inl (ErrChainUnavailable (''do request: '' @ err)), a')))"

definition read_answer :: "chain_json \<Rightarrow> (string \<Rightarrow> go_error + 'r) \<Rightarrow> go_error + string \<Rightarrow> go_error + 'r" where
  "read_answer j decode res =
     (case res of
        Inl err \<Rightarrow> Inl err
      | Inr body \<Rightarrow>
          (case decode body of Inl err \<Rightarrow> Inl (ErrTxFailed (''decode: '' @ cj_text j err)) | Inr r \<Rightarrow> Inr r))"

definition Http_RegisterAgent ::
  "'a http_adapter \<Rightarrow> chain_json \<Rightarrow> delivery \<Rightarrow> chain_env \<Rightarrow> chain_register_request \<Rightarrow> 'a \<Rightarrow>
   (go_error + receipt) \<times> 'a" where
  "Http_RegisterAgent h j net env q a =
     map_prod (read_answer j (cj_receipt_of j)) id
       (http_do h j net env ''POST'' ''/api/v1/agents/register'' (cj_register j q) a)"

definition Http_UpdateLevel ::
  "'a http_adapter \<Rightarrow> chain_json \<Rightarrow> delivery \<Rightarrow> chain_env \<Rightarrow> update_level_request \<Rightarrow> 'a \<Rightarrow>
   (go_error + receipt) \<times> 'a" where
  "Http_UpdateLevel h j net env q a =
     map_prod (read_answer j (cj_receipt_of j)) id
       (http_do h j net env ''POST'' ''/api/v1/agents/update-level'' (cj_update j q) a)"

definition Http_BanAgent ::
  "'a http_adapter \<Rightarrow> chain_json \<Rightarrow> delivery \<Rightarrow> chain_env \<Rightarrow> ban_request \<Rightarrow> 'a \<Rightarrow>
   (go_error + receipt) \<times> 'a" where
  "Http_BanAgent h j net env q a =
     map_prod (read_answer j (cj_receipt_of j)) id
       (http_do h j net env ''POST'' ''/api/v1/agents/ban'' (cj_ban j q) a)"

definition Http_UnbanAgent ::
  "'a http_adapter \<Rightarrow> chain_json \<Rightarrow> delivery \<Rightarrow> chain_env \<Rightarrow> string \<Rightarrow> 'a \<Rightarrow> (go_error + receipt) \<times> 'a" where
  "Http_UnbanAgent h j net env u a =
     map_prod (read_answer j (cj_receipt_of j)) id
       (http_do h j net env ''POST'' (''/api/v1/agents/unban?uuid='' @ u) [] a)"

definition Http_RevokeAgent ::
  "'a http_adapter \<Rightarrow> chain_json \<Rightarrow> delivery \<Rightarrow> chain_env \<Rightarrow> string \<Rightarrow> 'a \<Rightarrow> (go_error + receipt) \<times> 'a" where
  "Http_RevokeAgent h j net env u a =
     map_prod (read_answer j (cj_receipt_of j)) id
       (http_do h j net env ''POST'' (''/api/v1/agents/revoke?uuid='' @ u) [] a)"

definition Http_GetAgentState ::
  "'a http_adapter \<Rightarrow> chain_json \<Rightarrow> delivery \<Rightarrow> chain_env \<Rightarrow> string \<Rightarrow> 'a \<Rightarrow> (go_error + agent_onchain) \<times> 'a" where
  "Http_GetAgentState h j net env u a =
     map_prod (read_answer j (cj_state_of j)) id
       (http_do h j net env ''GET'' (''/api/v1/agents/state?uuid='' @ u) [] a)"

definition Http_HealthCheck ::
  "'a http_adapter \<Rightarrow> chain_json \<Rightarrow> delivery \<Rightarrow> chain_env \<Rightarrow> 'a \<Rightarrow> go_error option \<times> 'a" where
  "Http_HealthCheck h j net env a =
     (case http_do h j net env ''GET'' ''/healthz'' [] a of
        (Inl err, a') \<Rightarrow> (Some err, a') | (Inr body, a') \<Rightarrow> (None, a'))"

definition Http_ChainType :: string where
  "Http_ChainType = ChainTypeMock"

end
