(* ===== verification/ChainHttpRules.thy ===== *)
theory ChainHttpRules
  imports ChainHttp
begin

text \<open>
  The chain client and the chain server together: over a network that delivers, a call of the client
  has the result and the effect of the call on the mock adapter, up to the texts of errors; an answer
  that is lost leaves a change that the client reports as a failure.
\<close>

section \<open>A delivered call\<close>

text \<open>What becomes of an error on its way: its text is nested, and an unknown agent is named by the target.\<close>

definition over_http :: "chain_json \<Rightarrow> string \<Rightarrow> go_error \<Rightarrow> go_error" where
  "over_http j u err =
     (case err of
        ErrAgentNotFoundOnchain v \<Rightarrow> ErrAgentNotFoundOnchain u
      | ErrChainUnavailable r \<Rightarrow> ErrChainUnavailable (chain_error_text j err)
      | _ \<Rightarrow> ErrTxFailed (chain_error_text j err))"

text \<open>JSON carries this answer: the error text, not empty, or the receipt with its time.\<close>

definition error_carried :: "chain_json \<Rightarrow> go_error \<Rightarrow> bool" where
  "error_carried j err \<longleftrightarrow> chain_error_text j err \<noteq> []
     \<and> cj_error_of j (cj_error j (chain_error_text j err)) = chain_error_text j err"

definition carried :: "chain_json \<Rightarrow> go_error + receipt \<Rightarrow> bool" where
  "carried j res \<longleftrightarrow>
     (case res of
        Inl err \<Rightarrow> error_carried j err
      | Inr rc \<Rightarrow> cj_receipt_of j (cj_receipt j (receiptToResp rc)) = Inr rc)"

definition state_carried :: "chain_json \<Rightarrow> go_error + agent_onchain \<Rightarrow> bool" where
  "state_carried j res \<longleftrightarrow>
     (case res of
        Inl err \<Rightarrow> error_carried j err
      | Inr a \<Rightarrow> cj_state_of j (cj_state j (agentToResp a)) = Inr a)"

lemma writeChainErr_status:
  assumes "writeChainErr j err = (st, body)" and "error_carried j err"
  shows "st \<noteq> 200 \<and> status_error j target st body = over_http j (http_extractUUID target) err"
  using assms
  by (cases err) (auto simp: writeChainErr_def writeJSONErr_def status_error_def over_http_def error_carried_def)

lemma delivered_receipt:
  assumes "ha_target h target = Inr (path, u)"
    and "ha_server h env \<lparr> hc_Method = meth, hc_Path = path, hc_uuid = u, hc_Body = body \<rparr> a = answer_receipt j res"
    and "carried j (fst res)"
  shows "map_prod (read_answer j (cj_receipt_of j)) id (http_do h j Delivered env meth target body a)
    = map_prod (map_sum (over_http j (http_extractUUID target)) id) id res"
proof (cases res)
  case (Pair r a')
  show ?thesis
  proof (cases r)
    case (Inl err)
    obtain st b where w: "writeChainErr j err = (st, b)" by fastforce
    from writeChainErr_status [OF w] assms Pair Inl w show ?thesis
      by (simp add: http_do_def answer_receipt_def carried_def read_answer_def)
  next
    case (Inr rc)
    with assms Pair show ?thesis
      by (simp add: http_do_def answer_receipt_def carried_def read_answer_def)
  qed
qed

abbreviation register_path :: string where "register_path \<equiv> ''/api/v1/agents/register''"
abbreviation update_path :: string where "update_path \<equiv> ''/api/v1/agents/update-level''"
abbreviation ban_path :: string where "ban_path \<equiv> ''/api/v1/agents/ban''"
abbreviation unban_path :: string where "unban_path \<equiv> ''/api/v1/agents/unban''"
abbreviation revoke_path :: string where "revoke_path \<equiv> ''/api/v1/agents/revoke''"
abbreviation state_path :: string where "state_path \<equiv> ''/api/v1/agents/state''"

text \<open>The server rebuilds the requests that the client sent.\<close>

lemma rebuilt [simp]:
  "\<lparr> crr_UUID = crr_UUID q, crr_Owner = crr_Owner q, crr_Level = crr_Level q,
     crr_Permission = crr_Permission q, crr_PublicKey = crr_PublicKey q, crr_Metadata = crr_Metadata q \<rparr> = q"
  "\<lparr> ulr_UUID = ulr_UUID uq, ulr_NewLevel = ulr_NewLevel uq, ulr_Reason = ulr_Reason uq \<rparr> = uq"
  "\<lparr> br_UUID = br_UUID bq, br_Reason = br_Reason bq \<rparr> = bq"
  by simp_all

text \<open>A UUID in the target comes back from it.\<close>

lemma extract_target:
  "http_extractUUID (unban_path @ ''?uuid='' @ u) = u" "http_extractUUID (revoke_path @ ''?uuid='' @ u) = u"
  "http_extractUUID (state_path @ ''?uuid='' @ u) = u"
  "http_extractUUID register_path = []" "http_extractUUID update_path = []" "http_extractUUID ban_path = []"
  by (simp_all add: http_extractUUID_def starts_with_def)

text \<open>The library reads the targets of the client: those without a query, and those whose UUID it
  takes as it is.\<close>

definition reads_targets :: "'a http_adapter \<Rightarrow> string \<Rightarrow> bool" where
  "reads_targets h u \<longleftrightarrow>
     (\<forall>p \<in> {register_path, update_path, ban_path}. ha_target h p = Inr (p, []))
   \<and> (\<forall>p \<in> {unban_path, revoke_path, state_path}. ha_target h (p @ ''?uuid='' @ u) = Inr (p, u))"

text \<open>A sample call.\<close>

definition sample_registration :: chain_register_request where
  "sample_registration =
     \<lparr> crr_UUID = ''u1'', crr_Owner = ''o1'', crr_Level = 1, crr_Permission = 3, crr_PublicKey = ''k'',
       crr_Metadata = [] \<rparr>"

definition sample_receipt :: receipt where
  "sample_receipt =
     \<lparr> rc_TxHash = ''0x'', rc_BlockNumber = 2, rc_GasUsed = 21000, rc_ConfirmedAt = Time 5 \<rparr>"

abbreviation chain_env_5 :: chain_env where "chain_env_5 \<equiv> \<lparr> ce_now = Time 5, ce_rand = [] \<rparr>"

text \<open>Encoders that carry the messages of the sample calls.\<close>

definition sample_json :: chain_json where
  "sample_json =
     \<lparr> cj_register = (\<lambda>q. crr_UUID q),
       cj_register_of = (\<lambda>b. Inr \<lparr> hq_UUID = b, hq_Owner = ''o1'', hq_Level = 1, hq_Permission = 3,
                                  hq_PublicKey = ''k'', hq_Metadata = [] \<rparr>),
       cj_update = (\<lambda>q. ulr_UUID q),
       cj_update_of = (\<lambda>b. Inr \<lparr> hu_UUID = b, hu_NewLevel = 2, hu_Reason = [] \<rparr>),
       cj_ban = (\<lambda>q. br_UUID q), cj_ban_of = (\<lambda>b. Inr \<lparr> hb_UUID = b, hb_Reason = [] \<rparr>),
       cj_receipt = hp_TxHash,
       cj_receipt_of = (\<lambda>b. Inr \<lparr> rc_TxHash = b, rc_BlockNumber = 2, rc_GasUsed = 21000, rc_ConfirmedAt = Time 5 \<rparr>),
       cj_state = hs_UUID, cj_state_of = (\<lambda>b. Inl (Sentinel ''unexpected body'')),
       cj_error = id, cj_error_of = id, cj_health = id, cj_rpc_of = (\<lambda>b. None), cj_rpc = (\<lambda>i r. []),
       cj_text = (\<lambda>e. ''failed'') \<rparr>"

definition sample_http :: "mock_adapter http_adapter" where
  "sample_http =
     \<lparr> ha_target = (\<lambda>t. Inr (takeWhile (\<lambda>c. c \<noteq> CHR ''?'') t, http_extractUUID t)),
       ha_server = mock_chain sample_json [] \<rparr>"

lemma sample_register:
  "Mock_RegisterAgent chain_env_5 (Some sample_registration) NewMockAdapter
     = (Inr sample_receipt, snd (Mock_RegisterAgent chain_env_5 (Some sample_registration) NewMockAdapter))"
  by (simp add: Mock_RegisterAgent_def preflight_def NewMockAdapter_def sample_registration_def Let_def
      sample_receipt_def nextTxHashLocked_def)

lemma sample_json_register:
  "cj_register_of sample_json (cj_register sample_json sample_registration) = Inr \<lparr> hq_UUID = crr_UUID sample_registration,
     hq_Owner = crr_Owner sample_registration, hq_Level = crr_Level sample_registration,
     hq_Permission = crr_Permission sample_registration, hq_PublicKey = crr_PublicKey sample_registration,
     hq_Metadata = crr_Metadata sample_registration \<rparr>"
  by (simp add: sample_json_def sample_registration_def)

lemma sample_targets: "reads_targets sample_http ''u1''"
  by (simp add: reads_targets_def sample_http_def http_extractUUID_def starts_with_def)

text \<open>C13: Over a network that delivers, the HTTP client in front of the mock-chain server is the mock
  adapter: each call has the same effect on the ledger and the same receipt or state, and an error
  of the same kind with its text nested, as long as JSON carries the messages of this call; an
  unknown agent of an update or a ban comes back without its name.\<close>

theorem http_adapter_faithful:
  assumes "ha_server h = mock_chain j version" and "reads_targets h u" and "u \<noteq> []"
  shows "(cj_register_of j (cj_register j q) = Inr \<lparr> hq_UUID = crr_UUID q, hq_Owner = crr_Owner q,
             hq_Level = crr_Level q, hq_Permission = crr_Permission q, hq_PublicKey = crr_PublicKey q,
             hq_Metadata = crr_Metadata q \<rparr>
           \<and> carried j (fst (Mock_RegisterAgent env (Some q) m)) \<longrightarrow>
         Http_RegisterAgent h j Delivered env q m
           = map_prod (map_sum (over_http j []) id) id (Mock_RegisterAgent env (Some q) m))
   \<and> (cj_update_of j (cj_update j uq) = Inr \<lparr> hu_UUID = ulr_UUID uq, hu_NewLevel = ulr_NewLevel uq,
             hu_Reason = ulr_Reason uq \<rparr>
           \<and> carried j (fst (Mock_UpdateLevel env (Some uq) m)) \<longrightarrow>
         Http_UpdateLevel h j Delivered env uq m
           = map_prod (map_sum (over_http j []) id) id (Mock_UpdateLevel env (Some uq) m))
   \<and> (cj_ban_of j (cj_ban j bq) = Inr \<lparr> hb_UUID = br_UUID bq, hb_Reason = br_Reason bq \<rparr>
           \<and> carried j (fst (Mock_BanAgent env (Some bq) m)) \<longrightarrow>
         Http_BanAgent h j Delivered env bq m
           = map_prod (map_sum (over_http j []) id) id (Mock_BanAgent env (Some bq) m))
   \<and> (carried j (fst (Mock_UnbanAgent env u m)) \<longrightarrow>
         Http_UnbanAgent h j Delivered env u m
           = map_prod (map_sum (over_http j u) id) id (Mock_UnbanAgent env u m))
   \<and> (carried j (fst (Mock_RevokeAgent env u m)) \<longrightarrow>
         Http_RevokeAgent h j Delivered env u m
           = map_prod (map_sum (over_http j u) id) id (Mock_RevokeAgent env u m))
   \<and> (state_carried j (Mock_GetAgentState u m) \<longrightarrow>
         Http_GetAgentState h j Delivered env u m
           = (map_sum (over_http j u) id (Mock_GetAgentState u m), m))"
proof -
  note t = assms(2) [unfolded reads_targets_def, simplified]
  have 1: "Http_RegisterAgent h j Delivered env q m
      = map_prod (map_sum (over_http j []) id) id (Mock_RegisterAgent env (Some q) m)"
    if "cj_register_of j (cj_register j q) = Inr \<lparr> hq_UUID = crr_UUID q, hq_Owner = crr_Owner q,
             hq_Level = crr_Level q, hq_Permission = crr_Permission q, hq_PublicKey = crr_PublicKey q,
             hq_Metadata = crr_Metadata q \<rparr>" "carried j (fst (Mock_RegisterAgent env (Some q) m))"
    using delivered_receipt [of h register_path register_path "[]" env "''POST''" "cj_register j q" m j "Mock_RegisterAgent env (Some q) m"]
      that t assms(1) extract_target(4)
    by (simp add: Http_RegisterAgent_def mock_chain_def registerHandler_def mock_ops_def)
  have 2: "Http_UpdateLevel h j Delivered env uq m
      = map_prod (map_sum (over_http j []) id) id (Mock_UpdateLevel env (Some uq) m)"
    if "cj_update_of j (cj_update j uq) = Inr \<lparr> hu_UUID = ulr_UUID uq, hu_NewLevel = ulr_NewLevel uq,
             hu_Reason = ulr_Reason uq \<rparr>" "carried j (fst (Mock_UpdateLevel env (Some uq) m))"
    using delivered_receipt [of h update_path update_path "[]" env "''POST''" "cj_update j uq" m j "Mock_UpdateLevel env (Some uq) m"]
      that t assms(1) extract_target(5)
    by (simp add: Http_UpdateLevel_def mock_chain_def updateLevelHandler_def mock_ops_def)
  have 3: "Http_BanAgent h j Delivered env bq m
      = map_prod (map_sum (over_http j []) id) id (Mock_BanAgent env (Some bq) m)"
    if "cj_ban_of j (cj_ban j bq) = Inr \<lparr> hb_UUID = br_UUID bq, hb_Reason = br_Reason bq \<rparr>"
      "carried j (fst (Mock_BanAgent env (Some bq) m))"
    using delivered_receipt [of h ban_path ban_path "[]" env "''POST''" "cj_ban j bq" m j "Mock_BanAgent env (Some bq) m"]
      that t assms(1) extract_target(6)
    by (simp add: Http_BanAgent_def mock_chain_def banHandler_def mock_ops_def)
  have 4: "Http_UnbanAgent h j Delivered env u m
      = map_prod (map_sum (over_http j u) id) id (Mock_UnbanAgent env u m)"
    if "carried j (fst (Mock_UnbanAgent env u m))"
    using delivered_receipt [of h "unban_path @ ''?uuid='' @ u" unban_path u env "''POST''" "[]" m j
        "Mock_UnbanAgent env u m"] that t assms(1,3) extract_target(1) [of u]
    by (simp add: Http_UnbanAgent_def mock_chain_def unbanHandler_def call_uuid_def mock_ops_def)
  have 5: "Http_RevokeAgent h j Delivered env u m
      = map_prod (map_sum (over_http j u) id) id (Mock_RevokeAgent env u m)"
    if "carried j (fst (Mock_RevokeAgent env u m))"
    using delivered_receipt [of h "revoke_path @ ''?uuid='' @ u" revoke_path u env "''POST''" "[]" m j
        "Mock_RevokeAgent env u m"] that t assms(1,3) extract_target(2) [of u]
    by (simp add: Http_RevokeAgent_def mock_chain_def revokeHandler_def call_uuid_def mock_ops_def)
  have 6: "Http_GetAgentState h j Delivered env u m = (map_sum (over_http j u) id (Mock_GetAgentState u m), m)"
    if "state_carried j (Mock_GetAgentState u m)"
  proof (cases "Mock_GetAgentState u m")
    case (Inl err)
    obtain st b where w: "writeChainErr j err = (st, b)" by fastforce
    from writeChainErr_status [OF w, of "state_path @ ''?uuid='' @ u"] w Inl that t assms(1,3) extract_target(3) [of u]
    show ?thesis
      by (simp add: Http_GetAgentState_def http_do_def mock_chain_def getStateHandler_def mock_ops_def
          state_carried_def read_answer_def)
  next
    case (Inr a)
    with that t assms(1,3) show ?thesis
      by (simp add: Http_GetAgentState_def http_do_def mock_chain_def getStateHandler_def mock_ops_def
          state_carried_def read_answer_def)
  qed
  show ?thesis by (intro conjI impI; (elim conjE)?; rule 1 2 3 4 5 6; assumption)
qed

theorem http_adapter_faithful_witness:
  "Http_RegisterAgent sample_http sample_json Delivered chain_env_5 sample_registration NewMockAdapter
     = (Inr sample_receipt, snd (Mock_RegisterAgent chain_env_5 (Some sample_registration) NewMockAdapter))
   \<and> Http_BanAgent sample_http sample_json Delivered chain_env_5 \<lparr> br_UUID = ''u1'', br_Reason = [] \<rparr> NewMockAdapter
     = (Inl (ErrAgentNotFoundOnchain []), NewMockAdapter)
   \<and> Http_GetAgentState sample_http sample_json Delivered chain_env_5 ''u1'' NewMockAdapter
     = (Inl (ErrAgentNotFoundOnchain ''u1''), NewMockAdapter)"
proof -
  have ban: "Mock_BanAgent chain_env_5 (Some \<lparr> br_UUID = ''u1'', br_Reason = [] \<rparr>) NewMockAdapter
      = (Inl (ErrAgentNotFoundOnchain ''u1''), NewMockAdapter)"
    "Mock_GetAgentState ''u1'' NewMockAdapter = Inl (ErrAgentNotFoundOnchain ''u1'')"
    by (simp_all add: Mock_BanAgent_def Mock_GetAgentState_def preflight_def NewMockAdapter_def)
  have carry: "error_carried sample_json (ErrAgentNotFoundOnchain ''u1'')"
    "carried sample_json (Inr sample_receipt)"
    by (simp_all add: error_carried_def carried_def chain_error_text_def sample_json_def receiptToResp_def sample_receipt_def)
  have "ha_server sample_http = mock_chain sample_json []" by (simp add: sample_http_def)
  note f = http_adapter_faithful [OF this sample_targets, where env = chain_env_5 and q = sample_registration
      and m = NewMockAdapter and bq = "\<lparr> br_UUID = ''u1'', br_Reason = [] \<rparr>"]
  have c: "carried sample_json (fst (Mock_RegisterAgent chain_env_5 (Some sample_registration) NewMockAdapter))"
    by (subst sample_register) (simp add: carry)
  have b: "cj_ban_of sample_json (cj_ban sample_json \<lparr> br_UUID = ''u1'', br_Reason = [] \<rparr>)
      = Inr \<lparr> hb_UUID = ''u1'', hb_Reason = [] \<rparr>"
    by (simp add: sample_json_def)
  from f [THEN conjunct1] sample_json_register c sample_register
  have "Http_RegisterAgent sample_http sample_json Delivered chain_env_5 sample_registration NewMockAdapter
     = (Inr sample_receipt, snd (Mock_RegisterAgent chain_env_5 (Some sample_registration) NewMockAdapter))"
    by (metis (no_types, lifting) list.distinct(1) map_prod_simp map_sum.simps(2) id_apply)
  with f carry ban b show ?thesis
    by (simp add: carried_def state_carried_def over_http_def)
qed

section \<open>A lost answer\<close>

text \<open>If the answer to a successful registration is lost, the client reports an unavailable chain
  while the ledger holds the agent; a retry is refused because the agent exists, so that no call
  ever reports the registration.\<close>

theorem http_lost_answer:
  assumes "ha_server h = mock_chain j version" and "ha_target h register_path = Inr (register_path, [])"
    and "cj_register_of j (cj_register j q) = Inr \<lparr> hq_UUID = crr_UUID q, hq_Owner = crr_Owner q,
             hq_Level = crr_Level q, hq_Permission = crr_Permission q, hq_PublicKey = crr_PublicKey q,
             hq_Metadata = crr_Metadata q \<rparr>"
    and "Mock_RegisterAgent env (Some q) m = (Inr rc, m')"
    and "error_carried j (ErrTxFailed ''uuid already exists onchain'')"
  shows "Http_RegisterAgent h j (AnswerLost fault) env q m
           = (Inl (ErrChainUnavailable (''do request: '' @ fault)), m')
    \<and> map_of (ma_agents m') (crr_UUID q) = Some (registered_onchain env q (rc_TxHash rc))
    \<and> Http_RegisterAgent h j Delivered env' q m'
        = (Inl (ErrTxFailed ''chain_adapter: tx failed: uuid already exists onchain''), m')"
proof -
  from assms(4) have fresh: "preflight ''register'' m = None" "crr_UUID q \<noteq> []" "crr_Owner q \<noteq> []"
    "preflight ''register'' m' = None"
    "map_of (ma_agents m') (crr_UUID q) = Some (registered_onchain env q (rc_TxHash rc))"
    by (auto simp: Mock_RegisterAgent_def Let_def registered_onchain_def preflight_def update_conv'
        split: option.splits if_splits)
  then have again: "Mock_RegisterAgent env' (Some q) m' = (Inl (ErrTxFailed ''uuid already exists onchain''), m')"
    by (simp add: Mock_RegisterAgent_def)
  with assms(1-3,5) fresh(5) assms(4) show ?thesis
    by (simp add: Http_RegisterAgent_def http_do_def mock_chain_def registerHandler_def mock_ops_def
        answer_receipt_def writeChainErr_def writeJSONErr_def status_error_def read_answer_def error_carried_def
        chain_error_text_def)
qed

theorem http_lost_answer_witness:
  "fst (Http_RegisterAgent sample_http sample_json (AnswerLost ''EOF'') chain_env_5 sample_registration NewMockAdapter)
     = Inl (ErrChainUnavailable ''do request: EOF'')
   \<and> fst (Http_RegisterAgent sample_http sample_json Delivered chain_env_5 sample_registration
       (snd (Http_RegisterAgent sample_http sample_json (AnswerLost ''EOF'') chain_env_5 sample_registration NewMockAdapter)))
     = Inl (ErrTxFailed ''chain_adapter: tx failed: uuid already exists onchain'')"
proof -
  have "ha_server sample_http = mock_chain sample_json []" "ha_target sample_http register_path = Inr (register_path, [])"
    using sample_targets by (simp_all add: sample_http_def reads_targets_def)
  moreover have "error_carried sample_json (ErrTxFailed ''uuid already exists onchain'')"
    by (simp add: error_carried_def chain_error_text_def sample_json_def)
  ultimately show ?thesis
    using http_lost_answer [OF _ _ sample_json_register sample_register, where h = sample_http
      and fault = "''EOF''" and env' = chain_env_5]
    by simp
qed

end
