(* ===== verification/SensitiveLog.thy ===== *)
theory SensitiveLog
  imports GoRegexp HttpModel
begin

text \<open>
  The log handler that masks secrets, \<open>src/internal/telemetry/sensitive_handler.go\<close>: it rewrites
  the attributes of a record, and those bound to the logger, before the handler behind it sees
  them. The handler behind it is a record of functions, compiling an extra pattern a parameter.
\<close>

section \<open>Attributes and records\<close>

text \<open>An attribute of a log record: a text, a group, or a value of another kind.\<close>

datatype 'v log_value = KindString string | KindGroup "(string \<times> 'v log_value) list" | KindOther 'v

type_synonym 'v log_attr = "string \<times> 'v log_value"

record 'v log_record =
  lr_Time :: time
  lr_Level :: int
  lr_Message :: string
  lr_PC :: nat
  lr_Attrs :: "'v log_attr list"

text \<open>\<open>GroupValue\<close> and \<open>AddAttrs\<close> leave out groups without attributes.\<close>

definition empty_group :: "'v log_attr \<Rightarrow> bool" where
  "empty_group a \<longleftrightarrow> snd a = KindGroup []"

definition GroupValue :: "'v log_attr list \<Rightarrow> 'v log_value" where
  "GroupValue as = KindGroup (filter (\<lambda>a. \<not> empty_group a) as)"

definition AddAttrs :: "'v log_attr list \<Rightarrow> 'v log_record \<Rightarrow> 'v log_record" where
  "AddAttrs as r = r \<lparr> lr_Attrs := lr_Attrs r @ filter (\<lambda>a. \<not> empty_group a) as \<rparr>"

text \<open>A handler of type \<open>'i\<close>, which writes to \<open>'w\<close>.\<close>

record ('i, 'v, 'w) log_handler =
  lh_Enabled :: "'i \<Rightarrow> int \<Rightarrow> bool"
  lh_Handle :: "'i \<Rightarrow> 'v log_record \<Rightarrow> 'w \<Rightarrow> go_error option \<times> 'w"
  lh_WithAttrs :: "'i \<Rightarrow> 'v log_attr list \<Rightarrow> 'i"
  lh_WithGroup :: "'i \<Rightarrow> string \<Rightarrow> 'i"

section \<open>The configuration\<close>

record sensitive_config =
  se_ExtraKeys :: "string list option"
  se_ExtraPatterns :: "string list option"
  se_Disabled :: bool
  se_Replacement :: string
  se_PreserveLength :: bool

definition DefaultSensitiveConfig :: sensitive_config where
  "DefaultSensitiveConfig =
     \<lparr> se_ExtraKeys = None, se_ExtraPatterns = None, se_Disabled = False,
       se_Replacement = ''***'', se_PreserveLength = False \<rparr>"

abbreviation "re_alnum \<equiv> re_upper @ re_lower @ re_digits"
abbreviation "re_base64 \<equiv> one_of (re_alnum @ ''+/'')"
abbreviation "re_dashed \<equiv> one_of (re_alnum @ ''_-'')"

definition key_pattern :: regex where
  "key_pattern = rseq [RBoundary, rtimes 86 re_base64, lit ''=='', RBoundary]"

definition jwt_pattern :: regex where
  "jwt_pattern =
     rseq [RBoundary, lit ''eyJ'', many1 re_dashed, lit ''.eyJ'', many1 re_dashed, lit ''.'',
           many1 re_dashed, RBoundary]"

definition dsn_pattern :: regex where
  "dsn_pattern =
     rseq [RGroup 1 (ralt (map lit_any [''postgres'', ''postgresql'', ''mysql'', ''mongodb'', ''redis'', ''amqp''])),
           lit ''://'', many1 (RSet (\<lambda>c. c \<noteq> CHR '':'')), lit '':'', many1 (RSet (\<lambda>c. c \<noteq> CHR ''@'')),
           lit ''@'']"

definition pem_pattern :: regex where
  "pem_pattern =
     rseq [lit ''-----BEGIN '', opt (ralt (map lit [''RSA '', ''EC '', ''DSA '', ''OPENSSH '', ''PGP ''])),
           lit ''PRIVATE KEY'', opt (lit '' BLOCK''), lit ''-----'']"

definition sensitivePatterns :: "regex list" where
  "sensitivePatterns =
     [key_pattern,
      jwt_pattern,
      dsn_pattern,
      rseq [RBoundary, ralt [lit ''AKIA'', lit ''ASIA''], rtimes 16 (one_of (re_upper @ re_digits)), RBoundary],
      rseq [RBoundary, lit ''ghp_'', rtimes 36 (one_of re_alnum), RBoundary],
      rseq [RBoundary, lit ''xox'', one_of ''baprs'', lit ''-'', rtimes 10 (one_of (re_alnum @ ''-'')),
            up_to 62 (one_of (re_alnum @ ''-'')), RBoundary],
      rseq [RBoundary, lit ''sk_live_'', rtimes 24 (one_of re_alnum), RStar (one_of re_alnum), RBoundary],
      pem_pattern]"

definition sensitiveKeyPrefixes :: "string list" where
  "sensitiveKeyPrefixes =
     [''password'', ''passwd'', ''pwd'', ''secret'', ''token'', ''api_key'', ''apikey'', ''access_token'',
      ''refresh_token'', ''auth_token'', ''authorization'', ''cookie'', ''session'', ''private_key'',
      ''domain_secret'', ''hmac'', ''dsn'', ''credential'', ''credentials'']"

definition sensitiveKeyContains :: "string list" where
  "sensitiveKeyContains = [''secret'', ''private'', ''key'', ''token'', ''auth'', ''password'']"

section \<open>The handler\<close>

record 'i sensitive_handler =
  sh_inner :: 'i
  sh_cfg :: sensitive_config
  sh_extraKeys :: "string list"
  sh_extraRegex :: "regex list"
  sh_patterns :: "regex list"

definition NewSensitiveHandler ::
  "(string \<Rightarrow> regex option) \<Rightarrow> 'i \<Rightarrow> 'i option \<Rightarrow> sensitive_config option \<Rightarrow> 'i sensitive_handler" where
  "NewSensitiveHandler compile std inner cfg =
     (let c = (case cfg of
                 None \<Rightarrow> DefaultSensitiveConfig
               | Some cfg \<Rightarrow>
                   DefaultSensitiveConfig
                     \<lparr> se_Replacement := (if se_Replacement cfg \<noteq> [] then se_Replacement cfg
                                          else se_Replacement DefaultSensitiveConfig),
                       se_ExtraKeys := (case se_ExtraKeys cfg of
                          None \<Rightarrow> se_ExtraKeys DefaultSensitiveConfig | Some ks \<Rightarrow> Some ks),
                       se_ExtraPatterns := (case se_ExtraPatterns cfg of
                          None \<Rightarrow> se_ExtraPatterns DefaultSensitiveConfig | Some ps \<Rightarrow> Some ps),
                       se_Disabled := se_Disabled cfg,
                       se_PreserveLength := se_PreserveLength cfg \<rparr>)
      in \<lparr> sh_inner = (case inner of None \<Rightarrow> std | Some i \<Rightarrow> i), sh_cfg = c,
           sh_extraKeys = map to_lower (case se_ExtraKeys c of None \<Rightarrow> [] | Some ks \<Rightarrow> ks),
           sh_extraRegex = List.map_filter compile (case se_ExtraPatterns c of None \<Rightarrow> [] | Some ps \<Rightarrow> ps),
           sh_patterns = sensitivePatterns \<rparr>)"

text \<open>\<open>string(b)\<close> of a byte is the rune with its number, in UTF-8.\<close>

definition byte_string :: "char \<Rightarrow> string" where
  "byte_string c =
     (let n = of_char c :: nat
      in if n < 128 then [c] else [char_of (192 + n div 64), char_of (128 + n mod 64)])"

definition maskMiddle :: "string \<Rightarrow> sensitive_config \<Rightarrow> string" where
  "maskMiddle s cfg =
     (if length s \<le> 4
      then (if se_PreserveLength cfg then replicate (length s) CHR ''*'' else se_Replacement cfg)
      else if se_PreserveLength cfg
      then byte_string (hd s) @ replicate (length s - 2) CHR ''*'' @ byte_string (last s)
      else byte_string (hd s) @ se_Replacement cfg @ byte_string (last s))"

definition isSensitiveKey :: "'i sensitive_handler \<Rightarrow> string \<Rightarrow> bool" where
  "isSensitiveKey h key =
     (let lower = to_lower key
      in lower \<in> set (sh_extraKeys h)
         \<or> list_ex (\<lambda>p. lower = p \<or> starts_with p lower) sensitiveKeyPrefixes
         \<or> list_ex (contains lower) sensitiveKeyContains)"

definition redactString :: "'i sensitive_handler \<Rightarrow> string \<Rightarrow> string" where
  "redactString h s =
     (if s = [] then s
      else fold (\<lambda>re out. ReplaceAllStringFunc re (\<lambda>m. maskMiddle m (sh_cfg h)) out)
             (sh_patterns h @ sh_extraRegex h) s)"

definition redactValue :: "'i sensitive_handler \<Rightarrow> 'v log_attr \<Rightarrow> 'v log_attr" where
  "redactValue h a =
     (case snd a of
        KindString s \<Rightarrow>
          (if se_PreserveLength (sh_cfg h) then (fst a, KindString (maskMiddle s (sh_cfg h)))
           else (fst a, KindString (se_Replacement (sh_cfg h))))
      | _ \<Rightarrow> (fst a, KindString (se_Replacement (sh_cfg h))))"

fun redactAttr :: "'i sensitive_handler \<Rightarrow> 'v log_attr \<Rightarrow> 'v log_attr" where
  "redactAttr h (k, KindGroup as) = (k, GroupValue (map (redactAttr h) as))"
| "redactAttr h (k, KindString s) =
     (if isSensitiveKey h k then redactValue h (k, KindString s) else (k, KindString (redactString h s)))"
| "redactAttr h (k, KindOther v) =
     (if isSensitiveKey h k then redactValue h (k, KindOther v) else (k, KindOther v))"

definition Sensitive_Enabled :: "('i, 'v, 'w) log_handler \<Rightarrow> 'i sensitive_handler \<Rightarrow> int \<Rightarrow> bool" where
  "Sensitive_Enabled ops h level = lh_Enabled ops (sh_inner h) level"

definition Sensitive_Handle ::
  "('i, 'v, 'w) log_handler \<Rightarrow> 'i sensitive_handler \<Rightarrow> 'v log_record \<Rightarrow> 'w \<Rightarrow> go_error option \<times> 'w" where
  "Sensitive_Handle ops h r w =
     (if se_Disabled (sh_cfg h) then lh_Handle ops (sh_inner h) r w
      else lh_Handle ops (sh_inner h)
             (fold (\<lambda>a cloned. AddAttrs [redactAttr h a] cloned) (lr_Attrs r) (r \<lparr> lr_Attrs := [] \<rparr>)) w)"

definition Sensitive_WithAttrs ::
  "('i, 'v, 'w) log_handler \<Rightarrow> 'i sensitive_handler \<Rightarrow> 'v log_attr list \<Rightarrow> 'i sensitive_handler" where
  "Sensitive_WithAttrs ops h attrs =
     h \<lparr> sh_inner := lh_WithAttrs ops (sh_inner h) (map (redactAttr h) attrs) \<rparr>"

definition Sensitive_WithGroup ::
  "('i, 'v, 'w) log_handler \<Rightarrow> 'i sensitive_handler \<Rightarrow> string \<Rightarrow> 'i sensitive_handler" where
  "Sensitive_WithGroup ops h name = h \<lparr> sh_inner := lh_WithGroup ops (sh_inner h) name \<rparr>"

end
