(* ===== verification/Float64.thy ===== *)
theory Float64
  imports AgentPrelude Complex_Main
begin

text \<open>
  What the program uses of \<open>float64\<close>: a positive number is cut to 53 bits, rounding to the nearest and
  ties to even. Numbers too large or too small for the exponent do not occur. The sum, product and
  quotient of numbers are the exact ones, rounded.
\<close>

function bits :: "int \<Rightarrow> nat" where
  "bits n = (if n \<le> 0 then 0 else Suc (bits (n div 2)))"
  by pat_completeness auto
termination
  by (relation "measure nat") auto

declare bits.simps [simp del]

lemma bits_bound: "n < 2 ^ bits n"
proof (induction n rule: bits.induct)
  case (1 n)
  show ?case
  proof (cases "n \<le> 0")
    case True
    then show ?thesis by (simp add: bits.simps)
  next
    case False
    with 1 have "n div 2 < 2 ^ bits (n div 2)" by simp
    then have "n < 2 * 2 ^ bits (n div 2)" by linarith
    with False show ?thesis by (subst bits.simps) simp
  qed
qed

lemma bits_least: "0 < n \<Longrightarrow> 2 ^ bits n \<le> 2 * n"
proof (induction n rule: bits.induct)
  case (1 n)
  show ?case
  proof (cases "n = 1")
    case True
    then show ?thesis by (simp add: bits.simps)
  next
    case False
    with 1(2) have "0 < n div 2" by linarith
    with 1 have "2 ^ bits (n div 2) \<le> 2 * (n div 2)" by simp
    with 1(2) show ?thesis by (subst bits.simps) auto
  qed
qed

text \<open>Multiplication by a power of two.\<close>

definition shift :: "rat \<Rightarrow> int \<Rightarrow> rat" where
  "shift x e = (if 0 \<le> e then x * 2 ^ nat e else x / 2 ^ nat (- e))"

definition round_even :: "rat \<Rightarrow> int" where
  "round_even x =
     (let f = \<lfloor>x\<rfloor>; d = x - of_int f
      in if d < 1 / 2 then f else if d > 1 / 2 then f + 1 else if even f then f else f + 1)"

text \<open>The scale that gives a positive number 53 bits before the point.\<close>

definition f64_scale :: "rat \<Rightarrow> int" where
  "f64_scale x =
     (case quotient_of x of
        (p, q) \<Rightarrow>
          (let e = 52 - (int (bits p) - int (bits q))
           in if shift x e < 2 ^ 52 then e + 1 else e))"

definition f64 :: "rat \<Rightarrow> rat" where
  "f64 x =
     (if x = 0 then 0
      else if 0 < x then shift (of_int (round_even (shift x (f64_scale x)))) (- f64_scale x)
      else - shift (of_int (round_even (shift (- x) (f64_scale (- x))))) (- f64_scale (- x)))"

section \<open>Comparison with whole numbers\<close>

lemma shift_mono: "x \<le> y \<Longrightarrow> shift x e \<le> shift y e"
  by (simp add: shift_def divide_right_mono)

lemma shift_inverse [simp]: "shift (shift x e) (- e) = x"
  by (simp add: shift_def)

lemma shift_double: "shift x (e + 1) = 2 * shift x e"
proof (cases "0 \<le> e")
  case True
  then have "nat (e + 1) = Suc (nat e)" by simp
  with True show ?thesis by (simp add: shift_def)
next
  case False
  then have "nat (- e) = Suc (nat (- (e + 1)))" by simp
  with False show ?thesis by (cases "e = - 1") (auto simp: shift_def)
qed

lemma round_even_ge: "of_int n \<le> x \<Longrightarrow> n \<le> round_even x"
proof -
  assume "of_int n \<le> x"
  then have "n \<le> \<lfloor>x\<rfloor>" by (simp add: le_floor_iff)
  then show ?thesis by (simp add: round_even_def Let_def)
qed

lemma round_even_le: "x \<le> of_int n \<Longrightarrow> round_even x \<le> n"
proof -
  assume a: "x \<le> of_int n"
  show ?thesis
  proof (cases "x = of_int \<lfloor>x\<rfloor>")
    case True
    then have "round_even x = \<lfloor>x\<rfloor>" by (simp add: round_even_def Let_def)
    with a show ?thesis by (simp add: floor_le_iff)
  next
    case False
    then have "of_int \<lfloor>x\<rfloor> < x" using of_int_floor_le [of x] by linarith
    with a have "\<lfloor>x\<rfloor> < n" by linarith
    then show ?thesis by (simp add: round_even_def Let_def)
  qed
qed

lemma f64_scale_ge:
  assumes "0 < x"
  shows "2 ^ 52 \<le> shift x (f64_scale x)"
proof -
  obtain p q where pq: "quotient_of x = (p, q)" by fastforce
  have q: "0 < q" by (rule quotient_of_denom_pos [OF pq])
  have x: "x = of_int p / of_int q" by (rule quotient_of_div [OF pq])
  with assms q have p: "0 < p" by (simp add: zero_less_divide_iff)
  define a where "a = bits p"
  define b where "b = bits q"
  have "(2::int) ^ a \<le> 2 * p" using bits_least [OF p] by (simp add: a_def)
  then have "of_int (2 ^ a) \<le> (of_int (2 * p) :: rat)" by (simp only: of_int_le_iff)
  then have pa: "(2::rat) ^ a \<le> 2 * of_int p" by simp
  have "q \<le> 2 ^ b" using bits_bound [of q] by (simp add: b_def)
  then have "of_int q \<le> (of_int (2 ^ b) :: rat)" by (simp only: of_int_le_iff)
  then have qb: "of_int q \<le> (2::rat) ^ b" by simp
  let ?e = "52 - (int a - int b)"
  have h: "2 ^ 51 \<le> shift x ?e"
  proof (cases "0 \<le> ?e")
    case True
    have "52 + b = nat ?e + a" using True by simp
    then have "(2::rat) ^ 52 * 2 ^ b = 2 ^ nat ?e * 2 ^ a" by (simp only: power_add [symmetric])
    moreover from pa have "2 ^ nat ?e * 2 ^ a \<le> 2 ^ nat ?e * (2 * (of_int p :: rat))"
      by (intro mult_left_mono) auto
    moreover have "2 ^ nat ?e * (2 * (of_int p :: rat)) = 2 * (of_int p * 2 ^ nat ?e)" by simp
    moreover have "(2::rat) ^ 52 * of_int q \<le> 2 ^ 52 * 2 ^ b" using qb by (intro mult_left_mono) auto
    ultimately have "(2::rat) ^ 52 * of_int q \<le> 2 * (of_int p * 2 ^ nat ?e)" by (simp only:)
    then have "(2::rat) ^ 51 * of_int q \<le> of_int p * 2 ^ nat ?e" by simp
    then show ?thesis using True q by (simp add: shift_def x pos_le_divide_eq)
  next
    case False
    have "52 + b + nat (- ?e) = a" using False by simp
    then have "(2::rat) ^ 52 * 2 ^ b * 2 ^ nat (- ?e) = 2 ^ a" by (simp only: power_add [symmetric])
    moreover have "(2::rat) ^ 52 * of_int q * 2 ^ nat (- ?e) \<le> 2 ^ 52 * 2 ^ b * 2 ^ nat (- ?e)"
      using qb by (intro mult_right_mono) auto
    ultimately have "(2::rat) ^ 51 * of_int q * 2 ^ nat (- ?e) \<le> of_int p" using pa by simp
    then show ?thesis using False q by (simp add: shift_def x pos_le_divide_eq mult.commute mult.left_commute)
  qed
  have "f64_scale x = (if shift x ?e < 2 ^ 52 then ?e + 1 else ?e)"
    by (simp add: f64_scale_def pq a_def b_def Let_def)
  with h shift_double [of x ?e] show ?thesis by (auto split: if_splits)
qed

lemma f64_ge_int:
  assumes "0 < n" and "n \<le> 2 ^ 53" and "of_int n \<le> x"
  shows "of_int n \<le> f64 x"
proof -
  have x: "0 < x" using assms(1,3) by (meson of_int_0_less_iff less_le_trans)
  define e where "e = f64_scale x"
  have f: "f64 x = shift (of_int (round_even (shift x e))) (- e)" using x by (simp add: f64_def e_def)
  have big: "2 ^ 52 \<le> shift x e" unfolding e_def by (rule f64_scale_ge [OF x])
  show ?thesis
  proof (cases "0 \<le> e")
    case True
    have "of_int (n * 2 ^ nat e) \<le> shift x e"
      using assms(3) True by (simp add: shift_def)
    then have "n * 2 ^ nat e \<le> round_even (shift x e)" by (rule round_even_ge)
    then have "(of_int (n * 2 ^ nat e) :: rat) \<le> of_int (round_even (shift x e))" by (simp only: of_int_le_iff)
    then have "(of_int n :: rat) * 2 ^ nat e \<le> of_int (round_even (shift x e))" by simp
    with True show ?thesis by (cases "e = 0") (simp_all add: f shift_def pos_le_divide_eq)
  next
    case False
    have "of_int (2 ^ 52) \<le> shift x e" using big by simp
    then have r: "2 ^ 52 \<le> round_even (shift x e)" by (rule round_even_ge)
    then have "(of_int (2 ^ 52) :: rat) \<le> of_int (round_even (shift x e))" by (simp only: of_int_le_iff)
    moreover have "(2::rat) ^ 1 \<le> 2 ^ nat (- e)" using False by (intro power_increasing) auto
    ultimately have "(2::rat) ^ 52 * 2 \<le> of_int (round_even (shift x e)) * 2 ^ nat (- e)"
      by (intro mult_mono) auto
    moreover have "(of_int n :: rat) \<le> of_int (2 ^ 53)" using assms(2) by (simp only: of_int_le_iff)
    ultimately show ?thesis using False by (simp add: f shift_def)
  qed
qed

lemma f64_le_int:
  assumes "0 < x" and "x \<le> of_int n" and "n < 2 ^ 53"
  shows "f64 x \<le> of_int n"
proof -
  define e where "e = f64_scale x"
  have f: "f64 x = shift (of_int (round_even (shift x e))) (- e)" using assms(1) by (simp add: f64_def e_def)
  have big: "2 ^ 52 \<le> shift x e" unfolding e_def by (rule f64_scale_ge [OF assms(1)])
  have e: "0 \<le> e"
  proof (rule ccontr)
    assume "\<not> 0 \<le> e"
    then have "2 ^ 52 * 2 ^ nat (- e) \<le> x" using big by (simp add: shift_def pos_le_divide_eq)
    moreover have "(2::rat) ^ 1 \<le> 2 ^ nat (- e)" using \<open>\<not> 0 \<le> e\<close> by (intro power_increasing) auto
    ultimately have "(2::rat) ^ 53 \<le> x" by simp
    moreover have "(of_int n :: rat) < of_int (2 ^ 53)" using assms(3) by (simp only: of_int_less_iff)
    ultimately show False using assms(2) by simp
  qed
  have "shift x e \<le> of_int (n * 2 ^ nat e)"
    using assms(2) e by (simp add: shift_def)
  then have "round_even (shift x e) \<le> n * 2 ^ nat e" by (rule round_even_le)
  then have "(of_int (round_even (shift x e)) :: rat) \<le> of_int (n * 2 ^ nat e)" by (simp only: of_int_le_iff)
  then have "(of_int (round_even (shift x e)) :: rat) \<le> of_int n * 2 ^ nat e" by simp
  with e show ?thesis by (cases "e = 0") (simp_all add: f shift_def pos_divide_le_eq)
qed

lemma f64_nonneg: "0 \<le> x \<Longrightarrow> 0 \<le> f64 x"
proof -
  assume "0 \<le> x"
  then consider "x = 0" | "0 < x" by fastforce
  then show ?thesis
  proof cases
    case 2
    have "0 \<le> round_even (shift x (f64_scale x))"
      using f64_scale_ge [OF 2] by (intro round_even_ge) (simp add: order_trans [of 0 "2 ^ 52"])
    moreover have "0 \<le> shift y e" if "0 \<le> y" for y e using that by (simp add: shift_def)
    ultimately show ?thesis using 2 by (simp add: f64_def)
  qed (simp add: f64_def)
qed

text \<open>Whole numbers below \<open>2 ^ 53\<close> are exact.\<close>

lemma f64_of_int:
  assumes "0 \<le> n" and "n < 2 ^ 53"
  shows "f64 (of_int n) = of_int n"
proof (cases "n = 0")
  case False
  with assms have "0 < n" by simp
  with f64_ge_int [of n "of_int n"] f64_le_int [of "of_int n" n] assms(2) show ?thesis
    by (intro antisym) auto
qed (simp add: f64_def)

end
