(* ===== verification/SlidingLimit.thy ===== *)
theory SlidingLimit
  imports RateLimit Float64
begin

text \<open>
  The general limiter, \<open>src/internal/authz/ratelimit/limiter.go\<close>: a count for each window in the
  cache, and an estimate of the requests in the last window from the counts of this window and the
  one before, in floating-point numbers. A product and a sum are rounded one after the other, as
  on amd64. The clock of the limiter and of the server of the cache are the same.
\<close>

section \<open>The limiter\<close>

abbreviation ErrRateLimited :: go_error where
  "ErrRateLimited \<equiv> Sentinel ''ratelimit: limit exceeded''"

abbreviation ErrCacheUnavailable :: go_error where
  "ErrCacheUnavailable \<equiv> Sentinel ''ratelimit: cache unavailable''"

abbreviation ErrEmptyKey :: go_error where
  "ErrEmptyKey \<equiv> Sentinel ''ratelimit: empty key''"

record limit_decision =
  ld_Allowed :: bool
  ld_Current :: rat
  ld_Limit :: int
  ld_Remaining :: int
  ld_RetryAfter :: duration

record 'w sliding_config =
  sc_Cache :: "'w kv_cache option"
  sc_Limit :: int
  sc_Window :: duration
  sc_Scope :: string
  sc_KeyPrefix :: string
  sc_FailOpen :: bool

record 'w sliding_limiter =
  sl_Cache :: "'w kv_cache"
  sl_Limit :: int
  sl_Window :: duration
  sl_Scope :: string
  sl_KeyPrefix :: string
  sl_FailOpen :: bool

definition NewSlidingLimiter :: "'w sliding_config \<Rightarrow> go_error + 'w sliding_limiter" where
  "NewSlidingLimiter cfg =
     (case sc_Cache cfg of
        None \<Rightarrow> Inl ErrCacheUnavailable
      | Some c \<Rightarrow>
          Inr \<lparr> sl_Cache = c,
                sl_Limit = (if sc_Limit cfg \<le> 0 then 60 else sc_Limit cfg),
                sl_Window = (if sc_Window cfg \<le> 0 then minute else sc_Window cfg),
                sl_Scope = (if sc_Scope cfg = [] then ''default'' else sc_Scope cfg),
                sl_KeyPrefix = (if sc_KeyPrefix cfg = [] then ''rl:'' else sc_KeyPrefix cfg),
                sl_FailOpen = sc_FailOpen cfg \<rparr>)"

definition go_quot :: "int \<Rightarrow> int \<Rightarrow> int" where
  "go_quot a b = sgn a * sgn b * (\<bar>a\<bar> div \<bar>b\<bar>)"

text \<open>\<open>int64(d.Seconds())\<close> for a duration that is not negative.\<close>

definition whole_seconds :: "duration \<Rightarrow> int" where
  "whole_seconds d = \<lfloor>f64 (f64 (of_int (d div second)) + f64 (of_int (d mod second) / 1000000000))\<rfloor>"

text \<open>\<open>strconv.ParseInt\<close> in base 10 to 64 bits.\<close>

definition ParseInt :: "string \<Rightarrow> int option" where
  "ParseInt s =
     (let neg = starts_with ''-'' s;
          ds = (if neg \<or> starts_with ''+'' s then tl s else s);
          i = (if neg then - int (dec_value ds) else int (dec_value ds))
      in if ds = [] \<or> \<not> list_all (\<lambda>c. c \<in> set ''0123456789'') ds then None
         else if i < - (2 ^ 63) \<or> 2 ^ 63 \<le> i then None else Some i)"

definition bucketKey :: "'w sliding_limiter \<Rightarrow> string \<Rightarrow> int \<Rightarrow> string" where
  "bucketKey l key bucket = sl_KeyPrefix l @ sl_Scope l @ '':'' @ key @ '':'' @ dec_of_int bucket"

definition sliding_window :: "'w sliding_limiter \<Rightarrow> int" where
  "sliding_window l = (let n = whole_seconds (sl_Window l) in if n \<le> 0 then 1 else n)"

definition Sliding_Check ::
  "'w sliding_limiter \<Rightarrow> time \<Rightarrow> string \<Rightarrow> 'w \<Rightarrow> (go_error + limit_decision) \<times> 'w" where
  "Sliding_Check l now key w =
     (if key = [] then (Inl ErrEmptyKey, w)
      else
        (let windowSec = sliding_window l;
             currBucket = go_quot (unix_sec now) windowSec;
             prevBucket = currBucket - 1;
             elapsed = go_rem (unix_sec now) windowSec;
             weight = f64 (1 - f64 (f64 (of_int elapsed) / f64 (of_int windowSec)))
         in case kc_Incr (sl_Cache l) now (bucketKey l key currBucket) (s64 (2 * sl_Window l)) w of
              (Inl err, w') \<Rightarrow>
                (if sl_FailOpen l
                 then Inr \<lparr> ld_Allowed = True, ld_Current = 0, ld_Limit = sl_Limit l,
                            ld_Remaining = sl_Limit l, ld_RetryAfter = 0 \<rparr>
                 else Inl (Errorf ''ratelimit: incr: %w'' [err]), w')
            | (Inr currCount, w') \<Rightarrow>
                (let prevCount = (case kc_Get (sl_Cache l) now (bucketKey l key prevBucket) w' of
                                    Inl err \<Rightarrow> 0
                                  | Inr raw \<Rightarrow> (case ParseInt raw of None \<Rightarrow> 0 | Some v \<Rightarrow> v));
                     sliding = f64 (f64 (f64 (of_int prevCount) * weight) + f64 (of_int currCount))
                 in (Inr (if f64 (of_int (sl_Limit l)) < sliding
                          then \<lparr> ld_Allowed = False, ld_Current = sliding, ld_Limit = sl_Limit l,
                                 ld_Remaining = 0, ld_RetryAfter = (windowSec - elapsed) * second \<rparr>
                          else \<lparr> ld_Allowed = True, ld_Current = sliding, ld_Limit = sl_Limit l,
                                 ld_Remaining = max 0 (sl_Limit l - \<lceil>sliding\<rceil>), ld_RetryAfter = 0 \<rparr>), w'))))"

definition Sliding_Allow ::
  "'w sliding_limiter \<Rightarrow> time \<Rightarrow> string \<Rightarrow> 'w \<Rightarrow> (bool \<times> go_error option) \<times> 'w" where
  "Sliding_Allow l now key w =
     (case Sliding_Check l now key w of
        (Inl err, w') \<Rightarrow> ((False, Some err), w')
      | (Inr d, w') \<Rightarrow>
          ((if ld_Allowed d then (True, None)
            else (False, Some (Errorf ''%w: count=%.2f limit=%d retry_after=%v'' [ErrRateLimited]))), w'))"

definition Sliding_Reset ::
  "'w sliding_limiter \<Rightarrow> time \<Rightarrow> string \<Rightarrow> 'w \<Rightarrow> go_error option outcome \<times> 'w" where
  "Sliding_Reset l now key w =
     (if key = [] then (Return (Some ErrEmptyKey), w)
      else if whole_seconds (sl_Window l) = 0 then (Panic ''integer divide by zero'', w)
      else
        (let bucket = go_quot (unix_sec now) (whole_seconds (sl_Window l))
         in case kc_Del (sl_Cache l) now [bucketKey l key bucket, bucketKey l key (bucket - 1)] w of
              (err, w') \<Rightarrow> (Return err, w')))"

section \<open>Windows and buckets\<close>

lemma go_quot_nonneg: "0 \<le> a \<Longrightarrow> 0 < b \<Longrightarrow> go_quot a b = a div b"
  by (cases "a = 0") (auto simp: go_quot_def)

lemma whole_seconds_near:
  assumes "0 \<le> d" and "d < 2 ^ 63"
  shows "d div second \<le> whole_seconds d \<and> whole_seconds d \<le> d div second + 1"
proof -
  let ?s = "d div second" and ?n = "d mod second"
  have s: "0 \<le> ?s" "?s + 1 < 2 ^ 53" using assms by (auto simp: pos_imp_zdiv_nonneg_iff)
  have n: "0 \<le> ?n" "?n \<le> second" by (simp_all add: less_imp_le)
  let ?q = "of_int ?n / 1000000000 :: rat"
  have "(of_int ?n :: rat) \<le> of_int second" using n(2) by (simp only: of_int_le_iff)
  then have q: "0 \<le> ?q" "?q \<le> of_int 1" using n(1) by simp_all
  have fq: "0 \<le> f64 ?q" "f64 ?q \<le> 1"
    using f64_nonneg [OF q(1)] f64_le_int [OF _ q(2)] q(1) by (auto simp: f64_def order_le_less)
  let ?x = "of_int ?s + f64 ?q"
  have w: "whole_seconds d = \<lfloor>f64 ?x\<rfloor>"
    using s by (simp add: whole_seconds_def f64_of_int)
  have "f64 ?x \<le> of_int (?s + 1)"
  proof (cases "?x = 0")
    case True
    then show ?thesis using s(1) by (simp add: f64_def)
  next
    case False
    then have "0 < ?x" using s(1) fq(1) by (simp add: add_nonneg_nonneg order_le_less [of _ ?x])
    then show ?thesis using fq(2) s(2) by (intro f64_le_int) auto
  qed
  moreover have "of_int ?s \<le> f64 ?x"
  proof (cases "?s = 0")
    case True
    then show ?thesis using f64_nonneg [OF fq(1)] by simp
  next
    case False
    then show ?thesis using s fq(1) by (intro f64_ge_int) auto
  qed
  ultimately show ?thesis
    unfolding w using floor_mono [of "f64 ?x" "of_int (?s + 1)"] by (simp add: le_floor_iff)
qed

text \<open>The number of the bucket can be read off its key.\<close>

lemma dec_no_colon: "CHR '':'' \<notin> set (dec_of_int i)"
proof -
  have "CHR '':'' \<notin> set (dec_of_nat n)" for n
  proof (induction n rule: dec_of_nat.induct)
    case (1 n)
    have "digit_char d \<noteq> CHR '':''" for d
      using is_hex_digit_char [of d] by (auto simp: is_hex_char_def)
    then show ?case using 1 by (subst dec_of_nat.simps) (auto simp: eq_commute [of "CHR '':''"])
  qed
  then show ?thesis by (simp add: dec_of_int_def)
qed

lemma last_part:
  assumes "a @ c # x = b @ c # y" and "c \<notin> set x" and "c \<notin> set y"
  shows "x = y"
proof -
  have t: "rev (takeWhile (\<lambda>d. d \<noteq> c) (rev (a @ c # x))) = x" if "c \<notin> set x" for a x :: "'a list"
  proof -
    have "takeWhile (\<lambda>d. d \<noteq> c) (rev x @ c # rev a) = rev x"
      using that by (intro takeWhile_tail [THEN trans]) (auto simp: takeWhile_eq_all_conv)
    then show ?thesis by simp
  qed
  from t [OF assms(2), of a] t [OF assms(3), of b] assms(1) show ?thesis by simp
qed

lemma bucketKey_bucket: "bucketKey l key i = bucketKey l key' j \<Longrightarrow> i = j"
  using last_part [of "sl_KeyPrefix l @ sl_Scope l @ '':'' @ key" "CHR '':''" "dec_of_int i"
      "sl_KeyPrefix l @ sl_Scope l @ '':'' @ key'" "dec_of_int j"] dec_no_colon
  by (simp add: bucketKey_def)

lemma bucketKey_key: "bucketKey l key i = bucketKey l key' i \<longleftrightarrow> key = key'"
  by (simp add: bucketKey_def)

end
