(* ===== verification/SlidingRules.thy ===== *)
theory SlidingRules
  imports SlidingLimit
begin

text \<open>
  What the general limiter gives: within one window a key is admitted at most as often as its limit,
  whatever the rounding of the estimate. Over two windows the estimate is off by much more than
  the documented hundredth, so that a window laid across the border sees more than the limit.
\<close>

section \<open>A decision\<close>

lemma weight_nonneg:
  assumes "0 \<le> e" and "e < w" and "w < 2 ^ 53"
  shows "0 \<le> f64 (1 - f64 (f64 (of_int e) / f64 (of_int w)))"
proof -
  have q: "f64 (of_int e) / f64 (of_int w) = (of_int e / of_int w :: rat)"
    using assms by (simp add: f64_of_int)
  have le: "(of_int e / of_int w :: rat) \<le> of_int 1" "0 \<le> (of_int e / of_int w :: rat)"
    using assms by (simp_all add: divide_le_eq)
  have "f64 (of_int e / of_int w) \<le> 1"
    using f64_le_int [OF _ le(1)] le(2) by (cases "(of_int e / of_int w :: rat) = 0") (auto simp: f64_def)
  then show ?thesis by (intro f64_nonneg) (simp add: q)
qed

lemma estimate_ge:
  assumes "0 \<le> p" and "0 \<le> weight" and "0 < n" and "n < 2 ^ 53"
  shows "of_int n \<le> f64 (f64 (f64 (of_int p) * weight) + f64 (of_int n))"
proof -
  have "0 \<le> f64 (f64 (of_int p) * weight)"
    using assms by (intro f64_nonneg mult_nonneg_nonneg) auto
  with assms(3,4) show ?thesis by (intro f64_ge_int) (auto simp: f64_of_int)
qed

text \<open>The parser takes a text that does not begin with a minus for a number that is not negative.\<close>

lemma ParseInt_nonneg: "ParseInt s = Some i \<Longrightarrow> \<not> starts_with ''-'' s \<Longrightarrow> 0 \<le> i"
  by (auto simp: ParseInt_def Let_def split: if_splits)

lemma sliding_window_bounds:
  assumes "0 < sl_Window l" and "2 * sl_Window l < 2 ^ 63"
  shows "0 < sliding_window l" and "sliding_window l < 2 ^ 53"
    and "sliding_window l * second \<le> ttl_sec (2 * sl_Window l)"
proof -
  let ?W = "sl_Window l"
  have n: "?W div second \<le> whole_seconds ?W" "whole_seconds ?W \<le> ?W div second + 1"
    using whole_seconds_near [of ?W] assms by auto
  show "0 < sliding_window l" by (simp add: sliding_window_def Let_def)
  have "?W div second < 2 ^ 52" using assms(2) by auto
  with n show "sliding_window l < 2 ^ 53" by (auto simp: sliding_window_def Let_def)
  show "sliding_window l * second \<le> ttl_sec (2 * ?W)"
  proof (cases "?W div second \<le> 0")
    case True
    with n show ?thesis by (auto simp: sliding_window_def Let_def ttl_sec_def)
  next
    case False
    then have "sliding_window l \<le> 2 * (?W div second)" using n by (auto simp: sliding_window_def Let_def)
    moreover have "2 * (?W div second) \<le> 2 * ?W div second"
    proof -
      have "?W div second * second \<le> ?W" by (simp add: minus_mod_eq_div_mult [symmetric])
      then have "2 * (?W div second) * second \<le> 2 * ?W" by simp
      from zdiv_mono1 [OF this, of second] show ?thesis by simp
    qed
    ultimately have "sliding_window l \<le> 2 * ?W div second" by linarith
    then show ?thesis by (simp add: ttl_sec_def le_max_iff_disj)
  qed
qed

section \<open>A run\<close>

type_synonym sliding_request = "time \<times> string"

fun sliding_run :: "'w sliding_limiter \<Rightarrow> sliding_request list \<Rightarrow> 'w \<Rightarrow> (go_error + limit_decision) list" where
  "sliding_run l [] w = []"
| "sliding_run l ((now, key) # rs) w =
     (case Sliding_Check l now key w of (d, w') \<Rightarrow> d # sliding_run l rs w')"

fun in_order :: "time \<Rightarrow> sliding_request list \<Rightarrow> bool" where
  "in_order t [] = True"
| "in_order t ((u, _) # rs) = (t \<le> u \<and> in_order u rs)"

definition admitted :: "(go_error + limit_decision) \<Rightarrow> bool" where
  "admitted res = (case res of Inl e \<Rightarrow> False | Inr d \<Rightarrow> ld_Allowed d)"

text \<open>How many requests of a key are admitted.\<close>

definition admissions :: "'w sliding_limiter \<Rightarrow> string \<Rightarrow> sliding_request list \<Rightarrow> 'w \<Rightarrow> nat" where
  "admissions l key rs w = length (filter (\<lambda>(q, d). snd q = key \<and> admitted d) (zip rs (sliding_run l rs w)))"

definition plain_count :: "'w view \<Rightarrow> string \<Rightarrow> time \<Rightarrow> 'w \<Rightarrow> bool" where
  "plain_count look k now w \<longleftrightarrow> (\<forall>t \<ge> now. \<forall>v. look w t k = Some v \<longrightarrow> \<not> starts_with ''-'' v)"

lemma plain_same: "same_key look now k w w' \<Longrightarrow> plain_count look k now w \<Longrightarrow> plain_count look k now w'"
  by (auto simp: plain_count_def same_key_def)

lemma plain_later: "plain_count look k now w \<Longrightarrow> now \<le> now' \<Longrightarrow> plain_count look k now' w"
  unfolding plain_count_def by (blast intro: order_trans)

context expiring_cache
begin

text \<open>One request in the window: a request of the key counts, and is admitted only up to the limit.\<close>

lemma sliding_step:
  assumes "sl_Cache l = c" and "0 < sl_Window l" and "2 * sl_Window l < 2 ^ 63" and "\<not> sl_FailOpen l"
    and "Sliding_Check l now k w = (Inr d, w')" and "0 \<le> unix_nano now"
    and "unix_sec now div sliding_window l = b" and "e0 = Time ((b + 1) * sliding_window l * second)"
    and "counted look (bucketKey l key b) e0 now n w" and "0 \<le> n" and "n + 1 < 2 ^ 53"
    and "plain_count look (bucketKey l key (b - 1)) now w" and "sl_Limit l < 2 ^ 53" and "0 < sl_Limit l"
  shows "counted look (bucketKey l key b) e0 now (if k = key then n + 1 else n) w'"
    and "plain_count look (bucketKey l key (b - 1)) now w'"
    and "k = key \<Longrightarrow> ld_Allowed d \<Longrightarrow> n + 1 \<le> sl_Limit l"
proof -
  let ?W = "sliding_window l"
  note W = sliding_window_bounds [OF assms(2,3)]
  have sec: "0 \<le> unix_sec now" using assms(6) by (simp add: unix_sec_def)
  have s64: "s64 (2 * sl_Window l) = 2 * sl_Window l" using assms(2,3) by simp
  have ttl: "0 < 2 * sl_Window l" using assms(2) by simp
  have lo: "b * ?W \<le> unix_sec now" and hi: "unix_sec now < (b + 1) * ?W"
  proof -
    have "unix_sec now = b * ?W + unix_sec now mod ?W" by (simp add: assms(7) [symmetric])
    moreover have "0 \<le> unix_sec now mod ?W" "unix_sec now mod ?W < ?W" using W(1) by simp_all
    ultimately show "b * ?W \<le> unix_sec now" "unix_sec now < (b + 1) * ?W"
      by (simp_all add: distrib_right)
  qed
  have nano: "unix_sec now * second \<le> unix_nano now" "unix_nano now < (unix_sec now + 1) * second"
    by (simp_all add: unix_sec_def minus_mod_eq_div_mult [symmetric] algebra_simps)
  have "(unix_sec now + 1) * second \<le> (b + 1) * ?W * second"
    using hi by (intro mult_right_mono) auto
  with nano(2) have before: "now < e0" by (simp add: assms(8) less_time_def)
  have "b * ?W * second \<le> unix_sec now * second" using lo by (intro mult_right_mono) auto
  with nano(1) W(3) have after: "e0 \<le> time_add now (ttl_sec (2 * sl_Window l))"
    by (simp add: assms(8) less_eq_time_def algebra_simps)
  have key: "k \<noteq> []" and buck: "go_quot (unix_sec now) ?W = b" and rem: "go_rem (unix_sec now) ?W = unix_sec now mod ?W"
    using assms(5,7) sec W(1) by (auto simp: Sliding_Check_def go_quot_nonneg go_rem_nonneg split: if_splits)
  let ?weight = "f64 (1 - f64 (f64 (of_int (unix_sec now mod ?W)) / f64 (of_int ?W)))"
  obtain res where inc: "kc_Incr c now (bucketKey l k b) (2 * sl_Window l) w = (res, w')"
    using assms(1,5) key buck s64 by (auto simp: Sliding_Check_def Let_def split: prod.splits sum.splits)
  obtain m where m: "res = Inr m"
    using assms(1,4,5) key buck s64 inc by (cases res) (auto simp: Sliding_Check_def Let_def)
  show cnt: "counted look (bucketKey l key b) e0 now (if k = key then n + 1 else n) w'"
  proof (cases "k = key")
    case True
    with counted_incr [OF assms(9) inc [unfolded m True] ttl assms(10) before after] show ?thesis by simp
  next
    case False
    then have "bucketKey l key b \<noteq> bucketKey l k b" by (simp add: bucketKey_key)
    from counted_same [OF incr_other [OF inc this] assms(9)] False show ?thesis by simp
  qed
  have "bucketKey l key (b - 1) \<noteq> bucketKey l k b" using bucketKey_bucket [of l key "b - 1" k b] by auto
  from plain_same [OF incr_other [OF inc this] assms(12)]
  show plain: "plain_count look (bucketKey l key (b - 1)) now w'" .
  assume k: "k = key" and ok: "ld_Allowed d"
  define p where "p = (case kc_Get (sl_Cache l) now (bucketKey l key (b - 1)) w' of
      Inl err \<Rightarrow> 0 | Inr raw \<Rightarrow> (case ParseInt raw of None \<Rightarrow> 0 | Some v \<Rightarrow> v))"
  have p: "0 \<le> p"
  proof (cases "kc_Get c now (bucketKey l key (b - 1)) w'")
    case (Inr raw)
    from get_hit [OF Inr] plain have "\<not> starts_with ''-'' raw" by (auto simp: plain_count_def)
    with ParseInt_nonneg [of raw] Inr show ?thesis by (simp add: p_def assms(1) split: option.split)
  qed (simp add: p_def assms(1))
  have mn: "m = n + 1"
    using counted_incr [OF assms(9) inc [unfolded m k] ttl assms(10) before after] by simp
  have "\<not> f64 (of_int (sl_Limit l)) < f64 (f64 (f64 (of_int p) * ?weight) + f64 (of_int m))"
  proof -
    have "kc_Incr (sl_Cache l) now (bucketKey l key b) (2 * sl_Window l) w = (Inr m, w')"
      using inc m k assms(1) by simp
    with assms(5) key ok show ?thesis
      by (simp add: Sliding_Check_def Let_def buck rem s64 k p_def [symmetric]) (auto split: if_splits)
  qed
  moreover have "of_int m \<le> f64 (f64 (f64 (of_int p) * ?weight) + f64 (of_int m))"
    using p weight_nonneg [OF _ _ W(2), of "unix_sec now mod ?W"] W(1) assms(10,11)
    by (intro estimate_ge) (auto simp: mn)
  moreover have "f64 (of_int (sl_Limit l)) = of_int (sl_Limit l)"
    using assms(13,14) by (intro f64_of_int) auto
  ultimately have "(of_int m :: rat) \<le> of_int (sl_Limit l)" by linarith
  then show "n + 1 \<le> sl_Limit l" by (simp add: mn)
qed

lemma admissions_bounded:
  assumes "sl_Cache l = c" and "0 < sl_Window l" and "2 * sl_Window l < 2 ^ 63" and "\<not> sl_FailOpen l"
    and "0 < sl_Limit l" and "sl_Limit l < 2 ^ 53" and "e0 = Time ((b + 1) * sliding_window l * second)"
    and "counted look (bucketKey l key b) e0 t0 n w" and "0 \<le> n" and "n + int (length rs) < 2 ^ 53"
    and "plain_count look (bucketKey l key (b - 1)) t0 w" and "in_order t0 rs"
    and "\<forall>(t, k) \<in> set rs. 0 \<le> unix_nano t \<and> unix_sec t div sliding_window l = b"
    and "\<forall>d \<in> set (sliding_run l rs w). \<exists>x. d = Inr x"
  shows "int (admissions l key rs w) \<le> max 0 (sl_Limit l - n)"
  using assms(8-14)
proof (induction rs arbitrary: t0 n w)
  case Nil
  then show ?case by (simp add: admissions_def)
next
  case (Cons q rs)
  obtain t k where q: "q = (t, k)" by (cases q)
  obtain res w' where res: "Sliding_Check l t k w = (res, w')" by fastforce
  with Cons.prems(7) obtain d where d: "res = Inr d" by (auto simp: q)
  have t: "t0 \<le> t" "in_order t rs" "0 \<le> unix_nano t" "unix_sec t div sliding_window l = b"
    using Cons.prems(5,6) by (auto simp: q)
  have n: "n + 1 < 2 ^ 53" using Cons.prems(3) by simp
  note step = sliding_step [OF assms(1-4) res [unfolded d] t(3,4) assms(7)
      counted_later [OF Cons.prems(1) t(1)] Cons.prems(2) n plain_later [OF Cons.prems(4) t(1)] assms(6,5)]
  let ?n = "if k = key then n + 1 else n"
  have "int (admissions l key rs w') \<le> max 0 (sl_Limit l - ?n)"
    using Cons.IH [OF step(1) _ _ step(2) t(2)] Cons.prems(2,3,6,7) res by (auto simp: q split: if_splits)
  moreover have "admissions l key (q # rs) w
      = (if k = key \<and> ld_Allowed d then 1 else 0) + admissions l key rs w'"
    by (simp add: admissions_def q res d admitted_def)
  ultimately show ?case using step(3) by (auto split: if_splits)
qed

end

section \<open>Properties\<close>

text \<open>C24: Within one window of the general limiter a key is admitted at most as often as its limit,
  whatever other keys do in between, whatever the count of the window before and however the
  estimate is rounded, over any Redis that keeps its documented behaviour and answers.\<close>

theorem sliding_limit_per_window:
  assumes "redis_laws r look" and "sl_Cache l = redisCache r"
    and "0 < sl_Window l" "2 * sl_Window l < 2 ^ 63" "\<not> sl_FailOpen l" "0 < sl_Limit l" "sl_Limit l < 2 ^ 53"
    and "\<forall>t \<ge> t0. look w t (bucketKey l key b) = None"
    and "plain_count look (bucketKey l key (b - 1)) t0 w"
    and "in_order t0 rs" "int (length rs) < 2 ^ 53"
    and "\<forall>(t, k) \<in> set rs. 0 \<le> unix_nano t \<and> unix_sec t div sliding_window l = b"
    and "\<forall>d \<in> set (sliding_run l rs w). \<exists>x. d = Inr x"
  shows "int (admissions l key rs w) \<le> sl_Limit l"
proof -
  have "counted look (bucketKey l key b) (Time ((b + 1) * sliding_window l * second)) t0 0 w"
    using assms(8) by (simp add: counted_def)
  from expiring_cache.admissions_bounded [OF redis_cache_expiring [OF assms(1)] assms(2-7) refl this _ _ assms(9,10,12,13)]
  show ?thesis using assms(6,11) by simp
qed

definition sample_sliding :: "redis_state sliding_limiter" where
  "sample_sliding = \<lparr> sl_Cache = redisCache redis_server, sl_Limit = 2, sl_Window = minute,
     sl_Scope = ''api'', sl_KeyPrefix = ''rl:'', sl_FailOpen = False \<rparr>"

text \<open>Two requests at the end of a minute and one in the middle of the next.\<close>

definition burst :: "sliding_request list" where
  "burst = [(Time (59 * second), ''u''), (Time (59 * second), ''u''), (Time (90 * second), ''u'')]"

lemma sample_window: "sliding_window sample_sliding = 60"
proof -
  have "whole_seconds minute = 60" by code_simp
  then show ?thesis by (simp add: sliding_window_def sample_sliding_def)
qed

lemma sample_weights:
  "f64 (1 - f64 (f64 59 / f64 60)) = 150119987579017 / 9007199254740992"
  "f64 (1 - f64 (f64 30 / f64 60)) = 1 / 2"
  by code_simp+

lemma ParseInt_2: "ParseInt (dec_of_int 2) = Some 2"
proof -
  have "dec_of_int 2 = ''2''"
    unfolding dec_of_int_def by (subst dec_of_nat.simps) (simp add: digit_char_def)
  then show ?thesis by (simp add: ParseInt_def starts_with_def dec_value_def hex_val_def)
qed

lemma f64_small: "f64 0 = 0" "f64 1 = 1" "f64 2 = 2" "f64 3 = 3"
  by code_simp+

lemmas sample_run_simps = unix_sec_def go_quot_def go_rem_def sample_sliding_def redisCache_def redis_Incr_def
  redis_Get_def redis_server_def server_Incr_def server_ExpireNX_def redis_look_def live_def parse_dec_dec
  ttl_sec_def time_add_def less_time_def ParseInt_2 f64_small sample_weights admitted_def

definition crowd :: "sliding_request list" where
  "crowd = [(Time (59 * second), ''u''), (Time (59 * second), ''u''), (Time (59 * second), ''u'')]"

lemma crowd_run:
  "list_all (\<lambda>d. case d of Inl e \<Rightarrow> False | Inr x \<Rightarrow> True) (sliding_run sample_sliding crowd [])
   \<and> map admitted (sliding_run sample_sliding crowd []) = [True, True, False]"
  unfolding crowd_def sliding_run.simps Sliding_Check_def sample_window bucketKey_def Let_def
  by (simp add: sample_run_simps)

theorem sliding_limit_per_window_witness:
  "map admitted (sliding_run sample_sliding crowd []) = [True, True, False]
   \<and> admissions sample_sliding ''u'' crowd [] \<le> 2"
proof -
  have "int (admissions sample_sliding ''u'' crowd []) \<le> sl_Limit sample_sliding"
  proof (rule sliding_limit_per_window [of redis_server redis_look _ "Time 0" "[]" _ 0, OF redis_server_laws])
    show "\<forall>(t, k) \<in> set crowd. 0 \<le> unix_nano t \<and> unix_sec t div sliding_window sample_sliding = 0"
      unfolding sample_window by (simp add: crowd_def unix_sec_def)
    show "\<forall>d \<in> set (sliding_run sample_sliding crowd []). \<exists>x. d = Inr x"
    proof
      fix d
      assume "d \<in> set (sliding_run sample_sliding crowd [])"
      with crowd_run [THEN conjunct1] show "\<exists>x. d = Inr x" by (cases d) (auto simp only: list_all_iff sum.case)
    qed
  qed (simp_all add: sample_sliding_def redis_look_def plain_count_def crowd_def less_eq_time_def)
  with crowd_run show ?thesis by (simp add: sample_sliding_def)
qed

text \<open>
  Across the border: two requests at the end of a minute weigh one half each in the middle of the
  next, so a third is admitted 31 seconds later, although the limit is two in a minute. The estimate
  is off by a third, not by the documented hundredth.
\<close>

theorem burst_over_limit:
  "map admitted (sliding_run sample_sliding burst []) = [True, True, True]
   \<and> sl_Limit sample_sliding = 2 \<and> sl_Window sample_sliding = 60 * second
   \<and> time_sub (fst (last burst)) (fst (hd burst)) = 31 * second"
proof (intro conjI)
  show "map admitted (sliding_run sample_sliding burst []) = [True, True, True]"
    unfolding burst_def sliding_run.simps Sliding_Check_def sample_window bucketKey_def Let_def
    by (simp add: sample_run_simps)
qed (simp_all add: sample_sliding_def burst_def time_sub_def)

text \<open>Resetting divides by the seconds of the window without the guard of the check.\<close>

theorem reset_panics:
  "Sliding_Reset (l \<lparr> sl_Window := 500000000 \<rparr>) now ''u'' w = (Panic ''integer divide by zero'', w)"
proof -
  have "whole_seconds 500000000 = 0" by code_simp
  then show ?thesis by (simp add: Sliding_Reset_def)
qed

end
