(* ===== verification/SlowQuery.thy ===== *)
theory SlowQuery
  imports AgentPrelude Float64 "HOL-Library.Multiset"
begin

text \<open>
  Watching for slow queries, \<open>src/internal/storage/slow_query.go\<close>: a histogram of durations that many
  goroutines fill without a lock, and a monitor that counts and reports the durations above a
  threshold. \<open>Histogram_Observe\<close> is one observation by itself, \<open>obs_step\<close> its atomic steps. Atomic
  counters are words. The logger and the callback are the lists of what they were called with.
\<close>

section \<open>The histogram\<close>

record histogram =
  hg_buckets :: "duration list"
  hg_counts :: "u64 list"
  hg_max :: duration
  hg_total :: u64
  hg_count :: u64

abbreviation ms :: duration where "ms \<equiv> 1000000"

definition defaultBuckets :: "duration list" where
  "defaultBuckets =
     [1 * ms, 5 * ms, 10 * ms, 50 * ms, 100 * ms, 200 * ms, 500 * ms,
      1 * second, 5 * second, 10 * second, 30 * second]"

definition NewDurationHistogram :: histogram where
  "NewDurationHistogram =
     \<lparr> hg_buckets = defaultBuckets, hg_counts = replicate (length defaultBuckets + 1) 0,
       hg_max = 0, hg_total = 0, hg_count = 0 \<rparr>"

text \<open>The first bucket that takes the duration, or the one behind the last.\<close>

fun bucket_index :: "duration list \<Rightarrow> duration \<Rightarrow> nat" where
  "bucket_index [] d = 0"
| "bucket_index (b # bs) d = (if d \<le> b then 0 else Suc (bucket_index bs d))"

definition count_bucket :: "duration \<Rightarrow> histogram \<Rightarrow> histogram" where
  "count_bucket d h =
     (let i = bucket_index (hg_buckets h) d in h \<lparr> hg_counts := (hg_counts h)[i := hg_counts h ! i + 1] \<rparr>)"

definition Histogram_Observe :: "duration \<Rightarrow> histogram \<Rightarrow> histogram" where
  "Histogram_Observe d h =
     (let h1 = (if d \<le> hg_max h then h else h \<lparr> hg_max := d \<rparr>);
          h2 = h1 \<lparr> hg_total := hg_total h1 + of_int d \<rparr>;
          h3 = h2 \<lparr> hg_count := hg_count h2 + 1 \<rparr>
      in count_bucket d h3)"

definition Histogram_Count :: "histogram \<Rightarrow> int" where
  "Histogram_Count h = sint (hg_count h)"

definition Histogram_Max :: "histogram \<Rightarrow> duration" where
  "Histogram_Max h = hg_max h"

text \<open>The loop over the counts, with the sum of those before.\<close>

fun percentile_loop :: "duration list \<Rightarrow> u64 list \<Rightarrow> duration \<Rightarrow> int \<Rightarrow> u64 \<Rightarrow> duration" where
  "percentile_loop bs [] lst target cum = lst"
| "percentile_loop bs (c # cs) lst target cum =
     (let cum' = cum + c
      in if target \<le> sint cum' then (case bs of b # _ \<Rightarrow> b | [] \<Rightarrow> lst)
         else percentile_loop (tl bs) cs lst target cum')"

definition Histogram_Percentile :: "rat \<Rightarrow> histogram \<Rightarrow> duration" where
  "Histogram_Percentile p h =
     (if p < 0 \<or> 1 < p then 0
      else
        (let target = \<lfloor>f64 (f64 (of_int (sint (hg_count h))) * p)\<rfloor>
         in if target = 0 then 0
            else percentile_loop (hg_buckets h) (hg_counts h) (last (hg_buckets h)) target 0))"

definition Histogram_Reset :: "histogram \<Rightarrow> histogram" where
  "Histogram_Reset h =
     h \<lparr> hg_max := 0, hg_total := 0, hg_count := 0, hg_counts := map (\<lambda>_. 0) (hg_counts h) \<rparr>"

section \<open>Observing together\<close>

text \<open>
  A goroutine in \<open>Observe\<close>: before it reads the maximum, after it has read it, and after each of its
  three later additions.
\<close>

datatype observer =
    Start duration
  | Loaded duration duration
  | Maxed duration
  | Totalled duration
  | Counted duration
  | Finished duration

inductive obs_step :: "observer \<times> histogram \<Rightarrow> observer \<times> histogram \<Rightarrow> bool" where
  load: "obs_step (Start d, h) (Loaded d (hg_max h), h)"
| enough: "d \<le> old \<Longrightarrow> obs_step (Loaded d old, h) (Maxed d, h)"
| swap: "\<not> d \<le> old \<Longrightarrow> hg_max h = old \<Longrightarrow> obs_step (Loaded d old, h) (Maxed d, h \<lparr> hg_max := d \<rparr>)"
| again: "\<not> d \<le> old \<Longrightarrow> hg_max h \<noteq> old \<Longrightarrow> obs_step (Loaded d old, h) (Start d, h)"
| total: "obs_step (Maxed d, h) (Totalled d, h \<lparr> hg_total := hg_total h + of_int d \<rparr>)"
| count: "obs_step (Totalled d, h) (Counted d, h \<lparr> hg_count := hg_count h + 1 \<rparr>)"
| bucket: "obs_step (Counted d, h) (Finished d, count_bucket d h)"

inductive_cases obs_stepE: "obs_step (t, h) (t', h')"

text \<open>Any goroutine takes the next step.\<close>

inductive together :: "observer list \<times> histogram \<Rightarrow> observer list \<times> histogram \<Rightarrow> bool" where
  "i < length ts \<Longrightarrow> obs_step (ts ! i, h) (t', h') \<Longrightarrow> together (ts, h) (ts[i := t'], h')"

section \<open>The monitor\<close>

record slow_query_config =
  sq_Threshold :: duration
  sq_SampleRate :: rat
  sq_OnSlowQuery :: bool
  sq_Enabled :: bool

definition DefaultSlowQueryConfig :: slow_query_config where
  "DefaultSlowQueryConfig =
     \<lparr> sq_Threshold = 200 * ms, sq_SampleRate = 1, sq_OnSlowQuery = False, sq_Enabled = True \<rparr>"

record 'a slow_query_info =
  si_SQL :: string
  si_Args :: "'a list"
  si_Duration :: duration
  si_Threshold :: duration
  si_Timestamp :: time
  si_TraceID :: string

record 'a slow_query_monitor =
  sm_cfg :: slow_query_config
  sm_threshold :: duration
  sm_counter :: u64
  sm_histogram :: histogram
  sm_reported :: "'a slow_query_info list"
  sm_logged :: "(string \<times> duration) list"

definition NewSlowQueryMonitor :: "slow_query_config \<Rightarrow> 'a slow_query_monitor" where
  "NewSlowQueryMonitor cfg =
     (let cfg1 = (if sq_Threshold cfg = 0 then cfg \<lparr> sq_Threshold := 200 * ms \<rparr> else cfg);
          cfg2 = (if sq_SampleRate cfg1 = 0 then cfg1 \<lparr> sq_SampleRate := 1 \<rparr> else cfg1)
      in \<lparr> sm_cfg = cfg2, sm_threshold = sq_Threshold cfg2, sm_counter = 0,
           sm_histogram = NewDurationHistogram, sm_reported = [], sm_logged = [] \<rparr>)"

definition Monitor_Observe ::
  "time \<Rightarrow> string \<Rightarrow> 'a list \<Rightarrow> duration \<Rightarrow> 'a slow_query_monitor \<Rightarrow> 'a slow_query_monitor" where
  "Monitor_Observe now sql args d m =
     (if \<not> sq_Enabled (sm_cfg m) then m
      else
        (let m1 = m \<lparr> sm_histogram := Histogram_Observe d (sm_histogram m) \<rparr>
         in if d < sm_threshold m1 then m1
            else
              (let m2 = m1 \<lparr> sm_counter := sm_counter m1 + 1 \<rparr>;
                   info = \<lparr> si_SQL = sql, si_Args = args, si_Duration = d, si_Threshold = sm_threshold m2,
                            si_Timestamp = now, si_TraceID = [] \<rparr>;
                   m3 = (if sq_OnSlowQuery (sm_cfg m2) then m2 \<lparr> sm_reported := sm_reported m2 @ [info] \<rparr> else m2)
               in m3 \<lparr> sm_logged := sm_logged m3 @ [(sql, d)] \<rparr>)))"

record slow_query_stats =
  ss_Total :: int
  ss_Count :: int
  ss_P50 :: duration
  ss_P95 :: duration
  ss_P99 :: duration
  ss_Max :: duration

text \<open>The table by template of the statistics is never filled. The constants are floating-point numbers.\<close>

definition Monitor_Stats :: "'a slow_query_monitor \<Rightarrow> slow_query_stats" where
  "Monitor_Stats m =
     (let h = sm_histogram m
      in \<lparr> ss_Total = Histogram_Count h, ss_Count = sint (sm_counter m),
           ss_P50 = Histogram_Percentile (f64 (50 / 100)) h, ss_P95 = Histogram_Percentile (f64 (95 / 100)) h,
           ss_P99 = Histogram_Percentile (f64 (99 / 100)) h, ss_Max = Histogram_Max h \<rparr>)"

definition Monitor_Reset :: "'a slow_query_monitor \<Rightarrow> 'a slow_query_monitor" where
  "Monitor_Reset m = m \<lparr> sm_histogram := Histogram_Reset (sm_histogram m), sm_counter := 0 \<rparr>"

end
