(* ===== verification/SlowQueryRules.thy ===== *)
theory SlowQueryRules
  imports SlowQuery
begin

text \<open>
  What the histogram gives: however the steps of concurrent observations interleave, the outcome is
  that of observing one after the other, and a percentile is the smallest bound of a bucket that
  takes the required number of observations. With few observations it is 0.
\<close>

section \<open>One after the other\<close>

definition in_bucket :: "nat \<Rightarrow> duration list \<Rightarrow> nat" where
  "in_bucket i ds = length (filter (\<lambda>d. bucket_index defaultBuckets d = i) ds)"

definition obs_max :: "duration list \<Rightarrow> duration" where
  "obs_max ds = Max (insert 0 (set ds))"

lemma obs_max_snoc: "obs_max (ds @ [d]) = (if d \<le> obs_max ds then obs_max ds else d)"
proof -
  have "insert 0 (set (ds @ [d])) = insert d (insert 0 (set ds))" by auto
  then show ?thesis unfolding obs_max_def
    by (simp only: Max_insert [OF finite.insertI [OF finite_set] insert_not_empty] max_def)
qed

text \<open>A histogram of these observations.\<close>

definition holds_obs :: "duration list \<Rightarrow> histogram \<Rightarrow> bool" where
  "holds_obs ds h \<longleftrightarrow>
     hg_buckets h = defaultBuckets
   \<and> hg_counts h = map (\<lambda>i. of_nat (in_bucket i ds)) [0..<Suc (length defaultBuckets)]
   \<and> hg_max h = obs_max ds
   \<and> hg_total h = of_int (sum_list ds)
   \<and> hg_count h = of_nat (length ds)"

lemma holds_unique: "holds_obs ds h \<Longrightarrow> holds_obs ds h' \<Longrightarrow> h = h'"
  by (simp add: holds_obs_def)

lemma bucket_index_le: "bucket_index bs d \<le> length bs"
  by (induction bs) auto

lemma holds_new: "holds_obs [] NewDurationHistogram"
  by (simp add: holds_obs_def NewDurationHistogram_def in_bucket_def map_replicate_const obs_max_def)

lemma holds_observe:
  assumes "holds_obs ds h"
  shows "holds_obs (ds @ [d]) (Histogram_Observe d h)"
proof -
  let ?i = "bucket_index defaultBuckets d" and ?N = "Suc (length defaultBuckets)"
  have i: "?i < ?N" using bucket_index_le [of defaultBuckets d] by simp
  have "(map (\<lambda>i. of_nat (in_bucket i ds)) [0..<?N])[?i := of_nat (in_bucket ?i ds) + 1]
      = map (\<lambda>i. of_nat (in_bucket i (ds @ [d])) :: u64) [0..<?N]"
  proof (rule nth_equalityI)
    fix j
    assume "j < length ((map (\<lambda>i. of_nat (in_bucket i ds)) [0..<?N])[?i := of_nat (in_bucket ?i ds) + 1 :: u64])"
    then have j: "j < ?N" by (simp del: upt_Suc)
    then show "(map (\<lambda>i. of_nat (in_bucket i ds)) [0..<?N])[?i := of_nat (in_bucket ?i ds) + 1] ! j
        = map (\<lambda>i. of_nat (in_bucket i (ds @ [d])) :: u64) [0..<?N] ! j"
      by (cases "j = ?i") (simp_all add: in_bucket_def nth_list_update del: upt_Suc)
  qed simp
  moreover have "map (\<lambda>i. of_nat (in_bucket i ds) :: u64) [0..<?N] ! ?i = of_nat (in_bucket ?i ds)"
    using i by (simp del: upt_Suc)
  ultimately show ?thesis
    using assms
    by (simp add: holds_obs_def Histogram_Observe_def count_bucket_def Let_def obs_max_snoc del: upt_Suc)
qed

lemma holds_fold: "holds_obs ds (fold Histogram_Observe ds NewDurationHistogram)"
proof (induction ds rule: rev_induct)
  case (snoc d ds)
  from holds_observe [OF this] show ?case by simp
qed (simp add: holds_new)

section \<open>Together\<close>

fun obs_dur :: "observer \<Rightarrow> duration" where
  "obs_dur (Start d) = d"
| "obs_dur (Loaded d old) = d"
| "obs_dur (Maxed d) = d"
| "obs_dur (Totalled d) = d"
| "obs_dur (Counted d) = d"
| "obs_dur (Finished d) = d"

fun past_max :: "observer \<Rightarrow> bool" where
  "past_max (Start d) = False" | "past_max (Loaded d old) = False" | "past_max _ = True"

fun past_total :: "observer \<Rightarrow> bool" where
  "past_total (Maxed d) = False" | "past_total t = past_max t"

fun past_count :: "observer \<Rightarrow> bool" where
  "past_count (Totalled d) = False" | "past_count t = past_total t"

fun finished :: "observer \<Rightarrow> bool" where
  "finished (Finished d) = True" | "finished _ = False"

definition seen_max :: "observer multiset \<Rightarrow> duration" where
  "seen_max M = Max (insert 0 (obs_dur ` {t \<in> set_mset M. past_max t}))"

lemma seen_max_add:
  "seen_max (add_mset t M) = (if past_max t then max (obs_dur t) (seen_max M) else seen_max M)"
proof (cases "past_max t")
  case True
  let ?S = "insert 0 (obs_dur ` {u \<in> set_mset M. past_max u})"
  have "insert 0 (obs_dur ` {u \<in> set_mset (add_mset t M). past_max u}) = insert (obs_dur t) ?S"
    using True by auto
  moreover have "Max (insert (obs_dur t) ?S) = max (obs_dur t) (Max ?S)" by (rule Max_insert) simp_all
  ultimately show ?thesis using True by (simp add: seen_max_def)
next
  case False
  then have "{u \<in> set_mset (add_mset t M). past_max u} = {u \<in> set_mset M. past_max u}" by auto
  with False show ?thesis by (simp add: seen_max_def)
qed

definition obs_inv :: "duration list \<Rightarrow> observer multiset \<Rightarrow> histogram \<Rightarrow> bool" where
  "obs_inv ds M h \<longleftrightarrow>
     image_mset obs_dur M = mset ds
   \<and> hg_buckets h = defaultBuckets \<and> length (hg_counts h) = Suc (length defaultBuckets)
   \<and> hg_max h = seen_max M
   \<and> (\<forall>d old. Loaded d old \<in># M \<longrightarrow> old \<le> hg_max h)
   \<and> hg_total h = (\<Sum>t\<in>#M. if past_total t then of_int (obs_dur t) else 0)
   \<and> hg_count h = (\<Sum>t\<in>#M. if past_count t then 1 else 0)
   \<and> (\<forall>i \<le> length defaultBuckets.
        hg_counts h ! i = (\<Sum>t\<in>#M. if finished t \<and> bucket_index defaultBuckets (obs_dur t) = i then 1 else 0))"

lemma obs_inv_step:
  assumes "obs_inv ds (add_mset t R) h" and "obs_step (t, h) (t', h')"
  shows "obs_inv ds (add_mset t' R) h'"
  using assms(2)
proof cases
  case (load d)
  with assms(1) show ?thesis unfolding obs_inv_def by (auto simp: seen_max_add)
next
  case (enough d old)
  have "old \<le> seen_max R" using assms(1) enough by (auto simp: obs_inv_def seen_max_add)
  with enough(4) have "d \<le> seen_max R" by simp
  with assms(1) enough show ?thesis unfolding obs_inv_def by (auto simp: seen_max_add max_def)
next
  case (swap d old)
  with assms(1) show ?thesis unfolding obs_inv_def by (fastforce simp: seen_max_add max_def)
next
  case (again d old)
  with assms(1) show ?thesis unfolding obs_inv_def by (auto simp: seen_max_add)
next
  case (total d)
  with assms(1) show ?thesis unfolding obs_inv_def by (auto simp: seen_max_add)
next
  case (count d)
  with assms(1) show ?thesis unfolding obs_inv_def by (auto simp: seen_max_add)
next
  case (bucket d)
  with assms(1) bucket_index_le [of defaultBuckets d] show ?thesis
    unfolding obs_inv_def count_bucket_def Let_def
    by (auto simp: nth_list_update seen_max_add)
qed

lemma obs_inv_together:
  assumes "together\<^sup>*\<^sup>* (ts, h) (ts', h')" and "obs_inv ds (mset ts) h"
  shows "obs_inv ds (mset ts') h'"
  using assms
proof (induction "(ts', h')" arbitrary: ts' h' rule: rtranclp_induct)
  case (step y)
  obtain us g where y: "y = (us, g)" by fastforce
  from step.hyps(2) [unfolded y] obtain i t' where i: "i < length us" "obs_step (us ! i, g) (t', h')" "ts' = us[i := t']"
    by (auto elim: together.cases)
  have us: "mset us = add_mset (us ! i) (mset us - {#us ! i#})" using i(1) by simp
  have "obs_inv ds (mset us) g" by (rule step.hyps(3) [OF y step.prems])
  with us have "obs_inv ds (add_mset (us ! i) (mset us - {#us ! i#})) g" by simp
  from obs_inv_step [OF this i(2)] i(1,3) show ?case by (simp add: mset_update)
qed

lemma obs_inv_start: "obs_inv ds (mset (map Start ds)) NewDurationHistogram"
proof -
  have e: "{t \<in> set_mset (mset (map Start ds)). past_max t} = {}" by auto
  have z: "sum_mset (image_mset f (image_mset Start (mset ds))) = (0 :: u64)"
    if "\<And>d. f (Start d) = 0" for f
    using that by (induction ds) simp_all
  show ?thesis
    unfolding obs_inv_def seen_max_def e
    by (auto simp: NewDurationHistogram_def multiset.map_comp comp_def z nth_replicate nth_Cons')
qed

lemma obs_inv_end:
  assumes "obs_inv ds (mset ts) h" and "\<forall>t \<in> set ts. finished t"
  shows "holds_obs ds h"
proof -
  let ?M = "mset ts" and ?N = "Suc (length defaultBuckets)"
  have p: "past_max t \<and> past_total t \<and> past_count t" if "t \<in># ?M" for t
    using assms(2) that by (cases t) auto
  have m: "image_mset obs_dur ?M = mset ds" using assms(1) by (simp add: obs_inv_def)
  have s: "(\<Sum>t\<in>#?M. f (obs_dur t)) = (\<Sum>d\<in>#mset ds. f d)" for f :: "duration \<Rightarrow> u64"
    by (simp add: m [symmetric] multiset.map_comp comp_def)
  have "{t \<in> set_mset ?M. past_max t} = set_mset ?M" using p by auto
  moreover have "obs_dur ` set_mset ?M = set ds" using m by (metis set_image_mset set_mset_mset)
  ultimately have "hg_max h = obs_max ds" using assms(1) by (simp add: obs_inv_def seen_max_def obs_max_def)
  moreover have "hg_total h = of_int (sum_list ds)"
  proof -
    have "hg_total h = (\<Sum>t\<in>#?M. if past_total t then of_int (obs_dur t) else 0)" using assms(1) by (simp add: obs_inv_def)
    also have "\<dots> = (\<Sum>t\<in>#?M. of_int (obs_dur t))"
      by (intro arg_cong [where f = sum_mset] image_mset_cong) (simp add: p)
    also have "\<dots> = (\<Sum>d\<in>#mset ds. of_int d)" by (rule s)
    also have "\<dots> = of_int (sum_list ds)" by (induction ds) simp_all
    finally show ?thesis .
  qed
  moreover have "hg_count h = of_nat (length ds)"
  proof -
    have "hg_count h = (\<Sum>t\<in>#?M. if past_count t then 1 else 0)" using assms(1) by (simp add: obs_inv_def)
    also have "\<dots> = (\<Sum>t\<in>#?M. 1)"
      by (intro arg_cong [where f = sum_mset] image_mset_cong) (simp add: p)
    also have "\<dots> = (\<Sum>d\<in>#mset ds. 1)" by (rule s)
    also have "\<dots> = of_nat (length ds)" by (induction ds) simp_all
    finally show ?thesis .
  qed
  moreover have "hg_counts h = map (\<lambda>i. of_nat (in_bucket i ds)) [0..<?N]"
  proof (rule nth_equalityI)
    show "length (hg_counts h) = length (map (\<lambda>i. of_nat (in_bucket i ds) :: u64) [0..<?N])"
      using assms(1) by (simp add: obs_inv_def)
    fix i
    assume "i < length (hg_counts h)"
    then have i: "i < ?N" using assms(1) by (simp add: obs_inv_def)
    then have "hg_counts h ! i = (\<Sum>t\<in>#?M. if finished t \<and> bucket_index defaultBuckets (obs_dur t) = i then 1 else 0)"
      using assms(1) i unfolding obs_inv_def less_Suc_eq_le by blast
    also have "\<dots> = (\<Sum>t\<in>#?M. if bucket_index defaultBuckets (obs_dur t) = i then 1 else 0)"
      by (intro arg_cong [where f = sum_mset] image_mset_cong) (use assms(2) in simp)
    also have "\<dots> = (\<Sum>d\<in>#mset ds. if bucket_index defaultBuckets d = i then 1 else 0)" by (rule s)
    also have "\<dots> = of_nat (in_bucket i ds)" by (induction ds) (simp_all add: in_bucket_def)
    finally show "hg_counts h ! i = map (\<lambda>i. of_nat (in_bucket i ds)) [0..<?N] ! i"
      using i by (simp del: upt_Suc)
  qed
  ultimately show ?thesis using assms(1) by (simp add: holds_obs_def obs_inv_def del: upt_Suc)
qed

lemma obs_inv_order: "mset es = mset ds \<Longrightarrow> obs_inv es M h = obs_inv ds M h"
  by (simp add: obs_inv_def)

text \<open>C29: However the steps of concurrent observations interleave, when all are done the histogram is the
  one that observing one after the other gives, in any order: no update of the maximum and no count
  is lost.\<close>

theorem observations_linearize:
  assumes "together\<^sup>*\<^sup>* (map Start ds, NewDurationHistogram) (ts, h)" and "\<forall>t \<in> set ts. finished t"
    and "mset es = mset ds"
  shows "h = fold Histogram_Observe es NewDurationHistogram"
proof -
  have "obs_inv ds (mset ts) h" by (rule obs_inv_together [OF assms(1) obs_inv_start])
  then have "obs_inv es (mset ts) h" by (simp only: obs_inv_order [OF assms(3)])
  from holds_unique [OF obs_inv_end [OF this assms(2)] holds_fold] show ?thesis .
qed

text \<open>Two observations: the smaller reads the maximum first, and has to start again.\<close>

lemma alone_first: "obs_step\<^sup>*\<^sup>* (a, h) (a', h') \<Longrightarrow> together\<^sup>*\<^sup>* ([a, b], h) ([a', b], h')"
proof (induction "(a', h')" arbitrary: a' h' rule: rtranclp_induct)
  case (step y)
  obtain a1 h1 where y: "y = (a1, h1)" by fastforce
  from together.intros [of 0 "[a1, b]" h1] step.hyps(2) y have "together ([a1, b], h1) ([a', b], h')" by simp
  with step.hyps(3) [OF y] show ?case by (rule rtranclp.rtrancl_into_rtrancl)
qed simp

lemma alone_second: "obs_step\<^sup>*\<^sup>* (b, h) (b', h') \<Longrightarrow> together\<^sup>*\<^sup>* ([a, b], h) ([a, b'], h')"
proof (induction "(b', h')" arbitrary: b' h' rule: rtranclp_induct)
  case (step y)
  obtain b1 h1 where y: "y = (b1, h1)" by fastforce
  from together.intros [of 1 "[a, b1]" h1] step.hyps(2) y have "together ([a, b1], h1) ([a, b'], h')" by simp
  with step.hyps(3) [OF y] show ?case by (rule rtranclp.rtrancl_into_rtrancl)
qed simp

lemma obs_rest: "\<exists>h'. obs_step\<^sup>*\<^sup>* (Maxed d, h) (Finished d, h')"
  using obs_step.total obs_step.count obs_step.bucket
  by (meson converse_rtranclp_into_rtranclp rtranclp.rtrancl_refl)

theorem observations_linearize_witness:
  "\<exists>h. together\<^sup>*\<^sup>* (map Start [5, 7], NewDurationHistogram) ([Finished 5, Finished 7], h)
     \<and> h = fold Histogram_Observe [7, 5] NewDurationHistogram"
proof -
  let ?h0 = NewDurationHistogram and ?h1 = "NewDurationHistogram \<lparr> hg_max := 7 \<rparr>"
  have m: "hg_max ?h0 = 0" by (simp add: NewDurationHistogram_def)
  have 1: "obs_step\<^sup>*\<^sup>* (Start 5, ?h0) (Loaded 5 0, ?h0)" using obs_step.load [of 5 ?h0] m by auto
  have "obs_step (Start 7, ?h0) (Loaded 7 0, ?h0)" using obs_step.load [of 7 ?h0] m by simp
  moreover have "obs_step (Loaded 7 0, ?h0) (Maxed 7, ?h1)" using m by (intro obs_step.swap) simp_all
  moreover obtain h2 where h2: "obs_step\<^sup>*\<^sup>* (Maxed 7, ?h1) (Finished 7, h2)" using obs_rest by blast
  ultimately have 2: "obs_step\<^sup>*\<^sup>* (Start 7, ?h0) (Finished 7, h2)" by (meson converse_rtranclp_into_rtranclp)
  obtain h3 where 3: "obs_step\<^sup>*\<^sup>* (Loaded 5 0, h2) (Finished 5, h3)"
  proof (cases "hg_max h2 = 0")
    case True
    then have "obs_step (Loaded 5 0, h2) (Maxed 5, h2 \<lparr> hg_max := 5 \<rparr>)" by (intro obs_step.swap) simp_all
    with obs_rest that show ?thesis by (meson converse_rtranclp_into_rtranclp)
  next
    case False
    then have a: "obs_step (Loaded 5 0, h2) (Start 5, h2)" by (intro obs_step.again) simp_all
    have l: "obs_step (Start 5, h2) (Loaded 5 (hg_max h2), h2)" by (rule obs_step.load)
    have "\<exists>h. obs_step (Loaded 5 (hg_max h2), h2) (Maxed 5, h)"
      using obs_step.enough [of 5 "hg_max h2" h2] obs_step.swap [of 5 "hg_max h2" h2] by blast
    with a l obs_rest that show ?thesis by (meson converse_rtranclp_into_rtranclp)
  qed
  have "together\<^sup>*\<^sup>* (map Start [5, 7], ?h0) ([Finished 5, Finished 7], h3)"
    using rtranclp_trans [OF rtranclp_trans [OF alone_first [OF 1] alone_second [OF 2]] alone_first [OF 3]]
    by (simp only: list.map)
  moreover from observations_linearize [OF this, of "[7, 5]"]
  have "h3 = fold Histogram_Observe [7, 5] ?h0" by simp
  ultimately show ?thesis by blast
qed

section \<open>Percentiles\<close>

text \<open>How many observations are at most this long.\<close>

definition at_most :: "duration \<Rightarrow> duration list \<Rightarrow> nat" where
  "at_most b ds = length (filter (\<lambda>d. d \<le> b) ds)"

lemma sint_of_nat_small: "n < 2 ^ 63 \<Longrightarrow> sint (of_nat n :: u64) = int n"
  by (simp add: signed_of_nat signed_take_bit_int_eq_self)

lemma counts_above:
  "map (\<lambda>i. of_nat (length (filter (\<lambda>d. bucket_index (b # bs) d = i) ds))) [0..<Suc (Suc (length bs))]
     = of_nat (at_most b ds)
       # map (\<lambda>i. of_nat (length (filter (\<lambda>d. bucket_index bs d = i) (filter (\<lambda>d. b < d) ds)))) [0..<Suc (length bs)]"
proof -
  have "[0..<Suc (Suc (length bs))] = 0 # map Suc [0..<Suc (length bs)]"
    by (simp add: upt_conv_Cons map_Suc_upt del: upt_Suc)
  moreover have "filter (\<lambda>d. bucket_index (b # bs) d = 0) ds = filter (\<lambda>d. d \<le> b) ds"
    by (rule filter_cong) auto
  moreover have "filter (\<lambda>d. bucket_index (b # bs) d = Suc i) ds = filter (\<lambda>d. bucket_index bs d = i) (filter (\<lambda>d. b < d) ds)" for i
    by (induction ds) auto
  ultimately show ?thesis by (simp add: at_most_def comp_def del: upt_Suc bucket_index.simps)
qed

lemma at_most_split: "b \<le> c \<Longrightarrow> at_most c ds = at_most b ds + at_most c (filter (\<lambda>d. b < d) ds)"
  by (induction ds) (auto simp: at_most_def)

lemma percentile_loop_spec:
  assumes "sorted_wrt (<) bs" and "int n < target" and "n + length ds < 2 ^ 63"
    and "r = percentile_loop bs
      (map (\<lambda>i. of_nat (length (filter (\<lambda>d. bucket_index bs d = i) ds))) [0..<Suc (length bs)]) lst target (of_nat n)"
  shows "(r \<in> set bs \<and> target \<le> int (n + at_most r ds) \<and> (\<forall>b \<in> set bs. b < r \<longrightarrow> int (n + at_most b ds) < target))
    \<or> (r = lst \<and> (\<forall>b \<in> set bs. int (n + at_most b ds) < target))"
  using assms
proof (induction bs arbitrary: n ds)
  case Nil
  then show ?case by (simp add: Let_def)
next
  case (Cons b bs)
  let ?m = "n + at_most b ds" and ?ds = "filter (\<lambda>d. b < d) ds"
  have split: "at_most b ds + length ?ds = length ds" unfolding at_most_def by (induction ds) auto
  then have m: "sint (of_nat ?m :: u64) = int ?m" using Cons.prems(3) by (intro sint_of_nat_small) simp
  have shift: "n + at_most c ds = ?m + at_most c ?ds" if "c \<in> set bs" for c
    using at_most_split [of b c ds] that Cons.prems(1) by auto
  note r = Cons.prems(4) [unfolded length_Cons counts_above percentile_loop.simps Let_def list.sel]
  show ?case
  proof (cases "target \<le> int ?m")
    case True
    with r m have "r = b" by simp
    with True Cons.prems(1) show ?thesis by auto
  next
    case False
    with r m have r': "r = percentile_loop bs
      (map (\<lambda>i. of_nat (length (filter (\<lambda>d. bucket_index bs d = i) ?ds))) [0..<Suc (length bs)]) lst target (of_nat ?m)"
      by (simp del: upt_Suc)
    have "sorted_wrt (<) bs" "int ?m < target" "?m + length ?ds < 2 ^ 63"
      using Cons.prems(1,3) False split by simp_all
    note ih = Cons.IH [OF this r']
    have b: "int (n + at_most b ds) < target" using False by simp
    from ih show ?thesis
    proof
      assume "r \<in> set bs \<and> target \<le> int (?m + at_most r ?ds) \<and> (\<forall>c\<in>set bs. c < r \<longrightarrow> int (?m + at_most c ?ds) < target)"
      with b show ?thesis by (intro disjI1) (simp add: shift del: of_nat_add)
    next
      assume "r = lst \<and> (\<forall>c\<in>set bs. int (?m + at_most c ?ds) < target)"
      with b show ?thesis by (intro disjI2) (simp add: shift del: of_nat_add)
    qed
  qed
qed

text \<open>A percentile of the observations is 0 if the count times the rate is below one; else it is the
  least bound of a bucket that at least so many observations respect, or the last bound if none is.\<close>

theorem percentile_spec:
  assumes "0 \<le> p" "p \<le> 1" and "length ds < 2 ^ 53" and "target = \<lfloor>f64 (of_nat (length ds) * p)\<rfloor>"
    and "r = Histogram_Percentile p (fold Histogram_Observe ds NewDurationHistogram)"
  shows "if target = 0 then r = 0
    else r \<in> set defaultBuckets \<and> (\<forall>b \<in> set defaultBuckets. b < r \<longrightarrow> int (at_most b ds) < target)
       \<and> (target \<le> int (at_most r ds) \<or> r = 30 * second)"
proof -
  let ?h = "fold Histogram_Observe ds NewDurationHistogram"
  have n: "length ds < 2 ^ 63" using assms(3) by simp
  from holds_fold [of ds] have h: "hg_buckets ?h = defaultBuckets"
    "hg_counts ?h = map (\<lambda>i. of_nat (length (filter (\<lambda>d. bucket_index defaultBuckets d = i) ds))) [0..<Suc (length defaultBuckets)]"
    "sint (hg_count ?h) = int (length ds)"
    using sint_of_nat_small [OF n] by (simp_all only: holds_obs_def in_bucket_def)
  have f: "f64 (of_int (int (length ds))) = of_nat (length ds)"
    using f64_of_int [of "int (length ds)"] assms(3) by simp
  have "0 \<le> target" unfolding assms(4) using assms(1) by (simp add: f64_nonneg)
  moreover have r: "r = (if target = 0 then 0
      else percentile_loop defaultBuckets
        (map (\<lambda>i. of_nat (length (filter (\<lambda>d. bucket_index defaultBuckets d = i) ds))) [0..<Suc (length defaultBuckets)])
        (last defaultBuckets) target 0)"
    using assms(1,2) unfolding assms(5) Histogram_Percentile_def h f assms(4) Let_def by simp
  moreover have "last defaultBuckets = 30 * second" "30 * second \<in> set defaultBuckets" "sorted_wrt (<) defaultBuckets"
    by (simp_all add: defaultBuckets_def)
  ultimately show ?thesis
    using percentile_loop_spec [of defaultBuckets 0 target ds r "30 * second"] n by auto
qed

text \<open>After one slow query all percentiles are still 0.\<close>

theorem one_query_percentiles:
  "Histogram_Percentile (f64 (99 / 100)) (Histogram_Observe (10 * second) NewDurationHistogram) = 0
   \<and> Histogram_Max (Histogram_Observe (10 * second) NewDurationHistogram) = 10 * second"
proof -
  have "\<lfloor>f64 (1 * f64 (99 / 100))\<rfloor> = 0" "0 \<le> f64 (99 / 100)" "f64 (99 / 100) \<le> 1" "f64 1 = 1" by code_simp+
  then show ?thesis
    by (simp add: Histogram_Percentile_def Histogram_Observe_def Histogram_Max_def count_bucket_def Let_def
        NewDurationHistogram_def)
qed

theorem percentile_spec_witness:
  "Histogram_Percentile (1 / 2) (fold Histogram_Observe [3 * ms, 7 * ms, 70 * second] NewDurationHistogram) = 5 * ms"
proof -
  let ?ds = "[3 * ms, 7 * ms, 70 * second]"
  let ?r = "Histogram_Percentile (1 / 2) (fold Histogram_Observe ?ds NewDurationHistogram)"
  have t: "\<lfloor>f64 (3 / 2)\<rfloor> = 1" by code_simp
  from percentile_spec [of "1 / 2" ?ds 1 ?r] have r: "?r \<in> set defaultBuckets"
    "\<forall>b \<in> set defaultBuckets. b < ?r \<longrightarrow> int (at_most b ?ds) < 1" "1 \<le> int (at_most ?r ?ds) \<or> ?r = 30 * second"
    by (simp_all add: t)
  have "5 * ms \<in> set defaultBuckets" "at_most (5 * ms) ?ds = 1" "at_most (1 * ms) ?ds = 0"
    by (simp_all add: defaultBuckets_def at_most_def)
  with r have "\<not> 5 * ms < ?r" "?r \<noteq> 1 * ms" by auto
  with r(1) show ?thesis by (auto simp: defaultBuckets_def)
qed

end
