(* ===== verification/TxScope.thy ===== *)
theory TxScope
  imports AgentPrelude
begin

text \<open>
  Transactions, \<open>src/internal/storage/tx.go\<close>: \<open>InTransaction\<close> opens a transaction through a runner, or
  runs its body in the one that the context tells of. The context is the flag that says whether it
  is inside a transaction. A body takes the context and the database and gives an error or none, or
  panics. The locale says what the documentation of the runner promises.
\<close>

section \<open>The scope\<close>

type_synonym 's tx_body = "bool \<Rightarrow> 's \<Rightarrow> go_error option outcome \<times> 's"
type_synonym 's tx_runner = "'s tx_body \<Rightarrow> 's tx_body"

definition TxErrFailed :: string where
  "TxErrFailed = ''storage: transaction failed''"

definition ErrTxRollback :: go_error where
  "ErrTxRollback = Sentinel ''storage: tx rollback''"

definition WithTx :: "bool \<Rightarrow> bool" where
  "WithTx ctx = True"

definition IsInTx :: "bool \<Rightarrow> bool" where
  "IsInTx ctx = ctx"

text \<open>The deferred function: a panic goes on with the text of the error around it; the stack is left out.\<close>

definition recover_tx :: "go_error option outcome \<times> 's \<Rightarrow> go_error option outcome \<times> 's" where
  "recover_tx res =
     (case res of
        (Panic r, s) \<Rightarrow> (Panic (TxErrFailed @ '': panic in tx: '' @ r), s)
      | (Return err, s) \<Rightarrow> (Return err, s))"

definition InTransaction :: "'s tx_runner \<Rightarrow> 's tx_body \<Rightarrow> 's tx_body" where
  "InTransaction runner fn ctx s =
     recover_tx
       (if IsInTx ctx then fn ctx s
        else runner (\<lambda>txCtx s. fn (WithTx txCtx) s) ctx s)"

section \<open>The runner\<close>

text \<open>
  What the comments of \<open>TxRunner\<close> promise: the runner gives its body's error or panic back and keeps
  the database then. After a body without an error it commits, and a commit that fails gives its
  error and keeps the database.
\<close>

definition commits :: "go_error option outcome \<Rightarrow> bool" where
  "commits r \<longleftrightarrow> r = Return None"

definition commit_or_fail :: "'s \<Rightarrow> 's \<Rightarrow> go_error option outcome \<times> 's \<Rightarrow> bool" where
  "commit_or_fail s s' res \<longleftrightarrow> res = (Return None, s') \<or> (\<exists>e. res = (Return (Some e), s))"

locale tx_contract =
  fixes run :: "'s tx_runner"
  assumes commit: "commits (fst (body ctx s)) \<Longrightarrow> commit_or_fail s (snd (body ctx s)) (run body ctx s)"
    and rollback: "\<not> commits (fst (body ctx s)) \<Longrightarrow> run body ctx s = (fst (body ctx s), s)"
begin

text \<open>A transaction from outside makes the whole change of its body or none.\<close>

lemma outer_commit:
  assumes "fst (fn True s) = Return None"
  shows "commit_or_fail s (snd (fn True s)) (InTransaction run fn False s)"
  using commit [of "\<lambda>c. fn (WithTx c)" False s] assms
  by (auto simp: InTransaction_def IsInTx_def WithTx_def recover_tx_def commits_def commit_or_fail_def)

lemma outer_error:
  assumes "fst (fn True s) = Return (Some e)"
  shows "InTransaction run fn False s = (Return (Some e), s)"
  using rollback [of "\<lambda>c. fn (WithTx c)" False s] assms
  by (simp add: InTransaction_def IsInTx_def WithTx_def recover_tx_def commits_def)

lemma outer_panic:
  assumes "fst (fn True s) = Panic m"
  shows "InTransaction run fn False s = (Panic (TxErrFailed @ '': panic in tx: '' @ m), s)"
  using rollback [of "\<lambda>c. fn (WithTx c)" False s] assms
  by (simp add: InTransaction_def IsInTx_def WithTx_def recover_tx_def commits_def)

end

text \<open>The runner as \<open>ent\<close> implements it, on a state that is kept aside; \<open>refuse\<close> is what the database
  answers to the commit of a state.\<close>

definition snapshot_runner :: "('s \<Rightarrow> go_error option) \<Rightarrow> 's tx_runner" where
  "snapshot_runner refuse body ctx s =
     (case body ctx s of
        (Return None, s') \<Rightarrow> (case refuse s' of None \<Rightarrow> (Return None, s') | Some e \<Rightarrow> (Return (Some e), s))
      | (Return (Some e), s') \<Rightarrow> (Return (Some e), s)
      | (Panic r, s') \<Rightarrow> (Panic r, s))"

interpretation ent_tx: tx_contract "snapshot_runner refuse"
  by unfold_locales
    (auto simp: snapshot_runner_def commits_def commit_or_fail_def
      split: prod.splits outcome.splits option.splits)

section \<open>Programs with nested transactions\<close>

text \<open>
  A program changes the database, fails, panics, opens a transaction with the context that it has,
  drops the error of a part, or does several of these in turn.
\<close>

datatype 's tx_prog =
    Change "'s \<Rightarrow> 's"
  | Fail go_error
  | Raise string
  | Tx "'s tx_prog"
  | Catch "'s tx_prog"
  | Both "'s tx_prog" "'s tx_prog"

fun exec :: "'s tx_runner \<Rightarrow> 's tx_prog \<Rightarrow> 's tx_body" where
  "exec run (Change f) ctx s = (Return None, f s)"
| "exec run (Fail e) ctx s = (Return (Some e), s)"
| "exec run (Raise m) ctx s = (Panic m, s)"
| "exec run (Tx p) ctx s = InTransaction run (\<lambda>c. exec run p c) ctx s"
| "exec run (Catch p) ctx s =
     (case exec run p ctx s of
        (Return e, s') \<Rightarrow> (Return None, s') | (Panic r, s') \<Rightarrow> (Panic r, s'))"
| "exec run (Both p q) ctx s =
     (case exec run p ctx s of
        (Return None, s') \<Rightarrow> exec run q ctx s'
      | other \<Rightarrow> other)"

text \<open>The same program with its transactions taken away, and how deep they were.\<close>

fun strip :: "'s tx_prog \<Rightarrow> 's tx_prog" where
  "strip (Tx p) = strip p"
| "strip (Catch p) = Catch (strip p)"
| "strip (Both p q) = Both (strip p) (strip q)"
| "strip p = p"

fun depth :: "'s tx_prog \<Rightarrow> nat" where
  "depth (Tx p) = Suc (depth p)"
| "depth (Catch p) = depth p"
| "depth (Both p q) = max (depth p) (depth q)"
| "depth p = 0"

definition wrap_panic :: "string \<Rightarrow> string" where
  "wrap_panic m = TxErrFailed @ '': panic in tx: '' @ m"

text \<open>The same outcome, but for at most \<open>k\<close> wrappings of a panic.\<close>

definition wrapped_upto ::
  "nat \<Rightarrow> go_error option outcome \<times> 's \<Rightarrow> go_error option outcome \<times> 's \<Rightarrow> bool" where
  "wrapped_upto k res res' \<longleftrightarrow>
     snd res = snd res'
   \<and> (case fst res' of
        Return e \<Rightarrow> fst res = Return e
      | Panic m \<Rightarrow> \<exists>n \<le> k. fst res = Panic ((wrap_panic ^^ n) m))"

lemma wrapped_return:
  "wrapped_upto k res (Return e, s) \<longleftrightarrow> res = (Return e, s)"
  by (auto simp: wrapped_upto_def prod_eq_iff)

lemma wrapped_panic:
  "wrapped_upto k res (Panic m, s) \<longleftrightarrow> (\<exists>n \<le> k. res = (Panic ((wrap_panic ^^ n) m), s))"
  by (auto simp: wrapped_upto_def prod_eq_iff)

lemmas wrapped_simps = wrapped_return wrapped_panic

lemma wrapped_mono: "wrapped_upto k res res' \<Longrightarrow> k \<le> l \<Longrightarrow> wrapped_upto l res res'"
  by (cases res'; cases "fst res'") (auto simp: wrapped_simps intro: order_trans)

lemma recover_wraps: "recover_tx (Panic m, s) = (Panic (wrap_panic m), s)" "recover_tx (Return e, s) = (Return e, s)"
  by (simp_all add: recover_tx_def wrap_panic_def)

text \<open>Inside a transaction the runner is not asked, and only the wrappings differ.\<close>

lemma inside_strip: "wrapped_upto (depth p) (exec run p True s) (exec run (strip p) True s)"
proof (induction p arbitrary: s)
  case (Tx p)
  have "exec run (Tx p) True s = recover_tx (exec run p True s)"
    by (simp add: InTransaction_def IsInTx_def)
  moreover obtain r s' where r: "exec run (strip p) True s = (r, s')" by (metis prod.collapse)
  ultimately have "wrapped_upto (Suc (depth p)) (exec run (Tx p) True s) (r, s')"
    using Tx [of s] by (cases r) (auto simp: wrapped_simps recover_wraps simp del: exec.simps
      intro: exI [of _ "Suc n" for n])
  with r show ?case by simp
next
  case (Catch p)
  obtain r s' where "exec run (strip p) True s = (r, s')" by (metis prod.collapse)
  with Catch [of s] show ?case by (cases r) (auto simp: wrapped_simps)
next
  case (Both p q)
  obtain r s' where r: "exec run (strip p) True s = (r, s')" by (metis prod.collapse)
  show ?case
  proof (cases "r = Return None")
    case True
    with r Both(1) [of s] wrapped_mono [OF Both(2) [of s'], of "max (depth p) (depth q)"]
    show ?thesis by (simp add: wrapped_simps)
  next
    case False
    with r wrapped_mono [OF Both(1) [of s], of "max (depth p) (depth q)"] show ?thesis
      by (cases r) (auto simp: wrapped_simps split: option.split)
  qed
qed (simp_all add: wrapped_upto_def)

text \<open>C28: Inside a transaction nothing commits or rolls back by itself. Take a program with
  transactions nested in any way, run in a transaction that is opened outside any other, over a
  runner that keeps the promise of \<open>TxRunner\<close>, and the same program without the inner transactions.
  If that program gives no error, the transaction makes its whole change, or the commit fails and
  nothing is changed; if it gives an error, the transaction gives that error and changes nothing;
  if it panics, the transaction changes nothing and panics with the text of that panic, wrapped at least
  once and at most once for each nested scope. In particular the work of an inner
  transaction that failed is committed when the program drops the error.\<close>

theorem nested_transactions_flatten:
  assumes "tx_contract run"
  shows "(case exec run (strip p) True s of
      (Return None, s') \<Rightarrow> commit_or_fail s s' (exec run (Tx p) False s)
    | (Return (Some e), s') \<Rightarrow> exec run (Tx p) False s = (Return (Some e), s)
    | (Panic m, s') \<Rightarrow>
        \<exists>n. 1 \<le> n \<and> n \<le> depth (Tx p) \<and> exec run (Tx p) False s = (Panic ((wrap_panic ^^ n) m), s))
    \<and> commit_or_fail s (g (f s))
        (exec run (Tx (Both (Catch (Tx (Both (Change f) (Fail e)))) (Change g))) False s)"
proof -
  note commit = tx_contract.outer_commit [OF assms] and error = tx_contract.outer_error [OF assms]
    and panic = tx_contract.outer_panic [OF assms, folded wrap_panic_def]
  obtain r s' where r: "exec run (strip p) True s = (r, s')" by (metis prod.collapse)
  note w = inside_strip [of p run s, unfolded r]
  have "case (r, s') of
      (Return None, s') \<Rightarrow> commit_or_fail s s' (exec run (Tx p) False s)
    | (Return (Some e), s') \<Rightarrow> exec run (Tx p) False s = (Return (Some e), s)
    | (Panic m, s') \<Rightarrow>
        \<exists>n. 1 \<le> n \<and> n \<le> depth (Tx p) \<and> exec run (Tx p) False s = (Panic ((wrap_panic ^^ n) m), s)"
  proof (cases r)
    case (Return e)
    with w commit [of "exec run p" s] error [of "exec run p" s] show ?thesis
      by (cases e) (auto simp: wrapped_simps)
  next
    case (Panic m)
    with w obtain n where "n \<le> depth p" "fst (exec run p True s) = Panic ((wrap_panic ^^ n) m)"
      by (auto simp: wrapped_simps)
    with panic [of "exec run p" s] Panic show ?thesis by (auto intro!: exI [of _ "Suc n"])
  qed
  moreover have "commit_or_fail s (g (f s))
      (exec run (Tx (Both (Catch (Tx (Both (Change f) (Fail e)))) (Change g))) False s)"
    using commit [of "exec run (Both (Catch (Tx (Both (Change f) (Fail e)))) (Change g))" s]
    by (simp add: InTransaction_def IsInTx_def recover_wraps)
  ultimately show ?thesis unfolding r by blast
qed

text \<open>The commit of the witness is refused above ten. The third program panics three scopes deep.\<close>

definition below_ten :: "nat \<Rightarrow> go_error option" where
  "below_ten n = (if n \<le> 10 then None else Some (Sentinel ''conflict''))"

theorem nested_transactions_flatten_witness:
  "exec (snapshot_runner below_ten)
       (Tx (Both (Catch (Tx (Both (Change (\<lambda>n. n + 1)) (Fail ErrTxRollback)))) (Change (\<lambda>n. n * 2)))) False 3
     = (Return None, 8)
   \<and> commit_or_fail 5 (12 :: nat)
       (exec (snapshot_runner below_ten)
         (Tx (Both (Catch (Tx (Both (Change (\<lambda>n. n + 1)) (Fail ErrTxRollback)))) (Change (\<lambda>n. n * 2)))) False 5)
   \<and> (\<exists>n. 1 \<le> n \<and> n \<le> 3 \<and> exec (snapshot_runner below_ten) (Tx (Tx (Tx (Raise ''nil map'')))) False 3
          = (Panic ((wrap_panic ^^ n) ''nil map''), 3))"
proof (intro conjI)
  show "exec (snapshot_runner below_ten)
       (Tx (Both (Catch (Tx (Both (Change (\<lambda>n. n + 1)) (Fail ErrTxRollback)))) (Change (\<lambda>n. n * 2)))) False 3
     = (Return None, 8)"
    by (simp add: InTransaction_def IsInTx_def WithTx_def recover_wraps snapshot_runner_def below_ten_def)
  show "commit_or_fail 5 (12 :: nat)
       (exec (snapshot_runner below_ten)
         (Tx (Both (Catch (Tx (Both (Change (\<lambda>n. n + 1)) (Fail ErrTxRollback)))) (Change (\<lambda>n. n * 2)))) False 5)"
    using nested_transactions_flatten [OF ent_tx.tx_contract_axioms [of below_ten], where s = 5
        and f = "\<lambda>n. n + 1" and g = "\<lambda>n. n * 2" and e = ErrTxRollback] by simp
  show "\<exists>n. 1 \<le> n \<and> n \<le> 3 \<and> exec (snapshot_runner below_ten) (Tx (Tx (Tx (Raise ''nil map'')))) False 3
          = (Panic ((wrap_panic ^^ n) ''nil map''), 3)"
    using nested_transactions_flatten [OF ent_tx.tx_contract_axioms [of below_ten], where s = 3
        and p = "Tx (Tx (Raise ''nil map''))"] by (simp add: numeral_3_eq_3)
qed

text \<open>The comment at the deferred function says that only the outermost scope handles a panic. Each
  scope on the way does, and wraps it again.\<close>

theorem panic_wrapped_twice:
  "fst (exec (snapshot_runner below_ten) (Tx (Tx (Raise m))) False s) = Panic (wrap_panic (wrap_panic m))"
  by (simp add: InTransaction_def IsInTx_def WithTx_def recover_wraps snapshot_runner_def)

end
