(* ===== verification/GatewayRouter.thy ===== *)
theory GatewayRouter
  imports GatewayApi GatewayMiddleware
begin

text \<open>
  The routes of the gateway (\<open>gateway/router/router.go\<close>, \<open>gateway/server.go\<close>): the table of patterns, the
  library's matching of paths (cleaning, trailing slashes, the longest subtree) and the JSON that
  passes between an endpoint and its client. A body is nothing, plain text that no JSON decoder
  accepts, or the JSON value it spells; strings in JSON are UTF-8. Percent escapes in paths and
  host patterns are left out, and so are the metrics and profiling handlers, which are parameters.
\<close>

section \<open>JSON values\<close>

datatype json =
    JNull
  | JBool bool
  | JInt int
  | JReal string
  | JStr string
  | JArr "json list"
  | JObj "(string \<times> json) list"

text \<open>
  How \<open>encoding/json\<close> fills a struct: every key of the object that equals the name of a field up to
  case sets the field, a later one again; \<open>null\<close> leaves a field as it is, and a value of another
  kind is an error. A document that is \<open>null\<close> leaves the struct as it is.
\<close>

definition json_fields :: "json \<Rightarrow> (string \<times> json) list option" where
  "json_fields v = (case v of JObj ps \<Rightarrow> Some ps | JNull \<Rightarrow> Some [] | _ \<Rightarrow> None)"

definition json_field :: "string \<Rightarrow> (string \<times> json) list \<Rightarrow> json list" where
  "json_field n ps = map snd (filter (\<lambda>(k, v). fold_case k = fold_case n) ps)"

fun read_string :: "json list \<Rightarrow> string \<Rightarrow> string option" where
  "read_string [] d = Some d"
| "read_string (JNull # vs) d = read_string vs d"
| "read_string (JStr s # vs) d = read_string vs s"
| "read_string (_ # vs) d = None"

fun read_uint :: "nat \<Rightarrow> json list \<Rightarrow> int \<Rightarrow> int option" where
  "read_uint w [] d = Some d"
| "read_uint w (JNull # vs) d = read_uint w vs d"
| "read_uint w (JInt i # vs) d = (if 0 \<le> i \<and> i < 2 ^ w then read_uint w vs i else None)"
| "read_uint w (_ # vs) d = None"

fun read_time :: "json list \<Rightarrow> time \<Rightarrow> time option" where
  "read_time [] d = Some d"
| "read_time (JNull # vs) d = read_time vs d"
| "read_time (JStr s # vs) d = (case parse_time s of None \<Rightarrow> None | Some t \<Rightarrow> read_time vs t)"
| "read_time (_ # vs) d = None"

definition string_field :: "string \<Rightarrow> (string \<times> json) list \<Rightarrow> string option" where
  "string_field n ps = read_string (json_field n ps) []"

definition uint_field :: "nat \<Rightarrow> string \<Rightarrow> (string \<times> json) list \<Rightarrow> int option" where
  "uint_field w n ps = read_uint w (json_field n ps) 0"

definition time_field :: "string \<Rightarrow> (string \<times> json) list \<Rightarrow> time option" where
  "time_field n ps = read_time (json_field n ps) zero_time"

section \<open>Messages\<close>

datatype wire_body = NoBody | Plain string | Spelled json

record wire_request =
  wq_Method :: string
  wq_Path :: string
  wq_Header :: "string \<Rightarrow> string"
  wq_Body :: wire_body

record wire_response =
  wr_Status :: nat
  wr_Location :: "string option"
  wr_Body :: wire_body

type_synonym 'w endpoint = "wire_request \<Rightarrow> 'w \<Rightarrow> wire_response \<times> 'w"

text \<open>What an endpoint decodes; an absent body is the error \<open>EOF\<close>.\<close>

definition body_fields :: "wire_body \<Rightarrow> (string \<times> json) list option" where
  "body_fields b = (case b of Spelled v \<Rightarrow> json_fields v | _ \<Rightarrow> None)"

definition decode_register :: "wire_body \<Rightarrow> api_register_request option" where
  "decode_register b =
     Option.bind (body_fields b) (\<lambda>ps.
     Option.bind (string_field ''uuid'' ps) (\<lambda>u.
     Option.bind (string_field ''owner'' ps) (\<lambda>ow.
     Option.bind (uint_field 8 ''level'' ps) (\<lambda>l.
     Option.bind (string_field ''public_key'' ps) (\<lambda>pk.
     Option.bind (uint_field 64 ''permissions'' ps) (\<lambda>p.
       Some \<lparr> arq_UUID = u, arq_Owner = ow, arq_Level = of_int l, arq_PublicKey = pk,
              arq_Permission = of_int p \<rparr>))))))"

definition decode_upgrade :: "wire_body \<Rightarrow> api_upgrade_body option" where
  "decode_upgrade b =
     Option.bind (body_fields b) (\<lambda>ps.
     Option.bind (uint_field 8 ''new_level'' ps) (\<lambda>l.
     Option.bind (string_field ''reason'' ps) (\<lambda>r.
     Option.bind (string_field ''actor'' ps) (\<lambda>a.
       Some \<lparr> aub_NewLevel = of_int l, aub_Reason = r, aub_Actor = a \<rparr>))))"

definition decode_check :: "wire_body \<Rightarrow> uint option" where
  "decode_check b =
     Option.bind (body_fields b) (\<lambda>ps. map_option of_int (uint_field 64 ''bit'' ps))"

definition decode_ban :: "wire_body \<Rightarrow> api_ban_body option" where
  "decode_ban b =
     Option.bind (body_fields b) (\<lambda>ps.
     Option.bind (string_field ''reason'' ps) (\<lambda>r.
     Option.bind (string_field ''actor'' ps) (\<lambda>a. Some \<lparr> abb_Reason = r, abb_Actor = a \<rparr>)))"

definition wire_bodies :: "wire_body \<Rightarrow> api_bodies" where
  "wire_bodies b = \<lparr> bd_upgrade = decode_upgrade b, bd_check = decode_check b, bd_ban = decode_ban b \<rparr>"

text \<open>What an endpoint encodes: structs without tags carry the names of their fields.\<close>

definition JWord :: "'a::len word \<Rightarrow> json" where
  "JWord x = JInt (uint x)"

definition JTime :: "time \<Rightarrow> json" where
  "JTime t = JStr (format_time t)"

definition JOpt :: "('a \<Rightarrow> json) \<Rightarrow> 'a option \<Rightarrow> json" where
  "JOpt f x = (case x of None \<Rightarrow> JNull | Some y \<Rightarrow> f y)"

text \<open>A map of integers to times has its keys in decimal, in the order of their texts.\<close>

definition JTimes :: "(uint \<times> time) list \<Rightarrow> json" where
  "JTimes m =
     (if m = [] then JNull
      else JObj (map (\<lambda>(k, t). (k, JTime t)) (sort_key fst (map (\<lambda>(b, t). (dec_of_nat (unat b), t)) m))))"

definition agent_json :: "agent \<Rightarrow> json" where
  "agent_json a = JObj
     [(''UUID'', JStr (ag_UUID a)), (''Owner'', JStr (ag_Owner a)), (''Level'', JWord (ag_Level a)),
      (''State'', JStr (ag_State a)), (''BanReason'', JStr (ag_BanReason a)),
      (''PublicKey'', JStr (ag_PublicKey a)), (''TxHash'', JStr (ag_TxHash a)),
      (''Signature'', JStr (ag_Signature a)), (''Permissions'', JWord (ag_Permissions a)),
      (''RegisteredAt'', JTime (ag_RegisteredAt a)), (''UpdatedAt'', JTime (ag_UpdatedAt a)),
      (''BannedAt'', JOpt JTime (ag_BannedAt a)), (''ExpiresAt'', JOpt JTime (ag_ExpiresAt a)),
      (''LastUpgradeBy'', JStr (ag_LastUpgradeBy a)), (''TempPermissions'', JTimes (ag_TempPermissions a))]"

definition chain_state_json :: "chain_agent_state \<Rightarrow> json" where
  "chain_state_json c = JObj
     [(''UUID'', JStr (cas_UUID c)), (''Level'', JWord (cas_Level c)), (''Banned'', JBool (cas_Banned c)),
      (''TxHash'', JStr (cas_TxHash c)), (''UpdatedAt'', JTime (cas_UpdatedAt c))]"

definition info_json :: "svc_agent_info \<Rightarrow> json" where
  "info_json i = JObj
     [(''UUID'', JStr (sai_UUID i)), (''Owner'', JStr (sai_Owner i)), (''Level'', JWord (sai_Level i)),
      (''State'', JStr (sai_State i)), (''Permissions'', JWord (sai_Permissions i)),
      (''PublicKey'', JStr (sai_PublicKey i)), (''TxHash'', JStr (sai_TxHash i)),
      (''RegisteredAt'', JTime (sai_RegisteredAt i)), (''UpdatedAt'', JTime (sai_UpdatedAt i)),
      (''ChainState'', JOpt chain_state_json (sai_ChainState i))]"

fun api_body_json :: "api_body \<Rightarrow> json" where
  "api_body_json (RegisterBody a tx blk) =
     JObj [(''agent'', agent_json a), (''block_number'', JWord blk), (''tx_hash'', JStr tx)]"
| "api_body_json (InfoBody i) = info_json i"
| "api_body_json (UpgradeBody r) = JObj
     [(''Agent'', agent_json (uap_Agent r)), (''OldLevel'', JWord (uap_OldLevel r)),
      (''NewLevel'', JWord (uap_NewLevel r)), (''TxHash'', JStr (uap_TxHash r)),
      (''UpgradedAt'', JTime (uap_UpgradedAt r))]"
| "api_body_json (CheckBody r) = JObj
     [(''Allowed'', JBool (cpp_Allowed r)), (''HasBit'', JBool (cpp_HasBit r)),
      (''Permissions'', JWord (cpp_Permissions r))]"
| "api_body_json (BanBody r) = JObj
     [(''Agent'', agent_json (bap_Agent r)), (''BannedAt'', JTime (bap_BannedAt r)), (''TxHash'', JStr (bap_TxHash r))]"
| "api_body_json (UnbanBody r) = JObj
     [(''Agent'', agent_json (unp_Agent r)), (''UnbannedAt'', JTime (unp_UnbannedAt r)), (''TxHash'', JStr (unp_TxHash r))]"
| "api_body_json (RevokeBody r) = JObj
     [(''Agent'', agent_json (rvp_Agent r)), (''RevokedAt'', JTime (rvp_RevokedAt r)), (''TxHash'', JStr (rvp_TxHash r))]"

text \<open>The text of an error is a parameter, since the errors of the model keep only what programs inspect.\<close>

definition answer_with :: "nat \<Rightarrow> wire_body \<Rightarrow> wire_response" where
  "answer_with st b = \<lparr> wr_Status = st, wr_Location = None, wr_Body = b \<rparr>"

fun write_reply :: "(go_error \<Rightarrow> string) \<Rightarrow> api_reply \<Rightarrow> wire_response" where
  "write_reply tx (ApiText n s) = answer_with n (Plain s)"
| "write_reply tx (ApiError n e) = answer_with n (Plain (tx e))"
| "write_reply tx (ApiJSON n b) = answer_with n (Spelled (api_body_json b))"

lemma wr_Status_write_reply [simp]: "wr_Status (write_reply tx r) = api_status r"
  by (cases r) (simp_all add: answer_with_def)

lemma wr_Location_write_reply [simp]: "wr_Location (write_reply tx r) = None"
  by (cases r) (simp_all add: answer_with_def)

section \<open>The multiplexer\<close>

text \<open>\<open>path.Clean\<close> of a rooted path, with its trailing slash kept.\<close>

fun clean_elems :: "string list \<Rightarrow> string list \<Rightarrow> string list" where
  "clean_elems [] acc = rev acc"
| "clean_elems (e # es) acc =
     (if e = [] \<or> e = ''.'' then clean_elems es acc
      else if e = ''..'' then clean_elems es (tl acc)
      else clean_elems es (e # acc))"

definition rooted :: "string list \<Rightarrow> string" where
  "rooted es = (if es = [] then ''/'' else concat (map (\<lambda>e. CHR ''/'' # e) es))"

definition cleanPath :: "string \<Rightarrow> string" where
  "cleanPath p =
     (let np = rooted (clean_elems (split_at (CHR ''/'') p) [])
      in if p \<noteq> [] \<and> last p = CHR ''/'' \<and> np \<noteq> ''/'' then np @ ''/'' else np)"

definition subtree_pattern :: "string \<Rightarrow> bool" where
  "subtree_pattern q \<longleftrightarrow> q \<noteq> [] \<and> last q = CHR ''/''"

text \<open>The handler of the longest subtree that holds the path.\<close>

fun longest_subtree :: "string \<Rightarrow> (string \<times> 'h) list \<Rightarrow> (string \<times> 'h) option" where
  "longest_subtree p [] = None"
| "longest_subtree p ((q, h) # rs) =
     (let r = longest_subtree p rs
      in if subtree_pattern q \<and> starts_with q p
            \<and> (case r of None \<Rightarrow> True | Some (q', h') \<Rightarrow> length q' \<le> length q)
         then Some (q, h) else r)"

definition mux_match :: "(string \<times> 'h) list \<Rightarrow> string \<Rightarrow> 'h option" where
  "mux_match rs p =
     (case map_of rs p of Some h \<Rightarrow> Some h | None \<Rightarrow> map_option snd (longest_subtree p rs))"

text \<open>A path that is no pattern itself but one without its trailing slash.\<close>

definition lacks_slash :: "(string \<times> 'h) list \<Rightarrow> string \<Rightarrow> bool" where
  "lacks_slash rs p \<longleftrightarrow>
     map_of rs p = None \<and> p \<noteq> [] \<and> last p \<noteq> CHR ''/'' \<and> map_of rs (p @ ''/'') \<noteq> None"

text \<open>
  The statuses of the two redirections depend on the version of the library: 301, and 307 for
  the trailing slash since Go 1.26.
\<close>

datatype redirection = TrailingSlash | CleanedPath

definition redirect_to :: "nat \<Rightarrow> string \<Rightarrow> wire_response" where
  "redirect_to st loc = \<lparr> wr_Status = st, wr_Location = Some loc, wr_Body = Plain ''moved'' \<rparr>"

definition NotFound :: wire_response where
  "NotFound = answer_with 404 (Plain ''404 page not found'')"

definition mux_serve :: "(redirection \<Rightarrow> nat) \<Rightarrow> (string \<times> 'w endpoint) list \<Rightarrow> 'w endpoint" where
  "mux_serve moved rs rq w =
     (let p = wq_Path rq; c = (if wq_Method rq = ''CONNECT'' then p else cleanPath p)
      in if lacks_slash rs c then (redirect_to (moved TrailingSlash) (c @ ''/''), w)
         else if c \<noteq> p then (redirect_to (moved CleanedPath) c, w)
         else case mux_match rs p of None \<Rightarrow> (NotFound, w) | Some h \<Rightarrow> h rq w)"

section \<open>The router\<close>

record 'w router_deps =
  rd_api :: "'w api_handler option"
  rd_CaptchaChallenge :: "'w endpoint option"
  rd_CaptchaVerify :: "'w endpoint option"
  rd_ready :: "'w ready_fn option"
  rd_library :: "string \<Rightarrow> 'w endpoint"
  rd_text :: "go_error \<Rightarrow> string"

definition probe_routes :: "'w router_deps \<Rightarrow> (string \<times> 'w endpoint) list" where
  "probe_routes d =
     [(''/live'', \<lambda>rq w. (write_reply (rd_text d) Live, w)),
      (''/readyz'', \<lambda>rq w. (write_reply (rd_text d) (Ready (rd_ready d) w), w)),
      (''/ready'', \<lambda>rq w. (write_reply (rd_text d) (Ready (rd_ready d) w), w)),
      (''/healthz'', \<lambda>rq w. (write_reply (rd_text d) (Healthz (rd_ready d) w), w))]"

definition library_routes :: "'w router_deps \<Rightarrow> (string \<times> 'w endpoint) list" where
  "library_routes d =
     map (\<lambda>p. (p, rd_library d p))
       [''/metrics'', ''/debug/pprof/'', ''/debug/pprof/cmdline'', ''/debug/pprof/profile'',
        ''/debug/pprof/symbol'', ''/debug/pprof/trace'']"

definition api_routes :: "'w router_deps \<Rightarrow> time \<Rightarrow> (string \<times> 'w endpoint) list" where
  "api_routes d now =
     (case rd_api d of None \<Rightarrow> []
      | Some h \<Rightarrow>
          [(''/api/v2/agents/register'', \<lambda>rq w.
              apfst (write_reply (rd_text d)) (Api_Register h now (wq_Method rq) (decode_register (wq_Body rq)) w)),
           (''/api/v2/agents/'', \<lambda>rq w.
              apfst (write_reply (rd_text d))
                (AgentByPath h now (wq_Method rq) (wq_Path rq) (wire_bodies (wq_Body rq)) w))]
          @ (case rd_CaptchaChallenge d of None \<Rightarrow> []
             | Some e \<Rightarrow> [(''/api/v2/captcha/moltcaptcha/challenge'', e)])
          @ (case rd_CaptchaVerify d of None \<Rightarrow> []
             | Some e \<Rightarrow> [(''/api/v2/captcha/moltcaptcha/verify'', e)]))"

definition router_register :: "'w router_deps \<Rightarrow> time \<Rightarrow> (string \<times> 'w endpoint) list" where
  "router_register d now = probe_routes d @ library_routes d @ api_routes d now"

definition Router_serve :: "(redirection \<Rightarrow> nat) \<Rightarrow> 'w router_deps \<Rightarrow> time \<Rightarrow> 'w endpoint" where
  "Router_serve moved d now = mux_serve moved (router_register d now)"

end
