(* ===== verification/GatewayServer.thy ===== *)
theory GatewayServer
  imports GatewayRouter
begin

text \<open>
  The server of the gateway (\<open>gateway/server.go\<close>): the chain of middlewares around the router. The
  main theorem composes the guards of the chain, the routes and the workflows.
\<close>

section \<open>Construction\<close>

record server_config =
  svc_Addr :: string
  svc_ReadTimeout :: duration
  svc_WriteTimeout :: duration
  svc_ShutdownTimeout :: duration

definition server_defaults :: "server_config \<Rightarrow> server_config" where
  "server_defaults c =
     \<lparr> svc_Addr = or_default (svc_Addr c) '':8080'',
       svc_ReadTimeout = (if svc_ReadTimeout c = 0 then 5 * second else svc_ReadTimeout c),
       svc_WriteTimeout = (if svc_WriteTimeout c = 0 then 30 * second else svc_WriteTimeout c),
       svc_ShutdownTimeout = (if svc_ShutdownTimeout c = 0 then 10 * second else svc_ShutdownTimeout c) \<rparr>"

text \<open>
  A request at the mux: what the middlewares have passed on, with the body \<open>b\<close> of the request.
  \<open>render\<close> writes JSON.
\<close>

definition wire_of :: "wire_body \<Rightarrow> http_request \<Rightarrow> wire_request" where
  "wire_of b r = \<lparr> wq_Method = hr_Method r, wq_Path = hr_Path r, wq_Header = hr_Header r, wq_Body = b \<rparr>"

text \<open>
  The headers that \<open>writeJSON\<close> and \<open>http.Error\<close> set. A plain answer below 400 comes from the probes and
  from a redirection, where the type is what the server finds by looking at the text.
\<close>

definition typed :: "wire_response \<Rightarrow> headers \<Rightarrow> headers" where
  "typed resp hs =
     (case wr_Body resp of
        Spelled v \<Rightarrow> set_header ''Content-Type'' ''application/json; charset=utf-8'' hs
      | Plain s \<Rightarrow>
          if 400 \<le> wr_Status resp
          then set_header ''X-Content-Type-Options'' ''nosniff''
                 (set_header ''Content-Type'' ''text/plain; charset=utf-8'' hs)
          else hs
      | NoBody \<Rightarrow> hs)"

definition written :: "(json \<Rightarrow> string) \<Rightarrow> wire_response \<Rightarrow> headers \<Rightarrow> http_response" where
  "written render resp hs =
     \<lparr> rs_status = wr_Status resp,
       rs_headers = (case wr_Location resp of None \<Rightarrow> typed resp hs | Some l \<Rightarrow> set_header ''Location'' l hs),
       rs_text = (case wr_Body resp of NoBody \<Rightarrow> [] | Plain s \<Rightarrow> s | Spelled v \<Rightarrow> render v) \<rparr>"

definition mux_handler :: "(json \<Rightarrow> string) \<Rightarrow> wire_body \<Rightarrow> 'w endpoint \<Rightarrow> 'w handler" where
  "mux_handler render b mux r hs w =
     (let (resp, w') = mux (wire_of b r) w in (Return (written render resp hs), w'))"

record 'w gateway_server =
  gs_cfg :: server_config
  gs_mw :: "'w middleware list"
  gs_mux :: "'w endpoint"

text \<open>Without a chain the mux is bare, and without a mux every path is unknown.\<close>

definition Gateway_NewServer ::
  "server_config \<Rightarrow> 'w middleware list option \<Rightarrow> 'w endpoint option \<Rightarrow> 'w gateway_server" where
  "Gateway_NewServer cfg mw mux =
     \<lparr> gs_cfg = server_defaults cfg, gs_mw = (case mw of None \<Rightarrow> [] | Some m \<Rightarrow> m),
       gs_mux = (case mux of None \<Rightarrow> mux_serve (\<lambda>_. 301) [] | Some m \<Rightarrow> m) \<rparr>"

definition Server_Handler :: "'w gateway_server \<Rightarrow> (json \<Rightarrow> string) \<Rightarrow> wire_body \<Rightarrow> 'w handler" where
  "Server_Handler s render b = Chain_Then (gs_mw s) (mux_handler render b (gs_mux s))"

section \<open>What a chain passes on\<close>

text \<open>
  A middleware that passes only what \<open>P\<close> admits leaves the state alone or takes the state from one
  call of the next handler, whose request differs in values of the context at most.
\<close>

definition same_target :: "http_request \<Rightarrow> http_request \<Rightarrow> bool" where
  "same_target r r' \<longleftrightarrow> hr_Method r' = hr_Method r \<and> hr_Path r' = hr_Path r \<and> hr_Header r' = hr_Header r"

definition passes :: "(http_request \<Rightarrow> bool) \<Rightarrow> 'w middleware \<Rightarrow> bool" where
  "passes P mw \<longleftrightarrow> (\<forall>h r hs w. snd (mw h r hs w) = w
     \<or> P r \<and> (\<exists>r' hs'. same_target r r' \<and> snd (mw h r hs w) = snd (h r' hs' w)))"

lemma same_target_refl [intro]: "same_target r r"
  by (simp add: same_target_def)

lemma same_target_context [intro]:
  "same_target r (r \<lparr> hr_request_id := i \<rparr>)" "same_target r (r \<lparr> hr_agent_uuid := a \<rparr>)"
  by (simp_all add: same_target_def)

lemma passesI:
  assumes "\<And>h r hs w. snd (mw h r hs w) = w
     \<or> P r \<and> (\<exists>r' hs'. same_target r r' \<and> snd (mw h r hs w) = snd (h r' hs' w))"
  shows "passes P mw"
  using assms by (auto simp: passes_def)

lemma passesD:
  assumes "passes P mw" "snd (mw h r hs w) \<noteq> w"
  shows "P r \<and> (\<exists>r' hs'. same_target r r' \<and> snd (mw h r hs w) = snd (h r' hs' w))"
  using assms unfolding passes_def by metis

lemma passes_Chain_Nil: "passes (\<lambda>r. True) (Chain_Then [])"
  by (auto simp: passes_def)

lemma passes_Chain_Cons:
  assumes "passes P mw" "passes Q (Chain_Then mws)" "\<And>r r'. same_target r r' \<Longrightarrow> Q r' \<Longrightarrow> Q r"
  shows "passes (\<lambda>r. P r \<and> Q r) (Chain_Then (mw # mws))"
proof (rule passesI)
  fix h :: "'a handler" and r hs w
  let ?n = "Chain_Then mws h"
  show "snd (Chain_Then (mw # mws) h r hs w) = w
      \<or> (P r \<and> Q r) \<and> (\<exists>r' hs'. same_target r r' \<and> snd (Chain_Then (mw # mws) h r hs w) = snd (h r' hs' w))"
  proof (cases "snd (mw ?n r hs w) = w")
    case False
    with assms(1) obtain r1 hs1 where 1: "P r" "same_target r r1" "snd (mw ?n r hs w) = snd (?n r1 hs1 w)"
      unfolding passes_def by metis
    with False have "snd (?n r1 hs1 w) \<noteq> w" by simp
    with assms(2) obtain r2 hs2 where "Q r1" "same_target r1 r2" "snd (?n r1 hs1 w) = snd (h r2 hs2 w)"
      unfolding passes_def by metis
    with 1 assms(3) show ?thesis
      by (metis (no_types, lifting) Chain_Then_Cons same_target_def)
  qed simp
qed

lemma snd_Recover: "snd (Recover h r hs w) = snd (h r hs w)"
  by (auto simp: Recover_def http_error_def respond_def split: prod.split outcome.split)

lemma passes_Recover: "passes (\<lambda>r. True) Recover"
  by (rule passesI) (metis snd_Recover same_target_refl)

lemma passes_RequestID: "passes (\<lambda>r. True) (RequestID i)"
  by (rule passesI) (auto simp: RequestID_def Let_def)

lemma passes_CORS: "passes (\<lambda>r. hr_Method r \<noteq> ''OPTIONS'') (CORS co)"
  by (rule passesI) (auto simp: CORS_def Let_def respond_def)

lemma passes_UABlock: "passes (ua_admits ua) (UABlock ua)"
  by (rule passesI) (auto simp: UABlock_def ua_admits_def Let_def list_ex_iff http_error_def respond_def)

lemma passes_APIKey: "passes (key_admits ak) (APIKey ak)"
  by (rule passesI)
    (auto simp: APIKey_def key_admits_def Let_def list_ex_iff unauthorized_def http_error_def respond_def)

lemma passes_Gateway_AAP: "passes (proof_shape pj) (Gateway_AAP pj)"
  by (rule passesI)
    (auto simp: Gateway_AAP_def proof_shape_def Let_def http_error_def respond_def split: sum.split option.split)

lemma passes_documented_chain:
  "passes (\<lambda>r. True \<and> True \<and> hr_Method r \<noteq> ''OPTIONS'' \<and> ua_admits ua r \<and> key_admits ak r \<and> proof_shape pj r \<and> True)
     (Chain_Then (documented_chain i co ua ak pj))"
  unfolding documented_chain_def
  by (intro passes_Chain_Cons passes_Chain_Nil passes_Recover passes_RequestID passes_CORS passes_UABlock
      passes_APIKey passes_Gateway_AAP)
    (auto simp: same_target_def ua_admits_def key_admits_def proof_shape_def Let_def)

section \<open>What the routes do\<close>

definition leaves_alone :: "('w \<Rightarrow> string \<Rightarrow> agent_record option) \<Rightarrow> ('w \<Rightarrow> string \<Rightarrow> u64) \<Rightarrow> 'w endpoint \<Rightarrow> bool" where
  "leaves_alone ids perms e \<longleftrightarrow> (\<forall>rq w. ids (snd (e rq w)) = ids w \<and> perms (snd (e rq w)) = perms w)"

text \<open>The handlers that are not part of the model do not touch the agents.\<close>

definition quiet_deps :: "('w \<Rightarrow> string \<Rightarrow> agent_record option) \<Rightarrow> ('w \<Rightarrow> string \<Rightarrow> u64) \<Rightarrow> 'w router_deps \<Rightarrow> bool" where
  "quiet_deps ids perms d \<longleftrightarrow> (\<forall>p. leaves_alone ids perms (rd_library d p))
     \<and> (\<forall>e. rd_CaptchaChallenge d = Some e \<or> rd_CaptchaVerify d = Some e \<longrightarrow> leaves_alone ids perms e)"

lemma longest_subtree_Some:
  "longest_subtree p rs = Some (q, h) \<Longrightarrow> (q, h) \<in> set rs \<and> subtree_pattern q \<and> starts_with q p"
  by (induction rs) (auto simp: Let_def split: if_splits prod.splits)

lemma mux_match_Some:
  "mux_match rs p = Some h \<Longrightarrow> \<exists>q. (q, h) \<in> set rs \<and> (q = p \<or> subtree_pattern q \<and> starts_with q p)"
  by (auto simp: mux_match_def dest!: map_of_SomeD longest_subtree_Some split: option.splits)

lemma rooted_split: "rooted (split_at (CHR ''/'') s) = CHR ''/'' # s"
proof (induction s)
  case (Cons c s)
  then show ?case by (cases "split_at (CHR ''/'') s") (auto simp: rooted_def split: if_splits)
qed (simp add: rooted_def)

lemma starts_with_self: "starts_with p p"
  by (simp add: starts_with_def)

lemma starts_with_split: "starts_with q p \<Longrightarrow> p = q @ drop (length q) p"
  by (metis append_take_drop_id starts_with_def)

lemma path_parts_two:
  assumes "starts_with ''/api/v2/agents/'' p" "path_parts p = [u, op]"
  shows "p = ''/api/v2/agents/'' @ u @ ''/'' @ op"
proof -
  obtain t where p: "p = ''/api/v2/agents/'' @ t" using starts_with_split [OF assms(1)] by blast
  then have "split_at (CHR ''/'') t = [u, op]"
    using assms(2) by (simp add: path_parts_def trim_prefix_def starts_with_def)
  with rooted_split [of t] p show ?thesis by (simp add: rooted_def)
qed

text \<open>An agent that a request to the routes changes is the one that the body or the path names.\<close>

definition may_change :: "wire_request \<Rightarrow> string \<Rightarrow> bool" where
  "may_change rq v \<longleftrightarrow> wq_Method rq = ''POST''
     \<and> (wq_Path rq = ''/api/v2/agents/register'' \<and> (\<exists>q. decode_register (wq_Body rq) = Some q \<and> arq_UUID q = v)
        \<or> (\<exists>op \<in> {''upgrade'', ''ban'', ''revoke''}. wq_Path rq = ''/api/v2/agents/'' @ v @ ''/'' @ op))"

lemma Api_Register_changes:
  assumes "api_contract st ids perms h"
    and "ids (snd (Api_Register h now meth body w)) v \<noteq> ids w v
      \<or> perms (snd (Api_Register h now meth body w)) v \<noteq> perms w v"
  shows "meth = ''POST'' \<and> (\<exists>q. body = Some q \<and> arq_UUID q = v)"
proof -
  from assms(2) obtain sv q r resp err w' where sv: "ap_RegisterSvc h = Some sv" "meth = ''POST''" "body = Some q"
    and h: "HandleRegister sv now (Some r) w = (resp, err, w')" "rar_UUID r = arq_UUID q"
    and w': "ids w' v \<noteq> ids w v \<or> perms w' v \<noteq> perms w v"
    by (auto simp: Api_Register_def Let_def split: option.splits if_splits prod.splits)
  from assms(1) sv(1) have "workflow_contract st ids perms sv" by (simp add: api_contract_def)
  from workflow_contract.register_effect [OF this h(1)] w' h(2) have "v = arq_UUID q"
    by (auto simp: workflow_contract.same_def [OF \<open>workflow_contract st ids perms sv\<close>] split: if_splits)
  with sv show ?thesis by simp
qed

lemma AgentByPath_changes:
  assumes "api_contract st ids perms h" "records_ok (ids w)" "starts_with ''/api/v2/agents/'' path"
    and "ids (snd (AgentByPath h now meth path bd w)) v \<noteq> ids w v
      \<or> perms (snd (AgentByPath h now meth path bd w)) v \<noteq> perms w v"
  shows "meth = ''POST'' \<and> (\<exists>op \<in> {''upgrade'', ''ban'', ''revoke''}. path = ''/api/v2/agents/'' @ v @ ''/'' @ op)"
proof -
  obtain rep w' where r: "AgentByPath h now meth path bd w = (rep, w')" by fastforce
  with assms(4) have "w' \<noteq> w" "\<not> only_agent ids perms (hd (path_parts path)) w w' \<or> v = hd (path_parts path)"
    by (auto simp: only_agent_def)
  with agent_path_effect [OF assms(1,2) r] obtain op where
    "meth = ''POST''" "v = hd (path_parts path)" "op \<in> {''upgrade'', ''ban'', ''revoke''}" "tl (path_parts path) = [op]"
    by auto
  with path_parts_two [OF assms(3), of v op] show ?thesis by (cases "path_parts path") auto
qed

lemma mux_serve_cases:
  "snd (mux_serve moved rs rq w) = w
   \<or> (\<exists>e q. (q, e) \<in> set rs \<and> (q = wq_Path rq \<or> subtree_pattern q \<and> starts_with q (wq_Path rq))
        \<and> mux_serve moved rs rq w = e rq w)"
proof (cases "mux_match rs (wq_Path rq)")
  case (Some e)
  from mux_match_Some [OF Some] Some show ?thesis by (auto simp: mux_serve_def Let_def)
qed (auto simp: mux_serve_def Let_def)

lemma Router_changes:
  assumes "api_contract st ids perms h" "records_ok (ids w)" "rd_api d = Some h" "quiet_deps ids perms d"
    and "ids (snd (Router_serve moved d now rq w)) v \<noteq> ids w v
      \<or> perms (snd (Router_serve moved d now rq w)) v \<noteq> perms w v"
  shows "may_change rq v"
proof -
  from mux_serve_cases [of moved "router_register d now" rq w] assms(5) obtain e q where
    e: "(q, e) \<in> set (router_register d now)" "q = wq_Path rq \<or> subtree_pattern q \<and> starts_with q (wq_Path rq)"
    and ch: "ids (snd (e rq w)) v \<noteq> ids w v \<or> perms (snd (e rq w)) v \<noteq> perms w v"
    by (auto simp: Router_serve_def)
  from ch have noisy: "\<not> leaves_alone ids perms e" unfolding leaves_alone_def by metis
  have probes: "(q, e) \<notin> set (probe_routes d)"
    using noisy by (auto simp: probe_routes_def leaves_alone_def)
  have library: "(q, e) \<notin> set (library_routes d)"
    using noisy assms(4) by (auto simp: library_routes_def quiet_deps_def)
  from e(1) have "(q, e) \<in> set (api_routes d now)"
    using probes library unfolding router_register_def by simp
  with noisy assms(3,4) consider
      (register) "q = ''/api/v2/agents/register''"
        "e = (\<lambda>rq w. apfst (write_reply (rd_text d))
                (Api_Register h now (wq_Method rq) (decode_register (wq_Body rq)) w))"
    | (agent) "q = ''/api/v2/agents/''"
        "e = (\<lambda>rq w. apfst (write_reply (rd_text d))
                (AgentByPath h now (wq_Method rq) (wq_Path rq) (wire_bodies (wq_Body rq)) w))"
    unfolding quiet_deps_def api_routes_def by (auto split: option.splits)
  then show ?thesis
  proof cases
    case register
    with e(2) have "wq_Path rq = ''/api/v2/agents/register''" by (auto simp: subtree_pattern_def)
    with Api_Register_changes [OF assms(1)] ch register(2) show ?thesis by (auto simp: may_change_def)
  next
    case agent
    from e(2) have "starts_with q (wq_Path rq)" by (metis starts_with_self)
    then have "starts_with ''/api/v2/agents/'' (wq_Path rq)" unfolding agent(1) .
    with AgentByPath_changes [OF assms(1,2) this] ch agent(2) show ?thesis by (auto simp: may_change_def)
  qed
qed

text \<open>C18: The gateway as a whole: a request changes an agent only when it is a POST that every guard of the
  documented chain admits, and it is either a registration whose body names that agent or goes to
  the path of that agent to upgrade, ban or revoke it.\<close>

theorem gateway_server_confines:
  assumes "api_contract st ids perms h" "records_ok (ids w)" "rd_api d = Some h" "quiet_deps ids perms d"
    and "s = Gateway_NewServer cfg (Some (documented_chain i co ua ak pj)) (Some (Router_serve moved d now))"
    and "w' = snd (Server_Handler s render b r hs w)"
    and "ids w' v \<noteq> ids w v \<or> perms w' v \<noteq> perms w v"
  shows "may_change (wire_of b r) v \<and> ua_admits ua r \<and> key_admits ak r \<and> proof_shape pj r"
proof -
  let ?h = "mux_handler render b (Router_serve moved d now)"
  have w': "w' = snd (Chain_Then (documented_chain i co ua ak pj) ?h r hs w)"
    by (simp add: assms(5,6) Server_Handler_def Gateway_NewServer_def)
  with assms(7) have "snd (Chain_Then (documented_chain i co ua ak pj) ?h r hs w) \<noteq> w" by auto
  with passesD [OF passes_documented_chain [of ua ak pj i co]] obtain r' hs' where
    p: "ua_admits ua r" "key_admits ak r" "proof_shape pj r" "same_target r r'" "w' = snd (?h r' hs' w)"
    unfolding w' by metis
  have "wire_of b r' = wire_of b r" using p(4) by (simp add: wire_of_def same_target_def)
  then have "w' = snd (Router_serve moved d now (wire_of b r) w)"
    unfolding p(5) by (simp only: mux_handler_def Let_def case_prod_beta snd_conv)
  with assms(7) have "ids (snd (Router_serve moved d now (wire_of b r) w)) v \<noteq> ids w v
      \<or> perms (snd (Router_serve moved d now (wire_of b r) w)) v \<noteq> perms w v" by (simp only:)
  from Router_changes [OF assms(1-4) this] p(1-3) show ?thesis by (intro conjI)
qed

definition mem_deps :: "mem_world router_deps" where
  "mem_deps = \<lparr> rd_api = Some mem_handler, rd_CaptchaChallenge = None, rd_CaptchaVerify = None,
     rd_ready = None, rd_library = (\<lambda>p rq w. (NotFound, w)), rd_text = (\<lambda>e. ''error'') \<rparr>"

definition register_body :: json where
  "register_body = JObj [(''uuid'', JStr (rar_UUID mem_request)), (''owner'', JStr (rar_Owner mem_request)),
     (''level'', JInt 1), (''public_key'', JStr (b64url_encode (replicate 32 (CHR ''k''))))]"

definition register_call :: http_request where
  "register_call = keyed_request \<lparr> hr_Method := ''POST'', hr_Path := ''/api/v2/agents/register'' \<rparr>"

definition mem_server :: "mem_world gateway_server" where
  "mem_server = Gateway_NewServer \<lparr> svc_Addr = [], svc_ReadTimeout = 0, svc_WriteTimeout = 0, svc_ShutdownTimeout = 0 \<rparr>
     (Some (documented_chain ''id'' DefaultCORSConfig DefaultUAConfig one_key forged_json))
     (Some (Router_serve (\<lambda>_. 307) mem_deps (Time 5)))"

lemma register_body_decoded: "decode_register (Spelled register_body) = Some mem_api_request"
  by (simp add: decode_register_def register_body_def body_fields_def json_fields_def string_field_def
      uint_field_def json_field_def mem_api_request_def)

lemma mem_quiet: "quiet_deps (\<lambda>w. map_of (mw_agents w)) mem_perms mem_deps"
  by (simp add: quiet_deps_def mem_deps_def leaves_alone_def)

lemma register_routed:
  "Router_serve (\<lambda>_. 307) mem_deps (Time 5) (wire_of (Spelled register_body) register_call) w
     = apfst (write_reply (rd_text mem_deps))
         (Api_Register mem_handler (Time 5) ''POST'' (decode_register (Spelled register_body)) w)"
  by (simp add: Router_serve_def mux_serve_def wire_of_def register_call_def cleanPath_def rooted_def
      lacks_slash_def mux_match_def router_register_def probe_routes_def library_routes_def api_routes_def
      mem_deps_def)

lemma register_admitted:
  "snd (Server_Handler mem_server render (Spelled register_body) register_call [] w)
     = snd (Router_serve (\<lambda>_. 307) mem_deps (Time 5) (wire_of (Spelled register_body) register_call) w)"
proof -
  have p: "parseAAPProof forged_json (b64url_encode ''x'') = Inr \<lparr> ap_AgentUUID = replicate 32 (CHR ''f''),
     ap_ChallengeID = ''c'', ap_PubKey = b64url_encode ''k'', ap_Sig = b64url_encode ''s'' \<rparr>"
    by (rule parse_written) (simp_all add: forged_json_def)
  have "\<exists>r' hs'. same_target register_call r' \<and>
      snd (Chain_Then (documented_chain ''id'' DefaultCORSConfig DefaultUAConfig one_key forged_json) h register_call [] w)
        = snd (h r' hs' w)" for h :: "mem_world handler"
    unfolding documented_chain_def Chain_Then_Cons Chain_Then_Nil snd_Recover
    by (simp add: RequestID_def CORS_def UABlock_def APIKey_def
        Gateway_AAP_def register_call_def keyed_request_def sample_http_def one_key_def isProbePath_def or_default_def
        ua_effective_def DefaultUAConfig_def HeaderAAPProof_def HeaderRequestID_def Let_def p
        verifyAAPProofStub_def contains_def starts_with_def DefaultCORSConfig_def)
      (rule exI, rule conjI [rotated], rule exI, rule refl, simp add: same_target_def)
  from this [of "mux_handler render (Spelled register_body) (Router_serve (\<lambda>_. 307) mem_deps (Time 5))"]
  obtain r' hs' where "same_target register_call r'"
    "snd (Server_Handler mem_server render (Spelled register_body) register_call [] w)
       = snd (mux_handler render (Spelled register_body) (Router_serve (\<lambda>_. 307) mem_deps (Time 5)) r' hs' w)"
    by (auto simp: mem_server_def Server_Handler_def Gateway_NewServer_def)
  moreover from this(1) have "wire_of (Spelled register_body) r' = wire_of (Spelled register_body) register_call"
    by (simp add: wire_of_def same_target_def)
  ultimately show ?thesis by (simp only: mux_handler_def Let_def case_prod_beta snd_conv)
qed

theorem gateway_server_confines_witness:
  "may_change (wire_of (Spelled register_body) register_call) (rar_UUID mem_request)"
proof -
  obtain rep w' where r: "Api_Register mem_handler (Time 5) ''POST'' (Some mem_api_request) empty_world = (rep, w')"
    and ch: "map_of (mw_agents w') (rar_UUID mem_request) \<noteq> None"
    using mem_api_register by blast
  have "snd (Server_Handler mem_server (\<lambda>_. []) (Spelled register_body) register_call [] empty_world) = w'"
    unfolding register_admitted register_routed register_body_decoded r by simp
  then have "map_of (mw_agents (snd (Server_Handler mem_server (\<lambda>_. []) (Spelled register_body) register_call [] empty_world)))
      (rar_UUID mem_request) \<noteq> map_of (mw_agents empty_world) (rar_UUID mem_request)"
    using ch by (simp add: empty_world_def)
  moreover have "records_ok (map_of (mw_agents empty_world))" "rd_api mem_deps = Some mem_handler"
    by (simp_all add: empty_world_def records_ok_def mem_deps_def)
  ultimately show ?thesis
    using gateway_server_confines [OF mem_handler_contract _ _ mem_quiet mem_server_def refl] by blast
qed

end
