(* ===== verification/CliClient.thy ===== *)
theory CliClient
  imports GatewayServer BackendFactory AapHandshake
begin

text \<open>
  The client library of the command line (\<open>internal/cli/client.go\<close>, \<open>internal/cli/aap.go\<close>): its
  configuration, the two modes, the calls over HTTP and the handshake. YAML, the private key
  formats and the parsing of addresses are parameters. The network is a function that answers a
  request or fails; the client of the library follows redirections.
\<close>

section \<open>Configuration\<close>

record cli_config =
  cl_Mode :: string
  cl_Gateway :: string
  cl_APIKey :: string
  cl_Backend :: string
  cl_Output :: string
  cl_TimeoutSeconds :: int

definition ModeLocal :: string where "ModeLocal = ''local''"
definition ModeRemote :: string where "ModeRemote = ''remote''"

definition Cli_DefaultConfig :: cli_config where
  "Cli_DefaultConfig = \<lparr> cl_Mode = ModeLocal, cl_Gateway = ''http://localhost:8080'', cl_APIKey = [],
     cl_Backend = ''mock'', cl_Output = ''json'', cl_TimeoutSeconds = 30 \<rparr>"

definition applyDefaults :: "cli_config \<Rightarrow> cli_config" where
  "applyDefaults c = c
     \<lparr> cl_Mode := or_default (cl_Mode c) ModeLocal,
       cl_Gateway := or_default (cl_Gateway c) ''http://localhost:8080'',
       cl_Backend := or_default (cl_Backend c) ''mock'',
       cl_Output := or_default (cl_Output c) ''json'',
       cl_TimeoutSeconds := (if cl_TimeoutSeconds c = 0 then 30 else cl_TimeoutSeconds c) \<rparr>"

text \<open>
  Files: what is on the disk, the paths that cannot be read or written, and the home directory, which
  is empty when it is unknown. YAML fills a given configuration.
\<close>

record disk =
  dk_files :: "(string \<times> string) list"
  dk_deny :: "string \<Rightarrow> go_error option"
  dk_home :: string

record cli_yaml =
  cy_read :: "string \<Rightarrow> cli_config \<Rightarrow> go_error + cli_config"
  cy_write :: "cli_config \<Rightarrow> go_error + string"

definition read_file :: "disk \<Rightarrow> string \<Rightarrow> go_error + string option" where
  "read_file dk p =
     (case dk_deny dk p of Some e \<Rightarrow> Inl e | None \<Rightarrow> Inr (map_of (dk_files dk) p))"

definition write_file :: "string \<Rightarrow> string \<Rightarrow> disk \<Rightarrow> go_error option \<times> disk" where
  "write_file p s dk =
     (case dk_deny dk p of Some e \<Rightarrow> (Some e, dk)
      | None \<Rightarrow> (None, dk \<lparr> dk_files := AList.update p s (dk_files dk) \<rparr>))"

definition config_file :: "string \<Rightarrow> string" where
  "config_file home = home @ ''/.agentid/config.yaml''"

definition defaultConfigPath :: "disk \<Rightarrow> string" where
  "defaultConfigPath dk = config_file (or_default (dk_home dk) ''.'')"

definition LoadConfig :: "cli_yaml \<Rightarrow> string \<Rightarrow> disk \<Rightarrow> go_error + cli_config" where
  "LoadConfig y path dk =
     (case read_file dk (if path = [] then defaultConfigPath dk else path) of
        Inl e \<Rightarrow> Inl (Errorf ''read config %s: %w'' [e])
      | Inr None \<Rightarrow> Inr Cli_DefaultConfig
      | Inr (Some s) \<Rightarrow>
          (case cy_read y s Cli_DefaultConfig of
             Inl e \<Rightarrow> Inl (Errorf ''parse config %s: %w'' [e])
           | Inr cfg \<Rightarrow> Inr (applyDefaults cfg)))"

definition EnsureConfigFile :: "cli_yaml \<Rightarrow> disk \<Rightarrow> (go_error + string) \<times> disk" where
  "EnsureConfigFile y dk =
     (let path = defaultConfigPath dk in
      case read_file dk path of
        Inr (Some s) \<Rightarrow> (Inr path, dk)
      | _ \<Rightarrow>
          (case cy_write y Cli_DefaultConfig of
             Inl e \<Rightarrow> (Inl (Errorf ''marshal default config: %w'' [e]), dk)
           | Inr s \<Rightarrow>
               (case write_file path s dk of
                  (Some e, dk') \<Rightarrow> (Inl (Errorf ''write %s: %w'' [e]), dk')
                | (None, dk') \<Rightarrow> (Inr path, dk'))))"

section \<open>The local backend\<close>

text \<open>What the factory builds for the client: a backend with the state that it has of its own.\<close>

datatype cli_local =
    CliLocal "(memory_persistence, unit) local_backend" memory_persistence
  | CliOnchain "(mock_adapter, unit) onchain_backend" mock_adapter
  | CliMock "(mock_adapter, memory_persistence, unit) hybrid_backend" mock_adapter memory_persistence

type_synonym cli_factory = "(mock_adapter, memory_persistence) factory_config"

definition backend_config :: "string \<Rightarrow> mock_adapter chain_adapter option \<Rightarrow> cli_factory" where
  "backend_config t ch = \<lparr> fc_Type = t, fc_OwnerKey = [], fc_CacheTTL = 0, fc_Persistence = None,
     fc_MaxLogsPerAgent = 0, fc_ChainAdapter = ch, fc_SyncInterval = 0, fc_SyncBatchSize = 0,
     fc_MockChainID = 0 \<rparr>"

text \<open>Without a persistence the factory builds no backend over a given one.\<close>

fun own_state :: "(mock_adapter, memory_persistence) built_backend \<Rightarrow> cli_local option" where
  "own_state (BuiltLocalMemory b s) = Some (CliLocal b s)"
| "own_state (BuiltOnchain b) = Some (CliOnchain b NewMockAdapter)"
| "own_state (BuiltMockMemory b m s) = Some (CliMock b m s)"
| "own_state _ = None"

definition buildLocalBackend :: "string \<Rightarrow> go_error + cli_local" where
  "buildLocalBackend typ =
     (let t = to_lower typ;
          build = (\<lambda>cfg. case NewBackend cfg of Inl e \<Rightarrow> Inl e | Inr b \<Rightarrow> Inr (the (own_state b)))
      in if t = ''local'' then build (backend_config TypeLocal None)
         else if t = ''mock'' then build (backend_config TypeMock None)
         else if t = ''onchain'' then build (backend_config TypeOnchain (Some mock_ops))
         else if t = ''hybrid'' then build (backend_config TypeHybrid (Some mock_ops))
         else Inl (Errorf ''unknown backend %q'' []))"

text \<open>The interface of a backend, dispatched on what was built; the cache is the one that does nothing.\<close>

record call_env =
  ev_backend :: backend_env
  ev_chain :: chain_env

fun be_RegisterAgent ::
  "call_env \<Rightarrow> backend_register_request \<Rightarrow> cli_local \<Rightarrow> (go_error + backend_credential) \<times> cli_local" where
  "be_RegisterAgent e rq (CliLocal b s) =
     (case Local_RegisterAgent b (ev_backend e) (Some rq) (s, ()) of (r, s', _) \<Rightarrow> (r, CliLocal b s'))"
| "be_RegisterAgent e rq (CliOnchain b m) =
     (case Onchain_RegisterAgent b (ev_backend e) (ev_chain e) (Some rq) (m, ()) of (r, m', _) \<Rightarrow> (r, CliOnchain b m'))"
| "be_RegisterAgent e rq (CliMock b m s) =
     (case Hybrid_RegisterAgent b (ev_backend e) (ev_chain e) (Some rq) (m, s, ()) of
        (r, m', s', _) \<Rightarrow> (r, CliMock b m' s'))"

fun be_GetAgentInfo :: "string \<Rightarrow> cli_local \<Rightarrow> (go_error + agent_info) \<times> cli_local" where
  "be_GetAgentInfo u (CliLocal b s) =
     (case Local_GetAgentInfo b u (s, ()) of (r, s', _) \<Rightarrow> (r, CliLocal b s'))"
| "be_GetAgentInfo u (CliOnchain b m) =
     (case Onchain_GetAgentInfo b u (m, ()) of (r, m', _) \<Rightarrow> (r, CliOnchain b m'))"
| "be_GetAgentInfo u (CliMock b m s) =
     (case Hybrid_GetAgentInfo b u (m, s, ()) of (r, m', s', _) \<Rightarrow> (r, CliMock b m' s'))"

fun be_UpdateAgentLevel :: "call_env \<Rightarrow> string \<Rightarrow> u8 \<Rightarrow> string \<Rightarrow> cli_local \<Rightarrow> go_error option \<times> cli_local" where
  "be_UpdateAgentLevel e u l rs (CliLocal b s) =
     (case Local_UpdateAgentLevel b (ev_backend e) u l rs (s, ()) of (r, s', _) \<Rightarrow> (r, CliLocal b s'))"
| "be_UpdateAgentLevel e u l rs (CliOnchain b m) =
     (case Onchain_UpdateAgentLevel b (ev_chain e) u l rs (m, ()) of (r, m', _) \<Rightarrow> (r, CliOnchain b m'))"
| "be_UpdateAgentLevel e u l rs (CliMock b m s) =
     (case Hybrid_UpdateAgentLevel b (ev_backend e) (ev_chain e) u l rs (m, s, ()) of
        (r, m', s', _) \<Rightarrow> (r, CliMock b m' s'))"

fun be_BanAgent :: "call_env \<Rightarrow> string \<Rightarrow> string \<Rightarrow> cli_local \<Rightarrow> go_error option \<times> cli_local" where
  "be_BanAgent e u rs (CliLocal b s) =
     (case Local_BanAgent b (ev_backend e) u rs (s, ()) of (r, s', _) \<Rightarrow> (r, CliLocal b s'))"
| "be_BanAgent e u rs (CliOnchain b m) =
     (case Onchain_BanAgent b (ev_chain e) u rs (m, ()) of (r, m', _) \<Rightarrow> (r, CliOnchain b m'))"
| "be_BanAgent e u rs (CliMock b m s) =
     (case Hybrid_BanAgent b (ev_backend e) (ev_chain e) u rs (m, s, ()) of (r, m', s', _) \<Rightarrow> (r, CliMock b m' s'))"

fun be_UnbanAgent :: "call_env \<Rightarrow> string \<Rightarrow> cli_local \<Rightarrow> go_error option \<times> cli_local" where
  "be_UnbanAgent e u (CliLocal b s) =
     (case Local_UnbanAgent b (ev_backend e) u (s, ()) of (r, s', _) \<Rightarrow> (r, CliLocal b s'))"
| "be_UnbanAgent e u (CliOnchain b m) =
     (case Onchain_UnbanAgent b (ev_chain e) u (m, ()) of (r, m', _) \<Rightarrow> (r, CliOnchain b m'))"
| "be_UnbanAgent e u (CliMock b m s) =
     (case Hybrid_UnbanAgent b (ev_backend e) (ev_chain e) u (m, s, ()) of (r, m', s', _) \<Rightarrow> (r, CliMock b m' s'))"

fun be_UnregisterAgent :: "call_env \<Rightarrow> string \<Rightarrow> cli_local \<Rightarrow> go_error option \<times> cli_local" where
  "be_UnregisterAgent e u (CliLocal b s) =
     (case Local_UnregisterAgent b (ev_backend e) u (s, ()) of (r, s', _) \<Rightarrow> (r, CliLocal b s'))"
| "be_UnregisterAgent e u (CliOnchain b m) =
     (case Onchain_UnregisterAgent b (ev_chain e) u (m, ()) of (r, m', _) \<Rightarrow> (r, CliOnchain b m'))"
| "be_UnregisterAgent e u (CliMock b m s) =
     (case Hybrid_UnregisterAgent b (ev_backend e) (ev_chain e) u (m, s, ()) of (r, m', s', _) \<Rightarrow> (r, CliMock b m' s'))"

fun be_GetChangeLogs :: "call_env \<Rightarrow> string \<Rightarrow> cli_local \<Rightarrow> go_error + backend_log list" where
  "be_GetChangeLogs e u (CliLocal b s) = Local_GetChangeLogs b u s"
| "be_GetChangeLogs e u (CliOnchain b m) = Onchain_GetChangeLogs (ev_backend e) u"
| "be_GetChangeLogs e u (CliMock b m s) = Hybrid_GetChangeLogs b u (m, s, ())"

text \<open>A batch may panic, and a nil map has no entries.\<close>

fun be_BatchGetAgentInfo :: "string list \<Rightarrow> cli_local \<Rightarrow> ((go_error + info_map) \<times> cli_local) outcome" where
  "be_BatchGetAgentInfo us (CliLocal b s) =
     Return (case Local_BatchGetAgentInfo b us s of
        (_, Some e) \<Rightarrow> Inl e | (None, None) \<Rightarrow> Inr [] | (Some m, None) \<Rightarrow> Inr m, CliLocal b s)"
| "be_BatchGetAgentInfo us (CliOnchain b m) =
     (case Onchain_BatchGetAgentInfo b us (m, ()) of (r, m', _) \<Rightarrow> Return (Inr r, CliOnchain b m'))"
| "be_BatchGetAgentInfo us (CliMock b m s) =
     (case Hybrid_BatchGetAgentInfo b us (m, s, ()) of
        Panic msg \<Rightarrow> Panic msg
      | Return (r, m', s', _) \<Rightarrow> Return (Inr (case r of None \<Rightarrow> [] | Some x \<Rightarrow> x), CliMock b m' s'))"

section \<open>The client\<close>

record aap_token =
  tk_token :: string
  tk_expiry :: time

definition token_set :: "time \<Rightarrow> string \<Rightarrow> duration \<Rightarrow> aap_token" where
  "token_set now tok expiresIn =
     \<lparr> tk_token = tok,
       tk_expiry = (if 0 < expiresIn then time_add now (expiresIn - 5 * second) else zero_time) \<rparr>"

definition token_clear :: aap_token where
  "token_clear = \<lparr> tk_token = [], tk_expiry = zero_time \<rparr>"

record cli_client =
  cc_cfg :: cli_config
  cc_local :: "cli_local option"
  cc_tok :: aap_token

definition NewClient :: "cli_config option \<Rightarrow> go_error + cli_client" where
  "NewClient cfg0 =
     (let cfg = applyDefaults (case cfg0 of None \<Rightarrow> Cli_DefaultConfig | Some c \<Rightarrow> c);
          c = \<lparr> cc_cfg = cfg, cc_local = None, cc_tok = token_clear \<rparr>
      in if cl_Mode cfg = ModeLocal
         then (case buildLocalBackend (cl_Backend cfg) of
                 Inl e \<Rightarrow> Inl (Errorf ''build local backend: %w'' [e])
               | Inr be \<Rightarrow> Inr (c \<lparr> cc_local := Some be \<rparr>))
         else Inr c)"

definition Client_Token :: "cli_client \<Rightarrow> string" where
  "Client_Token c = tk_token (cc_tok c)"

definition ClearToken :: "cli_client \<Rightarrow> cli_client" where
  "ClearToken c = c \<lparr> cc_tok := token_clear \<rparr>"

text \<open>An error of the client: the status of a gateway that refuses, or an error of Go.\<close>

datatype cli_error = GatewayError nat | ClientError go_error

section \<open>HTTP\<close>

text \<open>
  The network: how an address is read as a path, and what becomes of a request. The client of the
  library follows a redirection with a location; it drops the body and turns the method into GET
  for 301, 302 and 303, keeps both for 307 and 308, and gives up after ten requests.
\<close>

record 'w network =
  nw_target :: "string \<Rightarrow> go_error + string"
  nw_send :: "wire_request \<Rightarrow> 'w \<Rightarrow> (go_error + wire_response) \<times> 'w"

definition redirected :: "nat \<Rightarrow> string \<Rightarrow> wire_request \<Rightarrow> wire_request" where
  "redirected st loc rq =
     (if st \<in> {301, 302, 303} \<and> wq_Method rq \<notin> {''GET'', ''HEAD''}
      then rq \<lparr> wq_Method := ''GET'', wq_Path := loc, wq_Body := NoBody \<rparr>
      else if st \<in> {301, 302, 303} then rq \<lparr> wq_Path := loc, wq_Body := NoBody \<rparr>
      else rq \<lparr> wq_Path := loc \<rparr>)"

fun do_requests :: "nat \<Rightarrow> 'w network \<Rightarrow> wire_request \<Rightarrow> 'w \<Rightarrow> (go_error + wire_response) \<times> 'w" where
  "do_requests 0 nw rq w = (Inl (Errorf ''stopped after 10 redirects'' []), w)"
| "do_requests (Suc n) nw rq w =
     (case nw_send nw rq w of
        (Inl e, w') \<Rightarrow> (Inl e, w')
      | (Inr resp, w') \<Rightarrow>
          (case wr_Location resp of
             None \<Rightarrow> (Inr resp, w')
           | Some loc \<Rightarrow>
               if wr_Status resp \<in> {301, 302, 303, 307, 308}
               then do_requests n nw (redirected (wr_Status resp) loc rq) w'
               else (Inr resp, w')))"

definition http_Do :: "'w network \<Rightarrow> wire_request \<Rightarrow> 'w \<Rightarrow> (go_error + wire_response) \<times> 'w" where
  "http_Do nw rq w = do_requests 10 nw rq w"

definition trim_slashes :: "string \<Rightarrow> string" where
  "trim_slashes s = rev (dropWhile (\<lambda>c. c = CHR ''/'') (rev s))"

definition cli_headers :: "cli_config \<Rightarrow> bool \<Rightarrow> string \<Rightarrow> string" where
  "cli_headers cfg json =
     (\<lambda>_. []) (''Content-Type'' := (if json then ''application/json'' else []),
               ''X-API-Key'' := cl_APIKey cfg)"

text \<open>
  \<open>doJSON\<close>. The error of the gateway is its status; \<open>dec\<close> reads the body of a success, and an empty
  body leaves the result as it is.
\<close>

definition doJSON ::
  "'w network \<Rightarrow> cli_client \<Rightarrow> string \<Rightarrow> string \<Rightarrow> json option \<Rightarrow> (json \<Rightarrow> 'r option) \<Rightarrow> 'r \<Rightarrow> 'w \<Rightarrow>
   (cli_error + 'r) \<times> 'w" where
  "doJSON nw c meth path body dec zero w =
     (case nw_target nw (trim_slashes (cl_Gateway (cc_cfg c)) @ path) of
        Inl e \<Rightarrow> (Inl (ClientError (Errorf ''new request: %w'' [e])), w)
      | Inr p \<Rightarrow>
          (case http_Do nw
                  \<lparr> wq_Method = meth, wq_Path = p, wq_Header = cli_headers (cc_cfg c) (body \<noteq> None),
                    wq_Body = (case body of None \<Rightarrow> NoBody | Some v \<Rightarrow> Spelled v) \<rparr> w of
             (Inl e, w') \<Rightarrow> (Inl (ClientError (Errorf ''http: %w'' [e])), w')
           | (Inr resp, w') \<Rightarrow>
               if wr_Status resp = 200 \<or> wr_Status resp = 204
               then (case wr_Body resp of
                       NoBody \<Rightarrow> (Inr zero, w')
                     | Plain s \<Rightarrow> (if s = [] then Inr zero
                                   else Inl (ClientError (Errorf ''decode %s: %w'' [])), w')
                     | Spelled v \<Rightarrow>
                         (case dec v of
                            None \<Rightarrow> (Inl (ClientError (Errorf ''decode %s: %w'' [])), w')
                          | Some r \<Rightarrow> (Inr r, w')))
               else (Inl (GatewayError (wr_Status resp)), w')))"

section \<open>Messages\<close>

record cli_register_request =
  crq_Name :: string
  crq_Owner :: string
  crq_Level :: u8
  crq_Permission :: u64
  crq_PublicKey :: string
  crq_Metadata :: "(string \<times> string) list"

record cli_credential =
  ccr_UUID :: string
  ccr_Owner :: string
  ccr_Level :: u8
  ccr_State :: string
  ccr_Permission :: u64
  ccr_PublicKey :: string
  ccr_TxHash :: string
  ccr_CreatedAt :: time
  ccr_UpdatedAt :: time

record cli_info =
  cin_UUID :: string
  cin_Owner :: string
  cin_Level :: u8
  cin_State :: string
  cin_Permission :: u64
  cin_PublicKey :: string
  cin_TxHash :: string
  cin_RegisteredAt :: time
  cin_UpdatedAt :: time

record cli_log =
  clg_UUID :: string
  clg_Action :: string
  clg_Actor :: string
  clg_OldValue :: string
  clg_NewValue :: string
  clg_Reason :: string
  clg_TxHash :: string
  clg_OccurredAt :: time

definition unless_empty :: "string \<Rightarrow> json \<Rightarrow> bool \<Rightarrow> (string \<times> json) list" where
  "unless_empty n v e = (if e then [] else [(n, v)])"

definition register_json :: "cli_register_request \<Rightarrow> json" where
  "register_json r = JObj
     (unless_empty ''name'' (JStr (crq_Name r)) (crq_Name r = [])
      @ [(''owner'', JStr (crq_Owner r)), (''level'', JWord (crq_Level r)),
         (''permission'', JWord (crq_Permission r)), (''public_key'', JStr (crq_PublicKey r))]
      @ unless_empty ''metadata'' (JObj (map (map_prod id JStr) (sort_key fst (crq_Metadata r)))) (crq_Metadata r = []))"

definition zero_credential :: cli_credential where
  "zero_credential = \<lparr> ccr_UUID = [], ccr_Owner = [], ccr_Level = 0, ccr_State = [], ccr_Permission = 0,
     ccr_PublicKey = [], ccr_TxHash = [], ccr_CreatedAt = zero_time, ccr_UpdatedAt = zero_time \<rparr>"

definition zero_info :: cli_info where
  "zero_info = \<lparr> cin_UUID = [], cin_Owner = [], cin_Level = 0, cin_State = [], cin_Permission = 0,
     cin_PublicKey = [], cin_TxHash = [], cin_RegisteredAt = zero_time, cin_UpdatedAt = zero_time \<rparr>"

definition credential_of :: "json \<Rightarrow> cli_credential option" where
  "credential_of v =
     Option.bind (json_fields v) (\<lambda>ps.
     Option.bind (string_field ''uuid'' ps) (\<lambda>u. Option.bind (string_field ''owner'' ps) (\<lambda>ow.
     Option.bind (uint_field 8 ''level'' ps) (\<lambda>l. Option.bind (string_field ''state'' ps) (\<lambda>st.
     Option.bind (uint_field 64 ''permission'' ps) (\<lambda>p. Option.bind (string_field ''public_key'' ps) (\<lambda>pk.
     Option.bind (string_field ''tx_hash'' ps) (\<lambda>tx. Option.bind (time_field ''created_at'' ps) (\<lambda>cr.
     Option.bind (time_field ''updated_at'' ps) (\<lambda>up.
       Some \<lparr> ccr_UUID = u, ccr_Owner = ow, ccr_Level = of_int l, ccr_State = st, ccr_Permission = of_int p,
              ccr_PublicKey = pk, ccr_TxHash = tx, ccr_CreatedAt = cr, ccr_UpdatedAt = up \<rparr>))))))))))"

definition info_of :: "json \<Rightarrow> cli_info option" where
  "info_of v =
     Option.bind (json_fields v) (\<lambda>ps.
     Option.bind (string_field ''uuid'' ps) (\<lambda>u. Option.bind (string_field ''owner'' ps) (\<lambda>ow.
     Option.bind (uint_field 8 ''level'' ps) (\<lambda>l. Option.bind (string_field ''state'' ps) (\<lambda>st.
     Option.bind (uint_field 64 ''permission'' ps) (\<lambda>p. Option.bind (string_field ''public_key'' ps) (\<lambda>pk.
     Option.bind (string_field ''tx_hash'' ps) (\<lambda>tx. Option.bind (time_field ''registered_at'' ps) (\<lambda>rg.
     Option.bind (time_field ''updated_at'' ps) (\<lambda>up.
       Some \<lparr> cin_UUID = u, cin_Owner = ow, cin_Level = of_int l, cin_State = st, cin_Permission = of_int p,
              cin_PublicKey = pk, cin_TxHash = tx, cin_RegisteredAt = rg, cin_UpdatedAt = up \<rparr>))))))))))"

definition log_of :: "json \<Rightarrow> cli_log option" where
  "log_of v =
     Option.bind (json_fields v) (\<lambda>ps.
     Option.bind (string_field ''uuid'' ps) (\<lambda>u. Option.bind (string_field ''action'' ps) (\<lambda>ac.
     Option.bind (string_field ''actor'' ps) (\<lambda>ar. Option.bind (string_field ''old_value'' ps) (\<lambda>ov.
     Option.bind (string_field ''new_value'' ps) (\<lambda>nv. Option.bind (string_field ''reason'' ps) (\<lambda>rs.
     Option.bind (string_field ''tx_hash'' ps) (\<lambda>tx. Option.bind (time_field ''occurred_at'' ps) (\<lambda>oc.
       Some \<lparr> clg_UUID = u, clg_Action = ac, clg_Actor = ar, clg_OldValue = ov, clg_NewValue = nv,
              clg_Reason = rs, clg_TxHash = tx, clg_OccurredAt = oc \<rparr>)))))))))"

fun all_Some :: "'a option list \<Rightarrow> 'a list option" where
  "all_Some [] = Some []"
| "all_Some (None # xs) = None"
| "all_Some (Some x # xs) = map_option ((#) x) (all_Some xs)"

definition logs_of :: "json \<Rightarrow> cli_log list option" where
  "logs_of v = (case v of JArr vs \<Rightarrow> all_Some (map log_of vs) | JNull \<Rightarrow> Some [] | _ \<Rightarrow> None)"

definition infos_of :: "json \<Rightarrow> (string \<times> cli_info option) list option" where
  "infos_of v =
     (case v of
        JObj ps \<Rightarrow> all_Some (map (\<lambda>(k, v). if v = JNull then Some (k, None)
                      else map_option (\<lambda>i. (k, Some i)) (info_of v)) ps)
      | JNull \<Rightarrow> Some [] | _ \<Rightarrow> None)"

text \<open>A map of any values takes every object.\<close>

definition any_map :: "json \<Rightarrow> unit option" where
  "any_map v = map_option (\<lambda>_. ()) (json_fields v)"

definition credToDTO :: "backend_credential \<Rightarrow> cli_credential" where
  "credToDTO c = \<lparr> ccr_UUID = bc_UUID c, ccr_Owner = bc_Owner c, ccr_Level = bc_Level c,
     ccr_State = bc_State c, ccr_Permission = bc_Permission c, ccr_PublicKey = bc_PublicKey c,
     ccr_TxHash = bc_TxHash c, ccr_CreatedAt = bc_CreatedAt c, ccr_UpdatedAt = bc_UpdatedAt c \<rparr>"

definition infoToDTO :: "agent_info \<Rightarrow> cli_info" where
  "infoToDTO i = \<lparr> cin_UUID = ai_UUID i, cin_Owner = ai_Owner i, cin_Level = ai_Level i,
     cin_State = ai_State i, cin_Permission = ai_Permission i, cin_PublicKey = ai_PublicKey i,
     cin_TxHash = ai_TxHash i, cin_RegisteredAt = ai_RegisteredAt i, cin_UpdatedAt = ai_UpdatedAt i \<rparr>"

definition logToDTO :: "backend_log \<Rightarrow> cli_log" where
  "logToDTO l = \<lparr> clg_UUID = bl_UUID l, clg_Action = bl_Action l, clg_Actor = bl_Actor l,
     clg_OldValue = bl_OldValue l, clg_NewValue = bl_NewValue l, clg_Reason = bl_Reason l,
     clg_TxHash = bl_TxHash l, clg_OccurredAt = bl_OccurredAt l \<rparr>"

section \<open>The calls\<close>

text \<open>
  In local mode a call goes to the backend, whose absence panics; in any other mode it goes over the
  network.
\<close>

type_synonym ('r, 'w) cli_call = "((cli_error + 'r) \<times> cli_client \<times> 'w) outcome"

definition on_backend ::
  "(cli_local \<Rightarrow> (go_error + 'r) \<times> cli_local) \<Rightarrow> cli_client \<Rightarrow> 'w \<Rightarrow> ('r, 'w) cli_call" where
  "on_backend f c w =
     (case cc_local c of
        None \<Rightarrow> Panic ''nil pointer dereference''
      | Some be \<Rightarrow>
          (case f be of (r, be') \<Rightarrow> Return (map_sum ClientError id r, c \<lparr> cc_local := Some be' \<rparr>, w)))"

definition remotely :: "(cli_error + 'r) \<times> 'w \<Rightarrow> cli_client \<Rightarrow> ('r, 'w) cli_call" where
  "remotely rw c = (case rw of (r, w') \<Rightarrow> Return (r, c, w'))"

definition in_local_mode :: "cli_client \<Rightarrow> bool" where
  "in_local_mode c \<longleftrightarrow> cl_Mode (cc_cfg c) = ModeLocal"

text \<open>An error or nothing, as a result.\<close>

definition unit_result :: "go_error option \<Rightarrow> go_error + unit" where
  "unit_result e = (case e of None \<Rightarrow> Inr () | Some x \<Rightarrow> Inl x)"

definition registerLocal ::
  "call_env \<Rightarrow> cli_register_request \<Rightarrow> cli_client \<Rightarrow> 'w \<Rightarrow> (cli_credential, 'w) cli_call" where
  "registerLocal e rq c w =
     on_backend (\<lambda>be. apfst (map_sum id credToDTO) (be_RegisterAgent e
       \<lparr> rq_Owner = crq_Owner rq, rq_Level = crq_Level rq, rq_Permission = crq_Permission rq,
         rq_PublicKey = crq_PublicKey rq, rq_Metadata = crq_Metadata rq \<rparr> be)) c w"

definition Client_RegisterAgent ::
  "'w network \<Rightarrow> call_env \<Rightarrow> cli_register_request \<Rightarrow> cli_client \<Rightarrow> 'w \<Rightarrow> (cli_credential, 'w) cli_call" where
  "Client_RegisterAgent nw e rq c w =
     (if in_local_mode c then registerLocal e rq c w
      else remotely (doJSON nw c ''POST'' ''/api/v2/agents'' (Some (register_json rq)) credential_of zero_credential w) c)"

definition getInfoLocal :: "string \<Rightarrow> cli_client \<Rightarrow> 'w \<Rightarrow> (cli_info, 'w) cli_call" where
  "getInfoLocal u c w = on_backend (\<lambda>be. apfst (map_sum id infoToDTO) (be_GetAgentInfo u be)) c w"

definition Client_GetAgentInfo ::
  "'w network \<Rightarrow> string \<Rightarrow> cli_client \<Rightarrow> 'w \<Rightarrow> (cli_info, 'w) cli_call" where
  "Client_GetAgentInfo nw u c w =
     (if in_local_mode c then getInfoLocal u c w
      else remotely (doJSON nw c ''GET'' (''/api/v2/agents/'' @ u) None info_of zero_info w) c)"

definition Client_UpdateAgentLevel ::
  "'w network \<Rightarrow> call_env \<Rightarrow> string \<Rightarrow> u8 \<Rightarrow> string \<Rightarrow> cli_client \<Rightarrow> 'w \<Rightarrow> (unit, 'w) cli_call" where
  "Client_UpdateAgentLevel nw e u l rs c w =
     (if in_local_mode c then on_backend (apfst unit_result \<circ> be_UpdateAgentLevel e u l rs) c w
      else remotely (doJSON nw c ''POST'' (''/api/v2/agents/'' @ u @ ''/upgrade'')
        (Some (JObj [(''level'', JWord l), (''reason'', JStr rs)])) any_map () w) c)"

definition Client_BanAgent ::
  "'w network \<Rightarrow> call_env \<Rightarrow> string \<Rightarrow> string \<Rightarrow> cli_client \<Rightarrow> 'w \<Rightarrow> (unit, 'w) cli_call" where
  "Client_BanAgent nw e u rs c w =
     (if in_local_mode c then on_backend (apfst unit_result \<circ> be_BanAgent e u rs) c w
      else remotely (doJSON nw c ''POST'' (''/api/v2/agents/'' @ u @ ''/ban'')
        (Some (JObj [(''reason'', JStr rs)])) any_map () w) c)"

definition Client_UnbanAgent ::
  "'w network \<Rightarrow> call_env \<Rightarrow> string \<Rightarrow> cli_client \<Rightarrow> 'w \<Rightarrow> (unit, 'w) cli_call" where
  "Client_UnbanAgent nw e u c w =
     (if in_local_mode c then on_backend (apfst unit_result \<circ> be_UnbanAgent e u) c w
      else remotely (doJSON nw c ''POST'' (''/api/v2/agents/'' @ u @ ''/unban'') None any_map () w) c)"

definition Client_UnregisterAgent ::
  "'w network \<Rightarrow> call_env \<Rightarrow> string \<Rightarrow> cli_client \<Rightarrow> 'w \<Rightarrow> (unit, 'w) cli_call" where
  "Client_UnregisterAgent nw e u c w =
     (if in_local_mode c then on_backend (apfst unit_result \<circ> be_UnregisterAgent e u) c w
      else remotely (doJSON nw c ''POST'' (''/api/v2/agents/'' @ u @ ''/unregister'') None any_map () w) c)"

definition Client_GetChangeLogs ::
  "'w network \<Rightarrow> call_env \<Rightarrow> string \<Rightarrow> cli_client \<Rightarrow> 'w \<Rightarrow> (cli_log list, 'w) cli_call" where
  "Client_GetChangeLogs nw e u c w =
     (if in_local_mode c
      then on_backend (\<lambda>be. (map_sum id (map logToDTO) (be_GetChangeLogs e u be), be)) c w
      else remotely (doJSON nw c ''GET'' (''/api/v2/agents/'' @ u @ ''/logs'') None logs_of [] w) c)"

definition Client_BatchGetAgentInfo ::
  "'w network \<Rightarrow> string list \<Rightarrow> cli_client \<Rightarrow> 'w \<Rightarrow> ((string \<times> cli_info option) list, 'w) cli_call" where
  "Client_BatchGetAgentInfo nw us c w =
     (if in_local_mode c
      then (case cc_local c of
              None \<Rightarrow> Panic ''nil pointer dereference''
            | Some be \<Rightarrow>
                (case be_BatchGetAgentInfo us be of
                   Panic msg \<Rightarrow> Panic msg
                 | Return (r, be') \<Rightarrow>
                     Return (map_sum ClientError (map (\<lambda>(k, v). (k, Some (infoToDTO v)))) r,
                             c \<lparr> cc_local := Some be' \<rparr>, w)))
      else remotely (doJSON nw c ''POST'' ''/api/v2/agents/batch''
        (Some (JObj [(''uuids'', JArr (map JStr us))])) infos_of [] w) c)"

definition Client_HealthCheck :: "'w network \<Rightarrow> cli_client \<Rightarrow> 'w \<Rightarrow> (unit, 'w) cli_call" where
  "Client_HealthCheck nw c w =
     (if in_local_mode c then Return (Inr (), c, w)
      else remotely (doJSON nw c ''GET'' ''/healthz'' None (\<lambda>v. Some ()) () w) c)"

definition Client_Close :: "cli_client \<Rightarrow> go_error option \<times> cli_client" where
  "Client_Close c =
     (case cc_local c of
        Some (CliLocal b s) \<Rightarrow>
          (case Local_Close b of (r, b') \<Rightarrow> (r, c \<lparr> cc_local := Some (CliLocal b' s) \<rparr>))
      | Some (CliOnchain b m) \<Rightarrow> (Onchain_Close b, c)
      | Some (CliMock b m s) \<Rightarrow>
          (case Hybrid_Close b of (r, b') \<Rightarrow> (r, c \<lparr> cc_local := Some (CliMock b' m s) \<rparr>))
      | None \<Rightarrow> (None, c))"

section \<open>The handshake\<close>

abbreviation ErrAAPPrivateKeyEmpty :: go_error where
  "ErrAAPPrivateKeyEmpty \<equiv> Sentinel ''aap: empty private key''"
abbreviation ErrAAPPrivateKeyInvalid :: go_error where
  "ErrAAPPrivateKeyInvalid \<equiv> Sentinel ''aap: invalid private key (expect PKCS#8 PEM Ed25519)''"
abbreviation ErrAAPChallengeFailed :: go_error where
  "ErrAAPChallengeFailed \<equiv> Sentinel ''aap: challenge request failed''"
abbreviation ErrAAPProofFailed :: go_error where
  "ErrAAPProofFailed \<equiv> Sentinel ''aap: proof request failed''"
abbreviation ErrAAPTokenEmpty :: go_error where
  "ErrAAPTokenEmpty \<equiv> Sentinel ''aap: empty access token''"

record challenge_response =
  crs_ChallengeID :: string
  crs_Nonce :: string
  crs_IssuedAt :: time
  crs_ExpiresAt :: time
  crs_DomainSig :: string

record token_response =
  tr_AccessToken :: string
  tr_ExpiresIn :: int
  tr_TokenType :: string

record handshake_options =
  ho_PrivateKey :: string
  ho_PrivateKeyPath :: string

text \<open>The key library: the block of a PEM text, an Ed25519 key in PKCS\#8, and the key of a seed.\<close>

datatype pkcs8_key = Ed25519Key string | OtherKey | NoKey go_error

record key_library =
  kl_pem :: "string \<Rightarrow> string option"
  kl_pkcs8 :: "string \<Rightarrow> pkcs8_key"
  kl_seed :: "string \<Rightarrow> string"

definition loadEd25519PrivateKey :: "key_library \<Rightarrow> disk \<Rightarrow> string \<Rightarrow> string \<Rightarrow> go_error + string" where
  "loadEd25519PrivateKey kl dk blob path =
     (case (if path = [] then Inr blob
            else case read_file dk path of
              Inr (Some s) \<Rightarrow> Inr s
            | _ \<Rightarrow> Inl (Errorf ''%w: read %s: %v'' [ErrAAPPrivateKeyInvalid])) of
        Inl e \<Rightarrow> Inl e
      | Inr src \<Rightarrow>
          if src = [] then Inl ErrAAPPrivateKeyEmpty
          else if starts_with ''-----BEGIN'' src
          then (case kl_pem kl src of
                  None \<Rightarrow> Inl (Errorf ''%w: pem decode failed'' [ErrAAPPrivateKeyInvalid])
                | Some blk \<Rightarrow>
                    (case kl_pkcs8 kl blk of
                       NoKey _ \<Rightarrow> Inl (Errorf ''%w: parse pkcs8: %v'' [ErrAAPPrivateKeyInvalid])
                     | OtherKey \<Rightarrow> Inl (Errorf ''%w: not ed25519'' [ErrAAPPrivateKeyInvalid])
                     | Ed25519Key k \<Rightarrow> Inr k))
          else if length src = 64 then Inr src
          else if length src = 32 then Inr (kl_seed kl src)
          else Inl (Errorf ''%w: bad length %d'' [ErrAAPPrivateKeyInvalid]))"

definition challenge_of :: "json \<Rightarrow> challenge_response option" where
  "challenge_of v =
     Option.bind (json_fields v) (\<lambda>ps.
     Option.bind (string_field ''challenge_id'' ps) (\<lambda>i. Option.bind (string_field ''nonce'' ps) (\<lambda>n.
     Option.bind (time_field ''issued_at'' ps) (\<lambda>ia. Option.bind (time_field ''expires_at'' ps) (\<lambda>ex.
     Option.bind (string_field ''domain_sig'' ps) (\<lambda>sg.
       Some \<lparr> crs_ChallengeID = i, crs_Nonce = n, crs_IssuedAt = ia, crs_ExpiresAt = ex, crs_DomainSig = sg \<rparr>))))))"

fun read_int :: "json list \<Rightarrow> int \<Rightarrow> int option" where
  "read_int [] d = Some d"
| "read_int (JNull # vs) d = read_int vs d"
| "read_int (JInt i # vs) d = (if - (2 ^ 63) \<le> i \<and> i < 2 ^ 63 then read_int vs i else None)"
| "read_int (_ # vs) d = None"

definition token_of :: "json \<Rightarrow> token_response option" where
  "token_of v =
     Option.bind (json_fields v) (\<lambda>ps.
     Option.bind (string_field ''access_token'' ps) (\<lambda>a.
     Option.bind (read_int (json_field ''expires_in'' ps) 0) (\<lambda>x.
     Option.bind (string_field ''token_type'' ps) (\<lambda>t.
       Some \<lparr> tr_AccessToken = a, tr_ExpiresIn = x, tr_TokenType = t \<rparr>))))"

text \<open>The common part of the two requests: a POST whose success must decode.\<close>

definition aap_post ::
  "'w network \<Rightarrow> cli_client \<Rightarrow> string \<Rightarrow> json \<Rightarrow> go_error \<Rightarrow> (json \<Rightarrow> 'r option) \<Rightarrow> 'w \<Rightarrow> (go_error + 'r) \<times> 'w" where
  "aap_post nw c path v failed dec w =
     (case nw_target nw (trim_slashes (cl_Gateway (cc_cfg c)) @ path) of
        Inl e \<Rightarrow> (Inl e, w)
      | Inr p \<Rightarrow>
          (case http_Do nw \<lparr> wq_Method = ''POST'', wq_Path = p, wq_Header = cli_headers (cc_cfg c) True,
                  wq_Body = Spelled v \<rparr> w of
             (Inl e, w') \<Rightarrow> (Inl (Errorf ''%w: %v'' [failed]), w')
           | (Inr resp, w') \<Rightarrow>
               (if wr_Status resp \<noteq> 200 then Inl (Errorf ''%w: status=%d body=%s'' [failed])
                else case wr_Body resp of
                    Spelled b \<Rightarrow>
                      (case dec b of None \<Rightarrow> Inl (Errorf ''%w: decode: %v'' [failed]) | Some r \<Rightarrow> Inr r)
                  | _ \<Rightarrow> Inl (Errorf ''%w: decode: %v'' [failed]), w')))"

definition doChallenge :: "'w network \<Rightarrow> cli_client \<Rightarrow> 'w \<Rightarrow> (go_error + challenge_response) \<times> 'w" where
  "doChallenge nw c w =
     (case aap_post nw c ''/aap/challenge'' (JObj []) ErrAAPChallengeFailed challenge_of w of
        (Inl e, w') \<Rightarrow> (Inl e, w')
      | (Inr out, w') \<Rightarrow>
          (if crs_ChallengeID out = [] \<or> crs_Nonce out = []
           then Inl (Errorf ''%w: empty challenge fields'' [ErrAAPChallengeFailed]) else Inr out, w'))"

record proof_request =
  prq_ChallengeID :: string
  prq_Signature :: string
  prq_PublicKey :: string

definition doProof :: "'w network \<Rightarrow> cli_client \<Rightarrow> proof_request \<Rightarrow> 'w \<Rightarrow> (go_error + token_response) \<times> 'w" where
  "doProof nw c p w =
     (case aap_post nw c ''/aap/proof''
             (JObj [(''challenge_id'', JStr (prq_ChallengeID p)), (''signature'', JStr (prq_Signature p)),
                    (''public_key'', JStr (prq_PublicKey p))]) ErrAAPProofFailed token_of w of
        (Inl e, w') \<Rightarrow> (Inl e, w')
      | (Inr out, w') \<Rightarrow> (if tr_AccessToken out = [] then Inl ErrAAPTokenEmpty else Inr out, w'))"

text \<open>What the client signs.\<close>

definition cli_payload :: "challenge_response \<Rightarrow> string" where
  "cli_payload ch = crs_ChallengeID ch @ '':'' @ crs_Nonce ch @ '':'' @ format_time (crs_IssuedAt ch)"

definition AAPHandshake ::
  "ed25519 \<Rightarrow> key_library \<Rightarrow> disk \<Rightarrow> 'w network \<Rightarrow> time \<Rightarrow> handshake_options \<Rightarrow> cli_client \<Rightarrow> 'w \<Rightarrow>
   (go_error + token_response) \<times> cli_client \<times> 'w" where
  "AAPHandshake ed kl dk nw now opts c w =
     (case loadEd25519PrivateKey kl dk (ho_PrivateKey opts) (ho_PrivateKeyPath opts) of
        Inl e \<Rightarrow> (Inl e, c, w)
      | Inr priv \<Rightarrow>
          (case doChallenge nw c w of
             (Inl e, w1) \<Rightarrow> (Inl e, c, w1)
           | (Inr ch, w1) \<Rightarrow>
               (case doProof nw c
                       \<lparr> prq_ChallengeID = crs_ChallengeID ch,
                         prq_Signature = b64url_encode (ed_sign ed priv (cli_payload ch)),
                         prq_PublicKey = b64url_encode (drop 32 priv) \<rparr> w1 of
                  (Inl e, w2) \<Rightarrow> (Inl e, c, w2)
                | (Inr tok, w2) \<Rightarrow>
                    (Inr tok, c \<lparr> cc_tok := token_set now (tr_AccessToken tok) (s64 (tr_ExpiresIn tok * second)) \<rparr>, w2))))"

end
