(* ===== verification/CliRules.thy ===== *)
theory CliRules
  imports CliClient
begin

text \<open>
  What the client of the command line achieves. Against the routes of the gateway most of its calls
  cannot succeed; in local mode every process starts from nothing.
\<close>

section \<open>Plain paths\<close>

definition plain_chars :: "char set" where
  "plain_chars = set ''abcdefghijklmnopqrstuvwxyzABCDEFGHIJKLMNOPQRSTUVWXYZ0123456789-_''"

definition plain_name :: "string \<Rightarrow> bool" where
  "plain_name u \<longleftrightarrow> u \<noteq> [] \<and> set u \<subseteq> plain_chars"

lemma plain_no_slash: "plain_name u \<Longrightarrow> CHR ''/'' \<notin> set u"
  by (auto simp: plain_name_def plain_chars_def)

lemma plain_no_dot: "plain_name u \<Longrightarrow> u \<noteq> ''.'' \<and> u \<noteq> ''..''"
  by (auto simp: plain_name_def plain_chars_def)

lemma split_rooted:
  "\<forall>e \<in> set es. CHR ''/'' \<notin> set e \<Longrightarrow> split_at (CHR ''/'') (concat (map (\<lambda>e. CHR ''/'' # e) es)) = [] # es"
proof (induction es)
  case (Cons e es)
  then have "CHR ''/'' \<notin> set e" by simp
  moreover have "split_at (CHR ''/'') (x @ concat (map (\<lambda>e. CHR ''/'' # e) es)) = x # es"
    if "CHR ''/'' \<notin> set x" for x
    using that Cons by (induction x) auto
  ultimately show ?case by simp
qed simp

lemma clean_elems_plain: "\<forall>e \<in> set es. plain_name e \<Longrightarrow> clean_elems es acc = rev acc @ es"
proof (induction es arbitrary: acc)
  case (Cons e es)
  then have "e \<noteq> []" "e \<noteq> ''.''" "e \<noteq> ''..''" using plain_no_dot [of e] by (auto simp: plain_name_def)
  with Cons show ?case by simp
qed simp

lemma last_rooted: "es \<noteq> [] \<Longrightarrow> \<forall>e \<in> set es. plain_name e \<Longrightarrow> last (rooted es) \<noteq> CHR ''/''"
proof (induction es rule: rev_induct)
  case (snoc e es)
  then have "plain_name e" by simp
  then have "e \<noteq> []" "last e \<noteq> CHR ''/''"
    using plain_no_slash [of e] by (metis last_in_set plain_name_def)+
  then show ?case by (simp add: rooted_def)
qed simp

lemma cleanPath_plain:
  assumes "es \<noteq> []" "\<forall>e \<in> set es. plain_name e"
  shows "cleanPath (rooted es) = rooted es"
proof -
  have "split_at (CHR ''/'') (rooted es) = [] # es"
    using assms plain_no_slash by (simp add: rooted_def split_rooted)
  with last_rooted [OF assms] show ?thesis
    using clean_elems_plain [OF assms(2), of "[]"] assms(1)
    by (simp add: cleanPath_def)
qed

section \<open>Agent paths at the router\<close>

definition agent_path :: "string list \<Rightarrow> string" where
  "agent_path es = rooted ([''api'', ''v2'', ''agents''] @ es)"

lemma api_names: "plain_name ''api''" "plain_name ''v2''" "plain_name ''agents''"
  by (simp_all add: plain_name_def plain_chars_def)

lemma agent_path_eq: "agent_path es = ''/api/v2/agents'' @ concat (map (\<lambda>e. CHR ''/'' # e) es)"
  by (simp add: agent_path_def rooted_def)

lemma agent_path_chars:
  assumes "\<forall>e \<in> set es. plain_name e"
  shows "set (agent_path es) \<subseteq> insert (CHR ''/'') plain_chars"
proof -
  have "set ''/api/v2/agents'' \<subseteq> insert (CHR ''/'') plain_chars" by (simp add: plain_chars_def)
  moreover have "\<forall>e \<in> set es. set e \<subseteq> plain_chars" using assms by (simp add: plain_name_def)
  ultimately show ?thesis unfolding agent_path_eq set_append set_concat by (auto simp del: insert_subset)
qed

lemma cleanPath_agent: "\<forall>e \<in> set es. plain_name e \<Longrightarrow> cleanPath (agent_path es) = agent_path es"
  unfolding agent_path_def by (rule cleanPath_plain) (auto simp: api_names)

text \<open>The subpaths of an agent and its own path reach the dispatcher, unless the name is \<open>register\<close>.\<close>

lemma mux_clean:
  assumes "cleanPath (wq_Path rq) = wq_Path rq"
  shows "mux_serve moved rs rq w =
    (if lacks_slash rs (wq_Path rq) then (redirect_to (moved TrailingSlash) (wq_Path rq @ ''/''), w)
     else case mux_match rs (wq_Path rq) of None \<Rightarrow> (NotFound, w) | Some h \<Rightarrow> h rq w)"
  using assms by (simp add: mux_serve_def Let_def)

lemmas route_tables = router_register_def probe_routes_def library_routes_def api_routes_def

lemma router_agent:
  assumes "rd_api d = Some h" "\<forall>e \<in> set es. plain_name e" "es \<noteq> []" "es \<noteq> [''register'']"
    and "wq_Path rq = agent_path es"
  shows "Router_serve moved d now rq w
    = apfst (write_reply (rd_text d)) (AgentByPath h now (wq_Method rq) (wq_Path rq) (wire_bodies (wq_Body rq)) w)"
proof -
  obtain u us where es: "es = u # us" using assms(3) by (cases es) auto
  have p: "wq_Path rq = ''/api/v2/agents/'' @ u @ concat (map (\<lambda>e. CHR ''/'' # e) us)"
    using assms(5) by (simp add: agent_path_eq es)
  have char_register: "CHR ''/'' \<notin> set ''register''" by simp
  have tail: "u @ concat (map (\<lambda>e. CHR ''/'' # e) us) \<noteq> ''register''"
  proof
    assume eq: "u @ concat (map (\<lambda>e. CHR ''/'' # e) us) = ''register''"
    have "CHR ''/'' \<notin> set (concat (map (\<lambda>e. CHR ''/'' # e) us))"
      using char_register by (metis Un_iff eq set_append)
    then have "us = []" by (cases us) auto
    with eq es assms(4) show False by simp
  qed
  have clean: "cleanPath (wq_Path rq) = wq_Path rq"
    using cleanPath_agent [OF assms(2)] assms(5) by simp
  have rs: "router_register d now = probe_routes d @ library_routes d @ api_routes d now"
    by (rule router_register_def)
  have u: "u \<noteq> []" using assms(2) by (simp add: es plain_name_def)
  have none: "map_of (router_register d now) (wq_Path rq) = None"
    unfolding p map_of_eq_None_iff using tail u
    by (auto simp: router_register_def probe_routes_def library_routes_def api_routes_def assms(1)
        split: option.splits)
  have slash: "map_of (router_register d now) (wq_Path rq @ ''/'') = None"
    unfolding p map_of_eq_None_iff using u
    by (auto simp: router_register_def probe_routes_def library_routes_def api_routes_def assms(1)
        split: option.splits dest: arg_cong [of _ _ last])
  have "map_option snd (longest_subtree (wq_Path rq) (router_register d now)) = Some (\<lambda>rq w.
      apfst (write_reply (rd_text d)) (AgentByPath h now (wq_Method rq) (wq_Path rq) (wire_bodies (wq_Body rq)) w))"
    unfolding p
    by (simp add: router_register_def probe_routes_def library_routes_def api_routes_def assms(1)
        subtree_pattern_def starts_with_def split: option.split)
  with none have "mux_match (router_register d now) (wq_Path rq) = Some (\<lambda>rq w.
      apfst (write_reply (rd_text d)) (AgentByPath h now (wq_Method rq) (wq_Path rq) (wire_bodies (wq_Body rq)) w))"
    by (simp add: mux_match_def)
  with none slash show ?thesis
    unfolding Router_serve_def mux_clean [OF clean] by (simp add: lacks_slash_def)
qed

text \<open>The collection of agents is no route of its own.\<close>

lemma router_collection:
  assumes "rd_api d = Some h"
  shows "wq_Path rq = ''/api/v2/agents'' \<Longrightarrow>
      Router_serve moved d now rq w = (redirect_to (moved TrailingSlash) ''/api/v2/agents/'', w)"
    and "wq_Path rq = ''/api/v2/agents/'' \<Longrightarrow>
      Router_serve moved d now rq w = (answer_with 400 (Plain ''missing uuid''), w)"
proof -
  have "lacks_slash (router_register d now) ''/api/v2/agents''"
    using assms by (simp add: lacks_slash_def route_tables split: option.split)
  moreover have "cleanPath ''/api/v2/agents'' = ''/api/v2/agents''" by (simp add: cleanPath_def rooted_def)
  ultimately show "wq_Path rq = ''/api/v2/agents'' \<Longrightarrow>
      Router_serve moved d now rq w = (redirect_to (moved TrailingSlash) ''/api/v2/agents/'', w)"
    unfolding Router_serve_def by (subst mux_clean) simp_all
  have "\<not> lacks_slash (router_register d now) ''/api/v2/agents/''" by (simp add: lacks_slash_def)
  moreover have "cleanPath ''/api/v2/agents/'' = ''/api/v2/agents/''" by (simp add: cleanPath_def rooted_def)
  moreover have "mux_match (router_register d now) ''/api/v2/agents/'' = Some (\<lambda>rq w.
      apfst (write_reply (rd_text d)) (AgentByPath h now (wq_Method rq) (wq_Path rq) (wire_bodies (wq_Body rq)) w))"
    using assms by (simp add: mux_match_def route_tables)
  moreover have "AgentByPath h now m ''/api/v2/agents/'' bd w = (ApiText 400 ''missing uuid'', w)" for m bd
    by (simp add: AgentByPath_def path_parts_def trim_prefix_def starts_with_def)
  ultimately show "wq_Path rq = ''/api/v2/agents/'' \<Longrightarrow>
      Router_serve moved d now rq w = (answer_with 400 (Plain ''missing uuid''), w)"
    unfolding Router_serve_def by (subst mux_clean) simp_all
qed

text \<open>No route leads to the handshake.\<close>

lemma router_no_handshake:
  assumes "wq_Path rq = ''/aap/challenge''"
  shows "Router_serve moved d now rq w = (NotFound, w)"
proof -
  have "\<not> lacks_slash (router_register d now) ''/aap/challenge''"
    by (simp add: lacks_slash_def route_tables split: option.split)
  moreover have "cleanPath ''/aap/challenge'' = ''/aap/challenge''" by (simp add: cleanPath_def rooted_def)
  moreover have "map_of (router_register d now) ''/aap/challenge'' = None"
    by (simp add: route_tables split: option.split)
  moreover have "longest_subtree ''/aap/challenge'' (router_register d now) = None"
    by (simp add: route_tables subtree_pattern_def starts_with_def split: option.split)
  ultimately show ?thesis
    unfolding Router_serve_def using assms by (subst mux_clean) (simp_all add: mux_match_def)
qed

section \<open>The client in front of the routes\<close>

text \<open>
  A network that delivers to the routes, and reads an address of the gateway with a plain path as
  that path.
\<close>

definition routed :: "(redirection \<Rightarrow> nat) \<Rightarrow> 'w router_deps \<Rightarrow> time \<Rightarrow> cli_client \<Rightarrow> 'w network \<Rightarrow> bool" where
  "routed moved d now c nw \<longleftrightarrow>
     (\<forall>rq w. nw_send nw rq w = apfst Inr (Router_serve moved d now rq w))
   \<and> (\<forall>p. set p \<subseteq> insert (CHR ''/'') plain_chars \<longrightarrow>
        nw_target nw (trim_slashes (cl_Gateway (cc_cfg c)) @ p) = Inr p)
   \<and> moved TrailingSlash \<in> {301, 307}"

lemma do_requests_answer:
  assumes "nw_send nw rq w = (Inr resp, w')" "wr_Location resp = None" "0 < n"
  shows "do_requests n nw rq w = (Inr resp, w')"
  using assms by (cases n) simp_all

lemma routed_agent:
  assumes "routed moved d now c nw" "rd_api d = Some h"
    and "\<forall>e \<in> set es. plain_name e" "es \<noteq> []" "es \<noteq> [''register'']"
  shows "doJSON nw c meth (agent_path es) body dec zero w =
    (case AgentByPath h now meth (agent_path es)
            (wire_bodies (case body of None \<Rightarrow> NoBody | Some v \<Rightarrow> Spelled v)) w of
       (rep, w') \<Rightarrow>
         (if api_status rep = 200 \<or> api_status rep = 204
          then (case wr_Body (write_reply (rd_text d) rep) of
                  NoBody \<Rightarrow> Inr zero
                | Plain s \<Rightarrow> if s = [] then Inr zero else Inl (ClientError (Errorf ''decode %s: %w'' []))
                | Spelled v \<Rightarrow> (case dec v of None \<Rightarrow> Inl (ClientError (Errorf ''decode %s: %w'' []))
                                | Some r \<Rightarrow> Inr r))
          else Inl (GatewayError (api_status rep)), w'))"
proof -
  have "set (agent_path es) \<subseteq> insert (CHR ''/'') plain_chars"
    using agent_path_chars [OF assms(3)] .
  with assms(1) have t: "nw_target nw (trim_slashes (cl_Gateway (cc_cfg c)) @ agent_path es) = Inr (agent_path es)"
    by (simp add: routed_def)
  let ?rq = "\<lparr> wq_Method = meth, wq_Path = agent_path es, wq_Header = cli_headers (cc_cfg c) (body \<noteq> None),
     wq_Body = (case body of None \<Rightarrow> NoBody | Some v \<Rightarrow> Spelled v) \<rparr>"
  obtain rep w' where r: "AgentByPath h now meth (agent_path es)
      (wire_bodies (case body of None \<Rightarrow> NoBody | Some v \<Rightarrow> Spelled v)) w = (rep, w')" by fastforce
  with router_agent [OF assms(2-5), of ?rq moved now w] assms(1)
  have "nw_send nw ?rq w = (Inr (write_reply (rd_text d) rep), w')" by (simp add: routed_def)
  then have sent: "http_Do nw ?rq w = (Inr (write_reply (rd_text d) rep), w')"
    unfolding http_Do_def by (rule do_requests_answer) simp_all
  show ?thesis
    by (simp only: doJSON_def t sum.case sent r prod.case wr_Status_write_reply)
      (simp split: wire_body.split option.split)
qed

lemma register_redirected:
  assumes "routed moved d now c nw" "rd_api d = Some h"
  shows "doJSON nw c ''POST'' ''/api/v2/agents'' body dec zero w = (Inl (GatewayError 400), w)"
proof -
  have "set ''/api/v2/agents'' \<subseteq> insert (CHR ''/'') plain_chars" by (simp add: plain_chars_def)
  with assms(1) have t: "nw_target nw (trim_slashes (cl_Gateway (cc_cfg c)) @ ''/api/v2/agents'') = Inr ''/api/v2/agents''"
    by (simp only: routed_def)
  let ?rq = "\<lparr> wq_Method = ''POST'', wq_Path = ''/api/v2/agents'', wq_Header = cli_headers (cc_cfg c) (body \<noteq> None),
     wq_Body = (case body of None \<Rightarrow> NoBody | Some v \<Rightarrow> Spelled v) \<rparr>"
  let ?st = "moved TrailingSlash"
  have send: "nw_send nw rq w = apfst Inr (Router_serve moved d now rq w)" for rq
    using assms(1) by (simp add: routed_def)
  have first: "nw_send nw ?rq w = (Inr (redirect_to ?st ''/api/v2/agents/''), w)"
    unfolding send by (subst router_collection(1) [OF assms(2)]) simp_all
  have "wq_Path (redirected ?st ''/api/v2/agents/'' ?rq) = ''/api/v2/agents/''"
    by (simp add: redirected_def)
  then have second: "nw_send nw (redirected ?st ''/api/v2/agents/'' ?rq) w = (Inr (answer_with 400 (Plain ''missing uuid'')), w)"
    unfolding send by (subst router_collection(2) [OF assms(2)]) simp_all
  have st: "?st \<in> {301, 302, 303, 307, 308}" using assms(1) unfolding routed_def by blast
  have ten: "(10 :: nat) = Suc 9" by simp
  have "http_Do nw ?rq w = do_requests 9 nw (redirected ?st ''/api/v2/agents/'' ?rq) w"
    unfolding http_Do_def ten do_requests.simps first using st by (simp add: redirect_to_def)
  also have "\<dots> = (Inr (answer_with 400 (Plain ''missing uuid'')), w)"
    using second by (rule do_requests_answer) (simp_all add: answer_with_def)
  finally have sent: "http_Do nw ?rq w = (Inr (answer_with 400 (Plain ''missing uuid'')), w)" .
  show ?thesis
    by (simp only: doJSON_def t sum.case sent prod.case) (simp add: answer_with_def)
qed

lemma agent_paths:
  "agent_path [u] = ''/api/v2/agents/'' @ u" "agent_path [u, op] = ''/api/v2/agents/'' @ u @ ''/'' @ op"
  by (simp_all add: agent_path_eq)

lemma path_parts_agent: "CHR ''/'' \<notin> set u \<Longrightarrow> path_parts (''/api/v2/agents/'' @ u) = [u]"
  "CHR ''/'' \<notin> set u \<Longrightarrow> CHR ''/'' \<notin> set op \<Longrightarrow> path_parts (''/api/v2/agents/'' @ u @ ''/'' @ op) = [u, op]"
  by (simp_all add: path_parts_def trim_prefix_def starts_with_def split_at_append split_at_free)

lemma routed_sub:
  assumes "routed moved d now c nw" "rd_api d = Some h" "plain_name u" "plain_name op"
  shows "doJSON nw c meth (''/api/v2/agents/'' @ u @ ''/'' @ op) body dec zero w =
    (case AgentByPath h now meth (''/api/v2/agents/'' @ u @ ''/'' @ op)
            (wire_bodies (case body of None \<Rightarrow> NoBody | Some v \<Rightarrow> Spelled v)) w of
       (rep, w') \<Rightarrow>
         (if api_status rep = 200 \<or> api_status rep = 204
          then (case wr_Body (write_reply (rd_text d) rep) of
                  NoBody \<Rightarrow> Inr zero
                | Plain s \<Rightarrow> if s = [] then Inr zero else Inl (ClientError (Errorf ''decode %s: %w'' []))
                | Spelled v \<Rightarrow> (case dec v of None \<Rightarrow> Inl (ClientError (Errorf ''decode %s: %w'' []))
                                | Some r \<Rightarrow> Inr r))
          else Inl (GatewayError (api_status rep)), w'))"
proof -
  have "\<forall>e \<in> set [u, op]. plain_name e" "[u, op] \<noteq> []" "[u, op] \<noteq> [''register'']"
    using assms(3,4) by simp_all
  from routed_agent [OF assms(1,2) this] show ?thesis unfolding agent_paths .
qed

text \<open>A refusal reaches the client as its status.\<close>

lemma routed_refused:
  assumes "routed moved d now c nw" "rd_api d = Some h" "plain_name u" "plain_name op"
    and "AgentByPath h now meth (''/api/v2/agents/'' @ u @ ''/'' @ op)
            (wire_bodies (case body of None \<Rightarrow> NoBody | Some v \<Rightarrow> Spelled v)) w = (rep, w')"
    and "400 \<le> api_status rep"
  shows "doJSON nw c meth (''/api/v2/agents/'' @ u @ ''/'' @ op) body dec zero w = (Inl (GatewayError (api_status rep)), w')"
  unfolding routed_sub [OF assms(1-4)] assms(5) prod.case using assms(6) by simp

lemma refused_unknown:
  assumes "routed moved d now c nw" "rd_api d = Some h" "plain_name u" "plain_name op"
    and "op \<notin> {''upgrade'', ''check'', ''ban'', ''unban'', ''revoke''}"
  shows "doJSON nw c meth (''/api/v2/agents/'' @ u @ ''/'' @ op) body dec zero w = (Inl (GatewayError 404), w)"
proof -
  have "path_parts (''/api/v2/agents/'' @ u @ ''/'' @ op) = [u, op]"
    using assms(3,4) by (simp add: path_parts_agent plain_no_slash del: append.simps)
  then have "AgentByPath h now meth (''/api/v2/agents/'' @ u @ ''/'' @ op) bd w = (ApiText 404 ''not found'', w)" for bd
    using assms(3,5) by (simp add: AgentByPath_def plain_name_def del: append.simps)
  from routed_refused [OF assms(1-4) this] show ?thesis by simp
qed

lemma batch_unknown:
  assumes "routed moved d now c nw" "rd_api d = Some h"
  shows "doJSON nw c ''POST'' ''/api/v2/agents/batch'' body dec zero w = (Inl (GatewayError 404), w)"
proof -
  have es: "\<forall>e \<in> set [''batch'']. plain_name e" "[''batch''] \<noteq> []" "[''batch''] \<noteq> [''register'']"
    by (simp_all add: plain_name_def plain_chars_def)
  have p: "agent_path [''batch''] = ''/api/v2/agents/batch''" by (simp add: agent_path_eq)
  have "AgentByPath h now ''POST'' ''/api/v2/agents/batch'' bd w = (ApiText 404 ''not found'', w)" for bd
    by (simp add: AgentByPath_def path_parts_def trim_prefix_def starts_with_def)
  with routed_agent [OF assms es, of "''POST''" body dec zero w] show ?thesis unfolding p by simp
qed

section \<open>What the client achieves\<close>

lemma decode_level_ignored:
  "decode_upgrade (Spelled (JObj [(''level'', JWord l), (''reason'', JStr rs)]))
     = Some \<lparr> aub_NewLevel = 0, aub_Reason = rs, aub_Actor = [] \<rparr>"
  by (simp add: decode_upgrade_def body_fields_def json_fields_def string_field_def uint_field_def json_field_def)

lemma upgrade_to_zero:
  assumes "api_contract st ids perms h" "Api_upgrade h now u (Some \<lparr> aub_NewLevel = 0, aub_Reason = rs, aub_Actor = a \<rparr>) w = (rep, w')"
  shows "400 \<le> api_status rep \<and> ids w' = ids w \<and> perms w' = perms w"
proof (cases "ap_UpgradeSvc h")
  case (Some sv)
  with assms(1) have c: "workflow_contract st ids perms sv" by (simp add: api_contract_def)
  let ?q = "\<lparr> uar_UUID = u, uar_NewLevel = 0, uar_Reason = rs, uar_Actor = a, uar_Now = now \<rparr>"
  obtain resp err w1 where h: "HandleUpgrade sv now (Some ?q) w = (resp, err, w1)" by (metis prod_cases3)
  from workflow_contract.upgrade_effect [OF c h] have "ids w1 = ids w \<and> perms w1 = perms w \<and> err \<noteq> None"
    by (auto simp: workflow_contract.same_def [OF c])
  with assms(2) Some h writeServiceError_status show ?thesis
    by (auto simp: Api_upgrade_def answer_reply_def)
qed (use assms(2) in \<open>auto simp: Api_upgrade_def\<close>)

lemma op_names:
  "plain_name ''upgrade''" "plain_name ''ban''" "plain_name ''unban''" "plain_name ''unregister''" "plain_name ''logs''"
  by (simp_all add: plain_name_def plain_chars_def)

lemma op_parts:
  assumes "plain_name u" "plain_name op"
  shows "path_parts (''/api/v2/agents/'' @ u @ ''/'' @ op) = [u, op]"
  using assms by (simp add: path_parts_agent plain_no_slash del: append.simps)

lemma client_upgrade_refused:
  assumes "routed moved d now c nw" "rd_api d = Some h" "api_contract st ids perms h"
    and "\<not> in_local_mode c" "plain_name u"
  shows "\<exists>n w'. Client_UpdateAgentLevel nw e u l rs c w = Return (Inl (GatewayError n), c, w')
         \<and> 400 \<le> n \<and> ids w' = ids w \<and> perms w' = perms w"
proof -
  let ?path = "''/api/v2/agents/'' @ u @ ''/'' @ ''upgrade''"
  let ?json = "JObj [(''level'', JWord l), (''reason'', JStr rs)]"
  let ?b = "\<lparr> aub_NewLevel = 0, aub_Reason = rs, aub_Actor = [] \<rparr>"
  obtain rep w' where a: "Api_upgrade h now u (Some ?b) w = (rep, w')" by fastforce
  have "AgentByPath h now ''POST'' ?path (wire_bodies (Spelled ?json)) w = (rep, w')"
    unfolding AgentByPath_def op_parts [OF assms(5) op_names(1)] using a assms(5)
    by (simp add: wire_bodies_def decode_level_ignored plain_name_def)
  with upgrade_to_zero [OF assms(3) a] have "doJSON nw c ''POST'' ?path (Some ?json) any_map () w
      = (Inl (GatewayError (api_status rep)), w')"
    using routed_refused [OF assms(1,2,5) op_names(1), of "''POST''" "Some ?json" w rep w']
    by (metis option.simps(5))
  with upgrade_to_zero [OF assms(3) a] assms(4) show ?thesis
    by (auto simp: Client_UpdateAgentLevel_def remotely_def)
qed

lemma client_unban_refused:
  assumes "routed moved d now c nw" "rd_api d = Some h" "\<not> in_local_mode c" "plain_name u"
  shows "\<exists>n. Client_UnbanAgent nw e u c w = Return (Inl (GatewayError n), c, w) \<and> 400 \<le> n"
proof -
  let ?path = "''/api/v2/agents/'' @ u @ ''/'' @ ''unban''"
  obtain rep w' where a: "Api_unban h now u None w = (rep, w')" by fastforce
  have "AgentByPath h now ''POST'' ?path (wire_bodies NoBody) w = (rep, w')"
    unfolding AgentByPath_def op_parts [OF assms(4) op_names(3)] using a assms(4)
    by (simp add: wire_bodies_def decode_ban_def body_fields_def plain_name_def)
  with Api_unban_fails [OF a] have "doJSON nw c ''POST'' ?path None any_map () w
      = (Inl (GatewayError (api_status rep)), w)"
    using routed_refused [OF assms(1,2,4) op_names(3), of "''POST''" None w rep w'] by (metis option.simps(4))
  with Api_unban_fails [OF a] assms(3) show ?thesis
    by (auto simp: Client_UnbanAgent_def remotely_def)
qed

text \<open>A ban is spelled as the gateway reads it, and its answer is an object.\<close>

lemma decode_ban_reason:
  "decode_ban (Spelled (JObj [(''reason'', JStr rs)])) = Some \<lparr> abb_Reason = rs, abb_Actor = [] \<rparr>"
  by (simp add: decode_ban_def body_fields_def json_fields_def string_field_def json_field_def)

lemma Api_ban_replies:
  assumes "Api_ban h now u body w = (rep, w')"
  shows "(\<exists>r. rep = ApiJSON 200 (BanBody r)) \<or> 400 \<le> api_status rep"
  using assms writeServiceError_status
  by (auto simp: Api_ban_def answer_reply_def split: option.splits prod.splits)

lemma client_ban_passes:
  assumes "routed moved d now c nw" "rd_api d = Some h" "\<not> in_local_mode c" "plain_name u"
    and "Api_ban h now u (Some \<lparr> abb_Reason = rs, abb_Actor = [] \<rparr>) w = (rep, w')"
  shows "Client_BanAgent nw e u rs c w
    = Return (if api_status rep = 200 then Inr () else Inl (GatewayError (api_status rep)), c, w')"
proof -
  let ?path = "''/api/v2/agents/'' @ u @ ''/'' @ ''ban''"
  let ?json = "JObj [(''reason'', JStr rs)]"
  have "AgentByPath h now ''POST'' ?path (wire_bodies (Spelled ?json)) w = (rep, w')"
    unfolding AgentByPath_def op_parts [OF assms(4) op_names(2)] using assms(4,5)
    by (simp add: wire_bodies_def decode_ban_reason plain_name_def)
  then have "doJSON nw c ''POST'' ?path (Some ?json) any_map () w
      = (if api_status rep = 200 then Inr () else Inl (GatewayError (api_status rep)), w')"
    using routed_sub [OF assms(1,2,4) op_names(2), of "''POST''" "Some ?json" any_map "()" w]
      Api_ban_replies [OF assms(5)]
    by (auto simp: any_map_def json_fields_def answer_with_def)
  with assms(3) show ?thesis by (simp add: Client_BanAgent_def remotely_def)
qed

text \<open>C36: In front of the gateway of this program the client of the command line can ban an agent and
  write nothing else. Whatever the storage, a registration goes to a path that is redirected and refused with 400, an upgrade sends
  its level under a name that the gateway does not read and is refused, lifting a ban sends no body and
  is refused, and taking an agent off, its log and a batch have no route. None of them changes an agent.
  A ban does what the endpoint does with the reason and an empty actor, and its status decides the result.\<close>

theorem cli_remote_writes_fail:
  assumes "routed moved d now c nw" "rd_api d = Some h" "api_contract st ids perms h"
    and "\<not> in_local_mode c" "plain_name u"
  shows "Client_RegisterAgent nw e rq c w = Return (Inl (GatewayError 400), c, w)
    \<and> (\<exists>n w'. Client_UpdateAgentLevel nw e u l rs c w = Return (Inl (GatewayError n), c, w')
         \<and> 400 \<le> n \<and> ids w' = ids w \<and> perms w' = perms w)
    \<and> (\<exists>n. Client_UnbanAgent nw e u c w = Return (Inl (GatewayError n), c, w) \<and> 400 \<le> n)
    \<and> Client_UnregisterAgent nw e u c w = Return (Inl (GatewayError 404), c, w)
    \<and> Client_GetChangeLogs nw e u c w = Return (Inl (GatewayError 404), c, w)
    \<and> Client_BatchGetAgentInfo nw us c w = Return (Inl (GatewayError 404), c, w)
    \<and> Client_BanAgent nw e u rs c w =
        (case Api_ban h now u (Some \<lparr> abb_Reason = rs, abb_Actor = [] \<rparr>) w of
           (rep, w') \<Rightarrow> Return (if api_status rep = 200 then Inr () else Inl (GatewayError (api_status rep)), c, w'))"
proof (intro conjI)
  note r = assms(1,2)
  have gone: "doJSON nw c m (''/api/v2/agents/'' @ u @ ''/unregister'') None dec z w = (Inl (GatewayError 404), w)"
    and logs: "doJSON nw c m (''/api/v2/agents/'' @ u @ ''/logs'') None dec' z' w = (Inl (GatewayError 404), w)"
    for m and dec :: "json \<Rightarrow> 'x option" and z and dec' :: "json \<Rightarrow> 'y option" and z'
    using refused_unknown [OF r assms(5) op_names(4)] refused_unknown [OF r assms(5) op_names(5)] by simp_all
  show "Client_RegisterAgent nw e rq c w = Return (Inl (GatewayError 400), c, w)"
    using assms(4) by (simp add: Client_RegisterAgent_def register_redirected [OF r] remotely_def)
  show "Client_UnregisterAgent nw e u c w = Return (Inl (GatewayError 404), c, w)"
    using assms(4) unfolding Client_UnregisterAgent_def gone remotely_def by simp
  show "Client_GetChangeLogs nw e u c w = Return (Inl (GatewayError 404), c, w)"
    using assms(4) unfolding Client_GetChangeLogs_def logs remotely_def by simp
  show "Client_BatchGetAgentInfo nw us c w = Return (Inl (GatewayError 404), c, w)"
    using assms(4) unfolding Client_BatchGetAgentInfo_def batch_unknown [OF r] remotely_def by simp
  show "Client_BanAgent nw e u rs c w =
      (case Api_ban h now u (Some \<lparr> abb_Reason = rs, abb_Actor = [] \<rparr>) w of
         (rep, w') \<Rightarrow> Return (if api_status rep = 200 then Inr () else Inl (GatewayError (api_status rep)), c, w'))"
    using client_ban_passes [OF r assms(4,5)] by (simp split: prod.split)
qed (rule client_upgrade_refused [OF assms] client_unban_refused [OF assms(1,2,4,5)])+

lemma folded_names:
  "fold_case ''UUID'' = ''uuid''"
  "fold_case ''Owner'' = ''owner''"
  "fold_case ''Level'' = ''level''"
  "fold_case ''State'' = ''state''"
  "fold_case ''Permissions'' = ''permissions''"
  "fold_case ''PublicKey'' = ''publickey''"
  "fold_case ''TxHash'' = ''txhash''"
  "fold_case ''RegisteredAt'' = ''registeredat''"
  "fold_case ''UpdatedAt'' = ''updatedat''"
  "fold_case ''ChainState'' = ''chainstate''"
  "fold_case ''uuid'' = ''uuid''"
  "fold_case ''owner'' = ''owner''"
  "fold_case ''level'' = ''level''"
  "fold_case ''state'' = ''state''"
  "fold_case ''permission'' = ''permission''"
  "fold_case ''public_key'' = ''public_key''"
  "fold_case ''tx_hash'' = ''tx_hash''"
  "fold_case ''registered_at'' = ''registered_at''"
  "fold_case ''updated_at'' = ''updated_at''"
  by (simp_all add: char_of_def bit_0)

lemma info_read:
  "info_of (info_json i) = Some (zero_info \<lparr> cin_UUID := sai_UUID i, cin_Owner := sai_Owner i,
     cin_Level := sai_Level i, cin_State := sai_State i \<rparr>)"
proof -
  have lv: "0 \<le> uint (sai_Level i)" "uint (sai_Level i) < 256" using uint_lt2p [of "sai_Level i"] by simp_all
  show ?thesis
    using lv by (simp add: info_of_def info_json_def json_fields_def string_field_def uint_field_def
        time_field_def json_field_def JWord_def zero_info_def folded_names del: fold_case.simps)
qed

text \<open>C37: Reading an agent over HTTP loses most of it: the gateway writes its fields under the names of a Go
  struct, and the client reads other names, so that permission, key, transaction and times come
  back as zero; only the id, the owner, the level and the state arrive.\<close>

theorem cli_remote_info_spec:
  assumes "routed moved d now c nw" "rd_api d = Some h" "\<not> in_local_mode c"
    and "plain_name u" "u \<noteq> ''register''" "Api_getInfo h u w = ApiJSON 200 (InfoBody i)"
  shows "Client_GetAgentInfo nw u c w = Return (Inr (zero_info \<lparr> cin_UUID := sai_UUID i,
    cin_Owner := sai_Owner i, cin_Level := sai_Level i, cin_State := sai_State i \<rparr>), c, w)"
proof -
  have es: "\<forall>e \<in> set [u]. plain_name e" "[u] \<noteq> []" "[u] \<noteq> [''register'']" using assms(4,5) by simp_all
  have u: "u \<noteq> []" "CHR ''/'' \<notin> set u" using assms(4) by (simp add: plain_name_def, simp add: plain_no_slash)
  have "AgentByPath h now ''GET'' (''/api/v2/agents/'' @ u) (wire_bodies NoBody) w = (ApiJSON 200 (InfoBody i), w)"
    unfolding AgentByPath_def path_parts_agent(1) [OF u(2)] using u(1) assms(6) by simp
  with routed_agent [OF assms(1,2) es, of "''GET''" None info_of zero_info w]
  have "doJSON nw c ''GET'' (''/api/v2/agents/'' @ u) None info_of zero_info w =
      (Inr (zero_info \<lparr> cin_UUID := sai_UUID i, cin_Owner := sai_Owner i, cin_Level := sai_Level i,
         cin_State := sai_State i \<rparr>), w)"
    unfolding agent_paths by (simp add: info_read answer_with_def)
  with assms(3) show ?thesis by (simp add: Client_GetAgentInfo_def remotely_def)
qed

text \<open>C38: The handshake of the client cannot succeed in front of this gateway, which has no route for it, and
  what the client would sign is never what the verifier of the gateway checks.\<close>

theorem cli_handshake_fails:
  assumes "routed moved d now c nw"
    and "loadEd25519PrivateKey kl dk (ho_PrivateKey opts) (ho_PrivateKeyPath opts) = Inr priv"
  shows "(\<exists>e. AAPHandshake ed kl dk nw t opts c w = (Inl e, c, w) \<and> errors_is e ErrAAPChallengeFailed)
    \<and> cli_payload ch \<noteq> responsePayload (crs_ChallengeID ch) (crs_Nonce ch) (crs_IssuedAt ch) u"
proof -
  have "set ''/aap/challenge'' \<subseteq> insert (CHR ''/'') plain_chars" by (simp add: plain_chars_def)
  with assms(1) have t: "nw_target nw (trim_slashes (cl_Gateway (cc_cfg c)) @ ''/aap/challenge'') = Inr ''/aap/challenge''"
    by (simp only: routed_def)
  let ?rq = "\<lparr> wq_Method = ''POST'', wq_Path = ''/aap/challenge'', wq_Header = cli_headers (cc_cfg c) True,
     wq_Body = Spelled (JObj []) \<rparr>"
  have "Router_serve moved d now ?rq w = (NotFound, w)" by (rule router_no_handshake) simp
  with assms(1) have "nw_send nw ?rq w = (Inr NotFound, w)" by (simp add: routed_def)
  then have sent: "http_Do nw ?rq w = (Inr NotFound, w)"
    unfolding http_Do_def by (rule do_requests_answer) (simp_all add: NotFound_def answer_with_def)
  have "doChallenge nw c w = (Inl (Errorf ''%w: status=%d body=%s'' [ErrAAPChallengeFailed]), w)"
    by (simp only: doChallenge_def aap_post_def t sum.case sent prod.case) (simp add: NotFound_def answer_with_def)
  with assms(2) show ?thesis by (simp add: AAPHandshake_def cli_payload_def responsePayload_def)
qed

section \<open>Local mode\<close>

definition fresh_backend :: "cli_local \<Rightarrow> bool" where
  "fresh_backend be \<longleftrightarrow>
     (case be of
        CliLocal b s \<Rightarrow> lb_pers b = memory_ops \<and> s = NewMemoryPersistence
      | CliOnchain b m \<Rightarrow> ob_adapter b = mock_ops \<and> m = NewMockAdapter
      | CliMock b m s \<Rightarrow> ob_adapter (hb_chain b) = mock_ops \<and> lb_pers (hb_local b) = memory_ops
          \<and> m = NewMockAdapter \<and> s = NewMemoryPersistence)"

lemma built_fresh:
  assumes "buildLocalBackend t = Inr be"
  shows "fresh_backend be \<and> to_lower t \<in> {''local'', ''mock'', ''onchain''}"
  using assms
  by (auto simp: buildLocalBackend_def Let_def backend_config_def factory_defs type_names fresh_backend_def
      NewLocalBackend_def NewOnchainBackend_def NewHybridBackend_def split: if_splits)

lemmas fresh_defs = fresh_backend_def memory_ops_def Memory_GetAgent_def NewMemoryPersistence_def mock_ops_def
  NewMockAdapter_def preflight_def on_chain_def on_local_def

lemma fresh_unknown:
  assumes "fresh_backend be"
  shows "\<exists>e be'. be_GetAgentInfo u be = (Inl e, be')" "\<exists>e be'. be_UpdateAgentLevel ev u l rs be = (Some e, be')"
    "\<exists>e be'. be_BanAgent ev u rs be = (Some e, be')" "\<exists>e be'. be_UnbanAgent ev u be = (Some e, be')"
    "\<exists>e be'. be_UnregisterAgent ev u be = (Some e, be')"
proof -
  show "\<exists>e be'. be_GetAgentInfo u be = (Inl e, be')"
    using assms by (cases be) (auto simp: fresh_defs Local_GetAgentInfo_def Onchain_GetAgentInfo_def
      Hybrid_GetAgentInfo_def Mock_GetAgentState_def)
  show "\<exists>e be'. be_UpdateAgentLevel ev u l rs be = (Some e, be')"
    using assms by (cases be) (auto simp: fresh_defs Local_UpdateAgentLevel_def Onchain_UpdateAgentLevel_def
      Hybrid_UpdateAgentLevel_def Mock_UpdateLevel_def)
  show "\<exists>e be'. be_BanAgent ev u rs be = (Some e, be')"
    using assms by (cases be) (auto simp: fresh_defs Local_BanAgent_def Onchain_BanAgent_def
      Hybrid_BanAgent_def Mock_BanAgent_def)
  show "\<exists>e be'. be_UnbanAgent ev u be = (Some e, be')"
    using assms by (cases be) (auto simp: fresh_defs Local_UnbanAgent_def Onchain_UnbanAgent_def
      Hybrid_UnbanAgent_def Mock_UnbanAgent_def)
  show "\<exists>e be'. be_UnregisterAgent ev u be = (Some e, be')"
    using assms by (cases be) (auto simp: fresh_defs Local_UnregisterAgent_def Onchain_UnregisterAgent_def
      Hybrid_UnregisterAgent_def Mock_RevokeAgent_def)
qed

text \<open>C39: In local mode a process of the command line knows no agent, whichever backend is configured, since
  each builds its own empty backend: before a registration in the same process every query, upgrade,
  ban, unban and removal fails. A client with the hybrid backend cannot be built at all.\<close>

theorem cli_local_forgets:
  assumes "NewClient cfg = Inr c" "in_local_mode c"
  shows "to_lower (cl_Backend (cc_cfg c)) \<in> {''local'', ''mock'', ''onchain''}
    \<and> (\<exists>e c'. Client_GetAgentInfo nw u c w = Return (Inl e, c', w))
    \<and> (\<exists>e c'. Client_UpdateAgentLevel nw ev u l rs c w = Return (Inl e, c', w))
    \<and> (\<exists>e c'. Client_BanAgent nw ev u rs c w = Return (Inl e, c', w))
    \<and> (\<exists>e c'. Client_UnbanAgent nw ev u c w = Return (Inl e, c', w))
    \<and> (\<exists>e c'. Client_UnregisterAgent nw ev u c w = Return (Inl e, c', w))"
proof -
  from assms obtain be where be: "buildLocalBackend (cl_Backend (cc_cfg c)) = Inr be" "cc_local c = Some be"
    by (auto simp: NewClient_def Let_def in_local_mode_def split: if_splits sum.splits)
  from built_fresh [OF be(1)] have f: "fresh_backend be" and t: "to_lower (cl_Backend (cc_cfg c)) \<in> {''local'', ''mock'', ''onchain''}"
    by blast+
  note unknown = fresh_unknown [OF f]
  show ?thesis
  proof (intro conjI)
    show "\<exists>e c'. Client_GetAgentInfo nw u c w = Return (Inl e, c', w)"
      using unknown(1) [of u] be(2) assms(2) by (auto simp: Client_GetAgentInfo_def getInfoLocal_def on_backend_def)
    show "\<exists>e c'. Client_UpdateAgentLevel nw ev u l rs c w = Return (Inl e, c', w)"
      using unknown(2) [of ev u l rs] be(2) assms(2)
      by (auto simp: Client_UpdateAgentLevel_def on_backend_def unit_result_def)
    show "\<exists>e c'. Client_BanAgent nw ev u rs c w = Return (Inl e, c', w)"
      using unknown(3) [of ev u rs] be(2) assms(2) by (auto simp: Client_BanAgent_def on_backend_def unit_result_def)
    show "\<exists>e c'. Client_UnbanAgent nw ev u c w = Return (Inl e, c', w)"
      using unknown(4) [of ev u] be(2) assms(2) by (auto simp: Client_UnbanAgent_def on_backend_def unit_result_def)
    show "\<exists>e c'. Client_UnregisterAgent nw ev u c w = Return (Inl e, c', w)"
      using unknown(5) [of ev u] be(2) assms(2) by (auto simp: Client_UnregisterAgent_def on_backend_def unit_result_def)
  qed (rule t)
qed

section \<open>A client and a gateway\<close>

definition sample_client :: cli_client where
  "sample_client = \<lparr> cc_cfg = Cli_DefaultConfig \<lparr> cl_Mode := ModeRemote \<rparr>, cc_local = None, cc_tok = token_clear \<rparr>"

definition sample_network :: "mem_world network" where
  "sample_network = \<lparr> nw_target = (\<lambda>s. Inr (drop (length (cl_Gateway Cli_DefaultConfig)) s)),
     nw_send = (\<lambda>rq w. apfst Inr (Router_serve (\<lambda>_. 307) mem_deps (Time 5) rq w)) \<rparr>"

definition sample_call_env :: call_env where
  "sample_call_env = \<lparr> ev_backend = \<lparr> en_uuid = Inr ''u'', en_now = Time 1 \<rparr>,
     ev_chain = \<lparr> ce_now = Time 1, ce_rand = [] \<rparr> \<rparr>"

lemma sample_routed: "routed (\<lambda>_. 307) mem_deps (Time 5) sample_client sample_network"
proof -
  have "trim_slashes (cl_Gateway (cc_cfg sample_client)) = cl_Gateway Cli_DefaultConfig"
    by (simp add: trim_slashes_def sample_client_def Cli_DefaultConfig_def)
  then show ?thesis by (simp add: routed_def sample_network_def)
qed

lemma sample_remote: "\<not> in_local_mode sample_client"
  by (simp add: sample_client_def in_local_mode_def Cli_DefaultConfig_def ModeLocal_def ModeRemote_def)

lemma mem_api: "rd_api mem_deps = Some mem_handler"
  by (simp add: mem_deps_def)

lemma sample_uuid_plain: "plain_name (rar_UUID mem_request)" "rar_UUID mem_request \<noteq> ''register''"
  by (simp_all add: mem_request_def plain_name_def plain_chars_def)

lemma mem_ban:
  "\<exists>r w'. Api_ban mem_handler (Time 5) (rar_UUID mem_request)
       (Some \<lparr> abb_Reason = ''spam'', abb_Actor = [] \<rparr>) mem_registered = (ApiJSON 200 (BanBody r), w')
     \<and> map_option sr_State (map_of (mw_agents w') (rar_UUID mem_request)) = Some StateBanned"
proof -
  have z: "\<not> UUID_IsZero (rar_UUID mem_request)"
    using mem_request_valid by (auto simp: valid_register_def UUID_Validate_def split: if_splits)
  obtain a where a: "rebuild (registered_record mem_request (Time 5)) = Inr a" using mem_rebuild by blast
  then have "ag_State a = StateRegistered" by (rule rebuild_state)
  then obtain a' where a': "Agent_Ban a ''spam'' (Time 5) = Inr a'" "ag_State a' = StateBanned"
    and st: "ag_State a \<noteq> StateBanned" by (simp add: Agent_Ban_def)
  have n: "or_now (Time 5) (Time 5) = Time 5" by (simp add: or_now_def)
  have u: "sr_UUID (registered_record mem_request (Time 5)) = rar_UUID mem_request"
    by (simp add: registered_record_def)
  have c: "call_chain (mem_workflow False) (\<lambda>ch. cc_BanAgent ch v x) w = (Inr (srec_TxHash e2e_receipt), w)" for v x w
    by (simp add: call_chain_def mem_workflow_def mem_chain_def)
  show ?thesis
    using z a a' st
    by (simp add: Api_ban_def mem_handler_def HandleBan_def mem_get_registered n u c answer_reply_def)
      (simp add: Let_def answer_reply_def audit_def mem_workflow_def mem_audit_def mem_client_def map_of_update)
qed

theorem cli_remote_writes_fail_witness:
  "Client_RegisterAgent sample_network sample_call_env
     \<lparr> crq_Name = [], crq_Owner = ''acme-01'', crq_Level = 1, crq_Permission = 255, crq_PublicKey = ''k'', crq_Metadata = [] \<rparr>
     sample_client mem_registered = Return (Inl (GatewayError 400), sample_client, mem_registered)
   \<and> Client_UnregisterAgent sample_network sample_call_env (rar_UUID mem_request) sample_client mem_registered
     = Return (Inl (GatewayError 404), sample_client, mem_registered)
   \<and> (\<exists>w'. Client_BanAgent sample_network sample_call_env (rar_UUID mem_request) ''spam'' sample_client mem_registered
        = Return (Inr (), sample_client, w')
      \<and> map_option sr_State (map_of (mw_agents w') (rar_UUID mem_request)) = Some StateBanned)"
proof -
  note w = cli_remote_writes_fail [OF sample_routed mem_api mem_handler_contract sample_remote sample_uuid_plain(1),
      of sample_call_env _ mem_registered _ "''spam''"]
  obtain r w' where b: "Api_ban mem_handler (Time 5) (rar_UUID mem_request)
       (Some \<lparr> abb_Reason = ''spam'', abb_Actor = [] \<rparr>) mem_registered = (ApiJSON 200 (BanBody r), w')"
    "map_option sr_State (map_of (mw_agents w') (rar_UUID mem_request)) = Some StateBanned"
    using mem_ban by blast
  from w have "Client_BanAgent sample_network sample_call_env (rar_UUID mem_request) ''spam'' sample_client mem_registered
      = Return (Inr (), sample_client, w')" by (simp add: b(1))
  with b(2) w show ?thesis by blast
qed

lemma mem_get_info:
  "\<exists>i. Api_getInfo mem_handler (rar_UUID mem_request) mem_registered = ApiJSON 200 (InfoBody i)
     \<and> sai_UUID i = rar_UUID mem_request"
proof -
  have z: "\<not> UUID_IsZero (rar_UUID mem_request)"
    using mem_request_valid by (auto simp: valid_register_def UUID_Validate_def split: if_splits)
  have p: "st_GetPermissions mem_client (rar_UUID mem_request) mem_registered = Inr (mem_perms mem_registered (rar_UUID mem_request))"
    by (simp add: mem_client_def mem_perms_def split: option.split)
  have r: "sr_UUID (registered_record mem_request (Time 5)) = rar_UUID mem_request"
    by (simp add: registered_record_def)
  show ?thesis
    using z p by (simp add: Api_getInfo_def mem_handler_def HandleGetInfo_def mem_get_registered r)
qed

theorem cli_remote_info_spec_witness:
  "\<exists>r. Client_GetAgentInfo sample_network (rar_UUID mem_request) sample_client mem_registered
     = Return (Inr r, sample_client, mem_registered) \<and> cin_UUID r = rar_UUID mem_request \<and> cin_PublicKey r = []"
proof -
  obtain i where i: "Api_getInfo mem_handler (rar_UUID mem_request) mem_registered = ApiJSON 200 (InfoBody i)"
    "sai_UUID i = rar_UUID mem_request" using mem_get_info by blast
  from cli_remote_info_spec [OF sample_routed mem_api sample_remote sample_uuid_plain i(1)] i(2)
  show ?thesis by (simp add: zero_info_def)
qed

definition sample_key_options :: handshake_options where
  "sample_key_options = \<lparr> ho_PrivateKey = replicate 64 (CHR ''k''), ho_PrivateKeyPath = [] \<rparr>"

theorem cli_handshake_fails_witness:
  "\<exists>e. AAPHandshake \<lparr> ed_sign = (\<lambda>k m. k), ed_verify = (\<lambda>k m s. True) \<rparr>
       \<lparr> kl_pem = (\<lambda>_. None), kl_pkcs8 = (\<lambda>_. OtherKey), kl_seed = id \<rparr>
       \<lparr> dk_files = [], dk_deny = (\<lambda>_. None), dk_home = [] \<rparr> sample_network (Time 1) sample_key_options
       sample_client mem_registered = (Inl e, sample_client, mem_registered)
     \<and> errors_is e ErrAAPChallengeFailed"
proof -
  have "loadEd25519PrivateKey \<lparr> kl_pem = (\<lambda>_. None), kl_pkcs8 = (\<lambda>_. OtherKey), kl_seed = id \<rparr>
      \<lparr> dk_files = [], dk_deny = (\<lambda>_. None), dk_home = [] \<rparr>
      (ho_PrivateKey sample_key_options) (ho_PrivateKeyPath sample_key_options) = Inr (replicate 64 (CHR ''k''))"
    by (simp add: loadEd25519PrivateKey_def sample_key_options_def starts_with_def)
  from cli_handshake_fails [OF sample_routed this] show ?thesis by blast
qed

theorem cli_local_forgets_witness:
  "\<exists>c e c'. NewClient None = Inr c \<and> Client_GetAgentInfo sample_network ''u'' c mem_registered = Return (Inl e, c', mem_registered)"
proof -
  obtain be where "buildLocalBackend ''mock'' = Inr be"
    by (auto simp: buildLocalBackend_def Let_def backend_config_def factory_defs type_names
        NewLocalBackend_def NewOnchainBackend_def NewHybridBackend_def)
  then obtain c where c: "NewClient None = Inr c" "in_local_mode c"
    by (auto simp: NewClient_def Let_def applyDefaults_def Cli_DefaultConfig_def or_default_def in_local_mode_def)
  from cli_local_forgets [OF c, where nw = sample_network and u = "''u''" and w = mem_registered] c(1) show ?thesis by blast
qed

end
