(* ===== verification/Spec2Isabelle.thy ===== *)
theory Spec2Isabelle
  imports BackendFactory Rbac ServiceRules A2AJwks AapRules GatewayMiddleware RateLimit OutboxDelivery
    MoltRules GatewayApi McpToolRules PromptRules ChainHttpRules SensitiveRules SlidingRules ConfigRules
    SlowQueryRules TxScope CliRules
begin

text \<open>
  AgentID-Chain: identities for software agents, registered on a chain and in a database.

  This library models the Go program under \<open>src/\<close>. Its parts and how they work together:

  \<^item> The domain (\<open>internal/domain\<close>) holds the agent with its level, state, permissions and key, the
    state table, the invariants, and the operations that register and upgrade an agent and emit
    events.
  \<^item> The identity backends (\<open>core/backend\<close>) offer one interface over three ways to keep agents: in a
    local store, on a chain, or on both with a synchronisation. A chain is any
    \<open>BaseChainAdapter\<close>: the in-memory mock or a client over HTTP to a server that runs the mock.
  \<^item> The services (\<open>internal/service\<close>) are the workflows of the gateway over a storage, a chain
    provider and the permission engine (\<open>internal/authz/rbac\<close>).
  \<^item> Admission: the challenge handshake and its proof token (\<open>internal/authz/aap\<close>), the reverse captcha
    (\<open>internal/authz/moltcaptcha\<close>), the tokens that agents show to each other with trust levels, keys
    and revocation (\<open>internal/authz/a2a\<close>), and the limiters. Challenges, revocations and counters
    live in a cache (\<open>internal/cache\<close>).
  \<^item> The gateway (\<open>internal/gateway\<close>) puts middlewares in front of the HTTP endpoints of these parts.
  \<^item> The outbox (\<open>internal/storage\<close>) writes events beside the data, and a poller forwards
    them to a stream with retries.
  \<^item> The tool server (\<open>internal/mcp\<close>) offers a backend to a language model over JSON-RPC, and the prompt
    pipeline (\<open>internal/prompt\<close>) turns a sentence into a command.
  \<^item> The command line client (\<open>internal/cli\<close>) works on a backend of its own process or calls the gateway
    over HTTP.
  \<^item> Around them: the configuration from defaults, a file and the environment (\<open>internal/config\<close>), the
    mask in front of the log (\<open>internal/telemetry\<close>), transactions that nest and a histogram of the
    times of queries (\<open>internal/storage\<close>).
\<close>

section \<open>Reading guide\<close>

text \<open>
  Conventions, set up in \<open>AgentPrelude\<close>. A Go struct is a record whose fields carry a short prefix, an
  enumeration of strings is a set of string constants with distinctness lemmas, \<open>uint8\<close>, \<open>uint64\<close> and
  \<open>uint\<close> are words, lengths and counters that cannot overflow are \<open>nat\<close> or \<open>int\<close>, and times are
  nanoseconds of type \<open>time\<close>, an instance of \<open>linorder\<close>. A string is its list of bytes. A call that may
  fail returns \<open>go_error + 'a\<close>; \<open>go_error\<close> keeps what \<open>errors.Is\<close> and \<open>errors.As\<close> look at. A method that
  changes its receiver takes and returns it. Random bytes, clock readings and generated
  identifiers are read from an environment argument of the call. A panic is a value of its own
  where the program can reach one. Definitions have the names of the functions they translate.

  What is not under \<open>src/\<close> is a parameter. JSON and YAML are records of encoders and decoders,
  Ed25519 and the hash functions are functions, a database or Redis server answers each call from
  its state or with an error. Laws of such parameters are stated as hypotheses where they are
  used, and the witness of a theorem meets them with concrete functions. The parts of the Go
  standard library that the program's behaviour depends on are modelled: base64, the RFC 3339 time
  format, UTF-8, the line scanner, headers and requests, and the regular expressions in use.
\<close>

subsection \<open>Theories and sources\<close>

text \<open>
  \<^item> \<open>AgentPrelude\<close>: types, error values, string and byte functions, collections of simplification rules.
  \<^item> \<open>DomainAgent\<close>: \<open>domain/agent.go\<close>, \<open>state.go\<close>, \<open>agent_status.go\<close>; \<open>DomainEvents\<close>: \<open>change_log.go\<close>,
    \<open>credential.go\<close>, \<open>events.go\<close>, \<open>outbox.go\<close>; \<open>DomainRules\<close>: \<open>invariants.go\<close>, \<open>register.go\<close>,
    \<open>upgrade.go\<close>. Lemmas: every reachable agent is well-formed, the operations succeed exactly on their
    preconditions, and the checkers report exactly the broken rules.
  \<^item> \<open>Rbac\<close>: \<open>rbac/engine.go\<close>, \<open>levels.go\<close>. A template is a heap cell, since loader and engines share it.
    Lemmas: the operations of the engine agree with the bits of a mask; what a reload changes.
  \<^item> \<open>ChainMock\<close>: \<open>chain_adapter/interface.go\<close>, \<open>mock/mock.go\<close>, with the locale \<open>chain_contract\<close> of what a
    ledger promises a backend, interpreted on the mock; \<open>ChainHttp\<close> and \<open>ChainHttpRules\<close>:
    \<open>http/http.go\<close> and \<open>cmd/mock-chain/main.go\<close>, the client against the server.
  \<^item> \<open>Persistence\<close>: \<open>backend/interface.go\<close>, \<open>memory_persistence.go\<close>, with the locale
    \<open>persistence_contract\<close>, interpreted on the in-memory store; \<open>LocalBackend\<close>: \<open>local.go\<close> and its abstract
    specification, a registry of agents with their logs; \<open>ChainBackends\<close>: \<open>onchain.go\<close>, \<open>hybrid.go\<close>, in a
    locale that joins the two contracts; \<open>BackendFactory\<close>: \<open>factory.go\<close>.
  \<^item> \<open>Services\<close> and \<open>ServiceRules\<close>: \<open>internal/service\<close> over \<open>storage/client.go\<close>. The locales \<open>l1_contract\<close> and
    \<open>workflow_contract\<close> say what the workflows rely on; they are interpreted on the in-memory storage
    of \<open>tests/e2e/gateway_e2e_test.go\<close>.
  \<^item> \<open>CacheStore\<close>: \<open>cache/interface.go\<close>, \<open>redis.go\<close>, with the locale \<open>expiring_cache\<close> interpreted on the
    Redis cache over a server with the documented commands.
  \<^item> \<open>A2AToken\<close>, \<open>A2ARevocation\<close>, \<open>A2AHandler\<close>, \<open>A2AJwks\<close>: \<open>a2a/trust.go\<close>, \<open>token.go\<close>, \<open>verify.go\<close>,
    \<open>revocation.go\<close>, \<open>jwks.go\<close> and \<open>gateway/handler/a2a.go\<close>.
  \<^item> \<open>Base64Url\<close>, \<open>Rfc3339\<close>, \<open>HttpModel\<close>, \<open>AapHandshake\<close>, \<open>AapProof\<close>, \<open>AapRules\<close>, \<open>RateLimit\<close>: \<open>aap/challenge.go\<close>,
    \<open>verify.go\<close>, \<open>proof.go\<close>, \<open>middleware.go\<close>, \<open>ratelimit.go\<close> and what they use of the library.
  \<^item> \<open>Utf8\<close>, \<open>MoltCaptcha\<close>, \<open>MoltVerifier\<close>, \<open>MoltRules\<close>: \<open>moltcaptcha/generator.go\<close>, \<open>verifier.go\<close>,
    \<open>semantic.go\<close>.
  \<^item> \<open>GatewayMiddleware\<close>: \<open>gateway/middleware/*.go\<close>; \<open>GatewayApi\<close>: \<open>gateway/handler/api.go\<close>, \<open>health.go\<close>;
    \<open>GatewayRouter\<close>: \<open>gateway/router/router.go\<close> with the patterns of \<open>ServeMux\<close> and the JSON of requests and
    replies (a body is nothing, plain text or a JSON value, and the status of a redirection is a
    parameter, since it depends on the version of Go); \<open>GatewayServer\<close>: \<open>gateway/server.go\<close>, middlewares and
    routes composed.
  \<^item> \<open>CliClient\<close>, \<open>CliRules\<close>: \<open>cli/client.go\<close>, \<open>aap.go\<close> over any network; the rules put the network of
    \<open>GatewayRouter\<close> behind the client, and a fresh backend in local mode.
  \<^item> \<open>OutboxTable\<close>, \<open>Outbox\<close>, \<open>OutboxRules\<close>, \<open>OutboxDelivery\<close>: \<open>storage/outbox_writer.go\<close>,
    \<open>outbox_poller.go\<close>, \<open>outbox_forwarder.go\<close> and the validators of \<open>ent/schema/outbox_event.go\<close>. The locale
    \<open>event_sink\<close> is what the poller needs of a handler, interpreted on the forwarder to the stream.
  \<^item> \<open>McpServer\<close>, \<open>McpRules\<close>, \<open>McpTools\<close>, \<open>McpToolRules\<close>: \<open>mcp/server.go\<close>, \<open>tools.go\<close>. The locale \<open>tool_backend\<close>
    states an invariant that every tool keeps, interpreted on the local backend.
  \<^item> \<open>GoRegexp\<close>, \<open>Prompt\<close>, \<open>PromptRules\<close>: \<open>prompt/classifier.go\<close>, \<open>slots.go\<close>, \<open>generator.go\<close>, \<open>validator.go\<close>.
  \<^item> \<open>SensitiveLog\<close>, \<open>SensitiveRules\<close>: \<open>telemetry/sensitive_handler.go\<close> over any handler behind it and the
    expressions of \<open>GoRegexp\<close>. Lemmas: what flows to that handler, and what the patterns miss.
  \<^item> \<open>Float64\<close>: rounding of 53 bits to the nearest even, with monotonicity and exact integers;
    \<open>SlidingLimit\<close>, \<open>SlidingRules\<close>: \<open>ratelimit/limiter.go\<close>, whose estimate is computed in it.
  \<^item> \<open>ConfigModel\<close>, \<open>ConfigRules\<close>: \<open>config/config.go\<close>, \<open>loader.go\<close>, \<open>validator.go\<close>. The configuration
    library is a record of its operations with the laws \<open>koanf_laws\<close>.
  \<^item> \<open>SlowQuery\<close>, \<open>SlowQueryRules\<close>: \<open>storage/slow_query.go\<close>; an observation is a sequence of atomic steps
    \<open>obs_step\<close>, which \<open>together\<close> interleaves
    (\<open>Subsequences\<close> holds the lemmas on order that histories share). \<open>TxScope\<close>: \<open>storage/tx.go\<close> over any runner with the locale
    \<open>tx_contract\<close>, whose commits may fail, interpreted on a runner that works on a copy of the data;
    programs of nested transactions are compared with the same programs without the inner ones.
\<close>

subsection \<open>Abstract specifications\<close>

text \<open>
  The registry of \<open>LocalBackend\<close> is a map of agents with a log for each; every mutating call of the
  local backend is one of its steps. A ledger is a map of entries that never disappear and are final
  once revoked; the hybrid backend keeps the local store equal to that map in all the ledger
  knows. An outbox row goes from pending to published or dead, and to published only with its
  entry in the stream. A challenge is a value that can be taken once. A token endpoint is a set of
  revoked ids that grows until their lifetimes end.
\<close>

subsection \<open>Bounds and fuel\<close>

text \<open>
  Loops over data are structural recursions or have a measure. The main loop of the tool server is a
  \<open>partial_function\<close>: it gives \<open>None\<close> when it does not end, and \<open>mcp_serve_termination\<close> says when it
  ends, and when by returning and not in a panic, over an input that is written and closed, so that
  no read waits. The poller runs over a list of ticks, at the end of which its context ends;
  \<open>outbox_settles\<close> says how many are enough: rows times attempts. The matcher of regular expressions
  recurses over the expression and the text. The mantissa of a float64 has 53 bits; the theorems
  on estimates and percentiles bound their counts by it. An HTTP client follows ten
  redirections, its own limit; no definition has a fuel that can run out.
\<close>

subsection \<open>Not modelled\<close>

text \<open>
  Goroutines run as sequences of steps: a method under a mutex is one step, and where two
  processes interleave (two pollers, two answers to one challenge) the steps are explicit. Logging,
  metrics and tracing are left out, with the life cycle of servers and connections. The generated
  client of \<open>src/ent\<close> is modelled for the outbox table only, the rest of it is SQL building by a
  library. Also left out: the connection pools of \<open>internal/storage\<close>, the typed conversions of
  \<open>config/env_override.go\<close>, the pipeline of the cache, the engineering gates, which run external
  tools, the rest of \<open>internal/telemetry\<close>, and the commands around the client (\<open>cmd/agentid\<close>).
\<close>

end
